(* ===== verification/Prelude.thy ===== *)
theory Prelude
  imports Main "HOL-Library.Word"
begin

text \<open>
  The prelude of the development: the types shared by every component (results with Go errors
  as values, instants, durations, identifiers), the collections of rewrite rules the component
  proofs draw on, and the generic lemmas on lists and results.

  \<^item> A Go \<^verbatim>\<open>string\<close> (and every named string type: identifiers, outcome names, raw JSON text) is
    a \<^typ>\<open>string\<close>; the zero value is the empty string.
  \<^item> A Go \<^verbatim>\<open>time.Time\<close> is an integer number of nanoseconds since Go's zero time; \<open>IsZero\<close> holds
    of the zero value only. A \<^verbatim>\<open>time.Duration\<close> and every \<^verbatim>\<open>int64\<close> whose overflow matters is a
    \<open>64 word\<close> read with \<open>sint\<close>.
  \<^item> A Go pointer or nil interface is an \<open>option\<close>; a slice is a list (nil and empty slices are
    not told apart by the code modelled here: it only asks for the length).
  \<^item> A Go map that is only looked up is \<open>'k \<rightharpoonup> 'v\<close>; one that is iterated is an association list,
    whose order stands for the iteration order of one run.
\<close>

section \<open>Errors and results\<close>

text \<open>
  The sentinel errors of the kernel and of the controller store are constructors of their own, because callers test for them
  with \<^verbatim>\<open>errors.Is\<close>; an error that wraps a sentinel carries the text around it. Every other error
  is \<open>Errorf\<close> with its format string and its arguments.
\<close>

datatype error =
    ErrRevisionMismatch
  | ErrDuplicateIdempotency
  | ErrLeaseNotHeld string
  | ErrStaleCandidate string
  | ErrConcurrencyKeyHeld
  | ErrSelectionConflict
  | ErrUnresolvedBinding string
  | ErrAmbiguousBinding string
  | ErrSubjectMismatch string
  | ErrSubjectUnresolved string
  | ErrPollReplayConflict string
  | ErrCandidatesNotRecovered
  | ErrNotFound "string list"
  | ErrConflict "string list"
  | ErrInvalidController "string list"
  | ErrDisabled "string list"
  | ErrNotLeader
  | ErrLogHole "string list"
  | Errorf string "string list"

type_synonym 'a result = "error + 'a"

abbreviation Err :: "string \<Rightarrow> error" where
  "Err msg \<equiv> Errorf msg []"

text \<open>Sequencing of fallible steps: the first error is the result, as an early return is.\<close>

definition bindE :: "'a result \<Rightarrow> ('a \<Rightarrow> 'b result) \<Rightarrow> 'b result" where
  "bindE r k = (case r of Inl e \<Rightarrow> Inl e | Inr x \<Rightarrow> k x)"

lemma bindE_simps [simp]:
  "bindE (Inl e) k = Inl e"
  "bindE (Inr x) k = k x"
  by (simp_all add: bindE_def)

lemma bindE_eq_Inr_iff:
  "bindE r k = Inr y \<longleftrightarrow> (\<exists>x. r = Inr x \<and> k x = Inr y)"
  by (cases r) simp_all

lemma bindE_eq_Inl_iff:
  "bindE r k = Inl e \<longleftrightarrow> r = Inl e \<or> (\<exists>x. r = Inr x \<and> k x = Inl e)"
  by (cases r) simp_all

lemma bindE_InrE:
  assumes "bindE r k = Inr y"
  obtains x where "r = Inr x" and "k x = Inr y"
  using assms by (auto simp: bindE_eq_Inr_iff)

fun isOk :: "'a result \<Rightarrow> bool" where
  "isOk (Inl _) = False"
| "isOk (Inr _) = True"

lemma isOk_iff: "isOk r \<longleftrightarrow> (\<exists>x. r = Inr x)"
  by (cases r) simp_all

text \<open>Iterating a fallible step over a list, stopping at the first error.\<close>

fun foldE :: "('s \<Rightarrow> 'e \<Rightarrow> 's result) \<Rightarrow> 's \<Rightarrow> 'e list \<Rightarrow> 's result" where
  "foldE f s [] = Inr s"
| "foldE f s (e # es) = bindE (f s e) (\<lambda>s'. foldE f s' es)"

lemma foldE_append: "foldE f s (xs @ ys) = bindE (foldE f s xs) (\<lambda>s'. foldE f s' ys)"
  by (induction xs arbitrary: s) (auto simp: bindE_def split: sum.splits)

lemma foldE_append_Inr:
  "foldE f s (xs @ ys) = Inr t \<longleftrightarrow> (\<exists>u. foldE f s xs = Inr u \<and> foldE f u ys = Inr t)"
  by (simp add: foldE_append bindE_eq_Inr_iff)

lemma foldE_invariant:
  assumes "foldE f s es = Inr t" and "I s"
    and "\<And>s e s'. e \<in> set es \<Longrightarrow> I s \<Longrightarrow> f s e = Inr s' \<Longrightarrow> I s'"
  shows "I t"
  using assms
  by (induction es arbitrary: s) (auto simp: bindE_eq_Inr_iff)

lemma foldE_cong:
  assumes "\<And>s e. e \<in> set es \<Longrightarrow> f s e = g s e"
  shows "foldE f s es = foldE g s es"
  using assms by (induction es arbitrary: s) (auto simp: bindE_def split: sum.splits)

section \<open>Instants and 64-bit integers\<close>

type_synonym gotime = int
type_synonym int64 = "64 word"
type_synonym raw = string

definition IsZero :: "gotime \<Rightarrow> bool" where
  "IsZero t \<longleftrightarrow> t = 0"

definition After :: "gotime \<Rightarrow> gotime \<Rightarrow> bool" where
  "After t u \<longleftrightarrow> u < t"

text \<open>\<^verbatim>\<open>time.Second\<close>, in nanoseconds.\<close>

definition Second :: int64 where
  "Second = 1000000000"

definition timeAdd :: "gotime \<Rightarrow> int64 \<Rightarrow> gotime" where
  "timeAdd t d = t + sint d"

section \<open>Lists and maps\<close>

text \<open>The first index whose element satisfies a predicate: a \<^verbatim>\<open>for i := range xs\<close> with an early return.\<close>

fun findIdx :: "('a \<Rightarrow> bool) \<Rightarrow> 'a list \<Rightarrow> nat option" where
  "findIdx p [] = None"
| "findIdx p (x # xs) = (if p x then Some 0 else map_option Suc (findIdx p xs))"

lemma findIdx_SomeD: "findIdx p xs = Some i \<Longrightarrow> i < length xs \<and> p (xs ! i) \<and> (\<forall>j<i. \<not> p (xs ! j))"
proof (induction xs arbitrary: i)
  case (Cons x xs)
  show ?case
  proof (cases "p x")
    case False
    with Cons.prems obtain k where k: "findIdx p xs = Some k" "i = Suc k" by auto
    with Cons.IH[OF k(1)] False show ?thesis
      by (auto simp: nth_Cons split: nat.splits)
  qed (use Cons.prems in auto)
qed simp

lemma findIdx_None_iff: "findIdx p xs = None \<longleftrightarrow> (\<forall>x\<in>set xs. \<not> p x)"
  by (induction xs) auto

lemma findIdx_less: "findIdx p xs = Some i \<Longrightarrow> i < length xs"
  by (blast dest: findIdx_SomeD)

lemma findIdx_holds: "findIdx p xs = Some i \<Longrightarrow> p (xs ! i)"
  by (blast dest: findIdx_SomeD)

lemma findIdx_cong: "(\<And>x. x \<in> set xs \<Longrightarrow> p x = q x) \<Longrightarrow> findIdx p xs = findIdx q xs"
  by (induction xs) auto

lemma findIdx_map: "findIdx p (map f xs) = findIdx (p \<circ> f) xs"
  by (induction xs) auto

text \<open>A lookup in a Go map of strings: a missing key reads as the empty string.\<close>

definition goGet :: "(string \<times> string) list \<Rightarrow> string \<Rightarrow> string" where
  "goGet m k = (case map_of m k of None \<Rightarrow> '''' | Some v \<Rightarrow> v)"

text \<open>Assignment to and deletion from a Go map that is kept as an association list.\<close>

definition mapPut :: "'k \<Rightarrow> 'v \<Rightarrow> ('k \<times> 'v) list \<Rightarrow> ('k \<times> 'v) list" where
  "mapPut k v m = filter (\<lambda>(k', _). k' \<noteq> k) m @ [(k, v)]"

lemma map_of_mapPut [simp]: "map_of (mapPut k v m) = (map_of m)(k \<mapsto> v)"
proof
  fix x
  have "map_of (filter (\<lambda>(k', _). k' \<noteq> k) m) = (\<lambda>x. if x = k then None else map_of m x)"
    by (induction m) auto
  then show "map_of (mapPut k v m) x = ((map_of m)(k \<mapsto> v)) x"
    by (auto simp: mapPut_def map_add_def split: option.split)
qed

definition mapDel :: "'k \<Rightarrow> ('k \<times> 'v) list \<Rightarrow> ('k \<times> 'v) list" where
  "mapDel k m = filter (\<lambda>(k', _). k' \<noteq> k) m"

lemma map_of_mapDel [simp]: "map_of (mapDel k m) = (map_of m)(k := None)"
proof
  fix x
  show "map_of (mapDel k m) x = ((map_of m)(k := None)) x" unfolding mapDel_def by (induction m) auto
qed

lemma list_update_map_same:
  assumes "i < length xs" and "g (f (xs ! i)) = g (xs ! i)"
  shows "map g (xs[i := f (xs ! i)]) = map g xs"
  using assms by (simp add: map_update list_update_same_conv)

lemma nth_list_update_cases:
  "i < length xs \<Longrightarrow> (xs[i := v]) ! j = (if i = j then v else xs ! j)"
  by simp

lemma list_update_set_cases:
  "x \<in> set (xs[i := v]) \<Longrightarrow> x = v \<or> x \<in> set xs"
  by (meson insertE set_update_subset_insert subsetD)

section \<open>Checks\<close>

text \<open>
  A validation is a \<open>unit result\<close>: \<open>require\<close> is an early return, \<open>checkAll\<close> a loop that returns the
  first error, \<open>checkSeen\<close> such a loop with the map of the keys seen so far.
\<close>

definition require :: "bool \<Rightarrow> error \<Rightarrow> unit result" where
  "require b e = (if b then Inr () else Inl e)"

fun checkAll :: "('a \<Rightarrow> unit result) \<Rightarrow> 'a list \<Rightarrow> unit result" where
  "checkAll f [] = Inr ()"
| "checkAll f (x # xs) = bindE (f x) (\<lambda>_. checkAll f xs)"

fun checkSeen :: "('a \<Rightarrow> 'k) \<Rightarrow> ('k list \<Rightarrow> 'a \<Rightarrow> unit result) \<Rightarrow> 'k list \<Rightarrow> 'a list \<Rightarrow> unit result" where
  "checkSeen key f seen [] = Inr ()"
| "checkSeen key f seen (x # xs) = bindE (f seen x) (\<lambda>_. checkSeen key f (key x # seen) xs)"

named_theorems check_simps \<open>when a check succeeds\<close>

lemma require_ok [check_simps]: "require b e = Inr u \<longleftrightarrow> b"
  by (simp add: require_def)

lemma seq_ok [check_simps]: "bindE r (\<lambda>_. k) = Inr y \<longleftrightarrow> r = Inr () \<and> k = Inr y"
  by (cases r) auto

lemma checkAll_ok [check_simps]: "checkAll f xs = Inr u \<longleftrightarrow> (\<forall>x\<in>set xs. f x = Inr ())"
  by (induction xs) (auto simp: seq_ok)

lemma checkSeen_ok:
  assumes "\<And>seen x. x \<in> set xs \<Longrightarrow> f seen x = Inr () \<longleftrightarrow> key x \<notin> set seen \<and> P x"
  shows "checkSeen key f seen xs = Inr u \<longleftrightarrow>
    distinct (map key xs) \<and> set seen \<inter> key ` set xs = {} \<and> (\<forall>x\<in>set xs. P x)"
  using assms by (induction xs arbitrary: seen) (auto simp: seq_ok)

text \<open>\<^verbatim>\<open>fmt.Errorf("...: %w", err)\<close>: the text of the wrapped error follows the prefix.\<close>

fun wrapE :: "string \<Rightarrow> string list \<Rightarrow> 'a result \<Rightarrow> 'a result" where
  "wrapE prefix pargs (Inl (Errorf msg args)) = Inl (Errorf (prefix @ msg) (pargs @ args))"
| "wrapE prefix pargs r = r"

lemma wrapE_ok [check_simps]: "wrapE prefix pargs r = Inr x \<longleftrightarrow> r = Inr x"
  by (cases "(prefix, pargs, r)" rule: wrapE.cases) auto

section \<open>Text\<close>

text \<open>
  \<^verbatim>\<open>strings.TrimSpace\<close> and \<^verbatim>\<open>bytes.TrimSpace\<close> are used to ask whether a text is blank: a sequence of
  UTF-8 encoded white space. \<open>spaceLen\<close> is the number of bytes of the white space at the front.
\<close>

definition spaceLen :: "string \<Rightarrow> nat" where
  "spaceLen s =
     (let b = map (of_char :: char \<Rightarrow> nat) (take 3 s) in
      if b \<noteq> [] \<and> (hd b = 32 \<or> 9 \<le> hd b \<and> hd b \<le> 13) then 1
      else if take 2 b = [0xC2, 0x85] \<or> take 2 b = [0xC2, 0xA0] then 2
      else if b = [0xE1, 0x9A, 0x80] \<or> b = [0xE2, 0x81, 0x9F] \<or> b = [0xE3, 0x80, 0x80] then 3
      else if length b = 3 \<and> take 2 b = [0xE2, 0x80] \<and>
              (0x80 \<le> b ! 2 \<and> b ! 2 \<le> 0x8A \<or> b ! 2 = 0xA8 \<or> b ! 2 = 0xA9 \<or> b ! 2 = 0xAF) then 3
      else 0)"

lemma spaceLen_Nil [simp]: "spaceLen [] = 0"
  by (simp add: spaceLen_def)

function isBlank :: "string \<Rightarrow> bool" where
  "isBlank s = (if s = [] then True else if spaceLen s = 0 then False else isBlank (drop (spaceLen s) s))"
  by auto

termination isBlank
  by (relation "measure length") auto

declare isBlank.simps [simp del]

lemma isBlank_Nil [simp]: "isBlank []"
  by (simp add: isBlank.simps)

lemma spaceLen_brace [simp]: "spaceLen (CHR ''{'' # s) = 0"
proof -
  have "map (of_char :: char \<Rightarrow> nat) (take 3 (CHR ''{'' # s)) = 123 # map of_char (take 2 s)"
    by (simp add: numeral_3_eq_3 numeral_2_eq_2 of_char_def)
  then show ?thesis unfolding spaceLen_def Let_def by simp
qed

lemma isBlank_brace [simp]: "\<not> isBlank (CHR ''{'' # s)"
  by (subst isBlank.simps) simp

text \<open>The decimal digits of a number, as \<^verbatim>\<open>%d\<close> prints it.\<close>

fun natString :: "nat \<Rightarrow> string" where
  "natString n = (if n < 10 then [char_of (48 + n)] else natString (n div 10) @ [char_of (48 + n mod 10)])"

declare natString.simps [simp del]

definition intString :: "int \<Rightarrow> string" where
  "intString i = (if i < 0 then CHR ''-'' # natString (nat (- i)) else natString (nat i))"

section \<open>Collections of rules\<close>

text \<open>
  \<open>handler_defs\<close> collects the defining equations of the event handlers of the workflow
  kernel, \<open>frame_rules\<close> what a handler leaves unchanged.
\<close>

named_theorems handler_defs \<open>definitions of the event handlers\<close>
named_theorems frame_rules \<open>fields an operation leaves unchanged\<close>

end
