(* ===== verification/Wf_Model.thy ===== *)
theory Wf_Model
  imports Prelude
begin

text \<open>
  The data model of the workflow kernel: the status enumerations of
  \<^verbatim>\<open>internal/workflow/status.go\<close> and \<^verbatim>\<open>events.go\<close>, and the structs of \<^verbatim>\<open>model.go\<close>, \<^verbatim>\<open>events.go\<close> and
  \<^verbatim>\<open>ids.go\<close>, field by field. A Go string enumeration admits any string, its zero value
  \<^verbatim>\<open>""\<close> included, so each datatype has one constructor for the strings outside the declared
  constants.
\<close>

section \<open>Enumerations (status.go)\<close>

datatype workflow_status =
    WorkflowActive | WorkflowBlocked | WorkflowAwaitingGate | WorkflowCompleted
  | WorkflowFailed | WorkflowCanceled | WorkflowOther string

datatype activation_status =
    ActivationPending | ActivationReady | ActivationLeased | ActivationRunning
  | ActivationSkipped | ActivationAttemptFailed | ActivationAwaitingCompletion
  | ActivationAwaitingGate | ActivationAwaitingChild | ActivationBlocked
  | ActivationLeaseExpired | ActivationSatisfied | ActivationRejected
  | ActivationCanceled | ActivationOther string

datatype attempt_status =
    AttemptStarting | AttemptRunning | AttemptSucceeded | AttemptFailed
  | AttemptCanceled | AttemptTimedOut | AttemptPanicked | AttemptOther string

datatype action_kind =
    ActionRun | ActionLoop | ActionTeam | ActionManual | ActionExternal
  | ActionWorkflow | ActionOther string

datatype gate_type = GateMachine | GateExternal | GateHuman | GateTypeOther string

datatype gate_status =
    GatePending | GatePassed | GateFailed | GateActionRequired
  | GateChangesRequested | GateRejected | GateWaived | GateStatusOther string

datatype gate_operation =
    GateOpSatisfy | GateOpReject | GateOpWaive | GateOpExternalResult | GateOpOther string

datatype evidence_source =
    EvidenceMachine | EvidenceAgent | EvidenceHuman | EvidenceExternal
  | EvidenceSourceOther string

datatype retry_exhaustion_kind =
    RetryExhaustionBlock | RetryExhaustionFail | RetryExhaustionOutcome
  | RetryExhaustionOther string

datatype completion_contract_kind =
    CompletionExplicit | CompletionFiles | CompletionGit | CompletionOther string

datatype output_type =
    OutputString | OutputNumber | OutputBoolean | OutputJSON | OutputFile
  | OutputTypeOther string

datatype command_kind =
    CommandInstantiate | CommandClaim | CommandStart | CommandComplete | CommandGate
  | CommandSkip | CommandUnblock | CommandReroute | CommandHeartbeat | CommandTerminate
  | CommandBeginDispatch | CommandAttemptIdentified | CommandChildAttach
  | CommandChildOutcome | CommandParkExternal | CommandCancel | CommandOther string

datatype event_kind =
    EventInstantiated | EventLeased | EventStarted | EventAttemptTerminated | EventCompleted
  | EventGate | EventSkipped | EventUnblocked | EventRerouted | EventHeartbeat
  | EventLeaseExpired | EventAttemptIdentified | EventTransition | EventChildAttached
  | EventChildOutcome | EventExternalParked | EventCanceled | EventOther string

datatype dispatch_mode = DispatchManual | DispatchAuto | DispatchModeOther string

datatype gate_result_name =
    GateResultFailed | GateResultActionRequired | GateResultChangesRequested
  | GateResultOther string

text \<open>The strings of the statuses that error messages and responses print.\<close>

fun workflowStatusString :: "workflow_status \<Rightarrow> string" where
  "workflowStatusString WorkflowActive = ''active''"
| "workflowStatusString WorkflowBlocked = ''blocked''"
| "workflowStatusString WorkflowAwaitingGate = ''awaiting_gate''"
| "workflowStatusString WorkflowCompleted = ''completed''"
| "workflowStatusString WorkflowFailed = ''failed''"
| "workflowStatusString WorkflowCanceled = ''canceled''"
| "workflowStatusString (WorkflowOther s) = s"

fun activationStatusString :: "activation_status \<Rightarrow> string" where
  "activationStatusString ActivationPending = ''pending''"
| "activationStatusString ActivationReady = ''ready''"
| "activationStatusString ActivationLeased = ''leased''"
| "activationStatusString ActivationRunning = ''running''"
| "activationStatusString ActivationSkipped = ''skipped''"
| "activationStatusString ActivationAttemptFailed = ''attempt_failed''"
| "activationStatusString ActivationAwaitingCompletion = ''awaiting_completion''"
| "activationStatusString ActivationAwaitingGate = ''awaiting_gate''"
| "activationStatusString ActivationAwaitingChild = ''awaiting_child''"
| "activationStatusString ActivationBlocked = ''blocked''"
| "activationStatusString ActivationLeaseExpired = ''lease_expired''"
| "activationStatusString ActivationSatisfied = ''satisfied''"
| "activationStatusString ActivationRejected = ''rejected''"
| "activationStatusString ActivationCanceled = ''canceled''"
| "activationStatusString (ActivationOther s) = s"

fun attemptStatusString :: "attempt_status \<Rightarrow> string" where
  "attemptStatusString AttemptStarting = ''starting''"
| "attemptStatusString AttemptRunning = ''running''"
| "attemptStatusString AttemptSucceeded = ''succeeded''"
| "attemptStatusString AttemptFailed = ''failed''"
| "attemptStatusString AttemptCanceled = ''canceled''"
| "attemptStatusString AttemptTimedOut = ''timed_out''"
| "attemptStatusString AttemptPanicked = ''panicked''"
| "attemptStatusString (AttemptOther s) = s"

fun gateStatusString :: "gate_status \<Rightarrow> string" where
  "gateStatusString GatePending = ''pending''"
| "gateStatusString GatePassed = ''passed''"
| "gateStatusString GateFailed = ''failed''"
| "gateStatusString GateActionRequired = ''action_required''"
| "gateStatusString GateChangesRequested = ''changes_requested''"
| "gateStatusString GateRejected = ''rejected''"
| "gateStatusString GateWaived = ''waived''"
| "gateStatusString (GateStatusOther s) = s"

fun gateOperationString :: "gate_operation \<Rightarrow> string" where
  "gateOperationString GateOpSatisfy = ''satisfy''"
| "gateOperationString GateOpReject = ''reject''"
| "gateOperationString GateOpWaive = ''waive''"
| "gateOperationString GateOpExternalResult = ''external_result''"
| "gateOperationString (GateOpOther s) = s"

fun eventKindString :: "event_kind \<Rightarrow> string" where
  "eventKindString EventInstantiated = ''workflow.event.instantiated''"
| "eventKindString EventLeased = ''workflow.event.leased''"
| "eventKindString EventStarted = ''workflow.event.started''"
| "eventKindString EventAttemptTerminated = ''workflow.event.attempt_terminated''"
| "eventKindString EventCompleted = ''workflow.event.completed''"
| "eventKindString EventGate = ''workflow.event.gate''"
| "eventKindString EventSkipped = ''workflow.event.skipped''"
| "eventKindString EventUnblocked = ''workflow.event.unblocked''"
| "eventKindString EventRerouted = ''workflow.event.rerouted''"
| "eventKindString EventHeartbeat = ''workflow.event.heartbeat''"
| "eventKindString EventLeaseExpired = ''workflow.event.lease_expired''"
| "eventKindString EventAttemptIdentified = ''workflow.event.attempt_identified''"
| "eventKindString EventTransition = ''workflow.event.transition''"
| "eventKindString EventChildAttached = ''workflow.event.child_attached''"
| "eventKindString EventChildOutcome = ''workflow.event.child_outcome''"
| "eventKindString EventExternalParked = ''workflow.event.external_parked''"
| "eventKindString EventCanceled = ''workflow.event.canceled''"
| "eventKindString (EventOther s) = s"

fun commandKindString :: "command_kind \<Rightarrow> string" where
  "commandKindString CommandInstantiate = ''instantiate''"
| "commandKindString CommandClaim = ''claim''"
| "commandKindString CommandStart = ''start''"
| "commandKindString CommandComplete = ''complete''"
| "commandKindString CommandGate = ''gate''"
| "commandKindString CommandSkip = ''skip''"
| "commandKindString CommandUnblock = ''unblock''"
| "commandKindString CommandReroute = ''reroute''"
| "commandKindString CommandHeartbeat = ''heartbeat''"
| "commandKindString CommandTerminate = ''terminate_attempt''"
| "commandKindString CommandBeginDispatch = ''begin_dispatch''"
| "commandKindString CommandAttemptIdentified = ''attempt_identified''"
| "commandKindString CommandChildAttach = ''child_attach''"
| "commandKindString CommandChildOutcome = ''child_outcome''"
| "commandKindString CommandParkExternal = ''park_external''"
| "commandKindString CommandCancel = ''cancel''"
| "commandKindString (CommandOther s) = s"

section \<open>Template structures (model.go)\<close>

record working_directory_ref =
  wd_FromInstanceParam :: string

datatype launch_wrapper_arg_kind =
    LaunchWrapperArgKindLiteral | LaunchWrapperArgKindInstanceParam
  | LaunchWrapperArgKindOther string

record launch_wrapper_arg =
  lwa_Type :: launch_wrapper_arg_kind
  lwa_Value :: string
  lwa_FromInstanceParam :: string

record launch_wrapper_definition =
  lw_ID :: string
  lw_Argv :: "launch_wrapper_arg list"

record template_param =
  tp_ID :: string
  tp_Type :: string
  tp_Required :: bool

record outcome_definition =
  oc_Name :: string
  oc_TargetNodeID :: string
  oc_Terminal :: bool

record bounded_loop_definition =
  bl_ID :: string
  bl_BodyNodes :: "string list"
  bl_EntryNodeID :: string
  bl_CheckpointID :: string
  bl_MaximumRuns :: int
  bl_ExitOutcomes :: "string list"

record checkpoint_definition =
  cp_Path :: string
  cp_ExitOutcomes :: "string list"
  cp_RequiresRelease :: bool

record composition_limits =
  cl_MaximumDepth :: int
  cl_MaximumChildren :: int

record concurrency_key_template =
  ck_Prefix :: string
  ck_FromInstanceParam :: string

record dispatch_policy =
  dp_Mode :: dispatch_mode
  dp_ControllerID :: string
  dp_Priority :: "int option"
  dp_ConcurrencyKey :: string
  dp_ConcurrencyKeyParams :: "concurrency_key_template option"
  dp_SuccessOutcome :: string
  dp_ActionKind :: action_kind

record permission_decider_model =
  pdm_Provider :: string
  pdm_Model :: string

record permission_policy =
  pp_Decider :: string
  pp_DeciderModel :: "permission_decider_model option"

record assignment =
  as_Role :: string
  as_RosterFile :: string
  as_RosterEntry :: string
  as_Backend :: string
  as_Agent :: string
  as_Model :: string
  as_Thinking :: string
  as_Messaging :: "bool option"
  as_AutoApprove :: bool
  as_PermissionPolicy :: "permission_policy option"

record permission_decider =
  pd_Entry :: string
  pd_Thinking :: string
  pd_Backend :: string
  pd_Agent :: string
  pd_Model :: string
  pd_PersistSessions :: "bool option"

record permission_model_decider =
  pmd_Provider :: string
  pmd_Model :: string
  pmd_BaseURL :: string
  pmd_APIKeyEnv :: string

record execution_selection =
  sel_Role :: string
  sel_Backend :: string
  sel_Agent :: string
  sel_Model :: string
  sel_Thinking :: string
  sel_RosterDigest :: string
  sel_PersistSessions :: "bool option"
  sel_Messaging :: "bool option"
  sel_AutoApprove :: bool
  sel_PermissionDecider :: "permission_decider option"
  sel_PermissionModelDecider :: "permission_model_decider option"

record run_action =
  ra_Prompt :: string
  ra_PromptFile :: string
  ra_Timeout :: int

record loop_action =
  la_LoopFile :: string
  la_Timeout :: int

record team_action =
  ta_TeamFile :: string
  ta_Timeout :: int

record manual_action =
  ma_Instructions :: string

record external_action =
  ea_Source :: string
  ea_SubjectType :: string

record child_param_binding =
  cpb_Param :: string
  cpb_Value :: string
  cpb_FromInstanceParam :: string

record template_output_reference =
  tor_NodeID :: string
  tor_OutputID :: string

record input_binding =
  ib_Input :: string
  ib_Value :: raw
  ib_From :: "template_output_reference option"

record output_binding =
  ob_ChildOutput :: string
  ob_ParentOutput :: string

record workflow_action =
  wa_TemplateID :: string
  wa_TemplateVersion :: string
  wa_ChildKey :: string
  wa_InputBindings :: "input_binding list"
  wa_OutputBindings :: "output_binding list"
  wa_Params :: "child_param_binding list"
  wa_OutcomeMap :: "(string \<times> string) list"

record action =
  ac_Kind :: action_kind
  ac_Run :: "run_action option"
  ac_Loop :: "loop_action option"
  ac_Team :: "team_action option"
  ac_Manual :: "manual_action option"
  ac_External :: "external_action option"
  ac_Workflow :: "workflow_action option"

record lease_policy =
  lp_TTLSeconds :: int64
  lp_HeartbeatIntervalSeconds :: int64

record retry_policy =
  rp_MaximumAttempts :: int
  rp_Exhaustion :: retry_exhaustion_kind
  rp_Outcome :: string

record artifact_requirement =
  ar_Path :: string
  ar_NonEmpty :: bool
  ar_SHA256 :: string

record git_requirement =
  gr_Clean :: bool
  gr_Head :: string
  gr_ChangedFromBase :: bool

record completion_contract =
  cc_Kind :: completion_contract_kind
  cc_Artifacts :: "artifact_requirement list"
  cc_Git :: "git_requirement option"

record output_source =
  os_Artifact :: string
  os_Pointer :: string
  os_Git :: string

record output_definition =
  od_ID :: string
  od_Name :: string
  od_Type :: output_type
  od_Required :: bool
  od_Source :: "output_source option"

record gate_input_value =
  giv_Literal :: raw
  giv_FromNodeOutput :: "template_output_reference option"

record subject_output_ref =
  sor_FromNodeOutput :: template_output_reference

record subject_binding =
  sb_Type :: string
  sb_Repository :: "subject_output_ref option"
  sb_PullRequest :: "subject_output_ref option"
  sb_Revision :: "subject_output_ref option"

record gate_definition =
  gd_ID :: string
  gd_Name :: string
  gd_Type :: gate_type
  gd_Required :: bool
  gd_AllowedOutcomes :: "string list"
  gd_SubjectType :: string
  gd_AdapterID :: string
  gd_Inputs :: "(string \<times> gate_input_value) list"
  gd_SubjectBinding :: "subject_binding option"
  gd_ResultOutcomes :: "(gate_result_name \<times> string) list"

record authority_rule =
  au_Authorities :: "string list"
  au_ReasonRequired :: bool

record node_definition =
  nd_ID :: string
  nd_Name :: string
  nd_Dependencies :: "string list"
  nd_Outcomes :: "outcome_definition list"
  nd_Branches :: "(string \<times> string) list"
  nd_Action :: action
  nd_Assignment :: "assignment option"
  nd_Completion :: "completion_contract option"
  nd_Outputs :: "output_definition list"
  nd_Gates :: "gate_definition list"
  nd_RetryPolicy :: "retry_policy option"
  nd_LoopID :: string
  nd_Checkpoint :: "checkpoint_definition option"
  nd_LeasePolicy :: "lease_policy option"
  nd_Dispatch :: "dispatch_policy option"
  nd_WorkingDirectory :: "working_directory_ref option"
  nd_LaunchWrapper :: string
  nd_SkipRule :: "authority_rule option"
  nd_WaiveRules :: "authority_rule list"

record template =
  tm_SchemaVersion :: int
  tm_TemplateID :: string
  tm_TemplateVersion :: string
  tm_Metadata :: "(string \<times> raw) list"
  tm_EntryNodes :: "string list"
  tm_Nodes :: "node_definition list"
  tm_TerminalOutcomes :: "string list"
  tm_BoundedLoops :: "bounded_loop_definition list"
  tm_DefaultLease :: "lease_policy option"
  tm_DefaultRetry :: "retry_policy option"
  tm_WorkingDirectory :: "working_directory_ref option"
  tm_LaunchWrappers :: "launch_wrapper_definition list"
  tm_CompositionLimits :: "composition_limits option"
  tm_Params :: "template_param list"

section \<open>Instance structures (model.go)\<close>

record output_value =
  ov_ID :: string
  ov_DefinitionID :: string
  ov_ActivationID :: string
  ov_Revision :: int
  ov_Value :: raw
  ov_EvidenceIDs :: "string list"
  ov_CreatedAt :: gotime

record output_reference =
  or_WorkflowID :: string
  or_NodeID :: string
  or_ActivationID :: string
  or_OutputID :: string
  or_Revision :: int

record subject =
  su_Type :: string
  su_Repository :: string
  su_PullRequest :: int
  su_Revision :: string

record resolved_gate_input =
  rgi_Literal :: raw
  rgi_Reference :: "output_reference option"

record resolved_gate =
  rg_Inputs :: "(string \<times> resolved_gate_input) list"
  rg_Subject :: "subject option"
  rg_Unresolved :: "string list"

record execution_identity =
  id_SupervisorID :: string
  id_WorkflowID :: string
  id_NodeID :: string
  id_ActivationID :: string
  id_AttemptID :: string
  id_RunID :: string
  id_RuntimeID :: string
  id_SessionID :: string

record attempt_diagnostics =
  dg_ControllerID :: string
  dg_LeaderLeaseID :: string
  dg_ConcurrencyKey :: string
  dg_AdmissionRef :: string

record attempt =
  at_ID :: string
  at_Identity :: execution_identity
  at_Status :: attempt_status
  at_Backend :: string
  at_Agent :: string
  at_Model :: string
  at_WorkingDirectory :: string
  at_Worktree :: string
  at_BaseGitSHA :: string
  at_EndingGitSHA :: string
  at_EventPath :: string
  at_SentinelPath :: string
  at_ArtifactPaths :: "string list"
  at_StartedAt :: gotime
  at_EndedAt :: "gotime option"
  at_MarkerKind :: string
  at_MarkerLabel :: string
  at_FailureClass :: string
  at_Corrections :: int
  at_Diagnostics :: "attempt_diagnostics option"

record lease =
  ls_ID :: string
  ls_ActivationID :: string
  ls_Owner :: string
  ls_TokenDigest :: string
  ls_AcquiredAt :: gotime
  ls_ExpiresAt :: gotime
  ls_LastHeartbeatAt :: "gotime option"
  ls_LastActivityAt :: "gotime option"

record evidence =
  evd_ID :: string
  evd_Kind :: string
  evd_Source :: evidence_source
  evd_Authority :: string
  evd_OriginalPath :: string
  evd_StoredPath :: string
  evd_Size :: int
  evd_SHA256 :: string
  evd_Result :: raw
  evd_CreatedAt :: gotime
  evd_ActivationID :: string
  evd_Subject :: "subject option"

record gate_instance =
  gi_ID :: string
  gi_GateID :: string
  gi_ActivationID :: string
  gi_Status :: gate_status
  gi_Outcome :: string
  gi_Actor :: string
  gi_Reason :: string
  gi_Subject :: "subject option"
  gi_PollID :: string
  gi_Source :: string
  gi_ResponseHash :: string
  gi_Diagnostic :: string
  gi_EvidenceIDs :: "string list"
  gi_ObservedAt :: "gotime option"
  gi_DecidedAt :: "gotime option"

record child_reference =
  cr_ID :: string
  cr_NodeID :: string
  cr_ParentActivation :: string
  cr_WorkflowID :: string
  cr_TemplateID :: string
  cr_TemplateVersion :: string
  cr_Outputs :: "output_reference list"
  cr_Outcome :: string

record transition =
  tr_ActivationID :: string
  tr_Outcome :: string
  tr_TargetNodeID :: string
  tr_CreatedAt :: gotime

record activation =
  act_ID :: string
  act_NodeID :: string
  act_Iteration :: int
  act_IncomingOutcome :: string
  act_Status :: activation_status
  act_Selection :: "execution_selection option"
  act_AttemptIDs :: "string list"
  act_ActiveLease :: "lease option"
  act_SelectedOutcome :: string
  act_Dispatch :: "dispatch_policy option"
  act_CausedBy :: "string list"
  act_ResolvedGates :: "(string \<times> resolved_gate) list"
  act_ReadyAt :: "gotime option"
  act_CreatedAt :: gotime
  act_UpdatedAt :: gotime

record workflow_instance =
  inst_WorkflowID :: string
  inst_InstanceID :: string
  inst_TemplateID :: string
  inst_TemplateVersion :: string
  inst_Revision :: int
  inst_CreatedAt :: gotime
  inst_UpdatedAt :: gotime
  inst_Metadata :: "(string \<times> raw) list"
  inst_Status :: workflow_status
  inst_TerminalOutcome :: string
  inst_CanceledBy :: string
  inst_CancelReason :: string
  inst_Activations :: "activation list"
  inst_Attempts :: "attempt list"
  inst_Evidence :: "evidence list"
  inst_Gates :: "gate_instance list"
  inst_Outputs :: "output_value list"
  inst_Children :: "child_reference list"
  inst_Params :: "(string \<times> string) list"

record snapshot =
  snap_SchemaVersion :: int
  snap_Instance :: workflow_instance
  snap_AppliedEventIDs :: "string list"
  snap_Idempotency :: "string \<rightharpoonup> string list"

section \<open>Events and commands (events.go, model.go)\<close>

record instance_record =
  ir_TemplateID :: string
  ir_TemplateVersion :: string
  ir_TerminalOutcomes :: "string list"
  ir_EntryNodes :: "string list"
  ir_Children :: "child_reference list"
  ir_Params :: "(string \<times> string) list"
  ir_InstanceID :: string

record event =
  ev_ID :: string
  ev_Kind :: event_kind
  ev_Sequence :: int
  ev_CommandID :: string
  ev_IdempotencyKey :: string
  ev_Identity :: execution_identity
  ev_AttemptID :: string
  ev_LeaseID :: string
  ev_Actor :: string
  ev_Reason :: string
  ev_Outcome :: string
  ev_AttemptStatus :: attempt_status
  ev_MarkerKind :: string
  ev_MarkerLabel :: string
  ev_WorkingDirectory :: string
  ev_Gate :: "gate_instance option"
  ev_Transition :: "transition option"
  ev_Evidence :: "evidence list"
  ev_Outputs :: "output_value list"
  ev_ChildOutputs :: "output_reference list"
  ev_Iteration :: int
  ev_Selection :: "execution_selection option"
  ev_Instantiated :: "instance_record option"
  ev_LeaseTargets :: "string list"
  ev_Lease :: "lease option"
  ev_Diagnostics :: "attempt_diagnostics option"
  ev_CausedBy :: "string list"
  ev_ResolvedGates :: "(string \<times> resolved_gate) list"
  ev_ReadyAt :: "gotime option"
  ev_At :: gotime
  ev_ActivationIDs :: "string list"

record command =
  cmd_ID :: string
  cmd_Kind :: command_kind
  cmd_Identity :: execution_identity
  cmd_ExpectedRevision :: int
  cmd_IdempotencyKey :: string
  cmd_LeaseID :: string
  cmd_Actor :: string
  cmd_Reason :: string
  cmd_Outcome :: string
  cmd_AttemptStatus :: attempt_status
  cmd_MarkerKind :: string
  cmd_MarkerLabel :: string
  cmd_WorkingDirectory :: string
  cmd_Evidence :: "evidence list"
  cmd_Outputs :: "output_value list"
  cmd_Gate :: "gate_instance option"
  cmd_Operation :: gate_operation
  cmd_Lease :: "lease option"
  cmd_Selection :: "execution_selection option"
  cmd_Diagnostics :: "attempt_diagnostics option"
  cmd_ChildOutputs :: "output_reference list"
  cmd_ReadyAt :: gotime
  cmd_At :: gotime
  cmd_Payload :: raw

section \<open>Zero values\<close>

text \<open>The zero value of each struct that the code builds with a partial composite literal.\<close>

definition zeroDispatch :: dispatch_policy where
  "zeroDispatch =
     \<lparr>dp_Mode = DispatchModeOther '''', dp_ControllerID = '''', dp_Priority = None,
      dp_ConcurrencyKey = '''', dp_ConcurrencyKeyParams = None, dp_SuccessOutcome = '''',
      dp_ActionKind = ActionOther ''''\<rparr>"

definition zeroIdentity :: execution_identity where
  "zeroIdentity =
     \<lparr>id_SupervisorID = '''', id_WorkflowID = '''', id_NodeID = '''', id_ActivationID = '''',
      id_AttemptID = '''', id_RunID = '''', id_RuntimeID = '''', id_SessionID = ''''\<rparr>"

definition zeroLease :: lease where
  "zeroLease =
     \<lparr>ls_ID = '''', ls_ActivationID = '''', ls_Owner = '''', ls_TokenDigest = '''',
      ls_AcquiredAt = 0, ls_ExpiresAt = 0, ls_LastHeartbeatAt = None, ls_LastActivityAt = None\<rparr>"

definition zeroAttempt :: attempt where
  "zeroAttempt =
     \<lparr>at_ID = '''', at_Identity = zeroIdentity, at_Status = AttemptOther '''', at_Backend = '''',
      at_Agent = '''', at_Model = '''', at_WorkingDirectory = '''', at_Worktree = '''',
      at_BaseGitSHA = '''', at_EndingGitSHA = '''', at_EventPath = '''', at_SentinelPath = '''',
      at_ArtifactPaths = [], at_StartedAt = 0, at_EndedAt = None, at_MarkerKind = '''',
      at_MarkerLabel = '''', at_FailureClass = '''', at_Corrections = 0, at_Diagnostics = None\<rparr>"

definition zeroGateInstance :: gate_instance where
  "zeroGateInstance =
     \<lparr>gi_ID = '''', gi_GateID = '''', gi_ActivationID = '''', gi_Status = GateStatusOther '''',
      gi_Outcome = '''', gi_Actor = '''', gi_Reason = '''', gi_Subject = None, gi_PollID = '''',
      gi_Source = '''', gi_ResponseHash = '''', gi_Diagnostic = '''', gi_EvidenceIDs = [],
      gi_ObservedAt = None, gi_DecidedAt = None\<rparr>"

definition zeroResolvedGateInput :: resolved_gate_input where
  "zeroResolvedGateInput = \<lparr>rgi_Literal = '''', rgi_Reference = None\<rparr>"

definition zeroTransition :: transition where
  "zeroTransition =
     \<lparr>tr_ActivationID = '''', tr_Outcome = '''', tr_TargetNodeID = '''', tr_CreatedAt = 0\<rparr>"

definition zeroActivation :: activation where
  "zeroActivation =
     \<lparr>act_ID = '''', act_NodeID = '''', act_Iteration = 0, act_IncomingOutcome = '''',
      act_Status = ActivationOther '''', act_Selection = None, act_AttemptIDs = [],
      act_ActiveLease = None, act_SelectedOutcome = '''', act_Dispatch = None, act_CausedBy = [],
      act_ResolvedGates = [], act_ReadyAt = None, act_CreatedAt = 0, act_UpdatedAt = 0\<rparr>"

definition zeroInstance :: workflow_instance where
  "zeroInstance =
     \<lparr>inst_WorkflowID = '''', inst_InstanceID = '''', inst_TemplateID = '''',
      inst_TemplateVersion = '''', inst_Revision = 0, inst_CreatedAt = 0, inst_UpdatedAt = 0,
      inst_Metadata = [], inst_Status = WorkflowOther '''', inst_TerminalOutcome = '''',
      inst_CanceledBy = '''', inst_CancelReason = '''', inst_Activations = [], inst_Attempts = [],
      inst_Evidence = [], inst_Gates = [], inst_Outputs = [], inst_Children = [],
      inst_Params = []\<rparr>"

definition zeroSnapshot :: snapshot where
  "zeroSnapshot =
     \<lparr>snap_SchemaVersion = 0, snap_Instance = zeroInstance, snap_AppliedEventIDs = [],
      snap_Idempotency = (\<lambda>_. None)\<rparr>"

definition zeroEvent :: event where
  "zeroEvent =
     \<lparr>ev_ID = '''', ev_Kind = EventOther '''', ev_Sequence = 0, ev_CommandID = '''',
      ev_IdempotencyKey = '''', ev_Identity = zeroIdentity, ev_AttemptID = '''', ev_LeaseID = '''',
      ev_Actor = '''', ev_Reason = '''', ev_Outcome = '''', ev_AttemptStatus = AttemptOther '''',
      ev_MarkerKind = '''', ev_MarkerLabel = '''', ev_WorkingDirectory = '''', ev_Gate = None,
      ev_Transition = None, ev_Evidence = [], ev_Outputs = [], ev_ChildOutputs = [],
      ev_Iteration = 0, ev_Selection = None, ev_Instantiated = None, ev_LeaseTargets = [],
      ev_Lease = None, ev_Diagnostics = None, ev_CausedBy = [], ev_ResolvedGates = [],
      ev_ReadyAt = None, ev_At = 0, ev_ActivationIDs = []\<rparr>"

definition zeroCommand :: command where
  "zeroCommand =
     \<lparr>cmd_ID = '''', cmd_Kind = CommandOther '''', cmd_Identity = zeroIdentity,
      cmd_ExpectedRevision = 0, cmd_IdempotencyKey = '''', cmd_LeaseID = '''', cmd_Actor = '''',
      cmd_Reason = '''', cmd_Outcome = '''', cmd_AttemptStatus = AttemptOther '''',
      cmd_MarkerKind = '''', cmd_MarkerLabel = '''', cmd_WorkingDirectory = '''',
      cmd_Evidence = [], cmd_Outputs = [], cmd_Gate = None, cmd_Operation = GateOpOther '''',
      cmd_Lease = None, cmd_Selection = None, cmd_Diagnostics = None, cmd_ChildOutputs = [],
      cmd_ReadyAt = 0, cmd_At = 0, cmd_Payload = ''''\<rparr>"

lemmas zero_defs =
  zeroDispatch_def zeroIdentity_def zeroLease_def zeroAttempt_def zeroGateInstance_def
  zeroResolvedGateInput_def zeroTransition_def zeroActivation_def zeroInstance_def
  zeroSnapshot_def zeroEvent_def zeroCommand_def

section \<open>Access to a snapshot\<close>

text \<open>
  A Go pointer into \<^verbatim>\<open>Instance.Activations\<close> or \<^verbatim>\<open>Instance.Attempts\<close> is the index of the element;
  an assignment through it is an update at that index.
\<close>

abbreviation acts :: "snapshot \<Rightarrow> activation list" where
  "acts s \<equiv> inst_Activations (snap_Instance s)"

abbreviation attempts :: "snapshot \<Rightarrow> attempt list" where
  "attempts s \<equiv> inst_Attempts (snap_Instance s)"

definition updInst :: "(workflow_instance \<Rightarrow> workflow_instance) \<Rightarrow> snapshot \<Rightarrow> snapshot" where
  "updInst f s = s\<lparr>snap_Instance := f (snap_Instance s)\<rparr>"

definition updAct :: "nat \<Rightarrow> (activation \<Rightarrow> activation) \<Rightarrow> snapshot \<Rightarrow> snapshot" where
  "updAct i f s = updInst (\<lambda>x. x\<lparr>inst_Activations := (inst_Activations x)[i := f (inst_Activations x ! i)]\<rparr>) s"

definition updAttempt :: "nat \<Rightarrow> (attempt \<Rightarrow> attempt) \<Rightarrow> snapshot \<Rightarrow> snapshot" where
  "updAttempt j f s = updInst (\<lambda>x. x\<lparr>inst_Attempts := (inst_Attempts x)[j := f (inst_Attempts x ! j)]\<rparr>) s"

definition setStatus :: "workflow_status \<Rightarrow> snapshot \<Rightarrow> snapshot" where
  "setStatus st s = updInst (\<lambda>x. x\<lparr>inst_Status := st\<rparr>) s"

lemmas upd_defs = updInst_def updAct_def updAttempt_def setStatus_def

lemma acts_upd [simp]:
  "acts (updAct i f s) = (acts s)[i := f (acts s ! i)]"
  "acts (updAttempt j g s) = acts s"
  "acts (setStatus st s) = acts s"
  by (simp_all add: upd_defs)

lemma attempts_upd [simp]:
  "attempts (updAct i f s) = attempts s"
  "attempts (updAttempt j g s) = (attempts s)[j := g (attempts s ! j)]"
  "attempts (setStatus st s) = attempts s"
  by (simp_all add: upd_defs)

lemma inst_upd [simp]:
  "inst_Status (snap_Instance (updAct i f s)) = inst_Status (snap_Instance s)"
  "inst_Status (snap_Instance (updAttempt j g s)) = inst_Status (snap_Instance s)"
  "inst_Status (snap_Instance (setStatus st s)) = st"
  "inst_WorkflowID (snap_Instance (updAct i f s)) = inst_WorkflowID (snap_Instance s)"
  "inst_WorkflowID (snap_Instance (updAttempt j g s)) = inst_WorkflowID (snap_Instance s)"
  "inst_WorkflowID (snap_Instance (setStatus st s)) = inst_WorkflowID (snap_Instance s)"
  "inst_Gates (snap_Instance (updAct i f s)) = inst_Gates (snap_Instance s)"
  "inst_Gates (snap_Instance (updAttempt j g s)) = inst_Gates (snap_Instance s)"
  "inst_Gates (snap_Instance (setStatus st s)) = inst_Gates (snap_Instance s)"
  "inst_Evidence (snap_Instance (updAct i f s)) = inst_Evidence (snap_Instance s)"
  "inst_Evidence (snap_Instance (updAttempt j g s)) = inst_Evidence (snap_Instance s)"
  "inst_Evidence (snap_Instance (setStatus st s)) = inst_Evidence (snap_Instance s)"
  "inst_Outputs (snap_Instance (updAct i f s)) = inst_Outputs (snap_Instance s)"
  "inst_Outputs (snap_Instance (updAttempt j g s)) = inst_Outputs (snap_Instance s)"
  "inst_Outputs (snap_Instance (setStatus st s)) = inst_Outputs (snap_Instance s)"
  "inst_Revision (snap_Instance (updAct i f s)) = inst_Revision (snap_Instance s)"
  "inst_Revision (snap_Instance (updAttempt j g s)) = inst_Revision (snap_Instance s)"
  "inst_Revision (snap_Instance (setStatus st s)) = inst_Revision (snap_Instance s)"
  "inst_TerminalOutcome (snap_Instance (updAct i f s)) = inst_TerminalOutcome (snap_Instance s)"
  "inst_TerminalOutcome (snap_Instance (updAttempt j g s)) = inst_TerminalOutcome (snap_Instance s)"
  "inst_TerminalOutcome (snap_Instance (setStatus st s)) = inst_TerminalOutcome (snap_Instance s)"
  "inst_TemplateID (snap_Instance (updAct i f s)) = inst_TemplateID (snap_Instance s)"
  "inst_TemplateID (snap_Instance (updAttempt j g s)) = inst_TemplateID (snap_Instance s)"
  "inst_TemplateID (snap_Instance (setStatus st s)) = inst_TemplateID (snap_Instance s)"
  "inst_TemplateVersion (snap_Instance (updAct i f s)) = inst_TemplateVersion (snap_Instance s)"
  "inst_TemplateVersion (snap_Instance (updAttempt j g s)) = inst_TemplateVersion (snap_Instance s)"
  "inst_TemplateVersion (snap_Instance (setStatus st s)) = inst_TemplateVersion (snap_Instance s)"
  by (simp_all add: upd_defs)

lemma log_upd [simp]:
  "snap_AppliedEventIDs (updInst h s) = snap_AppliedEventIDs s"
  "snap_AppliedEventIDs (updAct i f s) = snap_AppliedEventIDs s"
  "snap_AppliedEventIDs (updAttempt j g s) = snap_AppliedEventIDs s"
  "snap_AppliedEventIDs (setStatus st s) = snap_AppliedEventIDs s"
  "snap_Idempotency (updInst h s) = snap_Idempotency s"
  "snap_Idempotency (updAct i f s) = snap_Idempotency s"
  "snap_Idempotency (updAttempt j g s) = snap_Idempotency s"
  "snap_Idempotency (setStatus st s) = snap_Idempotency s"
  by (simp_all add: upd_defs)

end
