(* ===== verification/Wf_Policies.thy ===== *)
theory Wf_Policies
  imports Wf_Model
begin

text \<open>
  What the reducer asks of its surroundings: the \<^verbatim>\<open>Policies\<close> interface and its template-backed
  implementation (\<^verbatim>\<open>policies.go\<close>), dispatch-policy defaults (\<^verbatim>\<open>model.go\<close>), the lease duration
  (\<^verbatim>\<open>lease.go\<close>), fresh identifiers (\<^verbatim>\<open>ids.go\<close>) and the defaults for legacy events.

  The random UUIDs and the clock are parameters: \<open>minted\<close> holds the clock reading of one call
  and the sequence of UUIDs \<^verbatim>\<open>uuid.NewString\<close> returns during it, one position per call site.
\<close>

section \<open>Fresh identifiers (ids.go)\<close>

record minted =
  mi_now :: gotime
  mi_uuid :: "nat \<Rightarrow> string"

definition newID :: "string \<Rightarrow> minted \<Rightarrow> nat \<Rightarrow> string" where
  "newID prefix mi k = prefix @ ''_'' @ mi_uuid mi k"

definition NewWorkflowID :: "minted \<Rightarrow> nat \<Rightarrow> string" where
  "NewWorkflowID = newID ''wf''"

definition NewInstanceID :: "minted \<Rightarrow> nat \<Rightarrow> string" where
  "NewInstanceID = newID ''wfi''"

definition NewActivationID :: "minted \<Rightarrow> nat \<Rightarrow> string" where
  "NewActivationID = newID ''act''"

definition NewAttemptID :: "minted \<Rightarrow> nat \<Rightarrow> string" where
  "NewAttemptID = newID ''att''"

definition NewEventID :: "minted \<Rightarrow> nat \<Rightarrow> string" where
  "NewEventID = newID ''wfe''"

definition newActivationIDs :: "minted \<Rightarrow> nat \<Rightarrow> nat \<Rightarrow> string list" where
  "newActivationIDs mi k n = map (\<lambda>i. NewActivationID mi (k + i)) [0..<n]"

lemma length_newActivationIDs [simp]: "length (newActivationIDs mi k n) = n"
  by (simp add: newActivationIDs_def)

lemma newID_nonempty [simp]:
  "NewWorkflowID mi k \<noteq> []" "NewInstanceID mi k \<noteq> []" "NewActivationID mi k \<noteq> []"
  "NewAttemptID mi k \<noteq> []" "NewEventID mi k \<noteq> []"
  by (simp_all add: NewWorkflowID_def NewInstanceID_def NewActivationID_def NewAttemptID_def
      NewEventID_def newID_def)

section \<open>Legacy events (policies.go)\<close>

definition padActivationIDs :: "minted \<Rightarrow> nat \<Rightarrow> string list \<Rightarrow> nat \<Rightarrow> string list" where
  "padActivationIDs mi k ids n =
     (if n \<le> length ids then ids else ids @ newActivationIDs mi k (n - length ids))"

lemma length_padActivationIDs: "n \<le> length (padActivationIDs mi k ids n)"
  by (simp add: padActivationIDs_def)

definition withLegacyDefaults :: "minted \<Rightarrow> event \<Rightarrow> event" where
  "withLegacyDefaults mi ev0 =
     (let ev = (if IsZero (ev_At ev0) then ev0\<lparr>ev_At := mi_now mi\<rparr> else ev0)
      in case ev_Kind ev of
           EventInstantiated \<Rightarrow>
             (case ev_Instantiated ev of
                None \<Rightarrow> ev
              | Some rec0 \<Rightarrow>
                  (let rec = (if ir_InstanceID rec0 = '''' then rec0\<lparr>ir_InstanceID := NewInstanceID mi 0\<rparr>
                              else rec0);
                       ident = (if id_WorkflowID (ev_Identity ev) = ''''
                                then (ev_Identity ev)\<lparr>id_WorkflowID := NewWorkflowID mi 1\<rparr>
                                else ev_Identity ev)
                   in ev\<lparr>ev_Instantiated := Some rec, ev_Identity := ident,
                         ev_ActivationIDs :=
                           padActivationIDs mi 2 (ev_ActivationIDs ev) (length (ir_EntryNodes rec))\<rparr>))
         | EventTransition \<Rightarrow>
             ev\<lparr>ev_ActivationIDs := padActivationIDs mi 0 (ev_ActivationIDs ev) 1\<rparr>
         | EventRerouted \<Rightarrow>
             ev\<lparr>ev_ActivationIDs := padActivationIDs mi 0 (ev_ActivationIDs ev) 1\<rparr>
         | EventStarted \<Rightarrow>
             (if ev_AttemptID ev = '''' then ev\<lparr>ev_AttemptID := NewAttemptID mi 0\<rparr> else ev)
         | _ \<Rightarrow> ev)"

text \<open>An event that carries every field a legacy event may lack.\<close>

definition completeEvent :: "event \<Rightarrow> bool" where
  "completeEvent ev \<longleftrightarrow>
     \<not> IsZero (ev_At ev) \<and>
     (case ev_Kind ev of
        EventInstantiated \<Rightarrow>
          (case ev_Instantiated ev of
             None \<Rightarrow> True
           | Some rec \<Rightarrow> ir_InstanceID rec \<noteq> '''' \<and> id_WorkflowID (ev_Identity ev) \<noteq> '''' \<and>
               length (ir_EntryNodes rec) \<le> length (ev_ActivationIDs ev))
      | EventTransition \<Rightarrow> 1 \<le> length (ev_ActivationIDs ev)
      | EventRerouted \<Rightarrow> 1 \<le> length (ev_ActivationIDs ev)
      | EventStarted \<Rightarrow> ev_AttemptID ev \<noteq> ''''
      | _ \<Rightarrow> True)"

lemma event_update_own [simp]:
  "ev\<lparr>ev_ActivationIDs := ev_ActivationIDs ev\<rparr> = ev"
  "ev_Instantiated ev = Some r \<Longrightarrow>
   ev\<lparr>ev_Identity := ev_Identity ev, ev_Instantiated := Some r, ev_ActivationIDs := ev_ActivationIDs ev\<rparr> = ev"
  by simp_all

lemma withLegacyDefaults_complete: "completeEvent ev \<Longrightarrow> withLegacyDefaults mi ev = ev"
  by (cases "ev_Kind ev"; cases "ev_Instantiated ev")
    (simp_all add: completeEvent_def withLegacyDefaults_def padActivationIDs_def Let_def)

lemma withLegacyDefaults_frame [simp]:
  "ev_ID (withLegacyDefaults mi ev) = ev_ID ev"
  "ev_Kind (withLegacyDefaults mi ev) = ev_Kind ev"
  "ev_Sequence (withLegacyDefaults mi ev) = ev_Sequence ev"
  "ev_IdempotencyKey (withLegacyDefaults mi ev) = ev_IdempotencyKey ev"
  by (cases "ev_Kind ev"; cases "ev_Instantiated ev"; simp add: withLegacyDefaults_def Let_def)+

lemma withLegacyDefaults_ids:
  "ev_Kind ev \<in> {EventTransition, EventRerouted} \<Longrightarrow>
   1 \<le> length (ev_ActivationIDs (withLegacyDefaults mi ev))"
  by (auto simp: withLegacyDefaults_def Let_def padActivationIDs_def split: event_kind.splits)

section \<open>Dispatch policy (model.go)\<close>

definition DefaultDispatchPriority :: int where
  "DefaultDispatchPriority = 50"

definition effective :: "dispatch_policy option \<Rightarrow> dispatch_policy" where
  "effective d =
     (let out = zeroDispatch\<lparr>dp_Mode := DispatchManual, dp_Priority := Some DefaultDispatchPriority\<rparr>
      in case d of
           None \<Rightarrow> out
         | Some d \<Rightarrow>
             out\<lparr>dp_Mode := (if dp_Mode d \<noteq> DispatchModeOther '''' then dp_Mode d else dp_Mode out),
                 dp_ControllerID := dp_ControllerID d,
                 dp_Priority := (case dp_Priority d of None \<Rightarrow> dp_Priority out | Some p \<Rightarrow> Some p),
                 dp_ConcurrencyKey := dp_ConcurrencyKey d,
                 dp_ConcurrencyKeyParams := dp_ConcurrencyKeyParams d,
                 dp_SuccessOutcome := dp_SuccessOutcome d,
                 dp_ActionKind := dp_ActionKind d\<rparr>)"

definition IsAuto :: "dispatch_policy \<Rightarrow> bool" where
  "IsAuto d \<longleftrightarrow> dp_Mode d = DispatchAuto"

definition priority :: "dispatch_policy \<Rightarrow> int" where
  "priority d = (case dp_Priority d of Some p \<Rightarrow> p | None \<Rightarrow> DefaultDispatchPriority)"

lemma effective_idem: "effective (Some (effective d)) = effective d"
  by (cases d) (auto simp: effective_def zeroDispatch_def Let_def split: option.splits)

lemma effective_priority: "priority (effective d) = (case d of None \<Rightarrow> DefaultDispatchPriority | Some p \<Rightarrow> priority p)"
  by (cases d) (auto simp: effective_def priority_def zeroDispatch_def Let_def split: option.splits)

lemma effective_IsAuto: "IsAuto (effective d) \<longleftrightarrow> (\<exists>p. d = Some p \<and> IsAuto p)"
  by (cases d) (auto simp: effective_def IsAuto_def zeroDispatch_def Let_def)

definition freezeConcurrencyKey :: "dispatch_policy \<Rightarrow> (string \<times> string) list \<Rightarrow> dispatch_policy" where
  "freezeConcurrencyKey policy params =
     (case dp_ConcurrencyKeyParams policy of
        None \<Rightarrow> policy
      | Some spec \<Rightarrow>
          policy\<lparr>dp_ConcurrencyKey := ck_Prefix spec @ goGet params (ck_FromInstanceParam spec),
                 dp_ConcurrencyKeyParams := None\<rparr>)"

lemma freezeConcurrencyKey_plain:
  "dp_ConcurrencyKeyParams (freezeConcurrencyKey p ps) = None"
  by (simp add: freezeConcurrencyKey_def split: option.splits)

section \<open>Lease duration (lease.go)\<close>

definition DefaultLeaseTTL :: int64 where
  "DefaultLeaseTTL = 30 * Second"

definition leaseTTL :: "node_definition option \<Rightarrow> lease_policy option \<Rightarrow> int64" where
  "leaseTTL node templateDefault =
     (case Option.bind node nd_LeasePolicy of
        Some p \<Rightarrow>
          if 0 < sint (lp_TTLSeconds p) then lp_TTLSeconds p * Second
          else (case templateDefault of
                  Some q \<Rightarrow> if 0 < sint (lp_TTLSeconds q) then lp_TTLSeconds q * Second
                            else DefaultLeaseTTL
                | None \<Rightarrow> DefaultLeaseTTL)
      | None \<Rightarrow>
          (case templateDefault of
             Some q \<Rightarrow> if 0 < sint (lp_TTLSeconds q) then lp_TTLSeconds q * Second
                       else DefaultLeaseTTL
           | None \<Rightarrow> DefaultLeaseTTL))"

section \<open>The policies interface (policies.go)\<close>

record policies =
  pol_CompletionGates :: "string \<Rightarrow> string \<Rightarrow> string \<Rightarrow> gate_definition list"
  pol_RetryPolicy :: "string \<Rightarrow> string \<Rightarrow> string \<Rightarrow> retry_policy option"
  pol_DispatchPolicy :: "string \<Rightarrow> string \<Rightarrow> string \<Rightarrow> dispatch_policy option"
  pol_Template :: "string \<Rightarrow> string \<Rightarrow> template option result"
  pol_ChildSnapshot :: "string \<Rightarrow> (snapshot \<times> bool) result"

definition findNode :: "template \<Rightarrow> string \<Rightarrow> node_definition result" where
  "findNode tmpl nodeID =
     (case find (\<lambda>n. nd_ID n = nodeID) (tm_Nodes tmpl) of
        Some n \<Rightarrow> Inr n
      | None \<Rightarrow> Inl (Errorf ''node %q not found in template %s@%s''
                      [nodeID, tm_TemplateID tmpl, tm_TemplateVersion tmpl]))"

text \<open>
  \<^verbatim>\<open>templatePolicies\<close> reads templates through \<^verbatim>\<open>Store.LoadTemplate\<close> and children through
  \<^verbatim>\<open>Store.loadCurrent\<close>, which are its two arguments here.
\<close>

definition policyNode ::
  "(string \<Rightarrow> string \<Rightarrow> template result) \<Rightarrow> string \<Rightarrow> string \<Rightarrow> string \<Rightarrow>
   (template \<times> node_definition) option" where
  "policyNode load templateID templateVersion nodeID =
     (case load templateID templateVersion of
        Inl _ \<Rightarrow> None
      | Inr tmpl \<Rightarrow> (case findNode tmpl nodeID of Inl _ \<Rightarrow> None | Inr node \<Rightarrow> Some (tmpl, node)))"

definition templatePolicies ::
  "(string \<Rightarrow> string \<Rightarrow> template result) \<Rightarrow> (string \<Rightarrow> (snapshot \<times> bool) result) \<Rightarrow> policies" where
  "templatePolicies load current =
     \<lparr>pol_CompletionGates = (\<lambda>t v n.
        case policyNode load t v n of None \<Rightarrow> [] | Some (_, node) \<Rightarrow> nd_Gates node),
      pol_RetryPolicy = (\<lambda>t v n.
        case policyNode load t v n of
          None \<Rightarrow> None
        | Some (tmpl, node) \<Rightarrow>
            (case nd_RetryPolicy node of Some r \<Rightarrow> Some r | None \<Rightarrow> tm_DefaultRetry tmpl)),
      pol_DispatchPolicy = (\<lambda>t v n.
        case policyNode load t v n of
          None \<Rightarrow> None
        | Some (_, node) \<Rightarrow>
            (case nd_Dispatch node of
               None \<Rightarrow> None
             | Some d \<Rightarrow> Some ((effective (Some d))\<lparr>dp_ActionKind := ac_Kind (nd_Action node)\<rparr>))),
      pol_Template = (\<lambda>t v. case load t v of Inl e \<Rightarrow> Inl e | Inr tmpl \<Rightarrow> Inr (Some tmpl)),
      pol_ChildSnapshot = current\<rparr>"

text \<open>
  The reducer-side lookups: a nil \<^verbatim>\<open>Policies\<close> reads as no template knowledge.
\<close>

definition completionGatesFor :: "policies option \<Rightarrow> snapshot \<Rightarrow> string \<Rightarrow> gate_definition list" where
  "completionGatesFor pol s nodeID =
     (case pol of
        None \<Rightarrow> []
      | Some p \<Rightarrow> pol_CompletionGates p (inst_TemplateID (snap_Instance s))
                    (inst_TemplateVersion (snap_Instance s)) nodeID)"

definition dispatchPolicyFor :: "policies option \<Rightarrow> snapshot \<Rightarrow> string \<Rightarrow> dispatch_policy option" where
  "dispatchPolicyFor pol s nodeID =
     (case pol of
        None \<Rightarrow> None
      | Some p \<Rightarrow>
          (case pol_DispatchPolicy p (inst_TemplateID (snap_Instance s))
                  (inst_TemplateVersion (snap_Instance s)) nodeID of
             None \<Rightarrow> None
           | Some d \<Rightarrow> Some (effective (Some d))))"

definition retryPolicyFor :: "policies option \<Rightarrow> snapshot \<Rightarrow> string \<Rightarrow> retry_policy option" where
  "retryPolicyFor pol s nodeID =
     (case pol of
        None \<Rightarrow> None
      | Some p \<Rightarrow> pol_RetryPolicy p (inst_TemplateID (snap_Instance s))
                    (inst_TemplateVersion (snap_Instance s)) nodeID)"

definition applyDispatchPolicy :: "policies option \<Rightarrow> snapshot \<Rightarrow> activation \<Rightarrow> string \<Rightarrow> activation" where
  "applyDispatchPolicy pol s a nodeID =
     (case dispatchPolicyFor pol s nodeID of
        None \<Rightarrow> a
      | Some policy0 \<Rightarrow>
          (let policy = freezeConcurrencyKey policy0 (inst_Params (snap_Instance s))
           in if IsAuto policy \<or> dp_ConcurrencyKey policy \<noteq> ''''
              then a\<lparr>act_Dispatch := Some policy\<rparr> else a))"

lemma applyDispatchPolicy_frame [simp]:
  "act_ID (applyDispatchPolicy pol s a n) = act_ID a"
  "act_NodeID (applyDispatchPolicy pol s a n) = act_NodeID a"
  "act_Status (applyDispatchPolicy pol s a n) = act_Status a"
  "act_ActiveLease (applyDispatchPolicy pol s a n) = act_ActiveLease a"
  "act_AttemptIDs (applyDispatchPolicy pol s a n) = act_AttemptIDs a"
  "act_CausedBy (applyDispatchPolicy pol s a n) = act_CausedBy a"
  "act_ResolvedGates (applyDispatchPolicy pol s a n) = act_ResolvedGates a"
  by (simp_all add: applyDispatchPolicy_def Let_def split: option.splits)

end
