(* ===== verification/Wf_Contracts.thy ===== *)
theory Wf_Contracts
  imports Wf_Policies
begin

text \<open>
  The pure evaluators of the kernel: declared outputs, outcome resolution, terminal attempt
  facts and required gates (\<^verbatim>\<open>contracts.go\<close>), and the field validation of gate commands
  (\<^verbatim>\<open>gates.go\<close>). Each is given with the lemmas that say what its result means.
\<close>

section \<open>Declared outputs and outcomes (contracts.go)\<close>

text \<open>
  The first loop of \<^verbatim>\<open>validateDeclaredOutputs\<close>: it walks the supplied values and returns the set
  of definition ids seen, or the error of the first undeclared or repeated one.
\<close>

fun seenOutputs :: "node_definition \<Rightarrow> string set \<Rightarrow> output_value list \<Rightarrow> string set result" where
  "seenOutputs node seen [] = Inr seen"
| "seenOutputs node seen (ov # ovs) =
     (if ov_DefinitionID ov \<notin> set (map od_ID (nd_Outputs node))
      then Inl (Errorf ''workflow output %q is not declared on node %q'' [ov_DefinitionID ov, nd_ID node])
      else if ov_DefinitionID ov \<in> seen
      then Inl (Errorf ''workflow output %q is declared multiple times on node %q'' [ov_DefinitionID ov, nd_ID node])
      else seenOutputs node (insert (ov_DefinitionID ov) seen) ovs)"

definition validateDeclaredOutputs :: "node_definition \<Rightarrow> output_value list \<Rightarrow> unit result" where
  "validateDeclaredOutputs node outputs =
     bindE (seenOutputs node {} outputs) (\<lambda>seen.
       case find (\<lambda>d. od_Required d \<and> od_ID d \<notin> seen) (nd_Outputs node) of
         None \<Rightarrow> Inr ()
       | Some d \<Rightarrow> Inl (Errorf ''required workflow output %q is missing on node %q'' [od_ID d, nd_ID node]))"

lemma seenOutputs_Inr_iff:
  "seenOutputs node seen ovs = Inr r \<longleftrightarrow>
     r = seen \<union> ov_DefinitionID ` set ovs \<and>
     ov_DefinitionID ` set ovs \<subseteq> od_ID ` set (nd_Outputs node) \<and>
     distinct (map ov_DefinitionID ovs) \<and> seen \<inter> ov_DefinitionID ` set ovs = {}"
proof (induction ovs arbitrary: seen)
  case (Cons a ovs)
  show ?case
    by (simp only: seenOutputs.simps) (auto simp: Cons.IH)
qed auto

lemma validateDeclaredOutputs_ok_iff:
  "validateDeclaredOutputs node ovs = Inr () \<longleftrightarrow>
     distinct (map ov_DefinitionID ovs) \<and>
     ov_DefinitionID ` set ovs \<subseteq> od_ID ` set (nd_Outputs node) \<and>
     od_ID ` {d \<in> set (nd_Outputs node). od_Required d} \<subseteq> ov_DefinitionID ` set ovs"
  by (auto simp: validateDeclaredOutputs_def bindE_eq_Inr_iff seenOutputs_Inr_iff find_None_iff
      find_Some_iff image_subset_iff split: option.splits)

definition resolveOutcome :: "template \<Rightarrow> node_definition \<Rightarrow> string \<Rightarrow> string \<times> bool \<times> bool" where
  "resolveOutcome tmpl node outcome =
     (if outcome = '''' then ('''', False, False)
      else case map_of (nd_Branches node) outcome of
        Some target \<Rightarrow> (target, False, True)
      | None \<Rightarrow>
          (case find (\<lambda>d. oc_Name d = outcome) (nd_Outcomes node) of
             Some d \<Rightarrow> if oc_TargetNodeID d \<noteq> '''' then (oc_TargetNodeID d, oc_Terminal d, True)
                       else ('''', oc_Terminal d, True)
           | None \<Rightarrow>
               if outcome \<in> set (tm_TerminalOutcomes tmpl) then ('''', True, True)
               else (case nd_Checkpoint node of
                       None \<Rightarrow> ('''', False, False)
                     | Some c \<Rightarrow> if outcome \<in> set (cp_ExitOutcomes c) then ('''', False, True)
                                 else ('''', False, False))))"

definition validateDeclaredOutcome :: "template \<Rightarrow> node_definition \<Rightarrow> string \<Rightarrow> unit result" where
  "validateDeclaredOutcome tmpl node outcome =
     (case resolveOutcome tmpl node outcome of
        (_, _, declared) \<Rightarrow>
          if declared then Inr ()
          else Inl (Errorf ''workflow node %q outcome %q is not declared (undeclared outcomes are rejected)''
                      [nd_ID node, outcome]))"

text \<open>The outcomes a node may report: its branches, its outcomes, the template's terminal outcomes
  and the exits of its checkpoint.\<close>

definition declaredOutcomes :: "template \<Rightarrow> node_definition \<Rightarrow> string set" where
  "declaredOutcomes tmpl node =
     (fst ` set (nd_Branches node) \<union> oc_Name ` set (nd_Outcomes node) \<union>
      set (tm_TerminalOutcomes tmpl) \<union>
      (case nd_Checkpoint node of None \<Rightarrow> {} | Some c \<Rightarrow> set (cp_ExitOutcomes c))) - {''''}"

lemma validateDeclaredOutcome_ok_iff:
  "validateDeclaredOutcome tmpl node outcome = Inr () \<longleftrightarrow> outcome \<in> declaredOutcomes tmpl node"
proof (cases "outcome = []")
  case False
  have br: "map_of (nd_Branches node) outcome \<noteq> None \<longleftrightarrow> outcome \<in> fst ` set (nd_Branches node)"
    by (simp add: map_of_eq_None_iff)
  have oc: "find (\<lambda>d. oc_Name d = outcome) (nd_Outcomes node) \<noteq> None \<longleftrightarrow>
      outcome \<in> oc_Name ` set (nd_Outcomes node)"
    by (auto simp: find_None_iff)
  have "snd (snd (resolveOutcome tmpl node outcome)) \<longleftrightarrow>
      map_of (nd_Branches node) outcome \<noteq> None \<or>
      find (\<lambda>d. oc_Name d = outcome) (nd_Outcomes node) \<noteq> None \<or>
      outcome \<in> set (tm_TerminalOutcomes tmpl) \<or>
      outcome \<in> (case nd_Checkpoint node of None \<Rightarrow> {} | Some c \<Rightarrow> set (cp_ExitOutcomes c))"
    using False by (simp add: resolveOutcome_def split: option.split)
  with br oc False show ?thesis
    by (simp add: validateDeclaredOutcome_def declaredOutcomes_def case_prod_beta)
qed (simp add: validateDeclaredOutcome_def resolveOutcome_def declaredOutcomes_def)

lemma resolveOutcome_branch:
  "outcome \<noteq> '''' \<Longrightarrow> map_of (nd_Branches node) outcome = Some target \<Longrightarrow>
   resolveOutcome tmpl node outcome = (target, False, True)"
  by (simp add: resolveOutcome_def)

section \<open>Terminal attempt facts and required gates (contracts.go)\<close>

definition completionRequiresTerminal :: "node_definition \<Rightarrow> bool" where
  "completionRequiresTerminal node =
     (case nd_Completion node of
        None \<Rightarrow> False
      | Some c \<Rightarrow> (case cc_Kind c of CompletionFiles \<Rightarrow> True | CompletionGit \<Rightarrow> True | _ \<Rightarrow> False))"

fun terminalAttemptStatus :: "attempt_status \<Rightarrow> bool" where
  "terminalAttemptStatus AttemptSucceeded = True"
| "terminalAttemptStatus AttemptFailed = True"
| "terminalAttemptStatus AttemptCanceled = True"
| "terminalAttemptStatus AttemptTimedOut = True"
| "terminalAttemptStatus AttemptPanicked = True"
| "terminalAttemptStatus _ = False"

definition attemptHasTerminalFact :: "attempt option \<Rightarrow> bool" where
  "attemptHasTerminalFact at = (case at of None \<Rightarrow> False | Some a \<Rightarrow> terminalAttemptStatus (at_Status a))"

definition satisfiedGateIDs :: "workflow_instance \<Rightarrow> activation \<Rightarrow> string list" where
  "satisfiedGateIDs inst act =
     map gi_GateID (filter (\<lambda>gi. gi_ActivationID gi = act_ID act \<and>
                            (gi_Status gi = GatePassed \<or> gi_Status gi = GateWaived)) (inst_Gates inst))"

definition unsatisfiedRequiredGates ::
  "workflow_instance \<Rightarrow> gate_definition list \<Rightarrow> activation \<Rightarrow> string list" where
  "unsatisfiedRequiredGates inst defs act =
     map gd_ID (filter (\<lambda>d. gd_Required d \<and> gd_ID d \<notin> set (satisfiedGateIDs inst act)) defs)"

text \<open>What it means that the required gates of an activation are resolved.\<close>

definition gatesResolved :: "workflow_instance \<Rightarrow> gate_definition list \<Rightarrow> activation \<Rightarrow> bool" where
  "gatesResolved inst defs act \<longleftrightarrow>
     (\<forall>d\<in>set defs. gd_Required d \<longrightarrow>
        (\<exists>gi\<in>set (inst_Gates inst). gi_GateID gi = gd_ID d \<and> gi_ActivationID gi = act_ID act \<and>
           gi_Status gi \<in> {GatePassed, GateWaived}))"

lemma unsatisfiedRequiredGates_Nil_iff:
  "unsatisfiedRequiredGates inst defs act = [] \<longleftrightarrow> gatesResolved inst defs act"
proof -
  have "unsatisfiedRequiredGates inst defs act = [] \<longleftrightarrow>
      (\<forall>d\<in>set defs. gd_Required d \<longrightarrow> gd_ID d \<in> set (satisfiedGateIDs inst act))"
    by (auto simp: unsatisfiedRequiredGates_def filter_empty_conv)
  moreover have "\<And>x. x \<in> set (satisfiedGateIDs inst act) \<longleftrightarrow>
      (\<exists>gi\<in>set (inst_Gates inst). gi_GateID gi = x \<and> gi_ActivationID gi = act_ID act \<and>
         gi_Status gi \<in> {GatePassed, GateWaived})"
    by (auto simp: satisfiedGateIDs_def)
  ultimately show ?thesis
    by (simp only: gatesResolved_def)
qed

lemma unsatisfiedRequiredGates_no_defs [simp]: "unsatisfiedRequiredGates inst [] act = []"
  by (simp add: unsatisfiedRequiredGates_def)

section \<open>Gate commands (gates.go)\<close>

fun validGateOperation :: "gate_operation \<Rightarrow> bool" where
  "validGateOperation (GateOpOther _) = False"
| "validGateOperation _ = True"

fun gateStatusLegal :: "gate_operation \<Rightarrow> gate_status \<Rightarrow> bool" where
  "gateStatusLegal GateOpSatisfy st = (st = GatePassed)"
| "gateStatusLegal GateOpWaive st = (st = GateWaived)"
| "gateStatusLegal GateOpReject st = (st = GateRejected)"
| "gateStatusLegal GateOpExternalResult st =
     (st \<in> {GatePending, GatePassed, GateFailed, GateActionRequired, GateChangesRequested})"
| "gateStatusLegal (GateOpOther _) st = False"

definition validateGateCommand :: "command \<Rightarrow> unit result" where
  "validateGateCommand command =
     (case cmd_Gate command of
        None \<Rightarrow> Inl (Err ''gate command requires a gate instance'')
      | Some gate \<Rightarrow>
        if gi_ActivationID gate \<noteq> '''' \<and> id_ActivationID (cmd_Identity command) \<noteq> '''' \<and>
           gi_ActivationID gate \<noteq> id_ActivationID (cmd_Identity command)
        then Inl (Errorf ''gate activation %q does not match command identity activation %q''
                    [gi_ActivationID gate, id_ActivationID (cmd_Identity command)])
        else
          (let op = cmd_Operation command; opn = gateOperationString op in
           if op = GateOpOther '''' then Inr ()
           else if \<not> validGateOperation op then Inl (Errorf ''unknown gate operation %q'' [opn])
           else bindE
             (if op \<in> {GateOpSatisfy, GateOpReject, GateOpWaive} then
                if gi_Actor gate = '''' then Inl (Errorf ''gate operation %q requires an actor'' [opn])
                else if gi_Reason gate = '''' then Inl (Errorf ''gate operation %q requires a reason'' [opn])
                else if gi_EvidenceIDs gate = []
                then Inl (Errorf ''gate operation %q requires at least one evidence id'' [opn])
                else Inr ()
              else
                if gi_PollID gate = '''' then Inl (Err ''external_result gate requires a poll id'')
                else if gi_Source gate = '''' then Inl (Err ''external_result gate requires a source'')
                else if (case gi_ObservedAt gate of None \<Rightarrow> True | Some t \<Rightarrow> IsZero t)
                then Inl (Err ''external_result gate requires a non-zero observed_at timestamp'')
                else if gi_Subject gate = None then Inl (Err ''external_result gate requires a subject'')
                else if gi_ResponseHash gate = ''''
                then Inl (Err ''external_result gate requires a response hash'')
                else if gi_EvidenceIDs gate = []
                then Inl (Err ''external_result gate requires at least one evidence id'')
                else Inr ())
             (\<lambda>_. if \<not> gateStatusLegal op (gi_Status gate)
                  then Inl (Errorf ''gate status %q is inconsistent with operation %q''
                              [gateStatusString (gi_Status gate), opn])
                  else Inr ())))"

lemma validateGateCommand_structured:
  assumes "validateGateCommand command = Inr ()" and "cmd_Operation command \<noteq> GateOpOther ''''"
  shows "\<exists>gate. cmd_Gate command = Some gate \<and> gi_EvidenceIDs gate \<noteq> [] \<and>
           gateStatusLegal (cmd_Operation command) (gi_Status gate) \<and>
           (cmd_Operation command \<in> {GateOpSatisfy, GateOpReject, GateOpWaive} \<longrightarrow>
              gi_Actor gate \<noteq> '''' \<and> gi_Reason gate \<noteq> '''') \<and>
           (cmd_Operation command = GateOpExternalResult \<longrightarrow>
              gi_PollID gate \<noteq> '''' \<and> gi_Source gate \<noteq> '''' \<and> gi_Subject gate \<noteq> None \<and>
              gi_ResponseHash gate \<noteq> '''')"
  using assms
  by (auto simp: validateGateCommand_def Let_def bindE_eq_Inr_iff split: option.splits if_splits)

end
