(* ===== verification/Wf_Transitions.thy ===== *)
theory Wf_Transitions
  imports Wf_Contracts
begin

text \<open>
  The replay side of the kernel (\<^verbatim>\<open>transitions.go\<close>): one function per event handler and
  \<open>applyEvent\<close>, which dispatches on the event kind. A handler takes the snapshot, the index of the
  activation the event targets (\<open>None\<close> for a nil pointer) and the event with its legacy defaults
  filled in, and returns the new snapshot or the error. A handler that fails returns no snapshot:
  \<open>Reduce\<close> works on a clone and drops it on error.
\<close>

section \<open>Lookups\<close>

fun claimableActivationStatus :: "activation_status \<Rightarrow> bool" where
  "claimableActivationStatus ActivationPending = True"
| "claimableActivationStatus ActivationReady = True"
| "claimableActivationStatus ActivationLeaseExpired = True"
| "claimableActivationStatus _ = False"

definition copyReadyAt :: "activation \<Rightarrow> event \<Rightarrow> activation" where
  "copyReadyAt a ev = (case ev_ReadyAt ev of None \<Rightarrow> a | Some t \<Rightarrow> a\<lparr>act_ReadyAt := Some t\<rparr>)"

lemma copyReadyAt_frame [simp]:
  "act_ID (copyReadyAt a ev) = act_ID a"
  "act_NodeID (copyReadyAt a ev) = act_NodeID a"
  "act_Status (copyReadyAt a ev) = act_Status a"
  "act_ActiveLease (copyReadyAt a ev) = act_ActiveLease a"
  "act_AttemptIDs (copyReadyAt a ev) = act_AttemptIDs a"
  "act_CausedBy (copyReadyAt a ev) = act_CausedBy a"
  "act_SelectedOutcome (copyReadyAt a ev) = act_SelectedOutcome a"
  by (simp_all add: copyReadyAt_def split: option.split)

definition matchesActivation :: "string \<Rightarrow> string \<Rightarrow> activation \<Rightarrow> bool" where
  "matchesActivation nodeID activationID a \<longleftrightarrow>
     act_NodeID a = nodeID \<and> (activationID = '''' \<or> act_ID a = activationID)"

definition findActivation :: "workflow_instance \<Rightarrow> string \<Rightarrow> string \<Rightarrow> nat option result" where
  "findActivation inst nodeID activationID =
     (let matches = filter (\<lambda>i. matchesActivation nodeID activationID (inst_Activations inst ! i))
                      [0..<length (inst_Activations inst)]
      in if activationID \<noteq> '''' then
           (case matches of [] \<Rightarrow> Inr None | i # _ \<Rightarrow> Inr (Some i))
         else
           (case matches of
              [i] \<Rightarrow> Inr (Some i)
            | [] \<Rightarrow> Inr None
            | _ \<Rightarrow> Inl (Errorf ''ambiguous activation for node %q: activation_id required'' [nodeID])))"

lemma findActivation_SomeD:
  assumes "findActivation inst n a = Inr (Some i)"
  shows "i < length (inst_Activations inst)" and "matchesActivation n a (inst_Activations inst ! i)"
proof -
  let ?ms = "filter (\<lambda>i. matchesActivation n a (inst_Activations inst ! i)) [0..<length (inst_Activations inst)]"
  from assms have "i \<in> set ?ms"
    by (auto simp: findActivation_def Let_def simp del: set_filter split: if_splits list.splits)
  then show "i < length (inst_Activations inst)" and "matchesActivation n a (inst_Activations inst ! i)"
    by auto
qed

definition findAttempt :: "snapshot \<Rightarrow> activation \<Rightarrow> string \<Rightarrow> nat option" where
  "findAttempt s a attemptID =
     (if attemptID \<noteq> '''' then findIdx (\<lambda>x. at_ID x = attemptID) (attempts s)
      else if act_AttemptIDs a = [] then None
      else findIdx (\<lambda>x. at_ID x = last (act_AttemptIDs a)) (attempts s))"

lemma findAttempt_less: "findAttempt s a x = Some j \<Longrightarrow> j < length (attempts s)"
  by (auto simp: findAttempt_def dest: findIdx_less split: if_splits)

definition findChildReference :: "workflow_instance \<Rightarrow> string \<Rightarrow> nat option" where
  "findChildReference inst nodeID = findIdx (\<lambda>c. cr_NodeID c = nodeID) (inst_Children inst)"

definition instanceHasBlockedActivation :: "snapshot \<Rightarrow> bool" where
  "instanceHasBlockedActivation s \<longleftrightarrow> (\<exists>a\<in>set (acts s). act_Status a = ActivationBlocked)"

definition gateIsBound :: "policies option \<Rightarrow> snapshot \<Rightarrow> activation \<Rightarrow> gate_instance \<Rightarrow> bool" where
  "gateIsBound pol s a gate =
     (case find (\<lambda>d. gd_ID d = gi_GateID gate) (completionGatesFor pol s (act_NodeID a)) of
        None \<Rightarrow> False
      | Some d \<Rightarrow> gd_SubjectBinding d \<noteq> None)"

text \<open>\<^verbatim>\<open>event.Transition == nil || event.Transition.TargetNodeID == ""\<close>.\<close>

definition noBranch :: "event \<Rightarrow> bool" where
  "noBranch ev = (case ev_Transition ev of None \<Rightarrow> True | Some t \<Rightarrow> tr_TargetNodeID t = '''')"

definition markInstanceBlocked :: "snapshot \<Rightarrow> snapshot" where
  "markInstanceBlocked s =
     (if inst_Status (snap_Instance s) \<in> {WorkflowActive, WorkflowBlocked}
      then setStatus WorkflowBlocked s else s)"

lemma markInstanceBlocked_frame [simp]:
  "acts (markInstanceBlocked s) = acts s"
  "attempts (markInstanceBlocked s) = attempts s"
  "inst_Gates (snap_Instance (markInstanceBlocked s)) = inst_Gates (snap_Instance s)"
  "inst_Evidence (snap_Instance (markInstanceBlocked s)) = inst_Evidence (snap_Instance s)"
  "inst_Outputs (snap_Instance (markInstanceBlocked s)) = inst_Outputs (snap_Instance s)"
  "inst_WorkflowID (snap_Instance (markInstanceBlocked s)) = inst_WorkflowID (snap_Instance s)"
  "inst_TemplateID (snap_Instance (markInstanceBlocked s)) = inst_TemplateID (snap_Instance s)"
  "inst_TemplateVersion (snap_Instance (markInstanceBlocked s)) = inst_TemplateVersion (snap_Instance s)"
  "inst_TerminalOutcome (snap_Instance (markInstanceBlocked s)) = inst_TerminalOutcome (snap_Instance s)"
  "snap_AppliedEventIDs (markInstanceBlocked s) = snap_AppliedEventIDs s"
  "snap_Idempotency (markInstanceBlocked s) = snap_Idempotency s"
  by (simp_all add: markInstanceBlocked_def)

section \<open>Creation of activations\<close>

definition pendingActivation :: "string \<Rightarrow> string \<Rightarrow> gotime \<Rightarrow> activation" where
  "pendingActivation aid nodeID now =
     zeroActivation\<lparr>act_ID := aid, act_NodeID := nodeID, act_Status := ActivationPending,
                    act_CreatedAt := now, act_UpdatedAt := now\<rparr>"

definition appendActivation :: "activation \<Rightarrow> snapshot \<Rightarrow> snapshot" where
  "appendActivation a = updInst (\<lambda>x. x\<lparr>inst_Activations := inst_Activations x @ [a]\<rparr>)"

text \<open>The loop of \<^verbatim>\<open>applyInstantiated\<close> over the entry nodes and their activation ids.\<close>

fun createEntries :: "policies option \<Rightarrow> event \<Rightarrow> (string \<times> string) list \<Rightarrow> snapshot \<Rightarrow> snapshot" where
  "createEntries pol ev [] s = s"
| "createEntries pol ev ((aid, nodeID) # es) s =
     createEntries pol ev es
       (appendActivation
          (applyDispatchPolicy pol s (copyReadyAt (pendingActivation aid nodeID (ev_At ev)) ev) nodeID) s)"

text \<open>
  Go indexes \<^verbatim>\<open>event.ActivationIDs[i]\<close> for every entry node; the legacy defaults make the list long
  enough, so pairing the two lists meets every entry node.
\<close>

definition initInstance :: "event \<Rightarrow> instance_record \<Rightarrow> workflow_instance \<Rightarrow> workflow_instance" where
  "initInstance ev rec x =
     x\<lparr>inst_WorkflowID := id_WorkflowID (ev_Identity ev),
       inst_InstanceID := ir_InstanceID rec,
       inst_TemplateID := ir_TemplateID rec,
       inst_TemplateVersion := ir_TemplateVersion rec,
       inst_Params := ir_Params rec,
       inst_Revision := ev_Sequence ev,
       inst_Status := WorkflowActive,
       inst_CreatedAt := ev_At ev,
       inst_UpdatedAt := ev_At ev,
       inst_Children := inst_Children x @ ir_Children rec\<rparr>"

definition applyInstantiated :: "policies option \<Rightarrow> snapshot \<Rightarrow> event \<Rightarrow> snapshot result" where
  "applyInstantiated pol s ev =
     (if inst_WorkflowID (snap_Instance s) \<noteq> '''' then Inl (Err ''instance already instantiated'')
      else case ev_Instantiated ev of
        None \<Rightarrow> Inl (Err ''instantiate event requires an instance record'')
      | Some rec \<Rightarrow>
          Inr (createEntries pol ev (zip (ev_ActivationIDs ev) (ir_EntryNodes rec))
            (updInst (initInstance ev rec) s)))"

definition applyRerouted :: "policies option \<Rightarrow> snapshot \<Rightarrow> event \<Rightarrow> snapshot" where
  "applyRerouted pol s ev =
     (let created = (pendingActivation (hd (ev_ActivationIDs ev)) (id_NodeID (ev_Identity ev)) (ev_At ev))
                      \<lparr>act_Iteration := ev_Iteration ev, act_Selection := ev_Selection ev\<rparr>
      in appendActivation
           (applyDispatchPolicy pol s (copyReadyAt created ev) (id_NodeID (ev_Identity ev))) s)"

definition applyTransition :: "policies option \<Rightarrow> snapshot \<Rightarrow> event \<Rightarrow> snapshot result" where
  "applyTransition pol s ev =
     (case ev_Transition ev of
        None \<Rightarrow> Inl (Err ''transition event requires a transition'')
      | Some t \<Rightarrow>
          if tr_TargetNodeID t = '''' then Inl (Err ''transition event requires a target node'')
          else
            (let created = (pendingActivation (hd (ev_ActivationIDs ev)) (tr_TargetNodeID t) (ev_At ev))
                             \<lparr>act_IncomingOutcome := tr_Outcome t, act_CausedBy := ev_CausedBy ev,
                              act_ResolvedGates := ev_ResolvedGates ev\<rparr>
             in Inr (appendActivation
                       (applyDispatchPolicy pol s (copyReadyAt created ev) (tr_TargetNodeID t)) s)))"

section \<open>Leases and attempts\<close>

definition applyLeased :: "snapshot \<Rightarrow> nat option \<Rightarrow> event \<Rightarrow> snapshot result" where
  "applyLeased s act ev =
     (case act of
        None \<Rightarrow> Inl (Err ''leased event requires an activation'')
      | Some i \<Rightarrow>
        (let a = acts s ! i in
         if ev_LeaseID ev = '''' then Inl (Err ''leased event requires a lease id'')
         else if \<not> claimableActivationStatus (act_Status a)
         then Inl (Errorf ''cannot lease activation in status %q'' [activationStatusString (act_Status a)])
         else if (case act_ActiveLease a of None \<Rightarrow> False | Some l \<Rightarrow> ls_ID l \<noteq> ev_LeaseID ev)
         then Inl (Err ''activation already carries a different lease'')
         else
           (let base = zeroLease\<lparr>ls_ID := ev_LeaseID ev, ls_ActivationID := act_ID a, ls_Owner := ev_Actor ev\<rparr>;
                l = (case ev_Lease ev of
                       None \<Rightarrow> base
                     | Some m \<Rightarrow> base\<lparr>ls_TokenDigest := ls_TokenDigest m, ls_AcquiredAt := ls_AcquiredAt m,
                                      ls_ExpiresAt := ls_ExpiresAt m\<rparr>)
            in Inr (updAct i (\<lambda>a. a\<lparr>act_Status := ActivationLeased, act_ActiveLease := Some l,
                                     act_UpdatedAt := ev_At ev\<rparr>) s))))"

definition applyStarted :: "snapshot \<Rightarrow> nat option \<Rightarrow> event \<Rightarrow> snapshot result" where
  "applyStarted s act ev =
     (case act of
        None \<Rightarrow> Inl (Err ''started event requires an activation'')
      | Some i \<Rightarrow>
        (let a = acts s ! i in
         if act_Status a \<noteq> ActivationLeased
         then Inl (Errorf ''cannot start activation in status %q'' [activationStatusString (act_Status a)])
         else
           (let at = zeroAttempt\<lparr>at_ID := ev_AttemptID ev, at_Identity := ev_Identity ev,
                                 at_Status := AttemptStarting, at_Diagnostics := ev_Diagnostics ev\<rparr>;
                s1 = updAct i (\<lambda>a. a\<lparr>act_AttemptIDs := act_AttemptIDs a @ [ev_AttemptID ev],
                                     act_Status := ActivationRunning, act_UpdatedAt := ev_At ev,
                                     act_Selection := (case ev_Selection ev of None \<Rightarrow> act_Selection a
                                                       | Some sel \<Rightarrow> Some sel)\<rparr>) s
            in Inr (updInst (\<lambda>x. x\<lparr>inst_Attempts := inst_Attempts x @ [at]\<rparr>) s1))))"

definition applyAttemptIdentified :: "snapshot \<Rightarrow> nat option \<Rightarrow> event \<Rightarrow> snapshot result" where
  "applyAttemptIdentified s act ev =
     (case act of
        None \<Rightarrow> Inl (Err ''attempt_identified event requires an activation'')
      | Some i \<Rightarrow>
        (case findAttempt s (acts s ! i) (ev_AttemptID ev) of
           None \<Rightarrow> Inl (Err ''identified attempt not found'')
         | Some j \<Rightarrow>
             (let new = ev_Identity ev;
                  s1 = updAttempt j (\<lambda>x. x\<lparr>at_Identity := (at_Identity x)
                    \<lparr>id_RuntimeID := (if id_RuntimeID new \<noteq> '''' then id_RuntimeID new else id_RuntimeID (at_Identity x)),
                     id_SessionID := (if id_SessionID new \<noteq> '''' then id_SessionID new else id_SessionID (at_Identity x)),
                     id_RunID := (if id_RunID new \<noteq> '''' then id_RunID new else id_RunID (at_Identity x))\<rparr>\<rparr>) s
              in Inr (updAct i (\<lambda>a. a\<lparr>act_UpdatedAt := ev_At ev\<rparr>) s1))))"

text \<open>The attempt record of a termination: status, end time and the inert marker.\<close>

definition terminateAttempt :: "event \<Rightarrow> attempt \<Rightarrow> attempt" where
  "terminateAttempt ev x =
     x\<lparr>at_Status := ev_AttemptStatus ev, at_EndedAt := Some (ev_At ev),
       at_MarkerKind := ev_MarkerKind ev, at_MarkerLabel := ev_MarkerLabel ev,
       at_WorkingDirectory := (if ev_WorkingDirectory ev \<noteq> '''' then ev_WorkingDirectory ev
                               else at_WorkingDirectory x)\<rparr>"

text \<open>
  The tail of \<^verbatim>\<open>applyAttemptTerminated\<close>: the lease is released, then a cancellation blocks, a
  failure inside the retry budget re-arms the activation, and an exhausted budget follows the
  policy's exhaustion.
\<close>

definition releaseAndRetry :: "policies option \<Rightarrow> snapshot \<Rightarrow> nat \<Rightarrow> event \<Rightarrow> snapshot" where
  "releaseAndRetry pol s i ev =
     (let s1 = updAct i (\<lambda>a. a\<lparr>act_Status := ActivationAttemptFailed, act_ActiveLease := None,
                               act_UpdatedAt := ev_At ev\<rparr>) s;
          a = acts s1 ! i;
          block = (\<lambda>s. markInstanceBlocked (updAct i (\<lambda>a. a\<lparr>act_Status := ActivationBlocked\<rparr>) s))
      in if ev_AttemptStatus ev = AttemptCanceled then block s1
         else
           case retryPolicyFor pol s1 (act_NodeID a) of
             None \<Rightarrow> block s1
           | Some policy \<Rightarrow>
               if int (length (act_AttemptIDs a)) < rp_MaximumAttempts policy
               then updAct i (\<lambda>a. copyReadyAt (a\<lparr>act_Status := ActivationReady\<rparr>) ev) s1
               else
                 (case rp_Exhaustion policy of
                    RetryExhaustionFail \<Rightarrow>
                      (let s2 = updAct i (\<lambda>a. a\<lparr>act_Status := ActivationAttemptFailed\<rparr>) s1
                       in if inst_Status (snap_Instance s2) = WorkflowActive then setStatus WorkflowFailed s2 else s2)
                  | RetryExhaustionOutcome \<Rightarrow>
                      updAct i (\<lambda>a. a\<lparr>act_SelectedOutcome := rp_Outcome policy,
                                      act_Status := ActivationAttemptFailed\<rparr>) s1
                  | _ \<Rightarrow> block s1))"

definition applyAttemptTerminated :: "policies option \<Rightarrow> snapshot \<Rightarrow> nat option \<Rightarrow> event \<Rightarrow> snapshot result" where
  "applyAttemptTerminated pol s act ev =
     (case act of
        None \<Rightarrow> Inl (Err ''attempt_terminated event requires an activation'')
      | Some i \<Rightarrow>
        if \<not> terminalAttemptStatus (ev_AttemptStatus ev)
        then Inl (Errorf ''attempt_terminated event has invalid status %q'' [attemptStatusString (ev_AttemptStatus ev)])
        else case findAttempt s (acts s ! i) (ev_AttemptID ev) of
          None \<Rightarrow> Inl (Err ''terminated attempt not found'')
        | Some j \<Rightarrow>
            if terminalAttemptStatus (at_Status (attempts s ! j)) then Inr s
            else
              (let s1 = updAttempt j (terminateAttempt ev) s
               in if ev_AttemptStatus ev = AttemptSucceeded then Inr s1
                  else if act_Status (acts s1 ! i) = ActivationSatisfied \<or>
                          inst_Status (snap_Instance s1) = WorkflowCompleted \<or>
                          inst_Status (snap_Instance s1) = WorkflowCanceled
                  then Inr s1
                  else Inr (releaseAndRetry pol s1 i ev)))"

definition applyHeartbeat :: "snapshot \<Rightarrow> nat option \<Rightarrow> event \<Rightarrow> snapshot result" where
  "applyHeartbeat s act ev =
     (case act of
        None \<Rightarrow> Inl (Err ''heartbeat event requires an activation'')
      | Some i \<Rightarrow>
        (case act_ActiveLease (acts s ! i) of
           None \<Rightarrow> Inl (Err ''heartbeat requires an active lease'')
         | Some l \<Rightarrow>
             if ev_LeaseID ev \<noteq> '''' \<and> ev_LeaseID ev \<noteq> ls_ID l
             then Inl (Err ''heartbeat lease does not match the active lease'')
             else
               (let l' = (case ev_Lease ev of
                            Some m \<Rightarrow> l\<lparr>ls_LastHeartbeatAt := ls_LastHeartbeatAt m, ls_ExpiresAt := ls_ExpiresAt m\<rparr>
                          | None \<Rightarrow> l\<lparr>ls_LastHeartbeatAt := Some 0\<rparr>)
                in Inr (updAct i (\<lambda>a. a\<lparr>act_ActiveLease := Some l'\<rparr>) s))))"

text \<open>The loop of \<^verbatim>\<open>applyLeaseExpired\<close> over the attempt ids of the activation.\<close>

definition timeOutAttempt :: "gotime \<Rightarrow> activation \<Rightarrow> snapshot \<Rightarrow> string \<Rightarrow> snapshot" where
  "timeOutAttempt expiredAt a s attemptID =
     (case findAttempt s a attemptID of
        None \<Rightarrow> s
      | Some j \<Rightarrow>
          if at_Status (attempts s ! j) \<in> {AttemptStarting, AttemptRunning}
          then updAttempt j (\<lambda>x. x\<lparr>at_Status := AttemptTimedOut, at_EndedAt := Some expiredAt\<rparr>) s
          else s)"

definition applyLeaseExpired :: "snapshot \<Rightarrow> nat option \<Rightarrow> event \<Rightarrow> snapshot result" where
  "applyLeaseExpired s act ev =
     (case act of
        None \<Rightarrow> Inl (Err ''lease_expired event requires an activation'')
      | Some i \<Rightarrow>
        (let a = acts s ! i in
         case act_ActiveLease a of
           None \<Rightarrow> Inl (Err ''lease_expired requires an active lease'')
         | Some l \<Rightarrow>
             if ev_LeaseID ev \<noteq> '''' \<and> ev_LeaseID ev \<noteq> ls_ID l
             then Inl (Err ''lease_expired lease does not match the active lease'')
             else
               (let s1 = foldl (timeOutAttempt (ls_ExpiresAt l) a) s (act_AttemptIDs a)
                in Inr (updAct i (\<lambda>a. (copyReadyAt (a\<lparr>act_Status := ActivationLeaseExpired,
                                                      act_ActiveLease := None\<rparr>) ev)
                                       \<lparr>act_UpdatedAt := ev_At ev\<rparr>) s1))))"

section \<open>Completion, composition and gates\<close>

definition recordOutputs :: "event \<Rightarrow> snapshot \<Rightarrow> snapshot" where
  "recordOutputs ev = updInst (\<lambda>x. x\<lparr>inst_Evidence := inst_Evidence x @ ev_Evidence ev,
                                    inst_Outputs := inst_Outputs x @ ev_Outputs ev\<rparr>)"

definition settle :: "activation_status \<Rightarrow> event \<Rightarrow> activation \<Rightarrow> activation" where
  "settle st ev a = a\<lparr>act_Status := st, act_SelectedOutcome := ev_Outcome ev,
                      act_ActiveLease := None, act_UpdatedAt := ev_At ev\<rparr>"

definition completeWorkflow :: "string \<Rightarrow> snapshot \<Rightarrow> snapshot" where
  "completeWorkflow outcome = updInst (\<lambda>x. x\<lparr>inst_Status := WorkflowCompleted, inst_TerminalOutcome := outcome\<rparr>)"

definition satisfyActivation :: "policies option \<Rightarrow> snapshot \<Rightarrow> nat \<Rightarrow> event \<Rightarrow> snapshot result" where
  "satisfyActivation pol s i ev =
     (let a = acts s ! i;
          defs = completionGatesFor pol s (act_NodeID a)
      in if unsatisfiedRequiredGates (snap_Instance s) defs a \<noteq> []
         then Inr (recordOutputs ev (updAct i (settle ActivationAwaitingGate ev) s))
         else
           (let s1 = recordOutputs ev (updAct i (settle ActivationSatisfied ev) s)
            in if noBranch ev then Inr (completeWorkflow (ev_Outcome ev) s1) else Inr s1))"

definition leaseMismatch :: "activation \<Rightarrow> event \<Rightarrow> bool" where
  "leaseMismatch a ev =
     (case act_ActiveLease a of None \<Rightarrow> False | Some l \<Rightarrow> ev_LeaseID ev = '''' \<or> ls_ID l \<noteq> ev_LeaseID ev)"

definition applyCompleted :: "policies option \<Rightarrow> snapshot \<Rightarrow> nat option \<Rightarrow> event \<Rightarrow> snapshot result" where
  "applyCompleted pol s act ev =
     (case act of
        None \<Rightarrow> Inl (Err ''completed event requires an activation'')
      | Some i \<Rightarrow>
        (let a = acts s ! i in
         if ev_Outcome ev = '''' then Inl (Err ''completed event requires an outcome'')
         else if act_Status a \<notin> {ActivationRunning, ActivationAwaitingCompletion, ActivationReady,
                                  ActivationAttemptFailed, ActivationBlocked, ActivationLeaseExpired}
         then Inl (Errorf ''cannot complete activation in status %q'' [activationStatusString (act_Status a)])
         else if leaseMismatch a ev
         then Inl (Err ''completed event lease does not match the active lease'')
         else satisfyActivation pol s i ev))"

definition updChild :: "nat \<Rightarrow> (child_reference \<Rightarrow> child_reference) \<Rightarrow> snapshot \<Rightarrow> snapshot" where
  "updChild c f = updInst (\<lambda>x. x\<lparr>inst_Children := (inst_Children x)[c := f (inst_Children x ! c)]\<rparr>)"

definition applyChildAttached :: "snapshot \<Rightarrow> nat option \<Rightarrow> event \<Rightarrow> snapshot result" where
  "applyChildAttached s act ev =
     (case act of
        None \<Rightarrow> Inl (Err ''child_attached event requires an activation'')
      | Some i \<Rightarrow>
        (let a = acts s ! i in
         if act_Status a \<notin> {ActivationLeased, ActivationRunning}
         then Inl (Errorf ''cannot attach child to activation in status %q'' [activationStatusString (act_Status a)])
         else if leaseMismatch a ev
         then Inl (Err ''child_attached event lease does not match the active lease'')
         else case findChildReference (snap_Instance s) (act_NodeID a) of
           None \<Rightarrow> Inl (Errorf ''no child reference for node %q in the composition manifest'' [act_NodeID a])
         | Some c \<Rightarrow>
             (let ref = inst_Children (snap_Instance s) ! c in
              if cr_ParentActivation ref \<noteq> '''' \<and> cr_ParentActivation ref \<noteq> act_ID a
              then Inl (Errorf ''child %s already attached to activation %q''
                          [cr_WorkflowID ref, cr_ParentActivation ref])
              else Inr (updAct i (\<lambda>a. a\<lparr>act_Status := ActivationAwaitingChild, act_UpdatedAt := ev_At ev\<rparr>)
                         (updChild c (\<lambda>r. r\<lparr>cr_ParentActivation := act_ID a\<rparr>) s)))))"

definition applyChildOutcome :: "policies option \<Rightarrow> snapshot \<Rightarrow> nat option \<Rightarrow> event \<Rightarrow> snapshot result" where
  "applyChildOutcome pol s act ev =
     (case act of
        None \<Rightarrow> Inl (Err ''child_outcome event requires an activation'')
      | Some i \<Rightarrow>
        (let a = acts s ! i in
         if ev_Outcome ev = '''' then Inl (Err ''child_outcome event requires an outcome'')
         else if act_Status a \<noteq> ActivationAwaitingChild
         then Inl (Errorf ''cannot resolve child outcome for activation in status %q''
                     [activationStatusString (act_Status a)])
         else if leaseMismatch a ev
         then Inl (Err ''child_outcome event lease does not match the active lease'')
         else case findChildReference (snap_Instance s) (act_NodeID a) of
           None \<Rightarrow> Inl (Errorf ''child reference for node %q is not attached to this activation'' [act_NodeID a])
         | Some c \<Rightarrow>
             if cr_ParentActivation (inst_Children (snap_Instance s) ! c) \<noteq> act_ID a
             then Inl (Errorf ''child reference for node %q is not attached to this activation'' [act_NodeID a])
             else satisfyActivation pol
                    (updChild c (\<lambda>r. r\<lparr>cr_Outcome := ev_Outcome ev, cr_Outputs := ev_ChildOutputs ev\<rparr>) s) i ev))"

definition sameGateInstance :: "gate_instance \<Rightarrow> gate_instance \<Rightarrow> bool" where
  "sameGateInstance gate gi \<longleftrightarrow>
     (if gi_ID gate \<noteq> '''' then gi_ID gi = gi_ID gate
      else gi_GateID gi = gi_GateID gate \<and> gi_ActivationID gi = gi_ActivationID gate)"

definition recordGate :: "gate_instance \<Rightarrow> gate_instance list \<Rightarrow> gate_instance list" where
  "recordGate gate gs =
     (case findIdx (sameGateInstance gate) gs of
        Some k \<Rightarrow> gs[k := gate]
      | None \<Rightarrow> gs @ [gate])"

text \<open>The branch of \<^verbatim>\<open>applyGate\<close> for a passed or waived gate, after the decision was recorded.\<close>

definition resolveGate :: "policies option \<Rightarrow> snapshot \<Rightarrow> nat \<Rightarrow> event \<Rightarrow> gate_instance \<Rightarrow> snapshot" where
  "resolveGate pol s i ev gate =
     (let s1 = updAct i (\<lambda>a. if gi_Outcome gate \<noteq> '''' then a\<lparr>act_SelectedOutcome := gi_Outcome gate\<rparr> else a) s;
          a = acts s1 ! i;
          defs = completionGatesFor pol s1 (act_NodeID a)
      in if unsatisfiedRequiredGates (snap_Instance s1) defs a \<noteq> []
         then updAct i (\<lambda>a. a\<lparr>act_Status := ActivationAwaitingGate, act_UpdatedAt := ev_At ev\<rparr>) s1
         else
           (let s2 = updAct i (\<lambda>a. a\<lparr>act_Status := ActivationSatisfied, act_UpdatedAt := ev_At ev\<rparr>) s1
            in if noBranch ev then completeWorkflow (act_SelectedOutcome a) s2 else s2))"

definition applyGate :: "policies option \<Rightarrow> snapshot \<Rightarrow> nat option \<Rightarrow> event \<Rightarrow> snapshot result" where
  "applyGate pol s act ev =
     (case act of
        None \<Rightarrow> Inl (Err ''gate event requires an activation'')
      | Some i \<Rightarrow>
        (case ev_Gate ev of
           None \<Rightarrow> Inl (Err ''gate event requires a gate instance'')
         | Some gate \<Rightarrow>
           (let a = acts s ! i in
            if act_Status a \<in> {ActivationSatisfied, ActivationRejected} \<or>
               inst_Status (snap_Instance s) \<in> {WorkflowCompleted, WorkflowFailed}
            then Inr s
            else
              (let s1 = updInst (\<lambda>x. x\<lparr>inst_Gates := recordGate gate (inst_Gates x)\<rparr>) s;
                   put = (\<lambda>st s. updAct i (\<lambda>a. a\<lparr>act_Status := st, act_UpdatedAt := ev_At ev\<rparr>) s)
               in case gi_Status gate of
                    GatePassed \<Rightarrow> Inr (resolveGate pol s1 i ev gate)
                  | GateWaived \<Rightarrow> Inr (resolveGate pol s1 i ev gate)
                  | GateRejected \<Rightarrow> Inr (put ActivationRejected s1)
                  | GateFailed \<Rightarrow>
                      if \<not> noBranch ev then Inr (put ActivationRejected s1)
                      else if gateIsBound pol s1 a gate then Inr (put ActivationAwaitingGate s1)
                      else Inr (put ActivationRejected s1)
                  | GatePending \<Rightarrow> Inr (put ActivationAwaitingGate s1)
                  | _ \<Rightarrow> if \<not> noBranch ev then Inr (put ActivationRejected s1)
                         else Inr (put ActivationAwaitingGate s1)))))"

definition applyExternalParked :: "snapshot \<Rightarrow> nat option \<Rightarrow> event \<Rightarrow> snapshot result" where
  "applyExternalParked s act ev =
     (case act of
        None \<Rightarrow> Inl (Err ''external_parked event requires an activation'')
      | Some i \<Rightarrow>
        (let a = acts s ! i in
         if ev_Outcome ev = '''' then Inl (Err ''external_parked event requires the pinned success outcome'')
         else if \<not> claimableActivationStatus (act_Status a)
         then Inl (Errorf ''cannot park activation in status %q'' [activationStatusString (act_Status a)])
         else Inr (updAct i (\<lambda>a. a\<lparr>act_Status := ActivationAwaitingGate,
                                  act_SelectedOutcome := ev_Outcome ev, act_UpdatedAt := ev_At ev\<rparr>) s)))"

definition applySkipped :: "snapshot \<Rightarrow> nat option \<Rightarrow> event \<Rightarrow> snapshot result" where
  "applySkipped s act ev =
     (case act of
        None \<Rightarrow> Inl (Err ''skipped event requires an activation'')
      | Some i \<Rightarrow>
        (let a = acts s ! i in
         if ev_Actor ev = '''' \<or> ev_Reason ev = ''''
         then Inl (Err ''skipped event requires both actor and reason'')
         else if act_Status a \<noteq> ActivationPending
         then Inl (Errorf ''cannot skip activation in status %q'' [activationStatusString (act_Status a)])
         else Inr (updAct i (\<lambda>a. a\<lparr>act_Status := ActivationSkipped, act_UpdatedAt := ev_At ev\<rparr>) s)))"

definition applyUnblocked :: "snapshot \<Rightarrow> nat option \<Rightarrow> event \<Rightarrow> snapshot result" where
  "applyUnblocked s act ev =
     (case act of
        None \<Rightarrow> Inl (Err ''unblocked event requires an activation'')
      | Some i \<Rightarrow>
        (let a = acts s ! i in
         if ev_Actor ev = '''' \<or> ev_Reason ev = ''''
         then Inl (Err ''unblocked event requires both actor and reason'')
         else if act_Status a \<noteq> ActivationBlocked
         then Inl (Errorf ''cannot unblock activation in status %q'' [activationStatusString (act_Status a)])
         else
           (let s1 = updAct i (\<lambda>a. (copyReadyAt (a\<lparr>act_Status := ActivationReady\<rparr>) ev)\<lparr>act_UpdatedAt := ev_At ev\<rparr>) s
            in if inst_Status (snap_Instance s1) = WorkflowBlocked \<and> \<not> instanceHasBlockedActivation s1
               then Inr (setStatus WorkflowActive s1) else Inr s1)))"

definition cancelActivation :: "gotime \<Rightarrow> activation \<Rightarrow> activation" where
  "cancelActivation now a0 =
     (let a = a0\<lparr>act_ActiveLease := None\<rparr> in
      if act_Status a \<in> {ActivationSatisfied, ActivationRejected, ActivationSkipped, ActivationCanceled} then a
      else a\<lparr>act_Status := ActivationCanceled, act_UpdatedAt := now\<rparr>)"

definition applyCanceled :: "snapshot \<Rightarrow> event \<Rightarrow> snapshot result" where
  "applyCanceled s ev =
     (if ev_Actor ev = '''' \<or> ev_Reason ev = ''''
      then Inl (Err ''canceled event requires both actor and reason'')
      else if inst_Status (snap_Instance s) \<in> {WorkflowCompleted, WorkflowFailed, WorkflowCanceled}
      then Inl (Errorf ''cannot cancel an instance already in status %q''
                  [workflowStatusString (inst_Status (snap_Instance s))])
      else Inr (updInst (\<lambda>x. x\<lparr>inst_Status := WorkflowCanceled, inst_CanceledBy := ev_Actor ev,
                               inst_CancelReason := ev_Reason ev,
                               inst_Activations := map (cancelActivation (ev_At ev)) (inst_Activations x),
                               inst_UpdatedAt := ev_At ev\<rparr>) s))"

section \<open>The dispatcher\<close>

fun canceledMutatingKinds :: "event_kind \<Rightarrow> bool" where
  "canceledMutatingKinds EventInstantiated = False"
| "canceledMutatingKinds EventAttemptTerminated = False"
| "canceledMutatingKinds EventAttemptIdentified = False"
| "canceledMutatingKinds EventHeartbeat = False"
| "canceledMutatingKinds EventCanceled = False"
| "canceledMutatingKinds (EventOther _) = False"
| "canceledMutatingKinds _ = True"

definition stampInstance :: "event \<Rightarrow> snapshot \<Rightarrow> snapshot" where
  "stampInstance ev = updInst (\<lambda>x. x\<lparr>inst_UpdatedAt := ev_At ev\<rparr>)"

definition targetOf :: "snapshot \<Rightarrow> event \<Rightarrow> nat option result" where
  "targetOf s ev =
     (if ev_Kind ev \<in> {EventInstantiated, EventRerouted, EventCanceled} then Inr None
      else bindE (findActivation (snap_Instance s) (id_NodeID (ev_Identity ev)) (id_ActivationID (ev_Identity ev)))
        (\<lambda>a. case a of
           None \<Rightarrow> Inl (Errorf ''activation not found for node %q activation %q''
                          [id_NodeID (ev_Identity ev), id_ActivationID (ev_Identity ev)])
         | Some i \<Rightarrow> Inr (Some i)))"

definition dispatchEvent :: "policies option \<Rightarrow> snapshot \<Rightarrow> nat option \<Rightarrow> event \<Rightarrow> snapshot result" where
  "dispatchEvent pol s act ev =
     (case ev_Kind ev of
        EventInstantiated \<Rightarrow> bindE (applyInstantiated pol s ev) (\<lambda>s1. Inr (stampInstance ev s1))
      | EventLeased \<Rightarrow> applyLeased s act ev
      | EventStarted \<Rightarrow> applyStarted s act ev
      | EventAttemptIdentified \<Rightarrow> applyAttemptIdentified s act ev
      | EventAttemptTerminated \<Rightarrow> applyAttemptTerminated pol s act ev
      | EventCompleted \<Rightarrow> applyCompleted pol s act ev
      | EventGate \<Rightarrow> applyGate pol s act ev
      | EventSkipped \<Rightarrow> applySkipped s act ev
      | EventUnblocked \<Rightarrow> applyUnblocked s act ev
      | EventRerouted \<Rightarrow> Inr (stampInstance ev (applyRerouted pol s ev))
      | EventHeartbeat \<Rightarrow> applyHeartbeat s act ev
      | EventLeaseExpired \<Rightarrow> applyLeaseExpired s act ev
      | EventChildAttached \<Rightarrow> applyChildAttached s act ev
      | EventExternalParked \<Rightarrow> applyExternalParked s act ev
      | EventCanceled \<Rightarrow> applyCanceled s ev
      | EventChildOutcome \<Rightarrow> applyChildOutcome pol s act ev
      | EventTransition \<Rightarrow> bindE (applyTransition pol s ev) (\<lambda>s1. Inr (stampInstance ev s1))
      | EventOther k \<Rightarrow> Inl (Errorf ''unsupported event kind %q'' [k]))"

definition applyEvent :: "minted \<Rightarrow> policies option \<Rightarrow> snapshot \<Rightarrow> event \<Rightarrow> snapshot result" where
  "applyEvent mi pol s ev0 =
     (let ev = withLegacyDefaults mi ev0 in
      if inst_WorkflowID (snap_Instance s) \<noteq> '''' \<and> id_WorkflowID (ev_Identity ev) \<noteq> '''' \<and>
         id_WorkflowID (ev_Identity ev) \<noteq> inst_WorkflowID (snap_Instance s)
      then Inl (Errorf ''workflow identity mismatch: event targets %q, instance is %q''
                  [id_WorkflowID (ev_Identity ev), inst_WorkflowID (snap_Instance s)])
      else if inst_Status (snap_Instance s) = WorkflowCanceled \<and> canceledMutatingKinds (ev_Kind ev)
      then Inl (Errorf ''cannot apply %s to a canceled workflow instance'' [eventKindString (ev_Kind ev)])
      else bindE (targetOf s ev) (\<lambda>act. dispatchEvent pol s act ev))"

end
