(* ===== verification/Wf_Reducer.thy ===== *)
theory Wf_Reducer
  imports Wf_Transitions
begin

text \<open>
  The reducer (\<^verbatim>\<open>reducer.go\<close>) and the replay of an event log (\<^verbatim>\<open>replay.go\<close>).

  \<^verbatim>\<open>Reduce\<close> works on a deep copy of the snapshot (\<^verbatim>\<open>cloneSnapshot\<close>), so the caller's value is never
  changed; values of HOL have no identity and the copy is the value itself. The clock and the
  UUIDs a legacy event may need are given per event by an oracle \<open>orc\<close>.

  The locale \<open>event_log\<close> is the interface the store relies on: a step that skips applied events
  and records each new one. Its lemmas (idempotent replay, recovery from a snapshot of a prefix)
  are proved once from the two laws and used through the interpretation on \<open>Reduce\<close>.
\<close>

section \<open>Reduce\<close>

definition containsID :: "string list \<Rightarrow> string \<Rightarrow> bool" where
  "containsID ids x \<longleftrightarrow> x \<in> set ids"

definition recordEvent :: "event \<Rightarrow> snapshot \<Rightarrow> snapshot" where
  "recordEvent ev s =
     (let s1 = s\<lparr>snap_AppliedEventIDs := snap_AppliedEventIDs s @ [ev_ID ev]\<rparr>;
          s2 = (if ev_IdempotencyKey ev \<noteq> ''''
                then s1\<lparr>snap_Idempotency := (snap_Idempotency s1)(ev_IdempotencyKey ev \<mapsto>
                          (case snap_Idempotency s1 (ev_IdempotencyKey ev) of
                             None \<Rightarrow> [] | Some ids \<Rightarrow> ids) @ [ev_ID ev])\<rparr>
                else s1)
      in updInst (\<lambda>x. x\<lparr>inst_Revision := ev_Sequence ev\<rparr>) s2)"

definition Reduce :: "minted \<Rightarrow> policies option \<Rightarrow> snapshot \<Rightarrow> event \<Rightarrow> snapshot result" where
  "Reduce mi pol s ev =
     (if containsID (snap_AppliedEventIDs s) (ev_ID ev) then Inr s
      else bindE (applyEvent mi pol s ev) (\<lambda>s'. Inr (recordEvent ev s')))"

lemma recordEvent_frame [simp]:
  "acts (recordEvent ev s) = acts s"
  "attempts (recordEvent ev s) = attempts s"
  "inst_Status (snap_Instance (recordEvent ev s)) = inst_Status (snap_Instance s)"
  "inst_WorkflowID (snap_Instance (recordEvent ev s)) = inst_WorkflowID (snap_Instance s)"
  "inst_Gates (snap_Instance (recordEvent ev s)) = inst_Gates (snap_Instance s)"
  "inst_Evidence (snap_Instance (recordEvent ev s)) = inst_Evidence (snap_Instance s)"
  "inst_Outputs (snap_Instance (recordEvent ev s)) = inst_Outputs (snap_Instance s)"
  "inst_TemplateID (snap_Instance (recordEvent ev s)) = inst_TemplateID (snap_Instance s)"
  "inst_TemplateVersion (snap_Instance (recordEvent ev s)) = inst_TemplateVersion (snap_Instance s)"
  "inst_TerminalOutcome (snap_Instance (recordEvent ev s)) = inst_TerminalOutcome (snap_Instance s)"
  by (simp_all add: recordEvent_def Let_def updInst_def)

lemma recordEvent_log [simp]:
  "snap_AppliedEventIDs (recordEvent ev s) = snap_AppliedEventIDs s @ [ev_ID ev]"
  "inst_Revision (snap_Instance (recordEvent ev s)) = ev_Sequence ev"
  by (simp_all add: recordEvent_def Let_def updInst_def)

lemma recordEvent_idempotency:
  "snap_Idempotency (recordEvent ev s) k =
     (if k = ev_IdempotencyKey ev \<and> k \<noteq> ''''
      then Some ((case snap_Idempotency s k of None \<Rightarrow> [] | Some ids \<Rightarrow> ids) @ [ev_ID ev])
      else snap_Idempotency s k)"
  by (auto simp: recordEvent_def Let_def updInst_def)

lemma Reduce_seen: "ev_ID ev \<in> set (snap_AppliedEventIDs s) \<Longrightarrow> Reduce mi pol s ev = Inr s"
  by (simp add: Reduce_def containsID_def)

lemma Reduce_newE:
  assumes "Reduce mi pol s ev = Inr t" and "ev_ID ev \<notin> set (snap_AppliedEventIDs s)"
  obtains s' where "applyEvent mi pol s ev = Inr s'" and "t = recordEvent ev s'"
  using assms by (auto simp: Reduce_def containsID_def bindE_eq_Inr_iff)

text \<open>A property of snapshots that no handler breaks and that ignores the log fields is kept by
  \<open>Reduce\<close>.\<close>

lemma Reduce_invariant:
  assumes "Reduce mi pol s ev = Inr t" and "I s"
    and "\<And>s'. applyEvent mi pol s ev = Inr s' \<Longrightarrow> I s'"
    and "\<And>s'. I s' \<Longrightarrow> I (recordEvent ev s')"
  shows "I t"
  using assms by (auto simp: Reduce_def bindE_eq_Inr_iff split: if_splits)

section \<open>Case analysis on an applied event\<close>

lemma applyEvent_dispatch:
  assumes "applyEvent mi pol s ev = Inr t"
  obtains act where "targetOf s (withLegacyDefaults mi ev) = Inr act"
    and "dispatchEvent pol s act (withLegacyDefaults mi ev) = Inr t"
    and "\<not> (inst_Status (snap_Instance s) = WorkflowCanceled \<and> canceledMutatingKinds (ev_Kind ev))"
  using assms by (auto simp: applyEvent_def Let_def bindE_eq_Inr_iff split: if_splits)

lemma targetOf_Inr:
  assumes "targetOf s ev = Inr act"
  shows "(ev_Kind ev \<in> {EventInstantiated, EventRerouted, EventCanceled} \<and> act = None) \<or>
    (\<exists>i. act = Some i \<and> i < length (acts s) \<and>
       matchesActivation (id_NodeID (ev_Identity ev)) (id_ActivationID (ev_Identity ev)) (acts s ! i))"
  using assms
  by (auto simp: targetOf_def bindE_eq_Inr_iff intro: findActivation_SomeD split: if_splits option.splits)

text \<open>
  Every applied event is the work of one handler, on an activation index that is in range. The
  rule is the case analysis all preservation proofs start with.
\<close>

lemma applyEvent_cases:
  assumes ap: "applyEvent mi pol s ev0 = Inr t"
    and ev: "ev = withLegacyDefaults mi ev0"
  obtains
    (Instantiated) t' where "ev_Kind ev = EventInstantiated"
      "applyInstantiated pol s ev = Inr t'" "t = stampInstance ev t'"
  | (Rerouted) "ev_Kind ev = EventRerouted" "t = stampInstance ev (applyRerouted pol s ev)"
  | (Transition) t' where "ev_Kind ev = EventTransition"
      "applyTransition pol s ev = Inr t'" "t = stampInstance ev t'"
  | (Canceled) "ev_Kind ev = EventCanceled" "applyCanceled s ev = Inr t"
  | (Leased) i where "ev_Kind ev = EventLeased" "i < length (acts s)" "applyLeased s (Some i) ev = Inr t"
  | (Started) i where "ev_Kind ev = EventStarted" "i < length (acts s)" "applyStarted s (Some i) ev = Inr t"
  | (AttemptIdentified) i where "ev_Kind ev = EventAttemptIdentified" "i < length (acts s)"
      "applyAttemptIdentified s (Some i) ev = Inr t"
  | (AttemptTerminated) i where "ev_Kind ev = EventAttemptTerminated" "i < length (acts s)"
      "applyAttemptTerminated pol s (Some i) ev = Inr t"
  | (Completed) i where "ev_Kind ev = EventCompleted" "i < length (acts s)"
      "applyCompleted pol s (Some i) ev = Inr t"
  | (Gate) i where "ev_Kind ev = EventGate" "i < length (acts s)" "applyGate pol s (Some i) ev = Inr t"
  | (Skipped) i where "ev_Kind ev = EventSkipped" "i < length (acts s)" "applySkipped s (Some i) ev = Inr t"
  | (Unblocked) i where "ev_Kind ev = EventUnblocked" "i < length (acts s)"
      "applyUnblocked s (Some i) ev = Inr t"
  | (Heartbeat) i where "ev_Kind ev = EventHeartbeat" "i < length (acts s)"
      "applyHeartbeat s (Some i) ev = Inr t"
  | (LeaseExpired) i where "ev_Kind ev = EventLeaseExpired" "i < length (acts s)"
      "applyLeaseExpired s (Some i) ev = Inr t"
  | (ChildAttached) i where "ev_Kind ev = EventChildAttached" "i < length (acts s)"
      "applyChildAttached s (Some i) ev = Inr t"
  | (ExternalParked) i where "ev_Kind ev = EventExternalParked" "i < length (acts s)"
      "applyExternalParked s (Some i) ev = Inr t"
  | (ChildOutcome) i where "ev_Kind ev = EventChildOutcome" "i < length (acts s)"
      "applyChildOutcome pol s (Some i) ev = Inr t"
proof -
  from applyEvent_dispatch[OF ap] obtain act
    where tg: "targetOf s ev = Inr act" and d: "dispatchEvent pol s act ev = Inr t"
    by (auto simp: ev)
  have some: "\<exists>i. act = Some i \<and> i < length (acts s)"
    if "ev_Kind ev \<notin> {EventInstantiated, EventRerouted, EventCanceled}"
    using targetOf_Inr[OF tg] that by auto
  show thesis
    by (cases "ev_Kind ev"; (insert d some that; simp add: dispatchEvent_def bindE_eq_Inr_iff))
      blast+
qed

section \<open>No handler touches the log fields\<close>

lemma log_frame_aux [simp]:
  "snap_AppliedEventIDs (recordOutputs ev s) = snap_AppliedEventIDs s"
  "snap_AppliedEventIDs (completeWorkflow out s) = snap_AppliedEventIDs s"
  "snap_AppliedEventIDs (updChild c f s) = snap_AppliedEventIDs s"
  "snap_AppliedEventIDs (stampInstance ev s) = snap_AppliedEventIDs s"
  "snap_AppliedEventIDs (appendActivation a s) = snap_AppliedEventIDs s"
  "snap_Idempotency (recordOutputs ev s) = snap_Idempotency s"
  "snap_Idempotency (completeWorkflow out s) = snap_Idempotency s"
  "snap_Idempotency (updChild c f s) = snap_Idempotency s"
  "snap_Idempotency (stampInstance ev s) = snap_Idempotency s"
  "snap_Idempotency (appendActivation a s) = snap_Idempotency s"
  by (simp_all add: recordOutputs_def completeWorkflow_def updChild_def stampInstance_def
      appendActivation_def)

lemma createEntries_log [simp]:
  "snap_AppliedEventIDs (createEntries pol ev es s) = snap_AppliedEventIDs s"
  "snap_Idempotency (createEntries pol ev es s) = snap_Idempotency s"
  by (induction pol ev es s rule: createEntries.induct) simp_all

lemma timeOutAttempts_log [simp]:
  "snap_AppliedEventIDs (foldl (timeOutAttempt t a) s ids) = snap_AppliedEventIDs s"
  "snap_Idempotency (foldl (timeOutAttempt t a) s ids) = snap_Idempotency s"
  by (induction ids arbitrary: s) (simp_all add: timeOutAttempt_def split: option.split)

lemma releaseAndRetry_log [simp]:
  "snap_AppliedEventIDs (releaseAndRetry pol s i ev) = snap_AppliedEventIDs s"
  "snap_Idempotency (releaseAndRetry pol s i ev) = snap_Idempotency s"
  by (simp_all add: releaseAndRetry_def Let_def split: option.split retry_exhaustion_kind.split)

lemma resolveGate_log [simp]:
  "snap_AppliedEventIDs (resolveGate pol s i ev g) = snap_AppliedEventIDs s"
  "snap_Idempotency (resolveGate pol s i ev g) = snap_Idempotency s"
  by (simp_all add: resolveGate_def Let_def)

definition logFields :: "snapshot \<Rightarrow> string list \<times> (string \<rightharpoonup> string list)" where
  "logFields s = (snap_AppliedEventIDs s, snap_Idempotency s)"

lemma satisfyActivation_log: "satisfyActivation pol s i ev = Inr t \<Longrightarrow> logFields t = logFields s"
  by (auto simp: satisfyActivation_def Let_def logFields_def split: if_splits)

lemma handler_log [frame_rules]:
  "applyInstantiated pol s ev = Inr t \<Longrightarrow> logFields t = logFields s"
  "applyLeased s act ev = Inr t \<Longrightarrow> logFields t = logFields s"
  "applyStarted s act ev = Inr t \<Longrightarrow> logFields t = logFields s"
  "applyAttemptIdentified s act ev = Inr t \<Longrightarrow> logFields t = logFields s"
  "applyAttemptTerminated pol s act ev = Inr t \<Longrightarrow> logFields t = logFields s"
  "applyHeartbeat s act ev = Inr t \<Longrightarrow> logFields t = logFields s"
  "applyLeaseExpired s act ev = Inr t \<Longrightarrow> logFields t = logFields s"
  "applyExternalParked s act ev = Inr t \<Longrightarrow> logFields t = logFields s"
  "applySkipped s act ev = Inr t \<Longrightarrow> logFields t = logFields s"
  "applyUnblocked s act ev = Inr t \<Longrightarrow> logFields t = logFields s"
  "applyCanceled s ev = Inr t \<Longrightarrow> logFields t = logFields s"
  "applyTransition pol s ev = Inr t \<Longrightarrow> logFields t = logFields s"
  "applyChildAttached s act ev = Inr t \<Longrightarrow> logFields t = logFields s"
  by (auto simp: applyInstantiated_def applyLeased_def applyStarted_def applyAttemptIdentified_def
      applyAttemptTerminated_def applyHeartbeat_def applyLeaseExpired_def applyExternalParked_def
      applySkipped_def applyUnblocked_def applyCanceled_def applyTransition_def applyChildAttached_def
      Let_def logFields_def split: option.splits if_splits)

lemma handler_log_settle [frame_rules]:
  "applyCompleted pol s act ev = Inr t \<Longrightarrow> logFields t = logFields s"
  "applyChildOutcome pol s act ev = Inr t \<Longrightarrow> logFields t = logFields s"
  "applyGate pol s act ev = Inr t \<Longrightarrow> logFields t = logFields s"
    apply (auto simp: applyCompleted_def Let_def dest: satisfyActivation_log split: option.splits if_splits)[1]
   apply (auto simp: applyChildOutcome_def Let_def logFields_def dest!: satisfyActivation_log
      split: option.splits if_splits)[1]
  apply (auto simp: applyGate_def Let_def logFields_def split: option.splits if_splits gate_status.splits)
  done

lemma applyRerouted_log: "logFields (applyRerouted pol s ev) = logFields s"
  by (simp add: logFields_def applyRerouted_def Let_def)

lemma stampInstance_log: "logFields (stampInstance ev s) = logFields s"
  by (simp add: logFields_def)

lemma applyEvent_logFields: "applyEvent mi pol s ev = Inr t \<Longrightarrow> logFields t = logFields s"
  by (erule applyEvent_cases[OF _ refl])
    (simp_all add: frame_rules applyRerouted_log stampInstance_log)

lemma applyEvent_log:
  assumes "applyEvent mi pol s ev = Inr t"
  shows "snap_AppliedEventIDs t = snap_AppliedEventIDs s" and "snap_Idempotency t = snap_Idempotency s"
  using applyEvent_logFields[OF assms] by (simp_all add: logFields_def)

lemma Reduce_applied:
  assumes "Reduce mi pol s ev = Inr t"
  shows "snap_AppliedEventIDs t =
    (if ev_ID ev \<in> set (snap_AppliedEventIDs s) then snap_AppliedEventIDs s
     else snap_AppliedEventIDs s @ [ev_ID ev])"
  using assms
  by (auto simp: Reduce_def containsID_def bindE_eq_Inr_iff applyEvent_log split: if_splits)

lemma Reduce_revision:
  assumes "Reduce mi pol s ev = Inr t" and "ev_ID ev \<notin> set (snap_AppliedEventIDs s)"
  shows "inst_Revision (snap_Instance t) = ev_Sequence ev"
  using Reduce_newE[OF assms] by (metis recordEvent_log(2))

lemma Reduce_idempotency:
  assumes "Reduce mi pol s ev = Inr t" and "ev_ID ev \<notin> set (snap_AppliedEventIDs s)"
    and "ev_IdempotencyKey ev \<noteq> ''''"
  shows "snap_Idempotency t (ev_IdempotencyKey ev) \<noteq> None"
  using Reduce_newE[OF assms(1,2)] assms(3) by (metis option.distinct(1) recordEvent_idempotency)

lemma Reduce_idempotency_mono:
  assumes "Reduce mi pol s ev = Inr t" and "snap_Idempotency s k \<noteq> None"
  shows "snap_Idempotency t k \<noteq> None"
  using assms
  by (auto simp: Reduce_def bindE_eq_Inr_iff recordEvent_idempotency applyEvent_log split: if_splits)

section \<open>The interface of an event log\<close>

text \<open>
  A log step skips an event whose key was applied and otherwise appends the key. The clients of
  the reducer (the store and the recovery sweep) rely on these two laws only.
\<close>

locale event_log =
  fixes step :: "'s \<Rightarrow> 'e \<Rightarrow> 's result"
    and applied :: "'s \<Rightarrow> 'k list"
    and key :: "'e \<Rightarrow> 'k"
  assumes step_seen: "key e \<in> set (applied s) \<Longrightarrow> step s e = Inr s"
    and step_new: "step s e = Inr t \<Longrightarrow> key e \<notin> set (applied s) \<Longrightarrow> applied t = applied s @ [key e]"
begin

lemma step_mono: "step s e = Inr t \<Longrightarrow> set (applied t) = insert (key e) (set (applied s))"
  using step_new[of s e t] by (cases "key e \<in> set (applied s)") (auto simp: step_seen)

lemma step_idem: "step s e = Inr t \<Longrightarrow> step t e = Inr t"
  by (rule step_seen) (simp add: step_mono[of s e t])

lemma run_mono: "foldE step s es = Inr t \<Longrightarrow> set (applied t) = set (applied s) \<union> key ` set es"
proof (induction es arbitrary: s)
  case (Cons e es)
  then obtain u where "step s e = Inr u" and "foldE step u es = Inr t"
    by (auto simp: bindE_eq_Inr_iff)
  with Cons.IH[of u] step_mono[of s e u] show ?case by simp
qed simp

lemma run_distinct: "foldE step s es = Inr t \<Longrightarrow> distinct (applied s) \<Longrightarrow> distinct (applied t)"
proof (erule foldE_invariant[where I = "\<lambda>s. distinct (applied s)"], assumption)
  fix s e s'
  assume "distinct (applied s)" "step s e = Inr s'"
  then show "distinct (applied s')"
    using step_new[of s e s'] by (cases "key e \<in> set (applied s)") (auto simp: step_seen)
qed

lemma run_seen: "key ` set es \<subseteq> set (applied s) \<Longrightarrow> foldE step s es = Inr s"
  by (induction es) (simp_all add: step_seen)

text \<open>Replaying a log onto the state it produced changes nothing.\<close>

lemma run_idem: "foldE step s es = Inr t \<Longrightarrow> foldE step t es = Inr t"
  by (rule run_seen) (simp add: run_mono[of s es t])

text \<open>
  Recovery: a state materialised from any prefix of the log, given the whole log again, reaches
  the state that the uninterrupted run reaches.
\<close>

lemma recover:
  assumes "foldE step s (xs @ ys) = Inr t" and "foldE step s xs = Inr u"
  shows "foldE step u (xs @ ys) = Inr t"
  using assms run_idem[OF assms(2)] by (simp add: foldE_append)

lemma recover_from_applied:
  assumes "key ` set xs \<subseteq> set (applied u)"
  shows "foldE step u (xs @ ys) = foldE step u ys"
  using run_seen[OF assms] by (simp add: foldE_append)

end

text \<open>The reducer, with the clock and UUIDs of each event given by an oracle, is such a log.\<close>

abbreviation reduceAll ::
  "(event \<Rightarrow> minted) \<Rightarrow> policies option \<Rightarrow> snapshot \<Rightarrow> event list \<Rightarrow> snapshot result" where
  "reduceAll orc pol \<equiv> foldE (\<lambda>s e. Reduce (orc e) pol s e)"

interpretation rlog: event_log "\<lambda>s e. Reduce (orc e) pol s e" snap_AppliedEventIDs ev_ID
  for orc pol
  by unfold_locales (auto simp: Reduce_seen Reduce_applied)

section \<open>Determinism of replay\<close>

lemma Reduce_deterministic: "completeEvent ev \<Longrightarrow> Reduce mi pol s ev = Reduce mi' pol s ev"
  by (simp add: Reduce_def applyEvent_def withLegacyDefaults_complete)

lemma reduceAll_deterministic:
  "\<forall>ev\<in>set evs. completeEvent ev \<Longrightarrow> reduceAll orc pol s evs = reduceAll orc' pol s evs"
  by (rule foldE_cong) (auto intro: Reduce_deterministic)

end
