(* ===== verification/Wf_Lifecycle.thy ===== *)
theory Wf_Lifecycle
  imports Wf_Reducer
begin

text \<open>
  The life cycle of an activation as a state machine, and the proof that the reducer implements
  it. \<open>act_step\<close> has one rule per kind of event that moves an activation (the status diagram of
  \<^verbatim>\<open>docs/workflow.md\<close>, as the handlers realise it); \<open>evolves\<close> lifts it to the append-only list of
  activations. Invariants of single activations are proved over the rules of the machine and
  carried to the reducer by \<open>applyEvent_evolves\<close>.
\<close>

section \<open>The machine\<close>

inductive act_step :: "event_kind \<Rightarrow> activation \<Rightarrow> activation \<Rightarrow> bool" where
  lease: "claimableActivationStatus (act_Status a) \<Longrightarrow> act_Status a' = ActivationLeased \<Longrightarrow>
    act_ActiveLease a' \<noteq> None \<Longrightarrow> act_AttemptIDs a' = act_AttemptIDs a \<Longrightarrow>
    act_SelectedOutcome a' = act_SelectedOutcome a \<Longrightarrow> act_step EventLeased a a'"
| start: "act_Status a = ActivationLeased \<Longrightarrow> act_Status a' = ActivationRunning \<Longrightarrow>
    act_ActiveLease a' = act_ActiveLease a \<Longrightarrow> act_AttemptIDs a' = act_AttemptIDs a @ [x] \<Longrightarrow>
    act_SelectedOutcome a' = act_SelectedOutcome a \<Longrightarrow>
    act_step EventStarted a a'"
| identify: "act_Status a' = act_Status a \<Longrightarrow> act_ActiveLease a' = act_ActiveLease a \<Longrightarrow>
    act_AttemptIDs a' = act_AttemptIDs a \<Longrightarrow>
    act_SelectedOutcome a' = act_SelectedOutcome a \<Longrightarrow> act_step EventAttemptIdentified a a'"
| release: "act_Status a \<noteq> ActivationSatisfied \<Longrightarrow>
    act_Status a' \<in> {ActivationReady, ActivationBlocked, ActivationAttemptFailed} \<Longrightarrow>
    act_ActiveLease a' = None \<Longrightarrow> act_AttemptIDs a' = act_AttemptIDs a \<Longrightarrow>
    act_step EventAttemptTerminated a a'"
| complete: "act_Status a \<in> {ActivationRunning, ActivationAwaitingCompletion, ActivationReady,
      ActivationAttemptFailed, ActivationBlocked, ActivationLeaseExpired} \<Longrightarrow>
    act_Status a' \<in> {ActivationSatisfied, ActivationAwaitingGate} \<Longrightarrow>
    act_ActiveLease a' = None \<Longrightarrow> act_AttemptIDs a' = act_AttemptIDs a \<Longrightarrow> act_step EventCompleted a a'"
| child: "act_Status a = ActivationAwaitingChild \<Longrightarrow>
    act_Status a' \<in> {ActivationSatisfied, ActivationAwaitingGate} \<Longrightarrow>
    act_ActiveLease a' = None \<Longrightarrow> act_AttemptIDs a' = act_AttemptIDs a \<Longrightarrow> act_step EventChildOutcome a a'"
| decide: "act_Status a \<notin> {ActivationSatisfied, ActivationRejected} \<Longrightarrow>
    act_Status a' \<in> {ActivationAwaitingGate, ActivationSatisfied, ActivationRejected} \<Longrightarrow>
    act_ActiveLease a' = act_ActiveLease a \<Longrightarrow> act_AttemptIDs a' = act_AttemptIDs a \<Longrightarrow>
    act_step EventGate a a'"
| skip: "act_Status a = ActivationPending \<Longrightarrow> act_Status a' = ActivationSkipped \<Longrightarrow>
    act_ActiveLease a' = act_ActiveLease a \<Longrightarrow> act_AttemptIDs a' = act_AttemptIDs a \<Longrightarrow>
    act_SelectedOutcome a' = act_SelectedOutcome a \<Longrightarrow>
    act_step EventSkipped a a'"
| unblock: "act_Status a = ActivationBlocked \<Longrightarrow> act_Status a' = ActivationReady \<Longrightarrow>
    act_ActiveLease a' = act_ActiveLease a \<Longrightarrow> act_AttemptIDs a' = act_AttemptIDs a \<Longrightarrow>
    act_SelectedOutcome a' = act_SelectedOutcome a \<Longrightarrow>
    act_step EventUnblocked a a'"
| beat: "act_Status a' = act_Status a \<Longrightarrow> act_ActiveLease a = Some l \<Longrightarrow> act_ActiveLease a' = Some l' \<Longrightarrow>
    ls_ID l' = ls_ID l \<Longrightarrow> ls_Owner l' = ls_Owner l \<Longrightarrow> ls_TokenDigest l' = ls_TokenDigest l \<Longrightarrow>
    act_AttemptIDs a' = act_AttemptIDs a \<Longrightarrow>
    act_SelectedOutcome a' = act_SelectedOutcome a \<Longrightarrow> act_step EventHeartbeat a a'"
| expire: "act_ActiveLease a \<noteq> None \<Longrightarrow> act_Status a' = ActivationLeaseExpired \<Longrightarrow>
    act_ActiveLease a' = None \<Longrightarrow> act_AttemptIDs a' = act_AttemptIDs a \<Longrightarrow>
    act_SelectedOutcome a' = act_SelectedOutcome a \<Longrightarrow> act_step EventLeaseExpired a a'"
| attach: "act_Status a \<in> {ActivationLeased, ActivationRunning} \<Longrightarrow> act_Status a' = ActivationAwaitingChild \<Longrightarrow>
    act_ActiveLease a' = act_ActiveLease a \<Longrightarrow> act_AttemptIDs a' = act_AttemptIDs a \<Longrightarrow>
    act_SelectedOutcome a' = act_SelectedOutcome a \<Longrightarrow>
    act_step EventChildAttached a a'"
| park: "claimableActivationStatus (act_Status a) \<Longrightarrow> act_Status a' = ActivationAwaitingGate \<Longrightarrow>
    act_ActiveLease a' = act_ActiveLease a \<Longrightarrow> act_AttemptIDs a' = act_AttemptIDs a \<Longrightarrow>
    act_step EventExternalParked a a'"
| cancel: "(if act_Status a \<in> {ActivationSatisfied, ActivationRejected, ActivationSkipped, ActivationCanceled}
      then act_Status a' = act_Status a else act_Status a' = ActivationCanceled) \<Longrightarrow>
    act_ActiveLease a' = None \<Longrightarrow> act_AttemptIDs a' = act_AttemptIDs a \<Longrightarrow>
    act_SelectedOutcome a' = act_SelectedOutcome a \<Longrightarrow> act_step EventCanceled a a'"

inductive_cases act_step_kindE: "act_step k a a'"

text \<open>What identifies a visit to a node never changes.\<close>

definition visit :: "activation \<Rightarrow>
  string \<times> string \<times> int \<times> string \<times> string list \<times> (string \<times> resolved_gate) list \<times> gotime" where
  "visit a = (act_ID a, act_NodeID a, act_Iteration a, act_IncomingOutcome a, act_CausedBy a,
              act_ResolvedGates a, act_CreatedAt a)"

definition act_effect :: "event_kind \<Rightarrow> activation \<Rightarrow> activation \<Rightarrow> bool" where
  "act_effect k a a' \<longleftrightarrow> visit a' = visit a \<and> (a' = a \<or> act_step k a a')"

definition freshActivation :: "activation \<Rightarrow> bool" where
  "freshActivation a \<longleftrightarrow>
     act_Status a = ActivationPending \<and> act_ActiveLease a = None \<and> act_AttemptIDs a = []"

definition evolves :: "event_kind \<Rightarrow> activation list \<Rightarrow> activation list \<Rightarrow> bool" where
  "evolves k xs ys \<longleftrightarrow>
     (\<exists>zs news. ys = zs @ news \<and> list_all2 (act_effect k) xs zs \<and> list_all freshActivation news)"

lemma act_effect_refl [simp]: "act_effect k a a"
  by (simp add: act_effect_def)

lemma act_effectI: "visit a' = visit a \<Longrightarrow> act_step k a a' \<Longrightarrow> act_effect k a a'"
  by (simp add: act_effect_def)

lemma evolves_refl [simp]: "evolves k xs xs"
  unfolding evolves_def by (rule exI[of _ xs]) (simp add: list_all2_refl)

lemma evolves_update:
  assumes "i < length xs" and "act_effect k (xs ! i) a'"
  shows "evolves k xs (xs[i := a'])"
proof -
  have "list_all2 (act_effect k) xs (xs[i := a'])"
    using assms by (auto simp: list_all2_conv_all_nth nth_list_update)
  then show ?thesis unfolding evolves_def by (intro exI[of _ "xs[i := a']"] exI[of _ "[]"]) simp
qed

lemma evolves_append: "list_all freshActivation news \<Longrightarrow> evolves k xs (xs @ news)"
  unfolding evolves_def by (intro exI[of _ xs] exI[of _ news]) (simp add: list_all2_refl)

lemma evolves_map: "(\<And>a. a \<in> set xs \<Longrightarrow> act_effect k a (f a)) \<Longrightarrow> evolves k xs (map f xs)"
  unfolding evolves_def
  by (intro exI[of _ "map f xs"] exI[of _ "[]"]) (auto simp: list_all2_conv_all_nth)

lemma evolves_nth:
  assumes "evolves k xs ys" and "i < length xs"
  shows "i < length ys" and "act_effect k (xs ! i) (ys ! i)"
  using assms by (auto simp: evolves_def list_all2_conv_all_nth nth_append)

text \<open>A property that fresh activations have and that every step keeps holds of the whole list.\<close>

lemma evolves_all:
  assumes "evolves k xs ys" and "list_all P xs"
    and "\<And>a. freshActivation a \<Longrightarrow> P a"
    and "\<And>a a'. P a \<Longrightarrow> act_step k a a' \<Longrightarrow> visit a' = visit a \<Longrightarrow> P a'"
  shows "list_all P ys"
proof -
  obtain zs news where ys: "ys = zs @ news" and 2: "list_all2 (act_effect k) xs zs"
    and n: "list_all freshActivation news"
    using assms(1) by (auto simp: evolves_def)
  have "list_all P zs"
    using 2 assms(2) unfolding list_all_length
    by (auto simp: list_all2_conv_all_nth act_effect_def) (metis assms(4))
  with ys n assms(3) show ?thesis by (auto simp: list_all_iff)
qed

lemma evolves_visits:
  assumes "evolves k xs ys"
  shows "\<exists>news. map visit ys = map visit xs @ news"
proof -
  obtain zs news where ys: "ys = zs @ news" and 2: "list_all2 (act_effect k) xs zs"
    using assms by (auto simp: evolves_def)
  have "map visit zs = map visit xs"
    using 2 by (auto simp: list_all2_conv_all_nth act_effect_def intro: nth_equalityI)
  then show ?thesis using ys by simp
qed

section \<open>The handlers implement the machine\<close>

lemma acts_helpers [simp]:
  "acts (recordOutputs ev s) = acts s"
  "acts (completeWorkflow out s) = acts s"
  "acts (updChild c f s) = acts s"
  "acts (stampInstance ev s) = acts s"
  "acts (appendActivation a s) = acts s @ [a]"
  by (simp_all add: recordOutputs_def completeWorkflow_def updChild_def stampInstance_def
      appendActivation_def updInst_def)

lemma timeOutAttempts_acts [simp]: "acts (foldl (timeOutAttempt t a) s ids) = acts s"
  by (induction ids arbitrary: s) (simp_all add: timeOutAttempt_def split: option.split)

lemma attempts_append [simp]: "acts (updInst (\<lambda>x. x\<lparr>inst_Attempts := f x\<rparr>) s) = acts s"
  by (simp add: updInst_def)

lemma visit_simps [simp]:
  "visit (a\<lparr>act_Status := st\<rparr>) = visit a"
  "visit (a\<lparr>act_ActiveLease := l\<rparr>) = visit a"
  "visit (a\<lparr>act_UpdatedAt := t\<rparr>) = visit a"
  "visit (a\<lparr>act_SelectedOutcome := out\<rparr>) = visit a"
  "visit (a\<lparr>act_AttemptIDs := ids\<rparr>) = visit a"
  "visit (a\<lparr>act_Selection := sel\<rparr>) = visit a"
  "visit (copyReadyAt a ev) = visit a"
  by (simp_all add: visit_def copyReadyAt_def split: option.split)

lemma createEntries_evolves:
  "\<exists>news. acts (createEntries pol ev es s) = acts s @ news \<and> list_all freshActivation news"
proof (induction pol ev es s rule: createEntries.induct)
  case (2 pol ev aid nodeID es s)
  then show ?case
    by (fastforce simp: freshActivation_def pendingActivation_def zeroActivation_def)
qed simp

lemma applyInstantiated_evolves: "applyInstantiated pol s ev = Inr t \<Longrightarrow> evolves k (acts s) (acts t)"
proof -
  assume "applyInstantiated pol s ev = Inr t"
  then obtain r where "t = createEntries pol ev (zip (ev_ActivationIDs ev) (ir_EntryNodes r))
      (updInst (initInstance ev r) s)"
    by (auto simp: applyInstantiated_def split: if_splits option.splits)
  moreover have "acts (updInst (initInstance ev r) s) = acts s"
    by (simp add: updInst_def initInstance_def)
  ultimately show ?thesis
    using createEntries_evolves[of pol ev "zip (ev_ActivationIDs ev) (ir_EntryNodes r)"
        "updInst (initInstance ev r) s"]
    by (auto intro: evolves_append)
qed

lemma applyRerouted_evolves: "evolves k (acts s) (acts (applyRerouted pol s ev))"
  by (auto simp: applyRerouted_def Let_def freshActivation_def pendingActivation_def zeroActivation_def
      intro!: evolves_append)

lemma applyTransition_evolves: "applyTransition pol s ev = Inr t \<Longrightarrow> evolves k (acts s) (acts t)"
  by (auto simp: applyTransition_def Let_def freshActivation_def pendingActivation_def zeroActivation_def
      intro!: evolves_append split: if_splits option.splits)

lemma applyCanceled_evolves: "applyCanceled s ev = Inr t \<Longrightarrow> evolves EventCanceled (acts s) (acts t)"
  by (auto simp: applyCanceled_def updInst_def act_effect_def cancelActivation_def Let_def
      intro!: evolves_map act_step.cancel split: if_splits)

lemma simple_handlers_evolve:
  "i < length (acts s) \<Longrightarrow> applyLeased s (Some i) ev = Inr t \<Longrightarrow> evolves EventLeased (acts s) (acts t)"
  "i < length (acts s) \<Longrightarrow> applyAttemptIdentified s (Some i) ev = Inr t \<Longrightarrow>
     evolves EventAttemptIdentified (acts s) (acts t)"
  "i < length (acts s) \<Longrightarrow> applySkipped s (Some i) ev = Inr t \<Longrightarrow> evolves EventSkipped (acts s) (acts t)"
  "i < length (acts s) \<Longrightarrow> applyUnblocked s (Some i) ev = Inr t \<Longrightarrow> evolves EventUnblocked (acts s) (acts t)"
  "i < length (acts s) \<Longrightarrow> applyLeaseExpired s (Some i) ev = Inr t \<Longrightarrow>
     evolves EventLeaseExpired (acts s) (acts t)"
  "i < length (acts s) \<Longrightarrow> applyChildAttached s (Some i) ev = Inr t \<Longrightarrow>
     evolves EventChildAttached (acts s) (acts t)"
  "i < length (acts s) \<Longrightarrow> applyExternalParked s (Some i) ev = Inr t \<Longrightarrow>
     evolves EventExternalParked (acts s) (acts t)"
  by (auto simp: applyLeased_def applyAttemptIdentified_def applySkipped_def
      applyUnblocked_def applyLeaseExpired_def applyChildAttached_def applyExternalParked_def
      act_effect_def Let_def intro!: evolves_update act_step.intros split: if_splits option.splits)

lemma applyStarted_evolves:
  "i < length (acts s) \<Longrightarrow> applyStarted s (Some i) ev = Inr t \<Longrightarrow> evolves EventStarted (acts s) (acts t)"
  by (auto simp: applyStarted_def act_effect_def Let_def
      intro!: evolves_update act_step.start[where x = "ev_AttemptID ev"] split: if_splits option.splits)

lemma applyHeartbeat_acts:
  assumes "applyHeartbeat s (Some i) ev = Inr t"
  obtains l l' where "act_ActiveLease (acts s ! i) = Some l"
    and "t = updAct i (\<lambda>a. a\<lparr>act_ActiveLease := Some l'\<rparr>) s"
    and "ls_ID l' = ls_ID l" and "ls_Owner l' = ls_Owner l" and "ls_TokenDigest l' = ls_TokenDigest l"
  using assms by (auto simp: applyHeartbeat_def Let_def split: if_splits option.splits)

lemma applyHeartbeat_evolves:
  "i < length (acts s) \<Longrightarrow> applyHeartbeat s (Some i) ev = Inr t \<Longrightarrow> evolves EventHeartbeat (acts s) (acts t)"
  by (erule applyHeartbeat_acts) (auto intro!: evolves_update act_effectI act_step.beat)

lemma releaseAndRetry_evolves:
  assumes "i < length (acts s)" and "act_Status (acts s ! i) \<noteq> ActivationSatisfied"
  shows "evolves EventAttemptTerminated (acts s) (acts (releaseAndRetry pol s i ev))"
  using assms
  by (auto simp: releaseAndRetry_def act_effect_def Let_def
      intro!: evolves_update act_step.release split: option.split retry_exhaustion_kind.split)

lemma applyAttemptTerminated_evolves:
  assumes "i < length (acts s)" and "applyAttemptTerminated pol s (Some i) ev = Inr t"
  shows "evolves EventAttemptTerminated (acts s) (acts t)"
  using assms releaseAndRetry_evolves[of i "updAttempt j (terminateAttempt ev) s" pol ev for j]
  by (auto simp: applyAttemptTerminated_def Let_def split: if_splits option.splits)

lemma satisfyActivation_acts:
  assumes "satisfyActivation pol s i ev = Inr t"
  shows "\<exists>st\<in>{ActivationSatisfied, ActivationAwaitingGate}. acts t = (acts s)[i := settle st ev (acts s ! i)]"
  using assms by (auto simp: satisfyActivation_def Let_def split: if_splits)

lemma applyCompleted_evolves:
  assumes "i < length (acts s)" and "applyCompleted pol s (Some i) ev = Inr t"
  shows "evolves EventCompleted (acts s) (acts t)"
  using assms
  by (auto simp: applyCompleted_def act_effect_def settle_def Let_def dest!: satisfyActivation_acts
      intro!: evolves_update act_step.complete split: if_splits)

lemma applyChildOutcome_evolves:
  assumes "i < length (acts s)" and "applyChildOutcome pol s (Some i) ev = Inr t"
  shows "evolves EventChildOutcome (acts s) (acts t)"
  using assms
  by (auto simp: applyChildOutcome_def act_effect_def settle_def Let_def dest!: satisfyActivation_acts
      intro!: evolves_update act_step.child split: if_splits option.splits)

lemma recordGate_acts [simp]:
  "acts (updInst (\<lambda>x. x\<lparr>inst_Gates := f x\<rparr>) s) = acts s"
  by (simp add: updInst_def)

lemma resolveGate_acts:
  "\<exists>a'. acts (resolveGate pol s i ev gate) = (acts s)[i := a'] \<and>
     act_Status a' \<in> {ActivationAwaitingGate, ActivationSatisfied} \<and>
     (i < length (acts s) \<longrightarrow> act_ActiveLease a' = act_ActiveLease (acts s ! i) \<and>
        act_AttemptIDs a' = act_AttemptIDs (acts s ! i) \<and> visit a' = visit (acts s ! i))"
  by (simp add: resolveGate_def Let_def) (auto intro!: exI)

text \<open>The outcome of a gate event: dropped, resolved (passed or waived), or otherwise decided.\<close>

lemma applyGate_cases:
  assumes "applyGate pol s (Some i) ev = Inr t"
  obtains (dropped) "t = s"
    "act_Status (acts s ! i) \<in> {ActivationSatisfied, ActivationRejected} \<or>
     inst_Status (snap_Instance s) \<in> {WorkflowCompleted, WorkflowFailed}"
  | (resolved) gate where "ev_Gate ev = Some gate" "gi_Status gate \<in> {GatePassed, GateWaived}"
      "act_Status (acts s ! i) \<notin> {ActivationSatisfied, ActivationRejected}"
      "inst_Status (snap_Instance s) \<notin> {WorkflowCompleted, WorkflowFailed}"
      "t = resolveGate pol (updInst (\<lambda>x. x\<lparr>inst_Gates := recordGate gate (inst_Gates x)\<rparr>) s) i ev gate"
  | (decided) gate st where "ev_Gate ev = Some gate" "gi_Status gate \<notin> {GatePassed, GateWaived}"
      "act_Status (acts s ! i) \<notin> {ActivationSatisfied, ActivationRejected}"
      "inst_Status (snap_Instance s) \<notin> {WorkflowCompleted, WorkflowFailed}"
      "st \<in> {ActivationAwaitingGate, ActivationRejected}"
      "t = updAct i (\<lambda>a. a\<lparr>act_Status := st, act_UpdatedAt := ev_At ev\<rparr>)
             (updInst (\<lambda>x. x\<lparr>inst_Gates := recordGate gate (inst_Gates x)\<rparr>) s)"
proof (cases "ev_Gate ev")
  case None
  with assms show thesis by (simp add: applyGate_def)
next
  case (Some gate)
  show thesis
  proof (cases "act_Status (acts s ! i) \<in> {ActivationSatisfied, ActivationRejected} \<or>
      inst_Status (snap_Instance s) \<in> {WorkflowCompleted, WorkflowFailed}")
    case True
    with assms Some have "t = s" by (auto simp: applyGate_def)
    with True show thesis by (rule dropped[rotated])
  next
    case False
    then have open1: "act_Status (acts s ! i) \<notin> {ActivationSatisfied, ActivationRejected}"
      and open2: "inst_Status (snap_Instance s) \<notin> {WorkflowCompleted, WorkflowFailed}" by blast+
    note put = decided[OF Some _ open1 open2]
    from assms Some False resolved[OF Some _ open1 open2] put[of ActivationAwaitingGate]
      put[of ActivationRejected]
    show thesis
      by (cases "gi_Status gate") (simp_all add: applyGate_def Let_def split: if_splits)
  qed
qed

lemma applyGate_evolves:
  assumes "i < length (acts s)" and "applyGate pol s (Some i) ev = Inr t"
  shows "evolves EventGate (acts s) (acts t)"
  using assms(2)
proof (cases rule: applyGate_cases)
  case (resolved gate)
  with resolveGate_acts[of pol "updInst (\<lambda>x. x\<lparr>inst_Gates := recordGate gate (inst_Gates x)\<rparr>) s" i ev gate]
    assms(1) show ?thesis
    by (auto intro!: evolves_update act_effectI act_step.decide)
next
  case (decided gate st)
  with assms(1) show ?thesis
    by (auto intro!: evolves_update act_effectI act_step.decide)
qed simp

lemmas handlers_evolve =
  applyInstantiated_evolves applyRerouted_evolves applyTransition_evolves applyCanceled_evolves
  simple_handlers_evolve applyStarted_evolves applyHeartbeat_evolves applyAttemptTerminated_evolves
  applyCompleted_evolves applyChildOutcome_evolves applyGate_evolves

theorem applyEvent_evolves:
  assumes "applyEvent mi pol s ev = Inr t"
  shows "evolves (ev_Kind ev) (acts s) (acts t)"
  using assms
  by (cases rule: applyEvent_cases[OF _ refl]) (auto intro: handlers_evolve)

lemma Reduce_evolves:
  "Reduce mi pol s ev = Inr t \<Longrightarrow> evolves (ev_Kind ev) (acts s) (acts t)"
  by (auto simp: Reduce_def bindE_eq_Inr_iff dest: applyEvent_evolves split: if_splits)

end
