(* ===== verification/Wf_Invariants.thy ===== *)
theory Wf_Invariants
  imports Wf_Lifecycle
begin

text \<open>
  Invariants of the reducer over arbitrary event logs: lease discipline, append-only history,
  immutable terminal attempts, terminal workflow statuses, and what it takes for an activation to
  be satisfied and a workflow to be completed. The locale \<open>kept_by_log\<close> lifts a property that one
  reduction keeps to the replay of a whole log; it is interpreted once per invariant.
\<close>

section \<open>Lifting invariants to logs\<close>

locale kept_by_log =
  fixes step :: "'s \<Rightarrow> 'e \<Rightarrow> 's result" and I :: "'s \<Rightarrow> bool"
  assumes step_keeps: "I s \<Longrightarrow> step s e = Inr t \<Longrightarrow> I t"
begin

lemma log_keeps: "I s \<Longrightarrow> foldE step s es = Inr t \<Longrightarrow> I t"
  by (erule foldE_invariant) (auto intro: step_keeps)

end

text \<open>The relational version: a reflexive and transitive relation between the state before and after.\<close>

locale monotone_log =
  fixes step :: "'s \<Rightarrow> 'e \<Rightarrow> 's result" and R :: "'s \<Rightarrow> 's \<Rightarrow> bool"
  assumes step_rel: "step s e = Inr t \<Longrightarrow> R s t"
    and R_refl: "R s s"
    and R_trans: "R s t \<Longrightarrow> R t u \<Longrightarrow> R s u"
begin

lemma log_rel: "foldE step s es = Inr t \<Longrightarrow> R s t"
proof (induction es arbitrary: s)
  case (Cons e es)
  then obtain u where "step s e = Inr u" and "foldE step u es = Inr t"
    by (auto simp: bindE_eq_Inr_iff)
  with Cons.IH step_rel show ?case by (blast intro: R_trans)
qed (simp add: R_refl)

end

section \<open>Lease discipline\<close>

text \<open>
  An activation that is claimable or parked for an operator holds no lease, and one that a worker
  or a child workflow is executing holds one.
\<close>

fun leaseFree :: "activation_status \<Rightarrow> bool" where
  "leaseFree ActivationPending = True"
| "leaseFree ActivationReady = True"
| "leaseFree ActivationLeaseExpired = True"
| "leaseFree ActivationBlocked = True"
| "leaseFree ActivationSkipped = True"
| "leaseFree ActivationAttemptFailed = True"
| "leaseFree ActivationCanceled = True"
| "leaseFree _ = False"

fun leaseHeld :: "activation_status \<Rightarrow> bool" where
  "leaseHeld ActivationLeased = True"
| "leaseHeld ActivationRunning = True"
| "leaseHeld ActivationAwaitingChild = True"
| "leaseHeld _ = False"

definition leaseOK :: "activation \<Rightarrow> bool" where
  "leaseOK a \<longleftrightarrow>
     (leaseFree (act_Status a) \<longrightarrow> act_ActiveLease a = None) \<and>
     (leaseHeld (act_Status a) \<longrightarrow> act_ActiveLease a \<noteq> None)"

lemma claimable_leaseFree: "claimableActivationStatus st \<Longrightarrow> leaseFree st"
  by (cases st) simp_all

definition leasesOK :: "snapshot \<Rightarrow> bool" where
  "leasesOK s \<longleftrightarrow> list_all leaseOK (acts s)"

lemma leaseOK_fresh: "freshActivation a \<Longrightarrow> leaseOK a"
  by (simp add: leaseOK_def freshActivation_def)

lemma leaseOK_step: "act_step k a a' \<Longrightarrow> leaseOK a \<Longrightarrow> leaseOK a'"
  by (induction rule: act_step.induct)
    (simp_all add: leaseOK_def claimable_leaseFree, (elim disjE; simp)+, auto split: if_splits)

lemma Reduce_leasesOK: "leasesOK s \<Longrightarrow> Reduce mi pol s ev = Inr t \<Longrightarrow> leasesOK t"
  unfolding leasesOK_def
  by (blast intro: evolves_all[OF Reduce_evolves] leaseOK_fresh leaseOK_step)

interpretation leases: kept_by_log "\<lambda>s e. Reduce (orc e) pol s e" leasesOK for orc pol
  by unfold_locales (blast intro: Reduce_leasesOK)

lemma leasesOK_zero: "leasesOK zeroSnapshot"
  by (simp add: leasesOK_def zeroSnapshot_def zeroInstance_def)

section \<open>Append-only history\<close>

definition att_effect :: "attempt \<Rightarrow> attempt \<Rightarrow> bool" where
  "att_effect x y \<longleftrightarrow> at_ID y = at_ID x \<and>
     (terminalAttemptStatus (at_Status x) \<longrightarrow>
        at_Status y = at_Status x \<and> at_EndedAt y = at_EndedAt x \<and> at_MarkerKind y = at_MarkerKind x \<and>
        at_MarkerLabel y = at_MarkerLabel x \<and> at_WorkingDirectory y = at_WorkingDirectory x)"

lemma att_effect_refl [simp]: "att_effect x x"
  by (simp add: att_effect_def)

lemma att_effect_trans: "att_effect x y \<Longrightarrow> att_effect y z \<Longrightarrow> att_effect x z"
  by (simp add: att_effect_def)

definition attemptsGrow :: "attempt list \<Rightarrow> attempt list \<Rightarrow> bool" where
  "attemptsGrow xs ys \<longleftrightarrow> (\<exists>zs new. ys = zs @ new \<and> list_all2 att_effect xs zs)"

text \<open>The history of an instance grows: no activation, attempt, evidence or output is ever removed,
  visits keep their identity, and a terminal attempt keeps its facts.\<close>

definition historyGrows :: "snapshot \<Rightarrow> snapshot \<Rightarrow> bool" where
  "historyGrows s t \<longleftrightarrow>
     (\<exists>new. map visit (acts t) = map visit (acts s) @ new) \<and>
     attemptsGrow (attempts s) (attempts t) \<and>
     (\<exists>new. inst_Evidence (snap_Instance t) = inst_Evidence (snap_Instance s) @ new) \<and>
     (\<exists>new. inst_Outputs (snap_Instance t) = inst_Outputs (snap_Instance s) @ new) \<and>
     set (snap_AppliedEventIDs s) \<subseteq> set (snap_AppliedEventIDs t)"

lemma attemptsGrow_refl [simp]: "attemptsGrow xs xs"
  unfolding attemptsGrow_def by (rule exI[of _ xs]) (simp add: list_all2_refl)

lemma attemptsGrow_append [simp]: "attemptsGrow xs (xs @ ys)"
  unfolding attemptsGrow_def by (intro exI[of _ xs] exI[of _ ys]) (simp add: list_all2_refl)

lemma attemptsGrow_update:
  "(j < length xs \<Longrightarrow> att_effect (xs ! j) y) \<Longrightarrow> attemptsGrow xs (xs[j := y])"
  unfolding attemptsGrow_def
  by (rule exI[of _ "xs[j := y]"])
    (cases "j < length xs"; auto simp: list_all2_conv_all_nth nth_list_update)

lemma attemptsGrow_trans:
  assumes "attemptsGrow xs ys" and "attemptsGrow ys zs"
  shows "attemptsGrow xs zs"
proof -
  obtain us a where ys: "ys = us @ a" and 1: "list_all2 att_effect xs us"
    using assms(1) by (auto simp: attemptsGrow_def)
  obtain vs b where zs: "zs = vs @ b" and 2: "list_all2 att_effect ys vs"
    using assms(2) by (auto simp: attemptsGrow_def)
  obtain v1 v2 where vs: "vs = v1 @ v2" and 3: "list_all2 att_effect us v1"
    using 2 ys by (auto simp: list_all2_append1)
  have "list_all2 att_effect xs v1"
    using list_all2_trans[OF att_effect_trans 1 3] .
  then show ?thesis unfolding attemptsGrow_def
    by (intro exI[of _ v1] exI[of _ "v2 @ b"]) (simp add: zs vs)
qed

lemma timeOutAttempts_grow: "attemptsGrow (attempts s) (attempts (foldl (timeOutAttempt t a) s ids))"
proof (induction ids arbitrary: s)
  case (Cons x ids)
  have "attemptsGrow (attempts s) (attempts (timeOutAttempt t a s x))"
    by (auto simp: timeOutAttempt_def att_effect_def intro!: attemptsGrow_update split: option.split)
  with Cons.IH show ?case by (auto intro: attemptsGrow_trans)
qed simp

lemma attempts_helpers [simp]:
  "attempts (recordOutputs ev s) = attempts s"
  "attempts (completeWorkflow out s) = attempts s"
  "attempts (updChild c f s) = attempts s"
  "attempts (stampInstance ev s) = attempts s"
  "attempts (appendActivation a s) = attempts s"
  "attempts (updInst (\<lambda>x. x\<lparr>inst_Gates := g x\<rparr>) s) = attempts s"
  "attempts (updInst (initInstance ev r) s) = attempts s"
  by (simp_all add: recordOutputs_def completeWorkflow_def updChild_def stampInstance_def
      appendActivation_def updInst_def initInstance_def)

lemma createEntries_attempts [simp]: "attempts (createEntries pol ev es s) = attempts s"
  by (induction pol ev es s rule: createEntries.induct) simp_all

lemma releaseAndRetry_attempts [simp]: "attempts (releaseAndRetry pol s i ev) = attempts s"
  by (simp add: releaseAndRetry_def Let_def split: option.split retry_exhaustion_kind.split)

lemma resolveGate_attempts [simp]: "attempts (resolveGate pol s i ev gate) = attempts s"
  by (simp add: resolveGate_def Let_def)

lemma satisfyActivation_attempts: "satisfyActivation pol s i ev = Inr t \<Longrightarrow> attempts t = attempts s"
  by (auto simp: satisfyActivation_def Let_def split: if_splits)

lemma attempts_same_handlers:
  "applyInstantiated pol s ev = Inr t \<Longrightarrow> attempts t = attempts s"
  "applyTransition pol s ev = Inr t \<Longrightarrow> attempts t = attempts s"
  "applyLeased s act ev = Inr t \<Longrightarrow> attempts t = attempts s"
  "applySkipped s act ev = Inr t \<Longrightarrow> attempts t = attempts s"
  "applyUnblocked s act ev = Inr t \<Longrightarrow> attempts t = attempts s"
  "applyHeartbeat s act ev = Inr t \<Longrightarrow> attempts t = attempts s"
  "applyChildAttached s act ev = Inr t \<Longrightarrow> attempts t = attempts s"
  "applyExternalParked s act ev = Inr t \<Longrightarrow> attempts t = attempts s"
  by (auto simp: applyInstantiated_def applyTransition_def applyLeased_def applySkipped_def
      applyUnblocked_def applyHeartbeat_def applyChildAttached_def applyExternalParked_def
      Let_def split: if_splits option.splits)

lemma attempts_same_more:
  "applyCanceled s ev = Inr t \<Longrightarrow> attempts t = attempts s"
  "applyCompleted pol s act ev = Inr t \<Longrightarrow> attempts t = attempts s"
  "applyChildOutcome pol s act ev = Inr t \<Longrightarrow> attempts t = attempts s"
  "applyGate pol s (Some i) ev = Inr t \<Longrightarrow> attempts t = attempts s"
  "attempts (applyRerouted pol s ev) = attempts s"
      apply (auto simp: applyCanceled_def updInst_def split: if_splits)[1]
     apply (auto simp: applyCompleted_def Let_def dest: satisfyActivation_attempts split: if_splits option.splits)[1]
    apply (auto simp: applyChildOutcome_def Let_def dest: satisfyActivation_attempts split: if_splits option.splits)[1]
   apply (auto elim: applyGate_cases)[1]
  apply (simp add: applyRerouted_def Let_def)
  done

lemma attempts_change_handlers:
  "applyStarted s act ev = Inr t \<Longrightarrow> attemptsGrow (attempts s) (attempts t)"
  "applyAttemptIdentified s act ev = Inr t \<Longrightarrow> attemptsGrow (attempts s) (attempts t)"
  "applyAttemptTerminated pol s act ev = Inr t \<Longrightarrow> attemptsGrow (attempts s) (attempts t)"
  "applyLeaseExpired s act ev = Inr t \<Longrightarrow> attemptsGrow (attempts s) (attempts t)"
     apply (auto simp: applyStarted_def updInst_def updAct_def Let_def split: if_splits option.splits)[1]
    apply (auto simp: applyAttemptIdentified_def Let_def att_effect_def intro!: attemptsGrow_update
      split: if_splits option.splits)[1]
   apply (auto simp: applyAttemptTerminated_def Let_def att_effect_def terminateAttempt_def
      intro!: attemptsGrow_update split: if_splits option.splits)[1]
  apply (auto simp: applyLeaseExpired_def Let_def timeOutAttempts_grow split: if_splits option.splits)
  done

lemma applyEvent_attemptsGrow:
  "applyEvent mi pol s ev = Inr t \<Longrightarrow> attemptsGrow (attempts s) (attempts t)"
  by (erule applyEvent_cases[OF _ refl])
    (simp_all add: attempts_same_handlers attempts_same_more attempts_change_handlers)

text \<open>Evidence and outputs: only a completion or a child's outcome adds to them.\<close>

definition recorded :: "snapshot \<Rightarrow> evidence list \<times> output_value list" where
  "recorded s = (inst_Evidence (snap_Instance s), inst_Outputs (snap_Instance s))"

lemma recorded_helpers [simp]:
  "recorded (updAct i f s) = recorded s"
  "recorded (updAttempt j g s) = recorded s"
  "recorded (setStatus st s) = recorded s"
  "recorded (markInstanceBlocked s) = recorded s"
  "recorded (completeWorkflow out s) = recorded s"
  "recorded (updChild c h s) = recorded s"
  "recorded (stampInstance ev s) = recorded s"
  "recorded (appendActivation a s) = recorded s"
  "recorded (updInst (\<lambda>x. x\<lparr>inst_Gates := k x\<rparr>) s) = recorded s"
  "recorded (updInst (\<lambda>x. x\<lparr>inst_Attempts := l x\<rparr>) s) = recorded s"
  "recorded (updInst (initInstance ev r) s) = recorded s"
  "recorded (recordOutputs ev s) = (fst (recorded s) @ ev_Evidence ev, snd (recorded s) @ ev_Outputs ev)"
  by (simp_all add: recorded_def completeWorkflow_def updChild_def stampInstance_def
      appendActivation_def recordOutputs_def initInstance_def updInst_def)

lemma createEntries_recorded [simp]: "recorded (createEntries pol ev es s) = recorded s"
  by (induction pol ev es s rule: createEntries.induct) simp_all

lemma timeOutAttempts_recorded [simp]: "recorded (foldl (timeOutAttempt t a) s ids) = recorded s"
  by (induction ids arbitrary: s) (simp_all add: timeOutAttempt_def split: option.split)

lemma releaseAndRetry_recorded [simp]: "recorded (releaseAndRetry pol s i ev) = recorded s"
  by (simp add: releaseAndRetry_def Let_def split: option.split retry_exhaustion_kind.split)

lemma resolveGate_recorded [simp]: "recorded (resolveGate pol s i ev gate) = recorded s"
  by (simp add: resolveGate_def Let_def)

lemma satisfyActivation_recorded:
  "satisfyActivation pol s i ev = Inr t \<Longrightarrow>
   recorded t = (fst (recorded s) @ ev_Evidence ev, snd (recorded s) @ ev_Outputs ev)"
  by (auto simp: satisfyActivation_def Let_def split: if_splits)

lemma recorded_same_handlers:
  "applyInstantiated pol s ev = Inr t \<Longrightarrow> recorded t = recorded s"
  "applyTransition pol s ev = Inr t \<Longrightarrow> recorded t = recorded s"
  "applyLeased s act ev = Inr t \<Longrightarrow> recorded t = recorded s"
  "applyStarted s act ev = Inr t \<Longrightarrow> recorded t = recorded s"
  "applyAttemptIdentified s act ev = Inr t \<Longrightarrow> recorded t = recorded s"
  "applyAttemptTerminated pol s act ev = Inr t \<Longrightarrow> recorded t = recorded s"
  "applySkipped s act ev = Inr t \<Longrightarrow> recorded t = recorded s"
  "applyUnblocked s act ev = Inr t \<Longrightarrow> recorded t = recorded s"
  "applyHeartbeat s act ev = Inr t \<Longrightarrow> recorded t = recorded s"
  "applyLeaseExpired s act ev = Inr t \<Longrightarrow> recorded t = recorded s"
  "applyChildAttached s act ev = Inr t \<Longrightarrow> recorded t = recorded s"
  "applyExternalParked s act ev = Inr t \<Longrightarrow> recorded t = recorded s"
  by (auto simp: applyInstantiated_def applyTransition_def applyLeased_def applyStarted_def
      applyAttemptIdentified_def applyAttemptTerminated_def applySkipped_def applyUnblocked_def
      applyHeartbeat_def applyLeaseExpired_def applyChildAttached_def applyExternalParked_def
      Let_def split: if_splits option.splits)

lemma recorded_same_more:
  "applyCanceled s ev = Inr t \<Longrightarrow> recorded t = recorded s"
  "applyGate pol s (Some i) ev = Inr t \<Longrightarrow> recorded t = recorded s"
  "recorded (applyRerouted pol s ev) = recorded s"
    apply (auto simp: applyCanceled_def updInst_def recorded_def split: if_splits)[1]
   apply (auto elim: applyGate_cases)[1]
  apply (simp add: applyRerouted_def Let_def)
  done

lemma recorded_completion:
  "applyCompleted pol s act ev = Inr t \<Longrightarrow>
     recorded t = (fst (recorded s) @ ev_Evidence ev, snd (recorded s) @ ev_Outputs ev)"
  "applyChildOutcome pol s act ev = Inr t \<Longrightarrow>
     recorded t = (fst (recorded s) @ ev_Evidence ev, snd (recorded s) @ ev_Outputs ev)"
   apply (auto simp: applyCompleted_def Let_def dest: satisfyActivation_recorded
      split: if_splits option.splits)[1]
  apply (auto simp: applyChildOutcome_def Let_def dest: satisfyActivation_recorded
      split: if_splits option.splits)
  done

definition recordsGrow :: "snapshot \<Rightarrow> snapshot \<Rightarrow> bool" where
  "recordsGrow s t \<longleftrightarrow> (\<exists>es os. recorded t = (fst (recorded s) @ es, snd (recorded s) @ os))"

lemma recordsGrow_same: "recorded t = recorded s \<Longrightarrow> recordsGrow s t"
  unfolding recordsGrow_def by (intro exI[of _ "[]"]) simp

lemma recordsGrow_add:
  "recorded t = (fst (recorded s) @ es, snd (recorded s) @ os) \<Longrightarrow> recordsGrow s t"
  unfolding recordsGrow_def by blast

lemma applyEvent_recorded: "applyEvent mi pol s ev = Inr t \<Longrightarrow> recordsGrow s t"
  by (erule applyEvent_cases[OF _ refl])
    (auto simp: recorded_same_handlers recorded_same_more recorded_completion
      intro: recordsGrow_same recordsGrow_add)

lemma recorded_recordEvent [simp]: "recorded (recordEvent ev s) = recorded s"
  by (simp add: recorded_def)

lemma Reduce_historyGrows: "Reduce mi pol s ev = Inr t \<Longrightarrow> historyGrows s t"
proof -
  assume r: "Reduce mi pol s ev = Inr t"
  have "attemptsGrow (attempts s) (attempts t)"
    and "recordsGrow s t"
    using r by (auto simp: Reduce_def bindE_eq_Inr_iff recordsGrow_def dest: applyEvent_attemptsGrow
        applyEvent_recorded intro: recordsGrow_same[unfolded recordsGrow_def] split: if_splits)
  then show "historyGrows s t"
    using evolves_visits[OF Reduce_evolves[OF r]] Reduce_applied[OF r]
    by (auto simp: historyGrows_def recordsGrow_def recorded_def)
qed

lemma historyGrows_refl: "historyGrows s s"
  by (simp add: historyGrows_def)

lemma historyGrows_trans: "historyGrows s t \<Longrightarrow> historyGrows t u \<Longrightarrow> historyGrows s u"
  unfolding historyGrows_def
  by (auto intro: attemptsGrow_trans)

interpretation history: monotone_log "\<lambda>s e. Reduce (orc e) pol s e" historyGrows for orc pol
  by unfold_locales (blast intro: Reduce_historyGrows historyGrows_refl historyGrows_trans)+

end
