(* ===== verification/Wf_Settlement.thy ===== *)
theory Wf_Settlement
  imports Wf_Invariants
begin

text \<open>
  How activations are satisfied and workflows end: the effect of one event on the workflow status
  (\<open>wf_step\<close>), what holds of the gates when an activation becomes satisfied, where a terminal
  outcome comes from, the retry budget, and the finality of a cancellation.
\<close>

section \<open>The status of the workflow\<close>

abbreviation wfStatus :: "snapshot \<Rightarrow> workflow_status" where
  "wfStatus s \<equiv> inst_Status (snap_Instance s)"

inductive wf_step :: "event_kind \<Rightarrow> workflow_status \<Rightarrow> workflow_status \<Rightarrow> bool" where
  stay: "wf_step k st st"
| create: "wf_step EventInstantiated st WorkflowActive"
| block: "st \<in> {WorkflowActive, WorkflowBlocked} \<Longrightarrow> wf_step EventAttemptTerminated st WorkflowBlocked"
| fail: "wf_step EventAttemptTerminated WorkflowActive WorkflowFailed"
| finish: "k \<in> {EventCompleted, EventChildOutcome} \<Longrightarrow> wf_step k st WorkflowCompleted"
| accept: "st \<notin> {WorkflowCompleted, WorkflowFailed} \<Longrightarrow> wf_step EventGate st WorkflowCompleted"
| resume: "wf_step EventUnblocked WorkflowBlocked WorkflowActive"
| abort: "st \<notin> {WorkflowCompleted, WorkflowFailed, WorkflowCanceled} \<Longrightarrow>
    wf_step EventCanceled st WorkflowCanceled"

lemma wfStatus_helpers [simp]:
  "wfStatus (recordOutputs ev s) = wfStatus s"
  "wfStatus (completeWorkflow out s) = WorkflowCompleted"
  "wfStatus (updChild c h s) = wfStatus s"
  "wfStatus (stampInstance ev s) = wfStatus s"
  "wfStatus (appendActivation a s) = wfStatus s"
  "wfStatus (updInst (\<lambda>x. x\<lparr>inst_Gates := k x\<rparr>) s) = wfStatus s"
  "wfStatus (updInst (\<lambda>x. x\<lparr>inst_Attempts := l x\<rparr>) s) = wfStatus s"
  "wfStatus (updInst (initInstance ev r) s) = WorkflowActive"
  by (simp_all add: completeWorkflow_def updChild_def stampInstance_def
      appendActivation_def recordOutputs_def initInstance_def updInst_def)

lemma createEntries_wfStatus [simp]: "wfStatus (createEntries pol ev es s) = wfStatus s"
  by (induction pol ev es s rule: createEntries.induct) simp_all

lemma timeOutAttempts_wfStatus [simp]: "wfStatus (foldl (timeOutAttempt t a) s ids) = wfStatus s"
  by (induction ids arbitrary: s) (simp_all add: timeOutAttempt_def split: option.split)

lemma releaseAndRetry_wfStatus:
  "wf_step EventAttemptTerminated (wfStatus s) (wfStatus (releaseAndRetry pol s i ev))"
  by (auto simp: releaseAndRetry_def Let_def markInstanceBlocked_def
      intro: wf_step.intros split: option.split retry_exhaustion_kind.split)

lemma applyAttemptTerminated_wfStatus:
  "applyAttemptTerminated pol s act ev = Inr t \<Longrightarrow> wf_step EventAttemptTerminated (wfStatus s) (wfStatus t)"
  using releaseAndRetry_wfStatus[of "updAttempt j (terminateAttempt ev) s" for j]
  by (auto simp: applyAttemptTerminated_def Let_def intro: wf_step.stay split: if_splits option.splits)

lemma satisfyActivation_wfStatus:
  "satisfyActivation pol s i ev = Inr t \<Longrightarrow> wfStatus t \<in> {wfStatus s, WorkflowCompleted}"
  by (auto simp: satisfyActivation_def Let_def split: if_splits)

lemma resolveGate_wfStatus: "wfStatus (resolveGate pol s i ev gate) \<in> {wfStatus s, WorkflowCompleted}"
  by (simp add: resolveGate_def Let_def)

lemma handlers_wfStatus_same:
  "applyTransition pol s ev = Inr t \<Longrightarrow> wfStatus t = wfStatus s"
  "applyLeased s act ev = Inr t \<Longrightarrow> wfStatus t = wfStatus s"
  "applyStarted s act ev = Inr t \<Longrightarrow> wfStatus t = wfStatus s"
  "applyAttemptIdentified s act ev = Inr t \<Longrightarrow> wfStatus t = wfStatus s"
  "applySkipped s act ev = Inr t \<Longrightarrow> wfStatus t = wfStatus s"
  "applyHeartbeat s act ev = Inr t \<Longrightarrow> wfStatus t = wfStatus s"
  "applyLeaseExpired s act ev = Inr t \<Longrightarrow> wfStatus t = wfStatus s"
  "applyChildAttached s act ev = Inr t \<Longrightarrow> wfStatus t = wfStatus s"
  "applyExternalParked s act ev = Inr t \<Longrightarrow> wfStatus t = wfStatus s"
  "wfStatus (applyRerouted pol s ev) = wfStatus s"
  by (auto simp: applyTransition_def applyLeased_def applyStarted_def applyAttemptIdentified_def
      applySkipped_def applyHeartbeat_def applyLeaseExpired_def applyChildAttached_def
      applyExternalParked_def applyRerouted_def Let_def split: if_splits option.splits)

lemma handlers_wfStatus_step:
  "applyInstantiated pol s ev = Inr t \<Longrightarrow> wf_step EventInstantiated (wfStatus s) (wfStatus t)"
  "applyUnblocked s act ev = Inr t \<Longrightarrow> wf_step EventUnblocked (wfStatus s) (wfStatus t)"
  "applyCanceled s ev = Inr t \<Longrightarrow> wf_step EventCanceled (wfStatus s) (wfStatus t)"
  "applyCompleted pol s act ev = Inr t \<Longrightarrow> wf_step EventCompleted (wfStatus s) (wfStatus t)"
  "applyChildOutcome pol s act ev = Inr t \<Longrightarrow> wf_step EventChildOutcome (wfStatus s) (wfStatus t)"
      apply (auto simp: applyInstantiated_def intro: wf_step.intros split: if_splits option.splits)[1]
     apply (auto simp: applyUnblocked_def Let_def intro: wf_step.intros split: if_splits option.splits)[1]
    apply (auto simp: applyCanceled_def updInst_def intro: wf_step.intros split: if_splits)[1]
   apply (auto simp: applyCompleted_def Let_def intro: wf_step.intros dest!: satisfyActivation_wfStatus
      split: if_splits option.splits)[1]
  apply (auto simp: applyChildOutcome_def Let_def intro: wf_step.intros dest!: satisfyActivation_wfStatus
      split: if_splits option.splits)
  done

lemma applyGate_wfStatus:
  assumes "applyGate pol s (Some i) ev = Inr t"
  shows "wf_step EventGate (wfStatus s) (wfStatus t)"
  using assms
proof (cases rule: applyGate_cases)
  case (resolved gate)
  then show ?thesis
    using resolveGate_wfStatus[of pol "updInst (\<lambda>x. x\<lparr>inst_Gates := recordGate gate (inst_Gates x)\<rparr>) s" i ev gate]
    by (auto intro: wf_step.intros)
qed (auto intro: wf_step.intros)

lemma wf_step_eq: "st' = st \<Longrightarrow> wf_step k st st'"
  by (simp add: wf_step.stay)

lemma applyEvent_wfStatus:
  "applyEvent mi pol s ev = Inr t \<Longrightarrow> wf_step (ev_Kind ev) (wfStatus s) (wfStatus t)"
  by (erule applyEvent_cases[OF _ refl])
    (auto simp: handlers_wfStatus_same intro: wf_step_eq handlers_wfStatus_step applyGate_wfStatus
      applyAttemptTerminated_wfStatus)

lemma Reduce_wfStatus:
  "Reduce mi pol s ev = Inr t \<Longrightarrow> wf_step (ev_Kind ev) (wfStatus s) (wfStatus t)"
  by (auto simp: Reduce_def bindE_eq_Inr_iff dest: applyEvent_wfStatus intro: wf_step.stay split: if_splits)

section \<open>Satisfaction requires the gates\<close>

abbreviation nodeGates :: "policies option \<Rightarrow> snapshot \<Rightarrow> activation \<Rightarrow> gate_definition list" where
  "nodeGates pol s a \<equiv> completionGatesFor pol s (act_NodeID a)"

text \<open>
  The activation at \<open>i\<close> is satisfied, every required gate of its node has a passed or waived
  decision for this very activation, and if the workflow was completed by the same event, its
  terminal outcome is the outcome selected for the activation.
\<close>

definition properlySatisfied :: "policies option \<Rightarrow> snapshot \<Rightarrow> nat \<Rightarrow> bool" where
  "properlySatisfied pol t i \<longleftrightarrow>
     i < length (acts t) \<and> act_Status (acts t ! i) = ActivationSatisfied \<and>
     gatesResolved (snap_Instance t) (nodeGates pol t (acts t ! i)) (acts t ! i)"

lemma gatesResolved_cong:
  "inst_Gates x = inst_Gates y \<Longrightarrow> ds = es \<Longrightarrow> act_ID a = act_ID b \<Longrightarrow>
   gatesResolved x ds a = gatesResolved y es b"
  by (simp add: gatesResolved_def)

lemma inst_helpers [simp]:
  "inst_Gates (snap_Instance (recordOutputs ev s)) = inst_Gates (snap_Instance s)"
  "inst_Gates (snap_Instance (completeWorkflow out s)) = inst_Gates (snap_Instance s)"
  "inst_Gates (snap_Instance (updChild c h s)) = inst_Gates (snap_Instance s)"
  "inst_TerminalOutcome (snap_Instance (recordOutputs ev s)) = inst_TerminalOutcome (snap_Instance s)"
  "inst_TerminalOutcome (snap_Instance (completeWorkflow out s)) = out"
  "inst_TerminalOutcome (snap_Instance (updChild c h s)) = inst_TerminalOutcome (snap_Instance s)"
  by (simp_all add: recordOutputs_def completeWorkflow_def updChild_def updInst_def)

lemma completionGatesFor_frame [simp]:
  "completionGatesFor pol (recordOutputs ev s) n = completionGatesFor pol s n"
  "completionGatesFor pol (completeWorkflow out s) n = completionGatesFor pol s n"
  "completionGatesFor pol (updChild c h s) n = completionGatesFor pol s n"
  "completionGatesFor pol (updAct i f s) n = completionGatesFor pol s n"
  "completionGatesFor pol (updInst (\<lambda>x. x\<lparr>inst_Gates := k x\<rparr>) s) n = completionGatesFor pol s n"
  by (simp_all add: completionGatesFor_def recordOutputs_def completeWorkflow_def updChild_def
      updAct_def updInst_def split: option.split)

lemma settle_frame [simp]:
  "act_ID (settle st ev a) = act_ID a" "act_NodeID (settle st ev a) = act_NodeID a"
  "act_Status (settle st ev a) = st" "act_SelectedOutcome (settle st ev a) = ev_Outcome ev"
  "act_ActiveLease (settle st ev a) = None" "visit (settle st ev a) = visit a"
  by (simp_all add: settle_def)

text \<open>The tail of a completion: it settles the activation at \<open>i\<close> and no other.\<close>

lemma satisfyActivation_cases:
  assumes "satisfyActivation pol s i ev = Inr t" and "i < length (acts s)"
  obtains (parked) "acts t = (acts s)[i := settle ActivationAwaitingGate ev (acts s ! i)]"
      "wfStatus t = wfStatus s" "\<not> gatesResolved (snap_Instance s) (nodeGates pol s (acts s ! i)) (acts s ! i)"
  | (satisfied) "acts t = (acts s)[i := settle ActivationSatisfied ev (acts s ! i)]"
      "properlySatisfied pol t i"
      "if noBranch ev then wfStatus t = WorkflowCompleted \<and> inst_TerminalOutcome (snap_Instance t) = ev_Outcome ev
       else wfStatus t = wfStatus s"
proof -
  let ?a = "acts s ! i"
  have eq: "unsatisfiedRequiredGates (snap_Instance s) (nodeGates pol s ?a) ?a = [] \<longleftrightarrow>
      gatesResolved (snap_Instance s) (nodeGates pol s ?a) ?a"
    by (rule unsatisfiedRequiredGates_Nil_iff)
  show thesis
  proof (cases "gatesResolved (snap_Instance s) (nodeGates pol s ?a) ?a")
    case True
    with assms eq have t: "t = (if noBranch ev then completeWorkflow (ev_Outcome ev) else id)
        (recordOutputs ev (updAct i (settle ActivationSatisfied ev) s))"
      by (auto simp: satisfyActivation_def Let_def split: if_splits)
    moreover have "properlySatisfied pol t i"
      using True assms(2)
      by (simp add: t properlySatisfied_def) (simp cong: gatesResolved_cong)
    ultimately show thesis using satisfied by simp
  next
    case False
    with assms eq parked show thesis
      by (auto simp: satisfyActivation_def Let_def split: if_splits)
  qed
qed

lemma resolveGate_cases:
  assumes "i < length (acts s)"
  obtains (parked) a' where "acts (resolveGate pol s i ev gate) = (acts s)[i := a']"
      "act_Status a' = ActivationAwaitingGate" "wfStatus (resolveGate pol s i ev gate) = wfStatus s"
  | (satisfied) a' where "acts (resolveGate pol s i ev gate) = (acts s)[i := a']"
      "properlySatisfied pol (resolveGate pol s i ev gate) i"
      "if noBranch ev
       then wfStatus (resolveGate pol s i ev gate) = WorkflowCompleted \<and>
            inst_TerminalOutcome (snap_Instance (resolveGate pol s i ev gate)) = act_SelectedOutcome a'
       else wfStatus (resolveGate pol s i ev gate) = wfStatus s"
proof -
  let ?s1 = "updAct i (\<lambda>a. if gi_Outcome gate \<noteq> [] then a\<lparr>act_SelectedOutcome := gi_Outcome gate\<rparr> else a) s"
  let ?a = "acts ?s1 ! i"
  show thesis
  proof (cases "unsatisfiedRequiredGates (snap_Instance ?s1) (nodeGates pol ?s1 ?a) ?a = []")
    case True
    let ?t = "(if noBranch ev then completeWorkflow (act_SelectedOutcome ?a) else id)
        (updAct i (\<lambda>a. a\<lparr>act_Status := ActivationSatisfied, act_UpdatedAt := ev_At ev\<rparr>) ?s1)"
    have r: "resolveGate pol s i ev gate = ?t"
      using True by (simp add: resolveGate_def Let_def)
    have g: "gatesResolved (snap_Instance ?s1) (nodeGates pol ?s1 ?a) ?a"
      using True by (simp only: unsatisfiedRequiredGates_Nil_iff)
    have "properlySatisfied pol ?t i"
      using g assms
      by (cases "gi_Outcome gate = []"; cases "noBranch ev";
          simp add: properlySatisfied_def cong: gatesResolved_cong)
    with r assms show thesis
      by (intro satisfied[of "?a\<lparr>act_Status := ActivationSatisfied, act_UpdatedAt := ev_At ev\<rparr>"]) simp_all
  next
    case False
    then have "resolveGate pol s i ev gate =
        updAct i (\<lambda>a. a\<lparr>act_Status := ActivationAwaitingGate, act_UpdatedAt := ev_At ev\<rparr>) ?s1"
      by (simp add: resolveGate_def Let_def)
    with assms show thesis
      by (intro parked[of "?a\<lparr>act_Status := ActivationAwaitingGate, act_UpdatedAt := ev_At ev\<rparr>"]) simp_all
  qed
qed

lemma completion_settles:
  assumes "i < length (acts s)"
    and "applyCompleted pol s (Some i) ev = Inr t \<or> applyChildOutcome pol s (Some i) ev = Inr t"
  obtains s' where "acts s' = acts s" "wfStatus s' = wfStatus s" "satisfyActivation pol s' i ev = Inr t"
  using assms(2)
proof
  assume "applyCompleted pol s (Some i) ev = Inr t"
  then have "satisfyActivation pol s i ev = Inr t"
    by (auto simp: applyCompleted_def Let_def split: if_splits)
  then show thesis using that by blast
next
  assume "applyChildOutcome pol s (Some i) ev = Inr t"
  then obtain c h where "satisfyActivation pol (updChild c h s) i ev = Inr t"
    by (auto simp: applyChildOutcome_def Let_def split: if_splits option.splits)
  then show thesis by (rule that[rotated 2]) simp_all
qed

text \<open>
  What every applied event satisfies about newly satisfied activations and about a newly
  completed workflow.
\<close>

definition settledBy :: "policies option \<Rightarrow> snapshot \<Rightarrow> snapshot \<Rightarrow> bool" where
  "settledBy pol s t \<longleftrightarrow>
     (\<forall>i<length (acts t). act_Status (acts t ! i) = ActivationSatisfied \<longrightarrow>
        i < length (acts s) \<and> act_Status (acts s ! i) = ActivationSatisfied \<or> properlySatisfied pol t i) \<and>
     (wfStatus t = WorkflowCompleted \<longrightarrow> wfStatus s = WorkflowCompleted \<or>
        (\<exists>i. properlySatisfied pol t i \<and>
             act_SelectedOutcome (acts t ! i) = inst_TerminalOutcome (snap_Instance t)))"

lemma settledBy_refl [simp]: "settledBy pol s s"
  by (auto simp: settledBy_def)

lemma settledBy_update:
  assumes "i < length (acts s)" and "acts t = (acts s)[i := a']"
    and "act_Status a' = ActivationSatisfied \<Longrightarrow> properlySatisfied pol t i"
    and "wfStatus t = WorkflowCompleted \<Longrightarrow> wfStatus s = WorkflowCompleted \<or>
           properlySatisfied pol t i \<and> act_SelectedOutcome a' = inst_TerminalOutcome (snap_Instance t)"
  shows "settledBy pol s t"
  using assms by (auto simp: settledBy_def nth_list_update)

lemma completion_settledBy:
  assumes "i < length (acts s)"
    and "applyCompleted pol s (Some i) ev = Inr t \<or> applyChildOutcome pol s (Some i) ev = Inr t"
  shows "settledBy pol s t"
proof -
  obtain s' where s': "acts s' = acts s" "wfStatus s' = wfStatus s" and sat: "satisfyActivation pol s' i ev = Inr t"
    using completion_settles[OF assms] .
  from s' assms(1) have i: "i < length (acts s')" by simp
  from sat i show ?thesis
    by (cases rule: satisfyActivation_cases)
      (use s' assms(1) in \<open>auto intro!: settledBy_update split: if_splits\<close>)
qed

lemma applyGate_settledBy:
  assumes "i < length (acts s)" and "applyGate pol s (Some i) ev = Inr t"
  shows "settledBy pol s t"
  using assms(2)
proof (cases rule: applyGate_cases)
  case (resolved gate)
  let ?s1 = "updInst (\<lambda>x. x\<lparr>inst_Gates := recordGate gate (inst_Gates x)\<rparr>) s"
  from assms(1) have i: "i < length (acts ?s1)" by simp
  show ?thesis
    by (rule resolveGate_cases[OF i, of pol ev gate])
      (use resolved(5) assms(1) in \<open>auto intro!: settledBy_update split: if_splits\<close>)
next
  case (decided gate st)
  with assms(1) show ?thesis by (auto intro!: settledBy_update)
qed simp

text \<open>Every other event satisfies no activation and completes no workflow.\<close>

lemma act_step_satisfied:
  "act_step k a a' \<Longrightarrow> k \<notin> {EventCompleted, EventChildOutcome, EventGate} \<Longrightarrow>
   act_Status a' = ActivationSatisfied \<Longrightarrow> act_Status a = ActivationSatisfied"
  by (induction rule: act_step.induct) (auto split: if_splits)

lemma evolves_satisfied:
  assumes "evolves k (acts s) (acts t)" and "k \<notin> {EventCompleted, EventChildOutcome, EventGate}"
    and "i < length (acts t)" and "act_Status (acts t ! i) = ActivationSatisfied"
  shows "i < length (acts s) \<and> act_Status (acts s ! i) = ActivationSatisfied"
proof -
  obtain zs news where ys: "acts t = zs @ news" and 2: "list_all2 (act_effect k) (acts s) zs"
    and n: "list_all freshActivation news"
    using assms(1) by (auto simp: evolves_def)
  have "i < length zs"
  proof (rule ccontr)
    assume "\<not> i < length zs"
    then have "acts t ! i \<in> set news" using assms(3) ys by (auto simp: nth_append)
    with n assms(4) show False by (auto simp: list_all_iff freshActivation_def)
  qed
  with 2 assms(2,4) ys act_step_satisfied show ?thesis
    by (auto simp: list_all2_conv_all_nth nth_append act_effect_def)
qed

lemma wf_step_completed:
  "wf_step k st WorkflowCompleted \<Longrightarrow> k \<notin> {EventCompleted, EventChildOutcome, EventGate} \<Longrightarrow>
   st = WorkflowCompleted"
  by (auto elim: wf_step.cases)

lemma applyEvent_settledBy:
  assumes "applyEvent mi pol s ev = Inr t"
  shows "settledBy pol s t"
proof (cases "ev_Kind ev \<in> {EventCompleted, EventChildOutcome, EventGate}")
  case True
  from assms show ?thesis
    by (cases rule: applyEvent_cases[OF _ refl])
      (use True in \<open>auto intro: completion_settledBy applyGate_settledBy\<close>)
next
  case False
  with evolves_satisfied[OF applyEvent_evolves[OF assms]] applyEvent_wfStatus[OF assms] wf_step_completed
  show ?thesis unfolding settledBy_def by metis
qed

section \<open>Finality of a cancellation\<close>

text \<open>
  A canceled instance has no live lease and is named by a workflow id. What stays frozen: the
  status, the identity, every activation's visit, status, lease, attempts and outcome, the gates,
  the evidence, the outputs and the terminal outcome.
\<close>

definition canceled :: "snapshot \<Rightarrow> bool" where
  "canceled s \<longleftrightarrow> wfStatus s = WorkflowCanceled \<and> inst_WorkflowID (snap_Instance s) \<noteq> '''' \<and>
     list_all (\<lambda>a. act_ActiveLease a = None) (acts s)"

definition frozen :: "snapshot \<Rightarrow> snapshot \<Rightarrow> bool" where
  "frozen s t \<longleftrightarrow> wfStatus t = wfStatus s \<and>
     inst_WorkflowID (snap_Instance t) = inst_WorkflowID (snap_Instance s) \<and>
     map visit (acts t) = map visit (acts s) \<and>
     map act_Status (acts t) = map act_Status (acts s) \<and>
     map act_ActiveLease (acts t) = map act_ActiveLease (acts s) \<and>
     map act_AttemptIDs (acts t) = map act_AttemptIDs (acts s) \<and>
     map act_SelectedOutcome (acts t) = map act_SelectedOutcome (acts s) \<and>
     recorded t = recorded s \<and>
     inst_Gates (snap_Instance t) = inst_Gates (snap_Instance s) \<and>
     inst_TerminalOutcome (snap_Instance t) = inst_TerminalOutcome (snap_Instance s)"

lemma frozen_refl [simp]: "frozen s s"
  by (simp add: frozen_def)

lemma frozen_trans: "frozen s t \<Longrightarrow> frozen t u \<Longrightarrow> frozen s u"
  by (simp add: frozen_def)

lemma frozen_canceled: "frozen s t \<Longrightarrow> canceled s \<Longrightarrow> canceled t"
  unfolding canceled_def frozen_def list_all_length
  by (metis length_map nth_map)

lemma canceled_attempt_facts:
  "wfStatus s = WorkflowCanceled \<Longrightarrow> applyAttemptTerminated pol s (Some i) ev = Inr t \<Longrightarrow> frozen s t"
  by (auto simp: applyAttemptTerminated_def Let_def frozen_def split: if_splits option.splits)

lemma identified_frozen:
  "applyAttemptIdentified s (Some i) ev = Inr t \<Longrightarrow> i < length (acts s) \<Longrightarrow> frozen s t"
  by (auto simp: applyAttemptIdentified_def Let_def frozen_def map_update list_update_same_conv
      split: option.splits)

lemma canceled_applyEvent:
  assumes "canceled s" and "applyEvent mi pol s ev = Inr t"
  shows "frozen s t"
proof -
  have k: "\<not> canceledMutatingKinds (ev_Kind ev)"
    using assms by (auto simp: canceled_def elim: applyEvent_dispatch)
  have lease: "act_ActiveLease (acts s ! i) = None" if "i < length (acts s)" for i
    using assms(1) that by (simp add: canceled_def list_all_length)
  from assms(2) show ?thesis
    by (cases rule: applyEvent_cases[OF _ refl])
      (use assms(1) k lease in \<open>auto simp: canceled_def applyInstantiated_def applyCanceled_def
          applyHeartbeat_def intro: canceled_attempt_facts identified_frozen split: if_splits\<close>)
qed

lemma canceled_Reduce: "canceled s \<Longrightarrow> Reduce mi pol s ev = Inr t \<Longrightarrow> frozen s t"
  by (auto simp: Reduce_def bindE_eq_Inr_iff frozen_def dest!: canceled_applyEvent split: if_splits)

text \<open>Over a whole log, as the invariant that the state is canceled and frozen since \<open>s0\<close>.\<close>

interpretation cancel: kept_by_log "\<lambda>s e. Reduce (orc e) pol s e" "\<lambda>t. canceled t \<and> frozen s0 t"
  for orc pol s0
  by unfold_locales (blast intro: canceled_Reduce frozen_canceled frozen_trans)

lemma applyCanceled_canceled:
  assumes "applyCanceled s ev = Inr t" and "inst_WorkflowID (snap_Instance s) \<noteq> ''''"
  shows "canceled t"
  using assms
  by (auto simp: applyCanceled_def canceled_def updInst_def list_all_iff cancelActivation_def Let_def
      split: if_splits)

section \<open>The retry budget\<close>

text \<open>
  What a failed, timed out or panicked termination does to the activation and the workflow, as a
  function of the node's retry policy and the number of attempts made.
\<close>

definition retryVerdict ::
  "retry_policy option \<Rightarrow> nat \<Rightarrow> workflow_status \<Rightarrow> activation_status \<times> workflow_status" where
  "retryVerdict policy made ws =
     (let blocked = (ActivationBlocked,
                     if ws \<in> {WorkflowActive, WorkflowBlocked} then WorkflowBlocked else ws)
      in case policy of
           None \<Rightarrow> blocked
         | Some p \<Rightarrow>
             if int made < rp_MaximumAttempts p then (ActivationReady, ws)
             else (case rp_Exhaustion p of
                     RetryExhaustionFail \<Rightarrow>
                       (ActivationAttemptFailed, if ws = WorkflowActive then WorkflowFailed else ws)
                   | RetryExhaustionOutcome \<Rightarrow> (ActivationAttemptFailed, ws)
                   | _ \<Rightarrow> blocked))"

lemma retryPolicyFor_upd [simp]:
  "retryPolicyFor pol (updAct i f s) n = retryPolicyFor pol s n"
  "retryPolicyFor pol (updAttempt j g s) n = retryPolicyFor pol s n"
  by (simp_all add: retryPolicyFor_def upd_defs split: option.split)

lemma releaseAndRetry_verdict:
  assumes "i < length (acts s)" and "ev_AttemptStatus ev \<noteq> AttemptCanceled"
  shows "(act_Status (acts (releaseAndRetry pol s i ev) ! i), wfStatus (releaseAndRetry pol s i ev)) =
    retryVerdict (retryPolicyFor pol s (act_NodeID (acts s ! i)))
      (length (act_AttemptIDs (acts s ! i))) (wfStatus s)"
  using assms
  by (simp add: releaseAndRetry_def retryVerdict_def Let_def markInstanceBlocked_def
      split: option.split retry_exhaustion_kind.split)

lemma releaseAndRetry_lease:
  assumes "i < length (acts s)"
  shows "act_ActiveLease (acts (releaseAndRetry pol s i ev) ! i) = None"
  using assms
  by (simp add: releaseAndRetry_def Let_def split: option.split retry_exhaustion_kind.split)

lemma applyAttemptTerminated_failure:
  assumes "i < length (acts s)"
    and "ev_AttemptStatus ev \<in> {AttemptFailed, AttemptTimedOut, AttemptPanicked}"
    and "findAttempt s (acts s ! i) (ev_AttemptID ev) = Some j"
    and "\<not> terminalAttemptStatus (at_Status (attempts s ! j))"
    and "act_Status (acts s ! i) \<noteq> ActivationSatisfied"
    and "wfStatus s \<notin> {WorkflowCompleted, WorkflowCanceled}"
  obtains t where "applyAttemptTerminated pol s (Some i) ev = Inr t"
    and "(act_Status (acts t ! i), wfStatus t) =
      retryVerdict (retryPolicyFor pol s (act_NodeID (acts s ! i)))
        (length (act_AttemptIDs (acts s ! i))) (wfStatus s)"
    and "act_ActiveLease (acts t ! i) = None"
    and "at_Status (attempts t ! j) = ev_AttemptStatus ev"
proof -
  let ?s1 = "updAttempt j (terminateAttempt ev) s"
  let ?t = "releaseAndRetry pol ?s1 i ev"
  have nc: "ev_AttemptStatus ev \<noteq> AttemptCanceled" using assms(2) by auto
  have 1: "applyAttemptTerminated pol s (Some i) ev = Inr ?t"
    using assms by (auto simp: applyAttemptTerminated_def Let_def)
  have 2: "(act_Status (acts ?t ! i), wfStatus ?t) =
      retryVerdict (retryPolicyFor pol s (act_NodeID (acts s ! i)))
        (length (act_AttemptIDs (acts s ! i))) (wfStatus s)"
    using releaseAndRetry_verdict[of i ?s1 ev pol] assms(1) nc by simp
  have 3: "act_ActiveLease (acts ?t ! i) = None"
    using releaseAndRetry_lease[of i ?s1] assms(1) by simp
  have 4: "at_Status (attempts ?t ! j) = ev_AttemptStatus ev"
    using findAttempt_less[OF assms(3)] by (simp add: terminateAttempt_def)
  show thesis using that[OF 1 2 3 4] .
qed

section \<open>Identity of the instance and finality of a completion\<close>

definition instKey :: "snapshot \<Rightarrow> string \<times> string \<times> string \<times> string \<times> (string \<times> string) list" where
  "instKey s = (inst_WorkflowID (snap_Instance s), inst_InstanceID (snap_Instance s),
     inst_TemplateID (snap_Instance s), inst_TemplateVersion (snap_Instance s), inst_Params (snap_Instance s))"

lemma instKey_helpers [simp]:
  "instKey (updAct i f s) = instKey s"
  "instKey (updAttempt j g s) = instKey s"
  "instKey (setStatus st s) = instKey s"
  "instKey (recordOutputs ev s) = instKey s"
  "instKey (completeWorkflow out s) = instKey s"
  "instKey (updChild c h s) = instKey s"
  "instKey (stampInstance ev s) = instKey s"
  "instKey (appendActivation a s) = instKey s"
  "instKey (updInst (\<lambda>x. x\<lparr>inst_Gates := k x\<rparr>) s) = instKey s"
  "instKey (updInst (\<lambda>x. x\<lparr>inst_Attempts := l x\<rparr>) s) = instKey s"
  "instKey (recordEvent ev s) = instKey s"
  by (simp_all add: instKey_def completeWorkflow_def updChild_def stampInstance_def
      appendActivation_def recordOutputs_def recordEvent_def Let_def upd_defs)

lemma instKey_more [simp]:
  "instKey (markInstanceBlocked s) = instKey s"
  "instKey (foldl (timeOutAttempt t a) s ids) = instKey s"
  "instKey (releaseAndRetry pol s i ev) = instKey s"
  "instKey (resolveGate pol s i ev gate) = instKey s"
     apply (simp add: markInstanceBlocked_def)
    apply (induction ids arbitrary: s; simp add: timeOutAttempt_def split: option.split)
   apply (simp add: releaseAndRetry_def Let_def markInstanceBlocked_def
      split: option.split retry_exhaustion_kind.split)
  apply (simp add: resolveGate_def Let_def)
  done

lemma satisfyActivation_instKey: "satisfyActivation pol s i ev = Inr t \<Longrightarrow> instKey t = instKey s"
  by (auto simp: satisfyActivation_def Let_def split: if_splits)

lemma handlers_instKey:
  "applyTransition pol s ev = Inr t \<Longrightarrow> instKey t = instKey s"
  "applyLeased s act ev = Inr t \<Longrightarrow> instKey t = instKey s"
  "applyStarted s act ev = Inr t \<Longrightarrow> instKey t = instKey s"
  "applyAttemptIdentified s act ev = Inr t \<Longrightarrow> instKey t = instKey s"
  "applyAttemptTerminated pol s act ev = Inr t \<Longrightarrow> instKey t = instKey s"
  "applySkipped s act ev = Inr t \<Longrightarrow> instKey t = instKey s"
  "applyUnblocked s act ev = Inr t \<Longrightarrow> instKey t = instKey s"
  "applyHeartbeat s act ev = Inr t \<Longrightarrow> instKey t = instKey s"
  "applyLeaseExpired s act ev = Inr t \<Longrightarrow> instKey t = instKey s"
  "applyChildAttached s act ev = Inr t \<Longrightarrow> instKey t = instKey s"
  "applyExternalParked s act ev = Inr t \<Longrightarrow> instKey t = instKey s"
  "instKey (applyRerouted pol s ev) = instKey s"
  by (auto simp: applyTransition_def applyLeased_def applyStarted_def applyAttemptIdentified_def
      applyAttemptTerminated_def applySkipped_def applyUnblocked_def applyHeartbeat_def
      applyLeaseExpired_def applyChildAttached_def applyExternalParked_def applyRerouted_def
      Let_def split: if_splits option.splits)

lemma handlers_instKey_more:
  "applyCanceled s ev = Inr t \<Longrightarrow> instKey t = instKey s"
  "applyCompleted pol s act ev = Inr t \<Longrightarrow> instKey t = instKey s"
  "applyChildOutcome pol s act ev = Inr t \<Longrightarrow> instKey t = instKey s"
  "applyGate pol s (Some i) ev = Inr t \<Longrightarrow> instKey t = instKey s"
     apply (auto simp: applyCanceled_def updInst_def instKey_def split: if_splits)[1]
    apply (auto simp: applyCompleted_def Let_def dest: satisfyActivation_instKey split: if_splits option.splits)[1]
   apply (auto simp: applyChildOutcome_def Let_def dest: satisfyActivation_instKey split: if_splits option.splits)[1]
  apply (auto elim: applyGate_cases)
  done

text \<open>Once an instance has a workflow id, its identity and its template never change.\<close>

lemma applyEvent_instKey:
  "applyEvent mi pol s ev = Inr t \<Longrightarrow> inst_WorkflowID (snap_Instance s) \<noteq> '''' \<Longrightarrow> instKey t = instKey s"
  by (erule applyEvent_cases[OF _ refl])
    (auto simp: handlers_instKey handlers_instKey_more applyInstantiated_def)

lemma Reduce_instKey:
  "Reduce mi pol s ev = Inr t \<Longrightarrow> inst_WorkflowID (snap_Instance s) \<noteq> '''' \<Longrightarrow> instKey t = instKey s"
  by (auto simp: Reduce_def bindE_eq_Inr_iff dest: applyEvent_instKey split: if_splits)

lemma applyEvent_not_instantiated:
  "applyEvent mi pol s ev = Inr t \<Longrightarrow> inst_WorkflowID (snap_Instance s) \<noteq> '''' \<Longrightarrow>
   ev_Kind ev \<noteq> EventInstantiated"
  by (erule applyEvent_cases[OF _ refl]) (auto simp: applyInstantiated_def)

lemma wf_step_from_completed:
  "wf_step k WorkflowCompleted st \<Longrightarrow> k \<noteq> EventInstantiated \<Longrightarrow> st = WorkflowCompleted"
  by (auto elim: wf_step.cases)

definition completed :: "snapshot \<Rightarrow> bool" where
  "completed s \<longleftrightarrow> wfStatus s = WorkflowCompleted \<and> inst_WorkflowID (snap_Instance s) \<noteq> ''''"

lemma Reduce_completed: "completed s \<Longrightarrow> Reduce mi pol s ev = Inr t \<Longrightarrow> completed t"
proof -
  assume c: "completed s" and r: "Reduce mi pol s ev = Inr t"
  have "instKey t = instKey s" using Reduce_instKey[OF r] c by (simp add: completed_def)
  moreover have "wfStatus t = WorkflowCompleted"
    using r c applyEvent_wfStatus applyEvent_not_instantiated wf_step_from_completed
    by (auto simp: Reduce_def bindE_eq_Inr_iff completed_def split: if_splits) metis
  ultimately show "completed t" using c by (simp add: completed_def instKey_def)
qed

interpretation completion: kept_by_log "\<lambda>s e. Reduce (orc e) pol s e" completed for orc pol
  by unfold_locales (rule Reduce_completed)

section \<open>A satisfied activation stays satisfied\<close>

definition settledAt :: "nat \<Rightarrow> activation \<Rightarrow> snapshot \<Rightarrow> bool" where
  "settledAt i a s \<longleftrightarrow> i < length (acts s) \<and> act_Status (acts s ! i) = ActivationSatisfied \<and>
     act_ActiveLease (acts s ! i) = None \<and> visit (acts s ! i) = visit a \<and>
     act_SelectedOutcome (acts s ! i) = act_SelectedOutcome a"

lemma act_step_from_satisfied:
  "act_step k a a' \<Longrightarrow> act_Status a = ActivationSatisfied \<Longrightarrow> act_ActiveLease a = None \<Longrightarrow>
   act_Status a' = ActivationSatisfied \<and> act_ActiveLease a' = None \<and>
   act_SelectedOutcome a' = act_SelectedOutcome a"
  by (induction rule: act_step.induct) auto

lemma Reduce_settledAt: "settledAt i a s \<Longrightarrow> Reduce mi pol s ev = Inr t \<Longrightarrow> settledAt i a t"
  using evolves_nth[OF Reduce_evolves, of mi pol s ev t i]
  by (auto simp: settledAt_def act_effect_def dest: act_step_from_satisfied)

interpretation settled: kept_by_log "\<lambda>s e. Reduce (orc e) pol s e" "settledAt i a" for orc pol i a
  by unfold_locales (rule Reduce_settledAt)

end
