(* ===== verification/Wf_Example.thy ===== *)
theory Wf_Example
  imports Wf_Settlement
begin

text \<open>
  A concrete workflow on which the general theorems are applied: two entry nodes, \<^verbatim>\<open>build\<close> (at
  most two attempts) and \<^verbatim>\<open>review\<close> (one required human gate). The log fails the first build
  attempt, retries it, branches to \<^verbatim>\<open>ship\<close>, parks the review on its gate and accepts it.
\<close>

definition demoMinted :: "event \<Rightarrow> minted" where
  "demoMinted ev = \<lparr>mi_now = 1, mi_uuid = (\<lambda>_. ''u'')\<rparr>"

definition demoGate :: gate_definition where
  "demoGate = \<lparr>gd_ID = ''approve'', gd_Name = ''approve'', gd_Type = GateHuman, gd_Required = True,
     gd_AllowedOutcomes = [], gd_SubjectType = '''', gd_AdapterID = '''', gd_Inputs = [],
     gd_SubjectBinding = None, gd_ResultOutcomes = []\<rparr>"

definition demoPolicies :: "policies option" where
  "demoPolicies = Some
     \<lparr>pol_CompletionGates = (\<lambda>_ _ n. if n = ''review'' then [demoGate] else []),
      pol_RetryPolicy = (\<lambda>_ _ _. Some \<lparr>rp_MaximumAttempts = 2, rp_Exhaustion = RetryExhaustionBlock, rp_Outcome = ''''\<rparr>),
      pol_DispatchPolicy = (\<lambda>_ _ _. None),
      pol_Template = (\<lambda>_ _. Inr None),
      pol_ChildSnapshot = (\<lambda>_. Inr (zeroSnapshot, False))\<rparr>"

definition demoEvent :: "string \<Rightarrow> int \<Rightarrow> event_kind \<Rightarrow> string \<Rightarrow> string \<Rightarrow> event" where
  "demoEvent eid n kind node aid =
     zeroEvent\<lparr>ev_ID := eid, ev_Sequence := n, ev_Kind := kind, ev_At := 10 + n,
       ev_Identity := zeroIdentity\<lparr>id_WorkflowID := ''w'', id_NodeID := node, id_ActivationID := aid\<rparr>\<rparr>"

definition demoInstantiated :: event where
  "demoInstantiated = (demoEvent ''e1'' 1 EventInstantiated '''' '''')
     \<lparr>ev_Instantiated := Some \<lparr>ir_TemplateID = ''t'', ir_TemplateVersion = ''1'', ir_TerminalOutcomes = [''ok''],
        ir_EntryNodes = [''build'', ''review''], ir_Children = [], ir_Params = [], ir_InstanceID = ''i''\<rparr>,
      ev_ActivationIDs := [''a1'', ''a2'']\<rparr>"

definition demoLeased :: "string \<Rightarrow> int \<Rightarrow> string \<Rightarrow> string \<Rightarrow> string \<Rightarrow> event" where
  "demoLeased eid n node aid l = (demoEvent eid n EventLeased node aid)
     \<lparr>ev_LeaseID := l, ev_Actor := ''worker'',
      ev_Lease := Some (zeroLease\<lparr>ls_ID := l, ls_TokenDigest := ''d'', ls_AcquiredAt := 10 + n, ls_ExpiresAt := 100\<rparr>)\<rparr>"

definition demoStarted :: "string \<Rightarrow> int \<Rightarrow> string \<Rightarrow> string \<Rightarrow> string \<Rightarrow> string \<Rightarrow> event" where
  "demoStarted eid n node aid l att = (demoEvent eid n EventStarted node aid)
     \<lparr>ev_LeaseID := l, ev_AttemptID := att\<rparr>"

definition demoTerminated :: "string \<Rightarrow> int \<Rightarrow> string \<Rightarrow> string \<Rightarrow> string \<Rightarrow> attempt_status \<Rightarrow> event" where
  "demoTerminated eid n node aid att st = (demoEvent eid n EventAttemptTerminated node aid)
     \<lparr>ev_AttemptID := att, ev_AttemptStatus := st\<rparr>"

definition demoTransition :: transition where
  "demoTransition = \<lparr>tr_ActivationID = ''a1'', tr_Outcome = ''built'', tr_TargetNodeID = ''ship'', tr_CreatedAt = 0\<rparr>"

definition demoBuild :: "event list" where
  "demoBuild =
     [demoInstantiated,
      demoLeased ''e2'' 2 ''build'' ''a1'' ''l1'',
      demoStarted ''e3'' 3 ''build'' ''a1'' ''l1'' ''att1'',
      demoTerminated ''e4'' 4 ''build'' ''a1'' ''att1'' AttemptFailed,
      demoLeased ''e5'' 5 ''build'' ''a1'' ''l2'',
      demoStarted ''e6'' 6 ''build'' ''a1'' ''l2'' ''att2'']"

definition demoShip :: "event list" where
  "demoShip =
     [(demoEvent ''e7'' 7 EventCompleted ''build'' ''a1'')
        \<lparr>ev_LeaseID := ''l2'', ev_Outcome := ''built'', ev_Transition := Some demoTransition\<rparr>,
      (demoEvent ''e8'' 8 EventTransition ''build'' ''a1'')
        \<lparr>ev_Outcome := ''built'', ev_Transition := Some demoTransition, ev_ActivationIDs := [''a3''],
         ev_CausedBy := [''a1'']\<rparr>]"

definition demoReview :: "event list" where
  "demoReview =
     [demoLeased ''e9'' 9 ''review'' ''a2'' ''l3'',
      demoStarted ''e10'' 10 ''review'' ''a2'' ''l3'' ''att3'',
      (demoEvent ''e11'' 11 EventCompleted ''review'' ''a2'')
        \<lparr>ev_LeaseID := ''l3'', ev_Outcome := ''ok''\<rparr>]"

definition demoAccept :: event where
  "demoAccept = (demoEvent ''e12'' 12 EventGate ''review'' ''a2'')
     \<lparr>ev_Gate := Some (zeroGateInstance\<lparr>gi_ID := ''g1'', gi_GateID := ''approve'', gi_ActivationID := ''a2'',
        gi_Status := GatePassed, gi_Actor := ''op'', gi_Reason := ''fine'', gi_EvidenceIDs := [''x'']\<rparr>)\<rparr>"

definition demoLog :: "event list" where
  "demoLog = demoBuild @ demoShip @ demoReview @ [demoAccept]"

definition demoCancel :: event where
  "demoCancel = (demoEvent ''e7'' 7 EventCanceled '''' '''')\<lparr>ev_Actor := ''op'', ev_Reason := ''stop''\<rparr>"

definition demoRun :: "event list \<Rightarrow> snapshot result" where
  "demoRun = reduceAll demoMinted demoPolicies zeroSnapshot"

definition the_snap :: "snapshot result \<Rightarrow> snapshot" where
  "the_snap r = (case r of Inl _ \<Rightarrow> zeroSnapshot | Inr s \<Rightarrow> s)"

lemma the_snap_ok: "isOk r \<Longrightarrow> r = Inr (the_snap r)"
  by (cases r) (simp_all add: the_snap_def)

lemma demoLog_ok: "isOk (demoRun demoLog)"
  by code_simp

lemma demoLog_status:
  "map act_Status (acts (the_snap (demoRun demoLog))) =
     [ActivationSatisfied, ActivationSatisfied, ActivationPending]"
  by code_simp

end
