(* ===== verification/Wf_Correctness.thy ===== *)
theory Wf_Correctness
  imports Wf_Example
begin

text \<open>
  The correctness properties of the reducer, each with a witness on the example log of
  \<^verbatim>\<open>Wf_Example\<close>.
\<close>

section \<open>Recovery and determinism\<close>



section \<open>Invariants over every log\<close>





section \<open>Settlement\<close>

text \<open>
  C4: satisfaction requires the gates. If an activation is satisfied after an event and was not
  before, then the event is a completion, a child outcome or a gate decision, and every required
  gate of the node has a passed or waived decision recorded for this very activation.
\<close>

theorem satisfied_only_with_gates:
  assumes "applyEvent mi pol s ev = Inr t" and "i < length (acts t)"
    and "act_Status (acts t ! i) = ActivationSatisfied"
    and "\<not> (i < length (acts s) \<and> act_Status (acts s ! i) = ActivationSatisfied)"
  shows "ev_Kind ev \<in> {EventCompleted, EventChildOutcome, EventGate} \<and>
    gatesResolved (snap_Instance t) (completionGatesFor pol t (act_NodeID (acts t ! i))) (acts t ! i)"
  using applyEvent_settledBy[OF assms(1)] evolves_satisfied[OF applyEvent_evolves[OF assms(1)]] assms(2-4)
  by (auto simp: settledBy_def properlySatisfied_def)

theorem satisfied_only_with_gates_witness:
  "gatesResolved (snap_Instance (the_snap (demoRun demoLog)))
     [demoGate] (acts (the_snap (demoRun demoLog)) ! 1)"
proof -
  let ?s = "the_snap (demoRun (demoBuild @ demoShip @ demoReview))"
  let ?r = "applyEvent (demoMinted demoAccept) demoPolicies ?s demoAccept"
  have "isOk ?r" by code_simp
  then have r: "?r = Inr (the_snap ?r)" by (rule the_snap_ok)
  have 1: "1 < length (acts (the_snap ?r))" by code_simp
  have 2: "act_Status (acts (the_snap ?r) ! 1) = ActivationSatisfied" by code_simp
  have 3: "act_Status (acts ?s ! 1) \<noteq> ActivationSatisfied" by code_simp
  have g: "gatesResolved (snap_Instance (the_snap ?r))
      (completionGatesFor demoPolicies (the_snap ?r) (act_NodeID (acts (the_snap ?r) ! 1)))
      (acts (the_snap ?r) ! 1)"
    using satisfied_only_with_gates[OF r 1 2] 3 by blast
  have n: "act_NodeID (acts (the_snap ?r) ! 1) = ''review''" by code_simp
  have gates: "inst_Gates (snap_Instance (the_snap (demoRun demoLog))) = inst_Gates (snap_Instance (the_snap ?r))"
    by code_simp
  have aid: "act_ID (acts (the_snap (demoRun demoLog)) ! 1) = act_ID (acts (the_snap ?r) ! 1)" by code_simp
  have pg: "completionGatesFor demoPolicies (the_snap ?r) ''review'' = [demoGate]" by code_simp
  from g have "gatesResolved (snap_Instance (the_snap ?r)) [demoGate] (acts (the_snap ?r) ! 1)"
    by (simp only: n pg)
  then show ?thesis by (simp only: gatesResolved_cong[OF gates refl aid])
qed

text \<open>
  C5: a workflow completes on a satisfied activation. If an event turns the workflow completed,
  there is an activation that is satisfied with its gates resolved, and the terminal outcome of
  the workflow is the outcome selected for that activation.
\<close>

theorem completion_has_satisfied_activation:
  assumes "applyEvent mi pol s ev = Inr t"
    and "wfStatus t = WorkflowCompleted" and "wfStatus s \<noteq> WorkflowCompleted"
  shows "\<exists>i<length (acts t). act_Status (acts t ! i) = ActivationSatisfied \<and>
    act_SelectedOutcome (acts t ! i) = inst_TerminalOutcome (snap_Instance t) \<and>
    gatesResolved (snap_Instance t) (completionGatesFor pol t (act_NodeID (acts t ! i))) (acts t ! i)"
  using applyEvent_settledBy[OF assms(1)] assms(2,3)
  by (auto simp: settledBy_def properlySatisfied_def)

theorem completion_has_satisfied_activation_witness:
  "\<exists>a\<in>set (acts (the_snap (demoRun demoLog))). act_Status a = ActivationSatisfied \<and>
     act_SelectedOutcome a = inst_TerminalOutcome (snap_Instance (the_snap (demoRun demoLog)))"
proof -
  let ?s = "the_snap (demoRun (demoBuild @ demoShip @ demoReview))"
  let ?r = "applyEvent (demoMinted demoAccept) demoPolicies ?s demoAccept"
  have "isOk ?r" by code_simp
  then have r: "?r = Inr (the_snap ?r)" by (rule the_snap_ok)
  have 1: "wfStatus (the_snap ?r) = WorkflowCompleted" by code_simp
  have 2: "wfStatus ?s \<noteq> WorkflowCompleted" by code_simp
  have same: "acts (the_snap (demoRun demoLog)) = acts (the_snap ?r)"
    "inst_TerminalOutcome (snap_Instance (the_snap (demoRun demoLog))) =
     inst_TerminalOutcome (snap_Instance (the_snap ?r))" by code_simp+
  show ?thesis
    using completion_has_satisfied_activation[OF r 1 2] nth_mem unfolding same by blast
qed

text \<open>
  A satisfied activation stays satisfied. Once an activation is satisfied and its lease is
  released, no log changes its status, its outcome or its identity.
\<close>

theorem satisfied_is_stable:
  assumes "reduceAll orc pol s evs = Inr t" and "i < length (acts s)"
    and "act_Status (acts s ! i) = ActivationSatisfied" and "act_ActiveLease (acts s ! i) = None"
  shows "i < length (acts t) \<and> act_Status (acts t ! i) = ActivationSatisfied \<and>
    act_SelectedOutcome (acts t ! i) = act_SelectedOutcome (acts s ! i) \<and>
    visit (acts t ! i) = visit (acts s ! i)"
  using settled.log_keeps[OF _ assms(1), of i "acts s ! i"] assms(2-4)
  by (auto simp: settledAt_def)

theorem satisfied_is_stable_witness:
  "act_SelectedOutcome (acts (the_snap (reduceAll demoMinted demoPolicies
      (the_snap (demoRun (demoBuild @ demoShip))) demoReview)) ! 0) = ''built''"
proof -
  let ?s = "the_snap (demoRun (demoBuild @ demoShip))"
  let ?r = "reduceAll demoMinted demoPolicies ?s demoReview"
  have "isOk ?r" by code_simp
  then have r: "?r = Inr (the_snap ?r)" by (rule the_snap_ok)
  have "0 < length (acts ?s)" "act_Status (acts ?s ! 0) = ActivationSatisfied"
    "act_ActiveLease (acts ?s ! 0) = None" by code_simp+
  from satisfied_is_stable[OF r this]
  have "act_SelectedOutcome (acts (the_snap ?r) ! 0) = act_SelectedOutcome (acts ?s ! 0)" by simp
  also have "\<dots> = ''built''" by code_simp
  finally show ?thesis .
qed

text \<open>
  A completed workflow stays completed. No later event, a cancellation or a failing attempt
  included, takes a completed instance out of the completed status.
\<close>

theorem completed_is_final:
  assumes "reduceAll orc pol s evs = Inr t"
    and "wfStatus s = WorkflowCompleted" and "inst_WorkflowID (snap_Instance s) \<noteq> ''''"
  shows "wfStatus t = WorkflowCompleted"
  using completion.log_keeps[OF _ assms(1)] assms(2,3) by (simp add: completed_def)

theorem completed_is_final_witness:
  "wfStatus (the_snap (reduceAll demoMinted demoPolicies (the_snap (demoRun demoLog))
     [demoLeased ''e13'' 13 ''ship'' ''a3'' ''l4''])) = WorkflowCompleted"
proof -
  let ?r = "reduceAll demoMinted demoPolicies (the_snap (demoRun demoLog)) [demoLeased ''e13'' 13 ''ship'' ''a3'' ''l4'']"
  have "isOk ?r" by code_simp
  then have r: "?r = Inr (the_snap ?r)" by (rule the_snap_ok)
  have "wfStatus (the_snap (demoRun demoLog)) = WorkflowCompleted"
    "inst_WorkflowID (snap_Instance (the_snap (demoRun demoLog))) \<noteq> ''''" by code_simp+
  from completed_is_final[OF r this] show ?thesis .
qed

text \<open>
  C6: a cancellation is final. After a cancel event on an existing instance, no log of later
  events changes the status of the workflow or of any activation, creates an activation, grants a
  lease, or records evidence, outputs or gate decisions.
\<close>

theorem canceled_is_final:
  assumes "applyEvent mi pol s ev = Inr s1" and "ev_Kind ev = EventCanceled"
    and "inst_WorkflowID (snap_Instance s) \<noteq> ''''" and "reduceAll orc pol s1 evs = Inr t"
  shows "canceled s1 \<and> canceled t \<and> frozen s1 t"
proof -
  have "canceled s1"
    using assms(1) by (cases rule: applyEvent_cases[OF _ refl])
      (use assms(2,3) in \<open>auto dest: applyCanceled_canceled\<close>)
  with cancel.log_keeps[OF _ assms(4), of s1] show ?thesis by simp
qed

theorem canceled_is_final_witness:
  "wfStatus (the_snap (reduceAll demoMinted demoPolicies
      (the_snap (applyEvent (demoMinted demoCancel) demoPolicies (the_snap (demoRun demoBuild)) demoCancel))
      [demoTerminated ''e8'' 8 ''build'' ''a1'' ''att2'' AttemptFailed])) = WorkflowCanceled"
proof -
  let ?s = "the_snap (demoRun demoBuild)"
  let ?c = "applyEvent (demoMinted demoCancel) demoPolicies ?s demoCancel"
  let ?r = "reduceAll demoMinted demoPolicies (the_snap ?c) [demoTerminated ''e8'' 8 ''build'' ''a1'' ''att2'' AttemptFailed]"
  have "isOk ?c" by code_simp
  then have c: "?c = Inr (the_snap ?c)" by (rule the_snap_ok)
  have k: "ev_Kind demoCancel = EventCanceled" "inst_WorkflowID (snap_Instance ?s) \<noteq> ''''" by code_simp+
  have "isOk ?r" by code_simp
  then have r: "?r = Inr (the_snap ?r)" by (rule the_snap_ok)
  from canceled_is_final[OF c k r] show ?thesis by (simp add: canceled_def)
qed



end
