(* ===== verification/Wf_Bindings.thy ===== *)
theory Wf_Bindings
  imports Wf_Reducer Complex_Main
begin

text \<open>
  Command-time pinning of bound gates (\<^verbatim>\<open>gate_bindings.go\<close>): the references a gate declares are
  resolved along the causal provenance of the activation a transition creates, against the state
  that the command itself produces, and recorded on the event.

  Decoding of JSON values is a parameter: \<open>codec\<close> holds, for each Go type the kernel decodes a raw
  payload into, the value \<^verbatim>\<open>json.Unmarshal\<close> stores or the error it returns. A decoded \<^verbatim>\<open>float64\<close> is
  finite, hence rational.
\<close>

record codec =
  jc_Instance :: "raw \<Rightarrow> instance_record result"
  jc_Transition :: "raw \<Rightarrow> transition result"
  jc_Reroute :: "raw \<Rightarrow> (execution_selection option \<times> int) result"
  jc_String :: "raw \<Rightarrow> string option"
  jc_Number :: "raw \<Rightarrow> rat option"

definition maxSafeOutputFloat :: int where
  "maxSafeOutputFloat = 9007199254740991"

section \<open>The causal chain\<close>

text \<open>\<^verbatim>\<open>byID[a.ID] = a\<close> in slice order: the last activation with an id wins.\<close>

definition byID :: "activation list \<Rightarrow> string \<Rightarrow> activation option" where
  "byID as x = find (\<lambda>a. act_ID a = x) (rev as)"

lemma byID_SomeD: "byID as x = Some a \<Longrightarrow> a \<in> set as \<and> act_ID a = x"
  by (auto simp: byID_def find_Some_iff in_set_conv_nth) (metis length_rev nth_mem set_rev in_set_conv_nth)

text \<open>The inner loop over \<^verbatim>\<open>act.CausedBy\<close>: unvisited parents are marked, known ones are queued.\<close>

fun scanParents :: "activation list \<Rightarrow> string list \<Rightarrow> activation list \<Rightarrow> string list \<Rightarrow> activation list \<times> string list" where
  "scanParents as [] next visited = (next, visited)"
| "scanParents as (p # ps) next visited =
     (if p \<in> set visited then scanParents as ps next visited
      else scanParents as ps (case byID as p of None \<Rightarrow> next | Some a \<Rightarrow> next @ [a]) (p # visited))"

fun scanLevel :: "activation list \<Rightarrow> string \<Rightarrow> activation list \<Rightarrow> activation list \<Rightarrow> activation list \<Rightarrow>
    string list \<Rightarrow> activation list \<times> activation list \<times> string list" where
  "scanLevel as source [] found next visited = (found, next, visited)"
| "scanLevel as source (a # level) found next visited =
     (let found' = (if act_NodeID a = source \<and> act_Status a = ActivationSatisfied then found @ [a] else found);
          (next', visited') = scanParents as (act_CausedBy a) next visited
      in scanLevel as source level found' next' visited')"

definition unvisited :: "activation list \<Rightarrow> string list \<Rightarrow> nat" where
  "unvisited as visited = card (act_ID ` set as - set visited)"

lemma scanParents_progress:
  assumes "scanParents as ps next visited = (next', visited')"
  shows "set visited \<subseteq> set visited' \<and> length next \<le> length next' \<and>
    length next' + unvisited as visited' \<le> length next + unvisited as visited"
  using assms
proof (induction as ps "next" visited rule: scanParents.induct)
  case (2 as p ps "next" visited)
  show ?case
  proof (cases "p \<in> set visited")
    case True
    with 2 show ?thesis by simp
  next
    case False
    let ?n = "case byID as p of None \<Rightarrow> next | Some a \<Rightarrow> next @ [a]"
    have IH: "set (p # visited) \<subseteq> set visited' \<and> length ?n \<le> length next' \<and>
        length next' + unvisited as visited' \<le> length ?n + unvisited as (p # visited)"
      using 2 False by simp
    have "unvisited as (p # visited) \<le> unvisited as visited"
      unfolding unvisited_def by (intro card_mono) auto
    moreover have "Suc (unvisited as (p # visited)) \<le> unvisited as visited" if "byID as p = Some a" for a
    proof -
      have "p \<in> act_ID ` set as - set visited" using byID_SomeD[OF that] False by auto
      then have "act_ID ` set as - set (p # visited) \<subset> act_ID ` set as - set visited" by auto
      then show ?thesis unfolding unvisited_def by (simp add: psubset_card_mono Suc_leI)
    qed
    ultimately show ?thesis using IH by (auto split: option.splits)
  qed
qed simp

lemma scanLevel_progress:
  "scanLevel as source level found next visited = (found', next', visited') \<Longrightarrow>
   length next' + unvisited as visited' \<le> length next + unvisited as visited"
proof (induction level arbitrary: found "next" visited)
  case (Cons a level)
  obtain n v where sp: "scanParents as (act_CausedBy a) next visited = (n, v)" by fastforce
  let ?f = "if act_NodeID a = source \<and> act_Status a = ActivationSatisfied then found @ [a] else found"
  have "scanLevel as source level ?f n v = (found', next', visited')"
    using Cons.prems sp by (simp add: Let_def)
  from Cons.IH[OF this] scanParents_progress[OF sp] show ?case by linarith
qed simp

function nearestFrom :: "activation list \<Rightarrow> string \<Rightarrow> activation list \<Rightarrow> string list \<Rightarrow> activation option result" where
  "nearestFrom as source level visited =
     (if level = [] then Inr None
      else case scanLevel as source level [] [] visited of
        (found, next, visited') \<Rightarrow>
          (case found of
             [] \<Rightarrow> nearestFrom as source next visited'
           | [a] \<Rightarrow> Inr (Some a)
           | _ \<Rightarrow> Inl (ErrAmbiguousBinding source)))"
  by pat_completeness auto

termination
proof (relation "measures [\<lambda>(as, _, _, visited). unvisited as visited, \<lambda>(_, _, level, _). length level]", goal_cases)
  case (2 as source level visited found y "next" visited')
  then have "scanLevel as source level [] [] visited = (found, next, visited')" by simp
  from scanLevel_progress[OF this] 2(1) show ?case
    by (cases "next") auto
qed simp

declare nearestFrom.simps [simp del]

definition nearestCompletedSource :: "activation list \<Rightarrow> string \<Rightarrow> string \<Rightarrow> activation option result" where
  "nearestCompletedSource as causedBy sourceNode =
     (case byID as causedBy of
        None \<Rightarrow> Inr None
      | Some start \<Rightarrow> nearestFrom as sourceNode [start] [causedBy])"

text \<open>
  What the search computes. \<open>walk as c n\<close> are the ids reached from \<open>c\<close> by walking \<open>n\<close> causes back,
  \<open>layer\<close> those at causal distance exactly \<open>n\<close>, and \<open>hits\<close> the completed activations of the
  source node in that layer.
\<close>

fun walk :: "activation list \<Rightarrow> string \<Rightarrow> nat \<Rightarrow> string set" where
  "walk as c 0 = {c}"
| "walk as c (Suc n) = {p. \<exists>x\<in>walk as c n. \<exists>a. byID as x = Some a \<and> p \<in> set (act_CausedBy a)}"

definition layer :: "activation list \<Rightarrow> string \<Rightarrow> nat \<Rightarrow> string set" where
  "layer as c n = walk as c n - (\<Union>m<n. walk as c m)"

definition hits :: "activation list \<Rightarrow> string \<Rightarrow> string \<Rightarrow> nat \<Rightarrow> activation set" where
  "hits as c source n = {a. \<exists>x\<in>layer as c n. byID as x = Some a \<and> act_NodeID a = source \<and>
     act_Status a = ActivationSatisfied}"

definition acts_of :: "activation list \<Rightarrow> string set \<Rightarrow> activation set" where
  "acts_of as X = {a. \<exists>x\<in>X. byID as x = Some a}"

lemma acts_of_ids: "a \<in> acts_of as X \<Longrightarrow> act_ID a \<in> X"
  by (auto simp: acts_of_def dest: byID_SomeD)

lemma acts_of_Un: "acts_of as (X \<union> Y) = acts_of as X \<union> acts_of as Y"
  by (auto simp: acts_of_def)

lemma scanParents_spec:
  "scanParents as ps next visited = (next', visited') \<Longrightarrow>
   set visited' = set visited \<union> set ps \<and>
   (\<exists>new. next' = next @ new \<and> set new = acts_of as (set ps - set visited) \<and> distinct (map act_ID new))"
proof (induction as ps "next" visited arbitrary: next' visited' rule: scanParents.induct)
  case (2 as p ps "next" visited)
  show ?case
  proof (cases "p \<in> set visited")
    case True
    with 2 show ?thesis by (auto simp: insert_absorb)
  next
    case False
    let ?n = "case byID as p of None \<Rightarrow> next | Some a \<Rightarrow> next @ [a]"
    obtain new where v: "set visited' = set (p # visited) \<union> set ps"
      and n: "next' = ?n @ new" "set new = acts_of as (set ps - set (p # visited))" "distinct (map act_ID new)"
      using "2.IH"(2)[OF False, of next' visited'] "2.prems" False by auto
    show ?thesis
    proof (cases "byID as p")
      case None
      then have "acts_of as (set (p # ps) - set visited) = set new"
        by (auto simp: n(2) acts_of_def)
      with v n None show ?thesis by auto
    next
      case (Some a)
      have "acts_of as (set (p # ps) - set visited) = insert a (set new)"
        using Some False by (auto simp: n(2) acts_of_def)
      moreover have "act_ID a \<notin> act_ID ` set new"
        using byID_SomeD[OF Some] acts_of_ids[of _ as "set ps - set (p # visited)"]
        unfolding n(2) by fastforce
      ultimately have "next' = next @ (a # new) \<and> set (a # new) = acts_of as (set (p # ps) - set visited) \<and>
          distinct (map act_ID (a # new))"
        using n Some by simp
      then show ?thesis using v by (intro conjI exI) auto
    qed
  qed
qed (auto simp: acts_of_def)

lemma scanLevel_spec:
  "scanLevel as source level found next visited = (found', next', visited') \<Longrightarrow>
   found' = found @ filter (\<lambda>a. act_NodeID a = source \<and> act_Status a = ActivationSatisfied) level \<and>
   set visited' = set visited \<union> (\<Union>a\<in>set level. set (act_CausedBy a)) \<and>
   (\<exists>new. next' = next @ new \<and>
      set new = acts_of as ((\<Union>a\<in>set level. set (act_CausedBy a)) - set visited) \<and> distinct (map act_ID new))"
proof (induction level arbitrary: found "next" visited)
  case (Cons a level)
  obtain n v where sp: "scanParents as (act_CausedBy a) next visited = (n, v)" by fastforce
  let ?hit = "\<lambda>a. act_NodeID a = source \<and> act_Status a = ActivationSatisfied"
  have rec: "scanLevel as source level (if ?hit a then found @ [a] else found) n v = (found', next', visited')"
    using Cons.prems sp by (simp add: Let_def)
  obtain new1 where v: "set v = set visited \<union> set (act_CausedBy a)"
    and n: "n = next @ new1" "set new1 = acts_of as (set (act_CausedBy a) - set visited)" "distinct (map act_ID new1)"
    using scanParents_spec[OF sp] by blast
  obtain new2 where f: "found' = (if ?hit a then found @ [a] else found) @ filter ?hit level"
    and v': "set visited' = set v \<union> (\<Union>a\<in>set level. set (act_CausedBy a))"
    and n2: "next' = n @ new2" "set new2 = acts_of as ((\<Union>a\<in>set level. set (act_CausedBy a)) - set v)"
      "distinct (map act_ID new2)"
    using Cons.IH[OF rec] by blast
  have "act_ID ` set new1 \<inter> act_ID ` set new2 = {}"
  proof -
    have "act_ID ` set new1 \<subseteq> set v"
      using acts_of_ids[of _ as "set (act_CausedBy a) - set visited"] by (auto simp: n(2) v)
    moreover have "act_ID ` set new2 \<inter> set v = {}"
      using acts_of_ids[of _ as "(\<Union>a\<in>set level. set (act_CausedBy a)) - set v"] by (auto simp: n2(2))
    ultimately show ?thesis by blast
  qed
  moreover have "set new1 \<union> set new2 =
      acts_of as ((\<Union>a\<in>set (a # level). set (act_CausedBy a)) - set visited)"
    by (simp add: n(2) n2(2) v acts_of_Un[symmetric] del: Un_Diff) (rule arg_cong[of _ _ "acts_of as"], auto)
  ultimately have "next' = next @ (new1 @ new2) \<and>
      set (new1 @ new2) = acts_of as ((\<Union>a\<in>set (a # level). set (act_CausedBy a)) - set visited) \<and>
      distinct (map act_ID (new1 @ new2))"
    using n n2 by simp
  then show ?case using f v v' by (intro conjI exI) auto
qed (auto simp: acts_of_def)

lemma layer_step:
  assumes "set level = acts_of as (layer as c n)" and "set visited = (\<Union>m\<le>n. walk as c m)"
  shows "(\<Union>a\<in>set level. set (act_CausedBy a)) - set visited = layer as c (Suc n)"
    and "set visited \<union> (\<Union>a\<in>set level. set (act_CausedBy a)) = (\<Union>m\<le>Suc n. walk as c m)"
proof -
  let ?P = "\<Union>a\<in>set level. set (act_CausedBy a)"
  have sub: "?P \<subseteq> walk as c (Suc n)"
    using assms(1) by (auto simp: acts_of_def layer_def)
  have sup: "walk as c (Suc n) \<subseteq> ?P \<union> set visited"
  proof
    fix p assume "p \<in> walk as c (Suc n)"
    then obtain x a where x: "x \<in> walk as c n" "byID as x = Some a" "p \<in> set (act_CausedBy a)" by auto
    show "p \<in> ?P \<union> set visited"
    proof (cases "x \<in> layer as c n")
      case True
      with x assms(1) show ?thesis by (auto simp: acts_of_def)
    next
      case False
      then obtain m where "m < n" "x \<in> walk as c m" using x(1) by (auto simp: layer_def)
      then have "p \<in> walk as c (Suc m)" "Suc m \<le> n" using x by auto
      then show ?thesis using assms(2) by blast
    qed
  qed
  have lt: "(\<Union>m<Suc n. walk as c m) = (\<Union>m\<le>n. walk as c m)" by (simp add: lessThan_Suc_atMost)
  show "?P - set visited = layer as c (Suc n)"
    using sub sup unfolding layer_def lt assms(2)[symmetric] by blast
  show "set visited \<union> ?P = (\<Union>m\<le>Suc n. walk as c m)"
    using sub sup by (simp add: atMost_Suc assms(2)[symmetric] del: walk.simps) blast
qed

lemma layer_empty_step:
  assumes "acts_of as (layer as c n) = {}"
  shows "layer as c (Suc n) = {}"
proof (rule ccontr)
  assume "layer as c (Suc n) \<noteq> {}"
  then obtain p where p1: "p \<in> layer as c (Suc n)" by blast
  then have "p \<in> walk as c (Suc n)" by (simp add: layer_def)
  then obtain x a where "x \<in> walk as c n" "byID as x = Some a" "p \<in> set (act_CausedBy a)"
    by auto
  note p = p1 this
  then have "x \<notin> layer as c n" using assms by (auto simp: acts_of_def)
  then obtain m where "m < n" "x \<in> walk as c m" using p(2) by (auto simp: layer_def)
  then have "p \<in> walk as c (Suc m)" "Suc m < Suc n" using p(3,4) by auto
  with p(1) show False unfolding layer_def by blast
qed

lemma hits_subset: "hits as c source n = {a \<in> acts_of as (layer as c n). act_NodeID a = source \<and> act_Status a = ActivationSatisfied}"
  by (auto simp: hits_def acts_of_def)

lemma layers_empty:
  "acts_of as (layer as c n) = {} \<Longrightarrow> acts_of as (layer as c (n + k)) = {}"
proof (induction k)
  case (Suc k)
  then have "layer as c (Suc (n + k)) = {}" by (intro layer_empty_step) simp
  then show ?case by (simp add: acts_of_def)
qed simp

definition nearestSpec :: "activation list \<Rightarrow> string \<Rightarrow> string \<Rightarrow> activation option result \<Rightarrow> bool" where
  "nearestSpec as c source r =
     (case r of
        Inr (Some a) \<Rightarrow> \<exists>n. hits as c source n = {a} \<and> (\<forall>m<n. hits as c source m = {})
      | Inr None \<Rightarrow> \<forall>n. hits as c source n = {}
      | Inl e \<Rightarrow> e = ErrAmbiguousBinding source \<and>
          (\<exists>n. 2 \<le> card (hits as c source n) \<and> (\<forall>m<n. hits as c source m = {})))"

lemma nearestFrom_spec:
  assumes "set level = acts_of as (layer as c n)" and "distinct (map act_ID level)"
    and "set visited = (\<Union>m\<le>n. walk as c m)" and "\<forall>m<n. hits as c source m = {}"
  shows "nearestSpec as c source (nearestFrom as source level visited)"
  using assms
proof (induction as source level visited arbitrary: n rule: nearestFrom.induct)
  case (1 as source level visited)
  let ?hit = "\<lambda>a. act_NodeID a = source \<and> act_Status a = ActivationSatisfied"
  show ?case
  proof (cases "level = []")
    case True
    then have e: "acts_of as (layer as c n) = {}" using "1.prems"(1) by simp
    have "hits as c source k = {}" for k
      using layers_empty[OF e, of "k - n"] "1.prems"(4) by (cases "k < n") (simp_all add: hits_subset)
    with True show ?thesis by (simp add: nearestFrom.simps nearestSpec_def)
  next
    case False
    obtain found "next" visited' where sl: "scanLevel as source level [] [] visited = (found, next, visited')"
      by (metis prod_cases3)
    have found: "found = filter ?hit level"
      and v': "set visited' = (\<Union>m\<le>Suc n. walk as c m)"
      and nx: "set next = acts_of as (layer as c (Suc n))" "distinct (map act_ID next)"
      using scanLevel_spec[OF sl] layer_step[OF "1.prems"(1,3)] by auto
    have h: "hits as c source n = set found"
      by (auto simp: found hits_subset "1.prems"(1)[symmetric])
    have df: "distinct found"
      using "1.prems"(2) unfolding found by (simp add: distinct_map)
    consider "found = []" | a where "found = [a]" | a b fs where "found = a # b # fs"
      by (metis neq_Nil_conv)
    then show ?thesis
    proof cases
      assume f: "found = []"
      have "\<forall>m<Suc n. hits as c source m = {}" using "1.prems"(4) h f by (simp add: less_Suc_eq)
      from "1.IH"[OF False sl[symmetric] refl f nx v' this] sl f False
      show ?thesis by (simp add: nearestFrom.simps[of as source level])
    next
      fix a assume f: "found = [a]"
      with sl False h "1.prems"(4) show ?thesis
        by (auto simp: nearestFrom.simps[of as source level] nearestSpec_def)
    next
      fix a b fs assume f: "found = a # b # fs"
      have "card (hits as c source n) = length found" using h df by (simp add: distinct_card)
      then have "2 \<le> card (hits as c source n)" using f by simp
      with sl False f "1.prems"(4) show ?thesis
        by (auto simp: nearestFrom.simps[of as source level] nearestSpec_def)
    qed
  qed
qed

text \<open>
  Pinning picks the causally nearest source. The search returns the unique completed activation of the source node that is causally
  nearest, reports an ambiguity exactly when the nearest layer holds several, and returns nothing
  exactly when the causal chain holds none.
\<close>

theorem nearest_completed_source: "nearestSpec as c source (nearestCompletedSource as c source)"
proof (cases "byID as c")
  case None
  have 0: "acts_of as (layer as c 0) = {}" using None by (simp add: acts_of_def layer_def)
  have "hits as c source k = {}" for k
    using layers_empty[OF 0, of k] by (simp add: hits_subset)
  with None show ?thesis by (simp add: nearestCompletedSource_def nearestSpec_def)
next
  case (Some a)
  have "set [a] = acts_of as (layer as c 0)" using Some by (auto simp: acts_of_def layer_def)
  then have "nearestSpec as c source (nearestFrom as source [a] [c])"
    by (rule nearestFrom_spec) simp_all
  with Some show ?thesis by (simp add: nearestCompletedSource_def)
qed

section \<open>Pinning one output\<close>

text \<open>
  The pinned reference and the raw value of one output of a completed source activation. A value
  that the child instance does not hold is nil in the source, the empty text here, which no
  decoder accepts.
\<close>

definition pinChildOutput ::
  "policies option \<Rightarrow> output_reference list \<Rightarrow> string \<Rightarrow> (output_reference \<times> raw) option" where
  "pinChildOutput pol outs childOutput =
     (case find (\<lambda>o'. or_OutputID o' = childOutput) outs of
        None \<Rightarrow> None
      | Some out \<Rightarrow>
          Some (out,
            case pol of
              None \<Rightarrow> ''''
            | Some p \<Rightarrow>
                (case pol_ChildSnapshot p (or_WorkflowID out) of
                   Inl _ \<Rightarrow> ''''
                 | Inr (childSnap, ok) \<Rightarrow>
                     if \<not> ok then ''''
                     else (case find (\<lambda>v. ov_ActivationID v = or_ActivationID out \<and>
                                         ov_DefinitionID v = or_OutputID out)
                                  (inst_Outputs (snap_Instance childSnap)) of
                             None \<Rightarrow> ''''
                           | Some v \<Rightarrow> ov_Value v))))"

definition pinOutputReference ::
  "policies option \<Rightarrow> snapshot \<Rightarrow> template \<Rightarrow> activation \<Rightarrow> string \<Rightarrow> string \<Rightarrow> (output_reference \<times> raw) option result" where
  "pinOutputReference pol state tmpl source sourceNode outputID =
     bindE (findNode tmpl sourceNode) (\<lambda>node.
       case (ac_Kind (nd_Action node) = ActionWorkflow, ac_Workflow (nd_Action node)) of
         (True, Some w) \<Rightarrow>
           (case find (\<lambda>b. ob_ParentOutput b = outputID) (wa_OutputBindings w) of
              None \<Rightarrow> Inr None
            | Some b \<Rightarrow>
                if ob_ChildOutput b = '''' then Inr None
                else (case findChildReference (snap_Instance state) sourceNode of
                        None \<Rightarrow> Inr None
                      | Some c \<Rightarrow>
                          (let ref = inst_Children (snap_Instance state) ! c in
                           if cr_ParentActivation ref \<noteq> act_ID source then Inr None
                           else Inr (pinChildOutput pol (cr_Outputs ref) (ob_ChildOutput b)))))
       | _ \<Rightarrow>
           (case find (\<lambda>v. ov_ActivationID v = act_ID source \<and> ov_DefinitionID v = outputID)
                   (inst_Outputs (snap_Instance state)) of
              None \<Rightarrow> Inr None
            | Some v \<Rightarrow>
                Inr (Some (\<lparr>or_WorkflowID = inst_WorkflowID (snap_Instance state), or_NodeID = sourceNode,
                           or_ActivationID = act_ID source, or_OutputID = outputID, or_Revision = ov_Revision v\<rparr>,
                          ov_Value v))))"

section \<open>Pinning a gate\<close>

definition resolveReferencedInput ::
  "policies option \<Rightarrow> snapshot \<Rightarrow> template \<Rightarrow> string \<Rightarrow> template_output_reference \<Rightarrow> resolved_gate_input result" where
  "resolveReferencedInput pol state tmpl causedBy ref =
     bindE (nearestCompletedSource (acts state) causedBy (tor_NodeID ref)) (\<lambda>source.
       case source of
         None \<Rightarrow> Inr zeroResolvedGateInput
       | Some src \<Rightarrow>
           bindE (pinOutputReference pol state tmpl src (tor_NodeID ref) (tor_OutputID ref)) (\<lambda>pinned.
             case pinned of
               None \<Rightarrow> Inr zeroResolvedGateInput
             | Some (p, _) \<Rightarrow> Inr (zeroResolvedGateInput\<lparr>rgi_Reference := Some p\<rparr>)))"

definition subjectBindingRef :: "subject_output_ref option \<Rightarrow> template_output_reference" where
  "subjectBindingRef ref =
     (case ref of None \<Rightarrow> \<lparr>tor_NodeID = '''', tor_OutputID = ''''\<rparr> | Some r \<Rightarrow> sor_FromNodeOutput r)"

definition subjectFields :: "subject_binding \<Rightarrow> (string \<times> template_output_reference) list" where
  "subjectFields binding =
     [(''subject.repository'', subjectBindingRef (sb_Repository binding)),
      (''subject.pull_request'', subjectBindingRef (sb_PullRequest binding)),
      (''subject.revision'', subjectBindingRef (sb_Revision binding))]"

text \<open>The first loop of \<^verbatim>\<open>resolvePinnedSubject\<close>: the raw value of each field that has a source, in
  field order, and the names of the fields that have none.\<close>

fun pinSubjectFields ::
  "policies option \<Rightarrow> snapshot \<Rightarrow> template \<Rightarrow> string \<Rightarrow> (string \<times> template_output_reference) list \<Rightarrow>
   (raw list \<times> string list) result" where
  "pinSubjectFields pol state tmpl causedBy [] = Inr ([], [])"
| "pinSubjectFields pol state tmpl causedBy ((name, ref) # flds) =
     bindE (nearestCompletedSource (acts state) causedBy (tor_NodeID ref)) (\<lambda>source.
       bindE (case source of
                None \<Rightarrow> Inr None
              | Some src \<Rightarrow> pinOutputReference pol state tmpl src (tor_NodeID ref) (tor_OutputID ref)) (\<lambda>pinned.
         bindE (pinSubjectFields pol state tmpl causedBy flds) (\<lambda>(raws, unresolved).
           case pinned of
             None \<Rightarrow> Inr (raws, name # unresolved)
           | Some (_, v) \<Rightarrow> Inr (v # raws, unresolved))))"

definition pullRequestNumber :: "codec \<Rightarrow> raw \<Rightarrow> int option" where
  "pullRequestNumber jc v =
     (case jc_Number jc v of
        None \<Rightarrow> None
      | Some x \<Rightarrow> if x \<noteq> of_int \<lfloor>x\<rfloor> \<or> \<bar>x\<bar> > of_int maxSafeOutputFloat then None else Some \<lfloor>x\<rfloor>)"

definition decodeSubject :: "codec \<Rightarrow> string \<Rightarrow> raw list \<Rightarrow> subject option \<times> string list" where
  "decodeSubject jc typ raws =
     (let repo = jc_String jc (raws ! 0); pr = pullRequestNumber jc (raws ! 1); rev = jc_String jc (raws ! 2) in
      case (repo, pr, rev) of
        (Some r, Some n, Some v) \<Rightarrow>
          (Some \<lparr>su_Type = typ, su_Repository = r, su_PullRequest = n, su_Revision = v\<rparr>, [])
      | _ \<Rightarrow>
          (None, (if repo = None then [''subject.repository''] else []) @
                 (if pr = None then [''subject.pull_request''] else []) @
                 (if rev = None then [''subject.revision''] else [])))"

definition resolvePinnedSubject ::
  "codec \<Rightarrow> policies option \<Rightarrow> snapshot \<Rightarrow> template \<Rightarrow> string \<Rightarrow> subject_binding \<Rightarrow>
   (subject option \<times> string list) result" where
  "resolvePinnedSubject jc pol state tmpl causedBy binding =
     bindE (pinSubjectFields pol state tmpl causedBy (subjectFields binding)) (\<lambda>(raws, unresolved).
       if unresolved \<noteq> [] then Inr (None, unresolved)
       else Inr (decodeSubject jc (sb_Type binding) raws))"

fun resolveInputs ::
  "policies option \<Rightarrow> snapshot \<Rightarrow> template \<Rightarrow> string \<Rightarrow> (string \<times> gate_input_value) list \<Rightarrow> resolved_gate \<Rightarrow>
   resolved_gate result" where
  "resolveInputs pol state tmpl causedBy [] record = Inr record"
| "resolveInputs pol state tmpl causedBy ((name, val) # rest) record =
     (case giv_FromNodeOutput val of
        None \<Rightarrow> resolveInputs pol state tmpl causedBy rest
          (record\<lparr>rg_Inputs := mapPut name (zeroResolvedGateInput\<lparr>rgi_Literal := giv_Literal val\<rparr>) (rg_Inputs record)\<rparr>)
      | Some ref \<Rightarrow>
          bindE (resolveReferencedInput pol state tmpl causedBy ref) (\<lambda>input.
            resolveInputs pol state tmpl causedBy rest
              (record\<lparr>rg_Unresolved := rg_Unresolved record @
                         (if rgi_Reference input = None \<and> rgi_Literal input = '''' then [name] else []),
                      rg_Inputs := mapPut name input (rg_Inputs record)\<rparr>)))"

definition resolveGateBinding ::
  "codec \<Rightarrow> policies option \<Rightarrow> snapshot \<Rightarrow> template \<Rightarrow> string \<Rightarrow> gate_definition \<Rightarrow> resolved_gate result" where
  "resolveGateBinding jc pol state tmpl causedBy gate =
     bindE (resolveInputs pol state tmpl causedBy (gd_Inputs gate)
              \<lparr>rg_Inputs = [], rg_Subject = None, rg_Unresolved = []\<rparr>) (\<lambda>record.
       case gd_SubjectBinding gate of
         None \<Rightarrow> Inr record
       | Some binding \<Rightarrow>
           bindE (resolvePinnedSubject jc pol state tmpl causedBy binding) (\<lambda>(subject, unresolved).
             Inr (record\<lparr>rg_Subject := subject, rg_Unresolved := rg_Unresolved record @ unresolved\<rparr>)))"

fun resolveGates ::
  "codec \<Rightarrow> policies option \<Rightarrow> snapshot \<Rightarrow> template \<Rightarrow> string \<Rightarrow> gate_definition list \<Rightarrow>
   (string \<times> resolved_gate) list \<Rightarrow> (string \<times> resolved_gate) list result" where
  "resolveGates jc pol state tmpl causedBy [] resolved = Inr resolved"
| "resolveGates jc pol state tmpl causedBy (gate # gates) resolved =
     (if gd_SubjectBinding gate = None \<and> gd_Inputs gate = []
      then resolveGates jc pol state tmpl causedBy gates resolved
      else bindE (resolveGateBinding jc pol state tmpl causedBy gate) (\<lambda>record.
             resolveGates jc pol state tmpl causedBy gates (mapPut (gd_ID gate) record resolved)))"

definition nodeDeclaresBoundGates :: "node_definition \<Rightarrow> bool" where
  "nodeDeclaresBoundGates node \<longleftrightarrow>
     (\<exists>g\<in>set (nd_Gates node). gd_SubjectBinding g \<noteq> None \<or> gd_Inputs g \<noteq> [])"

definition attachGateBindings ::
  "codec \<Rightarrow> policies option \<Rightarrow> snapshot \<Rightarrow> event \<Rightarrow> string \<Rightarrow> string \<Rightarrow> event result" where
  "attachGateBindings jc pol state ev0 targetNodeID causedBy =
     (let ev = ev0\<lparr>ev_CausedBy := [causedBy]\<rparr> in
      case pol of
        None \<Rightarrow> Inr ev
      | Some p \<Rightarrow>
          (case pol_Template p (inst_TemplateID (snap_Instance state)) (inst_TemplateVersion (snap_Instance state)) of
             Inl _ \<Rightarrow> Inr ev
           | Inr None \<Rightarrow> Inr ev
           | Inr (Some tmpl) \<Rightarrow>
               (case findNode tmpl targetNodeID of
                  Inl _ \<Rightarrow> Inr ev
                | Inr node \<Rightarrow>
                    if \<not> nodeDeclaresBoundGates node then Inr ev
                    else bindE (resolveGates jc pol state tmpl causedBy (nd_Gates node) []) (\<lambda>resolved.
                           Inr (ev\<lparr>ev_ResolvedGates := resolved\<rparr>)))))"

definition simulateResolvedState :: "minted \<Rightarrow> policies option \<Rightarrow> snapshot \<Rightarrow> event \<Rightarrow> snapshot result" where
  "simulateResolvedState mi pol state primary = applyEvent mi pol state primary"

definition attachTransitionGateBindings ::
  "minted \<Rightarrow> codec \<Rightarrow> policies option \<Rightarrow> snapshot \<Rightarrow> event \<Rightarrow> event \<Rightarrow> string \<Rightarrow> string \<Rightarrow> event result" where
  "attachTransitionGateBindings mi jc pol state primary transition targetNodeID causedBy =
     (if pol = None then Inr (transition\<lparr>ev_CausedBy := [causedBy]\<rparr>)
      else bindE (simulateResolvedState mi pol state primary) (\<lambda>sim.
             attachGateBindings jc pol sim transition targetNodeID causedBy))"

lemma pinned_nothing:
  fixes ev :: event
  shows "\<exists>gates. ev\<lparr>ev_CausedBy := [c]\<rparr> = ev\<lparr>ev_CausedBy := [c], ev_ResolvedGates := gates\<rparr>"
  by (rule exI[of _ "ev_ResolvedGates ev"]) simp

lemma attachGateBindings_frame:
  assumes "attachGateBindings jc pol state ev target c = Inr ev'"
  shows "\<exists>gates. ev' = ev\<lparr>ev_CausedBy := [c], ev_ResolvedGates := gates\<rparr>"
  using assms pinned_nothing[where ev = ev and c = c]
  by (auto simp: attachGateBindings_def Let_def bindE_eq_Inr_iff split: option.splits sum.splits if_splits)

lemma attachTransitionGateBindings_frame:
  assumes "attachTransitionGateBindings mi jc pol state p ev target c = Inr ev'"
  shows "\<exists>gates. ev' = ev\<lparr>ev_CausedBy := [c], ev_ResolvedGates := gates\<rparr>"
  using assms pinned_nothing[where ev = ev and c = c]
  by (auto simp: attachTransitionGateBindings_def bindE_eq_Inr_iff dest: attachGateBindings_frame
      split: if_splits)

end
