(* ===== verification/Wf_Commands.thy ===== *)
theory Wf_Commands
  imports Wf_Bindings
begin

text \<open>
  From commands to events: \<^verbatim>\<open>buildCommandEvents\<close> (\<^verbatim>\<open>transitions.go\<close>) and \<^verbatim>\<open>Apply\<close> (\<^verbatim>\<open>reducer.go\<close>). The
  UUIDs minted by one call have fixed positions: 0 for the first event, 1 for the sibling
  transition, then the activation ids; an instantiate uses 1 and 2 for the workflow and the
  instance and the following ones for the entry activations.
\<close>

section \<open>Building events\<close>

definition commandReadyAt :: "command \<Rightarrow> gotime option" where
  "commandReadyAt command = (if IsZero (cmd_ReadyAt command) then None else Some (cmd_ReadyAt command))"

definition commandAt :: "minted \<Rightarrow> command \<Rightarrow> gotime" where
  "commandAt mi command = (if IsZero (cmd_At command) then mi_now mi else cmd_At command)"

text \<open>The closure \<^verbatim>\<open>newEvent\<close>: the \<open>k\<close>-th event of the batch continues the revision of the snapshot.\<close>

definition newEvent :: "minted \<Rightarrow> snapshot \<Rightarrow> command \<Rightarrow> nat \<Rightarrow> event_kind \<Rightarrow> event" where
  "newEvent mi state command k kind =
     zeroEvent\<lparr>ev_ID := NewEventID mi k, ev_Kind := kind,
       ev_Sequence := inst_Revision (snap_Instance state) + int k + 1,
       ev_CommandID := cmd_ID command, ev_IdempotencyKey := cmd_IdempotencyKey command,
       ev_Identity := cmd_Identity command, ev_At := commandAt mi command,
       ev_ReadyAt := commandReadyAt command\<rparr>"

text \<open>
  The shared tail of the completing commands: without a payload the event stands alone; with one
  it carries the decoded transition and, when a target is named, is followed by the sibling
  transition event with the target's gates pinned.
\<close>

definition withTransition ::
  "minted \<Rightarrow> codec \<Rightarrow> policies option \<Rightarrow> snapshot \<Rightarrow> command \<Rightarrow> event \<Rightarrow> event list result" where
  "withTransition mi jc pol state command e =
     (if cmd_Payload command = '''' then Inr [e]
      else bindE (jc_Transition jc (cmd_Payload command)) (\<lambda>t0.
        let t = (if tr_Outcome t0 = '''' then t0\<lparr>tr_Outcome := cmd_Outcome command\<rparr> else t0);
            e1 = e\<lparr>ev_Transition := Some t\<rparr>
        in if tr_TargetNodeID t = '''' then Inr [e1]
           else
             (let next = (newEvent mi state command 1 EventTransition)
                           \<lparr>ev_ActivationIDs := newActivationIDs mi 2 1, ev_Transition := Some t,
                            ev_Outcome := cmd_Outcome command\<rparr>
              in bindE (attachTransitionGateBindings mi jc pol state e1 next
                          (tr_TargetNodeID t) (tr_ActivationID t)) (\<lambda>next'.
                   Inr [e1, next']))))"

definition nameWorkflow :: "minted \<Rightarrow> execution_identity \<Rightarrow> execution_identity" where
  "nameWorkflow mi ident =
     (if id_WorkflowID ident = '''' then ident\<lparr>id_WorkflowID := NewWorkflowID mi 1\<rparr> else ident)"

definition nameInstance :: "minted \<Rightarrow> instance_record \<Rightarrow> instance_record" where
  "nameInstance mi rec =
     (if ir_InstanceID rec = '''' then rec\<lparr>ir_InstanceID := NewInstanceID mi 2\<rparr> else rec)"

lemma name_nonempty [simp]:
  "id_WorkflowID (nameWorkflow mi ident) \<noteq> ''''" "ir_InstanceID (nameInstance mi rec) \<noteq> ''''"
  by (simp_all add: nameWorkflow_def nameInstance_def)

definition buildInstantiate :: "minted \<Rightarrow> codec \<Rightarrow> snapshot \<Rightarrow> command \<Rightarrow> event list result" where
  "buildInstantiate mi jc state command =
     (if cmd_Payload command = ''''
      then Inl (Err ''instantiate command requires an instance record payload'')
      else bindE (jc_Instance jc (cmd_Payload command)) (\<lambda>rec0.
        let e = newEvent mi state command 0 EventInstantiated;
            rec = nameInstance mi rec0
        in Inr [e\<lparr>ev_Identity := nameWorkflow mi (ev_Identity e), ev_Instantiated := Some rec,
                 ev_ActivationIDs := newActivationIDs mi 3 (length (ir_EntryNodes rec))\<rparr>]))"

definition buildHeartbeat :: "minted \<Rightarrow> snapshot \<Rightarrow> command \<Rightarrow> event list result" where
  "buildHeartbeat mi state command =
     bindE (findActivation (snap_Instance state) (id_NodeID (cmd_Identity command))
              (id_ActivationID (cmd_Identity command))) (\<lambda>a.
       if (case a of
             None \<Rightarrow> True
           | Some i \<Rightarrow>
               (case act_ActiveLease (acts state ! i) of
                  None \<Rightarrow> True
                | Some l \<Rightarrow> cmd_LeaseID command \<noteq> '''' \<and> cmd_LeaseID command \<noteq> ls_ID l))
       then Inl (ErrLeaseNotHeld ''heartbeat target has no matching active lease'')
       else Inr [(newEvent mi state command 0 EventHeartbeat)
                   \<lparr>ev_LeaseID := cmd_LeaseID command, ev_Lease := cmd_Lease command\<rparr>])"

definition buildReroute :: "minted \<Rightarrow> codec \<Rightarrow> snapshot \<Rightarrow> command \<Rightarrow> event list result" where
  "buildReroute mi jc state command =
     (let e = (newEvent mi state command 0 EventRerouted)\<lparr>ev_ActivationIDs := newActivationIDs mi 1 1\<rparr>
      in if cmd_Payload command = '''' then Inr [e]
         else bindE (jc_Reroute jc (cmd_Payload command)) (\<lambda>(sel, it).
                Inr [e\<lparr>ev_Selection := sel, ev_Iteration := it\<rparr>]))"

definition buildCommandEvents ::
  "minted \<Rightarrow> codec \<Rightarrow> policies option \<Rightarrow> snapshot \<Rightarrow> command \<Rightarrow> event list result" where
  "buildCommandEvents mi jc pol state command =
     (let new = newEvent mi state command;
          attemptID = id_AttemptID (cmd_Identity command) in
      case cmd_Kind command of
        CommandInstantiate \<Rightarrow> buildInstantiate mi jc state command
      | CommandClaim \<Rightarrow>
          Inr [(new 0 EventLeased)\<lparr>ev_LeaseID := cmd_LeaseID command, ev_Actor := cmd_Actor command,
                 ev_Lease := cmd_Lease command\<rparr>]
      | CommandStart \<Rightarrow>
          Inr [(new 0 EventStarted)\<lparr>ev_AttemptID := (if attemptID = '''' then NewAttemptID mi 1 else attemptID),
                 ev_LeaseID := cmd_LeaseID command, ev_Selection := cmd_Selection command\<rparr>]
      | CommandComplete \<Rightarrow>
          withTransition mi jc pol state command
            ((new 0 EventCompleted)\<lparr>ev_Outcome := cmd_Outcome command, ev_Evidence := cmd_Evidence command,
               ev_Outputs := cmd_Outputs command, ev_LeaseID := cmd_LeaseID command\<rparr>)
      | CommandGate \<Rightarrow>
          bindE (validateGateCommand command) (\<lambda>_.
            withTransition mi jc pol state command
              ((new 0 EventGate)\<lparr>ev_Gate := cmd_Gate command, ev_Outcome := cmd_Outcome command\<rparr>))
      | CommandSkip \<Rightarrow>
          Inr [(new 0 EventSkipped)\<lparr>ev_Actor := cmd_Actor command, ev_Reason := cmd_Reason command\<rparr>]
      | CommandUnblock \<Rightarrow>
          Inr [(new 0 EventUnblocked)\<lparr>ev_Actor := cmd_Actor command, ev_Reason := cmd_Reason command\<rparr>]
      | CommandReroute \<Rightarrow> buildReroute mi jc state command
      | CommandHeartbeat \<Rightarrow> buildHeartbeat mi state command
      | CommandTerminate \<Rightarrow>
          Inr [(new 0 EventAttemptTerminated)\<lparr>ev_AttemptStatus := cmd_AttemptStatus command,
                 ev_LeaseID := cmd_LeaseID command, ev_AttemptID := attemptID,
                 ev_MarkerKind := cmd_MarkerKind command, ev_MarkerLabel := cmd_MarkerLabel command,
                 ev_WorkingDirectory := cmd_WorkingDirectory command\<rparr>]
      | CommandBeginDispatch \<Rightarrow>
          if cmd_Lease command = None then Inl (Err ''begin_dispatch command requires lease metadata'')
          else if attemptID = '''' then Inl (Err ''begin_dispatch command requires an attempt id'')
          else Inr [(new 0 EventLeased)\<lparr>ev_LeaseID := cmd_LeaseID command, ev_Actor := cmd_Actor command,
                       ev_Lease := cmd_Lease command\<rparr>,
                    (new 1 EventStarted)\<lparr>ev_AttemptID := attemptID, ev_LeaseID := cmd_LeaseID command,
                       ev_Selection := cmd_Selection command, ev_Diagnostics := cmd_Diagnostics command\<rparr>]
      | CommandAttemptIdentified \<Rightarrow>
          if attemptID = '''' then Inl (Err ''attempt_identified command requires an attempt id'')
          else Inr [(new 0 EventAttemptIdentified)\<lparr>ev_AttemptID := attemptID, ev_LeaseID := cmd_LeaseID command\<rparr>]
      | CommandParkExternal \<Rightarrow>
          if cmd_Outcome command = '''' then Inl (Err ''park_external command requires the pinned success outcome'')
          else Inr [(new 0 EventExternalParked)\<lparr>ev_Outcome := cmd_Outcome command\<rparr>]
      | CommandCancel \<Rightarrow>
          if cmd_Actor command = '''' then Inl (Err ''cancel command requires an actor'')
          else if cmd_Reason command = '''' then Inl (Err ''cancel command requires a reason'')
          else Inr [(new 0 EventCanceled)\<lparr>ev_Actor := cmd_Actor command, ev_Reason := cmd_Reason command\<rparr>]
      | CommandChildAttach \<Rightarrow> Inr [(new 0 EventChildAttached)\<lparr>ev_LeaseID := cmd_LeaseID command\<rparr>]
      | CommandChildOutcome \<Rightarrow>
          withTransition mi jc pol state command
            ((new 0 EventChildOutcome)\<lparr>ev_Outcome := cmd_Outcome command,
               ev_ChildOutputs := cmd_ChildOutputs command, ev_LeaseID := cmd_LeaseID command\<rparr>)
      | CommandOther k \<Rightarrow> Inl (Errorf ''unsupported command kind %q'' [k]))"

text \<open>\<^verbatim>\<open>Apply\<close> (\<^verbatim>\<open>reducer.go\<close>): the caller's expectations, then the projection to events.\<close>

definition Apply :: "minted \<Rightarrow> codec \<Rightarrow> policies option \<Rightarrow> snapshot \<Rightarrow> command \<Rightarrow> event list result" where
  "Apply mi jc pol state command =
     (if cmd_ExpectedRevision command \<noteq> inst_Revision (snap_Instance state) then Inl ErrRevisionMismatch
      else if cmd_IdempotencyKey command \<noteq> '''' \<and> snap_Idempotency state (cmd_IdempotencyKey command) \<noteq> None
      then Inl ErrDuplicateIdempotency
      else buildCommandEvents mi jc pol state command)"

section \<open>Well-formed batches\<close>

text \<open>
  What every batch satisfies: one or two events, numbered from the revision of the snapshot, with
  the command's id, idempotency key and timestamp, fresh event ids, and every field that legacy
  events may lack.
\<close>

definition wellFormedBatch :: "minted \<Rightarrow> snapshot \<Rightarrow> command \<Rightarrow> event list \<Rightarrow> bool" where
  "wellFormedBatch mi state command evs \<longleftrightarrow>
     evs \<noteq> [] \<and> length evs \<le> 2 \<and>
     (\<forall>k<length evs.
        ev_ID (evs ! k) = NewEventID mi k \<and>
        ev_Sequence (evs ! k) = inst_Revision (snap_Instance state) + int k + 1 \<and>
        ev_CommandID (evs ! k) = cmd_ID command \<and>
        ev_IdempotencyKey (evs ! k) = cmd_IdempotencyKey command \<and>
        ev_At (evs ! k) = commandAt mi command \<and>
        (\<not> IsZero (commandAt mi command) \<longrightarrow> completeEvent (evs ! k)))"

lemma newEvent_frame [simp]:
  "ev_ID (newEvent mi s c k kind) = NewEventID mi k"
  "ev_Kind (newEvent mi s c k kind) = kind"
  "ev_Sequence (newEvent mi s c k kind) = inst_Revision (snap_Instance s) + int k + 1"
  "ev_CommandID (newEvent mi s c k kind) = cmd_ID c"
  "ev_IdempotencyKey (newEvent mi s c k kind) = cmd_IdempotencyKey c"
  "ev_Identity (newEvent mi s c k kind) = cmd_Identity c"
  "ev_At (newEvent mi s c k kind) = commandAt mi c"
  "ev_Instantiated (newEvent mi s c k kind) = None"
  by (simp_all add: newEvent_def zeroEvent_def)

lemma wellFormedBatch_single:
  assumes "ev_ID e = NewEventID mi 0" and "ev_Sequence e = inst_Revision (snap_Instance s) + 1"
    and "ev_CommandID e = cmd_ID c" and "ev_IdempotencyKey e = cmd_IdempotencyKey c"
    and "ev_At e = commandAt mi c" and "\<not> IsZero (commandAt mi c) \<Longrightarrow> completeEvent e"
  shows "wellFormedBatch mi s c [e]"
  using assms by (simp add: wellFormedBatch_def)

lemma wellFormedBatch_pair:
  assumes "wellFormedBatch mi s c [e]"
    and "ev_ID e' = NewEventID mi 1" and "ev_Sequence e' = inst_Revision (snap_Instance s) + 2"
    and "ev_CommandID e' = cmd_ID c" and "ev_IdempotencyKey e' = cmd_IdempotencyKey c"
    and "ev_At e' = commandAt mi c" and "\<not> IsZero (commandAt mi c) \<Longrightarrow> completeEvent e'"
  shows "wellFormedBatch mi s c [e, e']"
  using assms by (simp add: wellFormedBatch_def less_Suc_eq nth_Cons')

lemma withTransition_wellFormed:
  assumes "withTransition mi jc pol s c e = Inr evs" and "wellFormedBatch mi s c [e]"
    and "ev_Kind e \<in> {EventCompleted, EventGate, EventChildOutcome}"
  shows "wellFormedBatch mi s c evs"
proof (cases "cmd_Payload c = []")
  case True
  with assms show ?thesis by (simp add: withTransition_def)
next
  case False
  have t: "wellFormedBatch mi s c [e\<lparr>ev_Transition := Some t\<rparr>]" for t
    using assms(2,3) by (auto simp: wellFormedBatch_def completeEvent_def)
  have p: "wellFormedBatch mi s c [e\<lparr>ev_Transition := Some t\<rparr>, e']"
    if "attachTransitionGateBindings mi jc pol s (e\<lparr>ev_Transition := Some t\<rparr>)
      ((newEvent mi s c 1 EventTransition)\<lparr>ev_ActivationIDs := newActivationIDs mi 2 1, ev_Transition := Some t,
         ev_Outcome := cmd_Outcome c\<rparr>) n a = Inr e'" for t n a e'
    using attachTransitionGateBindings_frame[OF that]
    by (auto intro!: wellFormedBatch_pair t simp: completeEvent_def)
  obtain t0 where "jc_Transition jc (cmd_Payload c) = Inr t0"
    using assms(1) False by (auto simp: withTransition_def bindE_eq_Inr_iff)
  with assms(1) False show ?thesis
    by (auto simp: withTransition_def Let_def bindE_eq_Inr_iff intro: t p split: if_splits)
qed

lemma buildInstantiate_wellFormed:
  "buildInstantiate mi jc s c = Inr evs \<Longrightarrow> wellFormedBatch mi s c evs"
  by (auto simp: buildInstantiate_def Let_def bindE_eq_Inr_iff completeEvent_def split: if_splits
      intro!: wellFormedBatch_single)

lemma buildHeartbeat_wellFormed:
  "buildHeartbeat mi s c = Inr evs \<Longrightarrow> wellFormedBatch mi s c evs"
  by (auto simp: buildHeartbeat_def bindE_eq_Inr_iff completeEvent_def split: if_splits
      intro!: wellFormedBatch_single)

lemma buildReroute_wellFormed:
  "buildReroute mi jc s c = Inr evs \<Longrightarrow> wellFormedBatch mi s c evs"
  by (auto simp: buildReroute_def Let_def bindE_eq_Inr_iff completeEvent_def split: if_splits
      intro!: wellFormedBatch_single)

lemma buildCommandEvents_wellFormed:
  assumes "buildCommandEvents mi jc pol s c = Inr evs"
  shows "wellFormedBatch mi s c evs"
proof (cases "cmd_Kind c")
  case CommandBeginDispatch
  with assms show ?thesis
    by (auto simp: buildCommandEvents_def Let_def completeEvent_def split: if_splits
        intro!: wellFormedBatch_pair wellFormedBatch_single)
qed (use assms in \<open>auto simp: buildCommandEvents_def Let_def bindE_eq_Inr_iff completeEvent_def
    split: if_splits intro!: wellFormedBatch_single
    intro: buildInstantiate_wellFormed buildHeartbeat_wellFormed buildReroute_wellFormed
    dest!: withTransition_wellFormed\<close>)

lemma Apply_wellFormed: "Apply mi jc pol s c = Inr evs \<Longrightarrow> wellFormedBatch mi s c evs"
  by (auto simp: Apply_def dest: buildCommandEvents_wellFormed split: if_splits)

end
