(* ===== verification/Log_Lines.thy ===== *)
theory Log_Lines
  imports Prelude "HOL-Library.Sublist"
begin

text \<open>
  Newline-delimited JSON logs at the level of bytes, so that torn writes can be stated: the splitter
  of \<^verbatim>\<open>durablefile/split.go\<close>, the writer that both stores share (one encoded event and a newline
  each), and the walk over the lines that every replay is. The encoder and decoder of
  \<^verbatim>\<open>encoding/json\<close> are parameters; \<open>jsonLaws\<close> states what is documented of them: an encoded event is one line
  that starts with a brace, decodes to itself with or without its newline, and no proper prefix of
  it is a JSON document.
\<close>

abbreviation nl :: char where
  "nl \<equiv> CHR 0x0A"

definition jsonLaws :: "('e \<Rightarrow> raw) \<Rightarrow> (raw \<Rightarrow> 'e option) \<Rightarrow> 'e set \<Rightarrow> bool" where
  "jsonLaws enc dec E \<longleftrightarrow>
     (\<forall>e\<in>E. nl \<notin> set (enc e) \<and> enc e \<noteq> [] \<and> hd (enc e) = CHR ''{'' \<and>
        dec (enc e) = Some e \<and> dec (enc e @ [nl]) = Some e \<and>
        (\<forall>p. strict_prefix p (enc e) \<longrightarrow> dec p = None))"

lemma jsonLaws_Un: "jsonLaws enc dec (A \<union> B) \<longleftrightarrow> jsonLaws enc dec A \<and> jsonLaws enc dec B"
  by (auto simp: jsonLaws_def)

lemma jsonLaws_mono: "jsonLaws enc dec E \<Longrightarrow> A \<subseteq> E \<Longrightarrow> jsonLaws enc dec A"
  by (auto simp: jsonLaws_def)

text \<open>A form of the laws that evaluates.\<close>

lemma strict_prefix_take: "strict_prefix p x \<longleftrightarrow> (\<exists>n<length x. p = take n x)"
proof
  assume "strict_prefix p x"
  then have "p = take (length p) x" and "length p < length x"
    by (auto simp: strict_prefix_def prefix_def intro: prefix_length_less)
  then show "\<exists>n<length x. p = take n x" by blast
qed (auto simp: strict_prefix_def take_is_prefix)

lemma jsonLaws_list:
  "jsonLaws enc dec (set es) \<longleftrightarrow>
   list_all (\<lambda>e. list_all ((\<noteq>) nl) (enc e) \<and> enc e \<noteq> [] \<and> hd (enc e) = CHR ''{'' \<and>
     dec (enc e) = Some e \<and> dec (enc e @ [nl]) = Some e \<and>
     list_all (\<lambda>n. dec (take n (enc e)) = None) [0..<length (enc e)]) es"
proof -
  have "(\<forall>p. strict_prefix p x \<longrightarrow> dec p = None) \<longleftrightarrow> (\<forall>n<length x. dec (take n x) = None)" for x
    by (auto simp: strict_prefix_take)
  then show ?thesis by (auto simp: jsonLaws_def list_all_iff)
qed

section \<open>Splitting into lines\<close>

fun splitFrom :: "nat \<Rightarrow> nat \<Rightarrow> string \<Rightarrow> (nat \<times> nat) list" where
  "splitFrom i start [] = (if start < i then [(start, i)] else [])"
| "splitFrom i start (b # bs) =
     (if b = nl then (start, i + 1) # splitFrom (i + 1) (i + 1) bs else splitFrom (i + 1) start bs)"

definition SplitLines :: "string \<Rightarrow> (nat \<times> nat) list" where
  "SplitLines data = splitFrom 0 0 data"

definition lineData :: "string \<Rightarrow> nat \<times> nat \<Rightarrow> raw" where
  "lineData data sp = take (snd sp - fst sp) (drop (fst sp) data)"

lemma splitFrom_line:
  "nl \<notin> set l \<Longrightarrow> splitFrom i start (l @ nl # rest) =
     (start, i + length l + 1) # splitFrom (i + length l + 1) (i + length l + 1) rest"
  by (induction l arbitrary: i) auto

lemma splitFrom_rest:
  "nl \<notin> set l \<Longrightarrow> start \<le> i \<Longrightarrow>
   splitFrom i start l = (if start < i + length l then [(start, i + length l)] else [])"
  by (induction l arbitrary: i) auto

section \<open>Writing\<close>

fun encLog :: "('e \<Rightarrow> raw) \<Rightarrow> 'e list \<Rightarrow> string" where
  "encLog enc [] = []"
| "encLog enc (e # es) = enc e @ nl # encLog enc es"

lemma encLog_append: "encLog enc (xs @ ys) = encLog enc xs @ encLog enc ys"
  by (induction xs) simp_all

lemma encLog_not_blank:
  assumes "jsonLaws enc dec (set es)" and "es \<noteq> []"
  shows "\<not> isBlank (encLog enc es @ rest)"
proof -
  obtain e es' where es: "es = e # es'" using assms(2) by (cases es) auto
  then have "enc e \<noteq> []" "hd (enc e) = CHR ''{''" using assms(1) by (auto simp: jsonLaws_def)
  then obtain x where "enc e = CHR ''{'' # x" by (cases "enc e") auto
  with es show ?thesis by simp
qed

lemma open_line_not_blank:
  assumes "jsonLaws enc dec (set es)" and "frag \<noteq> []" and "hd frag = CHR ''{''"
  shows "\<not> isBlank (encLog enc es @ frag)"
  using assms encLog_not_blank[OF assms(1), of frag] by (cases frag; cases "es = []") auto

text \<open>What a crash inside an append leaves: whole events and at most a part of the next one.\<close>

lemma take_encLog:
  "\<exists>j frag. take k (encLog enc evs) = encLog enc (take j evs) @ frag \<and> j \<le> length evs \<and>
     (frag = [] \<or> j < length evs \<and> prefix frag (enc (evs ! j))) \<and>
     (length (encLog enc evs) \<le> k \<longrightarrow> j = length evs)"
proof (induction evs arbitrary: k)
  case (Cons e evs)
  show ?case
  proof (cases "k \<le> length (enc e)")
    case True
    then have "take k (encLog enc (e # evs)) = encLog enc (take 0 (e # evs)) @ take k (enc e)" by simp
    with True show ?thesis
      by (intro exI[of _ 0] exI[of _ "take k (enc e)"]) (auto simp: take_is_prefix)
  next
    case False
    let ?k = "k - length (enc e) - 1"
    obtain j frag where IH: "take ?k (encLog enc evs) = encLog enc (take j evs) @ frag" "j \<le> length evs"
      "frag = [] \<or> j < length evs \<and> prefix frag (enc (evs ! j))"
      "length (encLog enc evs) \<le> ?k \<longrightarrow> j = length evs"
      using Cons.IH by blast
    have "k - length (enc e) = Suc ?k" using False by simp
    then have "take k (encLog enc (e # evs)) = enc e @ nl # take ?k (encLog enc evs)"
      using False by simp
    with IH False show ?thesis
      by (intro exI[of _ "Suc j"] exI[of _ frag]) auto
  qed
qed simp

section \<open>Walking over a log\<close>

text \<open>
  The interface of a replay: a walk over line spans that applies \<open>step\<close> to every line that decodes,
  stops with the end of the last good line at a final line that does not, and otherwise returns the state.
\<close>

locale log_walk =
  fixes enc :: "'e \<Rightarrow> raw" and dec :: "raw \<Rightarrow> 'e option"
    and step :: "'s \<Rightarrow> 'e \<Rightarrow> 's result"
    and walk :: "string \<Rightarrow> (nat \<times> nat) list \<Rightarrow> 's \<Rightarrow> nat \<Rightarrow> ('s \<times> nat option) result"
  assumes walk_Nil: "walk data [] s good = Inr (s, None)"
    and walk_event: "dec (lineData data sp) = Some e \<Longrightarrow>
      walk data (sp # sps) s good = bindE (step s e) (\<lambda>s'. walk data sps s' (snd sp))"
    and walk_torn: "dec (lineData data sp) = None \<Longrightarrow> walk data [sp] s good = Inr (s, Some good)"
begin

lemma walk_good:
  assumes "jsonLaws enc dec (set es)" and "data = pre @ encLog enc es @ rest"
  shows "walk data (splitFrom (length pre) (length pre) (encLog enc es @ rest)) s g =
    bindE (foldE step s es) (\<lambda>t.
      walk data (splitFrom (length (pre @ encLog enc es)) (length (pre @ encLog enc es)) rest) t
        (if es = [] then g else length (pre @ encLog enc es)))"
  using assms
proof (induction es arbitrary: pre s g)
  case (Cons e es)
  have e: "nl \<notin> set (enc e)" "dec (enc e @ [nl]) = Some e" and es: "jsonLaws enc dec (set es)"
    using Cons.prems(1) by (auto simp: jsonLaws_def)
  have line: "dec (lineData data (length pre, Suc (length pre + length (enc e)))) = Some e"
    by (simp add: lineData_def Cons.prems(2) e(2))
  have d: "data = (pre @ enc e @ [nl]) @ encLog enc es @ rest" by (simp add: Cons.prems(2))
  have IH: "walk data (splitFrom (Suc (length pre + length (enc e))) (Suc (length pre + length (enc e))) (encLog enc es @ rest))
      u (Suc (length pre + length (enc e))) =
    bindE (foldE step u es) (\<lambda>t.
      walk data
        (splitFrom (Suc (length pre + (length (enc e) + length (encLog enc es))))
                   (Suc (length pre + (length (enc e) + length (encLog enc es)))) rest) t
        (Suc (length pre + (length (enc e) + length (encLog enc es)))))" for u
    using Cons.IH[OF es d, of u "Suc (length pre + length (enc e))"]
    by (cases es) (simp_all add: add.assoc)
  show ?case
    by (simp add: splitFrom_line[OF e(1)] walk_event[OF line] IH)
      (simp add: bindE_def split: sum.split)
qed (simp add: bindE_def split: sum.split)

text \<open>A clean log, a torn final line, and a final event that lost only its newline.\<close>

lemma walk_clean:
  assumes "jsonLaws enc dec (set es)"
  shows "walk (encLog enc es) (SplitLines (encLog enc es)) s g = bindE (foldE step s es) (\<lambda>t. Inr (t, None))"
  using walk_good[OF assms, of "encLog enc es" "[]" "[]" s g]
  by (simp add: SplitLines_def walk_Nil)

lemma walk_torn_line:
  assumes "jsonLaws enc dec (set es)" and "nl \<notin> set frag" and "frag \<noteq> []" and "dec frag = None"
  shows "walk (encLog enc es @ frag) (SplitLines (encLog enc es @ frag)) s 0 =
    bindE (foldE step s es) (\<lambda>t. Inr (t, Some (length (encLog enc es))))"
proof -
  let ?data = "encLog enc es @ frag"
  let ?n = "length (encLog enc es)"
  have split: "splitFrom ?n ?n frag = [(?n, ?n + length frag)]" using assms(2,3) by (simp add: splitFrom_rest)
  have "dec (lineData ?data (?n, ?n + length frag)) = None" using assms(4) by (simp add: lineData_def)
  note torn = walk_torn[OF this]
  show ?thesis
  proof (cases "es = []")
    case True
    then show ?thesis using split torn by (simp add: SplitLines_def)
  next
    case False
    then show ?thesis
      using walk_good[OF assms(1), of ?data "[]" frag s 0] by (simp add: SplitLines_def split torn)
  qed
qed

lemma walk_open_line:
  assumes "jsonLaws enc dec (set (es @ [e]))"
  shows "walk (encLog enc es @ enc e) (SplitLines (encLog enc es @ enc e)) s g =
    bindE (foldE step s (es @ [e])) (\<lambda>t. Inr (t, None))"
proof -
  let ?data = "encLog enc es @ enc e"
  let ?n = "length (encLog enc es)"
  have js: "jsonLaws enc dec (set es)" and e: "nl \<notin> set (enc e)" "enc e \<noteq> []" "dec (enc e) = Some e"
    using assms by (auto simp: jsonLaws_def)
  have split: "splitFrom ?n ?n (enc e) = [(?n, ?n + length (enc e))]" using e by (simp add: splitFrom_rest)
  have "dec (lineData ?data (?n, ?n + length (enc e))) = Some e" using e(3) by (simp add: lineData_def)
  note line = walk_event[OF this]
  show ?thesis
    using walk_good[OF js, of ?data "[]" "enc e" s g]
    by (simp add: SplitLines_def split line walk_Nil foldE_append) (simp add: bindE_def split: sum.split)
qed

end

end
