(* ===== verification/Wf_Log.thy ===== *)
theory Wf_Log
  imports Wf_Commands Log_Lines
begin

text \<open>
  The event log on disk: newline-delimited JSON (\<^verbatim>\<open>durablefile.SplitLines\<close>, \<^verbatim>\<open>replayEvents\<close> of
  \<^verbatim>\<open>replay.go\<close> and \<^verbatim>\<open>appendEvents\<close> of \<^verbatim>\<open>store.go\<close>), at the level of bytes, so that torn writes can be
  stated. The encoder and decoder of \<^verbatim>\<open>encoding/json\<close> for events are parameters; \<open>jsonLaws\<close> states
  what is documented of them: an encoded event is one line that starts with a brace, decodes to
  itself with or without its newline, and no proper prefix of it is a JSON document.
\<close>

section \<open>Replay\<close>

fun replayLines ::
  "(event \<Rightarrow> minted) \<Rightarrow> policies option \<Rightarrow> (raw \<Rightarrow> event option) \<Rightarrow> string \<Rightarrow> string \<Rightarrow>
   (nat \<times> nat) list \<Rightarrow> snapshot \<Rightarrow> nat \<Rightarrow> nat \<Rightarrow> (snapshot \<times> nat \<times> nat option) result" where
  "replayLines orc pol dec wid data [] next count good = Inr (next, count, None)"
| "replayLines orc pol dec wid data (sp # sps) next count good =
     (case dec (lineData data sp) of
        Some e \<Rightarrow>
          bindE (Reduce (orc e) pol next e) (\<lambda>next'.
            replayLines orc pol dec wid data sps next' (count + 1) (snd sp))
      | None \<Rightarrow>
          if sps = [] then Inr (next, count, Some good)
          else Inl (Errorf ''workflow %s event log corrupted at line %d'' [wid, natString (count + 1)]))"

text \<open>
  The advanced snapshot, the number of events replayed, the truncation offset, and the file after
  \<^verbatim>\<open>os.Truncate\<close>. The offset is 0 both when nothing was truncated and when the file was truncated
  to nothing, as in the source.
\<close>

definition replayEvents ::
  "(event \<Rightarrow> minted) \<Rightarrow> policies option \<Rightarrow> (raw \<Rightarrow> event option) \<Rightarrow> snapshot \<Rightarrow> string \<Rightarrow>
   (snapshot \<times> nat \<times> nat \<times> string) result" where
  "replayEvents orc pol dec snap data =
     (if isBlank data then Inr (snap, 0, 0, data)
      else bindE (replayLines orc pol dec (inst_WorkflowID (snap_Instance snap)) data (SplitLines data) snap 0 0)
        (\<lambda>(next, count, cut).
           case cut of
             None \<Rightarrow> Inr (next, count, 0, data)
           | Some good \<Rightarrow> Inr (next, count, good, take good data)))"

section \<open>Replaying what was appended\<close>

text \<open>The replay is a walk over the log whose state is the snapshot with the number of events read.\<close>

definition eventStep :: "(event \<Rightarrow> minted) \<Rightarrow> policies option \<Rightarrow> snapshot \<times> nat \<Rightarrow> event \<Rightarrow> (snapshot \<times> nat) result" where
  "eventStep orc pol acc e = bindE (Reduce (orc e) pol (fst acc) e) (\<lambda>s'. Inr (s', snd acc + 1))"

definition walkEvents ::
  "(event \<Rightarrow> minted) \<Rightarrow> policies option \<Rightarrow> (raw \<Rightarrow> event option) \<Rightarrow> string \<Rightarrow> string \<Rightarrow>
   (nat \<times> nat) list \<Rightarrow> snapshot \<times> nat \<Rightarrow> nat \<Rightarrow> ((snapshot \<times> nat) \<times> nat option) result" where
  "walkEvents orc pol dec wid data sps acc good =
     bindE (replayLines orc pol dec wid data sps (fst acc) (snd acc) good) (\<lambda>(t, n, cut). Inr ((t, n), cut))"

interpretation events: log_walk enc dec "eventStep orc pol" "walkEvents orc pol dec wid" for enc dec orc pol wid
  by unfold_locales (auto simp: walkEvents_def eventStep_def bindE_def split: sum.splits)

lemma fold_eventStep:
  "foldE (eventStep orc pol) (s, n) es = bindE (reduceAll orc pol s es) (\<lambda>t. Inr (t, n + length es))"
  by (induction es arbitrary: s n) (auto simp: eventStep_def bindE_def split: sum.splits)

lemma replayEvents_walk:
  "\<not> isBlank data \<Longrightarrow> replayEvents orc pol dec s data =
     bindE (walkEvents orc pol dec (inst_WorkflowID (snap_Instance s)) data (SplitLines data) (s, 0) 0)
       (\<lambda>((t, n), cut). case cut of None \<Rightarrow> Inr (t, n, 0, data) | Some good \<Rightarrow> Inr (t, n, good, take good data))"
  by (auto simp: replayEvents_def walkEvents_def bindE_def split: sum.splits option.splits)

text \<open>A clean log replays to the reduction of its events and is left as it is.\<close>

lemma replayEvents_clean:
  assumes "jsonLaws enc dec (set es)"
  shows "replayEvents orc pol dec s (encLog enc es) =
    bindE (reduceAll orc pol s es) (\<lambda>t. Inr (t, length es, 0, encLog enc es))"
proof (cases "es = []")
  case False
  have "\<not> isBlank (encLog enc es)" using encLog_not_blank[OF assms False, of "[]"] by simp
  then show ?thesis
    by (simp add: replayEvents_walk events.walk_clean[OF assms] fold_eventStep) (simp add: bindE_def split: sum.split)
qed (simp add: replayEvents_def)

text \<open>A torn final line, without newline and not a document, is cut away exactly.\<close>

lemma replayEvents_torn:
  assumes "jsonLaws enc dec (set es)" and "nl \<notin> set frag" and "frag \<noteq> []" and "dec frag = None"
    and "\<not> isBlank (encLog enc es @ frag)"
  shows "replayEvents orc pol dec s (encLog enc es @ frag) =
    bindE (reduceAll orc pol s es) (\<lambda>t. Inr (t, length es, length (encLog enc es), encLog enc es))"
  by (simp add: replayEvents_walk[OF assms(5)] events.walk_torn_line[OF assms(1-4)] fold_eventStep)
    (simp add: bindE_def split: sum.split)

text \<open>A final event whose newline is missing is replayed, and the file keeps its open line.\<close>

lemma replayEvents_open_line:
  assumes "jsonLaws enc dec (set (es @ [e]))"
  shows "replayEvents orc pol dec s (encLog enc es @ enc e) =
    bindE (reduceAll orc pol s (es @ [e])) (\<lambda>t. Inr (t, length es + 1, 0, encLog enc es @ enc e))"
proof -
  have "jsonLaws enc dec (set es)" "enc e \<noteq> []" "hd (enc e) = CHR ''{''" using assms by (auto simp: jsonLaws_def)
  note nb = open_line_not_blank[OF this]
  show ?thesis
    by (simp add: replayEvents_walk[OF nb] events.walk_open_line[OF assms] fold_eventStep del: set_append)
      (simp add: bindE_def split: sum.split)
qed


end
