(* ===== verification/Wf_Store.thy ===== *)
theory Wf_Store
  imports Wf_Log
begin

text \<open>
  The durable store of one instance (\<^verbatim>\<open>store.go\<close>, \<^verbatim>\<open>recovery.go\<close>): a snapshot file that is replaced
  atomically and the event log. Each operation runs under the instance's exclusive file lock, so
  operations on one instance are sequential; a crash may stop an operation between two writes or
  inside the append. File-system errors are not modelled (every read and write succeeds);
  snapshots survive their JSON round trip.
\<close>

record instance_files =
  sf_Snapshot :: "snapshot option"
  sf_Log :: string

record store_env =
  se_Policies :: "policies option"
  se_Codec :: codec
  se_Encode :: "event \<Rightarrow> raw"
  se_Decode :: "raw \<Rightarrow> event option"
  se_Legacy :: "event \<Rightarrow> minted"

abbreviation seReduceAll :: "store_env \<Rightarrow> snapshot \<Rightarrow> event list \<Rightarrow> snapshot result" where
  "seReduceAll env \<equiv> reduceAll (se_Legacy env) (se_Policies env)"

abbreviation seReplay :: "store_env \<Rightarrow> snapshot \<Rightarrow> string \<Rightarrow> (snapshot \<times> nat \<times> nat \<times> string) result" where
  "seReplay env \<equiv> replayEvents (se_Legacy env) (se_Policies env) (se_Decode env)"

section \<open>Commands (store.go)\<close>

fun readinessCommandKinds :: "command_kind \<Rightarrow> bool" where
  "readinessCommandKinds CommandInstantiate = True"
| "readinessCommandKinds CommandComplete = True"
| "readinessCommandKinds CommandGate = True"
| "readinessCommandKinds CommandChildOutcome = True"
| "readinessCommandKinds CommandTerminate = True"
| "readinessCommandKinds CommandUnblock = True"
| "readinessCommandKinds CommandReroute = True"
| "readinessCommandKinds _ = False"

definition stampCommand :: "gotime \<Rightarrow> command \<Rightarrow> command" where
  "stampCommand now cmd =
     (let c = (if IsZero (cmd_At cmd) then cmd\<lparr>cmd_At := now\<rparr> else cmd)
      in if readinessCommandKinds (cmd_Kind c) \<and> IsZero (cmd_ReadyAt c) then c\<lparr>cmd_ReadyAt := now\<rparr> else c)"

definition appendEvents :: "store_env \<Rightarrow> event list \<Rightarrow> instance_files \<Rightarrow> instance_files" where
  "appendEvents env evs fs = fs\<lparr>sf_Log := sf_Log fs @ encLog (se_Encode env) evs\<rparr>"

definition writeSnapshot :: "snapshot \<Rightarrow> instance_files \<Rightarrow> instance_files" where
  "writeSnapshot snap fs = fs\<lparr>sf_Snapshot := Some snap\<rparr>"

text \<open>The part of \<^verbatim>\<open>applyLocked\<close> after the replay: stamp, apply, reduce, then append and write.\<close>

definition commitCommand ::
  "store_env \<Rightarrow> minted \<Rightarrow> instance_files \<Rightarrow> snapshot \<Rightarrow> command \<Rightarrow> snapshot result \<times> instance_files" where
  "commitCommand env mi fs snap cmd =
     (case Apply mi (se_Codec env) (se_Policies env) snap (stampCommand (mi_now mi) cmd) of
        Inl e \<Rightarrow> (Inl e, fs)
      | Inr events \<Rightarrow>
          (case seReduceAll env snap events of
             Inl e \<Rightarrow> (Inl e, fs)
           | Inr next \<Rightarrow> (Inr next, writeSnapshot next (appendEvents env events fs))))"

definition applyLocked ::
  "store_env \<Rightarrow> minted \<Rightarrow> string \<Rightarrow> instance_files \<Rightarrow> command \<Rightarrow> snapshot result \<times> instance_files" where
  "applyLocked env mi workflowID fs cmd =
     (case sf_Snapshot fs of
        None \<Rightarrow>
          if cmd_Kind cmd \<noteq> CommandInstantiate
          then (Inl (Errorf ''workflow %s does not exist'' [workflowID]), fs)
          else commitCommand env mi fs zeroSnapshot cmd
      | Some snap \<Rightarrow>
          (case seReplay env snap (sf_Log fs) of
             Inl e \<Rightarrow> (Inl e, fs)
           | Inr (replayed, n, truncated, log') \<Rightarrow>
               if 0 < n \<or> 0 < truncated
               then commitCommand env mi (writeSnapshot replayed (fs\<lparr>sf_Log := log'\<rparr>)) replayed cmd
               else commitCommand env mi (fs\<lparr>sf_Log := log'\<rparr>) snap cmd))"

text \<open>\<^verbatim>\<open>loadCurrent\<close>: the snapshot advanced to the end of the log; the read may truncate a torn line.\<close>

definition loadCurrent ::
  "store_env \<Rightarrow> instance_files \<Rightarrow> (snapshot \<times> bool) result \<times> instance_files" where
  "loadCurrent env fs =
     (case sf_Snapshot fs of
        None \<Rightarrow> (Inr (zeroSnapshot, False), fs)
      | Some snap \<Rightarrow>
          (case seReplay env snap (sf_Log fs) of
             Inl e \<Rightarrow> (Inl e, fs)
           | Inr (replayed, _, _, log') \<Rightarrow> (Inr (replayed, True), fs\<lparr>sf_Log := log'\<rparr>)))"

section \<open>The store invariant\<close>

text \<open>
  \<open>represents env fs es cur\<close>: the log of \<open>fs\<close> is the encoding of \<open>es\<close>, and replaying \<open>es\<close> onto the
  snapshot file gives \<open>cur\<close>, the current state.
\<close>

definition represents :: "store_env \<Rightarrow> instance_files \<Rightarrow> event list \<Rightarrow> snapshot \<Rightarrow> bool" where
  "represents env fs es cur \<longleftrightarrow>
     jsonLaws (se_Encode env) (se_Decode env) (set es) \<and>
     sf_Log fs = encLog (se_Encode env) es \<and>
     (\<exists>snap. sf_Snapshot fs = Some snap \<and> seReduceAll env snap es = Inr cur)"

lemma represents_seen: "represents env fs es cur \<Longrightarrow> ev_ID ` set es \<subseteq> set (snap_AppliedEventIDs cur)"
  by (auto simp: represents_def rlog.run_mono)

lemma represents_loadCurrent:
  "represents env fs es cur \<Longrightarrow> loadCurrent env fs = (Inr (cur, True), fs)"
  by (auto simp: represents_def loadCurrent_def replayEvents_clean)

lemma represents_write:
  "represents env fs es cur \<Longrightarrow> represents env (writeSnapshot cur fs) es cur"
  by (auto simp: represents_def writeSnapshot_def intro: rlog.run_idem)

text \<open>The files a command is committed on still represent the current state.\<close>

lemma applyLocked_commit:
  assumes "represents env fs es cur"
  obtains fs1 where "represents env fs1 es cur" and "sf_Log fs1 = sf_Log fs"
    and "applyLocked env mi wid fs cmd = commitCommand env mi fs1 cur cmd"
proof -
  obtain snap where snap: "sf_Snapshot fs = Some snap" "seReduceAll env snap es = Inr cur"
    and js: "jsonLaws (se_Encode env) (se_Decode env) (set es)" and lg: "sf_Log fs = encLog (se_Encode env) es"
    using assms by (auto simp: represents_def)
  have rep: "seReplay env snap (sf_Log fs) = Inr (cur, length es, 0, sf_Log fs)"
    by (simp add: lg replayEvents_clean[OF js] snap(2))
  have same: "fs\<lparr>sf_Log := sf_Log fs\<rparr> = fs" by simp
  show thesis
  proof (cases "es = []")
    case True
    then have "snap = cur" using snap(2) by simp
    with True rep snap(1) assms show thesis by (intro that[of fs]) (simp_all add: applyLocked_def same)
  next
    case False
    with rep snap(1) represents_write[OF assms] show thesis
      by (intro that[of "writeSnapshot cur fs"]) (simp_all add: applyLocked_def same writeSnapshot_def)
  qed
qed

lemma commitCommand_ok:
  assumes "commitCommand env mi fs cur cmd = (Inr next, fs')"
  obtains evs where "Apply mi (se_Codec env) (se_Policies env) cur (stampCommand (mi_now mi) cmd) = Inr evs"
    and "seReduceAll env cur evs = Inr next" and "fs' = writeSnapshot next (appendEvents env evs fs)"
  using assms by (auto simp: commitCommand_def split: sum.splits)

lemma commitCommand_rejected: "commitCommand env mi fs cur cmd = (Inl e, fs') \<Longrightarrow> fs' = fs"
  by (auto simp: commitCommand_def split: sum.splits)

lemma represents_commit:
  assumes "represents env fs es cur" and "seReduceAll env cur evs = Inr next"
    and "jsonLaws (se_Encode env) (se_Decode env) (set evs)"
  shows "represents env (writeSnapshot next (appendEvents env evs fs)) (es @ evs) next"
proof -
  have "set (snap_AppliedEventIDs next) = set (snap_AppliedEventIDs cur) \<union> ev_ID ` set evs"
    using rlog.run_mono[OF assms(2)] .
  then have "ev_ID ` set (es @ evs) \<subseteq> set (snap_AppliedEventIDs next)"
    using represents_seen[OF assms(1)] by auto
  then have "seReduceAll env next (es @ evs) = Inr next" by (rule rlog.run_seen)
  then show ?thesis
    using assms(1,3) by (auto simp: represents_def writeSnapshot_def appendEvents_def encLog_append jsonLaws_def)
qed

section \<open>Batches and revisions\<close>

lemma Reduce_sequence:
  assumes "foldE (\<lambda>s e. Reduce (orc e) pol s e) s evs = Inr t"
    and "\<forall>k<length evs. ev_Sequence (evs ! k) = r + int k + 1"
    and "distinct (map ev_ID evs)" and "ev_ID ` set evs \<inter> set (snap_AppliedEventIDs s) = {}"
    and "inst_Revision (snap_Instance s) = r"
  shows "inst_Revision (snap_Instance t) = r + int (length evs)"
  using assms
proof (induction evs arbitrary: s r)
  case (Cons e evs)
  then obtain u where u: "Reduce (orc e) pol s e = Inr u" and rest: "foldE (\<lambda>s e. Reduce (orc e) pol s e) u evs = Inr t"
    by (auto simp: bindE_eq_Inr_iff)
  have new: "ev_ID e \<notin> set (snap_AppliedEventIDs s)" using Cons.prems(4) by auto
  have seq: "\<forall>k<length evs. ev_Sequence (evs ! k) = (r + 1) + int k + 1"
    using Cons.prems(2) by (metis Suc_less_eq add.assoc add.commute length_Cons nth_Cons_Suc of_nat_Suc)
  have "ev_Sequence e = r + 1" using Cons.prems(2) by force
  then have "inst_Revision (snap_Instance u) = r + 1" using Reduce_revision[OF u new] by simp
  moreover have "ev_ID ` set evs \<inter> set (snap_AppliedEventIDs u) = {}"
    using Cons.prems(3,4) rlog.step_mono[of orc e pol s u, OF u] by auto
  ultimately have "inst_Revision (snap_Instance t) = (r + 1) + int (length evs)"
    using Cons.IH[OF rest seq] Cons.prems(3) by simp
  then show ?case by simp
qed simp

lemma wellFormedBatch_ids:
  assumes "wellFormedBatch mi s c evs" and "inj (mi_uuid mi)"
  shows "distinct (map ev_ID evs)" and "ev_ID ` set evs \<subseteq> range (NewEventID mi)"
proof -
  have ids: "map ev_ID evs = map (NewEventID mi) [0..<length evs]"
    using assms(1) by (auto simp: wellFormedBatch_def intro: nth_equalityI)
  have inj: "inj (NewEventID mi)"
    using assms(2) by (auto simp: inj_def NewEventID_def newID_def)
  show "distinct (map ev_ID evs)"
    unfolding ids using inj by (simp add: distinct_map) (metis inj_on_subset subset_UNIV)
  have "ev_ID ` set evs = NewEventID mi ` set [0..<length evs]"
    using arg_cong[OF ids, of set] by simp
  then show "ev_ID ` set evs \<subseteq> range (NewEventID mi)" by auto
qed

end
