(* ===== verification/Wf_Recovery.thy ===== *)
theory Wf_Recovery
  imports Wf_Store Wf_Settlement
begin

text \<open>
  Restart recovery and the lease sweep (\<^verbatim>\<open>recovery.go\<close>): a lease is stale when the clock is strictly
  after its expiry; every stale lease is expired by one event, except on an activation that awaits
  a child workflow.
\<close>

section \<open>Collecting the expiry events\<close>

definition staleLease :: "gotime \<Rightarrow> activation \<Rightarrow> bool" where
  "staleLease now a \<longleftrightarrow> act_Status a \<noteq> ActivationAwaitingChild \<and>
     (case act_ActiveLease a of None \<Rightarrow> False | Some l \<Rightarrow> After now (ls_ExpiresAt l))"

definition expiryEvent :: "minted \<Rightarrow> snapshot \<Rightarrow> string \<Rightarrow> gotime \<Rightarrow> nat \<Rightarrow> activation \<Rightarrow> event" where
  "expiryEvent mi snap reason now k a =
     zeroEvent\<lparr>ev_ID := NewEventID mi k, ev_Kind := EventLeaseExpired,
       ev_Sequence := inst_Revision (snap_Instance snap) + int k + 1, ev_Reason := reason,
       ev_Identity := zeroIdentity\<lparr>id_WorkflowID := inst_WorkflowID (snap_Instance snap),
          id_NodeID := act_NodeID a, id_ActivationID := act_ID a\<rparr>,
       ev_LeaseID := (case act_ActiveLease a of None \<Rightarrow> '''' | Some l \<Rightarrow> ls_ID l),
       ev_ReadyAt := Some now, ev_At := now\<rparr>"

fun collectFrom :: "minted \<Rightarrow> snapshot \<Rightarrow> string \<Rightarrow> gotime \<Rightarrow> nat \<Rightarrow> activation list \<Rightarrow> event list" where
  "collectFrom mi snap reason now k [] = []"
| "collectFrom mi snap reason now k (a # as) =
     (if staleLease now a
      then expiryEvent mi snap reason now k a # collectFrom mi snap reason now (k + 1) as
      else collectFrom mi snap reason now k as)"

definition collectExpiredLeaseEvents :: "minted \<Rightarrow> snapshot \<Rightarrow> string \<Rightarrow> gotime \<Rightarrow> event list" where
  "collectExpiredLeaseEvents mi snap reason now = collectFrom mi snap reason now 0 (acts snap)"

section \<open>Recovery and the sweep\<close>

text \<open>\<^verbatim>\<open>appendExpiredLeases\<close> appends before it reduces: a rejected expiry would already be in the log.\<close>

definition appendExpiredLeases ::
  "store_env \<Rightarrow> minted \<Rightarrow> instance_files \<Rightarrow> snapshot \<Rightarrow> (snapshot \<times> nat) result \<times> instance_files" where
  "appendExpiredLeases env mi fs snap =
     (let events = collectExpiredLeaseEvents mi snap ''recovery'' (mi_now mi) in
      if events = [] then (Inr (snap, 0), fs)
      else
        (case seReduceAll env snap events of
           Inl e \<Rightarrow> (Inl e, appendEvents env events fs)
         | Inr next \<Rightarrow> (Inr (next, length events), appendEvents env events fs)))"

definition recoverInstance ::
  "store_env \<Rightarrow> minted \<Rightarrow> instance_files \<Rightarrow> (snapshot \<times> bool) result \<times> instance_files" where
  "recoverInstance env mi fs =
     (case sf_Snapshot fs of
        None \<Rightarrow> (Inr (zeroSnapshot, False), fs)
      | Some snap \<Rightarrow>
          (case seReplay env snap (sf_Log fs) of
             Inl e \<Rightarrow> (Inl e, fs)
           | Inr (sn, n, truncated, log') \<Rightarrow>
               (case appendExpiredLeases env mi (fs\<lparr>sf_Log := log'\<rparr>) sn of
                  (Inl e, fs1) \<Rightarrow> (Inl e, fs1)
                | (Inr (sn', expired), fs1) \<Rightarrow>
                    (Inr (sn', True),
                     if 0 < n \<or> 0 < truncated \<or> 0 < expired then writeSnapshot sn' fs1 else fs1))))"

definition retainedLeases :: "gotime \<Rightarrow> activation list \<Rightarrow> nat" where
  "retainedLeases now as = length (filter (\<lambda>a. act_ActiveLease a \<noteq> None \<and> \<not> staleLease now a) as)"

definition sweepStaleLeases ::
  "store_env \<Rightarrow> minted \<Rightarrow> instance_files \<Rightarrow> string \<Rightarrow> gotime \<Rightarrow> (nat \<times> nat) result \<times> instance_files" where
  "sweepStaleLeases env mi fs reason now =
     (case sf_Snapshot fs of
        None \<Rightarrow> (Inr (0, 0), fs)
      | Some snap0 \<Rightarrow>
          (case seReplay env snap0 (sf_Log fs) of
             Inl e \<Rightarrow> (Inl e, fs)
           | Inr (replayed, n, truncated, log') \<Rightarrow>
               (let fs1 = fs\<lparr>sf_Log := log'\<rparr>;
                    snap = (if 0 < n \<or> 0 < truncated then replayed else snap0);
                    retained = retainedLeases now (acts snap);
                    events = collectExpiredLeaseEvents mi snap reason now
                in if events = []
                   then (Inr (0, retained),
                         if 0 < n \<or> 0 < truncated then writeSnapshot snap fs1 else fs1)
                   else (case seReduceAll env snap events of
                           Inl e \<Rightarrow> (Inl e, appendEvents env events fs1)
                         | Inr next \<Rightarrow>
                             (Inr (length events, retained), writeSnapshot next (appendEvents env events fs1))))))"

section \<open>What a sweep does\<close>

text \<open>The effect of one expiry on its activation.\<close>

definition expired :: "gotime \<Rightarrow> activation \<Rightarrow> activation" where
  "expired now a = a\<lparr>act_Status := ActivationLeaseExpired, act_ActiveLease := None,
                     act_ReadyAt := Some now, act_UpdatedAt := now\<rparr>"

definition sweepActivation :: "gotime \<Rightarrow> activation \<Rightarrow> activation" where
  "sweepActivation now a = (if staleLease now a then expired now a else a)"

text \<open>Activation ids as the code mints them: non-empty and distinct.\<close>

definition distinctIDs :: "activation list \<Rightarrow> bool" where
  "distinctIDs as \<longleftrightarrow> distinct (map act_ID as) \<and> '''' \<notin> set (map act_ID as)"

lemma filter_eq_upt: "i < n \<Longrightarrow> filter ((=) i) [0..<n] = [i]"
  by (induction n) (auto simp: less_Suc_eq filter_empty_conv)

lemma findActivation_distinct:
  assumes "distinctIDs (inst_Activations inst)" and "i < length (inst_Activations inst)"
  shows "findActivation inst (act_NodeID (inst_Activations inst ! i)) (act_ID (inst_Activations inst ! i)) =
    Inr (Some i)"
proof -
  let ?as = "inst_Activations inst"
  let ?P = "\<lambda>j. matchesActivation (act_NodeID (?as ! i)) (act_ID (?as ! i)) (?as ! j)"
  have ne: "act_ID (?as ! i) \<noteq> []"
    using assms by (auto simp: distinctIDs_def) (metis image_eqI nth_mem)
  have inj: "?P j \<longleftrightarrow> j = i" if "j < length ?as" for j
    using assms that ne
    by (auto simp: distinctIDs_def matchesActivation_def distinct_conv_nth)
  have "filter ?P [0..<length ?as] = filter ((=) i) [0..<length ?as]"
    by (rule filter_cong) (auto simp: inj)
  also have "\<dots> = [i]"
    using assms(2) by (rule filter_eq_upt)
  finally show ?thesis using ne by (simp add: findActivation_def)
qed

lemma expiryEvent_frame [simp]:
  "ev_ID (expiryEvent mi snap reason now k a) = NewEventID mi k"
  "ev_Kind (expiryEvent mi snap reason now k a) = EventLeaseExpired"
  "ev_Sequence (expiryEvent mi snap reason now k a) = inst_Revision (snap_Instance snap) + int k + 1"
  "ev_At (expiryEvent mi snap reason now k a) = now"
  "ev_ReadyAt (expiryEvent mi snap reason now k a) = Some now"
  "ev_LeaseID (expiryEvent mi snap reason now k a) = (case act_ActiveLease a of None \<Rightarrow> '''' | Some l \<Rightarrow> ls_ID l)"
  "id_WorkflowID (ev_Identity (expiryEvent mi snap reason now k a)) = inst_WorkflowID (snap_Instance snap)"
  "id_NodeID (ev_Identity (expiryEvent mi snap reason now k a)) = act_NodeID a"
  "id_ActivationID (ev_Identity (expiryEvent mi snap reason now k a)) = act_ID a"
  by (simp_all add: expiryEvent_def)

lemma expiryEvent_complete: "\<not> IsZero now \<Longrightarrow> completeEvent (expiryEvent mi snap reason now k a)"
  by (simp add: completeEvent_def)

text \<open>One expiry event is always accepted, and changes its own activation only.\<close>

lemma applyEvent_expiry:
  assumes "distinctIDs (acts s)" and "i < length (acts s)" and "staleLease now (acts s ! i)"
    and "wfStatus s \<noteq> WorkflowCanceled" and "inst_WorkflowID (snap_Instance s) = inst_WorkflowID (snap_Instance snap)"
    and "\<not> IsZero now"
  obtains t where "applyEvent mi' pol s (expiryEvent mi snap reason now k (acts s ! i)) = Inr t"
    and "acts t = (acts s)[i := expired now (acts s ! i)]" and "wfStatus t = wfStatus s"
    and "inst_WorkflowID (snap_Instance t) = inst_WorkflowID (snap_Instance s)"
proof -
  let ?a = "acts s ! i"
  let ?ev = "expiryEvent mi snap reason now k ?a"
  obtain l where l: "act_ActiveLease ?a = Some l"
    using assms(3) by (auto simp: staleLease_def split: option.splits)
  let ?s1 = "foldl (timeOutAttempt (ls_ExpiresAt l) ?a) s (act_AttemptIDs ?a)"
  let ?t = "updAct i (\<lambda>a. (copyReadyAt (a\<lparr>act_Status := ActivationLeaseExpired, act_ActiveLease := None\<rparr>) ?ev)
      \<lparr>act_UpdatedAt := now\<rparr>) ?s1"
  have d: "withLegacyDefaults mi' ?ev = ?ev"
    by (rule withLegacyDefaults_complete[OF expiryEvent_complete[OF assms(6)]])
  have "targetOf s ?ev = Inr (Some i)"
    using findActivation_distinct[of "snap_Instance s" i] assms(1,2) by (simp add: targetOf_def)
  then have "applyEvent mi' pol s ?ev = Inr ?t"
    using assms(4,5) l by (simp add: applyEvent_def d dispatchEvent_def applyLeaseExpired_def Let_def)
  moreover have "acts ?t = (acts s)[i := expired now ?a]"
    by (simp add: expired_def copyReadyAt_def)
  moreover have "instKey ?t = instKey s" by simp
  then have "inst_WorkflowID (snap_Instance ?t) = inst_WorkflowID (snap_Instance s)"
    by (simp add: instKey_def)
  ultimately show thesis using that by simp
qed

lemma distinctIDs_update: "distinctIDs as \<Longrightarrow> i < length as \<Longrightarrow> act_ID a' = act_ID (as ! i) \<Longrightarrow> distinctIDs (as[i := a'])"
  by (simp add: distinctIDs_def map_update) (metis list.set_map list_update_id nth_map)

lemma expired_not_stale: "\<not> staleLease now (expired now' a)"
  by (simp add: staleLease_def expired_def)

text \<open>
  The events collected from position \<open>n\<close> on, reduced onto a state whose activations from \<open>n\<close> on
  are those they were collected from: every one is accepted and the suffix is swept.
\<close>

lemma reduce_collected:
  assumes "acts s = pre @ as" and "distinctIDs (acts s)" and "wfStatus s \<noteq> WorkflowCanceled"
    and "inst_WorkflowID (snap_Instance s) = inst_WorkflowID (snap_Instance snap)" and "\<not> IsZero now"
    and "inj (mi_uuid mi)" and "\<forall>j\<ge>k. NewEventID mi j \<notin> set (snap_AppliedEventIDs s)"
  shows "\<exists>t. reduceAll orc pol s (collectFrom mi snap reason now k as) = Inr t \<and>
    acts t = pre @ map (sweepActivation now) as \<and> wfStatus t = wfStatus s"
  using assms
proof (induction as arbitrary: s pre k)
  case (Cons a as)
  show ?case
  proof (cases "staleLease now a")
    case False
    have "acts s = (pre @ [a]) @ as" using Cons.prems(1) by simp
    from Cons.IH[OF this Cons.prems(2-7)] False show ?thesis
      by (auto simp: sweepActivation_def)
  next
    case True
    let ?i = "length pre"
    have i: "?i < length (acts s)" "acts s ! ?i = a" using Cons.prems(1) by simp_all
    obtain t where t: "applyEvent (orc (expiryEvent mi snap reason now k a)) pol s (expiryEvent mi snap reason now k a) = Inr t"
      and at: "acts t = (acts s)[?i := expired now a]" and wt: "wfStatus t = wfStatus s"
      and idt: "inst_WorkflowID (snap_Instance t) = inst_WorkflowID (snap_Instance s)"
      using applyEvent_expiry[OF Cons.prems(2) i(1), of now snap, unfolded i(2), OF True Cons.prems(3,4,5)] by metis
    let ?u = "recordEvent (expiryEvent mi snap reason now k a) t"
    have r: "Reduce (orc (expiryEvent mi snap reason now k a)) pol s (expiryEvent mi snap reason now k a) = Inr ?u"
      using Cons.prems(7) t by (simp add: Reduce_def containsID_def)
    have acts_u: "acts ?u = (pre @ [expired now a]) @ as"
      using at Cons.prems(1) by (simp add: list_update_append)
    have ids: "distinctIDs (acts ?u)"
      using distinctIDs_update[OF Cons.prems(2) i(1), of "expired now a"] at i(2) by (simp add: expired_def)
    have inj: "inj (NewEventID mi)"
      using Cons.prems(6) by (auto simp: inj_def NewEventID_def newID_def)
    have fresh: "\<forall>j\<ge>k + 1. NewEventID mi j \<notin> set (snap_AppliedEventIDs ?u)"
      using Cons.prems(7) applyEvent_log(1)[OF t] injD[OF inj] by fastforce
    have "\<exists>v. reduceAll orc pol ?u (collectFrom mi snap reason now (k + 1) as) = Inr v \<and>
        acts v = (pre @ [expired now a]) @ map (sweepActivation now) as \<and> wfStatus v = wfStatus ?u"
      using Cons.IH[OF acts_u ids _ _ Cons.prems(5,6) fresh] Cons.prems(3,4) wt idt by simp
    then show ?thesis using True r wt by (auto simp: sweepActivation_def)
  qed
qed auto

text \<open>
  The sweep: every event it collects is accepted, exactly the stale leases that are not exempt
  are released, their activations become claimable again, and no other activation changes.
\<close>

lemma sweep_correct:
  assumes "distinctIDs (acts s)" and "wfStatus s \<noteq> WorkflowCanceled" and "\<not> IsZero now"
    and "inj (mi_uuid mi)" and "\<forall>j. NewEventID mi j \<notin> set (snap_AppliedEventIDs s)"
  shows "\<exists>t. reduceAll orc pol s (collectExpiredLeaseEvents mi s reason now) = Inr t \<and>
    acts t = map (sweepActivation now) (acts s) \<and> wfStatus t = wfStatus s"
  using reduce_collected[of s "[]" "acts s" s now mi 0 orc pol reason] assms
  by (simp add: collectExpiredLeaseEvents_def)

lemma collect_empty_iff: "collectFrom mi snap reason now k as = [] \<longleftrightarrow> list_all (\<lambda>a. \<not> staleLease now a) as"
  by (induction as arbitrary: k) auto

lemma collect_complete:
  "\<not> IsZero now \<Longrightarrow> \<forall>ev\<in>set (collectFrom mi snap reason now k as). completeEvent ev"
  by (induction as arbitrary: k) (auto intro: expiryEvent_complete)

text \<open>A canceled instance has no lease, in every state a log reaches.\<close>

definition cancelReleases :: "snapshot \<Rightarrow> bool" where
  "cancelReleases s \<longleftrightarrow> (wfStatus s = WorkflowCanceled \<longrightarrow> list_all (\<lambda>a. act_ActiveLease a = None) (acts s))"

lemma applyInstantiated_active: "applyInstantiated pol s ev = Inr t \<Longrightarrow> wfStatus t = WorkflowActive"
  by (auto simp: applyInstantiated_def split: if_splits option.splits)

lemma cancelActivation_lease [simp]: "act_ActiveLease (cancelActivation now a) = None"
  by (simp add: cancelActivation_def Let_def)

lemma applyCanceled_leases:
  "applyCanceled s ev = Inr t \<Longrightarrow> list_all (\<lambda>a. act_ActiveLease a = None) (acts t)"
  by (auto simp: applyCanceled_def updInst_def list_all_iff split: if_splits)

lemma applyEvent_cancelReleases:
  assumes "cancelReleases s" and "applyEvent mi pol s ev = Inr t"
  shows "cancelReleases t"
proof (cases "wfStatus s = WorkflowCanceled")
  case True
  have k: "\<not> canceledMutatingKinds (ev_Kind ev)"
    using assms True by (auto elim: applyEvent_dispatch)
  have lease: "act_ActiveLease (acts s ! i) = None" if "i < length (acts s)" for i
    using assms(1) True that by (simp add: cancelReleases_def list_all_length)
  have fr: "frozen s t \<Longrightarrow> ?thesis"
    using assms(1) unfolding cancelReleases_def frozen_def list_all_length by (metis length_map nth_map)
  have fresh: "cancelReleases (stampInstance e u)" if "applyInstantiated pol s e' = Inr u" for e e' u
    using applyInstantiated_active[OF that] by (simp add: cancelReleases_def)
  from assms(2) show ?thesis
    by (cases rule: applyEvent_cases[OF _ refl])
      (use k lease True in \<open>auto simp: applyCanceled_def applyHeartbeat_def
          intro: fr canceled_attempt_facts identified_frozen fresh split: if_splits\<close>)
next
  case False
  show ?thesis
  proof (cases "wfStatus t = WorkflowCanceled")
    case True
    with False applyEvent_wfStatus[OF assms(2)] have "ev_Kind ev = EventCanceled"
      by (auto elim: wf_step.cases)
    with assms(2) have "applyCanceled s (withLegacyDefaults mi ev) = Inr t"
      by (cases rule: applyEvent_cases[OF _ refl]) auto
    then show ?thesis by (simp add: cancelReleases_def applyCanceled_leases)
  qed (simp add: cancelReleases_def)
qed

lemma Reduce_cancelReleases: "cancelReleases s \<Longrightarrow> Reduce mi pol s ev = Inr t \<Longrightarrow> cancelReleases t"
proof (erule Reduce_invariant)
  fix s' assume "cancelReleases s'"
  then show "cancelReleases (recordEvent ev s')" by (simp add: cancelReleases_def)
qed (blast intro: applyEvent_cancelReleases)+

interpretation releases: kept_by_log "\<lambda>s e. Reduce (orc e) pol s e" cancelReleases for orc pol
  by unfold_locales (rule Reduce_cancelReleases)

lemma cancelReleases_no_stale:
  "cancelReleases s \<Longrightarrow> wfStatus s = WorkflowCanceled \<Longrightarrow> collectExpiredLeaseEvents mi s reason now = []"
  by (auto simp: cancelReleases_def collectExpiredLeaseEvents_def collect_empty_iff staleLease_def list_all_iff)

end
