(* ===== verification/Wf_Durability.thy ===== *)
theory Wf_Durability
  imports Wf_Recovery Wf_Example
begin

text \<open>
  The durability properties of the store: a committed command is a function of the abstract state
  alone and survives any reload, a rejected one changes nothing, a crash at any byte of the append
  leaves a prefix of the batch, and the lease sweep and the recovery keep the log replayable.
\<close>

section \<open>Crashes inside an append\<close>

definition crashedAppend :: "store_env \<Rightarrow> event list \<Rightarrow> nat \<Rightarrow> instance_files \<Rightarrow> instance_files" where
  "crashedAppend env evs k fs = fs\<lparr>sf_Log := sf_Log fs @ take k (encLog (se_Encode env) evs)\<rparr>"

text \<open>What a reader finds after a crash that left \<open>k\<close> bytes of the batch in the log.\<close>

lemma crashed_load:
  assumes rep: "represents env fs es cur" and js: "jsonLaws (se_Encode env) (se_Decode env) (set evs)"
    and red: "seReduceAll env cur evs = Inr next"
  shows "\<exists>j u fs'. j \<le> length evs \<and> seReduceAll env cur (take j evs) = Inr u \<and>
    loadCurrent env (crashedAppend env evs k fs) = (Inr (u, True), fs') \<and>
    (length (encLog (se_Encode env) evs) \<le> k \<longrightarrow> j = length evs)"
proof -
  let ?enc = "se_Encode env" and ?dec = "se_Decode env"
  obtain snap where snap: "sf_Snapshot fs = Some snap" "seReduceAll env snap es = Inr cur"
    and jes: "jsonLaws ?enc ?dec (set es)" and lg: "sf_Log fs = encLog ?enc es"
    using rep by (auto simp: represents_def)
  obtain j frag where tk: "take k (encLog ?enc evs) = encLog ?enc (take j evs) @ frag" "j \<le> length evs"
    "frag = [] \<or> j < length evs \<and> prefix frag (?enc (evs ! j))"
    "length (encLog ?enc evs) \<le> k \<longrightarrow> j = length evs"
    using take_encLog by blast
  have pre: "\<exists>u. seReduceAll env cur (take m evs) = Inr u" for m
    using red foldE_append_Inr[of "\<lambda>s e. Reduce (se_Legacy env e) (se_Policies env) s e" cur "take m evs" "drop m evs"]
    by auto
  have run: "seReduceAll env snap (es @ take m evs) = seReduceAll env cur (take m evs)" for m
    using snap(2) by (simp add: foldE_append)
  have jm: "jsonLaws ?enc ?dec (set (es @ take m evs))" for m
    using jes js by (auto simp: jsonLaws_def dest: in_set_takeD)
  have bytes: "sf_Log (crashedAppend env evs k fs) = encLog ?enc (es @ take j evs) @ frag"
    by (simp add: crashedAppend_def lg tk(1) encLog_append)
  have sn: "sf_Snapshot (crashedAppend env evs k fs) = Some snap" by (simp add: crashedAppend_def snap(1))
  consider "frag = []" | "frag \<noteq> []" "j < length evs" "frag = ?enc (evs ! j)"
    | "frag \<noteq> []" "j < length evs" "strict_prefix frag (?enc (evs ! j))"
    using tk(3) by (auto simp: strict_prefix_def)
  then show ?thesis
  proof cases
    case 1
    obtain u where "seReduceAll env cur (take j evs) = Inr u" using pre by blast
    with 1 tk(2,4) show ?thesis
      by (intro exI[of _ j] exI[of _ u]) (simp add: loadCurrent_def sn bytes replayEvents_clean[OF jm] run)
  next
    case 2
    have tj: "take (Suc j) evs = take j evs @ [evs ! j]" using 2(2) by (rule take_Suc_conv_app_nth)
    obtain u where u: "seReduceAll env cur (take (Suc j) evs) = Inr u" using pre by blast
    have jl: "jsonLaws ?enc ?dec (set ((es @ take j evs) @ [evs ! j]))"
      using jm[of "Suc j"] by (simp add: tj)
    have "seReduceAll env snap ((es @ take j evs) @ [evs ! j]) = Inr u"
      using run[of "Suc j"] u by (simp add: tj)
    with 2 u tk(4) show ?thesis
      by (intro exI[of _ "Suc j"] exI[of _ u])
        (simp add: loadCurrent_def sn bytes replayEvents_open_line[OF jl] del: append_assoc)
  next
    case 3
    have e: "nl \<notin> set (?enc (evs ! j))" "?enc (evs ! j) \<noteq> []" "hd (?enc (evs ! j)) = CHR ''{''"
      "\<forall>p. strict_prefix p (?enc (evs ! j)) \<longrightarrow> ?dec p = None"
      using js 3(2) by (auto simp: jsonLaws_def)
    have "nl \<notin> set frag" using e(1) 3(3) by (auto simp: strict_prefix_def dest: set_mono_prefix)
    moreover have "?dec frag = None" using e(4) 3(3) by blast
    moreover have "hd frag = CHR ''{''" using e(2,3) 3(1,3) by (auto simp: strict_prefix_def prefix_def)
    then have "\<not> isBlank (encLog ?enc (es @ take j evs) @ frag)"
      using 3(1) encLog_not_blank[OF jm[of j], of frag] by (cases frag; cases "es @ take j evs = []") auto
    moreover obtain u where "seReduceAll env cur (take j evs) = Inr u" using pre by blast
    ultimately show ?thesis using 3(1) tk(2,4)
      by (intro exI[of _ j] exI[of _ u]) (simp add: loadCurrent_def sn bytes replayEvents_torn[OF jm] run)
  qed
qed

section \<open>The sweep on the store\<close>

lemma sweep_no_stale: "list_all (\<lambda>a. \<not> staleLease now a) (map (sweepActivation now) as)"
  by (auto simp: list_all_iff sweepActivation_def expired_not_stale)

lemma sweep_nothing: "list_all (\<lambda>a. \<not> staleLease now a) as \<Longrightarrow> map (sweepActivation now) as = as"
  by (induction as) (auto simp: sweepActivation_def)

lemma sweep_any_status:
  assumes "distinctIDs (acts s)" and "cancelReleases s" and "\<not> IsZero now"
    and "inj (mi_uuid mi)" and "\<forall>j. NewEventID mi j \<notin> set (snap_AppliedEventIDs s)"
  shows "\<exists>t. reduceAll orc pol s (collectExpiredLeaseEvents mi s reason now) = Inr t \<and>
    acts t = map (sweepActivation now) (acts s) \<and> wfStatus t = wfStatus s"
proof (cases "wfStatus s = WorkflowCanceled")
  case True
  then have none: "collectExpiredLeaseEvents mi s reason now = []"
    using assms(2) by (rule cancelReleases_no_stale[rotated])
  then have "map (sweepActivation now) (acts s) = acts s"
    by (auto simp: collectExpiredLeaseEvents_def collect_empty_iff intro: sweep_nothing)
  with none show ?thesis by simp
qed (rule sweep_correct[OF assms(1) _ assms(3-5)])

text \<open>The files after a sweep or a recovery that expired the given events.\<close>

lemma represents_replay:
  assumes "represents env fs es cur"
  obtains snap where "sf_Snapshot fs = Some snap"
    and "seReplay env snap (sf_Log fs) = Inr (cur, length es, 0, sf_Log fs)"
    and "es = [] \<longrightarrow> snap = cur"
proof -
  obtain snap where snap: "sf_Snapshot fs = Some snap" "seReduceAll env snap es = Inr cur"
    and "jsonLaws (se_Encode env) (se_Decode env) (set es)" and "sf_Log fs = encLog (se_Encode env) es"
    using assms by (auto simp: represents_def)
  moreover have "es = [] \<longrightarrow> snap = cur" using snap(2) by auto
  ultimately show thesis using that[OF snap(1)] by (simp add: replayEvents_clean)
qed

lemma collectFrom_length: "length (collectFrom mi snap reason now k as) = length (filter (staleLease now) as)"
  by (induction as arbitrary: k) simp_all

lemma collected_length:
  "length (collectExpiredLeaseEvents mi snap reason now) = length (filter (staleLease now) (acts snap))"
  by (simp add: collectExpiredLeaseEvents_def collectFrom_length)

lemma sweepStaleLeases_ok:
  assumes rep: "represents env fs es cur"
    and js: "jsonLaws (se_Encode env) (se_Decode env) (set (collectExpiredLeaseEvents mi cur reason now))"
    and red: "seReduceAll env cur (collectExpiredLeaseEvents mi cur reason now) = Inr t"
  shows "\<exists>fs'. sweepStaleLeases env mi fs reason now =
      (Inr (length (collectExpiredLeaseEvents mi cur reason now), retainedLeases now (acts cur)), fs') \<and>
    represents env fs' (es @ collectExpiredLeaseEvents mi cur reason now) t"
proof -
  let ?evs = "collectExpiredLeaseEvents mi cur reason now"
  obtain snap where snap: "sf_Snapshot fs = Some snap"
    "seReplay env snap (sf_Log fs) = Inr (cur, length es, 0, sf_Log fs)" "es = [] \<longrightarrow> snap = cur"
    using represents_replay[OF rep] .
  have same: "fs\<lparr>sf_Log := sf_Log fs\<rparr> = fs" by simp
  have cur: "(if 0 < length es \<or> 0 < (0::nat) then cur else snap) = cur" using snap(3) by auto
  show ?thesis
  proof (cases "?evs = []")
    case True
    then have "t = cur" using red by simp
    with True snap rep represents_write[OF rep] show ?thesis
      by (auto simp: sweepStaleLeases_def Let_def cur same)
  next
    case False
    with snap red represents_commit[OF rep red js] show ?thesis
      by (auto simp: sweepStaleLeases_def Let_def cur same)
  qed
qed

lemma recoverInstance_ok:
  assumes rep: "represents env fs es cur"
    and js: "jsonLaws (se_Encode env) (se_Decode env) (set (collectExpiredLeaseEvents mi cur ''recovery'' (mi_now mi)))"
    and red: "seReduceAll env cur (collectExpiredLeaseEvents mi cur ''recovery'' (mi_now mi)) = Inr t"
  shows "\<exists>fs'. recoverInstance env mi fs = (Inr (t, True), fs') \<and>
    represents env fs' (es @ collectExpiredLeaseEvents mi cur ''recovery'' (mi_now mi)) t"
proof -
  let ?evs = "collectExpiredLeaseEvents mi cur ''recovery'' (mi_now mi)"
  obtain snap where snap: "sf_Snapshot fs = Some snap"
    "seReplay env snap (sf_Log fs) = Inr (cur, length es, 0, sf_Log fs)" "es = [] \<longrightarrow> snap = cur"
    using represents_replay[OF rep] .
  have same: "fs\<lparr>sf_Log := sf_Log fs\<rparr> = fs" by simp
  show ?thesis
  proof (cases "?evs = []")
    case True
    then have "t = cur" using red by simp
    with True snap rep represents_write[OF rep] show ?thesis
      by (auto simp: recoverInstance_def appendExpiredLeases_def Let_def same)
  next
    case False
    with snap red represents_commit[OF rep red js] show ?thesis
      by (auto simp: recoverInstance_def appendExpiredLeases_def Let_def same)
  qed
qed

section \<open>An example store\<close>

definition demoMint :: minted where
  "demoMint = \<lparr>mi_now = 500, mi_uuid = (\<lambda>n. replicate n (CHR ''x''))\<rparr>"

lemma demoMint_inj: "inj (mi_uuid demoMint)"
  by (auto simp: inj_def demoMint_def)

definition demoCodec :: codec where
  "demoCodec = \<lparr>jc_Instance = (\<lambda>_. Inl (Err ''syntax'')), jc_Transition = (\<lambda>_. Inr demoTransition),
     jc_Reroute = (\<lambda>_. Inl (Err ''syntax'')), jc_String = (\<lambda>_. None), jc_Number = (\<lambda>_. None)\<rparr>"

definition demoComplete :: command where
  "demoComplete = zeroCommand\<lparr>cmd_ID := ''c'', cmd_Kind := CommandComplete, cmd_ExpectedRevision := 6,
     cmd_IdempotencyKey := ''key'', cmd_LeaseID := ''l2'', cmd_Outcome := ''built'', cmd_Payload := ''t'',
     cmd_Identity := zeroIdentity\<lparr>id_WorkflowID := ''w'', id_NodeID := ''build'', id_ActivationID := ''a1''\<rparr>\<rparr>"

definition demoCurrent :: snapshot where
  "demoCurrent = the_snap (demoRun demoBuild)"

definition demoBatch :: "event list" where
  "demoBatch =
     [(demoEvent ''wfe_'' 7 EventCompleted ''build'' ''a1'')
        \<lparr>ev_CommandID := ''c'', ev_IdempotencyKey := ''key'', ev_At := 500, ev_ReadyAt := Some 500,
         ev_LeaseID := ''l2'', ev_Outcome := ''built'', ev_Transition := Some demoTransition\<rparr>,
      (demoEvent ''wfe_x'' 8 EventTransition ''build'' ''a1'')
        \<lparr>ev_CommandID := ''c'', ev_IdempotencyKey := ''key'', ev_At := 500, ev_ReadyAt := Some 500,
         ev_Outcome := ''built'', ev_Transition := Some demoTransition, ev_ActivationIDs := [''act_xx''],
         ev_CausedBy := [''a1'']\<rparr>]"

text \<open>The expiry of the lease of \<^verbatim>\<open>a1\<close>, which ran out at 100.\<close>

definition demoExpiry :: event where
  "demoExpiry = (demoEvent ''wfe_'' 7 EventLeaseExpired ''build'' ''a1'')
     \<lparr>ev_Reason := ''recovery'', ev_LeaseID := ''l2'', ev_ReadyAt := Some 500, ev_At := 500\<rparr>"

definition demoEncode :: "event \<Rightarrow> raw" where
  "demoEncode e = ''{'' @ ev_ID e @ ''}''"

definition demoDecode :: "event list \<Rightarrow> raw \<Rightarrow> event option" where
  "demoDecode known s = find (\<lambda>e. s = demoEncode e \<or> s = demoEncode e @ [nl]) (demoBuild @ known)"

definition demoEnv :: "event list \<Rightarrow> store_env" where
  "demoEnv known = \<lparr>se_Policies = demoPolicies, se_Codec = demoCodec, se_Encode = demoEncode,
     se_Decode = demoDecode known, se_Legacy = demoMinted\<rparr>"

definition demoFiles :: instance_files where
  "demoFiles = \<lparr>sf_Snapshot = Some (the_snap (demoRun [demoInstantiated])), sf_Log = encLog demoEncode demoBuild\<rparr>"

lemma demoBatch_emitted:
  "Apply demoMint demoCodec demoPolicies demoCurrent (stampCommand 500 demoComplete) = Inr demoBatch"
  by code_simp

lemma demoExpiry_collected: "collectExpiredLeaseEvents demoMint demoCurrent ''recovery'' 500 = [demoExpiry]"
  by code_simp

lemma demo_json:
  "jsonLaws demoEncode (demoDecode demoBatch) (set (demoBuild @ demoBatch))"
  "jsonLaws demoEncode (demoDecode [demoExpiry]) (set (demoBuild @ [demoExpiry]))"
  unfolding jsonLaws_list by code_simp+

lemma demo_represents:
  assumes "known \<in> {demoBatch, [demoExpiry]}"
  shows "represents (demoEnv known) demoFiles demoBuild demoCurrent"
proof -
  have js: "jsonLaws demoEncode (demoDecode known) (set demoBuild)"
    using assms demo_json by (auto intro: jsonLaws_mono)
  have 1: "isOk (demoRun [demoInstantiated])" "isOk (demoRun demoBuild)" by code_simp+
  have split: "demoBuild = [demoInstantiated] @ tl demoBuild" by (simp add: demoBuild_def)
  have "reduceAll demoMinted demoPolicies (the_snap (demoRun [demoInstantiated])) ([demoInstantiated] @ tl demoBuild) =
      Inr (the_snap (demoRun demoBuild))"
    by (rule rlog.recover[where s = zeroSnapshot])
      (use the_snap_ok[OF 1(1)] the_snap_ok[OF 1(2)] split in \<open>simp_all only: demoRun_def\<close>)
  with js split show ?thesis
    by (simp add: represents_def demoEnv_def demoFiles_def demoCurrent_def)
qed

lemmas demo_batch_represents = demo_represents[OF insertI1]
lemmas demo_expiry_represents = demo_represents[OF insertI2, OF insertI1]

lemma demo_fresh: "\<forall>k. NewEventID demoMint k \<notin> set (snap_AppliedEventIDs demoCurrent)"
proof -
  have "snap_AppliedEventIDs demoCurrent = [''e1'', ''e2'', ''e3'', ''e4'', ''e5'', ''e6'']" by code_simp
  then show ?thesis by (simp add: NewEventID_def newID_def)
qed

section \<open>Properties\<close>

interpretation keys: kept_by_log "\<lambda>s e. Reduce (orc e) pol s e" "\<lambda>s. snap_Idempotency s k \<noteq> None" for orc pol k
  by unfold_locales (rule Reduce_idempotency_mono)



text \<open>
  A rejected command changes nothing. When the store represents \<open>cur\<close> and refuses a command,
  the log is byte for byte the same and the files still represent \<open>cur\<close>.
\<close>

theorem rejected_command_changes_nothing:
  assumes "represents env fs es cur" and "applyLocked env mi wid fs cmd = (Inl e, fs')"
  shows "sf_Log fs' = sf_Log fs \<and> represents env fs' es cur \<and> loadCurrent env fs' = (Inr (cur, True), fs')"
proof -
  obtain fs1 where fs1: "represents env fs1 es cur" "sf_Log fs1 = sf_Log fs"
    and ap: "applyLocked env mi wid fs cmd = commitCommand env mi fs1 cur cmd"
    using applyLocked_commit[OF assms(1)] .
  have "fs' = fs1" using assms(2) unfolding ap by (rule commitCommand_rejected)
  with fs1 represents_loadCurrent[OF fs1(1)] show ?thesis by simp
qed

theorem rejected_command_changes_nothing_witness:
  "sf_Log (snd (applyLocked (demoEnv demoBatch) demoMint ''w'' demoFiles (demoComplete\<lparr>cmd_ExpectedRevision := 5\<rparr>))) = sf_Log demoFiles"
proof -
  let ?c = "demoComplete\<lparr>cmd_ExpectedRevision := 5\<rparr>"
  let ?r = "applyLocked (demoEnv demoBatch) demoMint ''w'' demoFiles ?c"
  have "\<not> isOk (fst ?r)" by code_simp
  then obtain e where "fst ?r = Inl e" by (cases "fst ?r") auto
  then have "?r = (Inl e, snd ?r)" by (metis prod.collapse)
  from rejected_command_changes_nothing[OF demo_batch_represents this] show ?thesis by simp
qed



text \<open>
  C10: exactly once. Once a command with a non-empty idempotency key was reduced, no later state
  of any log accepts a command with the same key: it is refused as a revision mismatch or as a
  duplicate, and emits no event.
\<close>

theorem exactly_once:
  assumes "Apply mi jc pol s cmd = Inr evs" and "cmd_IdempotencyKey cmd \<noteq> ''''"
    and "inj (mi_uuid mi)" and "\<forall>k. NewEventID mi k \<notin> set (snap_AppliedEventIDs s)"
    and "reduceAll orc pol s (evs @ later) = Inr t" and "cmd_IdempotencyKey cmd' = cmd_IdempotencyKey cmd"
  shows "Apply mi' jc' pol' t cmd' \<in> {Inl ErrRevisionMismatch, Inl ErrDuplicateIdempotency}"
proof -
  note wf = Apply_wellFormed[OF assms(1)]
  obtain e es where evs: "evs = e # es" using wf by (cases evs) (auto simp: wellFormedBatch_def)
  then have key: "ev_IdempotencyKey e = cmd_IdempotencyKey cmd" and eid: "ev_ID e = NewEventID mi 0"
    using wf by (auto simp: wellFormedBatch_def)
  obtain u where u: "Reduce (orc e) pol s e = Inr u" and rest: "reduceAll orc pol u (es @ later) = Inr t"
    using assms(5) by (auto simp: evs bindE_eq_Inr_iff)
  have "snap_Idempotency u (cmd_IdempotencyKey cmd) \<noteq> None"
    using Reduce_idempotency[OF u] eid assms(2,4) key by simp
  then have "snap_Idempotency t (cmd_IdempotencyKey cmd) \<noteq> None"
    using rest by (rule keys.log_keeps)
  then show ?thesis using assms(2,6) by (simp add: Apply_def)
qed

theorem exactly_once_witness:
  "Apply demoMint demoCodec demoPolicies (the_snap (reduceAll demoMinted demoPolicies demoCurrent (demoBatch @ demoReview)))
     (demoComplete\<lparr>cmd_ExpectedRevision := 11\<rparr>) \<in> {Inl ErrRevisionMismatch, Inl ErrDuplicateIdempotency}"
proof -
  let ?r = "reduceAll demoMinted demoPolicies demoCurrent (demoBatch @ demoReview)"
  have "isOk ?r" by code_simp
  then have r: "?r = Inr (the_snap ?r)" by (rule the_snap_ok)
  have k: "cmd_IdempotencyKey (stampCommand 500 demoComplete) \<noteq> ''''" by code_simp
  have k': "cmd_IdempotencyKey (demoComplete\<lparr>cmd_ExpectedRevision := 11\<rparr>) =
      cmd_IdempotencyKey (stampCommand 500 demoComplete)" by code_simp
  show ?thesis by (rule exactly_once[OF demoBatch_emitted k demoMint_inj demo_fresh r k'])
qed

text \<open>
  C11: the lease sweep. On a store that represents \<open>cur\<close>, a sweep at time \<open>now\<close> never fails, and the
  state it leaves is \<open>cur\<close> with exactly the stale leases released that no awaited child holds; every
  other activation is unchanged, no stale lease is left, and the log stays replayable.
\<close>

theorem sweep_releases_exactly_the_stale:
  assumes "represents env fs es cur" and "distinctIDs (acts cur)" and "cancelReleases cur"
    and "\<not> IsZero now" and "inj (mi_uuid mi)" and "\<forall>k. NewEventID mi k \<notin> set (snap_AppliedEventIDs cur)"
    and "jsonLaws (se_Encode env) (se_Decode env) (set (collectExpiredLeaseEvents mi cur reason now))"
  shows "\<exists>t fs'. sweepStaleLeases env mi fs reason now =
      (Inr (length (filter (staleLease now) (acts cur)), retainedLeases now (acts cur)), fs') \<and>
    represents env fs' (es @ collectExpiredLeaseEvents mi cur reason now) t \<and>
    acts t = map (sweepActivation now) (acts cur) \<and> wfStatus t = wfStatus cur \<and>
    list_all (\<lambda>a. \<not> staleLease now a) (acts t)"
proof -
  obtain t where t: "seReduceAll env cur (collectExpiredLeaseEvents mi cur reason now) = Inr t"
    "acts t = map (sweepActivation now) (acts cur)" "wfStatus t = wfStatus cur"
    using sweep_any_status[OF assms(2-6)] by blast
  obtain fs' where "sweepStaleLeases env mi fs reason now =
      (Inr (length (filter (staleLease now) (acts cur)), retainedLeases now (acts cur)), fs')"
    "represents env fs' (es @ collectExpiredLeaseEvents mi cur reason now) t"
    using sweepStaleLeases_ok[OF assms(1,7) t(1)] unfolding collected_length by blast
  moreover have "list_all (\<lambda>a. \<not> staleLease now a) (acts t)" using sweep_no_stale t(2) by simp
  ultimately show ?thesis using t(2,3) by (intro exI conjI) assumption+
qed

lemma demo_sweepable: "distinctIDs (acts demoCurrent)" "cancelReleases demoCurrent"
  by code_simp+

theorem sweep_releases_exactly_the_stale_witness:
  "\<exists>t fs'. sweepStaleLeases (demoEnv [demoExpiry]) demoMint demoFiles ''recovery'' 500 = (Inr (1, 0), fs') \<and>
     represents (demoEnv [demoExpiry]) fs' (demoBuild @ [demoExpiry]) t \<and>
     map act_Status (acts t) = [ActivationLeaseExpired, ActivationPending]"
proof -
  let ?env = "demoEnv [demoExpiry]"
  have js: "jsonLaws (se_Encode ?env) (se_Decode ?env) (set (collectExpiredLeaseEvents demoMint demoCurrent ''recovery'' 500))"
    unfolding demoExpiry_collected using demo_json(2) by (auto simp: demoEnv_def intro: jsonLaws_mono)
  have now: "\<not> IsZero (500 :: gotime)" by (simp add: IsZero_def)
  have ret: "retainedLeases 500 (acts demoCurrent) = 0" "length (filter (staleLease 500) (acts demoCurrent)) = 1"
    by code_simp+
  have st: "map act_Status (map (sweepActivation 500) (acts demoCurrent)) = [ActivationLeaseExpired, ActivationPending]"
    by code_simp
  show ?thesis
    using sweep_releases_exactly_the_stale[OF demo_expiry_represents demo_sweepable now demoMint_inj demo_fresh js]
    unfolding ret demoExpiry_collected by (elim exE conjE) (intro exI conjI, assumption+, simp only: st)
qed

text \<open>
  C12: restart recovery. Recovering an instance replays its log, expires the stale leases and
  returns the resulting state; the files represent it, so a second load finds the same state.
\<close>

theorem recovery_restores:
  assumes "represents env fs es cur" and "distinctIDs (acts cur)" and "cancelReleases cur"
    and "\<not> IsZero (mi_now mi)" and "inj (mi_uuid mi)" and "\<forall>k. NewEventID mi k \<notin> set (snap_AppliedEventIDs cur)"
    and "jsonLaws (se_Encode env) (se_Decode env) (set (collectExpiredLeaseEvents mi cur ''recovery'' (mi_now mi)))"
  shows "\<exists>t fs'. recoverInstance env mi fs = (Inr (t, True), fs') \<and>
    acts t = map (sweepActivation (mi_now mi)) (acts cur) \<and> wfStatus t = wfStatus cur \<and>
    loadCurrent env fs' = (Inr (t, True), fs')"
proof -
  obtain t where t: "seReduceAll env cur (collectExpiredLeaseEvents mi cur ''recovery'' (mi_now mi)) = Inr t"
    "acts t = map (sweepActivation (mi_now mi)) (acts cur)" "wfStatus t = wfStatus cur"
    using sweep_any_status[OF assms(2-6)] by blast
  obtain fs' where "recoverInstance env mi fs = (Inr (t, True), fs')"
    "represents env fs' (es @ collectExpiredLeaseEvents mi cur ''recovery'' (mi_now mi)) t"
    using recoverInstance_ok[OF assms(1,7) t(1)] by blast
  with t(2,3) show ?thesis by (intro exI conjI) (assumption | erule represents_loadCurrent)+
qed

theorem recovery_restores_witness:
  "\<exists>t fs'. recoverInstance (demoEnv [demoExpiry]) demoMint demoFiles = (Inr (t, True), fs') \<and>
     map act_Status (acts t) = [ActivationLeaseExpired, ActivationPending]"
proof -
  let ?env = "demoEnv [demoExpiry]"
  have now: "mi_now demoMint = 500" by (simp add: demoMint_def)
  have js: "jsonLaws (se_Encode ?env) (se_Decode ?env)
      (set (collectExpiredLeaseEvents demoMint demoCurrent ''recovery'' (mi_now demoMint)))"
    unfolding now demoExpiry_collected using demo_json(2) by (auto simp: demoEnv_def intro: jsonLaws_mono)
  have nz: "\<not> IsZero (mi_now demoMint)" by (simp add: IsZero_def now)
  have st: "map act_Status (map (sweepActivation (mi_now demoMint)) (acts demoCurrent)) =
      [ActivationLeaseExpired, ActivationPending]"
    by code_simp
  show ?thesis
    using recovery_restores[OF demo_expiry_represents demo_sweepable nz demoMint_inj demo_fresh js]
    by (elim exE conjE) (intro exI conjI, assumption, simp only: st)
qed

section \<open>An open last line\<close>




end
