(* ===== verification/Wf_Graph.thy ===== *)
theory Wf_Graph
  imports Wf_Bindings
begin

text \<open>
  The cross-node rules of a workflow template (\<^verbatim>\<open>graph.go\<close>) and the static rules of its bound gates
  (\<^verbatim>\<open>gate_bindings.go\<close>). The two searches over the dependency graph come first, each with what it
  decides: \<^verbatim>\<open>detectDependencyCycles\<close> accepts exactly the acyclic graphs and names a node on a
  cycle otherwise, \<^verbatim>\<open>transitiveDependencies\<close> collects exactly the reachable nodes. The
  validators follow in the order of the source; \<open>ValidateGraph\<close> is then shown equivalent to a
  declarative well-formedness predicate.
\<close>

section \<open>The dependency graph\<close>

definition nodeIndex :: "node_definition list \<Rightarrow> string \<Rightarrow> nat option" where
  "nodeIndex nodes nid = findIdx (\<lambda>n. nd_ID n = nid) nodes"

lemma nodeIndex_SomeD: "nodeIndex nodes nid = Some i \<Longrightarrow> i < length nodes \<and> nd_ID (nodes ! i) = nid"
  by (auto simp: nodeIndex_def dest: findIdx_SomeD)

lemma nodeIndex_None_iff: "nodeIndex nodes nid = None \<longleftrightarrow> nid \<notin> nd_ID ` set nodes"
  by (auto simp: nodeIndex_def findIdx_None_iff)

datatype colour = Unvisited | Visiting | Visited

text \<open>
  The loop of \<^verbatim>\<open>detectDependencyCycles\<close>. The frame on top of the stack is the head of the list; a
  frame is a node and the index of its next dependency.
\<close>

type_synonym frame = "nat \<times> nat"

abbreviation depsOf :: "node_definition list \<Rightarrow> nat \<Rightarrow> string list" where
  "depsOf nodes i \<equiv> nd_Dependencies (nodes ! i)"

definition unseen :: "node_definition list \<Rightarrow> (nat \<Rightarrow> colour) \<Rightarrow> nat" where
  "unseen nodes st = card {i. i < length nodes \<and> st i = Unvisited}"

definition frameWork :: "node_definition list \<Rightarrow> frame list \<Rightarrow> nat" where
  "frameWork nodes stack = (\<Sum>(n, d) \<leftarrow> stack. Suc (length (depsOf nodes n) - d))"

lemma unseen_push:
  "j < length nodes \<Longrightarrow> st j = Unvisited \<Longrightarrow> unseen nodes (st(j := Visiting)) < unseen nodes st"
  unfolding unseen_def by (rule psubset_card_mono) auto

function cycleLoop :: "node_definition list \<Rightarrow> (nat \<Rightarrow> colour) \<Rightarrow> frame list \<Rightarrow> (nat \<Rightarrow> colour) result" where
  "cycleLoop nodes st [] = Inr st"
| "cycleLoop nodes st ((n, d) # stack) =
     (if d < length (depsOf nodes n) then
        (case nodeIndex nodes (depsOf nodes n ! d) of
           None \<Rightarrow> cycleLoop nodes st ((n, d + 1) # stack)
         | Some j \<Rightarrow>
             (case st j of
                Unvisited \<Rightarrow> cycleLoop nodes (st(j := Visiting)) ((j, 0) # (n, d + 1) # stack)
              | Visiting \<Rightarrow>
                  Inl (Errorf ''invalid workflow template: dependency cycle detected involving node %q''
                         [nd_ID (nodes ! j)])
              | Visited \<Rightarrow> cycleLoop nodes st ((n, d + 1) # stack)))
      else cycleLoop nodes (st(n := Visited)) stack)"
  by pat_completeness auto

lemma unseen_pop: "unseen nodes (st(n := Visited)) \<le> unseen nodes st"
  unfolding unseen_def by (rule card_mono) auto

termination cycleLoop
proof (relation "measures [\<lambda>(nodes, st, stack). unseen nodes st, \<lambda>(nodes, st, stack). frameWork nodes stack]",
    goal_cases)
  case (5 nodes st n d stack)
  then show ?case using unseen_pop[of nodes st n] by (auto simp: frameWork_def le_less)
qed (auto simp: frameWork_def dest!: nodeIndex_SomeD intro: unseen_push)

declare cycleLoop.simps(2) [simp del]

text \<open>The outer loop starts a search at every node that is still unvisited.\<close>

fun cycleScan :: "node_definition list \<Rightarrow> nat list \<Rightarrow> (nat \<Rightarrow> colour) \<Rightarrow> (nat \<Rightarrow> colour) result" where
  "cycleScan nodes [] st = Inr st"
| "cycleScan nodes (i # is) st =
     (if st i \<noteq> Unvisited then cycleScan nodes is st
      else bindE (cycleLoop nodes (st(i := Visiting)) [(i, 0)]) (cycleScan nodes is))"

definition detectDependencyCycles :: "node_definition list \<Rightarrow> unit result" where
  "detectDependencyCycles nodes =
     bindE (cycleScan nodes [0..<length nodes] (\<lambda>_. Unvisited)) (\<lambda>_. Inr ())"

text \<open>The edges of the dependency graph, on node indices.\<close>

definition edges :: "node_definition list \<Rightarrow> (nat \<times> nat) set" where
  "edges nodes = {(i, j). i < length nodes \<and> (\<exists>dep \<in> set (depsOf nodes i). nodeIndex nodes dep = Some j)}"

lemma edges_less: "(i, j) \<in> edges nodes \<Longrightarrow> i < length nodes \<and> j < length nodes"
  by (auto simp: edges_def dest: nodeIndex_SomeD)

subsection \<open>The search decides acyclicity\<close>

text \<open>
  The stack is a path: below each frame is the frame that pushed it, whose processed dependencies
  are visited, except the one just above.
\<close>

fun pathStack :: "node_definition list \<Rightarrow> (nat \<Rightarrow> colour) \<Rightarrow> nat option \<Rightarrow> frame list \<Rightarrow> bool" where
  "pathStack nodes st abv [] = True"
| "pathStack nodes st abv ((n, d) # stack) \<longleftrightarrow>
     n < length nodes \<and> (\<forall>j. abv = Some j \<longrightarrow> (n, j) \<in> edges nodes) \<and>
     (\<forall>k < d. k < length (depsOf nodes n) \<longrightarrow>
        (\<forall>j. nodeIndex nodes (depsOf nodes n ! k) = Some j \<longrightarrow> st j = Visited \<or> abv = Some j)) \<and>
     pathStack nodes st (Some n) stack"

definition settled :: "node_definition list \<Rightarrow> (nat \<Rightarrow> colour) \<Rightarrow> bool" where
  "settled nodes st \<longleftrightarrow>
     (\<forall>i j. st i = Visited \<longrightarrow> (i, j) \<in> edges nodes \<longrightarrow> st j = Visited) \<and>
     (\<forall>i. st i = Visited \<longrightarrow> (i, i) \<notin> (edges nodes)\<^sup>+)"

definition searchInv :: "node_definition list \<Rightarrow> (nat \<Rightarrow> colour) \<Rightarrow> frame list \<Rightarrow> bool" where
  "searchInv nodes st stack \<longleftrightarrow>
     settled nodes st \<and> pathStack nodes st None stack \<and> distinct (map fst stack) \<and>
     (\<forall>i. st i = Visiting \<longleftrightarrow> i \<in> fst ` set stack)"

lemma settled_reach:
  assumes "settled nodes st" and "st i = Visited" and "(i, j) \<in> (edges nodes)\<^sup>+"
  shows "st j = Visited"
  using assms(3,2) by (induction rule: trancl_induct) (use assms(1) in \<open>auto simp: settled_def\<close>)

lemma settled_pop:
  assumes "settled nodes st" and "st n = Visiting"
    and "\<And>j. (n, j) \<in> edges nodes \<Longrightarrow> st j = Visited"
  shows "settled nodes (st(n := Visited))"
proof -
  have "(n, n) \<notin> (edges nodes)\<^sup>+"
  proof
    assume "(n, n) \<in> (edges nodes)\<^sup>+"
    then obtain j where "(n, j) \<in> edges nodes" "j = n \<or> (j, n) \<in> (edges nodes)\<^sup>+" by (auto dest: tranclD rtranclD)
    with assms(2,3) settled_reach[OF assms(1), of j n] show False by fastforce
  qed
  with assms show ?thesis by (auto simp: settled_def)
qed

lemma settled_push: "settled nodes st \<Longrightarrow> st j = Unvisited \<Longrightarrow> settled nodes (st(j := Visiting))"
  by (auto simp: settled_def)

lemma pathStack_mono:
  "pathStack nodes st abv stack \<Longrightarrow> (\<And>i. st i = Visited \<Longrightarrow> st' i = Visited) \<Longrightarrow> pathStack nodes st' abv stack"
  by (induction nodes st abv stack rule: pathStack.induct) auto

lemma pathStack_reach:
  "pathStack nodes st (Some n) stack \<Longrightarrow> j \<in> fst ` set stack \<Longrightarrow> (j, n) \<in> (edges nodes)\<^sup>+"
  by (induction nodes st "Some n" stack arbitrary: n rule: pathStack.induct)
    (auto intro: trancl_into_trancl2 trancl.trancl_into_trancl)

lemma edge_intro:
  "n < length nodes \<Longrightarrow> d < length (depsOf nodes n) \<Longrightarrow> nodeIndex nodes (depsOf nodes n ! d) = Some j \<Longrightarrow>
   (n, j) \<in> edges nodes"
  by (auto simp: edges_def)

text \<open>Each iteration keeps the invariant; the error names a node on a cycle.\<close>

lemma searchInv_step:
  assumes "searchInv nodes st ((n, d) # stack)"
  shows "d < length (depsOf nodes n) \<Longrightarrow> nodeIndex nodes (depsOf nodes n ! d) = None \<Longrightarrow>
      searchInv nodes st ((n, d + 1) # stack)"
    and "d < length (depsOf nodes n) \<Longrightarrow> nodeIndex nodes (depsOf nodes n ! d) = Some j \<Longrightarrow> st j = Visited \<Longrightarrow>
      searchInv nodes st ((n, d + 1) # stack)"
    and "d < length (depsOf nodes n) \<Longrightarrow> nodeIndex nodes (depsOf nodes n ! d) = Some j \<Longrightarrow> st j = Unvisited \<Longrightarrow>
      searchInv nodes (st(j := Visiting)) ((j, 0) # (n, d + 1) # stack)"
    and "d < length (depsOf nodes n) \<Longrightarrow> nodeIndex nodes (depsOf nodes n ! d) = Some j \<Longrightarrow> st j = Visiting \<Longrightarrow>
      (j, j) \<in> (edges nodes)\<^sup>+"
    and "\<not> d < length (depsOf nodes n) \<Longrightarrow> searchInv nodes (st(n := Visited)) stack"
proof -
  have n: "n < length nodes" and set: "settled nodes st" and vis: "\<forall>i. st i = Visiting \<longleftrightarrow> i \<in> fst ` set ((n, d) # stack)"
    and dist: "n \<notin> fst ` set stack" "distinct (map fst stack)"
    and deps: "\<And>k j. k < d \<Longrightarrow> k < length (depsOf nodes n) \<Longrightarrow> nodeIndex nodes (depsOf nodes n ! k) = Some j \<Longrightarrow> st j = Visited"
    and path: "pathStack nodes st (Some n) stack"
    using assms by (auto simp: searchInv_def)
  {
    assume "d < length (depsOf nodes n)" "nodeIndex nodes (depsOf nodes n ! d) = None"
    then show "searchInv nodes st ((n, d + 1) # stack)"
      using assms by (auto simp: searchInv_def less_Suc_eq)
  next
    assume "d < length (depsOf nodes n)" "nodeIndex nodes (depsOf nodes n ! d) = Some j" "st j = Visited"
    then show "searchInv nodes st ((n, d + 1) # stack)"
      using assms by (auto simp: searchInv_def less_Suc_eq)
  next
    assume j: "d < length (depsOf nodes n)" "nodeIndex nodes (depsOf nodes n ! d) = Some j" "st j = Unvisited"
    have new: "j \<noteq> n" "j \<notin> fst ` set stack" using j(3) vis[rule_format, of j] by auto
    have "pathStack nodes (st(j := Visiting)) (Some n) stack"
      using j(3) by (intro pathStack_mono[OF path]) auto
    then show "searchInv nodes (st(j := Visiting)) ((j, 0) # (n, d + 1) # stack)"
      using j n new dist vis settled_push[OF set j(3)] edge_intro[OF n j(1,2)] nodeIndex_SomeD[OF j(2)] deps
      by (auto simp: searchInv_def less_Suc_eq)
  next
    assume j: "d < length (depsOf nodes n)" "nodeIndex nodes (depsOf nodes n ! d) = Some j" "st j = Visiting"
    have e: "(n, j) \<in> edges nodes" using edge_intro[OF n j(1,2)] .
    have "j = n \<or> j \<in> fst ` set stack" using vis j(3) by auto
    with e pathStack_reach[OF path, of j] show "(j, j) \<in> (edges nodes)\<^sup>+"
      by (auto intro: trancl.trancl_into_trancl)
  next
    assume d: "\<not> d < length (depsOf nodes n)"
    have succ: "st j = Visited" if "(n, j) \<in> edges nodes" for j
      using that deps d by (auto simp: edges_def in_set_conv_nth)
    have "settled nodes (st(n := Visited))" using settled_pop[OF set _ succ] vis by simp
    moreover have "pathStack nodes (st(n := Visited)) None stack"
      using path by (cases stack) (fastforce intro: pathStack_mono)+
    ultimately show "searchInv nodes (st(n := Visited)) stack"
      using vis dist by (auto simp: searchInv_def)
  }
qed


definition onCycle :: "node_definition list \<Rightarrow> error \<Rightarrow> bool" where
  "onCycle nodes e \<longleftrightarrow> (\<exists>j<length nodes. (j, j) \<in> (edges nodes)\<^sup>+ \<and>
     e = Errorf ''invalid workflow template: dependency cycle detected involving node %q'' [nd_ID (nodes ! j)])"

text \<open>A search ends with every visited node off every cycle and no node half visited, or with a cycle.\<close>

definition searchResult :: "node_definition list \<Rightarrow> (nat \<Rightarrow> colour) \<Rightarrow> (nat \<Rightarrow> colour) result \<Rightarrow> bool" where
  "searchResult nodes st r \<longleftrightarrow>
     (case r of
        Inr st' \<Rightarrow> searchInv nodes st' [] \<and> (\<forall>i. st i \<noteq> Unvisited \<longrightarrow> st' i = Visited)
      | Inl e \<Rightarrow> onCycle nodes e)"

lemma searchResult_mono:
  "searchResult nodes st' r \<Longrightarrow> (\<And>i. st i \<noteq> Unvisited \<Longrightarrow> st' i \<noteq> Unvisited) \<Longrightarrow> searchResult nodes st r"
  by (auto simp: searchResult_def split: sum.splits)

lemma cycleLoop_spec:
  "searchInv nodes st stack \<Longrightarrow> searchResult nodes st (cycleLoop nodes st stack)"
proof (induction nodes st stack rule: cycleLoop.induct)
  case (1 nodes st)
  then have "st i = Visited" if "st i \<noteq> Unvisited" for i
    using that by (cases "st i") (auto simp: searchInv_def)
  with 1 show ?case by (simp add: searchResult_def)
next
  case (2 nodes st n d stack)
  note step = searchInv_step[OF "2.prems"]
  note unfold = cycleLoop.simps(2)[of nodes st n d stack]
  show ?case
  proof (cases "d < length (depsOf nodes n)")
    case d: True
    show ?thesis
    proof (cases "nodeIndex nodes (depsOf nodes n ! d)")
      case None
      with d "2.IH"(1)[OF d None step(1)[OF d None]] show ?thesis by (simp add: unfold)
    next
      case j: (Some j)
      show ?thesis
      proof (cases "st j")
        case Unvisited
        have "searchResult nodes st (cycleLoop nodes (st(j := Visiting)) ((j, 0) # (n, d + 1) # stack))"
          by (rule searchResult_mono[OF "2.IH"(2)[OF d j Unvisited step(3)[OF d j Unvisited]]]) simp
        with d j Unvisited show ?thesis by (simp add: unfold)
      next
        case Visiting
        with d j step(4)[OF d j Visiting] nodeIndex_SomeD[OF j] show ?thesis
          by (auto simp: searchResult_def onCycle_def unfold)
      next
        case Visited
        with d j "2.IH"(3)[OF d j Visited step(2)[OF d j Visited]] show ?thesis by (simp add: unfold)
      qed
    qed
  next
    case False
    have "searchResult nodes st (cycleLoop nodes (st(n := Visited)) stack)"
      by (rule searchResult_mono[OF "2.IH"(4)[OF False step(5)[OF False]]]) simp
    with False show ?thesis by (simp add: unfold)
  qed
qed

lemma searchInv_start:
  "searchInv nodes st [] \<Longrightarrow> st i = Unvisited \<Longrightarrow> i < length nodes \<Longrightarrow>
   searchInv nodes (st(i := Visiting)) [(i, 0)]"
  by (auto simp: searchInv_def intro: settled_push)

lemma cycleScan_spec:
  assumes "searchInv nodes st []" and "\<forall>i\<in>set is. i < length nodes"
  shows "case cycleScan nodes is st of
    Inr st' \<Rightarrow> searchInv nodes st' [] \<and> (\<forall>i. st i \<noteq> Unvisited \<or> i \<in> set is \<longrightarrow> st' i = Visited)
  | Inl e \<Rightarrow> onCycle nodes e"
  using assms
proof (induction "is" arbitrary: st)
  case Nil
  then have "st i = Visited" if "st i \<noteq> Unvisited" for i
    using that by (cases "st i") (auto simp: searchInv_def)
  with Nil show ?case by simp
next
  case (Cons i "is")
  show ?case
  proof (cases "st i = Unvisited")
    case True
    have r: "searchResult nodes (st(i := Visiting)) (cycleLoop nodes (st(i := Visiting)) [(i, 0)])"
      using Cons.prems True by (intro cycleLoop_spec searchInv_start) auto
    show ?thesis
    proof (cases "cycleLoop nodes (st(i := Visiting)) [(i, 0)]")
      case (Inr st1)
      with r have inv: "searchInv nodes st1 []" and vis: "\<And>k. st k \<noteq> Unvisited \<or> k = i \<Longrightarrow> st1 k = Visited"
        by (auto simp: searchResult_def split: if_splits)
      show ?thesis using Cons.IH[OF inv] Cons.prems(2) vis True Inr by (auto split: sum.splits)
    qed (use r True in \<open>simp add: searchResult_def\<close>)
  next
    case False
    with Cons.IH[OF Cons.prems(1)] Cons.prems(2) show ?thesis by (auto split: sum.splits)
  qed
qed

lemma settled_all_acyclic:
  assumes "settled nodes st" and "\<forall>i<length nodes. st i = Visited"
  shows "acyclic (edges nodes)"
proof (rule acyclicI, intro allI notI)
  fix i assume "(i, i) \<in> (edges nodes)\<^sup>+"
  then have "i < length nodes" by (metis edges_less tranclD)
  with assms \<open>(i, i) \<in> (edges nodes)\<^sup>+\<close> show False by (auto simp: settled_def)
qed

lemma detectDependencyCycles_spec:
  "(detectDependencyCycles nodes = Inr () \<longleftrightarrow> acyclic (edges nodes)) \<and>
   (\<forall>e. detectDependencyCycles nodes = Inl e \<longrightarrow> onCycle nodes e)"
proof -
  have start: "searchInv nodes (\<lambda>_. Unvisited) []" by (simp add: searchInv_def settled_def)
  note scan = cycleScan_spec[OF start, of "[0..<length nodes]"]
  show ?thesis
  proof (cases "cycleScan nodes [0..<length nodes] (\<lambda>_. Unvisited)")
    case (Inl e)
    with scan have "onCycle nodes e" by simp
    then show ?thesis by (auto simp: detectDependencyCycles_def Inl onCycle_def acyclic_def)
  next
    case (Inr st)
    with scan have "settled nodes st" "\<forall>i<length nodes. st i = Visited" by (auto simp: searchInv_def)
    then show ?thesis by (simp add: detectDependencyCycles_def Inr settled_all_acyclic)
  qed
qed

text \<open>
  The cycle check is exact. It accepts a template's nodes exactly when the dependency graph is
  acyclic, and otherwise the error names a node that lies on a cycle.
\<close>

theorem cycle_check_exact:
  "case detectDependencyCycles nodes of
     Inr _ \<Rightarrow> acyclic (edges nodes)
   | Inl e \<Rightarrow> \<not> acyclic (edges nodes) \<and> onCycle nodes e"
  using detectDependencyCycles_spec[of nodes] by (auto split: sum.splits)


section \<open>Transitive dependencies\<close>

text \<open>
  \<^verbatim>\<open>transitiveDependencies\<close>: a stack of node ids whose top is the head of the list here, and the
  ids seen so far.
\<close>

definition nodeDeps :: "node_definition list \<Rightarrow> string \<Rightarrow> string list" where
  "nodeDeps nodes nid = (case nodeIndex nodes nid of None \<Rightarrow> [] | Some i \<Rightarrow> depsOf nodes i)"

lemma nodeDeps_subset: "set (nodeDeps nodes nid) \<subseteq> (\<Union>n\<in>set nodes. set (nd_Dependencies n))"
proof (cases "nodeIndex nodes nid")
  case (Some i)
  then have "nodes ! i \<in> set nodes" using nodeIndex_SomeD[OF Some] by simp
  with Some show ?thesis by (auto simp: nodeDeps_def)
qed (simp add: nodeDeps_def)

definition pending :: "node_definition list \<Rightarrow> string list \<Rightarrow> string list \<Rightarrow> nat" where
  "pending nodes stack seen = card ((set stack \<union> (\<Union>n\<in>set nodes. set (nd_Dependencies n))) - set seen)"

lemma pending_seen: "pending nodes stack seen \<le> pending nodes (nid # stack) seen"
  unfolding pending_def by (rule card_mono) auto

lemma pending_new:
  assumes "nid \<notin> set seen"
  shows "pending nodes (rev (nodeDeps nodes nid) @ stack) (nid # seen) < pending nodes (nid # stack) seen"
  unfolding pending_def by (rule psubset_card_mono) (use assms nodeDeps_subset[of nodes nid] in auto)

function reachLoop :: "node_definition list \<Rightarrow> string list \<Rightarrow> string list \<Rightarrow> string list" where
  "reachLoop nodes [] seen = seen"
| "reachLoop nodes (nid # stack) seen =
     (if nid \<in> set seen then reachLoop nodes stack seen
      else reachLoop nodes (rev (nodeDeps nodes nid) @ stack) (nid # seen))"
  by pat_completeness auto

termination reachLoop
proof (relation "measures [\<lambda>(nodes, stack, seen). pending nodes stack seen, \<lambda>(nodes, stack, seen). length stack]",
    goal_cases)
  case (2 nodes nid stack seen)
  then show ?case using pending_seen[of nodes stack seen nid] by auto
qed (auto intro: pending_new)

declare reachLoop.simps(2) [simp del]

definition transitiveDependencies :: "node_definition list \<Rightarrow> node_definition \<Rightarrow> string list" where
  "transitiveDependencies nodes node = reachLoop nodes (rev (nd_Dependencies node)) []"

definition depRel :: "node_definition list \<Rightarrow> (string \<times> string) set" where
  "depRel nodes = {(a, b). b \<in> set (nodeDeps nodes a)}"

text \<open>Everything seen has its dependencies seen or waiting on the stack.\<close>

definition openSeen :: "node_definition list \<Rightarrow> string list \<Rightarrow> string list \<Rightarrow> bool" where
  "openSeen nodes stack seen \<longleftrightarrow> (\<forall>a\<in>set seen. set (nodeDeps nodes a) \<subseteq> set seen \<union> set stack)"

lemma reachLoop_set:
  "openSeen nodes stack seen \<Longrightarrow>
   set (reachLoop nodes stack seen) = set seen \<union> (depRel nodes)\<^sup>* `` set stack"
proof (induction nodes stack seen rule: reachLoop.induct)
  case (2 nodes nid stack seen)
  let ?R = "depRel nodes"
  show ?case
  proof (cases "nid \<in> set seen")
    case True
    have closed: "set seen \<union> ?R\<^sup>* `` set stack = set seen \<union> ?R\<^sup>* `` insert nid (set stack)"
    proof -
      have "b \<in> set seen \<or> b \<in> ?R\<^sup>* `` set stack" if "(a, b) \<in> ?R\<^sup>*" "a \<in> set seen" for a b
        using that
      proof (induction rule: rtrancl_induct)
        case (step y z)
        from step(3)[OF step(4)] show ?case
        proof
          assume "y \<in> set seen"
          then have "z \<in> set seen \<union> set stack"
            using step(2) "2.prems" True by (auto simp: openSeen_def depRel_def)
          then show ?thesis by auto
        next
          assume "y \<in> ?R\<^sup>* `` set stack"
          with step(2) show ?thesis by (auto intro: rtrancl.rtrancl_into_rtrancl)
        qed
      qed simp
      with True show ?thesis by auto
    qed
    have "openSeen nodes stack seen" using "2.prems" True by (auto simp: openSeen_def)
    with "2.IH"(1)[OF True] closed True show ?thesis by (simp add: reachLoop.simps(2))
  next
    case False
    have o: "openSeen nodes (rev (nodeDeps nodes nid) @ stack) (nid # seen)"
      using "2.prems" by (auto simp: openSeen_def)
    have "?R\<^sup>* `` insert nid (set stack) = insert nid (?R\<^sup>* `` (set (nodeDeps nodes nid) \<union> set stack))"
      by (auto simp: depRel_def intro: converse_rtrancl_into_rtrancl elim: converse_rtranclE)
    with "2.IH"(2)[OF False o] False show ?thesis by (simp add: reachLoop.simps(2) Un_ac)
  qed
qed simp

text \<open>
  Transitive dependencies. The search collects exactly the ids reachable from the node's
  dependencies through dependency edges, so a bound reference is legal exactly when it names an
  ancestor.
\<close>

theorem transitive_dependencies_exact:
  "set (transitiveDependencies nodes node) = (depRel nodes)\<^sup>* `` set (nd_Dependencies node)"
  by (simp add: transitiveDependencies_def reachLoop_set openSeen_def)


section \<open>Printing and wrapping\<close>

fun gateTypeString :: "gate_type \<Rightarrow> string" where
  "gateTypeString GateMachine = ''machine''"
| "gateTypeString GateExternal = ''external''"
| "gateTypeString GateHuman = ''human''"
| "gateTypeString (GateTypeOther s) = s"

fun outputTypeString :: "output_type \<Rightarrow> string" where
  "outputTypeString OutputString = ''string''"
| "outputTypeString OutputNumber = ''number''"
| "outputTypeString OutputBoolean = ''boolean''"
| "outputTypeString OutputJSON = ''json''"
| "outputTypeString OutputFile = ''file''"
| "outputTypeString (OutputTypeOther s) = s"

fun gateResultString :: "gate_result_name \<Rightarrow> string" where
  "gateResultString GateResultFailed = ''failed''"
| "gateResultString GateResultActionRequired = ''action_required''"
| "gateResultString GateResultChangesRequested = ''changes_requested''"
| "gateResultString (GateResultOther s) = s"

section \<open>Bound gates (gate_bindings.go)\<close>

definition isEntryNode :: "template \<Rightarrow> string \<Rightarrow> bool" where
  "isEntryNode t nid \<longleftrightarrow> nid \<in> set (tm_EntryNodes t)"

definition gateDeclaresBoundReference :: "gate_definition \<Rightarrow> bool" where
  "gateDeclaresBoundReference gate \<longleftrightarrow>
     gd_SubjectBinding gate \<noteq> None \<or> list_ex (\<lambda>(_, v). giv_FromNodeOutput v \<noteq> None) (gd_Inputs gate)"

definition trimmedJSON :: "raw \<Rightarrow> raw" where
  "trimmedJSON r =
     (let ws = (\<lambda>c. c \<in> {CHR '' '', CHR 0x09, CHR 0x0A, CHR 0x0D})
      in rev (dropWhile ws (rev (dropWhile ws r))))"

text \<open>
  \<^verbatim>\<open>strconv.ParseFloat\<close> is a parameter: a finite value, or nothing for an error, a NaN or an
  infinity. A label \<^verbatim>\<open>what\<close> is a format with its arguments.
\<close>

definition validateSafeJSONNumber :: "(raw \<Rightarrow> rat option) \<Rightarrow> raw \<Rightarrow> bool \<Rightarrow> string \<Rightarrow> string list \<Rightarrow> unit result" where
  "validateSafeJSONNumber parseFloat r requireIntegral what args =
     (case parseFloat r of
        None \<Rightarrow> Inl (Errorf (what @ '' is not a finite number'') args)
      | Some v \<Rightarrow>
          bindE (require (\<bar>v\<bar> \<le> of_int maxSafeOutputFloat) (Errorf (what @ '' exceeds the safe integer range'') args)) (\<lambda>_.
          require (\<not> (requireIntegral \<and> v \<noteq> of_int \<lfloor>v\<rfloor>)) (Errorf (what @ '' must be an integral number'') args)))"

definition numberStart :: "char \<Rightarrow> bool" where
  "numberStart c \<longleftrightarrow> c \<in> set ''-0123456789''"

definition validatePrimitiveLiteral :: "(raw \<Rightarrow> rat option) \<Rightarrow> raw \<Rightarrow> string \<Rightarrow> string list \<Rightarrow> unit result" where
  "validatePrimitiveLiteral parseFloat r what args =
     (case trimmedJSON r of
        [] \<Rightarrow> Inl (Errorf (what @ '' requires a primitive literal (string, number, or boolean)'') args)
      | c # cs \<Rightarrow>
          if c = CHR 0x22 then Inr ()
          else if c = CHR ''t'' \<or> c = CHR ''f'' then Inr ()
          else if numberStart c
          then validateSafeJSONNumber parseFloat (c # cs) False what args
          else if c = CHR ''n'' then Inl (Errorf (what @ '' cannot be null'') args)
          else Inl (Errorf (what @ '' must be a primitive literal (string, number, or boolean)'') args))"

text \<open>The type of a declared output; a repeated declaration overrides the earlier one.\<close>

definition outputTypes :: "node_definition list \<Rightarrow> string \<Rightarrow> string \<Rightarrow> output_type option" where
  "outputTypes nodes nid oid =
     (case map_of (rev (map (\<lambda>n. (nd_ID n, n)) nodes)) nid of
        None \<Rightarrow> None
      | Some n \<Rightarrow> map_of (rev (map (\<lambda>d. (od_ID d, od_Type d)) (nd_Outputs n))) oid)"


definition validateSubjectRef ::
  "node_definition list \<Rightarrow> string list \<Rightarrow> node_definition \<Rightarrow> gate_definition \<Rightarrow> string \<Rightarrow>
   (string \<times> template_output_reference \<times> output_type) \<Rightarrow> string result" where
  "validateSubjectRef nodes ancestors node gate source fld =
     (case fld of (name, ref, expected) \<Rightarrow>
        let loc = [nd_ID node, gd_ID gate, name] in
        bindE (require (tor_NodeID ref \<noteq> '''' \<and> tor_OutputID ref \<noteq> '''')
           (Errorf ''invalid workflow template: node %q gate %q: subject_binding.%s requires node_id and output_id'' loc)) (\<lambda>_.
        bindE (require (tor_NodeID ref \<in> set ancestors)
           (Errorf ''invalid workflow template: node %q gate %q: subject_binding.%s references node %q, which is not a transitive dependency''
              (loc @ [tor_NodeID ref]))) (\<lambda>_.
        case outputTypes nodes (tor_NodeID ref) (tor_OutputID ref) of
          None \<Rightarrow>
            Inl (Errorf ''invalid workflow template: node %q gate %q: subject_binding.%s references undeclared output %q on node %q''
                   (loc @ [tor_OutputID ref, tor_NodeID ref]))
        | Some outputType \<Rightarrow>
            bindE (require (outputType = expected)
               (Errorf ''invalid workflow template: node %q gate %q: subject_binding.%s requires a %q output but %q on node %q is %q''
                  (loc @ [outputTypeString expected, tor_OutputID ref, tor_NodeID ref, outputTypeString outputType]))) (\<lambda>_.
            if source = '''' then Inr (tor_NodeID ref)
            else if source \<noteq> tor_NodeID ref
            then Inl (Errorf ''invalid workflow template: node %q gate %q: subject_binding references must resolve from one source node (%q and %q differ)''
                        [nd_ID node, gd_ID gate, source, tor_NodeID ref])
            else Inr source))))"

definition validateSubjectBinding ::
  "node_definition list \<Rightarrow> string list \<Rightarrow> node_definition \<Rightarrow> gate_definition \<Rightarrow> subject_binding \<Rightarrow> unit result" where
  "validateSubjectBinding nodes ancestors node gate binding =
     bindE (require (sb_Type binding = ''pull_request'')
        (Errorf ''invalid workflow template: node %q gate %q: subject_binding type %q is not supported (only pull_request)''
           [nd_ID node, gd_ID gate, sb_Type binding])) (\<lambda>_.
     bindE (foldE (validateSubjectRef nodes ancestors node gate) ''''
        [(''repository'', subjectBindingRef (sb_Repository binding), OutputString),
         (''pull_request'', subjectBindingRef (sb_PullRequest binding), OutputNumber),
         (''revision'', subjectBindingRef (sb_Revision binding), OutputString)]) (\<lambda>_. Inr ()))"

fun routableResult :: "gate_result_name \<Rightarrow> bool" where
  "routableResult (GateResultOther _) = False"
| "routableResult _ = True"

definition validateResultOutcomes :: "template \<Rightarrow> node_definition \<Rightarrow> gate_definition \<Rightarrow> unit result" where
  "validateResultOutcomes t node gate =
     (if gd_ResultOutcomes gate = [] then Inr ()
      else bindE (require (gd_Type gate = GateExternal \<and> gd_SubjectBinding gate \<noteq> None)
             (Errorf ''invalid workflow template: node %q gate %q: result_outcomes are only declared on bound external gates''
                [nd_ID node, gd_ID gate])) (\<lambda>_.
           checkAll (\<lambda>(result, outcome).
             bindE (require (routableResult result)
               (Errorf ''invalid workflow template: node %q gate %q: result_outcomes key %q is not a routable result (passed is excluded)''
                  [nd_ID node, gd_ID gate, gateResultString result])) (\<lambda>_.
             case resolveOutcome t node outcome of
               (target, _, declared) \<Rightarrow>
                 require (declared \<and> target \<noteq> '''')
                   (Errorf ''invalid workflow template: node %q gate %q: result_outcomes %q must name a declared node outcome with a branch''
                      [nd_ID node, gd_ID gate, outcome])))
             (gd_ResultOutcomes gate)))"

fun primitiveOutput :: "output_type \<Rightarrow> bool" where
  "primitiveOutput OutputString = True"
| "primitiveOutput OutputNumber = True"
| "primitiveOutput OutputBoolean = True"
| "primitiveOutput _ = False"

definition validateGateInput ::
  "(raw \<Rightarrow> rat option) \<Rightarrow> node_definition list \<Rightarrow> string list \<Rightarrow> node_definition \<Rightarrow> gate_definition \<Rightarrow>
   string \<times> gate_input_value \<Rightarrow> unit result" where
  "validateGateInput parseFloat nodes ancestors node gate inp =
     (case inp of (name, value) \<Rightarrow>
        let loc = [nd_ID node, gd_ID gate, name] in
        case giv_FromNodeOutput value of
          None \<Rightarrow>
            wrapE ''invalid workflow template: '' []
              (validatePrimitiveLiteral parseFloat (giv_Literal value) ''node %q gate %q input %q'' loc)
        | Some ref \<Rightarrow>
            bindE (require (tor_NodeID ref \<in> set ancestors)
              (Errorf ''invalid workflow template: node %q gate %q input %q references node %q, which is not a transitive dependency''
                 (loc @ [tor_NodeID ref]))) (\<lambda>_.
            case outputTypes nodes (tor_NodeID ref) (tor_OutputID ref) of
              None \<Rightarrow>
                Inl (Errorf ''invalid workflow template: node %q gate %q input %q references undeclared output %q on node %q''
                       (loc @ [tor_OutputID ref, tor_NodeID ref]))
            | Some outputType \<Rightarrow>
                require (primitiveOutput outputType)
                  (Errorf ''invalid workflow template: node %q gate %q input %q references non-primitive output %q (type %q) on node %q''
                     (loc @ [tor_OutputID ref, outputTypeString outputType, tor_NodeID ref]))))"

definition validateGate ::
  "(raw \<Rightarrow> rat option) \<Rightarrow> template \<Rightarrow> string list \<Rightarrow> node_definition \<Rightarrow> gate_definition \<Rightarrow> unit result" where
  "validateGate parseFloat t ancestors node gate =
     (let loc = [nd_ID node, gd_ID gate]; ty = gateTypeString (gd_Type gate) in
      bindE (if gd_Type gate \<noteq> GateExternal then
               bindE (require (gd_AdapterID gate = '''')
                 (Errorf ''invalid workflow template: node %q gate %q: adapter_id is forbidden on %s gates'' (loc @ [ty]))) (\<lambda>_.
               bindE (require (gd_Inputs gate = [])
                 (Errorf ''invalid workflow template: node %q gate %q: inputs are forbidden on %s gates'' (loc @ [ty]))) (\<lambda>_.
               require (\<not> (gd_Type gate = GateMachine \<and> gd_SubjectBinding gate \<noteq> None))
                 (Errorf ''invalid workflow template: node %q gate %q: subject_binding is forbidden on machine gates'' loc)))
             else Inr ()) (\<lambda>_.
      bindE (validateResultOutcomes t node gate) (\<lambda>_.
      bindE (case gd_SubjectBinding gate of
               None \<Rightarrow> Inr ()
             | Some binding \<Rightarrow> validateSubjectBinding (tm_Nodes t) ancestors node gate binding) (\<lambda>_.
      checkAll (validateGateInput parseFloat (tm_Nodes t) ancestors node gate) (gd_Inputs gate)))))"

definition validateGateBindings :: "(raw \<Rightarrow> rat option) \<Rightarrow> template \<Rightarrow> node_definition \<Rightarrow> unit result" where
  "validateGateBindings parseFloat t node =
     bindE (if isEntryNode t (nd_ID node) then
              checkAll (\<lambda>gate. require (\<not> gateDeclaresBoundReference gate)
                (Errorf ''invalid workflow template: entry node %q gate %q declares a bound subject or input; entry activations have no causal source to pin from''
                   [nd_ID node, gd_ID gate])) (nd_Gates node)
            else Inr ()) (\<lambda>_.
     checkAll (validateGate parseFloat t (transitiveDependencies (tm_Nodes t) node) node) (nd_Gates node))"


section \<open>The graph rules (graph.go)\<close>

definition safeComponent :: "string \<Rightarrow> bool" where
  "safeComponent s \<longleftrightarrow>
     \<not> (s = '''' \<or> s = ''.'' \<or> s = ''..'') \<and> list_all (\<lambda>c. c \<notin> {CHR ''/'', CHR 0x5C, CHR 0x00}) s"

definition validateNodeIDsAreSafeComponents :: "node_definition list \<Rightarrow> unit result" where
  "validateNodeIDsAreSafeComponents nodes =
     checkAll (\<lambda>n. require (safeComponent (nd_ID n))
       (Errorf ''invalid workflow template: node %q is not a safe path component'' [nd_ID n])) nodes"

definition rejectDuplicateEntryNodes :: "string list \<Rightarrow> unit result" where
  "rejectDuplicateEntryNodes entries =
     checkSeen (\<lambda>e. e) (\<lambda>seen e. require (e \<notin> set seen)
       (Errorf ''invalid workflow template: duplicate entry node %q'' [e])) [] entries"

definition validateDependencies :: "node_definition list \<Rightarrow> node_definition \<Rightarrow> unit result" where
  "validateDependencies nodes node =
     checkSeen (\<lambda>dep. dep) (\<lambda>seen dep.
       bindE (require (dep \<notin> set seen)
         (Errorf ''invalid workflow template: node %q has duplicate dependency %q'' [nd_ID node, dep])) (\<lambda>_.
       require (nodeIndex nodes dep \<noteq> None)
         (Errorf ''invalid workflow template: node %q depends on unknown node %q'' [nd_ID node, dep])))
       [] (nd_Dependencies node)"

definition validateOutcomes :: "node_definition list \<Rightarrow> node_definition \<Rightarrow> unit result" where
  "validateOutcomes nodes node =
     checkSeen oc_Name (\<lambda>seen oc.
       let loc = [nd_ID node, oc_Name oc]; blank = isBlank (oc_TargetNodeID oc) in
       bindE (require (oc_Name oc \<notin> set seen)
         (Errorf ''invalid workflow template: node %q has duplicate outcome %q'' loc)) (\<lambda>_.
       if oc_Terminal oc \<and> \<not> blank
       then Inl (Errorf ''invalid workflow template: node %q outcome %q is terminal and must not declare target node %q''
                   (loc @ [oc_TargetNodeID oc]))
       else if \<not> oc_Terminal oc \<and> blank
       then Inl (Errorf ''invalid workflow template: node %q outcome %q is non-terminal and must declare a target node'' loc)
       else require (oc_Terminal oc \<or> nodeIndex nodes (oc_TargetNodeID oc) \<noteq> None)
              (Errorf ''invalid workflow template: node %q outcome %q targets unknown node %q'' (loc @ [oc_TargetNodeID oc]))))
       [] (nd_Outcomes node)"

definition validateBranches :: "node_definition list \<Rightarrow> node_definition \<Rightarrow> unit result" where
  "validateBranches nodes node =
     checkAll (\<lambda>(outcome, target).
       bindE (require (\<not> isBlank outcome)
         (Errorf ''invalid workflow template: node %q has a blank branch outcome'' [nd_ID node])) (\<lambda>_.
       require (nodeIndex nodes target \<noteq> None)
         (Errorf ''invalid workflow template: node %q branch outcome %q targets unknown node %q'' [nd_ID node, outcome, target])))
       (nd_Branches node)"

definition validateTerminalOutcomes :: "template \<Rightarrow> unit result" where
  "validateTerminalOutcomes t =
     bindE (require (tm_TerminalOutcomes t \<noteq> []) (Err ''invalid workflow template: terminal_outcomes must not be empty'')) (\<lambda>_.
     checkSeen (\<lambda>name. name) (\<lambda>seen name.
       bindE (require (\<not> isBlank name) (Err ''invalid workflow template: terminal outcome entry is empty'')) (\<lambda>_.
       require (name \<notin> set seen) (Errorf ''invalid workflow template: duplicate terminal outcome %q'' [name])))
       [] (tm_TerminalOutcomes t))"

definition validateLoop ::
  "template \<Rightarrow> string list \<Rightarrow> nat \<times> bounded_loop_definition \<Rightarrow> unit result" where
  "validateLoop t seen il =
     (case il of (index, loop) \<Rightarrow>
        bindE (require (\<not> isBlank (bl_ID loop))
          (Errorf ''invalid workflow template: bounded_loops[%d].id is required'' [natString index])) (\<lambda>_.
        bindE (require (bl_ID loop \<notin> set seen)
          (Errorf ''invalid workflow template: duplicate bounded loop id %q'' [bl_ID loop])) (\<lambda>_.
        bindE (require (\<not> bl_MaximumRuns loop \<le> 0)
          (Errorf ''invalid workflow template: bounded loop %q must declare maximum_runs > 0'' [bl_ID loop])) (\<lambda>_.
        bindE (require (bl_BodyNodes loop \<noteq> [])
          (Errorf ''invalid workflow template: bounded loop %q must declare at least one body node'' [bl_ID loop])) (\<lambda>_.
        bindE (checkSeen (\<lambda>b. b) (\<lambda>body b.
            bindE (require (nodeIndex (tm_Nodes t) b \<noteq> None)
              (Errorf ''invalid workflow template: bounded loop %q body node %q does not exist'' [bl_ID loop, b])) (\<lambda>_.
            require (b \<notin> set body)
              (Errorf ''invalid workflow template: bounded loop %q has duplicate body node %q'' [bl_ID loop, b])))
            [] (bl_BodyNodes loop)) (\<lambda>_.
        bindE (require (bl_EntryNodeID loop \<in> set (bl_BodyNodes loop))
          (Errorf ''invalid workflow template: bounded loop %q entry node %q is not a body node'' [bl_ID loop, bl_EntryNodeID loop])) (\<lambda>_.
        bindE (require (bl_CheckpointID loop \<in> set (bl_BodyNodes loop))
          (Errorf ''invalid workflow template: bounded loop %q checkpoint node %q is not a body node'' [bl_ID loop, bl_CheckpointID loop])) (\<lambda>_.
        checkAll (\<lambda>ex. require (ex \<in> set (tm_TerminalOutcomes t))
          (Errorf ''invalid workflow template: bounded loop %q exit outcome %q is not a terminal outcome'' [bl_ID loop, ex]))
          (bl_ExitOutcomes loop)))))))))"

definition validateBoundedLoops :: "template \<Rightarrow> unit result" where
  "validateBoundedLoops t =
     checkSeen (\<lambda>(_, loop). bl_ID loop) (validateLoop t) [] (enumerate 0 (tm_BoundedLoops t))"

definition validateCompositionLimits :: "template \<Rightarrow> unit result" where
  "validateCompositionLimits t =
     (case tm_CompositionLimits t of
        None \<Rightarrow> Inr ()
      | Some limits \<Rightarrow>
          bindE (require (\<not> cl_MaximumDepth limits < 1) (Err ''invalid workflow template: composition max_depth must be >= 1'')) (\<lambda>_.
          require (\<not> cl_MaximumChildren limits < 1) (Err ''invalid workflow template: composition max_children must be >= 1'')))"

definition validateInputBinding :: "node_definition list \<Rightarrow> node_definition \<Rightarrow> nat \<times> input_binding \<Rightarrow> unit result" where
  "validateInputBinding nodes node ib =
     (case ib of (index, binding) \<Rightarrow>
        case ib_From binding of
          None \<Rightarrow> Inr ()
        | Some from \<Rightarrow>
            bindE (require (nodeIndex nodes (tor_NodeID from) \<noteq> None)
              (Errorf ''invalid workflow template: node %q input_bindings[%d] references unknown node %q''
                 [nd_ID node, natString index, tor_NodeID from])) (\<lambda>_.
            require (outputTypes nodes (tor_NodeID from) (tor_OutputID from) \<noteq> None)
              (Errorf ''invalid workflow template: node %q input_bindings[%d] references undeclared output %q on node %q''
                 [nd_ID node, natString index, tor_OutputID from, tor_NodeID from])))"

definition validateWorkflowActions :: "template \<Rightarrow> unit result" where
  "validateWorkflowActions t =
     checkAll (\<lambda>node.
       case (ac_Kind (nd_Action node) = ActionWorkflow, ac_Workflow (nd_Action node)) of
         (True, Some wa) \<Rightarrow> checkAll (validateInputBinding (tm_Nodes t) node) (enumerate 0 (wa_InputBindings wa))
       | _ \<Rightarrow> Inr ()) (tm_Nodes t)"

definition ValidateGraph :: "(raw \<Rightarrow> rat option) \<Rightarrow> template \<Rightarrow> unit result" where
  "ValidateGraph parseFloat t =
     bindE (validateNodeIDsAreSafeComponents (tm_Nodes t)) (\<lambda>_.
     bindE (checkSeen nd_ID (\<lambda>seen n. require (nd_ID n \<notin> set seen)
       (Errorf ''invalid workflow template: duplicate node id %q'' [nd_ID n])) [] (tm_Nodes t)) (\<lambda>_.
     bindE (rejectDuplicateEntryNodes (tm_EntryNodes t)) (\<lambda>_.
     bindE (checkAll (\<lambda>e. require (nodeIndex (tm_Nodes t) e \<noteq> None)
       (Errorf ''invalid workflow template: entry node %q does not exist'' [e])) (tm_EntryNodes t)) (\<lambda>_.
     bindE (checkAll (\<lambda>node.
       bindE (validateDependencies (tm_Nodes t) node) (\<lambda>_.
       bindE (validateOutcomes (tm_Nodes t) node) (\<lambda>_.
       validateBranches (tm_Nodes t) node))) (tm_Nodes t)) (\<lambda>_.
     bindE (checkAll (validateGateBindings parseFloat t) (tm_Nodes t)) (\<lambda>_.
     bindE (detectDependencyCycles (tm_Nodes t)) (\<lambda>_.
     bindE (validateTerminalOutcomes t) (\<lambda>_.
     bindE (validateBoundedLoops t) (\<lambda>_.
     bindE (validateCompositionLimits t) (\<lambda>_.
     validateWorkflowActions t))))))))))"

text \<open>\<^verbatim>\<open>declaredTerminalOutcomes\<close>: the vocabulary without repetitions, in order of first appearance.\<close>

fun dedupFrom :: "string list \<Rightarrow> string list \<Rightarrow> string list" where
  "dedupFrom seen [] = []"
| "dedupFrom seen (x # xs) = (if x \<in> set seen then dedupFrom seen xs else x # dedupFrom (x # seen) xs)"

definition declaredTerminalOutcomes :: "template \<Rightarrow> string list" where
  "declaredTerminalOutcomes t = dedupFrom [] (tm_TerminalOutcomes t)"

lemma dedupFrom_set: "set (dedupFrom seen xs) = set xs - set seen \<and> distinct (dedupFrom seen xs)"
  by (induction xs arbitrary: seen) auto

lemma dedupFrom_id: "distinct xs \<Longrightarrow> set seen \<inter> set xs = {} \<Longrightarrow> dedupFrom seen xs = xs"
  by (induction xs arbitrary: seen) auto


lemma enumerate_map: "map (\<lambda>(_, x). f x) (enumerate n xs) = map f xs"
  by (induction xs arbitrary: n) simp_all

lemma enumerate_all: "(\<forall>x\<in>set (enumerate n xs). P (snd x)) \<longleftrightarrow> (\<forall>x\<in>set xs. P x)"
  by (induction xs arbitrary: n) simp_all

lemma checkAll_enumerate:
  assumes "\<And>x. f x = Inr () \<longleftrightarrow> P (snd x)"
  shows "checkAll f (enumerate n xs) = Inr u \<longleftrightarrow> (\<forall>x\<in>set xs. P x)"
  using assms by (simp add: checkAll_ok enumerate_all)

section \<open>Well-formed templates\<close>

text \<open>
  What the validators accept, stated over sets and relations: \<open>ids\<close> are the declared nodes,
  \<open>ancestors\<close> the nodes reachable through dependencies, \<open>refOK\<close> a reference to a declared output of
  an ancestor.
\<close>

abbreviation ids :: "template \<Rightarrow> string set" where
  "ids t \<equiv> nd_ID ` set (tm_Nodes t)"

definition ancestors :: "template \<Rightarrow> node_definition \<Rightarrow> string set" where
  "ancestors t node = (depRel (tm_Nodes t))\<^sup>* `` set (nd_Dependencies node)"

definition refOK :: "template \<Rightarrow> node_definition \<Rightarrow> (output_type \<Rightarrow> bool) \<Rightarrow> template_output_reference \<Rightarrow> bool" where
  "refOK t node P ref \<longleftrightarrow> tor_NodeID ref \<in> ancestors t node \<and>
     (\<exists>ty. outputTypes (tm_Nodes t) (tor_NodeID ref) (tor_OutputID ref) = Some ty \<and> P ty)"

definition bindingOK :: "template \<Rightarrow> node_definition \<Rightarrow> subject_binding \<Rightarrow> bool" where
  "bindingOK t node b \<longleftrightarrow> sb_Type b = ''pull_request'' \<and>
     (\<exists>src. src \<noteq> '''' \<and>
        (\<forall>(r, ty)\<in>{(sb_Repository b, OutputString), (sb_PullRequest b, OutputNumber), (sb_Revision b, OutputString)}.
           tor_NodeID (subjectBindingRef r) = src \<and> tor_OutputID (subjectBindingRef r) \<noteq> '''' \<and>
           refOK t node (\<lambda>x. x = ty) (subjectBindingRef r)))"

definition routesOK :: "template \<Rightarrow> node_definition \<Rightarrow> gate_definition \<Rightarrow> bool" where
  "routesOK t node gate \<longleftrightarrow>
     (gd_ResultOutcomes gate \<noteq> [] \<longrightarrow> gd_Type gate = GateExternal \<and> gd_SubjectBinding gate \<noteq> None) \<and>
     (\<forall>(result, outcome)\<in>set (gd_ResultOutcomes gate). routableResult result \<and>
        (case resolveOutcome t node outcome of (target, _, declared) \<Rightarrow> declared \<and> target \<noteq> ''''))"

definition literalOK :: "(raw \<Rightarrow> rat option) \<Rightarrow> raw \<Rightarrow> bool" where
  "literalOK pf r \<longleftrightarrow>
     (case trimmedJSON r of
        [] \<Rightarrow> False
      | c # cs \<Rightarrow> c = CHR 0x22 \<or> c = CHR ''t'' \<or> c = CHR ''f'' \<or>
          numberStart c \<and> (\<exists>v. pf (c # cs) = Some v \<and> \<bar>v\<bar> \<le> of_int maxSafeOutputFloat))"

definition inputOK :: "(raw \<Rightarrow> rat option) \<Rightarrow> template \<Rightarrow> node_definition \<Rightarrow> gate_input_value \<Rightarrow> bool" where
  "inputOK pf t node v \<longleftrightarrow>
     (case giv_FromNodeOutput v of
        None \<Rightarrow> literalOK pf (giv_Literal v)
      | Some ref \<Rightarrow> refOK t node primitiveOutput ref)"

definition gateOK :: "(raw \<Rightarrow> rat option) \<Rightarrow> template \<Rightarrow> node_definition \<Rightarrow> gate_definition \<Rightarrow> bool" where
  "gateOK pf t node gate \<longleftrightarrow>
     (nd_ID node \<in> set (tm_EntryNodes t) \<longrightarrow> \<not> gateDeclaresBoundReference gate) \<and>
     (gd_Type gate \<noteq> GateExternal \<longrightarrow> gd_AdapterID gate = '''' \<and> gd_Inputs gate = []) \<and>
     (gd_Type gate = GateMachine \<longrightarrow> gd_SubjectBinding gate = None) \<and>
     routesOK t node gate \<and>
     (\<forall>b. gd_SubjectBinding gate = Some b \<longrightarrow> bindingOK t node b) \<and>
     (\<forall>(name, v)\<in>set (gd_Inputs gate). inputOK pf t node v)"

definition nodeOK :: "template \<Rightarrow> node_definition \<Rightarrow> bool" where
  "nodeOK t node \<longleftrightarrow>
     distinct (nd_Dependencies node) \<and> set (nd_Dependencies node) \<subseteq> ids t \<and>
     distinct (map oc_Name (nd_Outcomes node)) \<and>
     (\<forall>oc\<in>set (nd_Outcomes node).
        if oc_Terminal oc then isBlank (oc_TargetNodeID oc)
        else \<not> isBlank (oc_TargetNodeID oc) \<and> oc_TargetNodeID oc \<in> ids t) \<and>
     (\<forall>(outcome, target)\<in>set (nd_Branches node). \<not> isBlank outcome \<and> target \<in> ids t)"

definition loopOK :: "template \<Rightarrow> bounded_loop_definition \<Rightarrow> bool" where
  "loopOK t loop \<longleftrightarrow>
     \<not> isBlank (bl_ID loop) \<and> 0 < bl_MaximumRuns loop \<and> bl_BodyNodes loop \<noteq> [] \<and>
     distinct (bl_BodyNodes loop) \<and> set (bl_BodyNodes loop) \<subseteq> ids t \<and>
     {bl_EntryNodeID loop, bl_CheckpointID loop} \<subseteq> set (bl_BodyNodes loop) \<and>
     set (bl_ExitOutcomes loop) \<subseteq> set (tm_TerminalOutcomes t)"

definition bindingsOK :: "template \<Rightarrow> node_definition \<Rightarrow> bool" where
  "bindingsOK t node \<longleftrightarrow>
     (\<forall>wa b ref. ac_Kind (nd_Action node) = ActionWorkflow \<and> ac_Workflow (nd_Action node) = Some wa \<and>
        b \<in> set (wa_InputBindings wa) \<and> ib_From b = Some ref \<longrightarrow>
        tor_NodeID ref \<in> ids t \<and> outputTypes (tm_Nodes t) (tor_NodeID ref) (tor_OutputID ref) \<noteq> None)"

definition wellFormedTemplate :: "(raw \<Rightarrow> rat option) \<Rightarrow> template \<Rightarrow> bool" where
  "wellFormedTemplate pf t \<longleftrightarrow>
     (\<forall>node\<in>set (tm_Nodes t). safeComponent (nd_ID node)) \<and> distinct (map nd_ID (tm_Nodes t)) \<and>
     distinct (tm_EntryNodes t) \<and> set (tm_EntryNodes t) \<subseteq> ids t \<and>
     (\<forall>node\<in>set (tm_Nodes t). nodeOK t node) \<and>
     (\<forall>node\<in>set (tm_Nodes t). \<forall>gate\<in>set (nd_Gates node). gateOK pf t node gate) \<and>
     acyclic (edges (tm_Nodes t)) \<and>
     tm_TerminalOutcomes t \<noteq> [] \<and> distinct (tm_TerminalOutcomes t) \<and>
     (\<forall>name\<in>set (tm_TerminalOutcomes t). \<not> isBlank name) \<and>
     distinct (map bl_ID (tm_BoundedLoops t)) \<and> (\<forall>loop\<in>set (tm_BoundedLoops t). loopOK t loop) \<and>
     (\<forall>limits. tm_CompositionLimits t = Some limits \<longrightarrow> 1 \<le> cl_MaximumDepth limits \<and> 1 \<le> cl_MaximumChildren limits) \<and>
     (\<forall>node\<in>set (tm_Nodes t). bindingsOK t node)"

lemma nodeIndex_ok [check_simps]: "nodeIndex (tm_Nodes t) nid \<noteq> None \<longleftrightarrow> nid \<in> ids t"
  by (simp only: nodeIndex_None_iff not_not)

lemma ancestors_set: "set (transitiveDependencies (tm_Nodes t) node) = ancestors t node"
  by (simp add: ancestors_def transitiveDependencies_def reachLoop_set openSeen_def)

lemma validateSafeJSONNumber_ok:
  "validateSafeJSONNumber pf r False what args = Inr u \<longleftrightarrow> (\<exists>v. pf r = Some v \<and> \<bar>v\<bar> \<le> of_int maxSafeOutputFloat)"
  by (simp add: validateSafeJSONNumber_def check_simps split: option.split)

lemma validatePrimitiveLiteral_ok: "validatePrimitiveLiteral pf r what args = Inr u \<longleftrightarrow> literalOK pf r"
  by (simp add: validatePrimitiveLiteral_def literalOK_def validateSafeJSONNumber_ok split: list.split)

lemma validateSubjectRef_ok:
  "validateSubjectRef (tm_Nodes t) anc node gate source (name, ref, ty) = Inr s \<longleftrightarrow>
     tor_NodeID ref \<noteq> '''' \<and> tor_OutputID ref \<noteq> '''' \<and> tor_NodeID ref \<in> set anc \<and>
     outputTypes (tm_Nodes t) (tor_NodeID ref) (tor_OutputID ref) = Some ty \<and>
     (source = '''' \<or> source = tor_NodeID ref) \<and> s = tor_NodeID ref"
  by (auto simp: validateSubjectRef_def check_simps Let_def split: option.splits)

lemma validateSubjectBinding_ok:
  assumes "set anc = ancestors t node"
  shows "validateSubjectBinding (tm_Nodes t) anc node gate b = Inr u \<longleftrightarrow> bindingOK t node b"
  by (auto simp: validateSubjectBinding_def check_simps bindE_eq_Inr_iff validateSubjectRef_ok bindingOK_def refOK_def assms)

lemma validateResultOutcomes_ok: "validateResultOutcomes t node gate = Inr u \<longleftrightarrow> routesOK t node gate"
  by (auto simp: validateResultOutcomes_def routesOK_def check_simps split: prod.splits)

lemma validateGateInput_ok:
  assumes "set anc = ancestors t node"
  shows "validateGateInput pf (tm_Nodes t) anc node gate (name, v) = Inr u \<longleftrightarrow> inputOK pf t node v"
  by (auto simp: validateGateInput_def inputOK_def refOK_def Let_def check_simps validatePrimitiveLiteral_ok assms
      split: option.splits)

lemma validateGate_ok:
  assumes "set anc = ancestors t node"
  shows "validateGate pf t anc node gate = Inr u \<longleftrightarrow>
    (gd_Type gate \<noteq> GateExternal \<longrightarrow> gd_AdapterID gate = '''' \<and> gd_Inputs gate = []) \<and>
    (gd_Type gate = GateMachine \<longrightarrow> gd_SubjectBinding gate = None) \<and> routesOK t node gate \<and>
    (\<forall>b. gd_SubjectBinding gate = Some b \<longrightarrow> bindingOK t node b) \<and>
    (\<forall>(name, v)\<in>set (gd_Inputs gate). inputOK pf t node v)"
  by (auto simp: validateGate_def Let_def check_simps validateResultOutcomes_ok validateSubjectBinding_ok[OF assms]
      validateGateInput_ok[OF assms] split: option.splits)


lemma validateGateBindings_ok:
  "validateGateBindings pf t node = Inr u \<longleftrightarrow> (\<forall>gate\<in>set (nd_Gates node). gateOK pf t node gate)"
  by (auto simp: validateGateBindings_def check_simps isEntryNode_def validateGate_ok[OF ancestors_set] gateOK_def)

lemma validateDependencies_ok:
  "validateDependencies (tm_Nodes t) node = Inr u \<longleftrightarrow>
     distinct (nd_Dependencies node) \<and> set (nd_Dependencies node) \<subseteq> ids t"
  unfolding validateDependencies_def
  by (subst checkSeen_ok[where P = "\<lambda>dep. dep \<in> ids t"]) (simp_all only: check_simps, auto)

lemma validateOutcomes_ok:
  "validateOutcomes (tm_Nodes t) node = Inr u \<longleftrightarrow>
     distinct (map oc_Name (nd_Outcomes node)) \<and>
     (\<forall>oc\<in>set (nd_Outcomes node).
        if oc_Terminal oc then isBlank (oc_TargetNodeID oc)
        else \<not> isBlank (oc_TargetNodeID oc) \<and> oc_TargetNodeID oc \<in> ids t)"
  unfolding validateOutcomes_def
proof (subst checkSeen_ok[where P = "\<lambda>oc. if oc_Terminal oc then isBlank (oc_TargetNodeID oc)
        else \<not> isBlank (oc_TargetNodeID oc) \<and> oc_TargetNodeID oc \<in> ids t"], goal_cases)
  case (1 seen oc)
  show ?case by (simp add: Let_def seq_ok require_ok nodeIndex_ok[simplified])
qed simp

lemma validateBranches_ok:
  "validateBranches (tm_Nodes t) node = Inr u \<longleftrightarrow>
     (\<forall>(outcome, target)\<in>set (nd_Branches node). \<not> isBlank outcome \<and> target \<in> ids t)"
  unfolding validateBranches_def by (simp only: check_simps split_beta) (simp add: split_beta)

lemma validateLoop_ok:
  "validateLoop t seen (i, loop) = Inr () \<longleftrightarrow> bl_ID loop \<notin> set seen \<and> loopOK t loop"
proof -
  have body: "checkSeen (\<lambda>b. b) (\<lambda>body b.
            bindE (require (b \<in> ids t) (e1 b)) (\<lambda>_. require (b \<notin> set body) (e2 b)))
            [] (bl_BodyNodes loop) = Inr () \<longleftrightarrow> distinct (bl_BodyNodes loop) \<and> set (bl_BodyNodes loop) \<subseteq> ids t" for e1 e2
    by (subst checkSeen_ok[where P = "\<lambda>b. b \<in> ids t"]) (simp_all only: check_simps, auto)
  show ?thesis
    unfolding validateLoop_def prod.case by (simp only: check_simps body) (auto simp: loopOK_def not_le)
qed

lemma validateBoundedLoops_ok:
  "validateBoundedLoops t = Inr u \<longleftrightarrow>
     distinct (map bl_ID (tm_BoundedLoops t)) \<and> (\<forall>loop\<in>set (tm_BoundedLoops t). loopOK t loop)"
  unfolding validateBoundedLoops_def
  by (subst checkSeen_ok[where P = "\<lambda>il. loopOK t (snd il)"]) (auto simp: enumerate_map enumerate_all validateLoop_ok)

lemma validateWorkflowActions_ok:
  "validateWorkflowActions t = Inr u \<longleftrightarrow> (\<forall>node\<in>set (tm_Nodes t). bindingsOK t node)"
proof -
  have ib: "validateInputBinding (tm_Nodes t) node ib = Inr () \<longleftrightarrow>
      (\<forall>ref. ib_From (snd ib) = Some ref \<longrightarrow> tor_NodeID ref \<in> ids t \<and>
         outputTypes (tm_Nodes t) (tor_NodeID ref) (tor_OutputID ref) \<noteq> None)" for node ib
    by (cases "ib_From (snd ib)") (simp_all add: validateInputBinding_def case_prod_beta check_simps nodeIndex_ok[simplified])
  show ?thesis
    unfolding validateWorkflowActions_def checkAll_ok
  proof (rule ball_cong[OF refl])
    fix node
    show "(case (ac_Kind (nd_Action node) = ActionWorkflow, ac_Workflow (nd_Action node)) of
         (True, Some wa) \<Rightarrow> checkAll (validateInputBinding (tm_Nodes t) node) (enumerate 0 (wa_InputBindings wa))
       | _ \<Rightarrow> Inr ()) = Inr () \<longleftrightarrow> bindingsOK t node"
      by (cases "ac_Workflow (nd_Action node)"; cases "ac_Kind (nd_Action node) = ActionWorkflow")
        (auto simp: bindingsOK_def checkAll_enumerate[where P = "\<lambda>b. \<forall>ref. ib_From b = Some ref \<longrightarrow>
            tor_NodeID ref \<in> ids t \<and> outputTypes (tm_Nodes t) (tor_NodeID ref) (tor_OutputID ref) \<noteq> None", OF ib])
  qed
qed


lemma detect_ok: "detectDependencyCycles nodes = Inr u \<longleftrightarrow> acyclic (edges nodes)"
  using detectDependencyCycles_spec by simp

lemma validateTerminalOutcomes_ok:
  "validateTerminalOutcomes t = Inr u \<longleftrightarrow>
     tm_TerminalOutcomes t \<noteq> [] \<and> distinct (tm_TerminalOutcomes t) \<and> (\<forall>name\<in>set (tm_TerminalOutcomes t). \<not> isBlank name)"
  unfolding validateTerminalOutcomes_def check_simps
  by (subst checkSeen_ok[where P = "\<lambda>name. \<not> isBlank name"]) (auto simp: check_simps)

lemma validateCompositionLimits_ok:
  "validateCompositionLimits t = Inr u \<longleftrightarrow>
     (\<forall>limits. tm_CompositionLimits t = Some limits \<longrightarrow> 1 \<le> cl_MaximumDepth limits \<and> 1 \<le> cl_MaximumChildren limits)"
  by (auto simp: validateCompositionLimits_def check_simps not_less split: option.splits)

lemma checkSeen_distinct:
  "checkSeen key (\<lambda>seen x. require (key x \<notin> set seen) (e x)) [] xs = Inr u \<longleftrightarrow> distinct (map key xs)"
  by (subst checkSeen_ok[where P = "\<lambda>_. True"]) (auto simp: check_simps)

lemmas graph_checks =
  validateDependencies_ok validateOutcomes_ok validateBranches_ok validateGateBindings_ok detect_ok
  validateTerminalOutcomes_ok validateBoundedLoops_ok validateCompositionLimits_ok validateWorkflowActions_ok

text \<open>
  C18: the graph validation is exact. \<^verbatim>\<open>ValidateGraph\<close> accepts a template exactly when it is well
  formed: safe and distinct node ids, existing references, bound gates that name declared outputs
  of ancestors, an acyclic dependency graph, a terminal vocabulary, well-formed bounded loops,
  positive composition limits and legal input bindings.
\<close>

theorem graph_validation_exact: "ValidateGraph pf t = Inr () \<longleftrightarrow> wellFormedTemplate pf t"
proof -
  have ids_ok: "validateNodeIDsAreSafeComponents (tm_Nodes t) = Inr () \<longleftrightarrow> (\<forall>node\<in>set (tm_Nodes t). safeComponent (nd_ID node))"
    by (simp add: validateNodeIDsAreSafeComponents_def check_simps)
  have entry: "rejectDuplicateEntryNodes (tm_EntryNodes t) = Inr () \<longleftrightarrow> distinct (tm_EntryNodes t)"
    by (simp add: rejectDuplicateEntryNodes_def checkSeen_distinct)
  show ?thesis
    unfolding ValidateGraph_def wellFormedTemplate_def seq_ok ids_ok entry checkSeen_distinct graph_checks
      checkAll_ok require_ok nodeIndex_ok nodeOK_def
    by blast
qed

end
