(* ===== verification/Wf_Preflight.thy ===== *)
theory Wf_Preflight
  imports Prelude
begin

text \<open>
  The bounds check that runs before a template is decoded (\<^verbatim>\<open>preflightJSON\<close> and \<^verbatim>\<open>scanJSONValue\<close> of
  \<^verbatim>\<open>validate.go\<close>). The token stream of \<^verbatim>\<open>json.Decoder\<close> is a parameter: a list that ends where
  \<^verbatim>\<open>io.EOF\<close> is reported. The scan is shown equivalent to a bound on the JSON tree the tokens spell:
  at most 64 levels, at most 10000 members per container, no key twice.
\<close>

section \<open>The decoder\<close>

text \<open>
  A token is a delimiter, a string (a key or a value) or another scalar. \<open>JBad closing msg\<close> is a
  position where \<^verbatim>\<open>Token\<close> fails; \<open>closing\<close> says whether the character there is a closing bracket,
  which is all that \<^verbatim>\<open>More\<close> looks at.
\<close>

datatype jtoken = JDelim char | JString string | JScalar string | JBad bool string

fun Token :: "jtoken list \<Rightarrow> (jtoken \<times> jtoken list) result" where
  "Token [] = Inl (Err ''EOF'')"
| "Token (JBad _ msg # ts) = Inl (Err msg)"
| "Token (t # ts) = Inr (t, ts)"

fun More :: "jtoken list \<Rightarrow> bool" where
  "More [] = False"
| "More (JBad closing _ # ts) = (\<not> closing)"
| "More (JDelim c # ts) = (c \<noteq> CHR '']'' \<and> c \<noteq> CHR ''}'')"
| "More (t # ts) = True"

definition maxTemplateBytes :: nat where
  "maxTemplateBytes = 4 * 2 ^ 20"

definition maxJSONDepth :: nat where
  "maxJSONDepth = 64"

definition maxContainerItems :: nat where
  "maxContainerItems = 10000"

section \<open>The scan\<close>

text \<open>
  The depth and the member count are kept as what is left of them: \<open>room\<close> is \<open>maxJSONDepth + 1\<close> less
  the depth of the value, \<open>left\<close> is \<open>maxContainerItems\<close> less the members counted so far. A result
  is the rest of the stream.
\<close>

definition closeWith :: "char \<Rightarrow> string \<Rightarrow> jtoken list \<Rightarrow> jtoken list result" where
  "closeWith c msg ts =
     bindE (Token ts) (\<lambda>(t, rest). if t \<noteq> JDelim c then Inl (Err msg) else Inr rest)"

fun scanJSONValue :: "nat \<Rightarrow> jtoken list \<Rightarrow> jtoken list result"
  and scanObject :: "nat \<Rightarrow> string list \<Rightarrow> nat \<Rightarrow> jtoken list \<Rightarrow> jtoken list result"
  and scanArray :: "nat \<Rightarrow> nat \<Rightarrow> jtoken list \<Rightarrow> jtoken list result" where
  "scanJSONValue 0 ts = Inl (Errorf ''JSON nesting exceeds depth limit %d'' [natString maxJSONDepth])"
| "scanJSONValue (Suc room) ts =
     bindE (Token ts) (\<lambda>(t, rest).
       case t of
         JDelim c \<Rightarrow>
           if c = CHR ''{'' then scanObject room [] maxContainerItems rest
           else if c = CHR ''['' then scanArray room maxContainerItems rest
           else Inl (Errorf ''unexpected JSON delimiter %q'' [[c]])
       | _ \<Rightarrow> Inr rest)"
| "scanObject room seen left ts =
     (if More ts then
        (case left of
           0 \<Rightarrow> Inl (Errorf ''JSON object exceeds %d-member limit'' [natString maxContainerItems])
         | Suc left' \<Rightarrow>
             bindE (Token ts) (\<lambda>(t, rest).
               case t of
                 JString key \<Rightarrow>
                   if key \<in> set seen then Inl (Errorf ''duplicate object key %q'' [key])
                   else bindE (scanJSONValue room rest) (scanObject room (key # seen) left')
               | _ \<Rightarrow> Inl (Err ''JSON object key is not a string'')))
      else closeWith (CHR ''}'') ''malformed JSON object'' ts)"
| "scanArray room left ts =
     (if More ts then
        (case left of
           0 \<Rightarrow> Inl (Errorf ''JSON array exceeds %d-item limit'' [natString maxContainerItems])
         | Suc left' \<Rightarrow> bindE (scanJSONValue room ts) (scanArray room left'))
      else closeWith (CHR '']'') ''malformed JSON array'' ts)"

definition preflightJSON :: "(raw \<Rightarrow> jtoken list) \<Rightarrow> raw \<Rightarrow> unit result" where
  "preflightJSON tokens data =
     bindE (require (\<not> maxTemplateBytes < length data)
       (Errorf ''template exceeds %d-byte limit'' [natString maxTemplateBytes])) (\<lambda>_.
     bindE (scanJSONValue (maxJSONDepth + 1) (tokens data)) (\<lambda>rest.
       case rest of
         [] \<Rightarrow> Inr ()
       | _ \<Rightarrow> bindE (Token rest) (\<lambda>_. Inl (Err ''multiple JSON values''))))"

section \<open>Trees and their tokens\<close>

datatype json = JText string | JAtom string | JArray "json list" | JObject "(string \<times> json) list"

fun tokensOf :: "json \<Rightarrow> jtoken list" where
  "tokensOf (JText s) = [JString s]"
| "tokensOf (JAtom s) = [JScalar s]"
| "tokensOf (JArray js) = JDelim (CHR ''['') # concat (map tokensOf js) @ [JDelim (CHR '']'')]"
| "tokensOf (JObject kvs) =
     JDelim (CHR ''{'') # concat (map (\<lambda>(k, j). JString k # tokensOf j) kvs) @ [JDelim (CHR ''}'')]"

text \<open>A tree whose values fit below \<open>room\<close> levels, with bounded containers and no repeated keys.\<close>

fun fits :: "nat \<Rightarrow> json \<Rightarrow> bool" where
  "fits room (JText s) \<longleftrightarrow> 0 < room"
| "fits room (JAtom s) \<longleftrightarrow> 0 < room"
| "fits room (JArray js) \<longleftrightarrow> 0 < room \<and> length js \<le> maxContainerItems \<and> (\<forall>j\<in>set js. fits (room - 1) j)"
| "fits room (JObject kvs) \<longleftrightarrow> 0 < room \<and> length kvs \<le> maxContainerItems \<and> distinct (map fst kvs) \<and>
     (\<forall>(k, j)\<in>set kvs. fits (room - 1) j)"

fun depth :: "json \<Rightarrow> nat" where
  "depth (JText s) = 0"
| "depth (JAtom s) = 0"
| "depth (JArray js) = fold max (map (\<lambda>j. Suc (depth j)) js) 0"
| "depth (JObject kvs) = fold max (map (\<lambda>(k, j). Suc (depth j)) kvs) 0"

fun bounded :: "json \<Rightarrow> bool" where
  "bounded (JText s) = True"
| "bounded (JAtom s) = True"
| "bounded (JArray js) \<longleftrightarrow> length js \<le> maxContainerItems \<and> (\<forall>j\<in>set js. bounded j)"
| "bounded (JObject kvs) \<longleftrightarrow> length kvs \<le> maxContainerItems \<and> distinct (map fst kvs) \<and> (\<forall>(k, j)\<in>set kvs. bounded j)"

lemma fold_max_less: "fold max xs a < (n :: nat) \<longleftrightarrow> a < n \<and> (\<forall>x\<in>set xs. x < n)"
  by (induction xs arbitrary: a) auto

lemma fits_iff: "fits room j \<longleftrightarrow> depth j < room \<and> bounded j"
proof (induction room j rule: fits.induct)
  case (3 room js)
  then show ?case by (cases room) (auto simp: fold_max_less)
next
  case (4 room kvs)
  then show ?case by (cases room) (fastforce simp: fold_max_less)+
qed auto

section \<open>The scan decides the bounds\<close>

definition verdict :: "bool \<Rightarrow> 'a \<Rightarrow> 'a result \<Rightarrow> bool" where
  "verdict ok x r \<longleftrightarrow> (if ok then r = Inr x else \<exists>e. r = Inl e)"

lemma verdict_bind:
  assumes "verdict p x r" and "p \<Longrightarrow> verdict q y (k x)"
  shows "verdict (p \<and> q) y (bindE r k)"
  using assms by (cases p) (auto simp: verdict_def)

lemma More_tokensOf [simp]: "More (tokensOf j @ ts)"
  by (cases j) auto

declare scanObject.simps [simp del] scanArray.simps [simp del]

lemma scanArray_verdict:
  assumes "\<And>j rest. j \<in> set js \<Longrightarrow> verdict (fits room j) rest (scanJSONValue room (tokensOf j @ rest))"
  shows "verdict (length js \<le> left \<and> (\<forall>j\<in>set js. fits room j)) rest
    (scanArray room left (concat (map tokensOf js) @ JDelim (CHR '']'') # rest))"
  using assms
proof (induction js arbitrary: left)
  case Nil
  then show ?case by (simp add: scanArray.simps closeWith_def verdict_def)
next
  case (Cons j js)
  show ?case
  proof (cases left)
    case 0
    then show ?thesis by (simp add: scanArray.simps verdict_def)
  next
    case (Suc n)
    let ?tail = "concat (map tokensOf js) @ JDelim (CHR '']'') # rest"
    have "verdict (fits room j \<and> (length js \<le> n \<and> (\<forall>j\<in>set js. fits room j))) rest
        (bindE (scanJSONValue room (tokensOf j @ ?tail)) (scanArray room n))"
      by (rule verdict_bind[OF Cons.prems]) (simp, intro Cons.IH Cons.prems, simp)
    moreover have "scanArray room left (tokensOf j @ ?tail) = bindE (scanJSONValue room (tokensOf j @ ?tail)) (scanArray room n)"
      by (simp add: Suc scanArray.simps)
    moreover have "(fits room j \<and> length js \<le> n \<and> (\<forall>j\<in>set js. fits room j)) =
        (length (j # js) \<le> left \<and> (\<forall>j\<in>set (j # js). fits room j))" using Suc by auto
    ultimately show ?thesis by simp
  qed
qed

abbreviation memberTokens :: "(string \<times> json) list \<Rightarrow> jtoken list" where
  "memberTokens kvs \<equiv> concat (map (\<lambda>(k, j). JString k # tokensOf j) kvs)"

lemma scanObject_verdict:
  assumes "\<And>k j rest. (k, j) \<in> set kvs \<Longrightarrow> verdict (fits room j) rest (scanJSONValue room (tokensOf j @ rest))"
  shows "verdict (length kvs \<le> left \<and> distinct (map fst kvs) \<and> set seen \<inter> fst ` set kvs = {} \<and>
      (\<forall>(k, j)\<in>set kvs. fits room j)) rest
    (scanObject room seen left (memberTokens kvs @ JDelim (CHR ''}'') # rest))"
  using assms
proof (induction kvs arbitrary: left seen)
  case Nil
  then show ?case by (simp add: scanObject.simps closeWith_def verdict_def)
next
  case (Cons kj kvs)
  obtain k j where kj: "kj = (k, j)" by (cases kj)
  let ?tail = "memberTokens kvs @ JDelim (CHR ''}'') # rest"
  show ?case
  proof (cases "left = 0 \<or> k \<in> set seen")
    case True
    then show ?thesis by (auto simp: kj scanObject.simps verdict_def split: nat.splits)
  next
    case False
    then obtain n where n: "left = Suc n" "k \<notin> set seen" by (cases left) auto
    have "verdict (fits room j \<and> (length kvs \<le> n \<and> distinct (map fst kvs) \<and> set (k # seen) \<inter> fst ` set kvs = {} \<and>
        (\<forall>(k, j)\<in>set kvs. fits room j))) rest
        (bindE (scanJSONValue room (tokensOf j @ ?tail)) (scanObject room (k # seen) n))"
    proof (rule verdict_bind)
      show "verdict (fits room j) ?tail (scanJSONValue room (tokensOf j @ ?tail))"
        using Cons.prems[of k j ?tail] by (simp add: kj)
      show "verdict (length kvs \<le> n \<and> distinct (map fst kvs) \<and> set (k # seen) \<inter> fst ` set kvs = {} \<and>
        (\<forall>(k, j)\<in>set kvs. fits room j)) rest (scanObject room (k # seen) n ?tail)"
        by (rule Cons.IH) (rule Cons.prems, rule list.set_intros(2))
    qed
    moreover have "scanObject room seen left (JString k # tokensOf j @ ?tail) =
        bindE (scanJSONValue room (tokensOf j @ ?tail)) (scanObject room (k # seen) n)"
      by (simp add: n scanObject.simps[of room seen "Suc n"])
    moreover have "(fits room j \<and> length kvs \<le> n \<and> distinct (map fst kvs) \<and> set (k # seen) \<inter> fst ` set kvs = {} \<and>
        (\<forall>(k, j)\<in>set kvs. fits room j)) =
        (length (kj # kvs) \<le> left \<and> distinct (map fst (kj # kvs)) \<and> set seen \<inter> fst ` set (kj # kvs) = {} \<and>
        (\<forall>(k, j)\<in>set (kj # kvs). fits room j))"
      using n by (auto simp: kj)
    ultimately show ?thesis by (simp add: kj)
  qed
qed

lemma scanJSONValue_verdict: "verdict (fits room j) rest (scanJSONValue room (tokensOf j @ rest))"
proof (induction room j arbitrary: rest rule: fits.induct)
  case (3 room js)
  show ?case
  proof (cases room)
    case (Suc r)
    have "verdict (length js \<le> maxContainerItems \<and> (\<forall>j\<in>set js. fits r j)) rest
        (scanArray r maxContainerItems (concat (map tokensOf js) @ JDelim (CHR '']'') # rest))"
      using "3.IH" by (intro scanArray_verdict) (simp add: Suc)
    then show ?thesis by (simp add: Suc)
  qed (simp add: verdict_def)
next
  case (4 room kvs)
  show ?case
  proof (cases room)
    case (Suc r)
    have "verdict (length kvs \<le> maxContainerItems \<and> distinct (map fst kvs) \<and> set [] \<inter> fst ` set kvs = {} \<and>
        (\<forall>(k, j)\<in>set kvs. fits r j)) rest
        (scanObject r [] maxContainerItems (memberTokens kvs @ JDelim (CHR ''}'') # rest))"
      using "4.IH" by (intro scanObject_verdict) (fastforce simp: Suc)
    then show ?thesis by (simp add: Suc)
  qed (simp add: verdict_def)
next
  case (1 room s)
  then show ?case by (cases room) (simp_all add: verdict_def)
next
  case (2 room s)
  then show ?case by (cases room) (simp_all add: verdict_def)
qed

text \<open>
  C19: the preflight is exact. On a document whose tokens spell a JSON tree, the preflight
  accepts exactly when the document has at most 4 MiB, the tree at most 64 levels of nesting and
  10000 members per container, and no object repeats a key.
\<close>

theorem preflight_exact:
  assumes "tokens data = tokensOf j"
  shows "preflightJSON tokens data = Inr () \<longleftrightarrow>
    length data \<le> 4194304 \<and> depth j \<le> 64 \<and> bounded j"
proof -
  have "verdict (fits (maxJSONDepth + 1) j) [] (scanJSONValue (maxJSONDepth + 1) (tokensOf j @ []))"
    by (rule scanJSONValue_verdict)
  moreover have "fits (maxJSONDepth + 1) j \<longleftrightarrow> depth j \<le> 64 \<and> bounded j"
    by (auto simp: fits_iff maxJSONDepth_def)
  ultimately show ?thesis
    by (auto simp: preflightJSON_def assms check_simps verdict_def maxTemplateBytes_def not_less require_def)
qed

theorem preflight_exact_witness:
  "preflightJSON (\<lambda>_. tokensOf (JObject [(''a'', JAtom ''1''), (''b'', JArray [JText ''x''])])) ''data'' = Inr () \<and>
   preflightJSON (\<lambda>_. tokensOf (JObject [(''a'', JAtom ''1''), (''a'', JAtom ''2'')])) ''data'' \<noteq> Inr ()"
proof -
  let ?good = "JObject [(''a'', JAtom ''1''), (''b'', JArray [JText ''x''])]"
  let ?bad = "JObject [(''a'', JAtom ''1''), (''a'', JAtom ''2'')]"
  have "depth ?good = 2" "bounded ?good" "\<not> bounded ?bad" by (simp_all add: maxContainerItems_def)
  then show ?thesis
    using preflight_exact[of "\<lambda>_. tokensOf ?good" "''data''" ?good] preflight_exact[of "\<lambda>_. tokensOf ?bad" "''data''" ?bad]
    by simp
qed

end
