(* ===== verification/Wf_Template.thy ===== *)
theory Wf_Template
  imports Wf_Graph Wf_Preflight
begin

text \<open>
  The typed checks of a workflow template and of the parameters of an instance (\<^verbatim>\<open>validate.go\<close>), the
  presence contract they start from (\<^verbatim>\<open>Check\<close> of the generated \<^verbatim>\<open>workflow_schema.gen.go\<close>), and the
  resolvers that run later on validated data: \<^verbatim>\<open>ResolveNodeWorkingDirectory\<close> and
  \<^verbatim>\<open>ResolveNodeLaunchWrapper\<close> (\<^verbatim>\<open>launch_wrapper.go\<close>). The theorems say that validation is enough for
  the resolvers: on an accepted template with accepted parameters they never fail.
\<close>

section \<open>Paths\<close>

definition IsAbs :: "string \<Rightarrow> bool" where
  "IsAbs path \<longleftrightarrow> path \<noteq> '''' \<and> hd path = CHR ''/''"

fun splitSlash :: "string \<Rightarrow> string list" where
  "splitSlash [] = [[]]"
| "splitSlash (c # cs) =
     (if c = CHR ''/'' then [] # splitSlash cs
      else (case splitSlash cs of [] \<Rightarrow> [[c]] | seg # segs \<Rightarrow> (c # seg) # segs))"

fun joinSlash :: "string list \<Rightarrow> string" where
  "joinSlash [] = ''''"
| "joinSlash [seg] = seg"
| "joinSlash (seg # segs) = seg @ CHR ''/'' # joinSlash segs"

text \<open>\<^verbatim>\<open>filepath.Clean\<close>: the segments kept so far are a stack whose top is the head.\<close>

fun cleanSegs :: "bool \<Rightarrow> string list \<Rightarrow> string list \<Rightarrow> string list" where
  "cleanSegs rooted out [] = rev out"
| "cleanSegs rooted out (seg # segs) =
     (if seg = '''' \<or> seg = ''.'' then cleanSegs rooted out segs
      else if seg = ''..'' then
        (case out of
           [] \<Rightarrow> cleanSegs rooted (if rooted then [] else [''..'']) segs
         | prev # rest \<Rightarrow> cleanSegs rooted (if prev = ''..'' then ''..'' # out else rest) segs)
      else cleanSegs rooted (seg # out) segs)"

definition Clean :: "string \<Rightarrow> string" where
  "Clean path =
     (if path = '''' then ''.''
      else if hd path = CHR ''/'' then CHR ''/'' # joinSlash (cleanSegs True [] (splitSlash path))
      else (let s = joinSlash (cleanSegs False [] (splitSlash path)) in if s = '''' then ''.'' else s))"

section \<open>Blank text and names\<close>

function skipSpace :: "string \<Rightarrow> string" where
  "skipSpace s = (if s = [] then [] else if spaceLen s = 0 then s else skipSpace (drop (spaceLen s) s))"
  by auto

termination skipSpace
  by (relation "measure length") auto

declare skipSpace.simps [simp del]

text \<open>\<^verbatim>\<open>bytes.Equal(bytes.TrimSpace(s), lit)\<close> for a literal without white space.\<close>

definition trimmedIs :: "string \<Rightarrow> string \<Rightarrow> bool" where
  "trimmedIs lit s \<longleftrightarrow>
     (let r = skipSpace s in take (length lit) r = lit \<and> isBlank (drop (length lit) r))"

fun actionKindString :: "action_kind \<Rightarrow> string" where
  "actionKindString ActionRun = ''run''"
| "actionKindString ActionLoop = ''loop''"
| "actionKindString ActionTeam = ''team''"
| "actionKindString ActionManual = ''manual''"
| "actionKindString ActionExternal = ''external''"
| "actionKindString ActionWorkflow = ''workflow''"
| "actionKindString (ActionOther s) = s"

fun dispatchModeString :: "dispatch_mode \<Rightarrow> string" where
  "dispatchModeString DispatchManual = ''manual''"
| "dispatchModeString DispatchAuto = ''auto''"
| "dispatchModeString (DispatchModeOther s) = s"

section \<open>The presence contract\<close>

record field_status =
  fs_Required :: bool
  fs_Enabled :: bool
  fs_Satisfied :: bool
  fs_Fair :: bool
  fs_Reason :: "string option"
  fs_Valid :: "bool option"
  fs_Error :: string

definition fieldStatus :: "bool \<Rightarrow> bool \<Rightarrow> field_status" where
  "fieldStatus req sat = \<lparr>fs_Required = req, fs_Enabled = True, fs_Satisfied = sat, fs_Fair = True,
     fs_Reason = None, fs_Valid = None, fs_Error = ''''\<rparr>"

text \<open>
  \<^verbatim>\<open>Check\<close> on the fields \<^verbatim>\<open>ValidateTemplate\<close> projects: an optional field that is not projected is
  absent. The list has the order in which the statuses are looked at.
\<close>

definition Check :: "template \<Rightarrow> (string \<times> field_status) list" where
  "Check t =
     [(''schema_version'',
         (fieldStatus True (tm_SchemaVersion t \<noteq> 0))
           \<lparr>fs_Fair := (tm_SchemaVersion t = 1),
            fs_Reason := (if tm_SchemaVersion t = 1 then None else Some ''workflow schema_version must be 1'')\<rparr>),
      (''template_id'', fieldStatus True (tm_TemplateID t \<noteq> '''')),
      (''template_version'', fieldStatus True (tm_TemplateVersion t \<noteq> '''')),
      (''metadata'', fieldStatus False False),
      (''entry_nodes'', fieldStatus True (tm_EntryNodes t \<noteq> [])),
      (''nodes'', fieldStatus True (tm_Nodes t \<noteq> [])),
      (''terminal_outcomes'', fieldStatus True (tm_TerminalOutcomes t \<noteq> [])),
      (''bounded_loops'', fieldStatus False False),
      (''default_lease_policy'', fieldStatus False False),
      (''default_retry_policy'', fieldStatus False False),
      (''composition_limits'', fieldStatus False False),
      (''working_directory'', fieldStatus False (tm_WorkingDirectory t \<noteq> None))]"

definition validateFieldStatus :: "string \<times> field_status \<Rightarrow> unit result" where
  "validateFieldStatus fs =
     (case fs of (name, status) \<Rightarrow>
        if fs_Required status \<and> \<not> fs_Satisfied status
        then Inl (Errorf ''invalid workflow template: %s is required'' [name])
        else if \<not> fs_Enabled status \<or> \<not> fs_Fair status
        then (case fs_Reason status of
                Some r \<Rightarrow> Inl (Errorf ''invalid workflow template: %s: %s'' [name, r])
              | None \<Rightarrow> Inl (Errorf ''invalid workflow template: %s is unavailable'' [name]))
        else if fs_Valid status = Some False
        then (if fs_Error status \<noteq> '''' then Inl (Errorf ''invalid workflow template: %s: %s'' [name, fs_Error status])
              else Inl (Errorf ''invalid workflow template: %s is invalid'' [name]))
        else Inr ())"


section \<open>Actions, dispatch and output sources\<close>

definition actionVariants :: "action \<Rightarrow> nat" where
  "actionVariants a =
     length (filter (\<lambda>b. b) [ac_Run a \<noteq> None, ac_Loop a \<noteq> None, ac_Team a \<noteq> None,
       ac_Manual a \<noteq> None, ac_External a \<noteq> None, ac_Workflow a \<noteq> None])"

definition actionMatches :: "action \<Rightarrow> bool" where
  "actionMatches a \<longleftrightarrow>
     ac_Kind a = ActionRun \<and> ac_Run a \<noteq> None \<or> ac_Kind a = ActionLoop \<and> ac_Loop a \<noteq> None \<or>
     ac_Kind a = ActionTeam \<and> ac_Team a \<noteq> None \<or> ac_Kind a = ActionManual \<and> ac_Manual a \<noteq> None \<or>
     ac_Kind a = ActionExternal \<and> ac_External a \<noteq> None \<or> ac_Kind a = ActionWorkflow \<and> ac_Workflow a \<noteq> None"

definition validateActionInput :: "(raw \<Rightarrow> jtoken list) \<Rightarrow> nat \<times> input_binding \<Rightarrow> unit result" where
  "validateActionInput tokens ib =
     (case ib of (index, b) \<Rightarrow>
        let i = [natString index]; hasValue = \<not> isBlank (ib_Value b) in
        bindE (require (\<not> isBlank (ib_Input b)) (Errorf ''workflow action input_bindings[%d] requires input'' i)) (\<lambda>_.
        bindE (require (hasValue \<noteq> (ib_From b \<noteq> None))
          (Errorf ''workflow action input_bindings[%d] requires exactly one of value or from'' i)) (\<lambda>_.
        bindE (if hasValue then
                 bindE (require (\<not> trimmedIs ''null'' (ib_Value b))
                   (Errorf ''workflow action input_bindings[%d].value cannot be null'' i)) (\<lambda>_.
                 wrapE ''workflow action input_bindings[%d].value: '' i (preflightJSON tokens (ib_Value b)))
               else Inr ()) (\<lambda>_.
        case ib_From b of
          None \<Rightarrow> Inr ()
        | Some from \<Rightarrow>
            bindE (require (\<not> isBlank (tor_NodeID from)) (Errorf ''workflow action input_bindings[%d].from requires node_id'' i)) (\<lambda>_.
            require (\<not> isBlank (tor_OutputID from)) (Errorf ''workflow action input_bindings[%d].from requires output_id'' i))))))"

definition validateChildParam :: "string list \<Rightarrow> nat \<times> child_param_binding \<Rightarrow> unit result" where
  "validateChildParam seen ib =
     (case ib of (index, b) \<Rightarrow>
        bindE (require (\<not> isBlank (cpb_Param b)) (Errorf ''workflow action params[%d] requires param'' [natString index])) (\<lambda>_.
        bindE (require (cpb_Param b \<notin> set seen) (Errorf ''workflow action params: duplicate param %q'' [cpb_Param b])) (\<lambda>_.
        require ((cpb_Value b \<noteq> '''') \<noteq> (cpb_FromInstanceParam b \<noteq> ''''))
          (Errorf ''workflow action params[%d] requires exactly one of value or from_instance_param'' [natString index]))))"

definition validateWorkflowAction :: "(raw \<Rightarrow> jtoken list) \<Rightarrow> workflow_action \<Rightarrow> unit result" where
  "validateWorkflowAction tokens w =
     bindE (require (\<not> isBlank (wa_TemplateID w)) (Err ''workflow action requires template_id'')) (\<lambda>_.
     bindE (require (safeComponent (wa_TemplateID w)) (Err ''workflow action requires a safe template_id component (no path separators)'')) (\<lambda>_.
     bindE (require (\<not> isBlank (wa_TemplateVersion w)) (Err ''workflow action requires template_version'')) (\<lambda>_.
     bindE (require (safeComponent (wa_TemplateVersion w)) (Err ''workflow action requires a safe template_version component (no path separators)'')) (\<lambda>_.
     bindE (require (\<not> isBlank (wa_ChildKey w)) (Err ''workflow action requires child_key'')) (\<lambda>_.
     bindE (require (wa_OutcomeMap w \<noteq> []) (Err ''workflow action requires outcome_map'')) (\<lambda>_.
     bindE (checkAll (validateActionInput tokens) (enumerate 0 (wa_InputBindings w))) (\<lambda>_.
     bindE (checkSeen (\<lambda>(_, b). cpb_Param b) validateChildParam [] (enumerate 0 (wa_Params w))) (\<lambda>_.
     bindE (checkAll (\<lambda>(index, b).
       bindE (require (\<not> isBlank (ob_ChildOutput b)) (Errorf ''workflow action output_bindings[%d] requires child_output'' [natString index])) (\<lambda>_.
       require (\<not> isBlank (ob_ParentOutput b)) (Errorf ''workflow action output_bindings[%d] requires parent_output'' [natString index])))
       (enumerate 0 (wa_OutputBindings w))) (\<lambda>_.
     checkAll (\<lambda>(child, parent).
       bindE (require (\<not> isBlank child) (Err ''workflow action outcome_map contains a blank child outcome'')) (\<lambda>_.
       require (\<not> isBlank parent) (Errorf ''workflow action outcome_map[%q] contains a blank parent outcome'' [child])))
       (wa_OutcomeMap w))))))))))"

definition validateRunAction :: "run_action \<Rightarrow> unit result" where
  "validateRunAction r =
     bindE (require ((\<not> isBlank (ra_Prompt r)) \<noteq> (\<not> isBlank (ra_PromptFile r)))
       (Err ''run action requires exactly one of prompt or prompt_file'')) (\<lambda>_.
     require (\<not> ra_Timeout r < 0) (Err ''run action timeout must be a non-negative number of seconds''))"

text \<open>The variant of the action's kind is present when the switch reads it, by \<open>actionMatches\<close>.\<close>

definition validateAction :: "(raw \<Rightarrow> jtoken list) \<Rightarrow> action \<Rightarrow> unit result" where
  "validateAction tokens a =
     bindE (require (\<not> (ac_Kind a = ActionOther '''' \<or> actionVariants a = 0)) (Err ''action is required'')) (\<lambda>_.
     bindE (require (actionVariants a = 1)
       (Errorf ''action %q must contain exactly one variant'' [actionKindString (ac_Kind a)])) (\<lambda>_.
     bindE (require (actionMatches a)
       (Errorf ''action %q does not match its variant'' [actionKindString (ac_Kind a)])) (\<lambda>_.
     case ac_Kind a of
       ActionRun \<Rightarrow> validateRunAction (the (ac_Run a))
     | ActionLoop \<Rightarrow>
         bindE (require (\<not> isBlank (la_LoopFile (the (ac_Loop a)))) (Err ''loop action requires loop_file'')) (\<lambda>_.
         require (\<not> la_Timeout (the (ac_Loop a)) < 0) (Err ''loop action timeout must be a non-negative number of seconds''))
     | ActionTeam \<Rightarrow>
         bindE (require (\<not> isBlank (ta_TeamFile (the (ac_Team a)))) (Err ''team action requires team_file'')) (\<lambda>_.
         require (\<not> ta_Timeout (the (ac_Team a)) < 0) (Err ''team action timeout must be a non-negative number of seconds''))
     | ActionExternal \<Rightarrow> require (\<not> isBlank (ea_Source (the (ac_External a)))) (Err ''external action requires source'')
     | ActionWorkflow \<Rightarrow> validateWorkflowAction tokens (the (ac_Workflow a))
     | _ \<Rightarrow> Inr ())))"

definition validateAutoExternalDispatch :: "dispatch_policy \<Rightarrow> node_definition \<Rightarrow> unit result" where
  "validateAutoExternalDispatch p node =
     bindE (require (nd_Outputs node = []) (Errorf ''dispatch.mode %q external nodes must declare no outputs'' [''auto''])) (\<lambda>_.
     bindE (require (\<not> isBlank (dp_SuccessOutcome p))
       (Errorf ''dispatch.mode %q external nodes must declare dispatch.success_outcome'' [''auto''])) (\<lambda>_.
     bindE (require (goGet (nd_Branches node) (dp_SuccessOutcome p) \<noteq> '''' \<or>
         list_ex (\<lambda>oc. oc_Name oc = dp_SuccessOutcome p \<and> \<not> oc_Terminal oc \<and> oc_TargetNodeID oc \<noteq> '''') (nd_Outcomes node))
       (Errorf ''dispatch.success_outcome %q must be a declared node outcome with a branch'' [dp_SuccessOutcome p])) (\<lambda>_.
     bindE (checkAll (\<lambda>gate.
         bindE (require (gd_Type gate = GateExternal)
           (Errorf ''dispatch.mode %q external nodes must declare no human or machine gates (gate %q is %q)''
              [''auto'', gd_ID gate, gateTypeString (gd_Type gate)])) (\<lambda>_.
         require (\<not> gd_Required gate \<or> gd_SubjectBinding gate \<noteq> None)
           (Errorf ''dispatch.mode %q external nodes require a subject_binding on every required gate (gate %q has none)''
              [''auto'', gd_ID gate]))) (nd_Gates node)) (\<lambda>_.
     require (list_ex gd_Required (nd_Gates node))
       (Errorf ''dispatch.mode %q external nodes must declare at least one required external gate'' [''auto''])))))"


definition validateDispatch :: "dispatch_policy option \<Rightarrow> node_definition \<Rightarrow> unit result" where
  "validateDispatch policy node =
     (case policy of
        None \<Rightarrow> Inr ()
      | Some p \<Rightarrow>
          let mode = (if dp_Mode p = DispatchModeOther '''' then DispatchManual else dp_Mode p);
              kind = ac_Kind (nd_Action node) in
          bindE (require (mode = DispatchManual \<or> mode = DispatchAuto)
            (Errorf ''dispatch.mode %q must be %q or %q'' [dispatchModeString mode, ''manual'', ''auto''])) (\<lambda>_.
          bindE (case dp_Priority p of
                   None \<Rightarrow> Inr ()
                 | Some n \<Rightarrow> require (\<not> (n < 0 \<or> 100 < n))
                     (Errorf ''dispatch.priority %d is outside the range 0 through 100'' [intString n])) (\<lambda>_.
          bindE (require (\<not> (dp_ConcurrencyKey p \<noteq> '''' \<and> isBlank (dp_ConcurrencyKey p)))
            (Err ''dispatch.concurrency_key cannot be blank'')) (\<lambda>_.
          bindE (require (\<not> (dp_ConcurrencyKeyParams p \<noteq> None \<and> dp_ConcurrencyKey p \<noteq> ''''))
            (Err ''dispatch.concurrency_key must be either a string or a {prefix, from_instance_param} object, not both'')) (\<lambda>_.
          bindE (require (\<not> (dp_SuccessOutcome p \<noteq> '''' \<and> kind \<noteq> ActionExternal))
            (Errorf ''dispatch.success_outcome is forbidden on %s nodes'' [actionKindString kind])) (\<lambda>_.
          bindE (require (\<not> (dp_SuccessOutcome p \<noteq> '''' \<and> mode = DispatchManual))
            (Errorf ''dispatch.success_outcome is forbidden for %q nodes'' [''manual''])) (\<lambda>_.
          if mode = DispatchAuto then
            bindE (require (\<not> isBlank (dp_ControllerID p)) (Errorf ''dispatch.mode %q requires controller_id'' [''auto''])) (\<lambda>_.
            if kind = ActionRun \<or> kind = ActionLoop \<or> kind = ActionTeam then
              (case nd_Completion node of
                 None \<Rightarrow> Inr ()
               | Some c \<Rightarrow>
                   bindE (require (cc_Kind c \<noteq> CompletionExplicit)
                     (Errorf ''dispatch.mode %q %s nodes must not declare completion.kind %q (the supervisor completes auto provider nodes from the declared contract; no worker handoff exists)''
                        [''auto'', actionKindString kind, ''explicit''])) (\<lambda>_.
                   require (\<not> (cc_Kind c = CompletionGit \<and> (case cc_Git c of None \<Rightarrow> False | Some g \<Rightarrow> gr_ChangedFromBase g)))
                     (Errorf ''dispatch.mode %q %s nodes must not declare completion.git.changed_from_base (no base commit is recorded for supervisor-side evaluation)''
                        [''auto'', actionKindString kind])))
            else if kind = ActionExternal then validateAutoExternalDispatch p node
            else Inl (Errorf ''dispatch.mode %q is limited to provider-backed %s, %s, and %s nodes'' [''auto'', ''run'', ''loop'', ''team'']))
          else require (dp_ControllerID p = '''') (Errorf ''dispatch.controller_id is forbidden for %q nodes'' [''manual'']))))))))"

definition contractArtifacts :: "node_definition \<Rightarrow> string set" where
  "contractArtifacts node =
     (case nd_Completion node of
        None \<Rightarrow> {}
      | Some c \<Rightarrow> if cc_Kind c = CompletionFiles then ar_Path ` set (cc_Artifacts c) else {})"

definition validateOutputSource :: "node_definition \<Rightarrow> output_definition \<Rightarrow> unit result" where
  "validateOutputSource node def =
     (case od_Source def of
        None \<Rightarrow> Inr ()
      | Some src \<Rightarrow>
          if os_Artifact src \<noteq> '''' \<and> os_Git src \<noteq> ''''
          then Inl (Errorf ''output %q declares both artifact and git source'' [od_ID def])
          else if os_Artifact src = '''' \<and> os_Git src = '''' \<and> os_Pointer src \<noteq> ''''
          then Inl (Errorf ''output %q: pointer requires an artifact source'' [od_ID def])
          else if os_Artifact src = '''' \<and> os_Git src = ''''
          then Inl (Errorf ''output %q declares an empty source'' [od_ID def])
          else if os_Git src \<noteq> '''' then
            bindE (require (os_Pointer src = '''') (Errorf ''output %q: pointer requires an artifact source'' [od_ID def])) (\<lambda>_.
            bindE (require (os_Git src = ''head'') (Errorf ''output %q: git source %q must be %q'' [od_ID def, os_Git src, ''head''])) (\<lambda>_.
            require (od_Type def = OutputString) (Errorf ''output %q: git source requires a %s output'' [od_ID def, ''string''])))
          else
            bindE (require (os_Artifact src \<in> contractArtifacts node)
              (Errorf ''output %q artifact source %q is not declared in the node's files completion contract'' [od_ID def, os_Artifact src])) (\<lambda>_.
            bindE (require (\<not> (os_Pointer src = '''' \<and> od_Type def \<noteq> OutputFile))
              (Errorf ''output %q: a whole-artifact source requires a %s output'' [od_ID def, ''file''])) (\<lambda>_.
            require (\<not> (os_Pointer src \<noteq> '''' \<and> od_Type def = OutputFile))
              (Errorf ''output %q: a pointer source requires a non-file output'' [od_ID def]))))"

definition validateOutputSources :: "node_definition \<Rightarrow> unit result" where
  "validateOutputSources node = checkAll (validateOutputSource node) (nd_Outputs node)"

definition validateAssignmentPermissionPolicy :: "assignment option \<Rightarrow> unit result" where
  "validateAssignmentPermissionPolicy assignment =
     (case assignment of
        None \<Rightarrow> Inr ()
      | Some a \<Rightarrow>
          (case as_PermissionPolicy a of
             None \<Rightarrow> Inr ()
           | Some policy \<Rightarrow>
               if as_AutoApprove a then Inl (Err ''assignment cannot declare both auto_approve and permission_policy'')
               else if pp_Decider policy \<noteq> '''' \<and> pp_DeciderModel policy \<noteq> None
               then Inl (Err ''assignment permission_policy cannot declare both decider and decider_model'')
               else if pp_Decider policy \<noteq> ''''
               then require (as_RosterFile a \<noteq> '''') (Err ''assignment permission_policy.decider requires roster_file'')
               else (case pp_DeciderModel policy of
                       Some m \<Rightarrow>
                         bindE (require (\<not> isBlank (pdm_Provider m)) (Err ''assignment permission_policy.decider_model.provider is required'')) (\<lambda>_.
                         require (\<not> isBlank (pdm_Model m)) (Err ''assignment permission_policy.decider_model.model is required''))
                     | None \<Rightarrow> Inl (Err ''assignment permission_policy must declare decider or decider_model''))))"


section \<open>Parameters, working directories and launch wrappers\<close>

definition asciiIn :: "nat \<Rightarrow> nat \<Rightarrow> char \<Rightarrow> bool" where
  "asciiIn lo hi c \<longleftrightarrow> lo \<le> of_char c \<and> of_char c \<le> hi"

definition isValidParamID :: "string \<Rightarrow> bool" where
  "isValidParamID name \<longleftrightarrow>
     name \<noteq> '''' \<and> length name \<le> 64 \<and>
     list_all (\<lambda>c. asciiIn 97 122 c \<or> asciiIn 65 90 c \<or> c = CHR ''_'' \<or> asciiIn 48 57 c) name \<and>
     \<not> asciiIn 48 57 (hd name)"

text \<open>The maps \<^verbatim>\<open>declared\<close> and \<^verbatim>\<open>required\<close> of a template's parameters.\<close>

definition declaredParam :: "template \<Rightarrow> string \<Rightarrow> bool" where
  "declaredParam t name \<longleftrightarrow> name \<in> tp_ID ` set (tm_Params t)"

definition requiredParam :: "template \<Rightarrow> string \<Rightarrow> bool" where
  "requiredParam t name \<longleftrightarrow>
     (case map_of (rev (map (\<lambda>p. (tp_ID p, tp_Required p)) (tm_Params t))) name of None \<Rightarrow> False | Some r \<Rightarrow> r)"

definition validateRefParam :: "template \<Rightarrow> string \<Rightarrow> string list \<Rightarrow> string \<Rightarrow> unit result" where
  "validateRefParam t place args name =
     bindE (require (\<not> isBlank name)
       (Errorf (''invalid workflow template: '' @ place @ '' working_directory.from_instance_param is required'') args)) (\<lambda>_.
     bindE (require (declaredParam t name)
       (Errorf (''invalid workflow template: '' @ place @ '' working_directory names undeclared instance param %q'') (args @ [name]))) (\<lambda>_.
     require (requiredParam t name)
       (Errorf (''invalid workflow template: '' @ place @ '' working_directory names instance param %q, which must be declared required'') (args @ [name]))))"

definition validateWorkingDirectoryRefs :: "template \<Rightarrow> unit result" where
  "validateWorkingDirectoryRefs t =
     bindE (case tm_WorkingDirectory t of
              None \<Rightarrow> Inr ()
            | Some ref \<Rightarrow> validateRefParam t ''template'' [] (wd_FromInstanceParam ref)) (\<lambda>_.
     checkAll (\<lambda>node. case nd_WorkingDirectory node of
                        None \<Rightarrow> Inr ()
                      | Some ref \<Rightarrow> validateRefParam t ''node %q'' [nd_ID node] (wd_FromInstanceParam ref)) (tm_Nodes t))"

fun argKindString :: "launch_wrapper_arg_kind \<Rightarrow> string" where
  "argKindString LaunchWrapperArgKindLiteral = ''literal''"
| "argKindString LaunchWrapperArgKindInstanceParam = ''instance_param''"
| "argKindString (LaunchWrapperArgKindOther s) = s"

definition validateWrapperArg :: "template \<Rightarrow> string \<Rightarrow> nat \<times> launch_wrapper_arg \<Rightarrow> unit result" where
  "validateWrapperArg t wid ia =
     (case ia of (index, arg) \<Rightarrow>
        let loc = [wid, natString index]; name = lwa_FromInstanceParam arg in
        case lwa_Type arg of
          LaunchWrapperArgKindLiteral \<Rightarrow>
            bindE (require (name = '''') (Errorf ''invalid workflow template: launch wrapper %q argv[%d] must not declare from_instance_param'' loc)) (\<lambda>_.
            bindE (require (lwa_Value arg \<noteq> '''') (Errorf ''invalid workflow template: launch wrapper %q argv[%d] literal value must not be empty'' loc)) (\<lambda>_.
            require (CHR 0x00 \<notin> set (lwa_Value arg)) (Errorf ''invalid workflow template: launch wrapper %q argv[%d] literal value must not contain NUL'' loc)))
        | LaunchWrapperArgKindInstanceParam \<Rightarrow>
            bindE (require (lwa_Value arg = '''') (Errorf ''invalid workflow template: launch wrapper %q argv[%d] must not declare value'' loc)) (\<lambda>_.
            bindE (require (\<not> isBlank name) (Errorf ''invalid workflow template: launch wrapper %q argv[%d].from_instance_param is required'' loc)) (\<lambda>_.
            bindE (require (declaredParam t name) (Errorf ''invalid workflow template: launch wrapper %q argv[%d] names undeclared instance param %q'' (loc @ [name]))) (\<lambda>_.
            require (requiredParam t name)
              (Errorf ''invalid workflow template: launch wrapper %q argv[%d] names instance param %q, which must be declared required'' (loc @ [name])))))
        | k \<Rightarrow> Inl (Errorf ''invalid workflow template: launch wrapper %q argv[%d] type %q is not a launch_wrapper_arg type'' (loc @ [argKindString k])))"

definition validateLaunchWrapperArgv :: "template \<Rightarrow> string \<Rightarrow> launch_wrapper_arg list \<Rightarrow> unit result" where
  "validateLaunchWrapperArgv t wid argv =
     bindE (require (argv \<noteq> []) (Errorf ''invalid workflow template: launch wrapper %q argv must not be empty'' [wid])) (\<lambda>_.
     bindE (checkAll (validateWrapperArg t wid) (enumerate 0 argv)) (\<lambda>_.
     require (lwa_Type (hd argv) = LaunchWrapperArgKindLiteral \<and> IsAbs (lwa_Value (hd argv)))
       (Errorf ''invalid workflow template: launch wrapper %q argv[0] must be a literal absolute executable path'' [wid])))"

definition validateLaunchWrappers :: "template \<Rightarrow> unit result" where
  "validateLaunchWrappers t =
     bindE (checkSeen (\<lambda>(_, w). lw_ID w) (\<lambda>seen (index, w).
         bindE (require (\<not> isBlank (lw_ID w))
           (Errorf ''invalid workflow template: launch_wrappers[%d]: launch wrapper ID is required'' [natString index])) (\<lambda>_.
         bindE (require (lw_ID w \<notin> set seen)
           (Errorf ''invalid workflow template: launch_wrappers declares %q twice'' [lw_ID w])) (\<lambda>_.
         validateLaunchWrapperArgv t (lw_ID w) (lw_Argv w)))) [] (enumerate 0 (tm_LaunchWrappers t))) (\<lambda>_.
     checkAll (\<lambda>node.
       if nd_LaunchWrapper node = '''' then Inr ()
       else bindE (require (ac_Kind (nd_Action node) \<in> {ActionRun, ActionLoop, ActionTeam})
              (Errorf ''invalid workflow template: node %q launch_wrapper requires a run, loop, or team action'' [nd_ID node])) (\<lambda>_.
            require (nd_LaunchWrapper node \<in> lw_ID ` set (tm_LaunchWrappers t))
              (Errorf ''invalid workflow template: node %q launch_wrapper names unknown launch wrapper %q'' [nd_ID node, nd_LaunchWrapper node])))
       (tm_Nodes t))"

definition validateTemplateParams :: "template \<Rightarrow> unit result" where
  "validateTemplateParams t =
     bindE (checkSeen tp_ID (\<lambda>seen p.
         bindE (require (isValidParamID (tp_ID p))
           (Errorf ''invalid workflow template: params[%q].id must be a path-safe identifier'' [tp_ID p])) (\<lambda>_.
         bindE (require (tp_ID p \<notin> set seen)
           (Errorf ''invalid workflow template: params declares %q twice'' [tp_ID p])) (\<lambda>_.
         require (tp_Type p = ''string'')
           (Errorf ''invalid workflow template: params[%q].type %q is not supported (only string)'' [tp_ID p, tp_Type p]))))
         [] (tm_Params t)) (\<lambda>_.
     bindE (checkAll (\<lambda>node.
         case nd_Dispatch node of
           None \<Rightarrow> Inr ()
         | Some p \<Rightarrow>
             (case dp_ConcurrencyKeyParams p of
                None \<Rightarrow> Inr ()
              | Some key \<Rightarrow>
                  bindE (require (\<not> isBlank (ck_FromInstanceParam key))
                    (Errorf ''invalid workflow template: node %q dispatch.concurrency_key.from_instance_param is required'' [nd_ID node])) (\<lambda>_.
                  require (declaredParam t (ck_FromInstanceParam key))
                    (Errorf ''invalid workflow template: node %q dispatch.concurrency_key names undeclared instance param %q''
                       [nd_ID node, ck_FromInstanceParam key])))) (tm_Nodes t)) (\<lambda>_.
     bindE (validateWorkingDirectoryRefs t) (\<lambda>_.
     validateLaunchWrappers t)))"

definition maxInstanceParamValueLength :: nat where
  "maxInstanceParamValueLength = 256"

definition validateParamValue :: "string \<Rightarrow> string \<Rightarrow> unit result" where
  "validateParamValue name v =
     bindE (require (v \<noteq> '''') (Errorf ''instance params: %q must not be empty'' [name])) (\<lambda>_.
     bindE (require (\<not> maxInstanceParamValueLength < length v)
       (Errorf ''instance params: %q exceeds %d characters'' [name, natString maxInstanceParamValueLength])) (\<lambda>_.
     require (list_all (\<lambda>c. \<not> (asciiIn 0 31 c \<or> asciiIn 127 127 c)) v)
       (Errorf ''instance params: %q must not contain control characters'' [name])))"

definition workingDirectoryParams :: "template \<Rightarrow> string \<Rightarrow> bool" where
  "workingDirectoryParams t name \<longleftrightarrow>
     name \<noteq> '''' \<and>
     (map_option wd_FromInstanceParam (tm_WorkingDirectory t) = Some name \<or>
      list_ex (\<lambda>node. map_option wd_FromInstanceParam (nd_WorkingDirectory node) = Some name) (tm_Nodes t))"

definition validateWorkingDirectoryParamValue :: "string \<Rightarrow> string \<Rightarrow> unit result" where
  "validateWorkingDirectoryParamValue name v =
     bindE (require (IsAbs v) (Errorf ''instance params: %q must be an absolute path (got %q)'' [name, v])) (\<lambda>_.
     require (v = Clean v)
       (Errorf ''instance params: %q must be a clean absolute path with no .. or redundant segments (got %q)'' [name, v]))"

definition validateInstanceParams :: "template \<Rightarrow> (string \<times> string) list \<Rightarrow> unit result" where
  "validateInstanceParams t params =
     (if params = [] \<and> tm_Params t = [] then Inr ()
      else
        bindE (checkAll (\<lambda>(name, v).
            bindE (require (declaredParam t name)
              (Errorf ''instance params: %q is not declared by template %s@%s'' [name, tm_TemplateID t, tm_TemplateVersion t])) (\<lambda>_.
            bindE (validateParamValue name v) (\<lambda>_.
            if workingDirectoryParams t name then validateWorkingDirectoryParamValue name v else Inr ()))) params) (\<lambda>_.
        checkAll (\<lambda>p.
            require (\<not> tp_Required p \<or> tp_ID p \<in> fst ` set params)
              (Errorf ''instance params: required param %q is missing'' [tp_ID p])) (tm_Params t)))"

section \<open>The whole template\<close>

definition validateTemplateNode :: "(raw \<Rightarrow> jtoken list) \<Rightarrow> nat \<times> node_definition \<Rightarrow> unit result" where
  "validateTemplateNode tokens im =
     (case im of (index, node) \<Rightarrow>
        let wrap = wrapE ''invalid workflow template: node %q: '' [nd_ID node] in
        bindE (require (\<not> isBlank (nd_ID node)) (Errorf ''invalid workflow template: nodes[%d].id is required'' [natString index])) (\<lambda>_.
        bindE (wrap (validateAction tokens (nd_Action node))) (\<lambda>_.
        bindE (wrap (validateDispatch (nd_Dispatch node) node)) (\<lambda>_.
        bindE (wrap (validateOutputSources node)) (\<lambda>_.
        bindE (require (\<not> ((case nd_Assignment node of None \<Rightarrow> False | Some a \<Rightarrow> as_Messaging a = Some True) \<and>
                           (ac_Kind (nd_Action node) = ActionLoop \<or> ac_Kind (nd_Action node) = ActionTeam)))
          (Errorf ''invalid workflow template: node %q: messaging is not supported for loop and team phases'' [nd_ID node])) (\<lambda>_.
        wrap (validateAssignmentPermissionPolicy (nd_Assignment node))))))))"

definition ValidateTemplate :: "(raw \<Rightarrow> jtoken list) \<Rightarrow> (raw \<Rightarrow> rat option) \<Rightarrow> template \<Rightarrow> unit result" where
  "ValidateTemplate tokens parseFloat t =
     bindE (checkAll validateFieldStatus (Check t)) (\<lambda>_.
     bindE (require (\<not> isBlank (tm_TemplateID t)) (Err ''invalid workflow template: template_id is required'')) (\<lambda>_.
     bindE (require (\<not> isBlank (tm_TemplateVersion t)) (Err ''invalid workflow template: template_version is required'')) (\<lambda>_.
     bindE (checkAll (validateTemplateNode tokens) (enumerate 0 (tm_Nodes t))) (\<lambda>_.
     bindE (validateTemplateParams t) (\<lambda>_.
     bindE (checkAll (\<lambda>(index, e). require (\<not> isBlank e)
       (Errorf ''invalid workflow template: entry_nodes[%d] is empty'' [natString index])) (enumerate 0 (tm_EntryNodes t))) (\<lambda>_.
     bindE (checkAll (\<lambda>(index, oc). require (\<not> isBlank oc)
       (Errorf ''invalid workflow template: terminal_outcomes[%d] is empty'' [natString index])) (enumerate 0 (tm_TerminalOutcomes t))) (\<lambda>_.
     ValidateGraph parseFloat t)))))))"

section \<open>Resolving for a launch\<close>

definition ResolveNodeWorkingDirectory :: "template \<Rightarrow> node_definition \<Rightarrow> (string \<times> string) list \<Rightarrow> string" where
  "ResolveNodeWorkingDirectory t node params =
     (let ref = (if nd_WorkingDirectory node = None then tm_WorkingDirectory t else nd_WorkingDirectory node) in
      case ref of
        None \<Rightarrow> ''''
      | Some r \<Rightarrow> if wd_FromInstanceParam r = '''' then '''' else goGet params (wd_FromInstanceParam r))"

definition launchWrapperArgValue :: "string \<Rightarrow> (string \<times> string) list \<Rightarrow> nat \<times> launch_wrapper_arg \<Rightarrow> string result" where
  "launchWrapperArgValue wid params ia =
     (case ia of (index, arg) \<Rightarrow>
        let loc = [wid, natString index] in
        bindE (case lwa_Type arg of
                 LaunchWrapperArgKindLiteral \<Rightarrow> Inr (lwa_Value arg)
               | LaunchWrapperArgKindInstanceParam \<Rightarrow>
                   (case map_of params (lwa_FromInstanceParam arg) of
                      None \<Rightarrow> Inl (Errorf ''launch wrapper %q: argv[%d] instance param %q is not supplied'' (loc @ [lwa_FromInstanceParam arg]))
                    | Some v \<Rightarrow> Inr v)
               | k \<Rightarrow> Inl (Errorf ''launch wrapper %q: argv[%d] type %q is not a launch_wrapper_arg type'' (loc @ [argKindString k]))) (\<lambda>v.
        if v = '''' then Inl (Errorf ''launch wrapper %q: argv[%d] resolved to an empty value'' loc)
        else if CHR 0x00 \<in> set v then Inl (Errorf ''launch wrapper %q: argv[%d] must not contain NUL'' loc)
        else Inr v))"

fun mapE :: "('a \<Rightarrow> 'b result) \<Rightarrow> 'a list \<Rightarrow> 'b list result" where
  "mapE f [] = Inr []"
| "mapE f (x # xs) = bindE (f x) (\<lambda>y. bindE (mapE f xs) (\<lambda>ys. Inr (y # ys)))"

definition ResolveNodeLaunchWrapper :: "template \<Rightarrow> node_definition \<Rightarrow> (string \<times> string) list \<Rightarrow> string list result" where
  "ResolveNodeLaunchWrapper t node params =
     (if nd_LaunchWrapper node = '''' then Inr []
      else case find (\<lambda>w. lw_ID w = nd_LaunchWrapper node) (tm_LaunchWrappers t) of
        None \<Rightarrow> Inl (Errorf ''launch wrapper %q: unknown launch wrapper'' [nd_LaunchWrapper node])
      | Some def \<Rightarrow>
          bindE (mapE (launchWrapperArgValue (nd_LaunchWrapper node) params) (enumerate 0 (lw_Argv def))) (\<lambda>argv.
            if argv = [] \<or> lwa_Type (hd (lw_Argv def)) \<noteq> LaunchWrapperArgKindLiteral \<or> \<not> IsAbs (hd argv)
            then Inl (Errorf ''launch wrapper %q: argv[0] must be a literal absolute executable path'' [nd_LaunchWrapper node])
            else Inr argv))"


section \<open>Clean paths\<close>

definition properSeg :: "string \<Rightarrow> bool" where
  "properSeg seg \<longleftrightarrow> seg \<notin> {'''', ''.'', ''..''} \<and> CHR ''/'' \<notin> set seg"

lemma splitSlash_noslash: "CHR ''/'' \<notin> set s \<Longrightarrow> splitSlash s = [s]"
  by (induction s) auto

lemma splitSlash_append: "CHR ''/'' \<notin> set s \<Longrightarrow> splitSlash (s @ CHR ''/'' # r) = s # splitSlash r"
  by (induction s) auto

lemma splitSlash_segs: "seg \<in> set (splitSlash s) \<Longrightarrow> CHR ''/'' \<notin> set seg"
  by (induction s arbitrary: seg) (auto split: if_splits list.splits)

lemma splitSlash_joinSlash:
  "segs \<noteq> [] \<Longrightarrow> \<forall>seg\<in>set segs. CHR ''/'' \<notin> set seg \<Longrightarrow> splitSlash (joinSlash segs) = segs"
  by (induction segs rule: joinSlash.induct) (auto simp: splitSlash_noslash splitSlash_append)

lemma cleanSegs_rooted:
  "\<forall>seg\<in>set out. properSeg seg \<Longrightarrow> \<forall>seg\<in>set segs. CHR ''/'' \<notin> set seg \<Longrightarrow>
   \<forall>seg\<in>set (cleanSegs True out segs). properSeg seg"
proof (induction segs arbitrary: out)
  case (Cons seg segs)
  have rest: "\<forall>seg\<in>set segs. CHR ''/'' \<notin> set seg" and ns: "CHR ''/'' \<notin> set seg" using Cons.prems(2) by auto
  show ?case
  proof (cases "properSeg seg")
    case True
    then have "\<forall>s\<in>set (seg # out). properSeg s" using Cons.prems(1) by simp
    with True Cons.IH[OF this rest] show ?thesis by (simp add: properSeg_def)
  next
    case False
    show ?thesis
    proof (cases out)
      case Nil
      then show ?thesis using Cons.IH[of "[]"] rest False ns by (simp add: properSeg_def) blast
    next
      case out: (Cons prev outs)
      then have prev: "prev \<noteq> ''..''" and outs: "\<forall>s\<in>set outs. properSeg s"
        using Cons.prems(1) by (simp_all add: properSeg_def)
      show ?thesis
        using Cons.IH[OF Cons.prems(1) rest] Cons.IH[OF outs rest] False ns prev
        by (simp add: out properSeg_def) blast
    qed
  qed
qed simp

lemma cleanSegs_proper: "\<forall>seg\<in>set segs. properSeg seg \<Longrightarrow> cleanSegs r out segs = rev out @ segs"
  by (induction segs arbitrary: out) (auto simp: properSeg_def)

lemma Clean_proper:
  assumes "\<forall>seg\<in>set segs. properSeg seg"
  shows "Clean (CHR ''/'' # joinSlash segs) = CHR ''/'' # joinSlash segs"
proof (cases "segs = []")
  case False
  then have "splitSlash (joinSlash segs) = segs"
    using assms by (intro splitSlash_joinSlash) (auto simp: properSeg_def)
  then show ?thesis using cleanSegs_proper[OF assms, of True "[]"] by (simp add: Clean_def)
qed (simp add: Clean_def)

text \<open>
  Clean working directories. A parameter value is accepted as a working directory exactly when
  it is an absolute path spelled by proper segments: none is empty, a dot or a double dot.
\<close>

theorem working_directory_value_exact:
  "validateWorkingDirectoryParamValue name v = Inr () \<longleftrightarrow>
     (\<exists>segs. v = CHR ''/'' # joinSlash segs \<and> list_all properSeg segs)"
  unfolding list_all_iff
proof
  assume "validateWorkingDirectoryParamValue name v = Inr ()"
  then have abs: "v \<noteq> []" "hd v = CHR ''/''" and cl: "v = Clean v"
    by (auto simp: validateWorkingDirectoryParamValue_def check_simps IsAbs_def)
  let ?segs = "cleanSegs True [] (splitSlash v)"
  have "\<forall>seg\<in>set ?segs. properSeg seg" by (rule cleanSegs_rooted) (auto dest: splitSlash_segs)
  moreover have "v = CHR ''/'' # joinSlash ?segs" using abs by (subst cl) (simp add: Clean_def)
  ultimately show "\<exists>segs. v = CHR ''/'' # joinSlash segs \<and> (\<forall>seg\<in>set segs. properSeg seg)" by blast
next
  assume "\<exists>segs. v = CHR ''/'' # joinSlash segs \<and> (\<forall>seg\<in>set segs. properSeg seg)"
  then show "validateWorkingDirectoryParamValue name v = Inr ()"
    by (auto simp: validateWorkingDirectoryParamValue_def check_simps IsAbs_def Clean_proper)
qed

section \<open>Validated templates resolve\<close>

lemma ValidateTemplate_params:
  "ValidateTemplate tokens pf t = Inr () \<Longrightarrow> validateWorkingDirectoryRefs t = Inr () \<and> validateLaunchWrappers t = Inr ()"
  by (simp add: ValidateTemplate_def validateTemplateParams_def seq_ok)

lemma ValidateTemplate_distinct_params:
  assumes "ValidateTemplate tokens pf t = Inr ()"
  shows "distinct (map tp_ID (tm_Params t))"
proof -
  have "checkSeen tp_ID (\<lambda>seen p.
         bindE (require (isValidParamID (tp_ID p))
           (Errorf ''invalid workflow template: params[%q].id must be a path-safe identifier'' [tp_ID p])) (\<lambda>_.
         bindE (require (tp_ID p \<notin> set seen)
           (Errorf ''invalid workflow template: params declares %q twice'' [tp_ID p])) (\<lambda>_.
         require (tp_Type p = ''string'')
           (Errorf ''invalid workflow template: params[%q].type %q is not supported (only string)'' [tp_ID p, tp_Type p]))))
         [] (tm_Params t) = Inr ()"
    using assms by (simp add: ValidateTemplate_def validateTemplateParams_def seq_ok)
  then show ?thesis
    by (subst (asm) checkSeen_ok[where P = "\<lambda>p. isValidParamID (tp_ID p) \<and> tp_Type p = ''string''"]) (auto simp: check_simps)
qed

text \<open>A required parameter of an accepted template is supplied with an accepted value.\<close>

lemma required_supplied:
  assumes "requiredParam t name" and "validateInstanceParams t params = Inr ()"
  obtains v where "map_of params name = Some v" and "validateParamValue name v = Inr ()"
    and "workingDirectoryParams t name \<Longrightarrow> validateWorkingDirectoryParamValue name v = Inr ()"
proof -
  obtain p where p: "p \<in> set (tm_Params t)" "tp_ID p = name" "tp_Required p"
    using assms(1) by (auto simp: requiredParam_def split: option.splits dest!: map_of_SomeD)
  then have "tm_Params t \<noteq> []" by auto
  then have all: "\<forall>(n, v)\<in>set params. validateParamValue n v = Inr () \<and>
      (workingDirectoryParams t n \<longrightarrow> validateWorkingDirectoryParamValue n v = Inr ())"
    and req: "\<forall>p\<in>set (tm_Params t). \<not> tp_Required p \<or> tp_ID p \<in> fst ` set params"
    using assms(2) by (auto simp: validateInstanceParams_def check_simps split_beta)
  from req p have "name \<in> fst ` set params" by auto
  then have "map_of params name \<noteq> None" by (simp add: map_of_eq_None_iff)
  then obtain v where v: "map_of params name = Some v" by blast
  then have "(name, v) \<in> set params" by (rule map_of_SomeD)
  with all v that show thesis by auto
qed


text \<open>
  Working directories resolve. On an accepted template with accepted parameters, a node that
  declares a working directory, itself or through the template, resolves to a clean absolute path.
\<close>

theorem working_directory_resolves:
  assumes "ValidateTemplate tokens pf t = Inr ()" and "validateInstanceParams t params = Inr ()"
    and "node \<in> set (tm_Nodes t)"
  shows "let d = ResolveNodeWorkingDirectory t node params in
    if nd_WorkingDirectory node = None \<and> tm_WorkingDirectory t = None then d = ''''
    else IsAbs d \<and> Clean d = d"
proof (cases "nd_WorkingDirectory node = None \<and> tm_WorkingDirectory t = None")
  case False
  define r where "r = (if nd_WorkingDirectory node = None then the (tm_WorkingDirectory t) else the (nd_WorkingDirectory node))"
  have ref: "(if nd_WorkingDirectory node = None then tm_WorkingDirectory t else nd_WorkingDirectory node) = Some r"
    using False by (auto simp: r_def)
  let ?n = "wd_FromInstanceParam r"
  have nb: "\<not> isBlank ?n" and req: "requiredParam t ?n"
    using ValidateTemplate_params[OF assms(1)] assms(3) ref
    by (auto simp: validateWorkingDirectoryRefs_def validateRefParam_def check_simps split: if_splits option.splits)
  have "?n \<noteq> []" using nb by auto
  moreover have "workingDirectoryParams t ?n"
    using ref assms(3) calculation by (auto simp: workingDirectoryParams_def list_ex_iff split: if_splits)
  moreover obtain v where "map_of params ?n = Some v"
    and "workingDirectoryParams t ?n \<Longrightarrow> validateWorkingDirectoryParamValue ?n v = Inr ()"
    using required_supplied[OF req assms(2)] by metis
  ultimately show ?thesis
    using False ref
    by (auto simp: ResolveNodeWorkingDirectory_def goGet_def validateWorkingDirectoryParamValue_def check_simps Let_def)
qed (simp add: ResolveNodeWorkingDirectory_def)

lemma mapE_ok:
  assumes "\<And>x. x \<in> set xs \<Longrightarrow> \<exists>y. f x = Inr y \<and> P x y"
  shows "\<exists>ys. mapE f xs = Inr ys \<and> list_all2 P xs ys"
  using assms
proof (induction xs)
  case (Cons x xs)
  obtain y where "f x = Inr y" "P x y" using Cons.prems[of x] by auto
  moreover obtain ys where "mapE f xs = Inr ys" "list_all2 P xs ys" using Cons by auto
  ultimately show ?case by auto
qed simp

text \<open>An argument that survives the launch: not empty and without NUL, which the process interface
  would reject.\<close>

definition launchable :: "string \<Rightarrow> bool" where
  "launchable a \<longleftrightarrow> a \<noteq> '''' \<and> CHR 0x00 \<notin> set a"

lemma param_launchable: "validateParamValue name v = Inr () \<Longrightarrow> launchable v"
  by (auto simp: validateParamValue_def check_simps launchable_def list_all_iff asciiIn_def)

lemma wrapper_arg_resolves:
  assumes "validateWrapperArg t wid (i, arg) = Inr ()" and "validateInstanceParams t params = Inr ()"
  shows "\<exists>v. launchWrapperArgValue wid' params (i, arg) = Inr v \<and> launchable v \<and>
    (lwa_Type arg = LaunchWrapperArgKindLiteral \<longrightarrow> v = lwa_Value arg)"
proof (cases "lwa_Type arg")
  case LaunchWrapperArgKindInstanceParam
  then have "requiredParam t (lwa_FromInstanceParam arg)"
    using assms(1) by (simp add: validateWrapperArg_def Let_def check_simps)
  then obtain v where "map_of params (lwa_FromInstanceParam arg) = Some v"
    "validateParamValue (lwa_FromInstanceParam arg) v = Inr ()"
    using required_supplied[OF _ assms(2)] by metis
  with LaunchWrapperArgKindInstanceParam param_launchable[of _ v] show ?thesis
    by (auto simp: launchWrapperArgValue_def launchable_def)
qed (use assms(1) in \<open>auto simp: validateWrapperArg_def launchWrapperArgValue_def launchable_def Let_def check_simps\<close>)


lemma bindE_Inr: "bindE r Inr = r"
  by (cases r) simp_all

lemma validateLaunchWrappers_argv:
  assumes "validateLaunchWrappers t = Inr ()" and "w \<in> set (tm_LaunchWrappers t)"
  shows "validateLaunchWrapperArgv t (lw_ID w) (lw_Argv w) = Inr ()"
proof -
  let ?P = "\<lambda>(_ :: nat, w). \<not> isBlank (lw_ID w) \<and> validateLaunchWrapperArgv t (lw_ID w) (lw_Argv w) = Inr ()"
  have "\<forall>x\<in>set (enumerate 0 (tm_LaunchWrappers t)). ?P x"
    using assms(1) unfolding validateLaunchWrappers_def seq_ok
    by (subst (asm) checkSeen_ok[where P = ?P]) (auto simp: check_simps bindE_Inr)
  then have "\<forall>x\<in>set (enumerate 0 (tm_LaunchWrappers t)). validateLaunchWrapperArgv t (lw_ID (snd x)) (lw_Argv (snd x)) = Inr ()"
    by auto
  then show ?thesis using assms(2) by (subst (asm) enumerate_all) auto
qed

text \<open>
  Launch wrappers resolve. On an accepted template with accepted parameters, the launch wrapper
  of every node resolves: to nothing when none is selected, otherwise to a non-empty argument
  vector that starts with an absolute executable path and has no empty or NUL argument.
\<close>

theorem launch_wrapper_resolves:
  assumes "ValidateTemplate tokens pf t = Inr ()" and "validateInstanceParams t params = Inr ()"
    and "node \<in> set (tm_Nodes t)"
  shows "\<exists>argv. ResolveNodeLaunchWrapper t node params = Inr argv \<and>
    (if nd_LaunchWrapper node = '''' then argv = []
     else argv \<noteq> [] \<and> IsAbs (hd argv) \<and> (\<forall>a\<in>set argv. launchable a))"
proof (cases "nd_LaunchWrapper node = ''''")
  case False
  have lw: "validateLaunchWrappers t = Inr ()" using ValidateTemplate_params[OF assms(1)] ..
  then have "nd_LaunchWrapper node \<in> lw_ID ` set (tm_LaunchWrappers t)"
    using assms(3) False by (auto simp: validateLaunchWrappers_def check_simps)
  then have "find (\<lambda>w. lw_ID w = nd_LaunchWrapper node) (tm_LaunchWrappers t) \<noteq> None" by (auto simp: find_None_iff)
  then obtain w where w: "find (\<lambda>w. lw_ID w = nd_LaunchWrapper node) (tm_LaunchWrappers t) = Some w" by blast
  then have wm: "w \<in> set (tm_LaunchWrappers t)" by (auto simp: find_Some_iff)
  have argv: "validateLaunchWrapperArgv t (lw_ID w) (lw_Argv w) = Inr ()"
    using validateLaunchWrappers_argv[OF lw wm] .
  then have ne: "lw_Argv w \<noteq> []" and hd: "lwa_Type (hd (lw_Argv w)) = LaunchWrapperArgKindLiteral" "IsAbs (lwa_Value (hd (lw_Argv w)))"
    and args: "\<forall>ia\<in>set (enumerate 0 (lw_Argv w)). validateWrapperArg t (lw_ID w) ia = Inr ()"
    by (auto simp: validateLaunchWrapperArgv_def check_simps)
  let ?P = "\<lambda>(i :: nat, arg) v. launchable v \<and> (lwa_Type arg = LaunchWrapperArgKindLiteral \<longrightarrow> v = lwa_Value arg)"
  obtain vs where vs: "mapE (launchWrapperArgValue (nd_LaunchWrapper node) params) (enumerate 0 (lw_Argv w)) = Inr vs"
    "list_all2 ?P (enumerate 0 (lw_Argv w)) vs"
    using mapE_ok[of "enumerate 0 (lw_Argv w)" "launchWrapperArgValue (nd_LaunchWrapper node) params" ?P]
      args wrapper_arg_resolves[OF _ assms(2)] by fastforce
  obtain x xs where xs: "lw_Argv w = x # xs" using ne by (cases "lw_Argv w") auto
  with vs(2) obtain v vs' where v: "vs = v # vs'" "v = lwa_Value x" using hd(1) by (cases vs) auto
  have "\<forall>a\<in>set vs. launchable a"
    using vs(2) by (auto simp: list_all2_conv_all_nth in_set_conv_nth split_beta)
  with False w vs(1) v hd xs show ?thesis by (auto simp: ResolveNodeLaunchWrapper_def)
qed (simp add: ResolveNodeLaunchWrapper_def)

section \<open>An accepted template\<close>

definition demoAction :: action where
  "demoAction = \<lparr>ac_Kind = ActionRun, ac_Run = Some \<lparr>ra_Prompt = ''go'', ra_PromptFile = '''', ra_Timeout = 60\<rparr>,
     ac_Loop = None, ac_Team = None, ac_Manual = None, ac_External = None, ac_Workflow = None\<rparr>"

definition demoNode :: node_definition where
  "demoNode = \<lparr>nd_ID = ''build'', nd_Name = ''build'', nd_Dependencies = [], nd_Outcomes = [],
     nd_Branches = [(''built'', ''review'')], nd_Action = demoAction, nd_Assignment = None, nd_Completion = None,
     nd_Outputs = [], nd_Gates = [], nd_RetryPolicy = None, nd_LoopID = '''', nd_Checkpoint = None,
     nd_LeasePolicy = None, nd_Dispatch = None, nd_WorkingDirectory = Some \<lparr>wd_FromInstanceParam = ''dir''\<rparr>,
     nd_LaunchWrapper = ''box'', nd_SkipRule = None, nd_WaiveRules = []\<rparr>"

definition demoTemplate :: template where
  "demoTemplate = \<lparr>tm_SchemaVersion = 1, tm_TemplateID = ''t'', tm_TemplateVersion = ''1'', tm_Metadata = [],
     tm_EntryNodes = [''build''],
     tm_Nodes = [demoNode, demoNode\<lparr>nd_ID := ''review'', nd_Dependencies := [''build''], nd_Branches := [],
       nd_LaunchWrapper := '''', nd_WorkingDirectory := None\<rparr>],
     tm_TerminalOutcomes = [''ok''], tm_BoundedLoops = [], tm_DefaultLease = None, tm_DefaultRetry = None,
     tm_WorkingDirectory = None,
     tm_LaunchWrappers = [\<lparr>lw_ID = ''box'', lw_Argv =
       [\<lparr>lwa_Type = LaunchWrapperArgKindLiteral, lwa_Value = ''/bin/env'', lwa_FromInstanceParam = ''''\<rparr>,
        \<lparr>lwa_Type = LaunchWrapperArgKindInstanceParam, lwa_Value = '''', lwa_FromInstanceParam = ''dir''\<rparr>]\<rparr>],
     tm_CompositionLimits = None,
     tm_Params = [\<lparr>tp_ID = ''dir'', tp_Type = ''string'', tp_Required = True\<rparr>]\<rparr>"

definition demoParams :: "(string \<times> string) list" where
  "demoParams = [(''dir'', ''/work/tree'')]"

lemma demo_template_accepted: "ValidateTemplate (\<lambda>_. []) (\<lambda>_. None) demoTemplate = Inr ()"
  by code_simp

lemma demo_params_accepted: "validateInstanceParams demoTemplate demoParams = Inr ()"
  by code_simp

lemma demoNode_in: "demoNode \<in> set (tm_Nodes demoTemplate)"
  by (simp add: demoTemplate_def)

theorem working_directory_resolves_witness:
  "ResolveNodeWorkingDirectory demoTemplate demoNode demoParams = ''/work/tree'' \<and> IsAbs ''/work/tree''"
proof -
  have d: "ResolveNodeWorkingDirectory demoTemplate demoNode demoParams = ''/work/tree''" by code_simp
  have n: "nd_WorkingDirectory demoNode \<noteq> None" by (simp add: demoNode_def)
  show ?thesis
    using working_directory_resolves[OF demo_template_accepted demo_params_accepted demoNode_in] d n by (simp add: Let_def)
qed

theorem launch_wrapper_resolves_witness:
  "\<exists>argv. ResolveNodeLaunchWrapper demoTemplate demoNode demoParams = Inr argv \<and> argv \<noteq> [] \<and> IsAbs (hd argv)"
proof -
  have n: "nd_LaunchWrapper demoNode \<noteq> ''''" by (simp add: demoNode_def)
  show ?thesis
    using launch_wrapper_resolves[OF demo_template_accepted demo_params_accepted demoNode_in] n by auto
qed

end
