(* ===== verification/Wf_Manager.thy ===== *)
theory Wf_Manager
  imports Wf_Durability Wf_Template "HOL-Library.Char_ord" "HOL-Library.List_Lexorder"
begin

text \<open>
  The workflow manager (\<^verbatim>\<open>manager.go\<close>, \<^verbatim>\<open>dispatch.go\<close>, \<^verbatim>\<open>heartbeat.go\<close>, \<^verbatim>\<open>cancel.go\<close>): the state it
  keeps over the store, its reads and commits, and the operations that plan a command on a snapshot
  they read and commit it under the revision they saw. A payload argument is the result of decoding
  the request; an answer is a record of the fields the code returns.

  Other processes and other goroutines use the same store between two accesses of one operation.
  Every access of an operation (a read or a commit) therefore has a number, and the argument
  \<open>ce_Others n\<close> is what all the others do to the shared state right before access \<open>n\<close>.
\<close>

section \<open>State and environment\<close>

text \<open>
  The instance directories, the candidate index with its supervisor id and recovery flag, and the
  change subscribers: each has a channel of capacity one, of which only "signalled" matters.
\<close>

record mgr =
  mg_Disk :: "(string \<times> instance_files) list"
  mg_Candidates :: "(string \<times> snapshot) list"
  mg_Super :: string
  mg_CandidatesOK :: bool
  mg_Subscribers :: "(nat \<times> bool) list"

type_synonym 'a op = "mgr \<Rightarrow> 'a result \<times> mgr"

record executor_context =
  ec_WorkflowID :: string
  ec_NodeID :: string
  ec_ActivationID :: string
  ec_AttemptID :: string
  ec_LeaseID :: string
  ec_OwnerToken :: string
  ec_LeaseTTL :: int64
  ec_Action :: action
  ec_Selection :: "execution_selection option"
  ec_WorkingDirectory :: string
  ec_LaunchWrapper :: "string list"

text \<open>
  What the manager uses and this development does not define: template loading, SHA-256 in
  hexadecimal, the JSON encoders of transitions and subjects, and the registered executors.
\<close>

record manager_env =
  me_Store :: store_env
  me_LoadTemplate :: "string \<Rightarrow> string \<Rightarrow> template result"
  me_Sha256Hex :: "string \<Rightarrow> string"
  me_EncTransition :: "transition \<Rightarrow> raw"
  me_EncSubject :: "subject \<Rightarrow> raw"
  me_Executors :: "action_kind \<Rightarrow> (executor_context \<Rightarrow> mgr \<Rightarrow> unit result \<times> mgr) option"

text \<open>
  What one call draws from outside: the ids it mints itself and the ones of its commands, the
  owner token, its clock readings, what the store mints at each commit, and the interference.
\<close>

record call_env =
  ce_Ids :: minted
  ce_Commands :: minted
  ce_Token :: string
  ce_Now :: "nat \<Rightarrow> gotime"
  ce_Store :: "nat \<Rightarrow> minted"
  ce_Others :: "nat \<Rightarrow> mgr \<Rightarrow> mgr"

definition NewCommandID :: "minted \<Rightarrow> nat \<Rightarrow> string" where
  "NewCommandID = newID ''wfc''"

definition NewLeaseID :: "minted \<Rightarrow> nat \<Rightarrow> string" where
  "NewLeaseID = newID ''lease''"

definition NewGateInstanceID :: "minted \<Rightarrow> nat \<Rightarrow> string" where
  "NewGateInstanceID = newID ''gate''"

definition NewOutputID :: "minted \<Rightarrow> nat \<Rightarrow> string" where
  "NewOutputID = newID ''out''"

definition ownerTokenDigest :: "manager_env \<Rightarrow> string \<Rightarrow> string" where
  "ownerTokenDigest me token = ''sha256:'' @ me_Sha256Hex me token"

definition bindM :: "'a op \<Rightarrow> ('a \<Rightarrow> 'b op) \<Rightarrow> 'b op" where
  "bindM f g m = (case f m of (Inl e, m') \<Rightarrow> (Inl e, m') | (Inr x, m') \<Rightarrow> g x m')"

definition liftM :: "'a result \<Rightarrow> 'a op" where
  "liftM r m = (r, m)"

lemma bindM_simps [simp]:
  "f m = (Inl e, m') \<Longrightarrow> bindM f g m = (Inl e, m')"
  "f m = (Inr x, m') \<Longrightarrow> bindM f g m = g x m'"
  "bindM (liftM (Inl e)) g = liftM (Inl e)"
  "bindM (liftM (Inr x)) g = g x"
  by (auto simp: bindM_def liftM_def fun_eq_iff)

lemma liftM_app [simp]: "liftM r m = (r, m)"
  by (simp add: liftM_def)

section \<open>The candidate index and its subscribers (manager.go)\<close>

definition notifySubscribers :: "mgr \<Rightarrow> mgr" where
  "notifySubscribers m = m\<lparr>mg_Subscribers := map (\<lambda>(c, _). (c, True)) (mg_Subscribers m)\<rparr>"

definition SubscribeChanges :: "mgr \<Rightarrow> nat \<times> mgr" where
  "SubscribeChanges m =
     (let ch = Suc (Max (insert 0 (set (map fst (mg_Subscribers m)))))
      in (ch, m\<lparr>mg_Subscribers := mg_Subscribers m @ [(ch, False)]\<rparr>))"

definition cancelSubscription :: "nat \<Rightarrow> mgr \<Rightarrow> mgr" where
  "cancelSubscription ch m =
     (case findIdx (\<lambda>(c, _). c = ch) (mg_Subscribers m) of
        None \<Rightarrow> m
      | Some i \<Rightarrow> m\<lparr>mg_Subscribers := take i (mg_Subscribers m) @ drop (Suc i) (mg_Subscribers m)\<rparr>)"

definition observeCommit :: "string \<Rightarrow> snapshot \<Rightarrow> mgr \<Rightarrow> mgr" where
  "observeCommit wid snap m =
     notifySubscribers
       (if mg_CandidatesOK m then
          (case map_of (mg_Candidates m) wid of
             Some cur \<Rightarrow>
               if inst_Revision (snap_Instance cur) > inst_Revision (snap_Instance snap) then m
               else m\<lparr>mg_Candidates := mapPut wid snap (mg_Candidates m)\<rparr>
           | None \<Rightarrow> m\<lparr>mg_Candidates := mapPut wid snap (mg_Candidates m)\<rparr>)
        else m)"

definition RebuildCandidateIndex :: "(string \<times> snapshot) list \<Rightarrow> string \<Rightarrow> mgr \<Rightarrow> mgr" where
  "RebuildCandidateIndex catalog supervisorID m =
     m\<lparr>mg_Candidates := foldl (\<lambda>es (wid, snap). mapPut wid snap es) [] catalog,
       mg_Super := supervisorID, mg_CandidatesOK := True\<rparr>"

definition MarkCandidateIndexEmpty :: "string \<Rightarrow> mgr \<Rightarrow> mgr" where
  "MarkCandidateIndexEmpty supervisorID m =
     m\<lparr>mg_Candidates := [], mg_Super := supervisorID, mg_CandidatesOK := True\<rparr>"

section \<open>Accesses to the store\<close>

definition noFiles :: instance_files where
  "noFiles = \<lparr>sf_Snapshot = None, sf_Log = ''''\<rparr>"

definition files :: "mgr \<Rightarrow> string \<Rightarrow> instance_files" where
  "files m wid = (case map_of (mg_Disk m) wid of None \<Rightarrow> noFiles | Some fs \<Rightarrow> fs)"

definition putFiles :: "string \<Rightarrow> instance_files \<Rightarrow> mgr \<Rightarrow> mgr" where
  "putFiles wid fs m = m\<lparr>mg_Disk := mapPut wid fs (mg_Disk m)\<rparr>"

text \<open>\<^verbatim>\<open>Store.loadCurrent\<close>: a read of a missing instance creates nothing.\<close>

definition readCurrent :: "manager_env \<Rightarrow> call_env \<Rightarrow> nat \<Rightarrow> string \<Rightarrow> (snapshot \<times> bool) op" where
  "readCurrent me ce n wid m0 =
     (let m = ce_Others ce n m0 in
      case map_of (mg_Disk m) wid of
        None \<Rightarrow> (Inr (zeroSnapshot, False), m)
      | Some fs \<Rightarrow> (case loadCurrent (me_Store me) fs of (r, fs') \<Rightarrow> (r, putFiles wid fs' m)))"

text \<open>
  \<^verbatim>\<open>Store.ApplyCommand\<close>: the directory is created, the command runs under the lock, and a committed
  snapshot goes to the commit observer.
\<close>

definition ApplyCommand :: "manager_env \<Rightarrow> call_env \<Rightarrow> nat \<Rightarrow> string \<Rightarrow> command \<Rightarrow> snapshot op" where
  "ApplyCommand me ce n wid cmd m0 =
     (let m = ce_Others ce n m0 in
      case applyLocked (me_Store me) (ce_Store ce n) wid (files m wid) cmd of
        (Inl e, fs') \<Rightarrow> (Inl e, putFiles wid fs' m)
      | (Inr snap, fs') \<Rightarrow> (Inr snap, observeCommit wid snap (putFiles wid fs' m)))"

lemma files_putFiles [simp]: "files (putFiles wid fs m) wid' = (if wid' = wid then fs else files m wid')"
  by (simp add: files_def putFiles_def)

lemma files_notify [simp]: "files (notifySubscribers m) = files m"
  by (simp add: files_def notifySubscribers_def fun_eq_iff)

lemma files_observeCommit [simp]: "files (observeCommit wid snap m) = files m"
  by (auto simp: observeCommit_def files_def notifySubscribers_def fun_eq_iff split: option.splits)

definition loadExisting :: "manager_env \<Rightarrow> call_env \<Rightarrow> nat \<Rightarrow> string \<Rightarrow> snapshot op" where
  "loadExisting me ce n wid =
     bindM (readCurrent me ce n wid) (\<lambda>(snap, exists).
       if exists then liftM (Inr snap) else liftM (Inl (Errorf ''workflow not found: %s'' [wid])))"

text \<open>The activation a request names, and its node in the instance's template.\<close>

definition targetActivation :: "snapshot \<Rightarrow> string \<Rightarrow> string \<Rightarrow> nat result" where
  "targetActivation snap nodeID activationID =
     bindE (findActivation (snap_Instance snap) nodeID activationID) (\<lambda>a.
       case a of None \<Rightarrow> Inl (Errorf ''activation not found for node %q'' [nodeID]) | Some i \<Rightarrow> Inr i)"

definition templateFor :: "manager_env \<Rightarrow> snapshot \<Rightarrow> template result" where
  "templateFor me snap =
     me_LoadTemplate me (inst_TemplateID (snap_Instance snap)) (inst_TemplateVersion (snap_Instance snap))"

fun isTerminalStatus :: "workflow_status \<Rightarrow> bool" where
  "isTerminalStatus WorkflowCompleted = True"
| "isTerminalStatus WorkflowFailed = True"
| "isTerminalStatus WorkflowCanceled = True"
| "isTerminalStatus _ = False"

section \<open>The bounded retry\<close>

text \<open>
  The loop that \<^verbatim>\<open>RecordAttemptTermination\<close>, \<^verbatim>\<open>FinalizeDispatch\<close>, \<^verbatim>\<open>commandHeartbeat\<close>,
  \<^verbatim>\<open>WorkflowCancel\<close>, \<^verbatim>\<open>commandUnblock\<close>, \<^verbatim>\<open>commandComplete\<close>, \<^verbatim>\<open>applyGateDecision\<close> and
  \<^verbatim>\<open>ParkExternal\<close> each write out: read the current snapshot, decide (an early answer, or a command
  that expects the revision just read), commit. A revision mismatch starts the next attempt, a
  duplicate idempotency key is answered by \<open>onDup\<close>, any other error is final; there are four
  attempts. Attempt \<open>k\<close> uses the accesses \<open>b + 2 * k\<close> (read) and \<open>b + 2 * k + 1\<close> (commit).
\<close>

definition attemptCommand ::
  "manager_env \<Rightarrow> call_env \<Rightarrow> string \<Rightarrow> nat \<Rightarrow> (nat \<Rightarrow> snapshot \<Rightarrow> ('a + command) result) \<Rightarrow>
   (snapshot \<Rightarrow> snapshot \<Rightarrow> 'a) \<Rightarrow> 'a op \<Rightarrow> nat \<Rightarrow> 'a option op" where
  "attemptCommand me ce wid b plan onOk onDup k =
     bindM (loadExisting me ce (b + 2 * k) wid) (\<lambda>fresh.
       bindM (liftM (plan k fresh)) (\<lambda>p m.
         case p of
           Inl x \<Rightarrow> (Inr (Some x), m)
         | Inr cmd \<Rightarrow>
             (case ApplyCommand me ce (b + 2 * k + 1) wid cmd m of
                (Inr result, m') \<Rightarrow> (Inr (Some (onOk fresh result)), m')
              | (Inl e, m') \<Rightarrow>
                  if e = ErrDuplicateIdempotency then bindM onDup (\<lambda>x. liftM (Inr (Some x))) m'
                  else if e = ErrRevisionMismatch then (Inr None, m')
                  else (Inl e, m'))))"

fun retryFrom :: "nat \<Rightarrow> nat \<Rightarrow> (nat \<Rightarrow> 'a option op) \<Rightarrow> error \<Rightarrow> 'a op" where
  "retryFrom 0 k step exhausted = liftM (Inl exhausted)"
| "retryFrom (Suc left) k step exhausted =
     bindM (step k) (\<lambda>r. case r of Some x \<Rightarrow> liftM (Inr x) | None \<Rightarrow> retryFrom left (Suc k) step exhausted)"

definition maxAttempts :: nat where
  "maxAttempts = 4"

definition retryCommand ::
  "manager_env \<Rightarrow> call_env \<Rightarrow> string \<Rightarrow> nat \<Rightarrow> (nat \<Rightarrow> snapshot \<Rightarrow> ('a + command) result) \<Rightarrow>
   (snapshot \<Rightarrow> snapshot \<Rightarrow> 'a) \<Rightarrow> 'a op \<Rightarrow> error \<Rightarrow> 'a op" where
  "retryCommand me ce wid b plan onOk onDup exhausted =
     retryFrom maxAttempts 0 (attemptCommand me ce wid b plan onOk onDup) exhausted"

section \<open>Attempts: termination and identification\<close>

record attempt_termination =
  te_Status :: attempt_status
  te_MarkerKind :: string
  te_MarkerLabel :: string
  te_WorkingDirectory :: string

definition terminateCommand ::
  "call_env \<Rightarrow> string \<Rightarrow> string \<Rightarrow> string \<Rightarrow> string \<Rightarrow> string \<Rightarrow> attempt_termination \<Rightarrow> nat \<Rightarrow> snapshot \<Rightarrow> command" where
  "terminateCommand ce wid nodeID activationID attemptID leaseID t k snap =
     zeroCommand\<lparr>cmd_ID := NewCommandID (ce_Commands ce) k, cmd_Kind := CommandTerminate,
       cmd_ExpectedRevision := inst_Revision (snap_Instance snap),
       cmd_IdempotencyKey := ''terminate-'' @ attemptID,
       cmd_Identity := zeroIdentity\<lparr>id_WorkflowID := wid, id_NodeID := nodeID,
         id_ActivationID := activationID, id_AttemptID := attemptID\<rparr>,
       cmd_LeaseID := leaseID, cmd_AttemptStatus := te_Status t, cmd_MarkerKind := te_MarkerKind t,
       cmd_MarkerLabel := te_MarkerLabel t, cmd_WorkingDirectory := te_WorkingDirectory t\<rparr>"

definition RecordAttemptTermination ::
  "manager_env \<Rightarrow> call_env \<Rightarrow> string \<Rightarrow> string \<Rightarrow> string \<Rightarrow> string \<Rightarrow> string \<Rightarrow> attempt_termination \<Rightarrow> unit op" where
  "RecordAttemptTermination me ce wid nodeID activationID attemptID leaseID t =
     (if te_Status t = AttemptOther '''' then liftM (Inl (Err ''attempt termination status is required''))
      else retryCommand me ce wid 0
        (\<lambda>k snap. Inr (Inr (terminateCommand ce wid nodeID activationID attemptID leaseID t k snap)))
        (\<lambda>_ _. ()) (liftM (Inr ()))
        (Errorf ''terminate attempt %s: revision kept moving under concurrent commands'' [attemptID]))"

definition RecordAttemptTerminated ::
  "manager_env \<Rightarrow> call_env \<Rightarrow> string \<Rightarrow> string \<Rightarrow> string \<Rightarrow> string \<Rightarrow> string \<Rightarrow> attempt_status \<Rightarrow> string list \<Rightarrow> unit op" where
  "RecordAttemptTerminated me ce wid nodeID activationID attemptID leaseID status marker =
     RecordAttemptTermination me ce wid nodeID activationID attemptID leaseID
       \<lparr>te_Status = status,
        te_MarkerKind = (if 1 \<le> length marker then marker ! 0 else ''''),
        te_MarkerLabel = (if 2 \<le> length marker then marker ! 1 else ''''),
        te_WorkingDirectory = ''''\<rparr>"

record finalize_dispatch_request =
  fd_WorkflowID :: string
  fd_NodeID :: string
  fd_ActivationID :: string
  fd_AttemptID :: string
  fd_LeaseID :: string
  fd_RuntimeID :: string
  fd_RunID :: string
  fd_SessionID :: string
  fd_FailureStatus :: attempt_status
  fd_MarkerKind :: string
  fd_MarkerLabel :: string

definition identifyCommand :: "call_env \<Rightarrow> finalize_dispatch_request \<Rightarrow> nat \<Rightarrow> snapshot \<Rightarrow> command" where
  "identifyCommand ce req k snap =
     zeroCommand\<lparr>cmd_ID := NewCommandID (ce_Commands ce) k, cmd_Kind := CommandAttemptIdentified,
       cmd_ExpectedRevision := inst_Revision (snap_Instance snap),
       cmd_IdempotencyKey := ''identify-'' @ fd_AttemptID req,
       cmd_Identity := zeroIdentity\<lparr>id_WorkflowID := fd_WorkflowID req, id_NodeID := fd_NodeID req,
         id_ActivationID := fd_ActivationID req, id_AttemptID := fd_AttemptID req,
         id_RuntimeID := fd_RuntimeID req, id_RunID := fd_RunID req, id_SessionID := fd_SessionID req\<rparr>,
       cmd_LeaseID := fd_LeaseID req\<rparr>"

definition FinalizeDispatch :: "manager_env \<Rightarrow> call_env \<Rightarrow> finalize_dispatch_request \<Rightarrow> unit op" where
  "FinalizeDispatch me ce req =
     (if fd_FailureStatus req \<noteq> AttemptOther ''''
      then RecordAttemptTerminated me ce (fd_WorkflowID req) (fd_NodeID req) (fd_ActivationID req)
             (fd_AttemptID req) (fd_LeaseID req) (fd_FailureStatus req) [fd_MarkerKind req, fd_MarkerLabel req]
      else retryCommand me ce (fd_WorkflowID req) 0
        (\<lambda>k snap. Inr (Inr (identifyCommand ce req k snap))) (\<lambda>_ _. ()) (liftM (Inr ()))
        (Errorf ''identify attempt %s: revision kept moving under concurrent commands'' [fd_AttemptID req]))"

section \<open>Heartbeats (heartbeat.go)\<close>

record command_heartbeat_request =
  hq_NodeID :: string
  hq_ActivationID :: string
  hq_LeaseID :: string
  hq_OwnerToken :: string

text \<open>The check of the lease and owner pair, with the message of each failure.\<close>

definition checkLeaseOwner ::
  "manager_env \<Rightarrow> (string \<Rightarrow> error) \<Rightarrow> activation \<Rightarrow> string \<Rightarrow> string \<Rightarrow> unit result" where
  "checkLeaseOwner me fail a leaseID ownerToken =
     (case act_ActiveLease a of
        None \<Rightarrow> Inl (fail ''activation has no active lease'')
      | Some l \<Rightarrow>
          if leaseID \<noteq> ls_ID l then Inl (fail ''lease_id does not match the active lease'')
          else if ownerTokenDigest me ownerToken \<noteq> ls_TokenDigest l
          then Inl (fail ''owner token does not match the lease'')
          else Inr ())"

text \<open>\<^verbatim>\<open>time.Time.UnixNano\<close>: the nanoseconds since 1970, as an \<^verbatim>\<open>int64\<close>.\<close>

definition UnixNano :: "gotime \<Rightarrow> int" where
  "UnixNano t = sint (word_of_int (t - 62135596800000000000) :: int64)"

definition heartbeatCommand ::
  "call_env \<Rightarrow> string \<Rightarrow> command_heartbeat_request \<Rightarrow> string \<Rightarrow> gotime \<Rightarrow> gotime \<Rightarrow> nat \<Rightarrow> snapshot \<Rightarrow> command" where
  "heartbeatCommand ce wid req actID now newExpiry k snap =
     zeroCommand\<lparr>cmd_ID := NewCommandID (ce_Commands ce) k, cmd_Kind := CommandHeartbeat,
       cmd_ExpectedRevision := inst_Revision (snap_Instance snap),
       cmd_IdempotencyKey := ''hb-'' @ hq_LeaseID req @ ''-'' @ intString (UnixNano now),
       cmd_Identity := zeroIdentity\<lparr>id_WorkflowID := wid, id_NodeID := hq_NodeID req, id_ActivationID := actID\<rparr>,
       cmd_LeaseID := hq_LeaseID req,
       cmd_Lease := Some (zeroLease\<lparr>ls_ExpiresAt := newExpiry, ls_LastHeartbeatAt := Some now\<rparr>)\<rparr>"

text \<open>The answer: the renewed lease id, the heartbeat time and the new expiry.\<close>

definition commandHeartbeat ::
  "manager_env \<Rightarrow> call_env \<Rightarrow> string \<Rightarrow> command_heartbeat_request result \<Rightarrow> (string \<times> gotime \<times> gotime) op" where
  "commandHeartbeat me ce wid payload =
     bindM (liftM (wrapE ''heartbeat payload: '' [] payload)) (\<lambda>req.
     bindM (liftM (require (hq_NodeID req \<noteq> '''') (Err ''heartbeat requires node_id''))) (\<lambda>_.
     bindM (liftM (require (hq_LeaseID req \<noteq> '''') (Err ''heartbeat requires lease_id''))) (\<lambda>_.
     bindM (liftM (require (hq_OwnerToken req \<noteq> '''') (Err ''heartbeat requires owner_token''))) (\<lambda>_.
     bindM (loadExisting me ce 0 wid) (\<lambda>snap.
     bindM (liftM (targetActivation snap (hq_NodeID req) (hq_ActivationID req))) (\<lambda>i.
     bindM (liftM (checkLeaseOwner me ErrLeaseNotHeld (acts snap ! i) (hq_LeaseID req) (hq_OwnerToken req))) (\<lambda>_.
     bindM (liftM (templateFor me snap)) (\<lambda>tmpl.
     bindM (liftM (findNode tmpl (hq_NodeID req))) (\<lambda>node.
       let now = ce_Now ce 0;
           newExpiry = timeAdd now (leaseTTL (Some node) (tm_DefaultLease tmpl));
           respond = (hq_LeaseID req, now, newExpiry)
       in retryCommand me ce wid 1
            (\<lambda>k cur. Inr (Inr (heartbeatCommand ce wid req (act_ID (acts snap ! i)) now newExpiry k cur)))
            (\<lambda>_ _. respond) (liftM (Inr respond))
            (Errorf ''heartbeat lease %s: revision kept moving under concurrent commands'' [hq_LeaseID req]))))))))))"

text \<open>The live detector: one sweep per instance directory, the committed expiries observed.\<close>

record lease_expiry_summary =
  le_Expired :: nat
  le_Retained :: nat
  le_Errors :: "(string \<times> error) list"

definition expireInstance ::
  "manager_env \<Rightarrow> minted \<Rightarrow> gotime \<Rightarrow> lease_expiry_summary \<times> mgr \<Rightarrow> string \<Rightarrow> lease_expiry_summary \<times> mgr" where
  "expireInstance me mi now acc wid =
     (case acc of (summary, m) \<Rightarrow>
      case sweepStaleLeases (me_Store me) mi (files m wid) ''stale'' now of
        (Inl e, fs') \<Rightarrow> (summary\<lparr>le_Errors := le_Errors summary @ [(wid, e)]\<rparr>, putFiles wid fs' m)
      | (Inr (gone, retained), fs') \<Rightarrow>
          (summary\<lparr>le_Expired := le_Expired summary + gone, le_Retained := le_Retained summary + retained\<rparr>,
           let m1 = putFiles wid fs' m in
           if 0 < gone then
             (case loadCurrent (me_Store me) fs' of
                (Inr (snap, True), fs'') \<Rightarrow> observeCommit wid snap (putFiles wid fs'' m1)
              | (_, fs'') \<Rightarrow> putFiles wid fs'' m1)
           else m1))"

definition ExpireStaleLeases ::
  "manager_env \<Rightarrow> (string \<Rightarrow> minted) \<Rightarrow> gotime \<Rightarrow> mgr \<Rightarrow> lease_expiry_summary \<times> mgr" where
  "ExpireStaleLeases me mints now m =
     foldl (\<lambda>acc wid. expireInstance me (mints wid) now acc wid)
       (\<lparr>le_Expired = 0, le_Retained = 0, le_Errors = []\<rparr>, m) (sort (map fst (mg_Disk m)))"

section \<open>Cancellation (cancel.go)\<close>

record command_cancel_request =
  cq_Actor :: string
  cq_Reason :: string

definition safeID :: "string \<Rightarrow> string result" where
  "safeID wid = (if safeComponent wid then Inr wid else Inl (Err ''invalid workflow id''))"

definition cancelIdempotencyKey :: "string \<Rightarrow> string" where
  "cancelIdempotencyKey wid = ''cancel-'' @ wid"

record cancel_response =
  cn_Idempotent :: bool
  cn_Status :: workflow_status
  cn_Revision :: int

definition cancelCheck :: "string \<Rightarrow> snapshot \<Rightarrow> cancel_response option result" where
  "cancelCheck wid snap =
     (if snap_Idempotency snap (cancelIdempotencyKey wid) \<noteq> None
      then Inr (Some \<lparr>cn_Idempotent = True, cn_Status = inst_Status (snap_Instance snap),
                      cn_Revision = inst_Revision (snap_Instance snap)\<rparr>)
      else if isTerminalStatus (inst_Status (snap_Instance snap))
      then Inl (Errorf ''cannot cancel workflow %s: instance is already %s''
                  [wid, workflowStatusString (inst_Status (snap_Instance snap))])
      else Inr None)"

definition cancelCommand :: "call_env \<Rightarrow> string \<Rightarrow> command_cancel_request \<Rightarrow> nat \<Rightarrow> snapshot \<Rightarrow> command" where
  "cancelCommand ce wid req k snap =
     zeroCommand\<lparr>cmd_ID := NewCommandID (ce_Commands ce) k, cmd_Kind := CommandCancel,
       cmd_ExpectedRevision := inst_Revision (snap_Instance snap),
       cmd_IdempotencyKey := cancelIdempotencyKey wid,
       cmd_Identity := zeroIdentity\<lparr>id_WorkflowID := wid\<rparr>,
       cmd_Actor := cq_Actor req, cmd_Reason := cq_Reason req\<rparr>"

definition WorkflowCancel ::
  "manager_env \<Rightarrow> call_env \<Rightarrow> string \<Rightarrow> command_cancel_request result \<Rightarrow> cancel_response op" where
  "WorkflowCancel me ce id0 payload =
     bindM (liftM (safeID id0)) (\<lambda>wid.
     bindM (liftM (wrapE ''cancel payload: '' [] payload)) (\<lambda>req.
     bindM (liftM (require (cq_Actor req \<noteq> '''') (Err ''cancel requires actor''))) (\<lambda>_.
     bindM (liftM (require (cq_Reason req \<noteq> '''') (Err ''cancel requires reason''))) (\<lambda>_.
     bindM (loadExisting me ce 0 wid) (\<lambda>snap.
     bindM (liftM (cancelCheck wid snap)) (\<lambda>early.
       case early of
         Some r \<Rightarrow> liftM (Inr r)
       | None \<Rightarrow>
           retryCommand me ce wid 1
             (\<lambda>k fresh. bindE (cancelCheck wid fresh) (\<lambda>again.
                Inr (case again of Some r \<Rightarrow> Inl r | None \<Rightarrow> Inr (cancelCommand ce wid req k fresh))))
             (\<lambda>_ result. \<lparr>cn_Idempotent = False, cn_Status = inst_Status (snap_Instance result),
                          cn_Revision = inst_Revision (snap_Instance result)\<rparr>)
             (bindM (readCurrent me ce 9 wid) (\<lambda>(current, _).
                liftM (Inr \<lparr>cn_Idempotent = True, cn_Status = inst_Status (snap_Instance current),
                            cn_Revision = inst_Revision (snap_Instance current)\<rparr>)))
             (Errorf ''cancel workflow %s: revision kept moving under concurrent commands'' [wid])))))))"

end
