(* ===== verification/Wf_Dispatch.thy ===== *)
theory Wf_Dispatch
  imports Wf_Manager
begin

text \<open>
  Claims, starts and controller dispatch (\<^verbatim>\<open>manager.go\<close>, \<^verbatim>\<open>dispatch.go\<close>), and the queries on the
  candidate index. The root dispatch lock excludes other dispatches only: every other operation may
  still run between the accesses of the holder.
\<close>

section \<open>Selections (model.go, dispatch.go)\<close>

definition ValidatePermissionPolicy :: "execution_selection option \<Rightarrow> unit result" where
  "ValidatePermissionPolicy s =
     (case s of
        None \<Rightarrow> Inr ()
      | Some sel \<Rightarrow>
          (let deciders = (if sel_PermissionDecider sel \<noteq> None then 1 else 0) +
                          (if sel_PermissionModelDecider sel \<noteq> None then 1 else 0 :: nat)
           in if sel_AutoApprove sel \<and> 0 < deciders
              then Inl (Err ''auto_approve and permission deciders are mutually exclusive'')
              else if 1 < deciders
              then Inl (Err ''permission_decider and permission_model_decider are mutually exclusive'')
              else Inr ()))"

text \<open>
  Go compares pointers by identity, so the code compares the pointed-to values one by one. The
  arguments are the two selections as values; that both pointers are nil is \<open>None = None\<close>.
\<close>

fun samePersistChoice :: "bool option \<Rightarrow> bool option \<Rightarrow> bool" where
  "samePersistChoice (Some a) (Some b) = (a = b)"
| "samePersistChoice None None = True"
| "samePersistChoice _ _ = False"

fun samePermissionModelDecider :: "permission_model_decider option \<Rightarrow> permission_model_decider option \<Rightarrow> bool" where
  "samePermissionModelDecider (Some a) (Some b) = (a = b)"
| "samePermissionModelDecider None None = True"
| "samePermissionModelDecider _ _ = False"

fun samePermissionDecider :: "permission_decider option \<Rightarrow> permission_decider option \<Rightarrow> bool" where
  "samePermissionDecider (Some a) (Some b) =
     (if a\<lparr>pd_PersistSessions := None\<rparr> \<noteq> b\<lparr>pd_PersistSessions := None\<rparr> then False
      else samePersistChoice (pd_PersistSessions a) (pd_PersistSessions b))"
| "samePermissionDecider None None = True"
| "samePermissionDecider _ _ = False"

fun sameSelection :: "execution_selection option \<Rightarrow> execution_selection option \<Rightarrow> bool" where
  "sameSelection (Some a) (Some b) =
     (if \<not> samePermissionDecider (sel_PermissionDecider a) (sel_PermissionDecider b) then False
      else if \<not> samePermissionModelDecider (sel_PermissionModelDecider a) (sel_PermissionModelDecider b) then False
      else if \<not> samePersistChoice (sel_PersistSessions a) (sel_PersistSessions b) \<or>
              \<not> samePersistChoice (sel_Messaging a) (sel_Messaging b) then False
      else (let clear = (\<lambda>x. x\<lparr>sel_PermissionDecider := None, sel_PermissionModelDecider := None,
                              sel_PersistSessions := None, sel_Messaging := None\<rparr>)
            in clear a = clear b))"
| "sameSelection None None = True"
| "sameSelection _ _ = False"

section \<open>Claim (manager.go)\<close>

record command_claim_request =
  rq_NodeID :: string
  rq_ActivationID :: string
  rq_Actor :: string

record claim_response =
  cs_LeaseID :: string
  cs_OwnerToken :: string
  cs_ExpiresAt :: gotime
  cs_Action :: action
  cs_Revision :: int

definition claimLease :: "manager_env \<Rightarrow> call_env \<Rightarrow> string \<Rightarrow> string \<Rightarrow> gotime \<Rightarrow> lease" where
  "claimLease me ce actID owner expiresAt =
     zeroLease\<lparr>ls_ID := NewLeaseID (ce_Ids ce) 0, ls_ActivationID := actID, ls_Owner := owner,
       ls_TokenDigest := ownerTokenDigest me (ce_Token ce), ls_AcquiredAt := ce_Now ce 0,
       ls_ExpiresAt := expiresAt\<rparr>"

definition claimCommand ::
  "manager_env \<Rightarrow> call_env \<Rightarrow> string \<Rightarrow> command_claim_request \<Rightarrow> string \<Rightarrow> gotime \<Rightarrow> snapshot \<Rightarrow> command" where
  "claimCommand me ce wid req actID expiresAt snap =
     (let leaseID = NewLeaseID (ce_Ids ce) 0 in
      zeroCommand\<lparr>cmd_ID := NewCommandID (ce_Commands ce) 0, cmd_Kind := CommandClaim,
        cmd_ExpectedRevision := inst_Revision (snap_Instance snap),
        cmd_IdempotencyKey := ''claim-'' @ leaseID,
        cmd_Identity := zeroIdentity\<lparr>id_WorkflowID := wid, id_NodeID := rq_NodeID req, id_ActivationID := actID\<rparr>,
        cmd_LeaseID := leaseID, cmd_Actor := rq_Actor req,
        cmd_Lease := Some (claimLease me ce actID (rq_Actor req) expiresAt)\<rparr>)"

definition commandClaim ::
  "manager_env \<Rightarrow> call_env \<Rightarrow> string \<Rightarrow> command_claim_request result \<Rightarrow> claim_response op" where
  "commandClaim me ce wid payload =
     bindM (liftM (wrapE ''claim payload: '' [] payload)) (\<lambda>req.
     bindM (liftM (require (rq_NodeID req \<noteq> '''') (Err ''claim requires node_id''))) (\<lambda>_.
     bindM (loadExisting me ce 0 wid) (\<lambda>snap.
     bindM (liftM (targetActivation snap (rq_NodeID req) (rq_ActivationID req))) (\<lambda>i.
     let a = acts snap ! i; st = inst_Status (snap_Instance snap) in
     bindM (liftM (require (\<not> isTerminalStatus st)
       (Errorf ''cannot claim activation: workflow is %s'' [workflowStatusString st]))) (\<lambda>_.
     bindM (liftM (require (claimableActivationStatus (act_Status a))
       (Errorf ''cannot claim activation in status %q'' [activationStatusString (act_Status a)]))) (\<lambda>_.
     bindM (liftM (templateFor me snap)) (\<lambda>tmpl.
     bindM (liftM (findNode tmpl (rq_NodeID req))) (\<lambda>node.
     let expiresAt = timeAdd (ce_Now ce 0) (leaseTTL (Some node) (tm_DefaultLease tmpl)) in
     bindM (ApplyCommand me ce 1 wid (claimCommand me ce wid req (act_ID a) expiresAt snap)) (\<lambda>next.
       liftM (Inr \<lparr>cs_LeaseID = NewLeaseID (ce_Ids ce) 0, cs_OwnerToken = ce_Token ce,
                   cs_ExpiresAt = expiresAt, cs_Action = nd_Action node,
                   cs_Revision = inst_Revision (snap_Instance next)\<rparr>))))))))))"

section \<open>Concurrency keys (dispatch.go)\<close>

definition liveAttemptStatus :: "attempt_status \<Rightarrow> bool" where
  "liveAttemptStatus st \<longleftrightarrow> st = AttemptStarting \<or> st = AttemptRunning"

text \<open>An activation has a live attempt when one of its attempt ids names one.\<close>

definition hasLiveAttempt :: "snapshot \<Rightarrow> activation \<Rightarrow> bool" where
  "hasLiveAttempt snap a \<longleftrightarrow>
     list_ex (\<lambda>x. case findAttempt snap a x of
                    None \<Rightarrow> False
                  | Some j \<Rightarrow> liveAttemptStatus (at_Status (attempts snap ! j))) (act_AttemptIDs a)"

definition collectHeldKeys :: "string list \<Rightarrow> snapshot \<Rightarrow> string \<Rightarrow> string \<Rightarrow> string list" where
  "collectHeldKeys held snap skipWorkflow skipActivation =
     (if isTerminalStatus (inst_Status (snap_Instance snap)) then held
      else foldl (\<lambda>held a.
        case act_Dispatch a of
          None \<Rightarrow> held
        | Some d \<Rightarrow>
            if dp_ConcurrencyKey d = '''' then held
            else if inst_WorkflowID (snap_Instance snap) = skipWorkflow \<and> act_ID a = skipActivation then held
            else if hasLiveAttempt snap a then held @ [dp_ConcurrencyKey d]
            else held) held (acts snap))"

text \<open>
  The scan of every instance directory: \<open>n\<close> numbers the reads, an unreadable snapshot is skipped.
\<close>

fun heldFrom :: "manager_env \<Rightarrow> call_env \<Rightarrow> nat \<Rightarrow> string \<Rightarrow> string \<Rightarrow> string list \<Rightarrow> string list \<Rightarrow> mgr \<Rightarrow> string list \<times> mgr" where
  "heldFrom me ce n skipWorkflow skipActivation [] held m = (held, m)"
| "heldFrom me ce n skipWorkflow skipActivation (entry # entries) held m =
     (case readCurrent me ce n entry m of
        (Inr (snap, True), m') \<Rightarrow>
          heldFrom me ce (Suc n) skipWorkflow skipActivation entries
            (collectHeldKeys held snap skipWorkflow skipActivation) m'
      | (_, m') \<Rightarrow> heldFrom me ce (Suc n) skipWorkflow skipActivation entries held m')"

definition heldConcurrencyKeys ::
  "manager_env \<Rightarrow> call_env \<Rightarrow> nat \<Rightarrow> string \<Rightarrow> string \<Rightarrow> string list op" where
  "heldConcurrencyKeys me ce n skipWorkflow skipActivation m =
     (case heldFrom me ce n skipWorkflow skipActivation (sort (map fst (mg_Disk m))) [] m of
        (held, m') \<Rightarrow> (Inr held, m'))"

section \<open>Controller dispatch (dispatch.go)\<close>

record begin_dispatch_request =
  bq_WorkflowID :: string
  bq_NodeID :: string
  bq_ActivationID :: string
  bq_ExpectedRevision :: int
  bq_ControllerID :: string
  bq_LeaderLeaseID :: string
  bq_Selection :: "execution_selection option"

record begin_dispatch_result =
  br_WorkflowID :: string
  br_NodeID :: string
  br_ActivationID :: string
  br_AttemptID :: string
  br_LeaseID :: string
  br_OwnerToken :: string
  br_LeaseTTL :: int64
  br_Action :: action
  br_Selection :: "execution_selection option"
  br_WorkingDirectory :: string
  br_LaunchWrapper :: "string list"

definition orElse :: "'a option \<Rightarrow> 'a option \<Rightarrow> 'a option" where
  "orElse a b = (case a of None \<Rightarrow> b | Some _ \<Rightarrow> a)"

definition beginDispatchCommand ::
  "manager_env \<Rightarrow> call_env \<Rightarrow> begin_dispatch_request \<Rightarrow> activation \<Rightarrow> int64 \<Rightarrow> snapshot \<Rightarrow> command" where
  "beginDispatchCommand me ce req a ttl snap =
     (let leaseID = NewLeaseID (ce_Ids ce) 0; attemptID = NewAttemptID (ce_Ids ce) 1 in
      zeroCommand\<lparr>cmd_ID := NewCommandID (ce_Commands ce) 0, cmd_Kind := CommandBeginDispatch,
        cmd_ExpectedRevision := inst_Revision (snap_Instance snap),
        cmd_IdempotencyKey := ''begin-dispatch-'' @ leaseID,
        cmd_Identity := zeroIdentity\<lparr>id_WorkflowID := bq_WorkflowID req, id_NodeID := bq_NodeID req,
          id_ActivationID := act_ID a, id_AttemptID := attemptID\<rparr>,
        cmd_LeaseID := leaseID, cmd_Actor := bq_ControllerID req,
        cmd_Lease := Some (claimLease me ce (act_ID a) (bq_ControllerID req) (timeAdd (ce_Now ce 0) ttl)),
        cmd_Selection := orElse (bq_Selection req) (act_Selection a),
        cmd_Diagnostics := Some \<lparr>dg_ControllerID = bq_ControllerID req, dg_LeaderLeaseID = bq_LeaderLeaseID req,
          dg_ConcurrencyKey = (case act_Dispatch a of None \<Rightarrow> '''' | Some d \<Rightarrow> dp_ConcurrencyKey d),
          dg_AdmissionRef = ''''\<rparr>\<rparr>)"

text \<open>The candidate checks of \<^verbatim>\<open>BeginDispatch\<close> on the snapshot read, up to the key check.\<close>

definition dispatchable :: "begin_dispatch_request \<Rightarrow> snapshot \<Rightarrow> activation \<Rightarrow> unit result" where
  "dispatchable req snap a =
     bindE (require (inst_Revision (snap_Instance snap) = bq_ExpectedRevision req) (ErrStaleCandidate '''')) (\<lambda>_.
     bindE (require (claimableActivationStatus (act_Status a) \<and> act_ActiveLease a = None) (ErrStaleCandidate '''')) (\<lambda>_.
     bindE (require (case act_Dispatch a of None \<Rightarrow> False
                     | Some d \<Rightarrow> IsAuto d \<and> dp_ControllerID d = bq_ControllerID req) (ErrStaleCandidate '''')) (\<lambda>_.
     bindE (require (act_Selection a = None \<or> bq_Selection req = None \<or>
                     sameSelection (act_Selection a) (bq_Selection req)) ErrSelectionConflict) (\<lambda>_.
       ValidatePermissionPolicy (orElse (bq_Selection req) (act_Selection a))))))"

definition BeginDispatch :: "manager_env \<Rightarrow> call_env \<Rightarrow> begin_dispatch_request \<Rightarrow> begin_dispatch_result op" where
  "BeginDispatch me ce req =
     (let wid = bq_WorkflowID req in
      bindM (loadExisting me ce 0 wid) (\<lambda>snap.
      bindM (liftM (require (\<not> isTerminalStatus (inst_Status (snap_Instance snap))) (ErrStaleCandidate ''''))) (\<lambda>_.
      bindM (liftM (targetActivation snap (bq_NodeID req) (bq_ActivationID req))) (\<lambda>i.
      let a = acts snap ! i in
      bindM (liftM (dispatchable req snap a)) (\<lambda>_.
      bindM (heldConcurrencyKeys me ce 2 wid (act_ID a)) (\<lambda>held.
      let key = (case act_Dispatch a of None \<Rightarrow> '''' | Some d \<Rightarrow> dp_ConcurrencyKey d) in
      bindM (liftM (require (key \<notin> set held) ErrConcurrencyKeyHeld)) (\<lambda>_.
      bindM (liftM (templateFor me snap)) (\<lambda>tmpl.
      bindM (liftM (findNode tmpl (bq_NodeID req))) (\<lambda>node.
      let ttl = leaseTTL (Some node) (tm_DefaultLease tmpl);
          params = inst_Params (snap_Instance snap) in
      bindM (liftM (ResolveNodeLaunchWrapper tmpl node params)) (\<lambda>launchWrapper m.
        case ApplyCommand me ce 1 wid (beginDispatchCommand me ce req a ttl snap) m of
          (Inl e, m') \<Rightarrow>
            if e = ErrRevisionMismatch
            then (Inl (ErrStaleCandidate ''begin dispatch: revision advanced under a concurrent command''), m')
            else (Inl e, m')
        | (Inr _, m') \<Rightarrow>
            (Inr \<lparr>br_WorkflowID = wid, br_NodeID = bq_NodeID req, br_ActivationID = act_ID a,
                  br_AttemptID = NewAttemptID (ce_Ids ce) 1, br_LeaseID = NewLeaseID (ce_Ids ce) 0,
                  br_OwnerToken = ce_Token ce, br_LeaseTTL = ttl, br_Action = nd_Action node,
                  br_Selection = orElse (bq_Selection req) (act_Selection a),
                  br_WorkingDirectory = ResolveNodeWorkingDirectory tmpl node params,
                  br_LaunchWrapper = launchWrapper\<rparr>, m')))))))))))"

section \<open>Start (manager.go)\<close>

record command_start_request =
  sq_NodeID :: string
  sq_ActivationID :: string
  sq_LeaseID :: string
  sq_OwnerToken :: string
  sq_Selection :: "execution_selection option"

record start_response =
  sr_AttemptID :: string
  sr_RequiresComplete :: bool
  sr_Action :: action

definition startCommand ::
  "call_env \<Rightarrow> string \<Rightarrow> snapshot \<Rightarrow> activation \<Rightarrow> command_start_request \<Rightarrow> string \<Rightarrow> command" where
  "startCommand ce wid snap a req attemptID =
     zeroCommand\<lparr>cmd_ID := NewCommandID (ce_Commands ce) 0, cmd_Kind := CommandStart,
       cmd_ExpectedRevision := inst_Revision (snap_Instance snap),
       cmd_IdempotencyKey := ''start-'' @ attemptID,
       cmd_Identity := zeroIdentity\<lparr>id_WorkflowID := wid, id_NodeID := sq_NodeID req,
         id_ActivationID := act_ID a, id_AttemptID := attemptID\<rparr>,
       cmd_LeaseID := sq_LeaseID req, cmd_Selection := sq_Selection req\<rparr>"

definition applyStart ::
  "manager_env \<Rightarrow> call_env \<Rightarrow> string \<Rightarrow> snapshot \<Rightarrow> activation \<Rightarrow> command_start_request \<Rightarrow> string \<Rightarrow> snapshot op" where
  "applyStart me ce wid snap a req attemptID =
     ApplyCommand me ce 1 wid (startCommand ce wid snap a req attemptID)"

definition startable ::
  "manager_env \<Rightarrow> command_start_request \<Rightarrow> snapshot \<Rightarrow> activation \<Rightarrow> unit result" where
  "startable me req snap a =
     (let st = inst_Status (snap_Instance snap) in
      bindE (require (\<not> isTerminalStatus st)
        (Errorf ''cannot start activation: workflow is %s'' [workflowStatusString st])) (\<lambda>_.
      bindE (require (act_Status a = ActivationLeased)
        (Errorf ''cannot start activation in status %q'' [activationStatusString (act_Status a)])) (\<lambda>_.
      bindE (require (act_Selection a = None \<or> sq_Selection req = None \<or>
                      sameSelection (act_Selection a) (sq_Selection req)) ErrSelectionConflict) (\<lambda>_.
        checkLeaseOwner me Err a (sq_LeaseID req) (sq_OwnerToken req)))))"

text \<open>A provider-backed start: the key check and the commit, then the executor.\<close>

definition startProvider ::
  "manager_env \<Rightarrow> call_env \<Rightarrow> string \<Rightarrow> command_start_request \<Rightarrow> snapshot \<Rightarrow> activation \<Rightarrow> template \<Rightarrow> node_definition \<Rightarrow>
   start_response op" where
  "startProvider me ce wid req snap a tmpl node =
     (let attemptID = NewAttemptID (ce_Ids ce) 0;
          params = inst_Params (snap_Instance snap);
          key = (case act_Dispatch a of None \<Rightarrow> '''' | Some d \<Rightarrow> dp_ConcurrencyKey d);
          selection = orElse (sq_Selection req) (act_Selection a) in
      case me_Executors me (ac_Kind (nd_Action node)) of
        None \<Rightarrow> liftM (Inl (Err ''executor for action is unsupported until a later stage (executor not registered)''))
      | Some dispatch \<Rightarrow>
          bindM (if key \<noteq> '''' then heldConcurrencyKeys me ce 2 wid (act_ID a) else liftM (Inr [])) (\<lambda>held.
          bindM (liftM (require (key \<notin> set held) ErrConcurrencyKeyHeld)) (\<lambda>_.
          bindM (liftM (ResolveNodeLaunchWrapper tmpl node params)) (\<lambda>launchWrapper.
          bindM (applyStart me ce wid snap a (req\<lparr>sq_Selection := selection\<rparr>) attemptID) (\<lambda>_.
          bindM (dispatch
             \<lparr>ec_WorkflowID = wid, ec_NodeID = sq_NodeID req, ec_ActivationID = act_ID a,
              ec_AttemptID = attemptID, ec_LeaseID = sq_LeaseID req, ec_OwnerToken = sq_OwnerToken req,
              ec_LeaseTTL = leaseTTL (Some node) (tm_DefaultLease tmpl), ec_Action = nd_Action node,
              ec_Selection = selection,
              ec_WorkingDirectory = ResolveNodeWorkingDirectory tmpl node params,
              ec_LaunchWrapper = launchWrapper\<rparr>) (\<lambda>_.
            liftM (Inr \<lparr>sr_AttemptID = attemptID, sr_RequiresComplete = False, sr_Action = nd_Action node\<rparr>)))))))"

definition commandStart ::
  "manager_env \<Rightarrow> call_env \<Rightarrow> string \<Rightarrow> command_start_request result \<Rightarrow> start_response op" where
  "commandStart me ce wid payload =
     bindM (liftM (wrapE ''start payload: '' [] payload)) (\<lambda>req.
     bindM (liftM (require (sq_NodeID req \<noteq> '''') (Err ''start requires node_id''))) (\<lambda>_.
     bindM (liftM (require (sq_LeaseID req \<noteq> '''') (Err ''start requires lease_id''))) (\<lambda>_.
     bindM (liftM (require (sq_OwnerToken req \<noteq> '''') (Err ''start requires owner_token''))) (\<lambda>_.
     bindM (liftM (ValidatePermissionPolicy (sq_Selection req))) (\<lambda>_.
     bindM (loadExisting me ce 0 wid) (\<lambda>snap.
     bindM (liftM (targetActivation snap (sq_NodeID req) (sq_ActivationID req))) (\<lambda>i.
     let a = acts snap ! i in
     bindM (liftM (startable me req snap a)) (\<lambda>_.
     bindM (liftM (templateFor me snap)) (\<lambda>tmpl.
     bindM (liftM (findNode tmpl (sq_NodeID req))) (\<lambda>node.
       if ac_Kind (nd_Action node) = ActionManual \<or> ac_Kind (nd_Action node) = ActionExternal
       then
         (let attemptID = NewAttemptID (ce_Ids ce) 0 in
          bindM (applyStart me ce wid snap a req attemptID) (\<lambda>_.
            liftM (Inr \<lparr>sr_AttemptID = attemptID, sr_RequiresComplete = True, sr_Action = nd_Action node\<rparr>)))
       else startProvider me ce wid req snap a tmpl node))))))))))"

definition DispatchExecutor :: "manager_env \<Rightarrow> action_kind \<Rightarrow> executor_context \<Rightarrow> unit op" where
  "DispatchExecutor me kind ec =
     (case me_Executors me kind of
        None \<Rightarrow> liftM (Inl (Err ''executor for action is unsupported until a later stage (executor not registered)''))
      | Some dispatch \<Rightarrow> dispatch ec)"

section \<open>Queries on the candidate index (manager.go)\<close>

datatype ready_candidate_kind = ReadyCandidateProvider | ReadyCandidateExternalPark

definition readyCandidateKind :: "dispatch_policy \<Rightarrow> ready_candidate_kind" where
  "readyCandidateKind policy =
     (if dp_ActionKind policy = ActionExternal then ReadyCandidateExternalPark else ReadyCandidateProvider)"

record ready_candidate =
  rc_Identity :: execution_identity
  rc_Kind :: ready_candidate_kind
  rc_Revision :: int
  rc_ReadyAt :: gotime
  rc_Priority :: int
  rc_ConcurrencyKey :: string
  rc_ControllerID :: string

definition candidateOf :: "string \<Rightarrow> string \<Rightarrow> string \<Rightarrow> snapshot \<Rightarrow> activation \<Rightarrow> ready_candidate option" where
  "candidateOf super controllerID wid snap a =
     (if \<not> claimableActivationStatus (act_Status a) then None
      else case (act_ReadyAt a, act_Dispatch a) of
        (Some readyAt, Some policy) \<Rightarrow>
          if \<not> IsAuto policy then None
          else if dp_ControllerID policy \<noteq> controllerID then None
          else Some \<lparr>rc_Identity = zeroIdentity\<lparr>id_SupervisorID := super, id_WorkflowID := wid,
                       id_NodeID := act_NodeID a, id_ActivationID := act_ID a\<rparr>,
                     rc_Kind = readyCandidateKind policy,
                     rc_Revision = inst_Revision (snap_Instance snap), rc_ReadyAt = readyAt,
                     rc_Priority = priority policy, rc_ConcurrencyKey = dp_ConcurrencyKey policy,
                     rc_ControllerID = dp_ControllerID policy\<rparr>
      | _ \<Rightarrow> None)"

text \<open>The nested loop with its early return at the limit; \<open>Inl\<close> is the early return.\<close>

fun collectActs ::
  "(activation \<Rightarrow> ready_candidate option) \<Rightarrow> int \<Rightarrow> activation list \<Rightarrow> ready_candidate list \<Rightarrow>
   ready_candidate list + ready_candidate list" where
  "collectActs cand limit [] out = Inr out"
| "collectActs cand limit (a # as) out =
     (case cand a of
        None \<Rightarrow> collectActs cand limit as out
      | Some c \<Rightarrow>
          if 0 < limit \<and> limit \<le> int (length (out @ [c])) then Inl (out @ [c])
          else collectActs cand limit as (out @ [c]))"

fun collectWorkflows ::
  "string \<Rightarrow> string \<Rightarrow> int \<Rightarrow> (string \<rightharpoonup> snapshot) \<Rightarrow> string list \<Rightarrow> ready_candidate list \<Rightarrow> ready_candidate list" where
  "collectWorkflows super controllerID limit cands [] out = out"
| "collectWorkflows super controllerID limit cands (wid # wids) out =
     (case cands wid of
        None \<Rightarrow> collectWorkflows super controllerID limit cands wids out
      | Some snap \<Rightarrow>
          if isTerminalStatus (inst_Status (snap_Instance snap))
          then collectWorkflows super controllerID limit cands wids out
          else case collectActs (candidateOf super controllerID wid snap) limit (acts snap) out of
                 Inl res \<Rightarrow> res
               | Inr out' \<Rightarrow> collectWorkflows super controllerID limit cands wids out')"

definition CandidatesForController :: "string \<Rightarrow> int \<Rightarrow> mgr \<Rightarrow> ready_candidate list result" where
  "CandidatesForController controllerID limit m =
     (if \<not> mg_CandidatesOK m then Inl ErrCandidatesNotRecovered
      else Inr (collectWorkflows (mg_Super m) controllerID limit (map_of (mg_Candidates m))
                  (sort (map fst (mg_Candidates m))) []))"

record live_attempt =
  lv_Identity :: execution_identity
  lv_AttemptID :: string
  lv_ControllerID :: string
  lv_ConcurrencyKey :: string

definition liveAttemptOf :: "string \<Rightarrow> string \<Rightarrow> attempt \<Rightarrow> live_attempt" where
  "liveAttemptOf super wid x =
     \<lparr>lv_Identity = zeroIdentity\<lparr>id_SupervisorID := super, id_WorkflowID := wid,
        id_NodeID := id_NodeID (at_Identity x), id_ActivationID := id_ActivationID (at_Identity x)\<rparr>,
      lv_AttemptID = at_ID x,
      lv_ControllerID = (case at_Diagnostics x of None \<Rightarrow> '''' | Some d \<Rightarrow> dg_ControllerID d),
      lv_ConcurrencyKey = (case at_Diagnostics x of None \<Rightarrow> '''' | Some d \<Rightarrow> dg_ConcurrencyKey d)\<rparr>"

definition LiveAttempts :: "mgr \<Rightarrow> live_attempt list" where
  "LiveAttempts m =
     concat (map (\<lambda>wid.
       case map_of (mg_Candidates m) wid of
         None \<Rightarrow> []
       | Some snap \<Rightarrow>
           if isTerminalStatus (inst_Status (snap_Instance snap)) then []
           else map (liveAttemptOf (mg_Super m) wid)
                  (filter (\<lambda>x. liveAttemptStatus (at_Status x)) (attempts snap)))
       (sort (map fst (mg_Candidates m))))"

end
