(* ===== verification/Wf_Decisions.thy ===== *)
theory Wf_Decisions
  imports Wf_Dispatch
begin

text \<open>
  Gate decisions, skips, unblocks and machine completions of the manager (\<^verbatim>\<open>gate_handlers.go\<close>,
  \<^verbatim>\<open>completion.go\<close>).
\<close>

section \<open>Gate decisions: requests and keys\<close>

record command_gate_request =
  gq_NodeID :: string
  gq_ActivationID :: string
  gq_GateID :: string
  gq_Operation :: gate_operation
  gq_Actor :: string
  gq_Reason :: string
  gq_Outcome :: string
  gq_Subject :: "subject option"
  gq_PollID :: string
  gq_Source :: string
  gq_Result :: string
  gq_ResponseHash :: string
  gq_ObservedAt :: "gotime option"
  gq_EvidenceIDs :: "string list"

definition gateIdempotencyKey :: "gate_operation \<Rightarrow> string \<Rightarrow> string \<Rightarrow> string \<Rightarrow> string" where
  "gateIdempotencyKey op gateID actID result =
     ''gate-'' @ gateOperationString op @ ''-'' @ gateID @ ''-'' @ actID @
     (if op = GateOpExternalResult then ''-'' @ result else '''')"

definition gatePollIdempotencyKey :: "string \<Rightarrow> string \<Rightarrow> string \<Rightarrow> string" where
  "gatePollIdempotencyKey gateID actID pollID =
     ''gate-'' @ gateOperationString GateOpExternalResult @ ''-'' @ gateID @ ''-'' @ actID @ ''-poll-'' @ pollID"

definition validatePinnedGateSubject :: "activation \<Rightarrow> string \<Rightarrow> subject option \<Rightarrow> unit result" where
  "validatePinnedGateSubject a gateID supplied =
     (case Option.bind (map_of (act_ResolvedGates a) gateID) rg_Subject of
        None \<Rightarrow> Inl (ErrSubjectUnresolved ''gate on activation has no pinned subject yet'')
      | Some pinned \<Rightarrow>
          (case supplied of
             None \<Rightarrow> Inl (ErrSubjectMismatch ''gate requires a subject equal to the pinned subject'')
           | Some s \<Rightarrow>
               if su_Type s \<noteq> su_Type pinned \<or> su_Repository s \<noteq> su_Repository pinned \<or>
                  su_PullRequest s \<noteq> su_PullRequest pinned \<or> su_Revision s \<noteq> su_Revision pinned
               then Inl (ErrSubjectMismatch ''gate subject does not equal the pinned subject'')
               else Inr ()))"

definition gateDefinitionByID :: "node_definition \<Rightarrow> string \<Rightarrow> gate_definition option" where
  "gateDefinitionByID node gateID = find (\<lambda>d. gd_ID d = gateID) (nd_Gates node)"

definition isAutoExternalNode :: "node_definition \<Rightarrow> bool" where
  "isAutoExternalNode node \<longleftrightarrow>
     ac_Kind (nd_Action node) = ActionExternal \<and>
     (case nd_Dispatch node of None \<Rightarrow> False | Some d \<Rightarrow> IsAuto d)"

fun gateResultNameFor :: "gate_status \<Rightarrow> gate_result_name" where
  "gateResultNameFor GateFailed = GateResultFailed"
| "gateResultNameFor GateActionRequired = GateResultActionRequired"
| "gateResultNameFor GateChangesRequested = GateResultChangesRequested"
| "gateResultNameFor _ = GateResultOther ''''"

definition externalResultStatus :: "string \<Rightarrow> gate_status result" where
  "externalResultStatus result =
     (if result = ''pending'' then Inr GatePending
      else if result = ''passed'' then Inr GatePassed
      else if result = ''failed'' then Inr GateFailed
      else if result = ''action_required'' then Inr GateActionRequired
      else if result = ''changes_requested'' then Inr GateChangesRequested
      else Inl (Errorf ''unknown external result %q'' [result]))"

section \<open>The transition a decision fires\<close>

definition remainingRequiredGates ::
  "workflow_instance \<Rightarrow> node_definition \<Rightarrow> string \<Rightarrow> string \<Rightarrow> gate_status \<Rightarrow> gate_definition list" where
  "remainingRequiredGates inst node actID resolvedGate resolvedStatus =
     (let recorded = map gi_GateID (filter (\<lambda>gi. gi_ActivationID gi = actID \<and>
                       (gi_Status gi = GatePassed \<or> gi_Status gi = GateWaived)) (inst_Gates inst));
          satisfied = (if resolvedGate \<noteq> '''' \<and> (resolvedStatus = GatePassed \<or> resolvedStatus = GateWaived)
                       then resolvedGate # recorded else recorded)
      in filter (\<lambda>d. gd_Required d \<and> gd_ID d \<notin> set satisfied) (nd_Gates node))"

text \<open>The closure \<^verbatim>\<open>marshal\<close>: the payload that follows the branch of a declared outcome.\<close>

definition marshalBranch ::
  "manager_env \<Rightarrow> gotime \<Rightarrow> template \<Rightarrow> node_definition \<Rightarrow> string \<Rightarrow> string \<Rightarrow> (raw \<times> string) result" where
  "marshalBranch me now tmpl node actID outcome =
     bindE (validateDeclaredOutcome tmpl node outcome) (\<lambda>_.
       case resolveOutcome tmpl node outcome of (target, _, _) \<Rightarrow>
         Inr (me_EncTransition me (zeroTransition\<lparr>tr_ActivationID := actID, tr_Outcome := outcome,
                tr_TargetNodeID := target, tr_CreatedAt := now\<rparr>), outcome))"

definition branches :: "template \<Rightarrow> node_definition \<Rightarrow> string \<Rightarrow> bool" where
  "branches tmpl node outcome =
     (case resolveOutcome tmpl node outcome of (target, _, declared) \<Rightarrow> declared \<and> target \<noteq> '''')"

definition gateTransitionPayload ::
  "manager_env \<Rightarrow> gotime \<Rightarrow> workflow_instance \<Rightarrow> template \<Rightarrow> node_definition \<Rightarrow> activation \<Rightarrow> string \<Rightarrow>
   gate_operation \<Rightarrow> gate_status \<Rightarrow> command_gate_request \<Rightarrow> (raw \<times> string) result" where
  "gateTransitionPayload me now inst tmpl node a gateID op status req =
     (let marshal = marshalBranch me now tmpl node (act_ID a);
          none = Inr ('''', gq_Outcome req) in
      if (status = GatePassed \<or> status = GateWaived) \<and>
         remainingRequiredGates inst node (act_ID a) gateID status = []
      then
        (let o1 = (if gq_Outcome req = '''' then act_SelectedOutcome a else gq_Outcome req);
             o2 = (if status = GatePassed \<and> isAutoExternalNode node
                   then (case nd_Dispatch node of None \<Rightarrow> '''' | Some d \<Rightarrow> dp_SuccessOutcome d) else o1)
         in if o2 = '''' then Inl (Errorf ''gate %q resolution requires an outcome'' [gateID])
            else marshal o2)
      else if op = GateOpExternalResult \<and> status \<noteq> GatePending \<and> status \<noteq> GatePassed \<and> status \<noteq> GateWaived
      then
        (case gateDefinitionByID node gateID of
           Some def \<Rightarrow>
             if gd_SubjectBinding def \<noteq> None then
               (case map_of (gd_ResultOutcomes def) (gateResultNameFor status) of
                  Some outcome \<Rightarrow> if branches tmpl node outcome then marshal outcome else none
                | None \<Rightarrow> none)
             else if (status = GateRejected \<or> status = GateFailed) \<and> gq_Outcome req \<noteq> '''' \<and>
                     branches tmpl node (gq_Outcome req)
             then marshal (gq_Outcome req) else none
         | None \<Rightarrow>
             if (status = GateRejected \<or> status = GateFailed) \<and> gq_Outcome req \<noteq> '''' \<and>
                branches tmpl node (gq_Outcome req)
             then marshal (gq_Outcome req) else none)
      else if (status = GateRejected \<or> status = GateFailed) \<and> gq_Outcome req \<noteq> '''' \<and>
              branches tmpl node (gq_Outcome req)
      then marshal (gq_Outcome req)
      else none)"

section \<open>Applying a decision\<close>

definition currentActivationStatus ::
  "manager_env \<Rightarrow> call_env \<Rightarrow> nat \<Rightarrow> string \<Rightarrow> string \<Rightarrow> string \<Rightarrow> activation_status \<Rightarrow> activation_status op" where
  "currentActivationStatus me ce n wid nodeID actID stale m =
     (case readCurrent me ce n wid m of
        (Inr (fresh, True), m') \<Rightarrow>
          (Inr (case findActivation (snap_Instance fresh) nodeID actID of
                  Inr (Some i) \<Rightarrow> act_Status (acts fresh ! i)
                | _ \<Rightarrow> stale), m')
      | (_, m') \<Rightarrow> (Inr stale, m'))"

definition gatePostStatus :: "workflow_instance \<Rightarrow> string \<Rightarrow> activation_status" where
  "gatePostStatus inst actID =
     (case find (\<lambda>a. act_ID a = actID) (inst_Activations inst) of
        Some a \<Rightarrow> act_Status a
      | None \<Rightarrow> ActivationSatisfied)"

fun gateResultStatus :: "activation_status \<Rightarrow> string" where
  "gateResultStatus ActivationSatisfied = ''completed''"
| "gateResultStatus ActivationRejected = ''rejected''"
| "gateResultStatus _ = ''gated''"

record gate_response =
  gs_Idempotent :: bool
  gs_Status :: string
  gs_ActivationStatus :: activation_status
  gs_GateInstanceID :: string
  gs_GateStatus :: "gate_status option"
  gs_Revision :: "int option"

definition idempotentGate :: "activation_status \<Rightarrow> gate_response" where
  "idempotentGate st =
     \<lparr>gs_Idempotent = True, gs_Status = gateResultStatus st, gs_ActivationStatus = st,
      gs_GateInstanceID = '''', gs_GateStatus = None, gs_Revision = None\<rparr>"

text \<open>\<^verbatim>\<open>%q\<close> on a result name: the enumeration has no character that needs escaping.\<close>

definition quoteResult :: "string \<Rightarrow> string" where
  "quoteResult s = [CHR 0x22] @ s @ [CHR 0x22]"

definition gateInstanceOf ::
  "call_env \<Rightarrow> node_definition \<Rightarrow> string \<Rightarrow> string \<Rightarrow> gate_operation \<Rightarrow> gate_status \<Rightarrow> command_gate_request \<Rightarrow> gate_instance" where
  "gateInstanceOf ce node actID gateID op status req =
     (let diagnostic =
        (case gateDefinitionByID node gateID of
           Some def \<Rightarrow>
             if op = GateOpExternalResult \<and> gd_SubjectBinding def \<noteq> None \<and>
                status \<in> {GateFailed, GateActionRequired, GateChangesRequested} \<and>
                map_of (gd_ResultOutcomes def) (gateResultNameFor status) = None
             then ''result '' @ quoteResult (gq_Result req) @ '' has no result_outcomes mapping; the gate stays parked''
             else ''''
         | None \<Rightarrow> '''')
      in zeroGateInstance\<lparr>gi_ID := NewGateInstanceID (ce_Ids ce) 0, gi_GateID := gateID,
           gi_ActivationID := actID, gi_Status := status, gi_Actor := gq_Actor req,
           gi_Reason := gq_Reason req, gi_Outcome := gq_Outcome req, gi_Subject := gq_Subject req,
           gi_PollID := gq_PollID req, gi_Source := gq_Source req, gi_ResponseHash := gq_ResponseHash req,
           gi_EvidenceIDs := gq_EvidenceIDs req, gi_DecidedAt := Some (ce_Now ce 0),
           gi_ObservedAt := gq_ObservedAt req, gi_Diagnostic := diagnostic\<rparr>)"

definition gateCommand ::
  "call_env \<Rightarrow> string \<Rightarrow> node_definition \<Rightarrow> string \<Rightarrow> gate_operation \<Rightarrow> command_gate_request \<Rightarrow> string \<Rightarrow>
   gate_instance \<Rightarrow> raw \<Rightarrow> string \<Rightarrow> nat \<Rightarrow> snapshot \<Rightarrow> command" where
  "gateCommand ce wid node actID op req idemKey gate payload outcome k fresh =
     zeroCommand\<lparr>cmd_ID := NewCommandID (ce_Commands ce) k, cmd_Kind := CommandGate,
       cmd_ExpectedRevision := inst_Revision (snap_Instance fresh), cmd_IdempotencyKey := idemKey,
       cmd_Identity := zeroIdentity\<lparr>id_WorkflowID := wid, id_NodeID := nd_ID node, id_ActivationID := actID\<rparr>,
       cmd_Operation := op, cmd_Outcome := gq_Outcome req, cmd_Gate := Some (gate\<lparr>gi_Outcome := outcome\<rparr>),
       cmd_Payload := payload\<rparr>"

definition gatePlan ::
  "manager_env \<Rightarrow> call_env \<Rightarrow> string \<Rightarrow> template \<Rightarrow> node_definition \<Rightarrow> string \<Rightarrow> string \<Rightarrow> gate_operation \<Rightarrow> gate_status \<Rightarrow>
   command_gate_request \<Rightarrow> string \<Rightarrow> nat \<Rightarrow> snapshot \<Rightarrow> (gate_response + command) result" where
  "gatePlan me ce wid tmpl node actID gateID op status req idemKey k fresh =
     bindE (targetActivation fresh (nd_ID node) actID) (\<lambda>i.
       let fa = acts fresh ! i in
       if act_Status fa \<noteq> ActivationAwaitingGate then Inr (Inl (idempotentGate (act_Status fa)))
       else bindE (gateTransitionPayload me (ce_Now ce (Suc k)) (snap_Instance fresh) tmpl node fa gateID op status req)
         (\<lambda>(payload, outcome).
           Inr (Inr (gateCommand ce wid node actID op req idemKey
                       (gateInstanceOf ce node actID gateID op status req) payload outcome k fresh))))"

definition applyGateDecision ::
  "manager_env \<Rightarrow> call_env \<Rightarrow> string \<Rightarrow> template \<Rightarrow> node_definition \<Rightarrow> activation \<Rightarrow> string \<Rightarrow> gate_operation \<Rightarrow> gate_status \<Rightarrow>
   command_gate_request \<Rightarrow> string \<Rightarrow> gate_response op" where
  "applyGateDecision me ce wid tmpl node a gateID op status req idemKey =
     retryCommand me ce wid 1 (gatePlan me ce wid tmpl node (act_ID a) gateID op status req idemKey)
       (\<lambda>_ result.
          let post = gatePostStatus (snap_Instance result) (act_ID a) in
          \<lparr>gs_Idempotent = False, gs_Status = gateResultStatus post, gs_ActivationStatus = post,
           gs_GateInstanceID = NewGateInstanceID (ce_Ids ce) 0, gs_GateStatus = Some status,
           gs_Revision = Some (inst_Revision (snap_Instance result))\<rparr>)
       (bindM (currentActivationStatus me ce 9 wid (nd_ID node) (act_ID a) (act_Status a)) (\<lambda>st.
          liftM (Inr (idempotentGate st))))
       (Errorf ''gate %q on activation %s: revision kept moving under concurrent commands'' [gateID, act_ID a])"

section \<open>The gate command\<close>

definition gateStatusOf :: "command_gate_request \<Rightarrow> gate_status result" where
  "gateStatusOf req =
     (case gq_Operation req of
        GateOpSatisfy \<Rightarrow> Inr GatePassed
      | GateOpReject \<Rightarrow> Inr GateRejected
      | GateOpWaive \<Rightarrow> Inr GateWaived
      | GateOpExternalResult \<Rightarrow>
          bindE (externalResultStatus (gq_Result req)) (\<lambda>status.
          bindE (require (gq_PollID req \<noteq> '''') (Err ''external_result requires poll_id'')) (\<lambda>_.
          bindE (require (gq_Source req \<noteq> '''') (Err ''external_result requires source'')) (\<lambda>_.
          bindE (require (case gq_ObservedAt req of None \<Rightarrow> False | Some t \<Rightarrow> \<not> IsZero t)
            (Err ''external_result requires a non-zero observed_at'')) (\<lambda>_.
          bindE (require (case gq_Subject req of None \<Rightarrow> False | Some s \<Rightarrow> su_Type s \<noteq> '''')
            (Err ''external_result requires a subject'')) (\<lambda>_.
          bindE (require (gq_ResponseHash req \<noteq> '''') (Err ''external_result requires response_hash'')) (\<lambda>_.
          bindE (require (gq_EvidenceIDs req \<noteq> []) (Err ''external_result requires at least one evidence id'')) (\<lambda>_.
            Inr status)))))))
      | GateOpOther s \<Rightarrow> Inr (GateStatusOther ''''))"

definition humanFields :: "gate_definition \<Rightarrow> command_gate_request \<Rightarrow> unit result" where
  "humanFields def req =
     (let opn = gateOperationString (gq_Operation req) in
      if gq_Operation req \<in> {GateOpSatisfy, GateOpReject, GateOpWaive} then
        bindE (require (gq_Actor req \<noteq> '''') (Errorf ''gate operation %q requires an actor'' [opn])) (\<lambda>_.
        bindE (require (gq_Reason req \<noteq> '''') (Errorf ''gate operation %q requires a reason'' [opn])) (\<lambda>_.
        bindE (require (gq_EvidenceIDs req \<noteq> [])
          (Errorf ''gate operation %q requires at least one evidence id'' [opn])) (\<lambda>_.
          require (gd_SubjectType def = '''' \<or> (case gq_Subject req of None \<Rightarrow> False | Some s \<Rightarrow> su_Type s \<noteq> ''''))
            (Errorf ''gate %q requires a subject (node declares subject_type %q)'' [gq_GateID req, gd_SubjectType def]))))
      else Inr ())"

text \<open>
  The replay check of a bound external gate: the first recorded poll with the same id decides, by
  its response hash, between a replay (\<open>True\<close>) and a conflict.
\<close>

definition pollReplay :: "workflow_instance \<Rightarrow> string \<Rightarrow> command_gate_request \<Rightarrow> bool result" where
  "pollReplay inst actID req =
     (case find (\<lambda>gi. gi_ActivationID gi = actID \<and> gi_GateID gi = gq_GateID req \<and> gi_PollID gi = gq_PollID req)
             (inst_Gates inst) of
        None \<Rightarrow> Inr False
      | Some gi \<Rightarrow>
          if gi_ResponseHash gi \<noteq> gq_ResponseHash req
          then Inl (ErrPollReplayConflict ''poll was already recorded with a different response hash'')
          else Inr True)"

definition commandGate ::
  "manager_env \<Rightarrow> call_env \<Rightarrow> string \<Rightarrow> command_gate_request result \<Rightarrow> gate_response op" where
  "commandGate me ce wid payload =
     bindM (liftM (wrapE ''gate payload: '' [] payload)) (\<lambda>req.
     let op = gq_Operation req in
     bindM (liftM (require (gq_NodeID req \<noteq> '''') (Err ''gate requires node_id''))) (\<lambda>_.
     bindM (liftM (require (gq_ActivationID req \<noteq> '''') (Err ''gate requires activation_id''))) (\<lambda>_.
     bindM (liftM (require (gq_GateID req \<noteq> '''') (Err ''gate requires gate_id''))) (\<lambda>_.
     bindM (liftM (require (op \<noteq> GateOpOther '''') (Err ''gate requires operation''))) (\<lambda>_.
     bindM (liftM (require (validGateOperation op) (Errorf ''unknown gate operation %q'' [gateOperationString op]))) (\<lambda>_.
     bindM (loadExisting me ce 0 wid) (\<lambda>snap.
     bindM (liftM (targetActivation snap (gq_NodeID req) (gq_ActivationID req))) (\<lambda>i.
     let a = acts snap ! i in
     bindM (liftM (templateFor me snap)) (\<lambda>tmpl.
     bindM (liftM (findNode tmpl (gq_NodeID req))) (\<lambda>node.
     bindM (liftM (case gateDefinitionByID node (gq_GateID req) of
                     Some d \<Rightarrow> Inr d
                   | None \<Rightarrow> Inl (Errorf ''gate %q is not declared on node %q'' [gq_GateID req, gq_NodeID req]))) (\<lambda>def.
     let byPoll = (op = GateOpExternalResult \<and> gd_SubjectBinding def \<noteq> None);
         idemKey = (if byPoll then gatePollIdempotencyKey (gq_GateID req) (act_ID a) (gq_PollID req)
                    else gateIdempotencyKey op (gq_GateID req) (act_ID a) (gq_Result req));
         replay = bindM (currentActivationStatus me ce 10 wid (gq_NodeID req) (act_ID a) (act_Status a))
                    (\<lambda>st. liftM (Inr (idempotentGate st))) in
     bindM (liftM (if byPoll then pollReplay (snap_Instance snap) (act_ID a) req else Inr False)) (\<lambda>replayed.
     if replayed \<or> snap_Idempotency snap idemKey \<noteq> None then replay
     else
       bindM (liftM (require (act_Status a = ActivationAwaitingGate)
         (Errorf ''cannot gate activation in status %q'' [activationStatusString (act_Status a)]))) (\<lambda>_.
       bindM (liftM (if gd_SubjectBinding def \<noteq> None
                     then validatePinnedGateSubject a (gq_GateID req) (gq_Subject req) else Inr ())) (\<lambda>_.
       bindM (liftM (gateStatusOf req)) (\<lambda>status.
       bindM (liftM (humanFields def req)) (\<lambda>_.
         applyGateDecision me ce wid tmpl node a (gq_GateID req) op status req idemKey))))))))))))))))"

section \<open>Skip and unblock\<close>

record command_skip_request =
  kq_NodeID :: string
  kq_ActivationID :: string
  kq_Actor :: string
  kq_Reason :: string
  kq_EvidenceIDs :: "string list"

record skip_response =
  ks_ActivationStatus :: activation_status
  ks_WaivedGates :: "string list"
  ks_Revision :: "int option"

definition waiveRequest :: "command_skip_request \<Rightarrow> string \<Rightarrow> string \<Rightarrow> command_gate_request" where
  "waiveRequest req actID gateID =
     \<lparr>gq_NodeID = kq_NodeID req, gq_ActivationID = actID, gq_GateID = gateID, gq_Operation = GateOpWaive,
      gq_Actor = kq_Actor req, gq_Reason = kq_Reason req, gq_Outcome = '''', gq_Subject = None,
      gq_PollID = '''', gq_Source = '''', gq_Result = '''', gq_ResponseHash = '''', gq_ObservedAt = None,
      gq_EvidenceIDs = kq_EvidenceIDs req\<rparr>"

text \<open>The loop over the missing gates; the waive of the \<open>j\<close>-th gate is a call of its own, \<open>ces j\<close>.\<close>

fun waiveFrom ::
  "manager_env \<Rightarrow> (nat \<Rightarrow> call_env) \<Rightarrow> nat \<Rightarrow> string \<Rightarrow> command_skip_request \<Rightarrow> template \<Rightarrow> node_definition \<Rightarrow> string \<Rightarrow>
   gate_definition list \<Rightarrow> gate_response option \<Rightarrow> gate_response option op" where
  "waiveFrom me ces j wid req tmpl node actID [] lst = liftM (Inr lst)"
| "waiveFrom me ces j wid req tmpl node actID (def # defs) lst =
     bindM (loadExisting me (ces j) 0 wid) (\<lambda>fresh.
     bindM (liftM (targetActivation fresh (kq_NodeID req) actID)) (\<lambda>i.
     bindM (applyGateDecision me (ces j) wid tmpl node (acts fresh ! i) (gd_ID def) GateOpWaive GateWaived
              (waiveRequest req actID (gd_ID def)) (gateIdempotencyKey GateOpWaive (gd_ID def) actID '''')) (\<lambda>r.
       waiveFrom me ces (Suc j) wid req tmpl node actID defs (Some r))))"

definition commandSkip ::
  "manager_env \<Rightarrow> call_env \<Rightarrow> (nat \<Rightarrow> call_env) \<Rightarrow> string \<Rightarrow> command_skip_request result \<Rightarrow> skip_response op" where
  "commandSkip me ce ces wid payload =
     bindM (liftM (wrapE ''skip payload: '' [] payload)) (\<lambda>req.
     bindM (liftM (require (kq_NodeID req \<noteq> '''') (Err ''skip requires node_id''))) (\<lambda>_.
     bindM (liftM (require (kq_Actor req \<noteq> '''') (Err ''skip requires actor''))) (\<lambda>_.
     bindM (liftM (require (kq_Reason req \<noteq> '''') (Err ''skip requires reason''))) (\<lambda>_.
     bindM (liftM (require (kq_EvidenceIDs req \<noteq> []) (Err ''skip requires at least one evidence id''))) (\<lambda>_.
     bindM (loadExisting me ce 0 wid) (\<lambda>snap.
     bindM (liftM (targetActivation snap (kq_NodeID req) (kq_ActivationID req))) (\<lambda>i.
     let a = acts snap ! i in
     bindM (liftM (require (act_Status a = ActivationAwaitingGate)
       (Errorf ''cannot skip activation in status %q'' [activationStatusString (act_Status a)]))) (\<lambda>_.
     bindM (liftM (templateFor me snap)) (\<lambda>tmpl.
     bindM (liftM (findNode tmpl (kq_NodeID req))) (\<lambda>node.
     let missing = remainingRequiredGates (snap_Instance snap) node (act_ID a) '''' (GateStatusOther '''') in
     bindM (liftM (require (missing \<noteq> []) (Err ''node has no unsatisfied required gate to skip''))) (\<lambda>_.
     bindM (waiveFrom me ces 0 wid req tmpl node (act_ID a) missing None) (\<lambda>lst.
       liftM (Inr \<lparr>ks_ActivationStatus = (case lst of Some r \<Rightarrow> gs_ActivationStatus r | None \<Rightarrow> act_Status a),
                   ks_WaivedGates = map gd_ID missing,
                   ks_Revision = Option.bind lst gs_Revision\<rparr>)))))))))))))"

record command_unblock_request =
  uq_NodeID :: string
  uq_ActivationID :: string
  uq_Actor :: string
  uq_Reason :: string

record unblock_response =
  us_Idempotent :: bool
  us_ActivationStatus :: activation_status
  us_Revision :: "int option"

definition unblockKey :: "activation \<Rightarrow> string" where
  "unblockKey a = ''unblock-'' @ act_ID a @ ''-'' @ natString (length (act_AttemptIDs a))"

definition unblockCommand ::
  "call_env \<Rightarrow> string \<Rightarrow> command_unblock_request \<Rightarrow> activation \<Rightarrow> nat \<Rightarrow> snapshot \<Rightarrow> command" where
  "unblockCommand ce wid req a k fresh =
     zeroCommand\<lparr>cmd_ID := NewCommandID (ce_Commands ce) k, cmd_Kind := CommandUnblock,
       cmd_ExpectedRevision := inst_Revision (snap_Instance fresh), cmd_IdempotencyKey := unblockKey a,
       cmd_Identity := zeroIdentity\<lparr>id_WorkflowID := wid, id_NodeID := uq_NodeID req, id_ActivationID := act_ID a\<rparr>,
       cmd_Actor := uq_Actor req, cmd_Reason := uq_Reason req\<rparr>"

definition commandUnblock ::
  "manager_env \<Rightarrow> call_env \<Rightarrow> string \<Rightarrow> command_unblock_request result \<Rightarrow> unblock_response op" where
  "commandUnblock me ce wid payload =
     bindM (liftM (wrapE ''unblock payload: '' [] payload)) (\<lambda>req.
     bindM (liftM (require (uq_NodeID req \<noteq> '''') (Err ''unblock requires node_id''))) (\<lambda>_.
     bindM (liftM (require (uq_Actor req \<noteq> '''') (Err ''unblock requires actor''))) (\<lambda>_.
     bindM (liftM (require (uq_Reason req \<noteq> '''') (Err ''unblock requires reason''))) (\<lambda>_.
     bindM (loadExisting me ce 0 wid) (\<lambda>snap.
     bindM (liftM (targetActivation snap (uq_NodeID req) (uq_ActivationID req))) (\<lambda>i.
     let a = acts snap ! i;
         replay = bindM (currentActivationStatus me ce 9 wid (uq_NodeID req) (act_ID a) (act_Status a))
           (\<lambda>st. liftM (Inr \<lparr>us_Idempotent = True, us_ActivationStatus = st, us_Revision = None\<rparr>)) in
     if snap_Idempotency snap (unblockKey a) \<noteq> None then replay
     else
       bindM (liftM (require (act_Status a = ActivationBlocked)
         (Errorf ''cannot unblock activation in status %q'' [activationStatusString (act_Status a)]))) (\<lambda>_.
       retryCommand me ce wid 1 (\<lambda>k fresh. Inr (Inr (unblockCommand ce wid req a k fresh)))
         (\<lambda>_ result. \<lparr>us_Idempotent = False, us_ActivationStatus = ActivationReady,
                       us_Revision = Some (inst_Revision (snap_Instance result))\<rparr>)
         replay
         (Errorf ''unblock activation %s: revision kept moving under concurrent commands'' [act_ID a]))))))))"

section \<open>Machine completion (completion.go)\<close>

record complete_output =
  co_DefinitionID :: string
  co_Value :: raw

record complete_artifact =
  ca_SrcPath :: string
  ca_StoredPath :: string
  ca_NonEmpty :: bool
  ca_SHA256 :: string

record staged_evidence =
  se_EvidenceID :: string
  se_OriginalPath :: string
  se_StoredPath :: string
  se_Size :: int
  se_SHA256 :: string

record command_complete_request =
  pq_NodeID :: string
  pq_ActivationID :: string
  pq_AttemptID :: string
  pq_LeaseID :: string
  pq_OwnerToken :: string
  pq_Outcome :: string
  pq_Outputs :: "complete_output list"
  pq_Artifacts :: "complete_artifact list"

text \<open>The outputs that the gate bindings of the template consume as exact integers.\<close>

definition declaredType :: "template \<Rightarrow> string \<Rightarrow> string \<Rightarrow> output_type option" where
  "declaredType tmpl nodeID outputID =
     (case map_of (rev (map (\<lambda>n. (nd_ID n, n)) (tm_Nodes tmpl))) nodeID of
        None \<Rightarrow> None
      | Some n \<Rightarrow> map_of (rev (map (\<lambda>d. (od_ID d, od_Type d)) (nd_Outputs n))) outputID)"

definition integralOutputRefs :: "template \<Rightarrow> (string \<times> string) list" where
  "integralOutputRefs tmpl =
     concat (map (\<lambda>n. concat (map (\<lambda>gate.
       (case Option.bind (gd_SubjectBinding gate) sb_PullRequest of
          None \<Rightarrow> []
        | Some r \<Rightarrow> [(tor_NodeID (sor_FromNodeOutput r), tor_OutputID (sor_FromNodeOutput r))]) @
       concat (map (\<lambda>(_, val).
         case giv_FromNodeOutput val of
           None \<Rightarrow> []
         | Some r \<Rightarrow>
             if declaredType tmpl (tor_NodeID r) (tor_OutputID r) = Some OutputNumber
             then [(tor_NodeID r, tor_OutputID r)] else []) (gd_Inputs gate))) (nd_Gates n))) (tm_Nodes tmpl))"

definition validateOutputValue ::
  "(raw \<Rightarrow> rat option) \<Rightarrow> template \<Rightarrow> node_definition \<Rightarrow> complete_output \<Rightarrow> unit result" where
  "validateOutputValue parseFloat tmpl node o1 =
     (case map_of (rev (map (\<lambda>d. (od_ID d, d)) (nd_Outputs node))) (co_DefinitionID o1) of
        None \<Rightarrow> Inr ()
      | Some def \<Rightarrow>
          (let trimmed = trimmedJSON (co_Value o1); what = ''workflow output %q on node %q'';
               args = [co_DefinitionID o1, nd_ID node] in
           if trimmed = '''' \<or> trimmed = ''null'' then Inl (Errorf (what @ '' cannot be null'') args)
           else case od_Type def of
             OutputString \<Rightarrow> require (hd trimmed = CHR 0x22) (Errorf (what @ '' requires a string value'') args)
           | OutputBoolean \<Rightarrow> require (trimmed = ''true'' \<or> trimmed = ''false'')
                               (Errorf (what @ '' requires a boolean value'') args)
           | OutputNumber \<Rightarrow>
               validateSafeJSONNumber parseFloat trimmed
                 ((nd_ID node, co_DefinitionID o1) \<in> set (integralOutputRefs tmpl)) what args
           | _ \<Rightarrow> Inr ()))"

definition validateCompleteOutputValues ::
  "(raw \<Rightarrow> rat option) \<Rightarrow> template \<Rightarrow> node_definition \<Rightarrow> complete_output list \<Rightarrow> unit result" where
  "validateCompleteOutputValues parseFloat tmpl node outputs =
     checkAll (validateOutputValue parseFloat tmpl node) outputs"

definition activationHasAttempt :: "activation \<Rightarrow> string \<Rightarrow> bool" where
  "activationHasAttempt a attemptID \<longleftrightarrow> attemptID \<in> set (act_AttemptIDs a)"

definition nextRevisionFor :: "workflow_instance \<Rightarrow> string \<Rightarrow> int" where
  "nextRevisionFor inst defID =
     foldl (\<lambda>r o1. if ov_DefinitionID o1 = defID \<and> ov_Revision o1 > r then ov_Revision o1 else r) 0
       (inst_Outputs inst) + 1"

definition buildCompleteOutputs ::
  "minted \<Rightarrow> nat \<Rightarrow> node_definition \<Rightarrow> workflow_instance \<Rightarrow> command_complete_request \<Rightarrow> string \<Rightarrow> string list \<Rightarrow> gotime \<Rightarrow>
   output_value list" where
  "buildCompleteOutputs mi k node inst req actID evIDs now =
     map (\<lambda>(j, o1).
       \<lparr>ov_ID = NewOutputID mi (k * length (pq_Outputs req) + j), ov_DefinitionID = co_DefinitionID o1,
        ov_ActivationID = actID, ov_Revision = nextRevisionFor inst (co_DefinitionID o1),
        ov_Value = (if co_Value o1 = '''' then ''null'' else co_Value o1),
        ov_EvidenceIDs =
          (if list_ex (\<lambda>d. od_Type d = OutputFile \<and> od_ID d = co_DefinitionID o1) (nd_Outputs node) \<and> evIDs \<noteq> []
           then evIDs else []),
        ov_CreatedAt = now\<rparr>) (enumerate 0 (pq_Outputs req))"

definition evidenceOf :: "string \<Rightarrow> string \<Rightarrow> gotime \<Rightarrow> staged_evidence \<Rightarrow> evidence" where
  "evidenceOf owner actID now se =
     \<lparr>evd_ID = se_EvidenceID se, evd_Kind = ''artifact'', evd_Source = EvidenceMachine, evd_Authority = owner,
      evd_OriginalPath = se_OriginalPath se, evd_StoredPath = se_StoredPath se, evd_Size = se_Size se,
      evd_SHA256 = se_SHA256 se, evd_Result = '''', evd_CreatedAt = now, evd_ActivationID = actID,
      evd_Subject = None\<rparr>"

definition completeCommand ::
  "manager_env \<Rightarrow> call_env \<Rightarrow> string \<Rightarrow> node_definition \<Rightarrow> string \<Rightarrow> activation \<Rightarrow> command_complete_request \<Rightarrow>
   staged_evidence list \<Rightarrow> nat \<Rightarrow> snapshot \<Rightarrow> command" where
  "completeCommand me ce wid node target a req staged k fresh =
     (let gated = unsatisfiedRequiredGates (snap_Instance fresh) (nd_Gates node) a \<noteq> [];
          owner = (case act_ActiveLease a of None \<Rightarrow> '''' | Some l \<Rightarrow> ls_Owner l);
          branch = (if \<not> gated \<and> target \<noteq> ''''
                    then me_EncTransition me (zeroTransition\<lparr>tr_Outcome := pq_Outcome req,
                           tr_TargetNodeID := target, tr_ActivationID := act_ID a\<rparr>)
                    else '''')
      in zeroCommand\<lparr>cmd_ID := NewCommandID (ce_Commands ce) k, cmd_Kind := CommandComplete,
           cmd_ExpectedRevision := inst_Revision (snap_Instance fresh),
           cmd_IdempotencyKey := ''complete-'' @ pq_AttemptID req,
           cmd_Identity := zeroIdentity\<lparr>id_WorkflowID := wid, id_NodeID := pq_NodeID req,
             id_ActivationID := act_ID a, id_AttemptID := pq_AttemptID req\<rparr>,
           cmd_LeaseID := pq_LeaseID req, cmd_Outcome := pq_Outcome req,
           cmd_Evidence := map (evidenceOf owner (act_ID a) (ce_Now ce 0)) staged,
           cmd_Outputs := buildCompleteOutputs (ce_Ids ce) k node (snap_Instance fresh) req (act_ID a)
                            (map se_EvidenceID staged) (ce_Now ce 0),
           cmd_Payload := branch\<rparr>)"

record complete_response =
  ps_Idempotent :: bool
  ps_ActivationStatus :: activation_status
  ps_EvidenceIDs :: "string list"
  ps_Revision :: "int option"

text \<open>The declared machine contract of a completion, checked on the snapshot read.\<close>

definition completable ::
  "manager_env \<Rightarrow> (raw \<Rightarrow> rat option) \<Rightarrow> snapshot \<Rightarrow> activation \<Rightarrow> template \<Rightarrow> node_definition \<Rightarrow> command_complete_request \<Rightarrow>
   unit result" where
  "completable me parseFloat snap a tmpl node req =
     bindE (validateDeclaredOutputs node (map (\<lambda>o1.
       \<lparr>ov_ID = '''', ov_DefinitionID = co_DefinitionID o1, ov_ActivationID = '''', ov_Revision = 0, ov_Value = '''',
        ov_EvidenceIDs = [], ov_CreatedAt = 0\<rparr>) (pq_Outputs req))) (\<lambda>_.
     bindE (validateCompleteOutputValues parseFloat tmpl node (pq_Outputs req)) (\<lambda>_.
     bindE (validateDeclaredOutcome tmpl node (pq_Outcome req)) (\<lambda>_.
       require (completionRequiresTerminal node \<longrightarrow>
                attemptHasTerminalFact (map_option ((!) (attempts snap)) (findAttempt snap a (pq_AttemptID req))))
         (Errorf ''machine completion for node %q depends on terminal output and attempt %s has not reached a terminal status''
            [nd_ID node, pq_AttemptID req]))))"

text \<open>
  \<open>stage\<close> is the outcome of \<^verbatim>\<open>StageEvidence\<close> on each artifact, a file copy; the removal of what was
  staged by a failed call is outside the modelled state.
\<close>

definition commandComplete ::
  "manager_env \<Rightarrow> call_env \<Rightarrow> (raw \<Rightarrow> rat option) \<Rightarrow> (complete_artifact \<Rightarrow> staged_evidence result) \<Rightarrow> string \<Rightarrow>
   command_complete_request result \<Rightarrow> complete_response op" where
  "commandComplete me ce parseFloat stage wid payload =
     bindM (liftM (wrapE ''complete payload: '' [] payload)) (\<lambda>req.
     bindM (liftM (require (pq_NodeID req \<noteq> '''') (Err ''complete requires node_id''))) (\<lambda>_.
     bindM (liftM (require (pq_AttemptID req \<noteq> '''') (Err ''complete requires attempt_id''))) (\<lambda>_.
     bindM (liftM (require (pq_LeaseID req \<noteq> '''') (Err ''complete requires lease_id''))) (\<lambda>_.
     bindM (liftM (require (pq_OwnerToken req \<noteq> '''') (Err ''complete requires owner_token''))) (\<lambda>_.
     bindM (liftM (require (pq_Outcome req \<noteq> '''') (Err ''complete requires outcome''))) (\<lambda>_.
     bindM (loadExisting me ce 0 wid) (\<lambda>snap.
     bindM (liftM (targetActivation snap (pq_NodeID req) (pq_ActivationID req))) (\<lambda>i.
     let a = acts snap ! i;
         replay = bindM (currentActivationStatus me ce 9 wid (pq_NodeID req) (act_ID a) (act_Status a))
           (\<lambda>st. liftM (Inr \<lparr>ps_Idempotent = True, ps_ActivationStatus = st, ps_EvidenceIDs = [], ps_Revision = None\<rparr>)) in
     bindM (liftM (require (activationHasAttempt a (pq_AttemptID req))
       (Errorf ''attempt %q does not belong to activation %q for node %q'' [pq_AttemptID req, act_ID a, pq_NodeID req]))) (\<lambda>_.
     if snap_Idempotency snap (''complete-'' @ pq_AttemptID req) \<noteq> None then replay
     else
       bindM (liftM (require (act_Status a = ActivationRunning \<or> act_Status a = ActivationAwaitingCompletion)
         (Errorf ''cannot complete activation in status %q (machine completion requires a running or awaiting-completion activation)''
            [activationStatusString (act_Status a)]))) (\<lambda>_.
       bindM (liftM (checkLeaseOwner me Err a (pq_LeaseID req) (pq_OwnerToken req))) (\<lambda>_.
       bindM (liftM (templateFor me snap)) (\<lambda>tmpl.
       bindM (liftM (findNode tmpl (pq_NodeID req))) (\<lambda>node.
       bindM (liftM (completable me parseFloat snap a tmpl node req)) (\<lambda>_.
       bindM (liftM (wrapE ''stage evidence: '' [] (mapE stage (pq_Artifacts req)))) (\<lambda>staged.
         retryCommand me ce wid 1
           (\<lambda>k fresh. Inr (Inr (completeCommand me ce wid node (fst (resolveOutcome tmpl node (pq_Outcome req))) a req staged k fresh)))
           (\<lambda>_ result. \<lparr>ps_Idempotent = False,
                         ps_ActivationStatus = gatePostStatus (snap_Instance result) (act_ID a),
                         ps_EvidenceIDs = map se_EvidenceID staged,
                         ps_Revision = Some (inst_Revision (snap_Instance result))\<rparr>)
           replay
           (Errorf ''complete attempt %s: revision kept moving under concurrent commands'' [pq_AttemptID req]))))))))))))))))"

end
