(* ===== verification/Wf_Parking.thy ===== *)
theory Wf_Parking
  imports Wf_Decisions
begin

text \<open>
  Kernel-local parking of auto external activations and the poll-time views of the parked gates
  (\<^verbatim>\<open>park_external.go\<close>).
\<close>

section \<open>Parking\<close>

record park_external_request =
  xq_WorkflowID :: string
  xq_NodeID :: string
  xq_ActivationID :: string
  xq_ExpectedRevision :: int
  xq_ControllerID :: string
  xq_LeaderLeaseID :: string

record parked_gate_ref =
  pg_WorkflowID :: string
  pg_NodeID :: string
  pg_ActivationID :: string
  pg_GateID :: string
  pg_AdapterID :: string
  pg_SubjectHash :: string

record park_external_result =
  xr_WorkflowID :: string
  xr_NodeID :: string
  xr_ActivationID :: string
  xr_Revision :: int
  xr_SuccessOutcome :: string
  xr_Gates :: "parked_gate_ref list"

definition SubjectHash :: "manager_env \<Rightarrow> subject \<Rightarrow> string" where
  "SubjectHash me s = me_Sha256Hex me (me_EncSubject me s)"

definition requiredExternal :: "gate_definition \<Rightarrow> bool" where
  "requiredExternal gate \<longleftrightarrow> gd_Type gate = GateExternal \<and> gd_Required gate"

text \<open>A pin that can be polled: its subject is known and nothing is left unresolved.\<close>

definition pinnedSubject :: "activation \<Rightarrow> string \<Rightarrow> subject option" where
  "pinnedSubject a gateID =
     (case map_of (act_ResolvedGates a) gateID of
        None \<Rightarrow> None
      | Some r \<Rightarrow> if rg_Unresolved r \<noteq> [] then None else rg_Subject r)"

definition gateRef :: "manager_env \<Rightarrow> string \<Rightarrow> activation \<Rightarrow> gate_definition \<Rightarrow> subject \<Rightarrow> parked_gate_ref" where
  "gateRef me wid a gate s =
     \<lparr>pg_WorkflowID = wid, pg_NodeID = act_NodeID a, pg_ActivationID = act_ID a, pg_GateID = gd_ID gate,
      pg_AdapterID = gd_AdapterID gate, pg_SubjectHash = SubjectHash me s\<rparr>"

definition externalGateSeeds :: "manager_env \<Rightarrow> string \<Rightarrow> activation \<Rightarrow> node_definition \<Rightarrow> parked_gate_ref list result" where
  "externalGateSeeds me wid a node =
     mapE (\<lambda>gate. case pinnedSubject a (gd_ID gate) of
                    None \<Rightarrow> Inl (ErrUnresolvedBinding ''gate on activation has unresolved bindings'')
                  | Some s \<Rightarrow> Inr (gateRef me wid a gate s)) (filter requiredExternal (nd_Gates node))"

definition parkKey :: "string \<Rightarrow> string" where
  "parkKey actID = ''park-external-'' @ actID"

definition parkCommand :: "call_env \<Rightarrow> park_external_request \<Rightarrow> string \<Rightarrow> nat \<Rightarrow> snapshot \<Rightarrow> command" where
  "parkCommand ce req outcome k fresh =
     zeroCommand\<lparr>cmd_ID := NewCommandID (ce_Commands ce) k, cmd_Kind := CommandParkExternal,
       cmd_ExpectedRevision := inst_Revision (snap_Instance fresh),
       cmd_IdempotencyKey := parkKey (xq_ActivationID req),
       cmd_Identity := zeroIdentity\<lparr>id_WorkflowID := xq_WorkflowID req, id_NodeID := xq_NodeID req,
         id_ActivationID := xq_ActivationID req\<rparr>,
       cmd_Actor := xq_ControllerID req, cmd_Outcome := outcome\<rparr>"

definition parkResult :: "park_external_request \<Rightarrow> int \<Rightarrow> string \<Rightarrow> parked_gate_ref list \<Rightarrow> park_external_result" where
  "parkResult req revision outcome seeds =
     \<lparr>xr_WorkflowID = xq_WorkflowID req, xr_NodeID = xq_NodeID req, xr_ActivationID = xq_ActivationID req,
      xr_Revision = revision, xr_SuccessOutcome = outcome, xr_Gates = seeds\<rparr>"

text \<open>
  The revalidation of one attempt: the answer of a re-park, or the success outcome and the seeds
  of the park to commit. A re-park on an activation without a dispatch policy would dereference
  nil in the code; here its outcome is empty.
\<close>

definition successOutcome :: "activation \<Rightarrow> string" where
  "successOutcome a = (case act_Dispatch a of None \<Rightarrow> '''' | Some d \<Rightarrow> dp_SuccessOutcome d)"

definition parkable :: "park_external_request \<Rightarrow> nat \<Rightarrow> snapshot \<Rightarrow> activation \<Rightarrow> unit result" where
  "parkable req k fresh a =
     bindE (require (k \<noteq> 0 \<or> inst_Revision (snap_Instance fresh) = xq_ExpectedRevision req) (ErrStaleCandidate '''')) (\<lambda>_.
     bindE (require (claimableActivationStatus (act_Status a) \<and> act_ActiveLease a = None) (ErrStaleCandidate '''')) (\<lambda>_.
     require (case act_Dispatch a of None \<Rightarrow> False
              | Some d \<Rightarrow> IsAuto d \<and> dp_ControllerID d = xq_ControllerID req \<and>
                          dp_ActionKind d = ActionExternal \<and> dp_SuccessOutcome d \<noteq> '''') (ErrStaleCandidate '''')))"

definition parkPlan ::
  "manager_env \<Rightarrow> call_env \<Rightarrow> park_external_request \<Rightarrow> node_definition \<Rightarrow> nat \<Rightarrow> snapshot \<Rightarrow>
   (park_external_result + command) result" where
  "parkPlan me ce req node k fresh =
     bindE (targetActivation fresh (xq_NodeID req) (xq_ActivationID req)) (\<lambda>i.
       let fa = acts fresh ! i in
       if snap_Idempotency fresh (parkKey (xq_ActivationID req)) \<noteq> None then
         bindE (require (act_Status fa = ActivationAwaitingGate) (ErrStaleCandidate '''')) (\<lambda>_.
         bindE (externalGateSeeds me (xq_WorkflowID req) fa node) (\<lambda>seeds.
           Inr (Inl (parkResult req (inst_Revision (snap_Instance fresh)) (successOutcome fa) seeds))))
       else
         bindE (parkable req k fresh fa) (\<lambda>_.
         bindE (externalGateSeeds me (xq_WorkflowID req) fa node) (\<lambda>_.
           Inr (Inr (parkCommand ce req (successOutcome fa) k fresh)))))"

definition parkAnswer :: "manager_env \<Rightarrow> park_external_request \<Rightarrow> node_definition \<Rightarrow> snapshot \<Rightarrow> park_external_result" where
  "parkAnswer me req node fresh =
     (case targetActivation fresh (xq_NodeID req) (xq_ActivationID req) of
        Inl _ \<Rightarrow> parkResult req 0 '''' []
      | Inr i \<Rightarrow>
          parkResult req (inst_Revision (snap_Instance fresh) + 1) (successOutcome (acts fresh ! i))
            (case externalGateSeeds me (xq_WorkflowID req) (acts fresh ! i) node of Inl _ \<Rightarrow> [] | Inr seeds \<Rightarrow> seeds))"

definition ParkExternal :: "manager_env \<Rightarrow> call_env \<Rightarrow> park_external_request \<Rightarrow> park_external_result op" where
  "ParkExternal me ce req =
     bindM (loadExisting me ce 0 (xq_WorkflowID req)) (\<lambda>snap.
     bindM (liftM (findActivation (snap_Instance snap) (xq_NodeID req) (xq_ActivationID req))) (\<lambda>_.
     bindM (liftM (templateFor me snap)) (\<lambda>tmpl.
     bindM (liftM (findNode tmpl (xq_NodeID req))) (\<lambda>node.
     bindM (liftM (require (isAutoExternalNode node) (ErrStaleCandidate ''''))) (\<lambda>_.
       retryCommand me ce (xq_WorkflowID req) 1 (parkPlan me ce req node)
         (\<lambda>fresh _. parkAnswer me req node fresh)
         (liftM (Inl (ErrStaleCandidate '''')))
         (Errorf ''park external %s/%s: revision kept moving under concurrent commands''
            [xq_WorkflowID req, xq_NodeID req]))))))"

section \<open>Views of parked gates\<close>

text \<open>
  The gates of one parked activation. An unknown node is an error of the whole query; a template
  that does not load skips the rest of its workflow.
\<close>

definition parkedActivation :: "string \<Rightarrow> activation \<Rightarrow> bool" where
  "parkedActivation controllerID a \<longleftrightarrow>
     act_Status a = ActivationAwaitingGate \<and>
     (case act_Dispatch a of None \<Rightarrow> False
      | Some d \<Rightarrow> IsAuto d \<and> dp_ControllerID d = controllerID \<and> dp_ActionKind d = ActionExternal)"

definition parkedRefs :: "manager_env \<Rightarrow> string \<Rightarrow> template \<Rightarrow> activation \<Rightarrow> parked_gate_ref list result" where
  "parkedRefs me wid tmpl a =
     bindE (findNode tmpl (act_NodeID a)) (\<lambda>node.
       Inr (concat (map (\<lambda>gate. case pinnedSubject a (gd_ID gate) of None \<Rightarrow> [] | Some s \<Rightarrow> [gateRef me wid a gate s])
                      (filter requiredExternal (nd_Gates node)))))"

definition parkedInWorkflow :: "manager_env \<Rightarrow> string \<Rightarrow> string \<Rightarrow> snapshot \<Rightarrow> parked_gate_ref list result" where
  "parkedInWorkflow me controllerID wid snap =
     (if isTerminalStatus (inst_Status (snap_Instance snap)) then Inr []
      else case templateFor me snap of
             Inl _ \<Rightarrow> Inr []
           | Inr tmpl \<Rightarrow>
               bindE (mapE (parkedRefs me wid tmpl) (filter (parkedActivation controllerID) (acts snap))) (\<lambda>rs. Inr (concat rs)))"

definition ParkedExternalGates :: "manager_env \<Rightarrow> string \<Rightarrow> mgr \<Rightarrow> parked_gate_ref list result" where
  "ParkedExternalGates me controllerID m =
     (if \<not> mg_CandidatesOK m then Inl ErrCandidatesNotRecovered
      else bindE (mapE (\<lambda>wid. case map_of (mg_Candidates m) wid of
                                None \<Rightarrow> Inr []
                              | Some snap \<Rightarrow> parkedInWorkflow me controllerID wid snap)
                   (sort (map fst (mg_Candidates m)))) (\<lambda>rs. Inr (concat rs)))"

definition ParkedGateSubject ::
  "manager_env \<Rightarrow> call_env \<Rightarrow> string \<Rightarrow> string \<Rightarrow> string \<Rightarrow> string \<Rightarrow> subject option op" where
  "ParkedGateSubject me ce wid nodeID actID gateID =
     bindM (loadExisting me ce 0 wid) (\<lambda>snap.
     bindM (liftM (findActivation (snap_Instance snap) nodeID actID)) (\<lambda>ai.
       liftM (Inr (case ai of
                     None \<Rightarrow> None
                   | Some i \<Rightarrow>
                       if act_Status (acts snap ! i) \<noteq> ActivationAwaitingGate then None
                       else Option.bind (map_of (act_ResolvedGates (acts snap ! i)) gateID) rg_Subject))))"

section \<open>Pinned outputs\<close>

definition outputValue :: "manager_env \<Rightarrow> call_env \<Rightarrow> nat \<Rightarrow> output_reference option \<Rightarrow> raw option op" where
  "outputValue me ce n ref =
     (case ref of
        None \<Rightarrow> liftM (Inl (ErrUnresolvedBinding ''output reference has no workflow identity''))
      | Some r \<Rightarrow>
          if or_WorkflowID r = '''' then liftM (Inl (ErrUnresolvedBinding ''output reference has no workflow identity''))
          else
            bindM (readCurrent me ce n (or_WorkflowID r)) (\<lambda>(snap, exists).
              if \<not> exists then liftM (Inl (ErrUnresolvedBinding ''workflow not found for output reference''))
              else liftM (Inr (map_option ov_Value
                     (find (\<lambda>o1. ov_ActivationID o1 = or_ActivationID r \<and> ov_DefinitionID o1 = or_OutputID r)
                        (inst_Outputs (snap_Instance snap)))))))"

record external_gate_poll_state =
  eg_GateID :: string
  eg_AdapterID :: string
  eg_Inputs :: "(string \<times> raw) list"
  eg_Subject :: "subject option"

text \<open>A recorded value of length zero is a nil slice: it counts as no value.\<close>

fun pollInputs ::
  "manager_env \<Rightarrow> call_env \<Rightarrow> nat \<Rightarrow> (string \<times> resolved_gate_input) list \<Rightarrow> (string \<times> raw) list op" where
  "pollInputs me ce n [] = liftM (Inr [])"
| "pollInputs me ce n ((name, input) # rest) =
     (if rgi_Literal input \<noteq> ''''
      then bindM (pollInputs me ce (Suc n) rest) (\<lambda>xs. liftM (Inr ((name, rgi_Literal input) # xs)))
      else if rgi_Reference input = None
      then liftM (Inl (ErrUnresolvedBinding ''gate input has no pin''))
      else
        bindM (outputValue me ce n (rgi_Reference input)) (\<lambda>v.
          case v of
            None \<Rightarrow> liftM (Inl (ErrUnresolvedBinding ''gate input references output with no recorded value''))
          | Some x \<Rightarrow>
              if x = '''' then liftM (Inl (ErrUnresolvedBinding ''gate input references output with no recorded value''))
              else bindM (pollInputs me ce (Suc n) rest) (\<lambda>xs. liftM (Inr ((name, x) # xs)))))"

definition ExternalGateState ::
  "manager_env \<Rightarrow> call_env \<Rightarrow> string \<Rightarrow> string \<Rightarrow> string \<Rightarrow> string \<Rightarrow> external_gate_poll_state option op" where
  "ExternalGateState me ce wid nodeID actID gateID =
     bindM (loadExisting me ce 0 wid) (\<lambda>snap.
     bindM (liftM (findActivation (snap_Instance snap) nodeID actID)) (\<lambda>ai.
       case ai of
         None \<Rightarrow> liftM (Inr None)
       | Some i \<Rightarrow>
           (let a = acts snap ! i in
            if act_Status a \<noteq> ActivationAwaitingGate then liftM (Inr None)
            else case map_of (act_ResolvedGates a) gateID of
              None \<Rightarrow> liftM (Inr None)
            | Some r \<Rightarrow>
                if rg_Subject r = None then liftM (Inr None)
                else if rg_Unresolved r \<noteq> [] then liftM (Inl (ErrUnresolvedBinding ''gate on activation''))
                else
                  bindM (liftM (templateFor me snap)) (\<lambda>tmpl.
                  bindM (liftM (findNode tmpl nodeID)) (\<lambda>node.
                  bindM (liftM (case gateDefinitionByID node gateID of
                                  Some d \<Rightarrow> Inr d
                                | None \<Rightarrow> Inl (Errorf ''gate %q is not declared on node %q'' [gateID, nodeID]))) (\<lambda>def.
                  bindM (pollInputs me ce 1 (rg_Inputs r)) (\<lambda>inputs.
                    liftM (Inr (Some \<lparr>eg_GateID = gateID, eg_AdapterID = gd_AdapterID def,
                                      eg_Inputs = inputs, eg_Subject = rg_Subject r\<rparr>)))))))))"

end
