(* ===== verification/Wf_Retry.thy ===== *)
theory Wf_Retry
  imports Wf_Parking
begin

text \<open>
  Optimistic concurrency. Several clients share one instance: between any two accesses of an
  operation the others may commit commands of their own. An operation plans its command on a
  snapshot and names its revision; the store refuses the command when another commit came between.
\<close>

section \<open>Clients of a shared instance\<close>

abbreviation revision :: "snapshot \<Rightarrow> int" where
  "revision s \<equiv> inst_Revision (snap_Instance s)"

text \<open>
  \<open>holds me wid U m es cur\<close>: the directory of \<open>wid\<close> represents \<open>cur\<close>, and \<open>U\<close> contains the ids of all
  events that anyone but the operation considered has recorded or will record.
\<close>

definition holds :: "manager_env \<Rightarrow> string \<Rightarrow> string set \<Rightarrow> mgr \<Rightarrow> event list \<Rightarrow> snapshot \<Rightarrow> bool" where
  "holds me wid U m es cur \<longleftrightarrow>
     represents (me_Store me) (files m wid) es cur \<and> set (snap_AppliedEventIDs cur) \<subseteq> U"

text \<open>What the others may do: reduce further events onto the state and append them to the log.\<close>

definition proceeds :: "manager_env \<Rightarrow> event list \<Rightarrow> snapshot \<Rightarrow> event list \<Rightarrow> snapshot \<Rightarrow> bool" where
  "proceeds me es cur es' cur' \<longleftrightarrow>
     (\<exists>evs. es' = es @ evs \<and> seReduceAll (me_Store me) cur evs = Inr cur' \<and>
            revision cur' = revision cur + int (length evs))"

definition cooperative :: "manager_env \<Rightarrow> string \<Rightarrow> string set \<Rightarrow> (mgr \<Rightarrow> mgr) \<Rightarrow> bool" where
  "cooperative me wid U f \<longleftrightarrow>
     (\<forall>m es cur. holds me wid U m es cur \<longrightarrow>
        (\<exists>es' cur'. holds me wid U (f m) es' cur' \<and> proceeds me es cur es' cur'))"

text \<open>All interference is cooperative, and the UUIDs that the store draws for this operation are new.\<close>

definition shared :: "manager_env \<Rightarrow> call_env \<Rightarrow> string \<Rightarrow> string set \<Rightarrow> bool" where
  "shared me ce wid U \<longleftrightarrow>
     (\<forall>n. cooperative me wid U (ce_Others ce n)) \<and>
     (\<forall>n k. NewEventID (ce_Store ce n) k \<notin> U) \<and> (\<forall>n. inj (mi_uuid (ce_Store ce n)))"

lemma proceeds_refl [simp]: "proceeds me es cur es cur"
  by (simp add: proceeds_def)

lemma proceeds_trans:
  "proceeds me es s es' s' \<Longrightarrow> proceeds me es' s' es'' s'' \<Longrightarrow> proceeds me es s es'' s''"
  unfolding proceeds_def by (elim exE conjE, rename_tac evs evs', rule_tac x = "evs @ evs'" in exI)
    (simp add: foldE_append)

lemma proceeds_same_revision:
  "proceeds me es s es' s' \<Longrightarrow> revision s' = revision s \<Longrightarrow> es' = es \<and> s' = s"
  by (auto simp: proceeds_def)

lemma cooperative_id [simp]: "cooperative me wid U (\<lambda>m. m)"
  by (auto simp: cooperative_def intro: proceeds_refl)

lemma holds_exists:
  assumes "holds me wid U m es cur"
  obtains fs where "map_of (mg_Disk m) wid = Some fs" and "files m wid = fs"
  using assms by (auto simp: holds_def files_def represents_def noFiles_def split: option.splits)

lemma holds_cong: "files m' wid = files m wid \<Longrightarrow> holds me wid U m' es cur = holds me wid U m es cur"
  by (simp add: holds_def)

text \<open>A read returns the state the others left.\<close>

lemma loadExisting_holds:
  assumes "shared me ce wid U" and "holds me wid U m es cur"
  obtains m' es' cur' where "loadExisting me ce n wid m = (Inr cur', m')"
    and "holds me wid U m' es' cur'" and "proceeds me es cur es' cur'"
    and "files m' = files (ce_Others ce n m)"
proof -
  let ?m = "ce_Others ce n m"
  obtain es' cur' where h: "holds me wid U ?m es' cur'" and p: "proceeds me es cur es' cur'"
    using assms by (fastforce simp: shared_def cooperative_def)
  obtain fs where fs: "map_of (mg_Disk ?m) wid = Some fs" "files ?m wid = fs" using h by (rule holds_exists)
  have "loadCurrent (me_Store me) fs = (Inr (cur', True), fs)"
    using h fs(2) by (auto simp: holds_def intro: represents_loadCurrent)
  then have "readCurrent me ce n wid m = (Inr (cur', True), putFiles wid fs ?m)"
    by (simp add: readCurrent_def fs)
  then have "loadExisting me ce n wid m = (Inr cur', putFiles wid fs ?m)"
    by (simp add: loadExisting_def)
  moreover have "files (putFiles wid fs ?m) = files ?m" using fs(2) by (auto simp: fun_eq_iff)
  ultimately show thesis using h p that holds_cong by metis
qed

text \<open>
  A commit of a command that was planned on \<open>cur\<close>: accepted, nobody came between and the result is
  the reduction of its batch on \<open>cur\<close>; refused, the state is what the others left.
\<close>

definition committed ::
  "manager_env \<Rightarrow> minted \<Rightarrow> string \<Rightarrow> event list \<Rightarrow> snapshot \<Rightarrow> command \<Rightarrow> event list \<Rightarrow> snapshot \<Rightarrow> instance_files \<Rightarrow> bool" where
  "committed me mi wid es cur cmd batch result fs \<longleftrightarrow>
     Apply mi (se_Codec (me_Store me)) (se_Policies (me_Store me)) cur (stampCommand (mi_now mi) cmd) = Inr batch \<and>
     seReduceAll (me_Store me) cur batch = Inr result \<and>
     revision result = revision cur + int (length batch) \<and>
     sf_Snapshot fs = Some result \<and> sf_Log fs = encLog (se_Encode (me_Store me)) (es @ batch)"

lemma ApplyCommand_accepted:
  assumes sh: "shared me ce wid U" and h: "holds me wid U m es cur"
    and rev: "cmd_ExpectedRevision cmd = revision cur"
    and ap: "ApplyCommand me ce n wid cmd m = (Inr result, m')"
  obtains batch where "committed me (ce_Store ce n) wid es cur cmd batch result (files m' wid)"
    and "holds me wid U (ce_Others ce n m) es cur"
proof -
  let ?m = "ce_Others ce n m" and ?mi = "ce_Store ce n" and ?env = "me_Store me"
  obtain es' cur' where h': "holds me wid U ?m es' cur'" and p: "proceeds me es cur es' cur'"
    using sh h by (fastforce simp: shared_def cooperative_def)
  have rep: "represents ?env (files ?m wid) es' cur'" using h' by (simp add: holds_def)
  obtain fs' where al: "applyLocked ?env ?mi wid (files ?m wid) cmd = (Inr result, fs')"
    and m': "m' = observeCommit wid result (putFiles wid fs' ?m)"
    using ap by (auto simp: ApplyCommand_def Let_def split: prod.splits sum.splits)
  obtain fs1 where fs1: "represents ?env fs1 es' cur'" "sf_Log fs1 = sf_Log (files ?m wid)"
    and c: "commitCommand ?env ?mi fs1 cur' cmd = (Inr result, fs')"
    using applyLocked_commit[OF rep] al by metis
  obtain batch where b: "Apply ?mi (se_Codec ?env) (se_Policies ?env) cur' (stampCommand (mi_now ?mi) cmd) = Inr batch"
    "seReduceAll ?env cur' batch = Inr result" "fs' = writeSnapshot result (appendEvents ?env batch fs1)"
    using commitCommand_ok[OF c] .
  have same: "es' = es \<and> cur' = cur"
    using b(1) rev by (intro proceeds_same_revision[OF p]) (simp add: Apply_def stampCommand_def Let_def split: if_splits)
  note wf = Apply_wellFormed[OF b(1)]
  have inj: "inj (mi_uuid ?mi)" and new: "\<And>k. NewEventID ?mi k \<notin> U" using sh by (auto simp: shared_def)
  have "ev_ID ` set batch \<subseteq> range (NewEventID ?mi)" by (rule wellFormedBatch_ids(2)[OF wf inj])
  moreover have "range (NewEventID ?mi) \<inter> set (snap_AppliedEventIDs cur') = {}"
    using new h' by (auto simp: holds_def)
  ultimately have fresh: "ev_ID ` set batch \<inter> set (snap_AppliedEventIDs cur') = {}" by blast
  have seq: "\<forall>k<length batch. ev_Sequence (batch ! k) = revision cur' + int k + 1"
    using wf by (simp add: wellFormedBatch_def)
  have "revision result = revision cur' + int (length batch)"
    using Reduce_sequence[OF b(2) seq wellFormedBatch_ids(1)[OF wf inj] fresh] by simp
  moreover have "sf_Log fs1 = encLog (se_Encode ?env) es'" using fs1(1) by (simp add: represents_def)
  ultimately have "committed me ?mi wid es cur cmd batch result (files m' wid)"
    using b same m' by (simp add: committed_def writeSnapshot_def appendEvents_def encLog_append)
  then show thesis using h' same by (auto intro: that)
qed

text \<open>Why a command is refused on \<open>cur\<close>: by \<open>Apply\<close>, or by the reducer on the batch it built.\<close>

definition refused :: "manager_env \<Rightarrow> minted \<Rightarrow> snapshot \<Rightarrow> command \<Rightarrow> error \<Rightarrow> bool" where
  "refused me mi cur cmd e \<longleftrightarrow>
     (case Apply mi (se_Codec (me_Store me)) (se_Policies (me_Store me)) cur (stampCommand (mi_now mi) cmd) of
        Inl e' \<Rightarrow> e' = e
      | Inr batch \<Rightarrow> seReduceAll (me_Store me) cur batch = Inl e)"

lemma ApplyCommand_refused:
  assumes sh: "shared me ce wid U" and h: "holds me wid U m es cur"
    and ap: "ApplyCommand me ce n wid cmd m = (Inl e, m')"
  obtains es' cur' where "holds me wid U m' es' cur'" and "proceeds me es cur es' cur'"
    and "refused me (ce_Store ce n) cur' cmd e"
    and "files (ce_Others ce n m) wid = files m wid \<Longrightarrow> cur' = cur"
proof -
  let ?m = "ce_Others ce n m" and ?mi = "ce_Store ce n" and ?env = "me_Store me"
  obtain es' cur' where h': "holds me wid U ?m es' cur'" and p: "proceeds me es cur es' cur'"
    using sh h by (fastforce simp: shared_def cooperative_def)
  have rep: "represents ?env (files ?m wid) es' cur'" using h' by (simp add: holds_def)
  obtain fs' where al: "applyLocked ?env ?mi wid (files ?m wid) cmd = (Inl e, fs')" and m': "m' = putFiles wid fs' ?m"
    using ap by (auto simp: ApplyCommand_def Let_def split: prod.splits sum.splits)
  obtain fs1 where fs1: "represents ?env fs1 es' cur'"
    and c: "commitCommand ?env ?mi fs1 cur' cmd = (Inl e, fs')"
    using applyLocked_commit[OF rep] al by metis
  have "fs' = fs1" using c by (rule commitCommand_rejected)
  then have 1: "holds me wid U m' es' cur'" using fs1 h' m' by (simp add: holds_def)
  have 2: "refused me ?mi cur' cmd e"
    using c by (auto simp: commitCommand_def refused_def split: sum.splits)
  have "cur' = cur" if "files ?m wid = files m wid"
    using represents_loadCurrent[OF rep] h that by (auto simp: holds_def dest: represents_loadCurrent)
  with 1 p 2 show thesis by (rule that)
qed

section \<open>The bounded retry\<close>

text \<open>
  How a retried command ends successfully: the plan answers early on a state the instance was in,
  or its command is committed on the very state it was planned on, or it was refused as a
  duplicate and \<open>onDup\<close> answers.
\<close>

definition answered ::
  "manager_env \<Rightarrow> call_env \<Rightarrow> string \<Rightarrow> string set \<Rightarrow> nat \<Rightarrow> (nat \<Rightarrow> snapshot \<Rightarrow> ('a + command) result) \<Rightarrow>
   (snapshot \<Rightarrow> snapshot \<Rightarrow> 'a) \<Rightarrow> 'a op \<Rightarrow> event list \<Rightarrow> snapshot \<Rightarrow> 'a \<Rightarrow> mgr \<Rightarrow> bool" where
  "answered me ce wid U b plan onOk onDup es cur x m' \<longleftrightarrow>
     (\<exists>j m1 es1 fresh. holds me wid U m1 es1 fresh \<and> proceeds me es cur es1 fresh \<and>
        (plan j fresh = Inr (Inl x) \<and> m1 = m' \<or>
         (\<exists>cmd batch result. plan j fresh = Inr (Inr cmd) \<and> x = onOk fresh result \<and>
            committed me (ce_Store ce (b + 2 * j + 1)) wid es1 fresh cmd batch result (files m' wid)) \<or>
         (\<exists>cmd m2 es2 cur2. plan j fresh = Inr (Inr cmd) \<and> holds me wid U m2 es2 cur2 \<and>
            proceeds me es1 fresh es2 cur2 \<and>
            refused me (ce_Store ce (b + 2 * j + 1)) cur2 cmd ErrDuplicateIdempotency \<and>
            onDup m2 = (Inr x, m'))))"

lemma answered_early:
  "holds me wid U m' es1 fresh \<Longrightarrow> proceeds me es cur es1 fresh \<Longrightarrow> plan j fresh = Inr (Inl x) \<Longrightarrow>
   answered me ce wid U b plan onOk onDup es cur x m'"
  unfolding answered_def by blast

lemma answered_commit:
  "holds me wid U m1 es1 fresh \<Longrightarrow> proceeds me es cur es1 fresh \<Longrightarrow> plan j fresh = Inr (Inr cmd) \<Longrightarrow>
   committed me (ce_Store ce (b + 2 * j + 1)) wid es1 fresh cmd batch result (files m' wid) \<Longrightarrow>
   answered me ce wid U b plan onOk onDup es cur (onOk fresh result) m'"
  unfolding answered_def by blast

lemma answered_dup:
  "holds me wid U m1 es1 fresh \<Longrightarrow> proceeds me es cur es1 fresh \<Longrightarrow> plan j fresh = Inr (Inr cmd) \<Longrightarrow>
   holds me wid U m2 es2 cur2 \<Longrightarrow> proceeds me es1 fresh es2 cur2 \<Longrightarrow>
   refused me (ce_Store ce (b + 2 * j + 1)) cur2 cmd ErrDuplicateIdempotency \<Longrightarrow> onDup m2 = (Inr x, m') \<Longrightarrow>
   answered me ce wid U b plan onOk onDup es cur x m'"
  unfolding answered_def by blast

lemma answered_cases:
  assumes "answered me ce wid U b plan onOk onDup es cur x m'"
  obtains
    (Early) j es1 fresh where "holds me wid U m' es1 fresh" "proceeds me es cur es1 fresh" "plan j fresh = Inr (Inl x)"
  | (Commit) j m1 es1 fresh cmd batch result where "holds me wid U m1 es1 fresh" "proceeds me es cur es1 fresh"
      "plan j fresh = Inr (Inr cmd)" "x = onOk fresh result"
      "committed me (ce_Store ce (b + 2 * j + 1)) wid es1 fresh cmd batch result (files m' wid)"
  | (Dup) j es1 fresh cmd m2 es2 cur2 where "proceeds me es cur es1 fresh" "plan j fresh = Inr (Inr cmd)"
      "holds me wid U m2 es2 cur2" "proceeds me es1 fresh es2 cur2"
      "refused me (ce_Store ce (b + 2 * j + 1)) cur2 cmd ErrDuplicateIdempotency" "onDup m2 = (Inr x, m')"
  using assms unfolding answered_def by blast

lemma answered_mono:
  "answered me ce wid U b plan onOk onDup es' cur' x m' \<Longrightarrow> proceeds me es cur es' cur' \<Longrightarrow>
   answered me ce wid U b plan onOk onDup es cur x m'"
  unfolding answered_def by (blast intro: proceeds_trans)

text \<open>One attempt after its read.\<close>

definition afterRead ::
  "manager_env \<Rightarrow> call_env \<Rightarrow> string \<Rightarrow> nat \<Rightarrow> (nat \<Rightarrow> snapshot \<Rightarrow> ('a + command) result) \<Rightarrow>
   (snapshot \<Rightarrow> snapshot \<Rightarrow> 'a) \<Rightarrow> 'a op \<Rightarrow> nat \<Rightarrow> snapshot \<Rightarrow> mgr \<Rightarrow> 'a option result \<times> mgr" where
  "afterRead me ce wid b plan onOk onDup k fresh m1 =
      (case plan k fresh of
         Inl e \<Rightarrow> (Inl e, m1)
       | Inr (Inl x) \<Rightarrow> (Inr (Some x), m1)
       | Inr (Inr cmd) \<Rightarrow>
           (case ApplyCommand me ce (b + 2 * k + 1) wid cmd m1 of
              (Inr result, m') \<Rightarrow> (Inr (Some (onOk fresh result)), m')
            | (Inl e, m') \<Rightarrow>
                if e = ErrDuplicateIdempotency then bindM onDup (\<lambda>x. liftM (Inr (Some x))) m'
                else if e = ErrRevisionMismatch then (Inr None, m')
                else (Inl e, m')))"

text \<open>
  The contract of every command that goes through the retry: it names the revision it was planned
  on, and one idempotency key for all its attempts.
\<close>

locale optimistic_plan =
  fixes plan :: "nat \<Rightarrow> snapshot \<Rightarrow> ('a + command) result" and key :: string
  assumes expects: "plan k s = Inr (Inr cmd) \<Longrightarrow> cmd_ExpectedRevision cmd = revision s"
    and keyed: "plan k s = Inr (Inr cmd) \<Longrightarrow> cmd_IdempotencyKey cmd = key"
    and key_given: "key \<noteq> ''''"
begin

lemma attempt_step:
  assumes sh: "shared me ce wid U" and h: "holds me wid U m es cur"
  obtains m1 es1 fresh where "holds me wid U m1 es1 fresh" and "proceeds me es cur es1 fresh"
    and "attemptCommand me ce wid b plan onOk onDup k m = afterRead me ce wid b plan onOk onDup k fresh m1"
    and "loadExisting me ce (b + 2 * k) wid m = (Inr fresh, m1)"
proof -
  obtain m1 es1 fresh where 1: "loadExisting me ce (b + 2 * k) wid m = (Inr fresh, m1)"
    "holds me wid U m1 es1 fresh" "proceeds me es cur es1 fresh"
    using loadExisting_holds[OF sh h] by metis
  have "attemptCommand me ce wid b plan onOk onDup k m = afterRead me ce wid b plan onOk onDup k fresh m1"
    unfolding attemptCommand_def afterRead_def using 1(1) by (auto split: sum.split)
  with 1 show thesis by (intro that)
qed

lemma attempt_answers:
  assumes sh: "shared me ce wid U" and h: "holds me wid U m es cur"
    and at: "attemptCommand me ce wid b plan onOk onDup k m = (Inr r, m')"
  shows "case r of
      Some x \<Rightarrow> answered me ce wid U b plan onOk onDup es cur x m'
    | None \<Rightarrow> \<exists>es' cur'. holds me wid U m' es' cur' \<and> proceeds me es cur es' cur'"
proof -
  obtain m1 es1 fresh where h1: "holds me wid U m1 es1 fresh" and p1: "proceeds me es cur es1 fresh"
    and eq: "attemptCommand me ce wid b plan onOk onDup k m = afterRead me ce wid b plan onOk onDup k fresh m1"
    using attempt_step[OF sh h] by metis
  note eq = eq[unfolded afterRead_def]
  show ?thesis
  proof (cases "plan k fresh")
    case (Inl e)
    with at eq show ?thesis by simp
  next
    case (Inr p)
    show ?thesis
    proof (cases p)
      case (Inl x)
      then have "r = Some x" "m1 = m'" using at eq Inr by auto
      with Inl Inr h1 p1 show ?thesis by (auto intro: answered_early)
    next
      case p: (Inr cmd)
      obtain q m2 where ap: "ApplyCommand me ce (b + 2 * k + 1) wid cmd m1 = (q, m2)" by fastforce
      show ?thesis
      proof (cases q)
        case q: (Inr result)
        have rev: "cmd_ExpectedRevision cmd = revision fresh" using expects Inr p by simp
        obtain batch where "committed me (ce_Store ce (b + 2 * k + 1)) wid es1 fresh cmd batch result (files m2 wid)"
          using ApplyCommand_accepted[OF sh h1 rev] ap q by metis
        moreover have "r = Some (onOk fresh result)" "m2 = m'" using at eq Inr p ap q by auto
        ultimately show ?thesis using answered_commit[OF h1 p1] Inr p by fastforce
      next
        case q: (Inl e)
        obtain es2 cur2 where h2: "holds me wid U m2 es2 cur2" and p2: "proceeds me es1 fresh es2 cur2"
          and ref: "refused me (ce_Store ce (b + 2 * k + 1)) cur2 cmd e"
          using ApplyCommand_refused[OF sh h1] ap q by metis
        show ?thesis
        proof (cases "e = ErrDuplicateIdempotency")
          case True
          then have "bindM onDup (\<lambda>x. liftM (Inr (Some x))) m2 = (Inr r, m')" using at eq Inr p ap q by simp
          then obtain x where "onDup m2 = (Inr x, m')" "r = Some x"
            by (auto simp: bindM_def split: prod.splits sum.splits)
          then show ?thesis using answered_dup[OF h1 p1 _ h2 p2] ref True Inr p by fastforce
        next
          case False
          then have "r = None" "m' = m2" using at eq Inr p ap q by (auto split: if_splits)
          then show ?thesis using h2 proceeds_trans[OF p1 p2] by auto
        qed
      qed
    qed
  qed
qed

lemma retry_answers:
  assumes "shared me ce wid U" and "holds me wid U m es cur"
    and "retryFrom left k (attemptCommand me ce wid b plan onOk onDup) ex m = (Inr x, m')"
  shows "answered me ce wid U b plan onOk onDup es cur x m'"
  using assms(2,3)
proof (induction left arbitrary: k m es cur)
  case (Suc left)
  obtain q m1 where at: "attemptCommand me ce wid b plan onOk onDup k m = (q, m1)" by fastforce
  then obtain r where q: "q = Inr r" using Suc.prems(2) by (cases q) auto
  show ?case
  proof (cases r)
    case (Some y)
    then have "y = x" "m1 = m'" using Suc.prems(2) at q by auto
    then show ?thesis using attempt_answers[OF assms(1) Suc.prems(1)] at q Some by fastforce
  next
    case None
    then obtain es' cur' where h: "holds me wid U m1 es' cur'" and p: "proceeds me es cur es' cur'"
      using attempt_answers[OF assms(1) Suc.prems(1)] at q by fastforce
    have "retryFrom left (Suc k) (attemptCommand me ce wid b plan onOk onDup) ex m1 = (Inr x, m')"
      using Suc.prems(2) at q None by simp
    from Suc.IH[OF h this] show ?thesis using p by (rule answered_mono)
  qed
qed simp

end

text \<open>
  A plan that keeps applying: on every state the instance can still reach, it decides, and its
  command is refused there only as a duplicate or because somebody else committed first.
\<close>

definition applicable ::
  "manager_env \<Rightarrow> call_env \<Rightarrow> event list \<Rightarrow> snapshot \<Rightarrow> (nat \<Rightarrow> snapshot \<Rightarrow> ('a + command) result) \<Rightarrow> bool" where
  "applicable me ce es cur plan \<longleftrightarrow>
     (\<forall>k es1 fresh. proceeds me es cur es1 fresh \<longrightarrow>
        (\<exists>p. plan k fresh = Inr p) \<and>
        (\<forall>cmd n es2 cur2 e. plan k fresh = Inr (Inr cmd) \<longrightarrow> proceeds me es1 fresh es2 cur2 \<longrightarrow>
           refused me (ce_Store ce n) cur2 cmd e \<longrightarrow>
           e = ErrDuplicateIdempotency \<or> e = ErrRevisionMismatch \<and> revision cur2 \<noteq> revision fresh))"

lemma applicable_mono: "applicable me ce es cur plan \<Longrightarrow> proceeds me es cur es' cur' \<Longrightarrow> applicable me ce es' cur' plan"
  unfolding applicable_def by (meson proceeds_trans)

context optimistic_plan
begin

lemma attempt_settles:
  assumes sh: "shared me ce wid U" and h: "holds me wid U m es cur" and ap: "applicable me ce es cur plan"
    and dup: "\<And>m2 es2 cur2. holds me wid U m2 es2 cur2 \<Longrightarrow> \<exists>x m3. onDup m2 = (Inr x, m3)"
  obtains x m' where "attemptCommand me ce wid b plan onOk onDup k m = (Inr (Some x), m')"
  | m' es' cur' where "attemptCommand me ce wid b plan onOk onDup k m = (Inr None, m')"
      and "holds me wid U m' es' cur'" and "proceeds me es cur es' cur'"
      and "\<exists>m. files (ce_Others ce (b + 2 * k + 1) m) wid \<noteq> files m wid"
proof -
  obtain m1 es1 fresh where h1: "holds me wid U m1 es1 fresh" and p1: "proceeds me es cur es1 fresh"
    and eq: "attemptCommand me ce wid b plan onOk onDup k m = afterRead me ce wid b plan onOk onDup k fresh m1"
    using attempt_step[OF sh h] by metis
  obtain p where p: "plan k fresh = Inr p" using ap p1 unfolding applicable_def by meson
  show thesis
  proof (cases p)
    case (Inl x)
    with p eq have "attemptCommand me ce wid b plan onOk onDup k m = (Inr (Some x), m1)"
      by (simp add: afterRead_def)
    then show thesis by (rule that(1))
  next
    case cmd: (Inr cmd)
    obtain q m2 where aq: "ApplyCommand me ce (b + 2 * k + 1) wid cmd m1 = (q, m2)" by fastforce
    show thesis
    proof (cases q)
      case (Inr result)
      with p cmd aq eq have "attemptCommand me ce wid b plan onOk onDup k m = (Inr (Some (onOk fresh result)), m2)"
        by (simp add: afterRead_def)
      then show thesis by (rule that(1))
    next
      case e: (Inl e)
      obtain es2 cur2 where h2: "holds me wid U m2 es2 cur2" and p2: "proceeds me es1 fresh es2 cur2"
        and ref: "refused me (ce_Store ce (b + 2 * k + 1)) cur2 cmd e"
        and quiet: "files (ce_Others ce (b + 2 * k + 1) m1) wid = files m1 wid \<Longrightarrow> cur2 = fresh"
        using ApplyCommand_refused[OF sh h1] aq e by metis
      have "e = ErrDuplicateIdempotency \<or> e = ErrRevisionMismatch \<and> revision cur2 \<noteq> revision fresh"
        using ap p1 p cmd p2 ref unfolding applicable_def by blast
      then show thesis
      proof (elim disjE conjE)
        assume d: "e = ErrDuplicateIdempotency"
        obtain x m3 where x: "onDup m2 = (Inr x, m3)" using dup[OF h2] by blast
        have "attemptCommand me ce wid b plan onOk onDup k m = bindM onDup (\<lambda>x. liftM (Inr (Some x))) m2"
          using d p cmd aq e eq by (simp add: afterRead_def)
        then show thesis using x by (intro that(1)[of x m3]) simp
      next
        assume mm: "e = ErrRevisionMismatch" "revision cur2 \<noteq> revision fresh"
        have "attemptCommand me ce wid b plan onOk onDup k m = (Inr None, m2)"
          using mm p cmd aq e eq by (simp add: afterRead_def)
        then show thesis
          using h2 proceeds_trans[OF p1 p2] quiet mm(2) by (intro that(2)) auto
      qed
    qed
  qed
qed

lemma retry_settles:
  assumes sh: "shared me ce wid U"
    and dup: "\<And>m2 es2 cur2. holds me wid U m2 es2 cur2 \<Longrightarrow> \<exists>x m3. onDup m2 = (Inr x, m3)"
    and quiet: "\<forall>m. files (ce_Others ce (b + 2 * q + 1) m) wid = files m wid"
    and "holds me wid U m es cur" and "applicable me ce es cur plan" and "k \<le> q" and "q < k + left"
  shows "\<exists>x m'. retryFrom left k (attemptCommand me ce wid b plan onOk onDup) ex m = (Inr x, m')"
  using assms(4-)
proof (induction left arbitrary: k m es cur)
  case (Suc left)
  from sh Suc.prems(1,2) dup show ?case
  proof (rule attempt_settles[where b = b and k = k and onOk = onOk])
    fix x m' assume "attemptCommand me ce wid b plan onOk onDup k m = (Inr (Some x), m')"
    then show ?thesis by simp
  next
    fix m' es' cur'
    assume at: "attemptCommand me ce wid b plan onOk onDup k m = (Inr None, m')"
      and h: "holds me wid U m' es' cur'" and p: "proceeds me es cur es' cur'"
      and "\<exists>m. files (ce_Others ce (b + 2 * k + 1) m) wid \<noteq> files m wid"
    then have "k \<noteq> q" using quiet by auto
    with Suc.prems have "Suc k \<le> q" "q < Suc k + left" by auto
    from Suc.IH[OF h applicable_mono[OF Suc.prems(2) p] this] at show ?thesis by simp
  qed
qed simp

end

section \<open>The retried commands of the manager\<close>

interpretation terminating: optimistic_plan
  "\<lambda>k snap. Inr (Inr (terminateCommand ce wid nodeID activationID attemptID leaseID t k snap)) :: (unit + command) result"
  "''terminate-'' @ attemptID" for ce wid nodeID activationID attemptID leaseID t
  by unfold_locales (auto simp: terminateCommand_def)

interpretation identifying: optimistic_plan
  "\<lambda>k snap. Inr (Inr (identifyCommand ce req k snap)) :: (unit + command) result"
  "''identify-'' @ fd_AttemptID req" for ce req
  by unfold_locales (auto simp: identifyCommand_def)

interpretation beating: optimistic_plan
  "\<lambda>k cur. Inr (Inr (heartbeatCommand ce wid req actID now expiry k cur)) :: (string \<times> gotime \<times> gotime + command) result"
  "''hb-'' @ hq_LeaseID req @ ''-'' @ intString (UnixNano now)" for ce wid req actID now expiry
  by unfold_locales (auto simp: heartbeatCommand_def)

interpretation canceling: optimistic_plan
  "\<lambda>k fresh. bindE (cancelCheck wid fresh) (\<lambda>again.
     Inr (case again of Some r \<Rightarrow> Inl r | None \<Rightarrow> Inr (cancelCommand ce wid req k fresh)))"
  "cancelIdempotencyKey wid" for ce wid req
  by unfold_locales
    (auto simp: cancelCommand_def bindE_eq_Inr_iff cancelIdempotencyKey_def split: option.splits)

interpretation unblocking: optimistic_plan
  "\<lambda>k fresh. Inr (Inr (unblockCommand ce wid req a k fresh)) :: (unblock_response + command) result"
  "unblockKey a" for ce wid req a
  by unfold_locales (auto simp: unblockCommand_def unblockKey_def)

interpretation completing: optimistic_plan
  "\<lambda>k fresh. Inr (Inr (completeCommand me ce wid node target a req staged k fresh)) :: (complete_response + command) result"
  "''complete-'' @ pq_AttemptID req" for me ce wid node target a req staged
  by unfold_locales (auto simp: completeCommand_def Let_def)

interpretation gating: optimistic_plan
  "gatePlan me ce wid tmpl node actID gateID op status req (''gate-'' @ key)" "''gate-'' @ key"
  for me ce wid tmpl node actID gateID op status req key
  by unfold_locales
    (auto simp: gatePlan_def bindE_eq_Inr_iff Let_def gateCommand_def split: if_splits)

interpretation parking: optimistic_plan "parkPlan me ce req node" "parkKey (xq_ActivationID req)" for me ce req node
  by unfold_locales
    (auto simp: parkPlan_def bindE_eq_Inr_iff Let_def parkCommand_def parkKey_def split: if_splits)

section \<open>Terminations are recorded\<close>

text \<open>The target of a termination: an activation and an attempt that the instance has.\<close>

definition attemptKnown :: "string \<Rightarrow> string \<Rightarrow> string \<Rightarrow> string \<Rightarrow> snapshot \<Rightarrow> bool" where
  "attemptKnown wid nodeID activationID attemptID s \<longleftrightarrow>
     wid \<noteq> '''' \<and> inst_WorkflowID (snap_Instance s) = wid \<and>
     activationID \<noteq> '''' \<and> list_ex (matchesActivation nodeID activationID) (acts s) \<and>
     attemptID \<noteq> '''' \<and> list_ex (\<lambda>x. at_ID x = attemptID) (attempts s)"

lemma attemptsGrow_ids: "attemptsGrow xs ys \<Longrightarrow> \<exists>new. map at_ID ys = map at_ID xs @ new"
proof -
  assume "attemptsGrow xs ys"
  then obtain zs new where ys: "ys = zs @ new" and 2: "list_all2 att_effect xs zs" by (auto simp: attemptsGrow_def)
  have "map at_ID zs = map at_ID xs"
    using 2 by (auto simp: list_all2_conv_all_nth att_effect_def intro: nth_equalityI)
  then show ?thesis using ys by simp
qed

lemma list_ex_map_prefix:
  assumes "map f ys = map f xs @ new" and "list_ex (\<lambda>x. P (f x)) xs"
  shows "list_ex (\<lambda>x. P (f x)) ys"
proof -
  have "list_ex P (map f ys)" using assms by (auto simp: list_ex_iff)
  then show ?thesis by (auto simp: list_ex_iff)
qed

interpretation known: kept_by_log "\<lambda>s e. Reduce (orc e) pol s e" "attemptKnown wid nodeID activationID attemptID"
  for orc pol wid nodeID activationID attemptID
proof
  fix s e t
  assume k: "attemptKnown wid nodeID activationID attemptID s" and r: "Reduce (orc e) pol s e = Inr t"
  have hist: "historyGrows s t" by (rule Reduce_historyGrows[OF r])
  have m: "matchesActivation nodeID activationID = (\<lambda>a. (\<lambda>(x, y, _). y = nodeID \<and> (activationID = '''' \<or> x = activationID)) (visit a))"
    by (simp add: matchesActivation_def visit_def fun_eq_iff)
  have "list_ex (matchesActivation nodeID activationID) (acts t)"
    using hist k list_ex_map_prefix[of visit] unfolding m historyGrows_def attemptKnown_def by blast
  moreover have "list_ex (\<lambda>x. at_ID x = attemptID) (attempts t)"
    using hist k attemptsGrow_ids list_ex_map_prefix[of at_ID _ _ _ "\<lambda>x. x = attemptID"]
    unfolding historyGrows_def attemptKnown_def by blast
  moreover have "inst_WorkflowID (snap_Instance t) = inst_WorkflowID (snap_Instance s)"
    using Reduce_instKey[OF r] k by (simp add: instKey_def attemptKnown_def)
  ultimately show "attemptKnown wid nodeID activationID attemptID t" using k by (simp add: attemptKnown_def)
qed

lemma findActivation_exists:
  assumes "activationID \<noteq> ''''" and "list_ex (matchesActivation nodeID activationID) (inst_Activations inst)"
  obtains i where "findActivation inst nodeID activationID = Inr (Some i)"
proof -
  let ?ms = "filter (\<lambda>i. matchesActivation nodeID activationID (inst_Activations inst ! i)) [0..<length (inst_Activations inst)]"
  obtain j where "j < length (inst_Activations inst)" "matchesActivation nodeID activationID (inst_Activations inst ! j)"
    using assms(2) by (auto simp: list_ex_iff in_set_conv_nth)
  then have "j \<in> set ?ms" by simp
  then obtain i rest where "?ms = i # rest" by (cases ?ms) auto
  with assms(1) show thesis by (intro that) (simp add: findActivation_def)
qed

lemma findAttempt_exists:
  assumes "attemptID \<noteq> ''''" and "list_ex (\<lambda>x. at_ID x = attemptID) (attempts s)"
  obtains j where "findAttempt s a attemptID = Some j"
  using assms by (cases "findAttempt s a attemptID") (auto simp: findAttempt_def findIdx_None_iff list_ex_iff)

lemma terminated_reduces:
  assumes known: "attemptKnown wid nodeID activationID attemptID s" and st: "terminalAttemptStatus (ev_AttemptStatus ev)"
    and ev: "ev_Kind ev = EventAttemptTerminated" "ev_AttemptID ev = attemptID"
      "ev_Identity ev = zeroIdentity\<lparr>id_WorkflowID := wid, id_NodeID := nodeID, id_ActivationID := activationID, id_AttemptID := attemptID\<rparr>"
  shows "\<exists>t. Reduce mi pol s ev = Inr t"
proof -
  obtain i where i: "findActivation (snap_Instance s) nodeID activationID = Inr (Some i)"
    using known findActivation_exists unfolding attemptKnown_def by blast
  obtain j where j: "findAttempt s (acts s ! i) attemptID = Some j"
    using known findAttempt_exists unfolding attemptKnown_def by blast
  have lg: "ev_Kind (withLegacyDefaults mi ev) = EventAttemptTerminated"
    "ev_AttemptID (withLegacyDefaults mi ev) = attemptID"
    "ev_Identity (withLegacyDefaults mi ev) = ev_Identity ev"
    "ev_AttemptStatus (withLegacyDefaults mi ev) = ev_AttemptStatus ev"
    using ev by (auto simp: withLegacyDefaults_def Let_def)
  have "targetOf s (withLegacyDefaults mi ev) = Inr (Some i)"
    using lg ev i by (simp add: targetOf_def zeroIdentity_def)
  then have "\<exists>t. applyEvent mi pol s ev = Inr t"
    using known lg ev st j
    by (auto simp: applyEvent_def Let_def zeroIdentity_def attemptKnown_def dispatchEvent_def applyAttemptTerminated_def)
  then show ?thesis by (auto simp: Reduce_def)
qed

lemma terminate_refused:
  assumes known: "attemptKnown wid nodeID activationID attemptID cur" and st: "terminalAttemptStatus (te_Status t)"
    and ref: "refused me mi cur (terminateCommand ce wid nodeID activationID attemptID leaseID t k fresh) e"
  shows "e = ErrDuplicateIdempotency \<and> snap_Idempotency cur (''terminate-'' @ attemptID) \<noteq> None \<or>
    e = ErrRevisionMismatch \<and> revision cur \<noteq> revision fresh"
proof -
  let ?c = "stampCommand (mi_now mi) (terminateCommand ce wid nodeID activationID attemptID leaseID t k fresh)"
  let ?ap = "Apply mi (se_Codec (me_Store me)) (se_Policies (me_Store me)) cur ?c"
  have c: "cmd_Kind ?c = CommandTerminate" "cmd_ExpectedRevision ?c = revision fresh"
    "cmd_AttemptStatus ?c = te_Status t" "cmd_IdempotencyKey ?c = ''terminate-'' @ attemptID"
    "cmd_Identity ?c = zeroIdentity\<lparr>id_WorkflowID := wid, id_NodeID := nodeID, id_ActivationID := activationID, id_AttemptID := attemptID\<rparr>"
    by (auto simp: stampCommand_def terminateCommand_def Let_def)
  show ?thesis
  proof (cases ?ap)
    case (Inl e')
    then show ?thesis using ref c by (auto simp: refused_def Apply_def buildCommandEvents_def Let_def split: if_splits)
  next
    case (Inr batch)
    then obtain ev where b: "batch = [ev]" and ev: "ev_Kind ev = EventAttemptTerminated" "ev_AttemptID ev = attemptID"
      "ev_Identity ev = cmd_Identity ?c" "ev_AttemptStatus ev = te_Status t"
      using c by (auto simp: Apply_def buildCommandEvents_def Let_def zeroIdentity_def split: if_splits)
    have "\<exists>s. Reduce (se_Legacy (me_Store me) ev) (se_Policies (me_Store me)) cur ev = Inr s"
      by (rule terminated_reduces[OF known]) (use ev c st in simp_all)
    then show ?thesis using ref Inr b by (auto simp: refused_def)
  qed
qed

end
