(* ===== verification/Wf_Delivery.thy ===== *)
theory Wf_Delivery
  imports Wf_Retry
begin

text \<open>
  What a caller of the manager can rely on under concurrency: terminations are recorded once and
  for all, a gate decision is planned on the state it is applied to, a cancellation that is reported
  has happened.
\<close>

section \<open>Terminations\<close>

lemma stampCommand_frame [simp]:
  "cmd_IdempotencyKey (stampCommand now cmd) = cmd_IdempotencyKey cmd"
  "cmd_Kind (stampCommand now cmd) = cmd_Kind cmd"
  "cmd_ExpectedRevision (stampCommand now cmd) = cmd_ExpectedRevision cmd"
  "cmd_Identity (stampCommand now cmd) = cmd_Identity cmd"
  "cmd_Payload (stampCommand now cmd) = cmd_Payload cmd"
  "cmd_Gate (stampCommand now cmd) = cmd_Gate cmd"
  "cmd_Outcome (stampCommand now cmd) = cmd_Outcome cmd"
  "cmd_Actor (stampCommand now cmd) = cmd_Actor cmd"
  "cmd_Reason (stampCommand now cmd) = cmd_Reason cmd"
  by (simp_all add: stampCommand_def Let_def)

lemma committed_key:
  assumes sh: "shared me ce wid U" and h: "holds me wid U m es cur"
    and c: "committed me (ce_Store ce n) wid es cur cmd batch result fs" and key: "cmd_IdempotencyKey cmd \<noteq> ''''"
  shows "snap_Idempotency result (cmd_IdempotencyKey cmd) \<noteq> None"
proof -
  let ?mi = "ce_Store ce n"
  have ap: "Apply ?mi (se_Codec (me_Store me)) (se_Policies (me_Store me)) cur (stampCommand (mi_now ?mi) cmd) = Inr batch"
    and red: "seReduceAll (me_Store me) cur batch = Inr result" using c by (auto simp: committed_def)
  note wf = Apply_wellFormed[OF ap]
  obtain e es' where b: "batch = e # es'" using wf by (cases batch) (auto simp: wellFormedBatch_def)
  then have k: "ev_IdempotencyKey e = cmd_IdempotencyKey cmd" and id: "ev_ID e = NewEventID ?mi 0"
    using wf by (auto simp: wellFormedBatch_def)
  have new: "ev_ID e \<notin> set (snap_AppliedEventIDs cur)" using sh h id by (auto simp: shared_def holds_def)
  obtain u where u: "Reduce (se_Legacy (me_Store me) e) (se_Policies (me_Store me)) cur e = Inr u"
    and rest: "seReduceAll (me_Store me) u es' = Inr result" using red b by (auto simp: bindE_eq_Inr_iff)
  have "snap_Idempotency u (cmd_IdempotencyKey cmd) \<noteq> None" using Reduce_idempotency[OF u new] k key by simp
  then show ?thesis using rest by (rule keys.log_keeps)
qed

definition attemptOver :: "string \<Rightarrow> snapshot \<Rightarrow> bool" where
  "attemptOver attemptID s \<longleftrightarrow> list_ex (\<lambda>x. at_ID x = attemptID \<and> terminalAttemptStatus (at_Status x)) (attempts s)"

lemma terminated_over:
  assumes "Reduce mi pol s ev = Inr t" and "ev_ID ev \<notin> set (snap_AppliedEventIDs s)"
    and "ev_Kind ev = EventAttemptTerminated" and "ev_AttemptID ev = attemptID" and "attemptID \<noteq> ''''"
  shows "attemptOver attemptID t"
proof -
  obtain s' where ap: "applyEvent mi pol s ev = Inr s'" and t: "t = recordEvent ev s'"
    using Reduce_newE[OF assms(1,2)] .
  let ?ev = "withLegacyDefaults mi ev"
  obtain act where d: "dispatchEvent pol s act ?ev = Inr s'" using applyEvent_dispatch[OF ap] by metis
  have lg: "ev_AttemptID ?ev = attemptID" using assms(3,4) by (auto simp: withLegacyDefaults_def Let_def)
  obtain i j where ij: "act = Some i" "findAttempt s (acts s ! i) attemptID = Some j"
    and st: "terminalAttemptStatus (ev_AttemptStatus ?ev)"
    and s': "s' = s \<and> terminalAttemptStatus (at_Status (attempts s ! j)) \<or>
      attempts s' = (attempts s)[j := terminateAttempt ?ev (attempts s ! j)]"
    using d assms(3) lg
    by (auto simp: dispatchEvent_def applyAttemptTerminated_def Let_def split: option.splits if_splits)
  have id: "at_ID (attempts s ! j) = attemptID" and j: "j < length (attempts s)"
    using ij(2) assms(5) by (auto simp: findAttempt_def dest: findIdx_holds findIdx_less)
  have "attemptOver attemptID s'"
    using s'
  proof
    assume "s' = s \<and> terminalAttemptStatus (at_Status (attempts s ! j))"
    then show ?thesis using id j nth_mem[OF j] by (auto simp: attemptOver_def list_ex_iff)
  next
    assume a: "attempts s' = (attempts s)[j := terminateAttempt ?ev (attempts s ! j)]"
    have "terminateAttempt ?ev (attempts s ! j) \<in> set (attempts s')" using a j by (simp add: set_update_memI)
    moreover have "at_ID (terminateAttempt ?ev (attempts s ! j)) = attemptID"
      "terminalAttemptStatus (at_Status (terminateAttempt ?ev (attempts s ! j)))"
      using id st by (simp_all add: terminateAttempt_def)
    ultimately show ?thesis unfolding attemptOver_def list_ex_iff by blast
  qed
  then show ?thesis by (simp add: t attemptOver_def)
qed

lemma terminate_committed:
  assumes sh: "shared me ce wid U" and h: "holds me wid U m es cur" and "attemptID \<noteq> ''''"
    and c: "committed me (ce_Store ce n) wid es cur
      (terminateCommand ce wid nodeID activationID attemptID leaseID t k cur) batch result fs"
  shows "attemptOver attemptID result"
proof -
  let ?mi = "ce_Store ce n" and ?c = "terminateCommand ce wid nodeID activationID attemptID leaseID t k cur"
  have ap: "Apply ?mi (se_Codec (me_Store me)) (se_Policies (me_Store me)) cur (stampCommand (mi_now ?mi) ?c) = Inr batch"
    and red: "seReduceAll (me_Store me) cur batch = Inr result" using c by (auto simp: committed_def)
  have "cmd_Kind ?c = CommandTerminate" "id_AttemptID (cmd_Identity ?c) = attemptID" by (simp_all add: terminateCommand_def)
  then obtain ev where b: "batch = [ev]" and ev: "ev_Kind ev = EventAttemptTerminated" "ev_AttemptID ev = attemptID"
      "ev_ID ev = NewEventID ?mi 0"
    using ap by (auto simp: Apply_def buildCommandEvents_def Let_def split: if_splits)
  have "ev_ID ev \<notin> set (snap_AppliedEventIDs cur)" using sh h ev(3) by (auto simp: shared_def holds_def)
  moreover have "Reduce (se_Legacy (me_Store me) ev) (se_Policies (me_Store me)) cur ev = Inr result"
    using red b by (simp add: bindE_eq_Inr_iff)
  ultimately show ?thesis using terminated_over ev assms(3) by blast
qed

lemma terminate_applicable:
  assumes "attemptKnown wid nodeID activationID attemptID cur" and "terminalAttemptStatus (te_Status t)"
  shows "applicable me ce es cur
    (\<lambda>k snap. Inr (Inr (terminateCommand ce wid nodeID activationID attemptID leaseID t k snap)) :: (unit + command) result)"
proof -
  have kn: "attemptKnown wid nodeID activationID attemptID cur2"
    if "proceeds me es cur es2 cur2" for es2 cur2
    using that known.log_keeps[OF assms(1)] by (auto simp: proceeds_def)
  show ?thesis
    unfolding applicable_def using terminate_refused[OF kn assms(2)] proceeds_trans by blast
qed


section \<open>An example manager\<close>

text \<open>
  The example store behind a manager, and a call that another client interrupts: right before
  access 1 the other client commits the completion of \<^verbatim>\<open>demoBatch\<close>.
\<close>

lemma commit_cooperative:
  assumes rep: "represents (me_Store me) fs es0 cur0" and red: "seReduceAll (me_Store me) cur0 batch = Inr next"
    and js: "jsonLaws (se_Encode (me_Store me)) (se_Decode (me_Store me)) (set batch)"
    and rev: "revision next = revision cur0 + int (length batch)" and ids: "set (snap_AppliedEventIDs next) \<subseteq> U"
  shows "cooperative me wid U (\<lambda>m. if files m wid = fs
    then putFiles wid (writeSnapshot next (appendEvents (me_Store me) batch fs)) m else m)"
  unfolding cooperative_def
proof (intro allI impI)
  fix m es cur assume h: "holds me wid U m es cur"
  show "\<exists>es' cur'. holds me wid U (if files m wid = fs
      then putFiles wid (writeSnapshot next (appendEvents (me_Store me) batch fs)) m else m) es' cur' \<and> proceeds me es cur es' cur'"
  proof (cases "files m wid = fs")
    case True
    then have r: "represents (me_Store me) fs es cur" using h by (simp add: holds_def)
    have "cur = cur0" using represents_loadCurrent[OF r] represents_loadCurrent[OF rep] by simp
    then have "holds me wid U (putFiles wid (writeSnapshot next (appendEvents (me_Store me) batch fs)) m) (es @ batch) next"
      using represents_commit[OF r _ js] red ids by (simp add: holds_def)
    moreover have "proceeds me es cur (es @ batch) next"
      using red rev \<open>cur = cur0\<close> by (auto simp: proceeds_def)
    ultimately show ?thesis using True by auto
  next
    case False
    then show ?thesis using h proceeds_refl[of me es cur] by (simp del: proceeds_refl) blast
  qed
qed

definition demoManager :: manager_env where
  "demoManager = \<lparr>me_Store = demoEnv demoBatch, me_LoadTemplate = (\<lambda>_ _. Inr demoTemplate),
     me_Sha256Hex = (\<lambda>s. s), me_EncTransition = (\<lambda>_. ''t''), me_EncSubject = (\<lambda>_. ''s''),
     me_Executors = (\<lambda>_. None)\<rparr>"

definition demoState :: mgr where
  "demoState = \<lparr>mg_Disk = [(''w'', demoFiles)], mg_Candidates = [], mg_Super = ''sup'',
     mg_CandidatesOK = True, mg_Subscribers = []\<rparr>"

definition demoNext :: snapshot where
  "demoNext = the_snap (seReduceAll (demoEnv demoBatch) demoCurrent demoBatch)"

definition demoOther :: "mgr \<Rightarrow> mgr" where
  "demoOther m = (if files m ''w'' = demoFiles
     then putFiles ''w'' (writeSnapshot demoNext (appendEvents (demoEnv demoBatch) demoBatch demoFiles)) m else m)"

definition quietCall :: call_env where
  "quietCall = \<lparr>ce_Ids = demoMint, ce_Commands = demoMint, ce_Token = ''tok'', ce_Now = (\<lambda>_. 500),
     ce_Store = (\<lambda>_. \<lparr>mi_now = 500, mi_uuid = (\<lambda>k. ''y'' @ replicate k (CHR ''x''))\<rparr>),
     ce_Others = (\<lambda>_ m. m)\<rparr>"

definition demoCall :: "nat set \<Rightarrow> call_env" where
  "demoCall ns = quietCall\<lparr>ce_Others := (\<lambda>n. if n \<in> ns then demoOther else (\<lambda>m. m))\<rparr>"

definition demoIDs :: "string set" where
  "demoIDs = {''e1'', ''e2'', ''e3'', ''e4'', ''e5'', ''e6'', ''wfe_'', ''wfe_x''}"

lemma demo_holds: "holds demoManager ''w'' demoIDs demoState demoBuild demoCurrent"
proof -
  have "snap_AppliedEventIDs demoCurrent = [''e1'', ''e2'', ''e3'', ''e4'', ''e5'', ''e6'']" by code_simp
  then show ?thesis
    using demo_batch_represents by (simp add: holds_def demoManager_def demoState_def files_def demoIDs_def)
qed

lemma demoOther_cooperative: "cooperative demoManager ''w'' demoIDs demoOther"
proof -
  have ok: "isOk (seReduceAll (demoEnv demoBatch) demoCurrent demoBatch)" by code_simp
  have red: "seReduceAll (demoEnv demoBatch) demoCurrent demoBatch = Inr demoNext"
    unfolding demoNext_def by (rule the_snap_ok[OF ok])
  have rev: "revision demoNext = revision demoCurrent + int (length demoBatch)" by code_simp
  have ids: "snap_AppliedEventIDs demoNext = [''e1'', ''e2'', ''e3'', ''e4'', ''e5'', ''e6'', ''wfe_'', ''wfe_x'']" by code_simp
  have js: "jsonLaws (se_Encode (demoEnv demoBatch)) (se_Decode (demoEnv demoBatch)) (set demoBatch)"
    using demo_json(1) by (auto simp: jsonLaws_Un demoEnv_def)
  have st: "me_Store demoManager = demoEnv demoBatch" by (simp add: demoManager_def)
  have "cooperative demoManager ''w'' demoIDs (\<lambda>m. if files m ''w'' = demoFiles
    then putFiles ''w'' (writeSnapshot demoNext (appendEvents (me_Store demoManager) demoBatch demoFiles)) m else m)"
    by (rule commit_cooperative) (use demo_batch_represents red rev ids js in \<open>simp_all add: st demoIDs_def\<close>)
  then show ?thesis unfolding demoOther_def st .
qed

lemma demo_shared: "shared demoManager (demoCall ns) ''w'' demoIDs"
  using demoOther_cooperative
  by (auto simp: shared_def demoCall_def quietCall_def demoIDs_def NewEventID_def newID_def inj_def)

lemma quiet_shared: "shared me quietCall wid demoIDs"
  by (auto simp: shared_def quietCall_def demoIDs_def NewEventID_def newID_def inj_def)

definition demoFailure :: attempt_termination where
  "demoFailure = \<lparr>te_Status = AttemptFailed, te_MarkerKind = '''', te_MarkerLabel = '''', te_WorkingDirectory = ''''\<rparr>"


end
