(* ===== verification/Wf_GateSafety.thy ===== *)
theory Wf_GateSafety
  imports Wf_Delivery
begin

text \<open>
  Gate decisions: the manager computes from its snapshot whether a decision resolves the activation
  and which branch it fires, the reducer decides again when it applies the event. Here both views
  are compared.
\<close>

section \<open>The manager's view of the remaining gates\<close>

text \<open>
  The gate instance of a decision is recorded under a new id, so it is appended.
\<close>

definition newGate :: "gate_instance \<Rightarrow> workflow_instance \<Rightarrow> bool" where
  "newGate gate inst \<longleftrightarrow> gi_ID gate \<noteq> '''' \<and> list_all (\<lambda>gi. gi_ID gi \<noteq> gi_ID gate) (inst_Gates inst)"

lemma recordGate_new: "newGate gate inst \<Longrightarrow> recordGate gate (inst_Gates inst) = inst_Gates inst @ [gate]"
proof -
  assume "newGate gate inst"
  then have "findIdx (sameGateInstance gate) (inst_Gates inst) = None"
    by (auto simp: newGate_def findIdx_None_iff sameGateInstance_def list_all_iff)
  then show ?thesis by (simp add: recordGate_def)
qed

lemma gate_views:
  assumes "newGate gate inst" and "gi_GateID gate \<noteq> ''''" and "gi_ActivationID gate = act_ID a"
  shows "map gd_ID (remainingRequiredGates inst node (act_ID a) (gi_GateID gate) (gi_Status gate)) =
    unsatisfiedRequiredGates (inst\<lparr>inst_Gates := recordGate gate (inst_Gates inst)\<rparr>) (nd_Gates node) a"
proof -
  let ?sat = "if gi_Status gate = GatePassed \<or> gi_Status gate = GateWaived
      then gi_GateID gate # satisfiedGateIDs inst a else satisfiedGateIDs inst a"
  have "set (satisfiedGateIDs (inst\<lparr>inst_Gates := recordGate gate (inst_Gates inst)\<rparr>) a) = set ?sat"
    using assms by (auto simp: satisfiedGateIDs_def recordGate_new)
  moreover have "remainingRequiredGates inst node (act_ID a) (gi_GateID gate) (gi_Status gate) =
      filter (\<lambda>d. gd_Required d \<and> gd_ID d \<notin> set ?sat) (nd_Gates node)"
    using assms(2) by (simp add: remainingRequiredGates_def satisfiedGateIDs_def Let_def)
  ultimately show ?thesis by (simp add: unsatisfiedRequiredGates_def)
qed

text \<open>
  The manager and the reducer see the same gates. The gates that the manager counts as still
  required, with the decision in flight folded in, are exactly the ones the reducer finds
  unsatisfied after it recorded that decision.
\<close>

theorem gate_views_agree:
  assumes "newGate gate inst" and "gi_GateID gate \<noteq> ''''" and "gi_ActivationID gate = act_ID a"
  shows "map gd_ID (remainingRequiredGates inst node (act_ID a) (gi_GateID gate) (gi_Status gate)) =
    unsatisfiedRequiredGates (inst\<lparr>inst_Gates := recordGate gate (inst_Gates inst)\<rparr>) (nd_Gates node) a"
  by (rule gate_views[OF assms])

lemma unsatisfied_cong:
  "inst_Gates inst' = inst_Gates inst \<Longrightarrow> act_ID a' = act_ID a \<Longrightarrow>
   unsatisfiedRequiredGates inst' defs a' = unsatisfiedRequiredGates inst defs a"
  by (simp add: unsatisfiedRequiredGates_def satisfiedGateIDs_def)


lemma resolveGate_satisfied:
  assumes "i < length (acts s)"
  shows "act_Status (acts (resolveGate pol s i ev gate) ! i) = ActivationSatisfied \<longleftrightarrow>
    unsatisfiedRequiredGates (snap_Instance s) (completionGatesFor pol s (act_NodeID (acts s ! i))) (acts s ! i) = []"
proof -
  let ?s1 = "updAct i (\<lambda>a. if gi_Outcome gate \<noteq> [] then a\<lparr>act_SelectedOutcome := gi_Outcome gate\<rparr> else a) s"
  have a: "act_ID (acts ?s1 ! i) = act_ID (acts s ! i)" "act_NodeID (acts ?s1 ! i) = act_NodeID (acts s ! i)"
    using assms by simp_all
  have "unsatisfiedRequiredGates (snap_Instance ?s1) (completionGatesFor pol ?s1 (act_NodeID (acts ?s1 ! i))) (acts ?s1 ! i) =
      unsatisfiedRequiredGates (snap_Instance s) (completionGatesFor pol s (act_NodeID (acts s ! i))) (acts s ! i)"
    unfolding a(2) completionGatesFor_frame by (rule unsatisfied_cong) (simp_all only: a(1) inst_upd)
  then show ?thesis using assms by (simp add: resolveGate_def Let_def completeWorkflow_def updInst_def)
qed

section \<open>The effect of a decision\<close>

lemma gate_event_effect:
  assumes red: "Reduce mi pol s ev = Inr t" and new: "ev_ID ev \<notin> set (snap_AppliedEventIDs s)"
    and ev: "ev_Kind ev = EventGate" "ev_Gate ev = Some gate" "gi_Status gate \<in> {GatePassed, GateWaived}"
    and i: "findActivation (snap_Instance s) (id_NodeID (ev_Identity ev)) (id_ActivationID (ev_Identity ev)) = Inr (Some i)"
    and st: "act_Status (acts s ! i) = ActivationAwaitingGate" "wfStatus s \<notin> {WorkflowCompleted, WorkflowFailed}"
  shows "length (acts t) = length (acts s)"
    and "act_Status (acts t ! i) = ActivationSatisfied \<longleftrightarrow>
      unsatisfiedRequiredGates ((snap_Instance s)\<lparr>inst_Gates := recordGate gate (inst_Gates (snap_Instance s))\<rparr>)
        (completionGatesFor pol s (act_NodeID (acts s ! i))) (acts s ! i) = []"
proof -
  obtain s' where ap: "applyEvent mi pol s ev = Inr s'" and t: "t = recordEvent ev s'" using Reduce_newE[OF red new] .
  let ?ev = "withLegacyDefaults mi ev"
  have lg: "ev_Kind ?ev = EventGate" "ev_Gate ?ev = Some gate" "ev_Identity ?ev = ev_Identity ev"
    using ev by (auto simp: withLegacyDefaults_def Let_def)
  have "targetOf s ?ev = Inr (Some i)" using lg i by (simp add: targetOf_def)
  then have "applyGate pol s (Some i) ?ev = Inr s'"
    using ap lg by (auto simp: applyEvent_def Let_def dispatchEvent_def split: if_splits)
  then have s': "s' = resolveGate pol (updInst (\<lambda>x. x\<lparr>inst_Gates := recordGate gate (inst_Gates x)\<rparr>) s) i ?ev gate"
    by (cases rule: applyGate_cases) (use lg(2) ev(3) st in auto)
  let ?s1 = "updInst (\<lambda>x. x\<lparr>inst_Gates := recordGate gate (inst_Gates x)\<rparr>) s"
  have ilt: "i < length (acts ?s1)" using findActivation_SomeD(1)[OF i] by (simp add: updInst_def)
  show "length (acts t) = length (acts s)"
    by (rule resolveGate_cases[OF ilt, of pol ?ev gate]) (simp_all add: t s' updInst_def)
  have "act_Status (acts t ! i) = ActivationSatisfied \<longleftrightarrow>
      unsatisfiedRequiredGates (snap_Instance ?s1) (completionGatesFor pol ?s1 (act_NodeID (acts ?s1 ! i))) (acts ?s1 ! i) = []"
    using resolveGate_satisfied[OF ilt] by (simp add: t s')
  moreover have "acts ?s1 = acts s" "snap_Instance ?s1 = (snap_Instance s)\<lparr>inst_Gates := recordGate gate (inst_Gates (snap_Instance s))\<rparr>"
    by (simp_all add: updInst_def)
  moreover have "completionGatesFor pol ?s1 n = completionGatesFor pol s n" for n by simp
  ultimately show "act_Status (acts t ! i) = ActivationSatisfied \<longleftrightarrow>
      unsatisfiedRequiredGates ((snap_Instance s)\<lparr>inst_Gates := recordGate gate (inst_Gates (snap_Instance s))\<rparr>)
        (completionGatesFor pol s (act_NodeID (acts s ! i))) (acts s ! i) = []"
    by simp
qed

lemma transition_event_effect:
  assumes red: "Reduce mi pol s ev = Inr t" and new: "ev_ID ev \<notin> set (snap_AppliedEventIDs s)"
    and ev: "ev_Kind ev = EventTransition"
  obtains a where "acts t = acts s @ [a]" and "act_Status a = ActivationPending"
    and "Some (act_NodeID a) = map_option tr_TargetNodeID (ev_Transition ev)"
    and "wfStatus t = wfStatus s" and "inst_Gates (snap_Instance t) = inst_Gates (snap_Instance s)"
proof -
  obtain s' where ap: "applyEvent mi pol s ev = Inr s'" and t: "t = recordEvent ev s'" using Reduce_newE[OF red new] .
  have tr: "ev_Transition (withLegacyDefaults mi ev) = ev_Transition ev"
    using ev by (simp add: withLegacyDefaults_def Let_def)
  obtain u where u: "applyTransition pol s (withLegacyDefaults mi ev) = Inr u" "s' = stampInstance (withLegacyDefaults mi ev) u"
    using ap by (cases rule: applyEvent_cases[OF _ refl]) (use ev in auto)
  let ?created = "\<lambda>tn. applyDispatchPolicy pol s (copyReadyAt ((pendingActivation (hd (ev_ActivationIDs (withLegacyDefaults mi ev)))
      (tr_TargetNodeID tn) (ev_At (withLegacyDefaults mi ev)))\<lparr>act_IncomingOutcome := tr_Outcome tn,
        act_CausedBy := ev_CausedBy (withLegacyDefaults mi ev), act_ResolvedGates := ev_ResolvedGates (withLegacyDefaults mi ev)\<rparr>)
      (withLegacyDefaults mi ev)) (tr_TargetNodeID tn)"
  obtain tn where tn: "ev_Transition ev = Some tn" and us: "u = appendActivation (?created tn) s"
    using u(1) tr by (auto simp: applyTransition_def Let_def split: option.splits if_splits)
  have "act_Status (?created tn) = ActivationPending" "act_NodeID (?created tn) = tr_TargetNodeID tn"
    by (simp_all add: applyDispatchPolicy_frame pendingActivation_def)
  then show thesis
    by (intro that[of "?created tn"]) (simp_all add: t u(2) us tn stampInstance_def appendActivation_def updInst_def)
qed

lemma gate_batch:
  assumes "Apply mi jc pol s cmd = Inr batch" and "cmd_Kind cmd = CommandGate"
  obtains e rest where "batch = e # rest" "ev_Kind e = EventGate" "ev_Gate e = cmd_Gate cmd"
    "ev_Identity e = cmd_Identity cmd"
    "rest = [] \<and> (cmd_Payload cmd = '''' \<or> (\<exists>t. jc_Transition jc (cmd_Payload cmd) = Inr t \<and> tr_TargetNodeID t = '''')) \<or>
     (\<exists>n t t'. rest = [n] \<and> ev_Kind n = EventTransition \<and> cmd_Payload cmd \<noteq> '''' \<and>
        jc_Transition jc (cmd_Payload cmd) = Inr t \<and> ev_Transition n = Some t' \<and> tr_TargetNodeID t' = tr_TargetNodeID t)"
proof -
  let ?e = "(newEvent mi s cmd 0 EventGate)\<lparr>ev_Gate := cmd_Gate cmd, ev_Outcome := cmd_Outcome cmd\<rparr>"
  have wt: "withTransition mi jc pol s cmd ?e = Inr batch"
    using assms by (auto simp: Apply_def buildCommandEvents_def Let_def bindE_eq_Inr_iff split: if_splits)
  show thesis
  proof (cases "cmd_Payload cmd = ''''")
    case True
    with wt show thesis by (intro that[of ?e "[]"]) (simp_all add: withTransition_def)
  next
    case False
    then obtain t0 where t0: "jc_Transition jc (cmd_Payload cmd) = Inr t0"
      using wt by (auto simp: withTransition_def bindE_eq_Inr_iff)
    let ?t = "if tr_Outcome t0 = '''' then t0\<lparr>tr_Outcome := cmd_Outcome cmd\<rparr> else t0"
    show thesis
    proof (cases "tr_TargetNodeID ?t = ''''")
      case True
      with wt False t0 show thesis
        by (intro that[of "?e\<lparr>ev_Transition := Some ?t\<rparr>" "[]"]) (auto simp: withTransition_def Let_def split: if_splits)
    next
      case tgt: False
      then obtain n where n: "batch = [?e\<lparr>ev_Transition := Some ?t\<rparr>, n]"
        "attachTransitionGateBindings mi jc pol s (?e\<lparr>ev_Transition := Some ?t\<rparr>)
          ((newEvent mi s cmd 1 EventTransition)\<lparr>ev_ActivationIDs := newActivationIDs mi 2 1, ev_Transition := Some ?t,
             ev_Outcome := cmd_Outcome cmd\<rparr>) (tr_TargetNodeID ?t) (tr_ActivationID ?t) = Inr n"
        using wt False t0 by (auto simp: withTransition_def Let_def bindE_eq_Inr_iff simp del: One_nat_def)
      have "ev_Kind n = EventTransition" "ev_Transition n = Some ?t"
        using attachTransitionGateBindings_frame[OF n(2)] by (auto split: if_splits)
      then show thesis using n(1) False t0
        by (intro that[of "?e\<lparr>ev_Transition := Some ?t\<rparr>" "[n]"]) (auto split: if_splits)
    qed
  qed
qed

text \<open>The policies that \<^verbatim>\<open>NewManagerWithClock\<close> installs: the instance's template, read through the store.\<close>

lemma policies_gates:
  assumes "se_Policies (me_Store me) = Some (templatePolicies (me_LoadTemplate me) children)"
    and "templateFor me s = Inr tmpl" and "findNode tmpl n = Inr node"
  shows "completionGatesFor (se_Policies (me_Store me)) s n = nd_Gates node"
  using assms by (simp add: completionGatesFor_def templatePolicies_def policyNode_def templateFor_def)


interpretation keyed: kept_by_log "\<lambda>s e. Reduce (orc e) pol s e"
  "\<lambda>s. instKey s = k \<and> inst_WorkflowID (snap_Instance s) \<noteq> ''''" for orc pol k
  by unfold_locales (auto simp: instKey_def dest!: Reduce_instKey)

lemma proceeds_instKey:
  assumes "proceeds me es cur es' cur'" and "inst_WorkflowID (snap_Instance cur) \<noteq> ''''"
  shows "instKey cur' = instKey cur"
proof -
  obtain evs where red: "seReduceAll (me_Store me) cur evs = Inr cur'" using assms(1) by (auto simp: proceeds_def)
  have "instKey cur = instKey cur \<and> inst_WorkflowID (snap_Instance cur) \<noteq> ''''" using assms(2) by simp
  from keyed.log_keeps[OF this red] show ?thesis ..
qed

lemma gatePlan_command:
  assumes "gatePlan me ce wid tmpl node actID gateID op status req key k fresh = Inr (Inr cmd)"
  obtains i payload outcome where
    "findActivation (snap_Instance fresh) (nd_ID node) actID = Inr (Some i)"
    "act_Status (acts fresh ! i) = ActivationAwaitingGate"
    "gateTransitionPayload me (ce_Now ce (Suc k)) (snap_Instance fresh) tmpl node (acts fresh ! i) gateID op status req = Inr (payload, outcome)"
    "cmd = gateCommand ce wid node actID op req key (gateInstanceOf ce node actID gateID op status req) payload outcome k fresh"
  using assms
  by (auto simp: gatePlan_def targetActivation_def bindE_eq_Inr_iff Let_def split: if_splits option.splits)

lemma gate_commit_effect:
  assumes sh: "shared me ce wid U" and h: "holds me wid U m es s"
    and c: "committed me (ce_Store ce n) wid es s cmd batch result fs"
    and cmd: "cmd_Kind cmd = CommandGate" "cmd_Gate cmd = Some gate" "gi_Status gate \<in> {GatePassed, GateWaived}"
    and i: "findActivation (snap_Instance s) (id_NodeID (cmd_Identity cmd)) (id_ActivationID (cmd_Identity cmd)) = Inr (Some i)"
    and st: "act_Status (acts s ! i) = ActivationAwaitingGate" "wfStatus s \<notin> {WorkflowCompleted, WorkflowFailed}"
  shows "act_Status (acts result ! i) = ActivationSatisfied \<longleftrightarrow>
      unsatisfiedRequiredGates ((snap_Instance s)\<lparr>inst_Gates := recordGate gate (inst_Gates (snap_Instance s))\<rparr>)
        (completionGatesFor (se_Policies (me_Store me)) s (act_NodeID (acts s ! i))) (acts s ! i) = []"
proof -
  let ?mi = "ce_Store ce n" and ?pol = "se_Policies (me_Store me)"
  have ap: "Apply ?mi (se_Codec (me_Store me)) ?pol s (stampCommand (mi_now ?mi) cmd) = Inr batch"
    and red: "seReduceAll (me_Store me) s batch = Inr result" using c by (auto simp: committed_def)
  note wf = Apply_wellFormed[OF ap]
  have inj: "inj (mi_uuid ?mi)" and new: "\<And>k. NewEventID ?mi k \<notin> U" using sh by (auto simp: shared_def)
  have ids: "distinct (map ev_ID batch)" "ev_ID ` set batch \<subseteq> range (NewEventID ?mi)"
    using wellFormedBatch_ids[OF wf inj] by auto
  obtain e rest where b: "batch = e # rest" and e: "ev_Kind e = EventGate" "ev_Gate e = Some gate"
    "ev_Identity e = cmd_Identity cmd" and rest: "rest = [] \<or> (\<exists>n. rest = [n] \<and> ev_Kind n = EventTransition)"
    using gate_batch[OF ap] cmd by (simp, metis)
  obtain u where u: "Reduce (se_Legacy (me_Store me) e) ?pol s e = Inr u" and r: "seReduceAll (me_Store me) u rest = Inr result"
    using red b by (auto simp: bindE_eq_Inr_iff)
  have en: "ev_ID e \<notin> set (snap_AppliedEventIDs s)" using ids(2) b new h by (auto simp: holds_def)
  have i': "findActivation (snap_Instance s) (id_NodeID (ev_Identity e)) (id_ActivationID (ev_Identity e)) = Inr (Some i)"
    using i e(3) by simp
  note eff = gate_event_effect[OF u en e(1,2) cmd(3) i' st]
  have ilt: "i < length (acts s)" by (rule findActivation_SomeD(1)[OF i'])
  have "acts result ! i = acts u ! i"
    using rest
  proof
    assume "\<exists>n. rest = [n] \<and> ev_Kind n = EventTransition"
    then obtain tr where tr: "rest = [tr]" "ev_Kind tr = EventTransition" by blast
    have red2: "Reduce (se_Legacy (me_Store me) tr) ?pol u tr = Inr result" using r tr(1) by (simp add: bindE_eq_Inr_iff)
    have "ev_ID tr \<notin> set (snap_AppliedEventIDs u)"
      using ids b tr(1) new h Reduce_applied[OF u] by (auto simp: holds_def)
    from transition_event_effect[OF red2 this tr(2)] show ?thesis using eff(1) ilt by (metis nth_append)
  qed (use r in simp)
  then show ?thesis using eff(2) by simp
qed

lemma decided_on_state:
  assumes sh: "shared me ce wid U" and h: "holds me wid U m es fresh"
    and c: "committed me (ce_Store ce n) wid es fresh cmd batch result fs"
    and cmd: "cmd = gateCommand ce wid node (act_ID a) op req key
      (gateInstanceOf ce node (act_ID a) gateID op status req) payload outcome j fresh"
    and i: "findActivation (snap_Instance fresh) (nd_ID node) (act_ID a) = Inr (Some i)"
    and parked: "act_Status (acts fresh ! i) = ActivationAwaitingGate"
    and ok: "wfStatus fresh \<notin> {WorkflowCompleted, WorkflowFailed}"
    and pol: "se_Policies (me_Store me) = Some (templatePolicies (me_LoadTemplate me) children)"
    and tmpl: "templateFor me fresh = Inr tmpl" "findNode tmpl (nd_ID node) = Inr node"
    and ids: "act_ID a \<noteq> ''''" "gateID \<noteq> ''''" and st: "status \<in> {GatePassed, GateWaived}"
    and new: "newGate (gateInstanceOf ce node (act_ID a) gateID op status req) (snap_Instance fresh)"
  shows "act_Status (acts result ! i) = ActivationSatisfied \<longleftrightarrow>
    remainingRequiredGates (snap_Instance fresh) node (act_ID a) gateID status = []"
proof -
  let ?gate = "gateInstanceOf ce node (act_ID a) gateID op status req"
  let ?g = "?gate\<lparr>gi_Outcome := outcome\<rparr>" and ?a = "acts fresh ! i"
  have at: "act_ID ?a = act_ID a" "act_NodeID ?a = nd_ID node"
    using findActivation_SomeD(2)[OF i] ids(1) by (auto simp: matchesActivation_def)
  have g: "gi_GateID ?g = gateID" "gi_ActivationID ?g = act_ID a" "gi_Status ?g = status" "gi_ID ?g = gi_ID ?gate"
    by (simp_all add: gateInstanceOf_def Let_def)
  have k: "cmd_Kind cmd = CommandGate" "cmd_Gate cmd = Some ?g"
    "id_NodeID (cmd_Identity cmd) = nd_ID node" "id_ActivationID (cmd_Identity cmd) = act_ID a"
    by (simp_all add: cmd gateCommand_def)
  have "newGate ?g (snap_Instance fresh)" using new g(4) by (simp add: newGate_def)
  moreover have "gi_GateID ?g \<noteq> ''''" "gi_ActivationID ?g = act_ID ?a" using ids(2) g at by simp_all
  ultimately have "map gd_ID (remainingRequiredGates (snap_Instance fresh) node (act_ID ?a) (gi_GateID ?g) (gi_Status ?g)) =
      unsatisfiedRequiredGates ((snap_Instance fresh)\<lparr>inst_Gates := recordGate ?g (inst_Gates (snap_Instance fresh))\<rparr>) (nd_Gates node) ?a"
    by (rule gate_views)
  moreover have "act_Status (acts result ! i) = ActivationSatisfied \<longleftrightarrow>
      unsatisfiedRequiredGates ((snap_Instance fresh)\<lparr>inst_Gates := recordGate ?g (inst_Gates (snap_Instance fresh))\<rparr>)
        (completionGatesFor (se_Policies (me_Store me)) fresh (act_NodeID ?a)) ?a = []"
    by (rule gate_commit_effect[OF sh h c k(1,2) _ _ parked ok]) (use st g i k in simp_all)
  moreover have "completionGatesFor (se_Policies (me_Store me)) fresh (nd_ID node) = nd_Gates node"
    by (rule policies_gates[OF pol tmpl])
  ultimately show ?thesis unfolding at g by (metis map_is_Nil_conv)
qed


section \<open>Decisions on a finished workflow\<close>

text \<open>
  C22: a late decision still branches. On a completed or failed workflow the reducer drops the gate
  event, but the sibling transition of the same command is reduced as usual: the gate is not
  recorded, and a new pending activation of the branch target is created on the finished workflow.
\<close>

theorem late_gate_decision_branches:
  assumes "Apply mi jc pol s cmd = Inr batch" and "cmd_Kind cmd = CommandGate" and "cmd_Payload cmd \<noteq> ''''"
    and "jc_Transition jc (cmd_Payload cmd) = Inr tr" and "tr_TargetNodeID tr \<noteq> ''''"
    and "inj (mi_uuid mi)" and "\<forall>k. NewEventID mi k \<notin> set (snap_AppliedEventIDs s)"
    and "wfStatus s \<in> {WorkflowCompleted, WorkflowFailed}" and "reduceAll orc pol s batch = Inr t"
  shows "wfStatus t = wfStatus s \<and> inst_Gates (snap_Instance t) = inst_Gates (snap_Instance s) \<and>
    (\<exists>a. acts t = acts s @ [a] \<and> act_Status a = ActivationPending \<and> act_NodeID a = tr_TargetNodeID tr)"
proof -
  note wf = Apply_wellFormed[OF assms(1)]
  have ids: "distinct (map ev_ID batch)" "ev_ID ` set batch \<subseteq> range (NewEventID mi)"
    using wellFormedBatch_ids[OF wf assms(6)] by auto
  obtain e n tr' where b: "batch = [e, n]" and e: "ev_Kind e = EventGate" and n: "ev_Kind n = EventTransition"
    and t': "ev_Transition n = Some tr'" "tr_TargetNodeID tr' = tr_TargetNodeID tr"
    by (rule gate_batch[OF assms(1,2)]) (use assms(3-5) in auto)
  obtain u where u: "Reduce (orc e) pol s e = Inr u" and r: "Reduce (orc n) pol u n = Inr t"
    using assms(9) b by (auto simp: bindE_eq_Inr_iff)
  have en: "ev_ID e \<notin> set (snap_AppliedEventIDs s)" using ids(2) b assms(7) by auto
  obtain s' where ap: "applyEvent (orc e) pol s e = Inr s'" and us: "u = recordEvent e s'" using Reduce_newE[OF u en] .
  have same: "s' = s"
    by (rule applyEvent_cases[OF ap refl]) (use e assms(8) in \<open>auto elim!: applyGate_cases\<close>)
  have nn: "ev_ID n \<notin> set (snap_AppliedEventIDs u)"
    using ids b assms(7) Reduce_applied[OF u] by auto
  show ?thesis
    by (rule transition_event_effect[OF r nn n]) (use us same t' in auto)
qed

section \<open>An example with a gate\<close>

text \<open>
  The review node of the example waits for the gate \<^verbatim>\<open>approve\<close> and branches to \<^verbatim>\<open>ship\<close>; in the second
  state, the build has meanwhile completed the workflow.
\<close>

definition gateNode :: node_definition where
  "gateNode = demoNode\<lparr>nd_ID := ''review'', nd_Gates := [demoGate], nd_Branches := [(''ok'', ''ship'')],
     nd_LaunchWrapper := '''', nd_WorkingDirectory := None\<rparr>"

definition gateTemplate :: template where
  "gateTemplate = demoTemplate\<lparr>tm_Nodes := [demoNode, gateNode, demoNode\<lparr>nd_ID := ''ship''\<rparr>]\<rparr>"

definition gateParked :: "event list" where
  "gateParked =
     [demoInstantiated, demoLeased ''e2'' 2 ''review'' ''a2'' ''l1'', demoStarted ''e3'' 3 ''review'' ''a2'' ''l1'' ''att1'',
      (demoEvent ''e4'' 4 EventCompleted ''review'' ''a2'')\<lparr>ev_LeaseID := ''l1'', ev_Outcome := ''ok''\<rparr>]"

definition gateLate :: "event list" where
  "gateLate = gateParked @
     [demoLeased ''e5'' 5 ''build'' ''a1'' ''l2'', demoStarted ''e6'' 6 ''build'' ''a1'' ''l2'' ''att2'',
      (demoEvent ''e7'' 7 EventCompleted ''build'' ''a1'')\<lparr>ev_LeaseID := ''l2'', ev_Outcome := ''ok''\<rparr>]"

definition gateCodec :: codec where
  "gateCodec = demoCodec\<lparr>jc_Transition := (\<lambda>_. Inr \<lparr>tr_ActivationID = ''a2'', tr_Outcome = ''ok'',
     tr_TargetNodeID = ''ship'', tr_CreatedAt = 500\<rparr>)\<rparr>"

definition gateEnv :: store_env where
  "gateEnv = \<lparr>se_Policies = Some (templatePolicies (\<lambda>_ _. Inr gateTemplate) (\<lambda>_. Inr (zeroSnapshot, False))),
     se_Codec = gateCodec, se_Encode = demoEncode,
     se_Decode = (\<lambda>s. find (\<lambda>e. s = demoEncode e \<or> s = demoEncode e @ [nl]) gateLate), se_Legacy = demoMinted\<rparr>"

definition gateManager :: manager_env where
  "gateManager = demoManager\<lparr>me_Store := gateEnv, me_LoadTemplate := (\<lambda>_ _. Inr gateTemplate)\<rparr>"

definition gateSnap :: "event list \<Rightarrow> snapshot" where
  "gateSnap es = the_snap (seReduceAll gateEnv zeroSnapshot es)"

definition gateState :: "event list \<Rightarrow> mgr" where
  "gateState es = demoState\<lparr>mg_Disk := [(''w'', \<lparr>sf_Snapshot = Some (gateSnap es), sf_Log = encLog demoEncode es\<rparr>)]\<rparr>"

definition gateRequest :: command_gate_request where
  "gateRequest = \<lparr>gq_NodeID = ''review'', gq_ActivationID = ''a2'', gq_GateID = ''approve'', gq_Operation = GateOpSatisfy,
     gq_Actor = ''op'', gq_Reason = ''fine'', gq_Outcome = '''', gq_Subject = None, gq_PollID = '''', gq_Source = '''',
     gq_Result = '''', gq_ResponseHash = '''', gq_ObservedAt = None, gq_EvidenceIDs = [''x'']\<rparr>"

lemma gate_holds:
  assumes "es \<in> {gateParked, gateLate}"
  shows "represents gateEnv \<lparr>sf_Snapshot = Some (gateSnap es), sf_Log = encLog demoEncode es\<rparr> es (gateSnap es)"
proof -
  have js: "jsonLaws (se_Encode gateEnv) (se_Decode gateEnv) (set gateLate)" unfolding jsonLaws_list by code_simp
  have sub: "set es \<subseteq> set gateLate" using assms by (auto simp: gateLate_def)
  have "isOk (seReduceAll gateEnv zeroSnapshot gateParked)" "isOk (seReduceAll gateEnv zeroSnapshot gateLate)"
    by code_simp+
  then have ok: "seReduceAll gateEnv zeroSnapshot es = Inr (gateSnap es)"
    using assms by (auto simp: gateSnap_def intro: the_snap_ok)
  have "ev_ID ` set es \<subseteq> set (snap_AppliedEventIDs (gateSnap es))" using rlog.run_mono[OF ok] by auto
  then have "seReduceAll gateEnv (gateSnap es) es = Inr (gateSnap es)" by (rule rlog.run_seen)
  then show ?thesis using jsonLaws_mono[OF js sub] by (auto simp: represents_def gateEnv_def)
qed

theorem gate_views_agree_witness:
  "unsatisfiedRequiredGates ((snap_Instance (gateSnap gateParked))\<lparr>inst_Gates :=
      recordGate (gateInstanceOf quietCall gateNode ''a2'' ''approve'' GateOpSatisfy GatePassed gateRequest)
        (inst_Gates (snap_Instance (gateSnap gateParked)))\<rparr>) (nd_Gates gateNode) (acts (gateSnap gateParked) ! 1) = []"
proof -
  let ?g = "gateInstanceOf quietCall gateNode ''a2'' ''approve'' GateOpSatisfy GatePassed gateRequest"
  have 1: "newGate ?g (snap_Instance (gateSnap gateParked))" by code_simp
  have 2: "gi_GateID ?g \<noteq> ''''" by code_simp
  have 3: "gi_ActivationID ?g = act_ID (acts (gateSnap gateParked) ! 1)" by code_simp
  have 4: "map gd_ID (remainingRequiredGates (snap_Instance (gateSnap gateParked)) gateNode (act_ID (acts (gateSnap gateParked) ! 1))
    (gi_GateID ?g) (gi_Status ?g)) = []" by code_simp
  show ?thesis using gate_views_agree[OF 1 2 3, of gateNode] 4 by simp
qed


text \<open>The same command, issued through the manager on the finished workflow.\<close>

definition lateCommand :: command where
  "lateCommand = gateCommand quietCall ''w'' gateNode ''a2'' GateOpSatisfy gateRequest ''gate-satisfy-approve-a2''
     (gateInstanceOf quietCall gateNode ''a2'' ''approve'' GateOpSatisfy GatePassed gateRequest) ''t'' ''ok'' 0 (gateSnap gateLate)"

theorem late_gate_decision_branches_witness:
  "isOk (fst (commandGate gateManager quietCall ''w'' (Inr gateRequest) (gateState gateLate))) \<and>
   wfStatus (gateSnap gateLate) = WorkflowCompleted \<and>
   (\<exists>a. acts (the_snap (reduceAll demoMinted (se_Policies gateEnv) (gateSnap gateLate)
       (case Apply demoMint gateCodec (se_Policies gateEnv) (gateSnap gateLate) lateCommand of Inr b \<Rightarrow> b | Inl _ \<Rightarrow> []))) =
     acts (gateSnap gateLate) @ [a] \<and> act_NodeID a = ''ship'')"
proof -
  let ?pol = "se_Policies gateEnv"
  let ?ap = "Apply demoMint gateCodec ?pol (gateSnap gateLate) lateCommand"
  let ?b = "case ?ap of Inr b \<Rightarrow> b | Inl _ \<Rightarrow> []"
  let ?r = "reduceAll demoMinted ?pol (gateSnap gateLate) ?b"
  have "isOk ?ap" by code_simp
  then have ap: "?ap = Inr ?b" by (cases ?ap) auto
  have ok: "isOk ?r" by code_simp
  have k: "cmd_Kind lateCommand = CommandGate" "cmd_Payload lateCommand \<noteq> ''''" by code_simp+
  have tr: "jc_Transition gateCodec (cmd_Payload lateCommand) = Inr \<lparr>tr_ActivationID = ''a2'', tr_Outcome = ''ok'',
     tr_TargetNodeID = ''ship'', tr_CreatedAt = 500\<rparr>" by (simp add: gateCodec_def demoCodec_def)
  have ids: "snap_AppliedEventIDs (gateSnap gateLate) = [''e1'', ''e2'', ''e3'', ''e4'', ''e5'', ''e6'', ''e7'']" by code_simp
  have new: "\<forall>k. NewEventID demoMint k \<notin> set (snap_AppliedEventIDs (gateSnap gateLate))"
    by (simp add: ids NewEventID_def newID_def)
  have st: "wfStatus (gateSnap gateLate) = WorkflowCompleted" by code_simp
  then have fin: "wfStatus (gateSnap gateLate) \<in> {WorkflowCompleted, WorkflowFailed}" by simp
  have "isOk (fst (commandGate gateManager quietCall ''w'' (Inr gateRequest) (gateState gateLate)))" by code_simp
  then show ?thesis
    using late_gate_decision_branches[OF ap k tr _ demoMint_inj new fin the_snap_ok[OF ok]] st by auto
qed

end
