(* ===== verification/Wf_DispatchSafety.thy ===== *)
theory Wf_DispatchSafety
  imports Wf_Delivery
begin

text \<open>
  Controller dispatch: selections are compared by content, candidates are exactly the ready
  activations of the controller, the index never goes back, and a dispatch respects the concurrency
  keys held across the workflow root.
\<close>

section \<open>Selections\<close>

lemma same_simps [simp]:
  "samePersistChoice p q \<longleftrightarrow> p = q" "samePermissionModelDecider x y \<longleftrightarrow> x = y"
  by (cases p; cases q; simp) (cases x; cases y; simp)

lemma decider_eqI:
  "(d :: permission_decider)\<lparr>pd_PersistSessions := None\<rparr> = e\<lparr>pd_PersistSessions := None\<rparr> \<Longrightarrow>
   pd_PersistSessions d = pd_PersistSessions e \<Longrightarrow> d = e"
  by (cases d, cases e) simp

lemma samePermissionDecider_eq [simp]: "samePermissionDecider x y \<longleftrightarrow> x = y"
  by (cases x; cases y) (auto intro: decider_eqI)

text \<open>
  Selections are compared by content. The field-wise comparison through the pointers accepts
  exactly the equal selections.
\<close>

theorem same_selection_exact: "sameSelection a b \<longleftrightarrow> a = b"
proof (cases a; cases b)
  fix x y assume ab: "a = Some x" "b = Some y"
  have "x = y" if "sel_PermissionDecider x = sel_PermissionDecider y"
    "sel_PermissionModelDecider x = sel_PermissionModelDecider y"
    "sel_PersistSessions x = sel_PersistSessions y" "sel_Messaging x = sel_Messaging y"
    "x\<lparr>sel_PermissionDecider := None, sel_PermissionModelDecider := None, sel_PersistSessions := None, sel_Messaging := None\<rparr> =
     y\<lparr>sel_PermissionDecider := None, sel_PermissionModelDecider := None, sel_PersistSessions := None, sel_Messaging := None\<rparr>"
    using that by (cases x, cases y) simp
  then show ?thesis using ab by auto
qed simp_all

section \<open>Candidates\<close>

text \<open>The candidates without a limit: every non-terminal workflow in order, every activation in order.\<close>

definition allCandidates :: "string \<Rightarrow> mgr \<Rightarrow> ready_candidate list" where
  "allCandidates controllerID m =
     concat (map (\<lambda>wid.
       case map_of (mg_Candidates m) wid of
         None \<Rightarrow> []
       | Some snap \<Rightarrow>
           if isTerminalStatus (wfStatus snap) then []
           else List.map_filter (candidateOf (mg_Super m) controllerID wid snap) (acts snap))
       (sort (map fst (mg_Candidates m))))"

definition limited :: "int \<Rightarrow> 'a list \<Rightarrow> 'a list" where
  "limited limit xs = (if 0 < limit then take (nat limit) xs else xs)"

lemma limited_append:
  "limited limit (xs @ ys) = (if 0 < limit \<and> limit \<le> int (length xs) then limited limit xs
     else if 0 < limit then xs @ take (nat limit - length xs) ys else xs @ ys)"
  by (auto simp: limited_def)

lemma collectActs_spec:
  assumes "0 < limit \<Longrightarrow> int (length out) < limit"
  shows "collectActs cand limit as out =
    (let all = out @ List.map_filter cand as in
     if 0 < limit \<and> limit \<le> int (length all) then Inl (limited limit all) else Inr all)"
  using assms
proof (induction as arbitrary: out)
  case (Cons a as)
  show ?case
  proof (cases "cand a")
    case None
    then show ?thesis using Cons by (simp add: List.map_filter_simps)
  next
    case (Some c)
    show ?thesis
    proof (cases "0 < limit \<and> limit \<le> int (length (out @ [c]))")
      case True
      then have "nat limit = length (out @ [c])" using Cons.prems by auto
      with True Some show ?thesis by (auto simp: List.map_filter_simps limited_def)
    next
      case False
      then show ?thesis using Some Cons.IH[of "out @ [c]"] Cons.prems by (auto simp: List.map_filter_simps Let_def)
    qed
  qed
qed (auto simp: List.map_filter_simps)

lemma collectWorkflows_spec:
  assumes "0 < limit \<Longrightarrow> int (length out) < limit"
  shows "collectWorkflows super c limit cands wids out =
    limited limit (out @ concat (map (\<lambda>wid.
       case cands wid of
         None \<Rightarrow> []
       | Some snap \<Rightarrow>
           if isTerminalStatus (wfStatus snap) then []
           else List.map_filter (candidateOf super c wid snap) (acts snap)) wids))"
  using assms
proof (induction wids arbitrary: out)
  case Nil
  then show ?case by (auto simp: limited_def)
next
  case (Cons wid wids)
  show ?case
  proof (cases "cands wid")
    case None
    then show ?thesis using Cons by simp
  next
    case (Some snap)
    show ?thesis
    proof (cases "isTerminalStatus (wfStatus snap)")
      case True
      then show ?thesis using Some Cons by simp
    next
      case False
      let ?all = "out @ List.map_filter (candidateOf super c wid snap) (acts snap)"
      note ca = collectActs_spec[OF Cons.prems, of "candidateOf super c wid snap" "acts snap"]
      show ?thesis
      proof (cases "0 < limit \<and> limit \<le> int (length ?all)")
        case True
        then have "limited limit (?all @ zs) = limited limit ?all" for zs by (subst limited_append) simp
        then show ?thesis using True False Some ca by (simp add: Let_def)
      next
        case f: False
        then show ?thesis using False Some ca Cons.IH[of ?all] by (auto simp: Let_def)
      qed
    qed
  qed
qed

text \<open>
  The candidate query is exact. Once the index is recovered, a controller is given the ready
  activations of its own auto nodes in workflows that are not over, by workflow id and then in
  activation order, cut off at the limit when there is one; before that it is told so.
\<close>

theorem candidates_exact:
  "CandidatesForController controllerID limit m =
     (if mg_CandidatesOK m then Inr (limited limit (allCandidates controllerID m)) else Inl ErrCandidatesNotRecovered)"
  by (simp add: CandidatesForController_def collectWorkflows_spec allCandidates_def)

section \<open>The index\<close>

text \<open>What the index knows of one workflow: nothing, or a revision.\<close>

definition indexed :: "mgr \<Rightarrow> string \<Rightarrow> int option" where
  "indexed m wid = map_option revision (map_of (mg_Candidates m) wid)"

fun notOlder :: "int option \<Rightarrow> int option \<Rightarrow> bool" where
  "notOlder None _ = True"
| "notOlder (Some r) (Some r') = (r \<le> r')"
| "notOlder (Some _) None = False"

lemma notOlder_refl [simp]: "notOlder r r"
  by (cases r) simp_all

lemma notOlder_trans: "notOlder r s \<Longrightarrow> notOlder s t \<Longrightarrow> notOlder r t"
  by (cases r; cases s; cases t) auto

lemma observe_index:
  "map_of (mg_Candidates (observeCommit wid snap m)) w =
     (if mg_CandidatesOK m \<and> w = wid \<and> notOlder (indexed m wid) (Some (revision snap)) then Some snap
      else map_of (mg_Candidates m) w)"
  by (auto simp: observeCommit_def notifySubscribers_def indexed_def split: option.splits)

lemma observe_ok [simp]: "mg_CandidatesOK (observeCommit wid snap m) = mg_CandidatesOK m"
  by (simp add: observeCommit_def notifySubscribers_def split: option.split)

fun observeAll :: "(string \<times> snapshot) list \<Rightarrow> mgr \<Rightarrow> mgr" where
  "observeAll [] m = m"
| "observeAll ((wid, snap) # cs) m = observeAll cs (observeCommit wid snap m)"

lemma observe_notOlder: "notOlder (indexed m w) (indexed (observeCommit wid snap m) w)"
  by (auto simp: indexed_def observe_index)

text \<open>
  The index never goes back. In whatever order the commits of concurrent commands are observed,
  after all of them the recovered index knows of each workflow a snapshot that is not older than any
  of the observed ones, and not older than the one it had before.
\<close>

theorem index_keeps_newest:
  assumes "mg_CandidatesOK m" and "(wid, snap) \<in> set commits"
  shows "notOlder (Some (revision snap)) (indexed (observeAll commits m) wid) \<and>
    notOlder (indexed m w) (indexed (observeAll commits m) w)"
proof -
  have mono: "notOlder (indexed m w) (indexed (observeAll cs m) w)" for cs m w
    by (induction cs m rule: observeAll.induct) (auto intro: notOlder_trans observe_notOlder)
  have "notOlder (Some (revision snap)) (indexed (observeAll commits m) wid)"
    using assms
  proof (induction commits m rule: observeAll.induct)
    case (2 w' s' cs m)
    show ?case
    proof (cases "(w', s') = (wid, snap)")
      case True
      have "notOlder (Some (revision snap)) (indexed (observeCommit wid snap m) wid)"
        using 2(2) by (cases "indexed m wid") (auto simp: indexed_def observe_index)
      with True mono show ?thesis by (auto intro: notOlder_trans)
    next
      case False
      then show ?thesis using 2 by auto
    qed
  qed simp
  with mono show ?thesis by blast
qed

theorem index_keeps_newest_witness:
  "notOlder (Some 8) (indexed (observeAll [(''w'', demoNext), (''w'', demoCurrent)] demoState) ''w'')"
proof -
  have 1: "mg_CandidatesOK demoState" by (simp add: demoState_def)
  have 2: "(''w'', demoNext) \<in> set [(''w'', demoNext), (''w'', demoCurrent)]" by simp
  have "revision demoNext = 8" by code_simp
  then show ?thesis using index_keeps_newest[OF 1 2] by simp
qed

section \<open>Concurrency keys\<close>

definition keyOf :: "activation \<Rightarrow> string" where
  "keyOf a = (case act_Dispatch a of None \<Rightarrow> '''' | Some d \<Rightarrow> dp_ConcurrencyKey d)"

text \<open>An activation of a running workflow that holds its key: it has one, and a live attempt.\<close>

definition keyHolder :: "snapshot \<Rightarrow> activation \<Rightarrow> bool" where
  "keyHolder snap a \<longleftrightarrow>
     \<not> isTerminalStatus (wfStatus snap) \<and> a \<in> set (acts snap) \<and> keyOf a \<noteq> '''' \<and> hasLiveAttempt snap a"

definition skipped :: "string \<Rightarrow> string \<Rightarrow> snapshot \<Rightarrow> activation \<Rightarrow> bool" where
  "skipped skipWorkflow skipActivation snap a \<longleftrightarrow>
     inst_WorkflowID (snap_Instance snap) = skipWorkflow \<and> act_ID a = skipActivation"

lemma foldl_collects:
  assumes "\<And>acc a. set (f acc a) = set acc \<union> g a"
  shows "set (foldl f acc as) = set acc \<union> (\<Union>a\<in>set as. g a)"
  using assms by (induction as arbitrary: acc) auto

lemma collectHeldKeys_set:
  "set (collectHeldKeys held snap sw sa) =
     set held \<union> {keyOf a | a. keyHolder snap a \<and> \<not> skipped sw sa snap a}"
proof (cases "isTerminalStatus (wfStatus snap)")
  case True
  then show ?thesis by (simp add: collectHeldKeys_def keyHolder_def)
next
  case False
  let ?f = "\<lambda>held a.
        case act_Dispatch a of
          None \<Rightarrow> held
        | Some d \<Rightarrow>
            if dp_ConcurrencyKey d = '''' then held
            else if inst_WorkflowID (snap_Instance snap) = sw \<and> act_ID a = sa then held
            else if hasLiveAttempt snap a then held @ [dp_ConcurrencyKey d] else held"
  let ?g = "\<lambda>a. if keyOf a \<noteq> '''' \<and> hasLiveAttempt snap a \<and> \<not> skipped sw sa snap a then {keyOf a} else {}"
  have "set (foldl ?f held (acts snap)) = set held \<union> (\<Union>a\<in>set (acts snap). ?g a)"
    by (rule foldl_collects) (auto simp: keyOf_def skipped_def split: option.split)
  then show ?thesis using False by (auto simp: collectHeldKeys_def keyHolder_def)
qed

lemma heldFrom_mono: "set held \<subseteq> set (fst (heldFrom me ce n sw sa entries held m))"
  by (induction entries arbitrary: n held m)
    (force simp: collectHeldKeys_set split: prod.splits sum.splits bool.splits)+

lemma readCurrent_other:
  assumes "\<forall>n. ce_Others ce n = (\<lambda>m. m)" and "represents (me_Store me) (files m w) es cur"
    and "readCurrent me ce n entry m = (q, m')"
  shows "files m' w = files m w" and "entry = w \<Longrightarrow> q = Inr (cur, True)"
proof -
  show "files m' w = files m w"
    using assms represents_loadCurrent[OF assms(2)]
    by (auto simp: readCurrent_def Let_def files_def split: option.splits prod.splits)
       (auto simp: putFiles_def split: if_splits)
  assume "entry = w"
  then show "q = Inr (cur, True)"
    using assms(1,3) represents_loadCurrent[OF assms(2)] assms(2)
    by (auto simp: readCurrent_def Let_def files_def represents_def noFiles_def split: option.splits prod.splits)
qed

lemma heldFrom_sees:
  assumes "\<forall>n. ce_Others ce n = (\<lambda>m. m)" and "represents (me_Store me) (files m w) es cur"
    and "w \<in> set entries" and "keyHolder cur a" and "\<not> skipped sw sa cur a"
  shows "keyOf a \<in> set (fst (heldFrom me ce n sw sa entries held m))"
  using assms(2,3)
proof (induction entries arbitrary: n held m)
  case (Cons entry entries)
  obtain q m' where rd: "readCurrent me ce n entry m = (q, m')" by fastforce
  note keep = readCurrent_other[OF assms(1) Cons.prems(1) rd]
  show ?case
  proof (cases "entry = w")
    case True
    then have "q = Inr (cur, True)" by (rule keep(2))
    then have "heldFrom me ce n sw sa (entry # entries) held m =
        heldFrom me ce (Suc n) sw sa entries (collectHeldKeys held cur sw sa) m'" using rd by simp
    moreover have "keyOf a \<in> set (collectHeldKeys held cur sw sa)" using assms(4,5) by (auto simp: collectHeldKeys_set)
    ultimately show ?thesis using heldFrom_mono by (metis subsetD)
  next
    case False
    then have "w \<in> set entries" using Cons.prems(2) by simp
    moreover have "represents (me_Store me) (files m' w) es cur" using keep(1) Cons.prems(1) by simp
    ultimately show ?thesis using Cons.IH rd by (auto split: sum.split prod.split bool.split)
  qed
qed simp

lemma bindM_Inr: "bindM f g m = (Inr y, m') \<longleftrightarrow> (\<exists>x m1. f m = (Inr x, m1) \<and> g x m1 = (Inr y, m'))"
  by (auto simp: bindM_def split: prod.splits sum.splits)

lemma answer_Inr:
  "(case q of (Inl e, m2) \<Rightarrow> if e = stale then (Inl late, m2) else (Inl e, m2) | (Inr z, m2) \<Rightarrow> (Inr v, m2)) = (Inr r, m')
    \<longleftrightarrow> (\<exists>z. q = (Inr z, m')) \<and> r = v"
  by (auto split: prod.splits sum.splits)

lemma loadExisting_quiet:
  assumes "\<forall>n. ce_Others ce n = (\<lambda>m. m)" and "represents (me_Store me) (files m w) es cur"
    and "loadExisting me ce n wid m = (Inr s, m')"
  shows "files m' w = files m w" and "wid = w \<Longrightarrow> s = cur"
proof -
  obtain ex where rd: "readCurrent me ce n wid m = (Inr (s, ex), m')"
    using assms(3) by (auto simp: loadExisting_def bindM_Inr split: if_splits)
  note r = readCurrent_other[OF assms(1,2) rd]
  show "files m' w = files m w" by (rule r(1))
  show "wid = w \<Longrightarrow> s = cur" using r(2) by simp
qed

text \<open>A dispatch that succeeded passed the key check on the state it read.\<close>

lemma BeginDispatch_checked:
  assumes "BeginDispatch me ce req m = (Inr r, m')"
  obtains snap m1 i held m2 where "loadExisting me ce 0 (bq_WorkflowID req) m = (Inr snap, m1)"
    "findActivation (snap_Instance snap) (bq_NodeID req) (bq_ActivationID req) = Inr (Some i)"
    "heldConcurrencyKeys me ce 2 (bq_WorkflowID req) (act_ID (acts snap ! i)) m1 = (Inr held, m2)"
    "keyOf (acts snap ! i) \<notin> set held" "br_ActivationID r = act_ID (acts snap ! i)"
    "claimableActivationStatus (act_Status (acts snap ! i))" "act_ActiveLease (acts snap ! i) = None"
    "revision snap = bq_ExpectedRevision req"
proof -
  have "\<exists>snap m1 i held m2. loadExisting me ce 0 (bq_WorkflowID req) m = (Inr snap, m1) \<and>
      findActivation (snap_Instance snap) (bq_NodeID req) (bq_ActivationID req) = Inr (Some i) \<and>
      heldConcurrencyKeys me ce 2 (bq_WorkflowID req) (act_ID (acts snap ! i)) m1 = (Inr held, m2) \<and>
      keyOf (acts snap ! i) \<notin> set held \<and> br_ActivationID r = act_ID (acts snap ! i) \<and>
      claimableActivationStatus (act_Status (acts snap ! i)) \<and> act_ActiveLease (acts snap ! i) = None \<and>
      revision snap = bq_ExpectedRevision req"
    using assms unfolding BeginDispatch_def Let_def keyOf_def[symmetric]
    by (auto simp: bindM_Inr answer_Inr liftM_def targetActivation_def bindE_eq_Inr_iff dispatchable_def require_ok
        split: option.split_asm sum.split_asm prod.split_asm if_split_asm)
  then show thesis using that by blast
qed



section \<open>An example root with two running workflows\<close>

text \<open>
  Two copies of the running example under one root: in each, the activation of \<^verbatim>\<open>build\<close> holds the
  key \<^verbatim>\<open>build\<close> and the one of \<^verbatim>\<open>review\<close> waits for its controller under the key \<^verbatim>\<open>review\<close>.
\<close>

definition keyedActivation :: "activation \<Rightarrow> activation" where
  "keyedActivation a = a\<lparr>act_Dispatch := Some \<lparr>dp_Mode = DispatchAuto, dp_ControllerID = ''ctl'', dp_Priority = None,
     dp_ConcurrencyKey = act_NodeID a, dp_ConcurrencyKeyParams = None, dp_SuccessOutcome = ''ok'',
     dp_ActionKind = ActionRun\<rparr>\<rparr>"

definition keyedSnapshot :: "string \<Rightarrow> snapshot" where
  "keyedSnapshot w = demoCurrent\<lparr>snap_Instance := (snap_Instance demoCurrent)
     \<lparr>inst_WorkflowID := w, inst_Activations := map keyedActivation (acts demoCurrent)\<rparr>\<rparr>"

definition keyedState :: mgr where
  "keyedState = demoState\<lparr>mg_Disk :=
     [(''v'', \<lparr>sf_Snapshot = Some (keyedSnapshot ''v''), sf_Log = []\<rparr>),
      (''w'', \<lparr>sf_Snapshot = Some (keyedSnapshot ''w''), sf_Log = []\<rparr>)]\<rparr>"

definition keyedRequest :: begin_dispatch_request where
  "keyedRequest = \<lparr>bq_WorkflowID = ''w'', bq_NodeID = ''review'', bq_ActivationID = ''a2'', bq_ExpectedRevision = 6,
     bq_ControllerID = ''ctl'', bq_LeaderLeaseID = ''lead'', bq_Selection = None\<rparr>"

definition keyedDispatch :: "begin_dispatch_result result \<times> mgr" where
  "keyedDispatch = BeginDispatch demoManager quietCall keyedRequest keyedState"

lemma keyed_represents:
  "x = ''v'' \<or> x = ''w'' \<Longrightarrow> represents (me_Store demoManager) (files keyedState x) [] (keyedSnapshot x)"
  by (auto simp: represents_def keyedState_def demoState_def files_def jsonLaws_def)


end
