(* ===== verification/Wf_Composition.thy ===== *)
theory Wf_Composition
  imports Wf_Parking
begin

text \<open>
  Workflows composed of workflows (\<^verbatim>\<open>composition.go\<close> and the instantiation of \<^verbatim>\<open>manager.go\<close>): the
  validation of the tree of pinned child templates, the creation of the child instances before the
  parent, the executor that waits for a child and resolves the parent node with its outcome, and the
  resumption of waiting parents after a restart.

  The recursions over child templates take fuel and return \<open>None\<close> when it runs out; how much is
  enough is proved with the composition theorems.
\<close>

section \<open>Limits and identities\<close>

definition DefaultMaximumCompositionDepth :: int where
  "DefaultMaximumCompositionDepth = 8"

definition DefaultMaximumCompositionChildren :: int where
  "DefaultMaximumCompositionChildren = 16"

definition DefaultMaximumCompositionInstances :: nat where
  "DefaultMaximumCompositionInstances = 4096"

record composition_child =
  cc_NodeID :: string
  cc_ChildWorkflowID :: string
  cc_Template :: template

type_synonym resolver = "string \<Rightarrow> string \<Rightarrow> template result"

definition effectiveCompositionLimits :: "template \<Rightarrow> composition_limits" where
  "effectiveCompositionLimits t =
     (case tm_CompositionLimits t of
        Some l \<Rightarrow> l
      | None \<Rightarrow> \<lparr>cl_MaximumDepth = DefaultMaximumCompositionDepth,
                 cl_MaximumChildren = DefaultMaximumCompositionChildren\<rparr>)"

definition workflowActionNodes :: "template \<Rightarrow> node_definition list" where
  "workflowActionNodes t =
     filter (\<lambda>n. ac_Kind (nd_Action n) = ActionWorkflow \<and> ac_Workflow (nd_Action n) \<noteq> None) (tm_Nodes t)"

text \<open>The first 16 bytes of the digest are the first 32 hexadecimal digits.\<close>

definition DeriveChildWorkflowID :: "(string \<Rightarrow> string) \<Rightarrow> string \<Rightarrow> string \<Rightarrow> string \<Rightarrow> string" where
  "DeriveChildWorkflowID sha parent nodeID childKey =
     ''wfchild_'' @ take 32 (sha (parent @ [CHR 0x00] @ nodeID @ [CHR 0x00] @ childKey))"

section \<open>The contract between a node and its child\<close>

definition templateParamIDs :: "template \<Rightarrow> string list" where
  "templateParamIDs t = map tp_ID (tm_Params t)"

definition nodeOutputIDs :: "node_definition \<Rightarrow> string list" where
  "nodeOutputIDs node = map od_ID (nd_Outputs node)"

definition templateOutputIDs :: "template \<Rightarrow> string list" where
  "templateOutputIDs t = concat (map nodeOutputIDs (tm_Nodes t))"

definition nodeOutcomeNames :: "node_definition \<Rightarrow> string list" where
  "nodeOutcomeNames node = map oc_Name (nd_Outcomes node) @ map fst (nd_Branches node)"

definition templateOutcomeNames :: "template \<Rightarrow> string list" where
  "templateOutcomeNames t = tm_TerminalOutcomes t @ concat (map nodeOutcomeNames (tm_Nodes t))"

definition validateOutputBinding :: "node_definition \<Rightarrow> template \<Rightarrow> nat \<times> output_binding \<Rightarrow> unit result" where
  "validateOutputBinding node child ib =
     (case ib of (i, b) \<Rightarrow>
      bindE (require (ob_ChildOutput b \<in> set (templateOutputIDs child))
        (Errorf ''composition: node %q output_bindings[%d]: child_output %q is not a declared output of child template %s@%s''
           [nd_ID node, natString i, ob_ChildOutput b, tm_TemplateID child, tm_TemplateVersion child])) (\<lambda>_.
      require (ob_ParentOutput b \<in> set (nodeOutputIDs node))
        (Errorf ''composition: node %q output_bindings[%d]: parent_output %q is not a declared output of node %q''
           [nd_ID node, natString i, ob_ParentOutput b, nd_ID node])))"

definition validateParamBinding :: "node_definition \<Rightarrow> template \<Rightarrow> template \<Rightarrow> nat \<times> child_param_binding \<Rightarrow> unit result" where
  "validateParamBinding node parent child ib =
     (case ib of (i, b) \<Rightarrow>
      bindE (require (cpb_Param b \<in> set (templateParamIDs child))
        (Errorf ''composition: node %q params[%d]: param %q is not declared by child template %s@%s''
           [nd_ID node, natString i, cpb_Param b, tm_TemplateID child, tm_TemplateVersion child])) (\<lambda>_.
      require (cpb_FromInstanceParam b = '''' \<or> cpb_FromInstanceParam b \<in> set (templateParamIDs parent))
        (Errorf ''composition: node %q params[%d]: from_instance_param %q is not declared by parent template %s@%s''
           [nd_ID node, natString i, cpb_FromInstanceParam b, tm_TemplateID parent, tm_TemplateVersion parent])))"

definition validateOutcomeMapping :: "node_definition \<Rightarrow> template \<Rightarrow> template \<Rightarrow> workflow_action \<Rightarrow> string \<Rightarrow> unit result" where
  "validateOutcomeMapping node parent child wact childOutcome =
     (let parentOutcome = goGet (wa_OutcomeMap wact) childOutcome in
      bindE (require (childOutcome \<in> set (templateOutcomeNames child))
        (Errorf ''composition: node %q outcome_map: child outcome %q is not a declared outcome of child template %s@%s''
           [nd_ID node, childOutcome, tm_TemplateID child, tm_TemplateVersion child])) (\<lambda>_.
      require (parentOutcome \<in> set (nodeOutcomeNames node) \<or> parentOutcome \<in> set (tm_TerminalOutcomes parent))
        (Errorf ''composition: node %q outcome_map: parent outcome %q is not an outcome of node %q or a terminal outcome of template %q''
           [nd_ID node, parentOutcome, nd_ID node, tm_TemplateID parent])))"

definition validateCompositionBindings :: "node_definition \<Rightarrow> workflow_action \<Rightarrow> template \<Rightarrow> template \<Rightarrow> unit result" where
  "validateCompositionBindings node wact parent child =
     bindE (checkAll (validateOutputBinding node child) (enumerate 0 (wa_OutputBindings wact))) (\<lambda>_.
     bindE (checkAll (validateParamBinding node parent child) (enumerate 0 (wa_Params wact))) (\<lambda>_.
     bindE (checkAll (\<lambda>p. require (tp_Required p \<longrightarrow> tp_ID p \<in> set (map cpb_Param (wa_Params wact)))
        (Errorf ''composition: node %q does not bind required child param %q of child template %s@%s''
           [nd_ID node, tp_ID p, tm_TemplateID child, tm_TemplateVersion child])) (tm_Params child)) (\<lambda>_.
     checkAll (validateOutcomeMapping node parent child wact) (sort (map fst (wa_OutcomeMap wact))))))"

section \<open>The composition tree\<close>

definition indexTemplateID :: "string list \<Rightarrow> string \<Rightarrow> nat option" where
  "indexTemplateID chain tid = findIdx (\<lambda>c. c = tid) chain"

definition formatTemplateChain :: "string list \<Rightarrow> string" where
  "formatTemplateChain chain = (case chain of [] \<Rightarrow> '''' | c # cs \<Rightarrow> c @ concat (map (\<lambda>d. '' -> '' @ d) cs))"

text \<open>
  The checks on one workflow-action node before the recursion into its child. \<^verbatim>\<open>workflowActionNodes\<close>
  leaves no node without a workflow action here.
\<close>

definition composeChild :: "resolver \<Rightarrow> template \<Rightarrow> string list \<Rightarrow> node_definition \<Rightarrow> template result" where
  "composeChild resolve t anc node =
     (case ac_Workflow (nd_Action node) of
        None \<Rightarrow> Inl (Err ''nil workflow action'')
      | Some wact \<Rightarrow>
          bindE (wrapE ''composition: node %q: '' [nd_ID node] (resolve (wa_TemplateID wact) (wa_TemplateVersion wact))) (\<lambda>child.
          case indexTemplateID anc (tm_TemplateID child) of
            Some i \<Rightarrow>
              Inl (Errorf ''composition: composition cycle: template %s@%s composes an ancestor already in the chain (%s)''
                [tm_TemplateID child, tm_TemplateVersion child,
                 formatTemplateChain (drop i anc @ [tm_TemplateID child])])
          | None \<Rightarrow> bindE (validateCompositionBindings node wact t child) (\<lambda>_. Inr child)))"

definition childKeyOf :: "node_definition \<Rightarrow> string" where
  "childKeyOf node = (case ac_Workflow (nd_Action node) of None \<Rightarrow> '''' | Some wact \<Rightarrow> wa_ChildKey wact)"

type_synonym composed = "(nat \<times> nat \<times> composition_child list) result option"

text \<open>
  The loop over the workflow-action nodes, with the recursive call \<open>descend\<close> on a child's id, template
  and chain; the state of the loop is the depth, the number of instances and the manifest so far.
\<close>

fun composeNodes ::
  "(string \<Rightarrow> template \<Rightarrow> string list \<Rightarrow> composed) \<Rightarrow> (string \<Rightarrow> string) \<Rightarrow> resolver \<Rightarrow> string \<Rightarrow> template \<Rightarrow> string list \<Rightarrow>
   node_definition list \<Rightarrow> nat \<Rightarrow> nat \<Rightarrow> composition_child list \<Rightarrow> composed" where
  "composeNodes descend sha resolve parent t anc [] lvl instances children = Some (Inr (lvl, instances, children))"
| "composeNodes descend sha resolve parent t anc (node # nodes) lvl instances children =
     (case composeChild resolve t anc node of
        Inl e \<Rightarrow> Some (Inl e)
      | Inr child \<Rightarrow>
          (let childID = DeriveChildWorkflowID sha parent (nd_ID node) (childKeyOf node);
               limit = cl_MaximumDepth (effectiveCompositionLimits t) in
           case descend childID child (anc @ [tm_TemplateID child]) of
             None \<Rightarrow> None
           | Some (Inl e) \<Rightarrow> Some (Inl e)
           | Some (Inr (childDepth, childInstances, _)) \<Rightarrow>
               if instances + childInstances > DefaultMaximumCompositionInstances
               then Some (Inl (Errorf ''composition: template %q materializes %d instances in its subtree, exceeding the maximum of %d''
                      [tm_TemplateID t, natString (instances + childInstances), natString DefaultMaximumCompositionInstances]))
               else if int (1 + childDepth) > limit
               then Some (Inl (Errorf ''composition: template %q composes to depth %d, exceeding max_depth %d''
                      [tm_TemplateID t, natString (1 + childDepth), intString limit]))
               else composeNodes descend sha resolve parent t anc nodes (max lvl (1 + childDepth))
                      (instances + childInstances)
                      (children @ [\<lparr>cc_NodeID = nd_ID node, cc_ChildWorkflowID = childID, cc_Template = child\<rparr>])))"

fun composeTemplate :: "nat \<Rightarrow> (string \<Rightarrow> string) \<Rightarrow> resolver \<Rightarrow> string \<Rightarrow> template \<Rightarrow> string list \<Rightarrow> composed" where
  "composeTemplate 0 sha resolve parent t anc = None"
| "composeTemplate (Suc fuel) sha resolve parent t anc =
     (let nodes = workflowActionNodes t; limit = cl_MaximumChildren (effectiveCompositionLimits t) in
      if int (length nodes) > limit
      then Some (Inl (Errorf ''composition: template %q declares %d workflow actions, exceeding max_children %d''
             [tm_TemplateID t, natString (length nodes), intString limit]))
      else composeNodes (composeTemplate fuel sha resolve) sha resolve parent t anc nodes 0 1 [])"

definition BuildComposition ::
  "nat \<Rightarrow> (string \<Rightarrow> string) \<Rightarrow> string \<Rightarrow> template \<Rightarrow> resolver \<Rightarrow> (composition_child list \<times> nat) result option" where
  "BuildComposition fuel sha parent t resolve =
     map_option (\<lambda>r. bindE r (\<lambda>(_, instances, children). Inr (children, instances)))
       (composeTemplate fuel sha resolve parent t [tm_TemplateID t])"


section \<open>Instantiation (manager.go)\<close>

text \<open>
  What instantiation uses beside the manager's environment: the JSON encoder of instance records and
  the test whether a template load failed because the file does not exist.
\<close>

record compose_env =
  cx_EncInstance :: "instance_record \<Rightarrow> raw"
  cx_NotExist :: "error \<Rightarrow> bool"

definition NewChildReferenceID :: "minted \<Rightarrow> nat \<Rightarrow> string" where
  "NewChildReferenceID = newID ''child''"

definition resolveTemplate :: "manager_env \<Rightarrow> compose_env \<Rightarrow> resolver" where
  "resolveTemplate me cx tid version =
     (if \<not> safeComponent tid \<or> \<not> safeComponent version
      then Inl (Errorf ''invalid pinned child template reference %s@%s'' [tid, version])
      else case me_LoadTemplate me tid version of
        Inl e \<Rightarrow> if cx_NotExist cx e then Inl (Errorf ''pinned child template %s@%s not found'' [tid, version]) else Inl e
      | Inr t \<Rightarrow> Inr t)"

definition resolveChildParam ::
  "string \<Rightarrow> (string \<times> string) list \<Rightarrow> (string \<times> string) list \<Rightarrow> child_param_binding \<Rightarrow> (string \<times> string) list result" where
  "resolveChildParam nodeID params resolved b =
     (if cpb_Value b \<noteq> '''' then Inr (mapPut (cpb_Param b) (cpb_Value b) resolved)
      else case map_of params (cpb_FromInstanceParam b) of
        None \<Rightarrow> Inl (Errorf ''composition: node %q passes undeclared parent instance param %q to child param %q''
                  [nodeID, cpb_FromInstanceParam b, cpb_Param b])
      | Some v \<Rightarrow> Inr (mapPut (cpb_Param b) v resolved))"

definition resolveChildParams :: "template \<Rightarrow> string \<Rightarrow> (string \<times> string) list \<Rightarrow> (string \<times> string) list result" where
  "resolveChildParams t nodeID params =
     bindE (findNode t nodeID) (\<lambda>node.
       case ac_Workflow (nd_Action node) of
         None \<Rightarrow> Inr []
       | Some wact \<Rightarrow> foldE (resolveChildParam nodeID params) [] (wa_Params wact))"

text \<open>
  A run of an instantiation: the shared state, the count of instances materialized so far, and the
  number of the next access (which also numbers the minted child references).
\<close>

record inst_run =
  ru_Mgr :: mgr
  ru_Count :: nat
  ru_Next :: nat

type_synonym 'a run = "inst_run \<Rightarrow> ('a result \<times> inst_run) option"

definition ensureChildInstance ::
  "(string \<Rightarrow> template \<Rightarrow> (string \<times> string) list \<Rightarrow> snapshot run) \<Rightarrow> manager_env \<Rightarrow> call_env \<Rightarrow> composition_child \<Rightarrow>
   (string \<times> string) list \<Rightarrow> string run" where
  "ensureChildInstance instantiate me ce child childParams st =
     (case readCurrent me ce (ru_Next st) (cc_ChildWorkflowID child) (ru_Mgr st) of (r, m) \<Rightarrow>
      let st1 = st\<lparr>ru_Mgr := m, ru_Next := Suc (ru_Next st)\<rparr> in
      case r of
        Inr (_, True) \<Rightarrow> Some (Inr (cc_ChildWorkflowID child), st1)
      | _ \<Rightarrow>
          (case instantiate (cc_ChildWorkflowID child) (cc_Template child) childParams st1 of
             None \<Rightarrow> None
           | Some (Inl e, st2) \<Rightarrow> Some (Inl e, st2)
           | Some (Inr _, st2) \<Rightarrow> Some (Inr (cc_ChildWorkflowID child), st2)))"

fun ensureChildren ::
  "(string \<Rightarrow> template \<Rightarrow> (string \<times> string) list \<Rightarrow> snapshot run) \<Rightarrow> manager_env \<Rightarrow> call_env \<Rightarrow> template \<Rightarrow>
   (string \<times> string) list \<Rightarrow> composition_child list \<Rightarrow> unit run" where
  "ensureChildren instantiate me ce t params [] st = Some (Inr (), st)"
| "ensureChildren instantiate me ce t params (child # children) st =
     (case bindE (resolveChildParams t (cc_NodeID child) params) (\<lambda>childParams.
             bindE (validateInstanceParams (cc_Template child) childParams) (\<lambda>_. Inr childParams)) of
        Inl e \<Rightarrow> Some (Inl e, st)
      | Inr childParams \<Rightarrow>
          (case ensureChildInstance instantiate me ce child childParams st of
             None \<Rightarrow> None
           | Some (Inl e, st1) \<Rightarrow> Some (Inl e, st1)
           | Some (Inr _, st1) \<Rightarrow> ensureChildren instantiate me ce t params children st1))"

definition childRef :: "call_env \<Rightarrow> nat \<Rightarrow> nat \<times> composition_child \<Rightarrow> child_reference" where
  "childRef ce n ic =
     (case ic of (i, child) \<Rightarrow>
      \<lparr>cr_ID = NewChildReferenceID (ce_Ids ce) (n + i), cr_NodeID = cc_NodeID child, cr_ParentActivation = '''',
       cr_WorkflowID = cc_ChildWorkflowID child, cr_TemplateID = tm_TemplateID (cc_Template child),
       cr_TemplateVersion = tm_TemplateVersion (cc_Template child), cr_Outputs = [], cr_Outcome = ''''\<rparr>)"

definition instanceRecordOf :: "call_env \<Rightarrow> nat \<Rightarrow> template \<Rightarrow> (string \<times> string) list \<Rightarrow> composition_child list \<Rightarrow> instance_record" where
  "instanceRecordOf ce n t params children =
     \<lparr>ir_TemplateID = tm_TemplateID t, ir_TemplateVersion = tm_TemplateVersion t,
      ir_TerminalOutcomes = tm_TerminalOutcomes t, ir_EntryNodes = tm_EntryNodes t,
      ir_Children = map (childRef ce n) (enumerate 0 children), ir_Params = params, ir_InstanceID = ''''\<rparr>"

definition instantiateCommand :: "compose_env \<Rightarrow> string \<Rightarrow> instance_record \<Rightarrow> command" where
  "instantiateCommand cx wid rec =
     zeroCommand\<lparr>cmd_Kind := CommandInstantiate, cmd_ExpectedRevision := 0, cmd_IdempotencyKey := ''inst-'' @ wid,
       cmd_Identity := zeroIdentity\<lparr>id_WorkflowID := wid\<rparr>, cmd_Payload := cx_EncInstance cx rec\<rparr>"

definition commitInstance ::
  "manager_env \<Rightarrow> compose_env \<Rightarrow> call_env \<Rightarrow> string \<Rightarrow> template \<Rightarrow> (string \<times> string) list \<Rightarrow> composition_child list \<Rightarrow>
   inst_run \<Rightarrow> snapshot result \<times> inst_run" where
  "commitInstance me cx ce wid t params children st =
     (case ApplyCommand me ce (ru_Next st) wid
             (instantiateCommand cx wid (instanceRecordOf ce (ru_Next st) t params children)) (ru_Mgr st) of
        (r, m) \<Rightarrow> (r, st\<lparr>ru_Mgr := m, ru_Next := ru_Next st + Suc (length children)\<rparr>))"

text \<open>\<open>fuel\<close> is for the composition of each template, the second number for the nesting of instances.\<close>

fun instantiateTemplate ::
  "manager_env \<Rightarrow> compose_env \<Rightarrow> call_env \<Rightarrow> nat \<Rightarrow> nat \<Rightarrow> string \<Rightarrow> template \<Rightarrow> (string \<times> string) list \<Rightarrow> snapshot run" where
  "instantiateTemplate me cx ce fuel 0 wid t params st = None"
| "instantiateTemplate me cx ce fuel (Suc n) wid t params st =
     (case BuildComposition fuel (me_Sha256Hex me) wid t (resolveTemplate me cx) of
        None \<Rightarrow> None
      | Some (Inl e) \<Rightarrow> Some (Inl e, st)
      | Some (Inr (children, _)) \<Rightarrow>
          (let st1 = st\<lparr>ru_Count := Suc (ru_Count st)\<rparr> in
           if ru_Count st1 > DefaultMaximumCompositionInstances
           then Some (Inl (Errorf ''composition: template %s@%s would exceed the maximum of %d total materialized instances''
                  [tm_TemplateID t, tm_TemplateVersion t, natString DefaultMaximumCompositionInstances]), st1)
           else
             (case ensureChildren (instantiateTemplate me cx ce fuel n) me ce t params children st1 of
                None \<Rightarrow> None
              | Some (Inl e, st2) \<Rightarrow> Some (Inl e, st2)
              | Some (Inr _, st2) \<Rightarrow> Some (commitInstance me cx ce wid t params children st2))))"

record instantiate_request =
  iq_TemplateID :: string
  iq_TemplateVersion :: string
  iq_Params :: "(string \<times> string) list"

text \<open>The answer: the new workflow's id and the revision of its first snapshot.\<close>

definition WorkflowInstantiate ::
  "manager_env \<Rightarrow> compose_env \<Rightarrow> call_env \<Rightarrow> nat \<Rightarrow> instantiate_request result \<Rightarrow> mgr \<Rightarrow>
   ((string \<times> int) result \<times> inst_run) option" where
  "WorkflowInstantiate me cx ce fuel payload m =
     (let st = \<lparr>ru_Mgr = m, ru_Count = 0, ru_Next = 1\<rparr>; wid = NewWorkflowID (ce_Ids ce) 0 in
      case bindE (wrapE ''instantiate payload: '' [] payload) (\<lambda>req.
             bindE (require (iq_TemplateID req \<noteq> '''' \<and> iq_TemplateVersion req \<noteq> '''')
               (Err ''template_id and template_version are required'')) (\<lambda>_.
             bindE (require (safeComponent (iq_TemplateID req)) (Err ''invalid template id'')) (\<lambda>_.
             bindE (require (safeComponent (iq_TemplateVersion req)) (Err ''invalid template version'')) (\<lambda>_.
             bindE (me_LoadTemplate me (iq_TemplateID req) (iq_TemplateVersion req)) (\<lambda>t.
             bindE (validateInstanceParams t (iq_Params req)) (\<lambda>_. Inr (t, iq_Params req))))))) of
        Inl e \<Rightarrow> Some (Inl e, st)
      | Inr (t, params) \<Rightarrow>
          map_option (\<lambda>(r, st'). (bindE r (\<lambda>snap. Inr (wid, inst_Revision (snap_Instance snap))), st'))
            (instantiateTemplate me cx ce fuel fuel wid t params st))"

end
