(* ===== verification/Wf_Children.thy ===== *)
theory Wf_Children
  imports Wf_Composition
begin

text \<open>
  The executor of workflow actions (\<^verbatim>\<open>composition.go\<close>): attach the child, wait for its terminal
  status, resolve the parent node through the declared outcome map, and the resumption of waiting
  parents after a restart. The wait takes fuel, one unit for a poll, and returns \<open>None\<close> when it runs out.
\<close>

section \<open>Selection of outcomes and outputs\<close>

definition parentOutcomeDeclared :: "template \<Rightarrow> node_definition \<Rightarrow> string \<Rightarrow> bool" where
  "parentOutcomeDeclared parent node outcome \<longleftrightarrow>
     outcome \<in> set (nodeOutcomeNames node) \<or> outcome \<in> set (tm_TerminalOutcomes parent)"

definition resolveParentBranchTarget :: "node_definition \<Rightarrow> string \<Rightarrow> string" where
  "resolveParentBranchTarget node outcome =
     (case map_of (nd_Branches node) outcome of
        Some target \<Rightarrow> target
      | None \<Rightarrow>
          (case find (\<lambda>d. oc_Name d = outcome) (nd_Outcomes node) of
             None \<Rightarrow> ''''
           | Some d \<Rightarrow> if oc_Terminal d then '''' else oc_TargetNodeID d))"

text \<open>The map \<^verbatim>\<open>latest\<close>, built in slice order: an output replaces the one kept if its revision is greater.\<close>

definition keepLatest :: "(string \<rightharpoonup> output_value) \<Rightarrow> output_value \<Rightarrow> (string \<rightharpoonup> output_value)" where
  "keepLatest latest ov =
     (case latest (ov_DefinitionID ov) of
        None \<Rightarrow> latest(ov_DefinitionID ov \<mapsto> ov)
      | Some cur \<Rightarrow> if ov_Revision ov > ov_Revision cur then latest(ov_DefinitionID ov \<mapsto> ov) else latest)"

definition latestOutputs :: "output_value list \<Rightarrow> (string \<rightharpoonup> output_value)" where
  "latestOutputs outputs = foldl keepLatest (\<lambda>_. None) outputs"

text \<open>\<^verbatim>\<open>nodeByActivation\<close>: the last activation with an id wins; a missing one reads as the empty id.\<close>

definition nodeByActivation :: "workflow_instance \<Rightarrow> string \<Rightarrow> string" where
  "nodeByActivation inst actID = goGet (rev (map (\<lambda>a. (act_ID a, act_NodeID a)) (inst_Activations inst))) actID"

definition selectChildOutputs :: "snapshot \<Rightarrow> workflow_action \<Rightarrow> output_reference list" where
  "selectChildOutputs child wact =
     (let inst = snap_Instance child; latest = latestOutputs (inst_Outputs inst) in
      List.map_filter (\<lambda>b. map_option (\<lambda>ov.
          \<lparr>or_WorkflowID = inst_WorkflowID inst, or_NodeID = nodeByActivation inst (ov_ActivationID ov),
           or_ActivationID = ov_ActivationID ov, or_OutputID = ob_ChildOutput b, or_Revision = ov_Revision ov\<rparr>)
        (latest (ob_ChildOutput b))) (wa_OutputBindings wact))"

section \<open>Access to the parent\<close>

text \<open>The executor names a missing parent in its own words.\<close>

definition asParent :: "string \<Rightarrow> 'a op \<Rightarrow> 'a op" where
  "asParent wid f m =
     (case f m of
        (Inl e, m') \<Rightarrow>
          (Inl (if e = Errorf ''workflow not found: %s'' [wid] then Errorf ''parent workflow %s not found'' [wid] else e), m')
      | (Inr x, m') \<Rightarrow> (Inr x, m'))"

text \<open>The draws of a call from number \<open>d\<close> on: what a later operation of the same call uses.\<close>

definition shiftMint :: "nat \<Rightarrow> minted \<Rightarrow> minted" where
  "shiftMint d mi = mi\<lparr>mi_uuid := (\<lambda>k. mi_uuid mi (d + k))\<rparr>"

definition shiftCall :: "nat \<Rightarrow> call_env \<Rightarrow> call_env" where
  "shiftCall d ce = ce\<lparr>ce_Ids := shiftMint d (ce_Ids ce), ce_Commands := shiftMint d (ce_Commands ce),
     ce_Now := (\<lambda>n. ce_Now ce (d + n)), ce_Store := (\<lambda>n. ce_Store ce (d + n)),
     ce_Others := (\<lambda>n. ce_Others ce (d + n))\<rparr>"

definition childWorkflowID :: "manager_env \<Rightarrow> call_env \<Rightarrow> executor_context \<Rightarrow> string op" where
  "childWorkflowID me ce ec =
     (case ac_Workflow (ec_Action ec) of
        None \<Rightarrow> liftM (Inl (Err ''workflow executor requires a workflow action''))
      | Some wact \<Rightarrow>
          bindM (asParent (ec_WorkflowID ec) (loadExisting me ce 0 (ec_WorkflowID ec))) (\<lambda>snap.
            liftM (Inr (case findChildReference (snap_Instance snap) (ec_NodeID ec) of
                Some c \<Rightarrow> cr_WorkflowID (inst_Children (snap_Instance snap) ! c)
              | None \<Rightarrow> DeriveChildWorkflowID (me_Sha256Hex me) (ec_WorkflowID ec) (ec_NodeID ec) (wa_ChildKey wact)))))"

definition attachCommand :: "call_env \<Rightarrow> executor_context \<Rightarrow> nat \<Rightarrow> snapshot \<Rightarrow> command" where
  "attachCommand ce ec k snap =
     zeroCommand\<lparr>cmd_ID := NewCommandID (ce_Commands ce) k, cmd_Kind := CommandChildAttach,
       cmd_ExpectedRevision := inst_Revision (snap_Instance snap),
       cmd_IdempotencyKey := ''child-attach-'' @ ec_AttemptID ec,
       cmd_Identity := zeroIdentity\<lparr>id_WorkflowID := ec_WorkflowID ec, id_NodeID := ec_NodeID ec,
         id_ActivationID := ec_ActivationID ec, id_AttemptID := ec_AttemptID ec\<rparr>,
       cmd_LeaseID := ec_LeaseID ec\<rparr>"

definition attachChild :: "manager_env \<Rightarrow> call_env \<Rightarrow> executor_context \<Rightarrow> unit op" where
  "attachChild me ce ec =
     asParent (ec_WorkflowID ec)
       (retryCommand me ce (ec_WorkflowID ec) 1
         (\<lambda>k snap. Inr (Inr (attachCommand ce ec k snap))) (\<lambda>_ _. ()) (liftM (Inr ()))
         (Errorf ''attach child for node %s: revision kept moving under concurrent commands'' [ec_NodeID ec]))"

section \<open>Resolution of the parent node\<close>

definition childOutcomeCommand ::
  "call_env \<Rightarrow> executor_context \<Rightarrow> string \<Rightarrow> output_reference list \<Rightarrow> raw \<Rightarrow> nat \<Rightarrow> snapshot \<Rightarrow> command" where
  "childOutcomeCommand ce ec outcome outputs payload k snap =
     zeroCommand\<lparr>cmd_ID := NewCommandID (ce_Commands ce) k, cmd_Kind := CommandChildOutcome,
       cmd_ExpectedRevision := inst_Revision (snap_Instance snap),
       cmd_IdempotencyKey := ''child-outcome-'' @ ec_AttemptID ec,
       cmd_Identity := zeroIdentity\<lparr>id_WorkflowID := ec_WorkflowID ec, id_NodeID := ec_NodeID ec,
         id_ActivationID := ec_ActivationID ec, id_AttemptID := ec_AttemptID ec\<rparr>,
       cmd_LeaseID := ec_LeaseID ec, cmd_Outcome := outcome, cmd_ChildOutputs := outputs,
       cmd_Payload := payload\<rparr>"

text \<open>
  One attempt: an activation that is already satisfied needs no command, but the end of its attempt
  is still recorded (the answer \<open>True\<close> asks for that).
\<close>

definition resolvePlan ::
  "call_env \<Rightarrow> executor_context \<Rightarrow> string \<Rightarrow> output_reference list \<Rightarrow> raw \<Rightarrow> nat \<Rightarrow> snapshot \<Rightarrow> (bool + command) result" where
  "resolvePlan ce ec outcome outputs payload k snap =
     bindE (findActivation (snap_Instance snap) (ec_NodeID ec) (ec_ActivationID ec)) (\<lambda>a.
       let cmd = childOutcomeCommand ce ec outcome outputs payload k snap in
       case a of
         None \<Rightarrow> Inr (Inr cmd)
       | Some i \<Rightarrow>
           if act_Status (acts snap ! i) = ActivationAwaitingChild then Inr (Inr cmd)
           else if act_Status (acts snap ! i) = ActivationSatisfied then Inr (Inl True)
           else Inl (Errorf ''cannot resolve child outcome: activation for node %s is in status %q''
                  [ec_NodeID ec, activationStatusString (act_Status (acts snap ! i))]))"

definition branchPayload :: "manager_env \<Rightarrow> call_env \<Rightarrow> executor_context \<Rightarrow> node_definition \<Rightarrow> string \<Rightarrow> raw" where
  "branchPayload me ce ec node outcome =
     (let target = resolveParentBranchTarget node outcome in
      if target = '''' then ''''
      else me_EncTransition me \<lparr>tr_ActivationID = ec_ActivationID ec, tr_Outcome = outcome, tr_TargetNodeID = target,
             tr_CreatedAt = ce_Now ce 0\<rparr>)"

definition resolveChildOutcome ::
  "manager_env \<Rightarrow> call_env \<Rightarrow> executor_context \<Rightarrow> string \<Rightarrow> snapshot \<Rightarrow> unit op" where
  "resolveChildOutcome me ce ec childID childSnap =
     (case ac_Workflow (ec_Action ec) of
        None \<Rightarrow> liftM (Inl (Err ''nil workflow action''))
      | Some wact \<Rightarrow>
          (let wid = ec_WorkflowID ec;
               childOutcome = inst_TerminalOutcome (snap_Instance childSnap);
               parentOutcome = goGet (wa_OutcomeMap wact) childOutcome in
           bindM (liftM (require (parentOutcome \<noteq> '''')
             (Errorf ''workflow executor: child %s terminal outcome %q is not mapped by node %s's outcome_map''
                [childID, childOutcome, ec_NodeID ec]))) (\<lambda>_.
           bindM (asParent wid (loadExisting me ce 0 wid)) (\<lambda>snap.
           bindM (liftM (templateFor me snap)) (\<lambda>tmpl.
           bindM (liftM (findNode tmpl (ec_NodeID ec))) (\<lambda>node.
           bindM (liftM (require (parentOutcomeDeclared tmpl node parentOutcome)
             (Errorf ''workflow executor: mapped parent outcome %q is not declared by node %s or template %s''
                [parentOutcome, ec_NodeID ec, tm_TemplateID tmpl]))) (\<lambda>_.
           bindM (asParent wid (retryCommand me ce wid 1
               (resolvePlan ce ec parentOutcome (selectChildOutputs childSnap wact) (branchPayload me ce ec node parentOutcome))
               (\<lambda>_ _. True) (liftM (Inr False))
               (Errorf ''resolve child outcome for node %s: revision kept moving under concurrent commands'' [ec_NodeID ec])))
             (\<lambda>ended m.
               if ended
               then (Inr (), snd (RecordAttemptTerminated me (shiftCall 9 ce) wid (ec_NodeID ec) (ec_ActivationID ec)
                                    (ec_AttemptID ec) (ec_LeaseID ec) AttemptSucceeded [] m))
               else (Inr (), m)))))))))"

section \<open>The wait\<close>

definition defaultChildWait :: int where
  "defaultChildWait = 30 * 60 * 1000000000"

definition defaultChildPollInterval :: int where
  "defaultChildPollInterval = 100 * 1000000"

definition maxChildPollInterval :: int where
  "maxChildPollInterval = 1000000000"

definition nextDelay :: "int \<Rightarrow> int" where
  "nextDelay delay = (if delay < maxChildPollInterval then min (2 * delay) maxChildPollInterval else delay)"

record workflow_executor =
  we_PollInterval :: int
  we_MaxWait :: int

definition pollInterval :: "workflow_executor \<Rightarrow> int" where
  "pollInterval we = (if we_PollInterval we \<le> 0 then defaultChildPollInterval else we_PollInterval we)"

definition childMaxWait :: "workflow_executor \<Rightarrow> int" where
  "childMaxWait we = (if we_MaxWait we \<le> 0 then defaultChildWait else we_MaxWait we)"

definition parentLeftAwaitingChild :: "manager_env \<Rightarrow> call_env \<Rightarrow> nat \<Rightarrow> executor_context \<Rightarrow> mgr \<Rightarrow> bool \<times> mgr" where
  "parentLeftAwaitingChild me ce n ec m =
     (case readCurrent me ce n (ec_WorkflowID ec) m of
        (Inr (snap, True), m') \<Rightarrow>
          (case findActivation (snap_Instance snap) (ec_NodeID ec) (ec_ActivationID ec) of
             Inr (Some i) \<Rightarrow> (act_Status (acts snap ! i) \<noteq> ActivationAwaitingChild, m')
           | _ \<Rightarrow> (True, m'))
      | (_, m') \<Rightarrow> (True, m'))"

text \<open>
  Poll \<open>i\<close> reads the child and the parent (accesses \<open>2 * i\<close> and \<open>2 * i + 1\<close>), then the clock. The
  sleep of length \<open>delay\<close> ends with the time or with the error of the context, \<open>cancelled i\<close>. The
  answer comes with the number of polls, from which the later accesses are counted.
\<close>

fun awaitFrom ::
  "manager_env \<Rightarrow> call_env \<Rightarrow> (nat \<Rightarrow> error option) \<Rightarrow> executor_context \<Rightarrow> string \<Rightarrow> gotime \<Rightarrow>
   nat \<Rightarrow> nat \<Rightarrow> int \<Rightarrow> mgr \<Rightarrow> ((snapshot \<times> nat) result \<times> mgr) option" where
  "awaitFrom me ce cancelled ec childID deadline 0 i delay m = None"
| "awaitFrom me ce cancelled ec childID deadline (Suc fuel) i delay m =
     (case readCurrent me ce (2 * i) childID m of
        (Inl e, m1) \<Rightarrow> Some (Inl e, m1)
      | (Inr (_, False), m1) \<Rightarrow> Some (Inl (Errorf ''child workflow %s not found'' [childID]), m1)
      | (Inr (childSnap, True), m1) \<Rightarrow>
          if isTerminalStatus (inst_Status (snap_Instance childSnap)) then Some (Inr (childSnap, Suc i), m1)
          else (case parentLeftAwaitingChild me ce (2 * i + 1) ec m1 of (left, m2) \<Rightarrow>
            if left then Some (Inr (childSnap, Suc i), m2)
            else if After (ce_Now ce (Suc i)) deadline
            then Some (Inl (Errorf ''child workflow %s not terminal after %s; parent remains awaiting_child for resume''
                   [childID, ''the bound'']), m2)
            else case cancelled i of
              Some e \<Rightarrow> Some (Inl e, m2)
            | None \<Rightarrow> awaitFrom me ce cancelled ec childID deadline fuel (Suc i) (nextDelay delay) m2))"

definition awaitChildTerminal ::
  "manager_env \<Rightarrow> call_env \<Rightarrow> (nat \<Rightarrow> error option) \<Rightarrow> workflow_executor \<Rightarrow> executor_context \<Rightarrow> string \<Rightarrow>
   nat \<Rightarrow> mgr \<Rightarrow> ((snapshot \<times> nat) result \<times> mgr) option" where
  "awaitChildTerminal me ce cancelled we ec childID fuel m =
     awaitFrom me ce cancelled ec childID (ce_Now ce 0 + childMaxWait we) fuel 0 (pollInterval we) m"

text \<open>The executor: attach (accesses 0 to 8), wait (from 9 on), resolve.\<close>

definition DispatchWorkflow ::
  "manager_env \<Rightarrow> call_env \<Rightarrow> (nat \<Rightarrow> error option) \<Rightarrow> workflow_executor \<Rightarrow> executor_context \<Rightarrow>
   nat \<Rightarrow> mgr \<Rightarrow> (unit result \<times> mgr) option" where
  "DispatchWorkflow me ce cancelled we ec fuel m =
     (case bindM (childWorkflowID me ce ec) (\<lambda>childID. bindM (attachChild me ce ec) (\<lambda>_. liftM (Inr childID))) m of
        (Inl e, m1) \<Rightarrow> Some (Inl e, m1)
      | (Inr childID, m1) \<Rightarrow>
          (case awaitChildTerminal me (shiftCall 9 ce) cancelled we ec childID fuel m1 of
             None \<Rightarrow> None
           | Some (Inl e, m2) \<Rightarrow> Some (Inl e, m2)
           | Some (Inr (childSnap, polls), m2) \<Rightarrow>
               if isTerminalStatus (inst_Status (snap_Instance childSnap))
               then Some (resolveChildOutcome me (shiftCall (9 + 2 * polls) ce) ec childID childSnap m2)
               else Some (Inr (), m2)))"

section \<open>Resumption after a restart\<close>

record resume_summary =
  rs_Resolved :: nat
  rs_StillAwaiting :: nat
  rs_Errors :: "(string \<times> string \<times> error) list"

definition resumeContext :: "call_env \<Rightarrow> snapshot \<Rightarrow> activation \<Rightarrow> node_definition \<Rightarrow> executor_context" where
  "resumeContext ce parent a node =
     \<lparr>ec_WorkflowID = inst_WorkflowID (snap_Instance parent), ec_NodeID = act_NodeID a, ec_ActivationID = act_ID a,
      ec_AttemptID = (if act_AttemptIDs a = [] then NewAttemptID (ce_Ids ce) 0 else last (act_AttemptIDs a)),
      ec_LeaseID = (case act_ActiveLease a of None \<Rightarrow> '''' | Some l \<Rightarrow> ls_ID l), ec_OwnerToken = '''', ec_LeaseTTL = 0,
      ec_Action = nd_Action node, ec_Selection = None, ec_WorkingDirectory = '''', ec_LaunchWrapper = []\<rparr>"

definition resumeAwaitingChild ::
  "manager_env \<Rightarrow> call_env \<Rightarrow> snapshot \<Rightarrow> activation \<Rightarrow> child_reference \<Rightarrow> bool op" where
  "resumeAwaitingChild me ce parent a ref =
     bindM (readCurrent me ce 0 (cr_WorkflowID ref)) (\<lambda>(childSnap, exists).
       if \<not> exists \<or> \<not> isTerminalStatus (inst_Status (snap_Instance childSnap)) then liftM (Inr False)
       else
         bindM (liftM (templateFor me parent)) (\<lambda>tmpl.
         bindM (liftM (findNode tmpl (act_NodeID a))) (\<lambda>node.
         bindM (liftM (require (ac_Workflow (nd_Action node) \<noteq> None)
           (Errorf ''node %s has no workflow action to resume'' [act_NodeID a]))) (\<lambda>_.
         bindM (resolveChildOutcome me (shiftCall 1 ce) (resumeContext ce parent a node) (cr_WorkflowID ref) childSnap) (\<lambda>_.
         bindM (readCurrent me ce 18 (inst_WorkflowID (snap_Instance parent))) (\<lambda>(fresh, still).
         bindM (liftM (require still
           (Errorf ''parent workflow %s vanished after resume'' [inst_WorkflowID (snap_Instance parent)]))) (\<lambda>_.
         bindM (liftM (findActivation (snap_Instance fresh) (act_NodeID a) (act_ID a))) (\<lambda>f.
           case f of
             None \<Rightarrow> liftM (Inl (Errorf ''activation %s not found after resume'' [act_ID a]))
           | Some i \<Rightarrow> liftM (Inr (act_Status (acts fresh ! i) \<noteq> ActivationAwaitingChild))))))))))"

definition resumeActivation ::
  "manager_env \<Rightarrow> call_env \<Rightarrow> snapshot \<Rightarrow> resume_summary \<times> nat \<times> mgr \<Rightarrow> activation \<Rightarrow> resume_summary \<times> nat \<times> mgr" where
  "resumeActivation me ce snap acc a =
     (case acc of (summary, n, m) \<Rightarrow>
      if act_Status a \<noteq> ActivationAwaitingChild then acc
      else case findChildReference (snap_Instance snap) (act_NodeID a) of
        None \<Rightarrow> (summary\<lparr>rs_StillAwaiting := Suc (rs_StillAwaiting summary)\<rparr>, n, m)
      | Some c \<Rightarrow>
          (case resumeAwaitingChild me (shiftCall n ce) snap a (inst_Children (snap_Instance snap) ! c) m of
             (Inl e, m') \<Rightarrow>
               (summary\<lparr>rs_Errors := rs_Errors summary @ [(inst_WorkflowID (snap_Instance snap), act_NodeID a, e)],
                        rs_StillAwaiting := Suc (rs_StillAwaiting summary)\<rparr>, n + 19, m')
           | (Inr True, m') \<Rightarrow> (summary\<lparr>rs_Resolved := Suc (rs_Resolved summary)\<rparr>, n + 19, m')
           | (Inr False, m') \<Rightarrow> (summary\<lparr>rs_StillAwaiting := Suc (rs_StillAwaiting summary)\<rparr>, n + 19, m')))"

text \<open>\<open>catalog\<close> is what \<^verbatim>\<open>Store.Catalog\<close> listed; each activation of it uses 19 accesses.\<close>

definition ResumeAwaitingChildren ::
  "manager_env \<Rightarrow> call_env \<Rightarrow> snapshot list \<Rightarrow> mgr \<Rightarrow> resume_summary \<times> mgr" where
  "ResumeAwaitingChildren me ce catalog m =
     (case foldl (\<lambda>acc snap. foldl (resumeActivation me ce snap) acc (acts snap))
             (\<lparr>rs_Resolved = 0, rs_StillAwaiting = 0, rs_Errors = []\<rparr>, 0, m) catalog of
        (summary, _, m') \<Rightarrow> (summary, m'))"

end
