(* ===== verification/Wf_CompositionSafety.thy ===== *)
theory Wf_CompositionSafety
  imports Wf_Composition Wf_Delivery
begin

text \<open>
  What composition guarantees. The specification is a tree of templates: every node's pinned children
  resolve, bind and introduce no template of the path to the root, and the limits hold everywhere. The
  recursive validation accepts exactly the templates that have such a tree, it always returns, and the
  instantiation that walks the same tree stays within the instance cap.
\<close>

section \<open>Composition trees\<close>

datatype ctree = Composed (ct_Template: template) (ct_Children: "ctree list")

fun ctHeight :: "ctree \<Rightarrow> nat" where
  "ctHeight (Composed t subs) = foldr (\<lambda>s h. max (Suc (ctHeight s)) h) subs 0"

fun ctSize :: "ctree \<Rightarrow> nat" where
  "ctSize (Composed t subs) = Suc (sum_list (map ctSize subs))"

text \<open>The child template that a workflow-action node pins, seen from the path \<open>anc\<close> of template ids above it.\<close>

definition pinnedChild :: "resolver \<Rightarrow> template \<Rightarrow> string list \<Rightarrow> node_definition \<Rightarrow> template \<Rightarrow> bool" where
  "pinnedChild resolve t anc node child \<longleftrightarrow>
     (\<exists>wact. ac_Workflow (nd_Action node) = Some wact \<and>
        resolve (wa_TemplateID wact) (wa_TemplateVersion wact) = Inr child \<and>
        tm_TemplateID child \<notin> set anc \<and> validateCompositionBindings node wact t child = Inr ())"

fun wellComposed :: "resolver \<Rightarrow> string list \<Rightarrow> ctree \<Rightarrow> bool" where
  "wellComposed resolve anc (Composed t subs) \<longleftrightarrow>
     int (length (workflowActionNodes t)) \<le> cl_MaximumChildren (effectiveCompositionLimits t) \<and>
     list_all2 (\<lambda>node s. pinnedChild resolve t anc node (ct_Template s)) (workflowActionNodes t) subs \<and>
     list_all (\<lambda>s. int (Suc (ctHeight s)) \<le> cl_MaximumDepth (effectiveCompositionLimits t)) subs \<and>
     ctSize (Composed t subs) \<le> DefaultMaximumCompositionInstances \<and>
     list_all (\<lambda>s. wellComposed resolve (anc @ [tm_TemplateID (ct_Template s)]) s) subs"

definition manifest :: "(string \<Rightarrow> string) \<Rightarrow> string \<Rightarrow> ctree \<Rightarrow> composition_child list" where
  "manifest sha parent tree =
     map (\<lambda>(node, s). \<lparr>cc_NodeID = nd_ID node,
            cc_ChildWorkflowID = DeriveChildWorkflowID sha parent (nd_ID node) (childKeyOf node),
            cc_Template = ct_Template s\<rparr>)
       (zip (workflowActionNodes (ct_Template tree)) (ct_Children tree))"

lemma ctSize_pos: "0 < ctSize s"
  by (cases s) simp

lemma composeChild_ok: "composeChild resolve t anc node = Inr child \<longleftrightarrow> pinnedChild resolve t anc node child"
  by (auto simp: composeChild_def pinnedChild_def indexTemplateID_def findIdx_None_iff bindE_eq_Inr_iff wrapE_ok
      split: option.splits dest: findIdx_holds findIdx_less)

lemma foldr_max: "foldr (\<lambda>s h. max (f s) h) xs (a :: nat) = max a (foldr (\<lambda>s h. max (f s) h) xs 0)"
  by (induction xs) auto

section \<open>The validation returns the tree\<close>

lemma composeNodes_sound:
  assumes "composeNodes (composeTemplate n sha resolve) sha resolve parent t anc nodes d i cs = Some (Inr (d', i', cs'))"
    and sub: "\<forall>wid c chain d i cs. composeTemplate n sha resolve wid c chain = Some (Inr (d, i, cs)) \<longrightarrow>
      (\<exists>tree. wellComposed resolve chain tree \<and> ct_Template tree = c \<and> ctHeight tree = d \<and> ctSize tree = i \<and> d < n)"
  shows "\<exists>subs. list_all2 (\<lambda>node s. pinnedChild resolve t anc node (ct_Template s)) nodes subs \<and>
    list_all (\<lambda>s. int (Suc (ctHeight s)) \<le> cl_MaximumDepth (effectiveCompositionLimits t)) subs \<and>
    list_all (\<lambda>s. wellComposed resolve (anc @ [tm_TemplateID (ct_Template s)]) s) subs \<and>
    list_all (\<lambda>s. ctHeight s < n) subs \<and>
    d' = max d (foldr (\<lambda>s h. max (Suc (ctHeight s)) h) subs 0) \<and> i' = i + sum_list (map ctSize subs) \<and>
    (i' \<le> DefaultMaximumCompositionInstances \<or> i' = i) \<and>
    cs' = cs @ map (\<lambda>(node, s). \<lparr>cc_NodeID = nd_ID node,
      cc_ChildWorkflowID = DeriveChildWorkflowID sha parent (nd_ID node) (childKeyOf node),
      cc_Template = ct_Template s\<rparr>) (zip nodes subs)"
  using assms(1)
proof (induction nodes arbitrary: d i cs)
  case Nil
  then show ?case by auto
next
  case (Cons node nodes)
  obtain child where pc: "composeChild resolve t anc node = Inr child" and pin: "pinnedChild resolve t anc node child"
    using Cons.prems by (cases "composeChild resolve t anc node") (auto simp: composeChild_ok)
  let ?id = "DeriveChildWorkflowID sha parent (nd_ID node) (childKeyOf node)"
  obtain cd ci x where rec: "composeTemplate n sha resolve ?id child (anc @ [tm_TemplateID child]) = Some (Inr (cd, ci, x))"
    and lim: "i + ci \<le> DefaultMaximumCompositionInstances" "int (Suc cd) \<le> cl_MaximumDepth (effectiveCompositionLimits t)"
    and rest: "composeNodes (composeTemplate n sha resolve) sha resolve parent t anc nodes (max d (Suc cd)) (i + ci)
      (cs @ [\<lparr>cc_NodeID = nd_ID node, cc_ChildWorkflowID = ?id, cc_Template = child\<rparr>]) = Some (Inr (d', i', cs'))"
    using Cons.prems pc by (auto simp: Let_def split: option.splits sum.splits if_splits)
  obtain s where s: "wellComposed resolve (anc @ [tm_TemplateID child]) s" "ct_Template s = child"
      "ctHeight s = cd" "ctSize s = ci" "cd < n" using sub rec by blast
  from Cons.IH[OF rest] obtain subs where "list_all2 (\<lambda>node s. pinnedChild resolve t anc node (ct_Template s)) nodes subs"
    "list_all (\<lambda>s. int (Suc (ctHeight s)) \<le> cl_MaximumDepth (effectiveCompositionLimits t)) subs"
    "list_all (\<lambda>s. wellComposed resolve (anc @ [tm_TemplateID (ct_Template s)]) s) subs"
    "list_all (\<lambda>s. ctHeight s < n) subs"
    "d' = max (max d (Suc cd)) (foldr (\<lambda>s h. max (Suc (ctHeight s)) h) subs 0)"
    "i' = i + ci + sum_list (map ctSize subs)" "i' \<le> DefaultMaximumCompositionInstances \<or> i' = i + ci"
    "cs' = (cs @ [\<lparr>cc_NodeID = nd_ID node, cc_ChildWorkflowID = ?id, cc_Template = child\<rparr>]) @
      map (\<lambda>(node, s). \<lparr>cc_NodeID = nd_ID node,
        cc_ChildWorkflowID = DeriveChildWorkflowID sha parent (nd_ID node) (childKeyOf node),
        cc_Template = ct_Template s\<rparr>) (zip nodes subs)"
    by blast
  moreover from this lim(1) have "i' \<le> DefaultMaximumCompositionInstances" by linarith
  ultimately show ?case using s pin lim
    by (intro exI[of _ "s # subs"]) (simp add: max.assoc)
qed

lemma composeTemplate_sound:
  "composeTemplate n sha resolve parent t anc = Some (Inr (d, i, cs)) \<Longrightarrow>
   \<exists>tree. wellComposed resolve anc tree \<and> ct_Template tree = t \<and> ctHeight tree = d \<and> ctSize tree = i \<and> d < n \<and>
     cs = manifest sha parent tree"
proof (induction n arbitrary: parent t anc d i cs)
  case (Suc n)
  have lim: "int (length (workflowActionNodes t)) \<le> cl_MaximumChildren (effectiveCompositionLimits t)"
    and run: "composeNodes (composeTemplate n sha resolve) sha resolve parent t anc (workflowActionNodes t) 0 1 [] =
      Some (Inr (d, i, cs))"
    using Suc.prems by (auto simp: Let_def split: if_splits)
  have "\<forall>wid c chain d i cs. composeTemplate n sha resolve wid c chain = Some (Inr (d, i, cs)) \<longrightarrow>
      (\<exists>tree. wellComposed resolve chain tree \<and> ct_Template tree = c \<and> ctHeight tree = d \<and> ctSize tree = i \<and> d < n)"
    using Suc.IH by blast
  from composeNodes_sound[OF run this] obtain subs where subs:
    "list_all2 (\<lambda>node s. pinnedChild resolve t anc node (ct_Template s)) (workflowActionNodes t) subs"
    "list_all (\<lambda>s. int (Suc (ctHeight s)) \<le> cl_MaximumDepth (effectiveCompositionLimits t)) subs"
    "list_all (\<lambda>s. wellComposed resolve (anc @ [tm_TemplateID (ct_Template s)]) s) subs"
    "list_all (\<lambda>s. ctHeight s < n) subs"
    "d = foldr (\<lambda>s h. max (Suc (ctHeight s)) h) subs 0" "i = 1 + sum_list (map ctSize subs)"
    "i \<le> DefaultMaximumCompositionInstances \<or> i = 1"
    "cs = manifest sha parent (Composed t subs)"
    by (auto simp: manifest_def)
  have "foldr (\<lambda>s h. max (Suc (ctHeight s)) h) subs 0 < Suc n"
    using subs(4) by (induction subs) auto
  moreover have "i \<le> DefaultMaximumCompositionInstances"
    using subs(7) by (auto simp: DefaultMaximumCompositionInstances_def)
  ultimately show ?case using subs lim by (intro exI[of _ "Composed t subs"]) simp
qed simp

section \<open>Every tree is accepted\<close>

lemma composeNodes_complete:
  assumes "list_all2 (\<lambda>node s. pinnedChild resolve t anc node (ct_Template s)) nodes subs"
    and "list_all (\<lambda>s. int (Suc (ctHeight s)) \<le> cl_MaximumDepth (effectiveCompositionLimits t)) subs"
    and "list_all (\<lambda>s. wellComposed resolve (anc @ [tm_TemplateID (ct_Template s)]) s) subs"
    and "list_all (\<lambda>s. ctHeight s < n) subs"
    and "i + sum_list (map ctSize subs) \<le> DefaultMaximumCompositionInstances"
    and "\<forall>wid s chain. wellComposed resolve chain s \<longrightarrow> ctHeight s < n \<longrightarrow>
      composeTemplate n sha resolve wid (ct_Template s) chain = Some (Inr (ctHeight s, ctSize s, manifest sha wid s))"
  shows "composeNodes (composeTemplate n sha resolve) sha resolve parent t anc nodes d i cs =
    Some (Inr (max d (foldr (\<lambda>s h. max (Suc (ctHeight s)) h) subs 0), i + sum_list (map ctSize subs),
      cs @ map (\<lambda>(node, s). \<lparr>cc_NodeID = nd_ID node,
        cc_ChildWorkflowID = DeriveChildWorkflowID sha parent (nd_ID node) (childKeyOf node),
        cc_Template = ct_Template s\<rparr>) (zip nodes subs)))"
  using assms(1-5)
proof (induction nodes subs arbitrary: d i cs rule: list_all2_induct)
  case (Cons node nodes s subs)
  have pc: "composeChild resolve t anc node = Inr (ct_Template s)" using Cons by (simp add: composeChild_ok)
  have rec: "composeTemplate n sha resolve wid (ct_Template s) (anc @ [tm_TemplateID (ct_Template s)]) =
      Some (Inr (ctHeight s, ctSize s, manifest sha wid s))" for wid
    using assms(6) Cons.prems by simp
  have lim: "i + ctSize s \<le> DefaultMaximumCompositionInstances" using Cons.prems by simp
  show ?case using Cons.IH[of "i + ctSize s"] Cons.prems pc rec lim
    by (simp add: Let_def max.assoc add.assoc)
qed simp

lemma height_below:
  "foldr (\<lambda>s h. max (Suc (ctHeight s)) h) subs 0 < Suc n \<longleftrightarrow> list_all (\<lambda>s. ctHeight s < n) subs"
  by (induction subs) auto

lemma composeTemplate_complete:
  "wellComposed resolve anc tree \<Longrightarrow> ctHeight tree < n \<Longrightarrow>
   composeTemplate n sha resolve parent (ct_Template tree) anc =
     Some (Inr (ctHeight tree, ctSize tree, manifest sha parent tree))"
proof (induction n arbitrary: tree anc parent)
  case (Suc n)
  obtain t subs where tree: "tree = Composed t subs" by (cases tree)
  have ih: "\<forall>wid s chain. wellComposed resolve chain s \<longrightarrow> ctHeight s < n \<longrightarrow>
      composeTemplate n sha resolve wid (ct_Template s) chain = Some (Inr (ctHeight s, ctSize s, manifest sha wid s))"
    using Suc.IH by blast
  have low: "list_all (\<lambda>s. ctHeight s < n) subs"
    using Suc.prems(2) height_below[of subs n] by (simp add: tree)
  have "composeNodes (composeTemplate n sha resolve) sha resolve parent t anc (workflowActionNodes t) 0 1 [] =
      Some (Inr (max 0 (foldr (\<lambda>s h. max (Suc (ctHeight s)) h) subs 0), 1 + sum_list (map ctSize subs),
        [] @ map (\<lambda>(node, s). \<lparr>cc_NodeID = nd_ID node,
          cc_ChildWorkflowID = DeriveChildWorkflowID sha parent (nd_ID node) (childKeyOf node),
          cc_Template = ct_Template s\<rparr>) (zip (workflowActionNodes t) subs)))"
    by (rule composeNodes_complete[OF _ _ _ low _ ih]) (use Suc.prems(1) in \<open>simp_all add: tree\<close>)
  then show ?case using Suc.prems(1) by (simp add: tree manifest_def)
qed simp


section \<open>The validation returns\<close>

lemma composeNodes_mono:
  assumes "\<forall>wid c chain r. f wid c chain = Some r \<longrightarrow> g wid c chain = Some r"
    and "composeNodes f sha resolve parent t anc nodes d i cs = Some r"
  shows "composeNodes g sha resolve parent t anc nodes d i cs = Some r"
  using assms(2)
proof (induction nodes arbitrary: d i cs)
  case (Cons node nodes)
  show ?case
  proof (cases "composeChild resolve t anc node")
    case (Inr child)
    let ?id = "DeriveChildWorkflowID sha parent (nd_ID node) (childKeyOf node)"
    obtain q where q: "f ?id child (anc @ [tm_TemplateID child]) = Some q"
      using Cons.prems Inr by (auto simp: Let_def split: option.splits)
    then have "g ?id child (anc @ [tm_TemplateID child]) = Some q" using assms(1) by blast
    then show ?thesis using Cons Inr q by (auto simp: Let_def split: sum.splits if_splits)
  qed (use Cons.prems in simp)
qed simp

lemma composeTemplate_mono:
  "composeTemplate n sha resolve parent t anc = Some r \<Longrightarrow> composeTemplate (n + k) sha resolve parent t anc = Some r"
proof (induction n arbitrary: parent t anc r)
  case (Suc n)
  have "\<forall>wid c chain r. composeTemplate n sha resolve wid c chain = Some r \<longrightarrow>
      composeTemplate (n + k) sha resolve wid c chain = Some r" using Suc.IH by blast
  from composeNodes_mono[OF this] show ?case using Suc.prems by (auto simp: Let_def split: if_splits)
qed simp

lemma composeNodes_returns:
  assumes "\<forall>wid child. tm_TemplateID child \<notin> set anc \<longrightarrow> (\<exists>tid v. resolve tid v = Inr child) \<longrightarrow>
    descend wid child (anc @ [tm_TemplateID child]) \<noteq> None"
  shows "composeNodes descend sha resolve parent t anc nodes d i cs \<noteq> None"
proof (induction nodes arbitrary: d i cs)
  case (Cons node nodes)
  show ?case
  proof (cases "composeChild resolve t anc node")
    case (Inr child)
    then have "descend wid child (anc @ [tm_TemplateID child]) \<noteq> None" for wid
      using assms unfolding composeChild_ok pinnedChild_def by blast
    then show ?thesis using Cons Inr by (auto simp: Let_def split: option.split sum.split prod.split)
  qed simp
qed simp

lemma composeTemplate_returns:
  assumes "finite S" and "\<forall>tid v child. resolve tid v = Inr child \<longrightarrow> tm_TemplateID child \<in> S"
  shows "card (S - set anc) < n \<Longrightarrow> composeTemplate n sha resolve parent t anc \<noteq> None"
proof (induction n arbitrary: parent t anc)
  case (Suc n)
  have "composeTemplate n sha resolve wid child (anc @ [tm_TemplateID child]) \<noteq> None"
    if "tm_TemplateID child \<notin> set anc" "\<exists>tid v. resolve tid v = Inr child" for wid child
  proof (rule Suc.IH)
    have "tm_TemplateID child \<in> S - set anc" using that assms(2) by blast
    then have "S - set (anc @ [tm_TemplateID child]) \<subset> S - set anc" by auto
    then have "card (S - set (anc @ [tm_TemplateID child])) < card (S - set anc)"
      using assms(1) by (intro psubset_card_mono) auto
    then show "card (S - set (anc @ [tm_TemplateID child])) < n" using Suc.prems by simp
  qed
  then show ?case using composeNodes_returns[of anc resolve "composeTemplate n sha resolve"] by (auto simp: Let_def)
qed simp

text \<open>
  Composition terminates. The depth limit is only checked on the way back, so what bounds the
  recursion is the refusal to repeat a template on a path: when the resolver knows finitely many
  template ids, the validation returns, and its answer does not depend on the fuel.
\<close>

theorem composition_terminates:
  assumes "finite S" and "\<forall>tid v child. resolve tid v = Inr child \<longrightarrow> tm_TemplateID child \<in> S"
  shows "\<exists>r. \<forall>k. BuildComposition (Suc (card S) + k) sha parent t resolve = Some r"
proof -
  have "card (S - set [tm_TemplateID t]) < Suc (card S)"
    using assms(1) by (simp add: card_mono le_imp_less_Suc)
  then obtain r where "composeTemplate (Suc (card S)) sha resolve parent t [tm_TemplateID t] = Some r"
    using composeTemplate_returns[OF assms] by blast
  then have "composeTemplate (Suc (card S) + k) sha resolve parent t [tm_TemplateID t] = Some r" for k
    by (rule composeTemplate_mono)
  then show ?thesis by (auto simp: BuildComposition_def)
qed

section \<open>Instantiation stays within the cap\<close>

text \<open>A tree under a path is a tree under any part of that path.\<close>

lemma pinnedChild_mono: "pinnedChild resolve t anc node child \<Longrightarrow> set anc' \<subseteq> set anc \<Longrightarrow> pinnedChild resolve t anc' node child"
  by (auto simp: pinnedChild_def)

lemma wellComposed_mono: "wellComposed resolve anc tree \<Longrightarrow> set anc' \<subseteq> set anc \<Longrightarrow> wellComposed resolve anc' tree"
proof (induction tree arbitrary: anc anc')
  case (Composed t subs)
  have "list_all2 (\<lambda>node s. pinnedChild resolve t anc' node (ct_Template s)) (workflowActionNodes t) subs"
    using Composed.prems by (auto elim!: list_all2_mono intro: pinnedChild_mono)
  moreover have "wellComposed resolve (anc' @ [tm_TemplateID (ct_Template s)]) s" if "s \<in> set subs" for s
    by (rule Composed.IH[OF that, of "anc @ [tm_TemplateID (ct_Template s)]"])
      (use Composed.prems that in \<open>auto simp: list_all_iff\<close>)
  ultimately show ?case using Composed.prems(1) by (simp add: list_all_iff)
qed

lemma build_complete:
  "wellComposed resolve [tm_TemplateID (ct_Template tree)] tree \<Longrightarrow> ctHeight tree < fuel \<Longrightarrow>
   BuildComposition fuel sha parent (ct_Template tree) resolve = Some (Inr (manifest sha parent tree, ctSize tree))"
  by (simp add: BuildComposition_def composeTemplate_complete)

lemma manifest_templates:
  assumes "wellComposed resolve anc tree"
  shows "list_all2 (\<lambda>c s. cc_Template c = ct_Template s) (manifest sha parent tree) (ct_Children tree)"
proof -
  have "length (workflowActionNodes (ct_Template tree)) = length (ct_Children tree)"
    using assms by (cases tree) (auto dest: list_all2_lengthD)
  then show ?thesis unfolding manifest_def by (simp add: list_all2_conv_all_nth)
qed

lemma ensureChildren_count:
  assumes "list_all2 (\<lambda>c s. cc_Template c = ct_Template s) children subs"
    and "list_all (\<lambda>s. \<forall>wid params st. ru_Count st + ctSize s \<le> DefaultMaximumCompositionInstances \<longrightarrow>
      (\<exists>r st'. inst wid (ct_Template s) params st = Some (r, st') \<and> ru_Count st' \<le> ru_Count st + ctSize s)) subs"
    and "ru_Count st + sum_list (map ctSize subs) \<le> DefaultMaximumCompositionInstances"
  shows "\<exists>r st'. ensureChildren inst me ce t params children st = Some (r, st') \<and>
    ru_Count st' \<le> ru_Count st + sum_list (map ctSize subs)"
  using assms
proof (induction children subs arbitrary: st rule: list_all2_induct)
  case (Cons child children s subs)
  show ?case
  proof (cases "bindE (resolveChildParams t (cc_NodeID child) params) (\<lambda>childParams.
      bindE (validateInstanceParams (cc_Template child) childParams) (\<lambda>_. Inr childParams))")
    case (Inr childParams)
    have "\<exists>r st1. ensureChildInstance inst me ce child childParams st = Some (r, st1) \<and> ru_Count st1 \<le> ru_Count st + ctSize s"
    proof (cases "readCurrent me ce (ru_Next st) (cc_ChildWorkflowID child) (ru_Mgr st)")
      case (Pair q m)
      let ?st = "st\<lparr>ru_Mgr := m, ru_Next := Suc (ru_Next st)\<rparr>"
      obtain r st2 where "inst (cc_ChildWorkflowID child) (ct_Template s) childParams ?st = Some (r, st2)"
        "ru_Count st2 \<le> ru_Count st + ctSize s"
        using Cons.prems(1,2) by (simp add: list_all_iff) (metis add.assoc add_leD1 inst_run.select_convs(2) inst_run.surjective inst_run.update_convs(1,3))
      then show ?thesis using Pair Cons.hyps(1)
        by (cases r) (auto simp: ensureChildInstance_def Let_def split: sum.split bool.split)
    qed
    then obtain r st1 where e: "ensureChildInstance inst me ce child childParams st = Some (r, st1)"
      and c: "ru_Count st1 \<le> ru_Count st + ctSize s" by blast
    have "\<exists>r st'. ensureChildren inst me ce t params children st1 = Some (r, st') \<and>
        ru_Count st' \<le> ru_Count st1 + sum_list (map ctSize subs)"
      by (rule Cons.IH) (use Cons.prems c in auto)
    then show ?thesis using Inr e c by (cases r) fastforce+
  qed simp
qed simp

lemma instantiate_count:
  "wellComposed (resolveTemplate me cx) [tm_TemplateID (ct_Template tree)] tree \<Longrightarrow> ctHeight tree < n \<Longrightarrow> n \<le> fuel \<Longrightarrow>
   ru_Count st + ctSize tree \<le> DefaultMaximumCompositionInstances \<Longrightarrow>
   \<exists>r st'. instantiateTemplate me cx ce fuel n wid (ct_Template tree) params st = Some (r, st') \<and>
     ru_Count st' \<le> ru_Count st + ctSize tree"
proof (induction n arbitrary: tree wid params st)
  case (Suc n)
  obtain t subs where tree: "tree = Composed t subs" by (cases tree)
  have build: "BuildComposition fuel (me_Sha256Hex me) wid t (resolveTemplate me cx) =
      Some (Inr (manifest (me_Sha256Hex me) wid tree, ctSize tree))"
    using build_complete[OF Suc.prems(1), of fuel] Suc.prems(2,3) by (simp add: tree)
  let ?st = "st\<lparr>ru_Count := Suc (ru_Count st)\<rparr>"
  have low: "list_all (\<lambda>s. ctHeight s < n) subs"
    using Suc.prems(2) height_below[of subs n] by (simp add: tree)
  have ih: "\<exists>r st'. instantiateTemplate me cx ce fuel n wid (ct_Template s) params st = Some (r, st') \<and>
      ru_Count st' \<le> ru_Count st + ctSize s"
    if "s \<in> set subs" "ru_Count st + ctSize s \<le> DefaultMaximumCompositionInstances" for s wid params st
  proof (rule Suc.IH)
    have "wellComposed (resolveTemplate me cx) ([tm_TemplateID t] @ [tm_TemplateID (ct_Template s)]) s"
      using Suc.prems(1) that(1) by (simp add: tree list_all_iff)
    then show "wellComposed (resolveTemplate me cx) [tm_TemplateID (ct_Template s)] s"
      by (rule wellComposed_mono) simp
  qed (use low that Suc.prems(3) in \<open>auto simp: list_all_iff\<close>)
  have "list_all2 (\<lambda>c s. cc_Template c = ct_Template s) (manifest (me_Sha256Hex me) wid tree) subs"
    using manifest_templates[OF Suc.prems(1)] by (simp add: tree)
  moreover have "list_all (\<lambda>s. \<forall>wid params st. ru_Count st + ctSize s \<le> DefaultMaximumCompositionInstances \<longrightarrow>
      (\<exists>r st'. instantiateTemplate me cx ce fuel n wid (ct_Template s) params st = Some (r, st') \<and>
        ru_Count st' \<le> ru_Count st + ctSize s)) subs"
    using ih by (simp add: list_all_iff)
  moreover have "ru_Count ?st + sum_list (map ctSize subs) \<le> DefaultMaximumCompositionInstances"
    using Suc.prems(4) by (simp add: tree)
  ultimately have "\<exists>r st'. ensureChildren (instantiateTemplate me cx ce fuel n) me ce t params
      (manifest (me_Sha256Hex me) wid tree) ?st = Some (r, st') \<and> ru_Count st' \<le> ru_Count ?st + sum_list (map ctSize subs)"
    by (rule ensureChildren_count)
  then obtain r st2 where run: "ensureChildren (instantiateTemplate me cx ce fuel n) me ce t params
      (manifest (me_Sha256Hex me) wid tree) ?st = Some (r, st2)"
    and cnt: "ru_Count st2 \<le> ru_Count st + ctSize tree" by (auto simp: tree)
  have room: "\<not> DefaultMaximumCompositionInstances < Suc (ru_Count st)"
    using Suc.prems(4) by (simp add: tree)
  show ?case
  proof (cases r)
    case (Inl e)
    then show ?thesis using build run cnt room by (simp add: tree)
  next
    case (Inr u)
    have "ru_Count (snd (commitInstance me cx ce wid t params (manifest (me_Sha256Hex me) wid tree) st2)) = ru_Count st2"
      by (simp add: commitInstance_def split: prod.split)
    then show ?thesis using Inr build run cnt room
      by (cases "commitInstance me cx ce wid t params (manifest (me_Sha256Hex me) wid tree) st2") (simp add: tree)
  qed
qed simp

lemma resolveTemplate_loads: "resolveTemplate me cx tid v = Inr t \<Longrightarrow> me_LoadTemplate me tid v = Inr t"
  by (auto simp: resolveTemplate_def split: if_splits sum.splits)

text \<open>
  Instantiation is bounded. When the store holds templates of finitely many ids, instantiating a
  workflow returns whatever the other clients do meanwhile, and it never materializes more than the
  maximum number of instances: the running count, which the code checks as a second line of defence,
  cannot pass the cap, because the validated tree is walked at most once.
\<close>

theorem instantiation_bounded:
  assumes "finite S" and "\<forall>tid v t. me_LoadTemplate me tid v = Inr t \<longrightarrow> tm_TemplateID t \<in> S" and "card S < fuel"
  shows "\<exists>r st. WorkflowInstantiate me cx ce fuel payload m = Some (r, st) \<and>
    ru_Count st \<le> DefaultMaximumCompositionInstances"
proof -
  let ?st = "\<lparr>ru_Mgr = m, ru_Count = 0, ru_Next = 1\<rparr>"
  have "\<exists>r st. instantiateTemplate me cx ce fuel fuel wid t params ?st = Some (r, st) \<and>
      ru_Count st \<le> DefaultMaximumCompositionInstances" for wid t params
  proof -
    have fin: "\<forall>tid v child. resolveTemplate me cx tid v = Inr child \<longrightarrow> tm_TemplateID child \<in> S"
      using assms(2) resolveTemplate_loads by blast
    have "card (S - set [tm_TemplateID t]) < fuel"
      using assms(1,3) card_mono[of S "S - set [tm_TemplateID t]"] by simp
    from composeTemplate_returns[OF assms(1) fin this] obtain q where
      q: "composeTemplate fuel (me_Sha256Hex me) (resolveTemplate me cx) wid t [tm_TemplateID t] = Some q"
      by blast
    obtain n where n: "fuel = Suc n" using assms(3) by (cases fuel) auto
    show ?thesis
    proof (cases q)
      case (Inl e)
      then have "BuildComposition fuel (me_Sha256Hex me) wid t (resolveTemplate me cx) = Some (Inl e)"
        using q by (simp add: BuildComposition_def)
      then show ?thesis unfolding n by simp
    next
      case (Inr x)
      obtain d i cs where x: "x = (d, i, cs)" by (cases x)
      from composeTemplate_sound q Inr x obtain tree where tree: "wellComposed (resolveTemplate me cx) [tm_TemplateID t] tree"
        "ct_Template tree = t" "ctHeight tree < fuel" by (metis (no_types, lifting))
      have size: "ctSize tree \<le> DefaultMaximumCompositionInstances" using tree(1) by (cases tree) auto
      have "\<exists>r st'. instantiateTemplate me cx ce fuel fuel wid (ct_Template tree) params ?st = Some (r, st') \<and>
          ru_Count st' \<le> ru_Count ?st + ctSize tree"
        by (rule instantiate_count) (use tree size in auto)
      then show ?thesis using tree(2) size by auto
    qed
  qed
  then have inst: "\<exists>r st. map_option (\<lambda>(r, st'). (bindE r (\<lambda>snap. Inr (wid, inst_Revision (snap_Instance snap))), st'))
      (instantiateTemplate me cx ce fuel fuel wid t params ?st) = Some (r, st) \<and>
      ru_Count st \<le> DefaultMaximumCompositionInstances" for wid t params
    by (metis (no_types, lifting) case_prod_conv option.map(2))
  show ?thesis unfolding WorkflowInstantiate_def Let_def using inst by (auto split: sum.split)
qed

section \<open>Children are created before their parent\<close>

definition onDisk :: "mgr \<Rightarrow> string \<Rightarrow> bool" where
  "onDisk m wid \<longleftrightarrow> sf_Snapshot (files m wid) \<noteq> None"

definition derivedID :: "string \<Rightarrow> bool" where
  "derivedID wid \<longleftrightarrow> take 8 wid = ''wfchild_''"

text \<open>
  What the other clients may do: anything but remove an instance, or create one under an id \<open>w\<close> that
  this call has just minted.
\<close>

definition tolerable :: "call_env \<Rightarrow> string \<Rightarrow> bool" where
  "tolerable ce w \<longleftrightarrow> (\<forall>n m. (\<forall>wid. onDisk m wid \<longrightarrow> onDisk (ce_Others ce n m) wid) \<and>
     (\<not> onDisk m w \<longrightarrow> \<not> onDisk (ce_Others ce n m) w))"

text \<open>A step keeps every instance and does not create \<open>w\<close>.\<close>

definition keepsDisk :: "string \<Rightarrow> mgr \<Rightarrow> mgr \<Rightarrow> bool" where
  "keepsDisk w m m' \<longleftrightarrow> (\<forall>wid. onDisk m wid \<longrightarrow> onDisk m' wid) \<and> (\<not> onDisk m w \<longrightarrow> \<not> onDisk m' w)"

lemma keepsDisk_refl [simp]: "keepsDisk w m m"
  by (simp add: keepsDisk_def)

lemma keepsDisk_trans [trans]: "keepsDisk w m m1 \<Longrightarrow> keepsDisk w m1 m2 \<Longrightarrow> keepsDisk w m m2"
  by (simp add: keepsDisk_def)

lemma keepsDisk_others: "tolerable ce w \<Longrightarrow> keepsDisk w m (ce_Others ce n m)"
  by (simp add: tolerable_def keepsDisk_def)

lemma onDisk_putFiles: "onDisk (putFiles wid fs m) wid' = (if wid' = wid then sf_Snapshot fs \<noteq> None else onDisk m wid')"
  by (simp add: onDisk_def)

lemma onDisk_observe [simp]: "onDisk (observeCommit wid snap m) = onDisk m"
  by (simp add: onDisk_def fun_eq_iff)

lemma loadCurrent_disk:
  assumes "loadCurrent env fs = (r, fs')"
  shows "sf_Snapshot fs' = sf_Snapshot fs" and "r = Inr (snap, True) \<Longrightarrow> sf_Snapshot fs \<noteq> None"
  using assms by (auto simp: loadCurrent_def split: option.splits sum.splits)

lemma readCurrent_disk:
  assumes "tolerable ce w" and "readCurrent me ce n wid m = (r, m')"
  shows "keepsDisk w m m'" and "r = Inr (snap, True) \<Longrightarrow> onDisk m' wid"
proof -
  let ?m = "ce_Others ce n m"
  have k: "keepsDisk w m ?m" by (rule keepsDisk_others[OF assms(1)])
  have "keepsDisk w ?m m' \<and> (r = Inr (snap, True) \<longrightarrow> onDisk m' wid)"
  proof (cases "map_of (mg_Disk ?m) wid")
    case (Some fs)
    then have fs: "files ?m wid = fs" by (simp add: files_def)
    obtain fs' where l: "loadCurrent (me_Store me) fs = (r, fs')" and m': "m' = putFiles wid fs' ?m"
      using assms(2) Some by (auto simp: readCurrent_def Let_def split: prod.splits)
    note l' = loadCurrent_disk[OF l]
    have "onDisk m' x = onDisk ?m x" for x
      using l'(1) fs by (simp add: m' onDisk_putFiles) (simp add: onDisk_def)
    moreover have "onDisk m' wid" if "r = Inr (snap, True)"
      using l'(1) l'(2)[OF that] by (simp add: m' onDisk_putFiles)
    ultimately show ?thesis by (simp add: keepsDisk_def)
  qed (use assms(2) in \<open>auto simp: readCurrent_def Let_def\<close>)
  then show "keepsDisk w m m'" and "r = Inr (snap, True) \<Longrightarrow> onDisk m' wid"
    using keepsDisk_trans[OF k] by auto
qed

lemma commitCommand_disk:
  "commitCommand env mi fs s cmd = (r, fs') \<Longrightarrow>
   (sf_Snapshot fs \<noteq> None \<longrightarrow> sf_Snapshot fs' \<noteq> None) \<and> (r = Inr snap \<longrightarrow> sf_Snapshot fs' = Some snap)"
  by (auto simp: commitCommand_def writeSnapshot_def split: sum.splits)

lemma applyLocked_disk:
  assumes "applyLocked env mi wid fs cmd = (r, fs')"
  shows "(sf_Snapshot fs \<noteq> None \<longrightarrow> sf_Snapshot fs' \<noteq> None) \<and> (r = Inr snap \<longrightarrow> sf_Snapshot fs' = Some snap)"
  using assms commitCommand_disk
  by (fastforce simp: applyLocked_def writeSnapshot_def split: option.splits if_splits sum.splits)

lemma ApplyCommand_disk:
  assumes "tolerable ce w" and "ApplyCommand me ce n wid cmd m = (r, m')"
  shows "\<forall>x. onDisk m x \<longrightarrow> onDisk m' x" and "r = Inr snap \<Longrightarrow> sf_Snapshot (files m' wid) = Some snap"
    and "w \<noteq> wid \<Longrightarrow> keepsDisk w m m'"
proof -
  let ?m = "ce_Others ce n m"
  have k: "keepsDisk w m ?m" by (rule keepsDisk_others[OF assms(1)])
  obtain fs' where l: "applyLocked (me_Store me) (ce_Store ce n) wid (files ?m wid) cmd = (r, fs')"
    and fl: "\<forall>x. files m' x = (if x = wid then fs' else files ?m x)"
    using assms(2) by (auto simp: ApplyCommand_def Let_def split: prod.splits sum.splits)
  note l' = applyLocked_disk[OF l]
  show all: "\<forall>x. onDisk m x \<longrightarrow> onDisk m' x"
    using k l' fl by (auto simp: keepsDisk_def onDisk_def)
  show "r = Inr snap \<Longrightarrow> sf_Snapshot (files m' wid) = Some snap" using l' fl by simp
  show "keepsDisk w m m'" if "w \<noteq> wid"
    using k all fl that by (auto simp: keepsDisk_def onDisk_def)
qed

text \<open>The invariant of the recursion, for one instance and for the loop over the children.\<close>

definition instantiates :: "string \<Rightarrow> (string \<Rightarrow> template \<Rightarrow> (string \<times> string) list \<Rightarrow> snapshot run) \<Rightarrow> bool" where
  "instantiates w inst \<longleftrightarrow> (\<forall>wid t params st r st'. inst wid t params st = Some (r, st') \<longrightarrow> w \<noteq> wid \<longrightarrow>
     keepsDisk w (ru_Mgr st) (ru_Mgr st') \<and> (\<forall>snap. r = Inr snap \<longrightarrow> onDisk (ru_Mgr st') wid))"

lemma ensureChildInstance_disk:
  assumes "tolerable ce w" and "instantiates w inst" and "w \<noteq> cc_ChildWorkflowID child"
    and "ensureChildInstance inst me ce child params st = Some (r, st')"
  shows "keepsDisk w (ru_Mgr st) (ru_Mgr st') \<and> (r = Inr x \<longrightarrow> onDisk (ru_Mgr st') (cc_ChildWorkflowID child))"
proof -
  obtain q m where rd: "readCurrent me ce (ru_Next st) (cc_ChildWorkflowID child) (ru_Mgr st) = (q, m)" by fastforce
  note rd' = readCurrent_disk[OF assms(1) rd]
  show ?thesis
  proof (cases "\<exists>s. q = Inr (s, True)")
    case True
    then show ?thesis using rd rd' assms(4) by (auto simp: ensureChildInstance_def)
  next
    case False
    let ?st = "st\<lparr>ru_Mgr := m, ru_Next := Suc (ru_Next st)\<rparr>"
    obtain r2 where i: "inst (cc_ChildWorkflowID child) (cc_Template child) params ?st = Some (r2, st')"
      and ok: "r = Inr x \<Longrightarrow> \<exists>s. r2 = Inr s"
      using rd False assms(4)
      by (auto simp: ensureChildInstance_def Let_def split: sum.splits bool.splits option.splits prod.splits)
    show ?thesis using assms(2,3) i ok rd'(1) keepsDisk_trans unfolding instantiates_def by fastforce
  qed
qed

lemma ensureChildren_disk:
  assumes "tolerable ce w" and "instantiates w inst" and "\<forall>c\<in>set children. w \<noteq> cc_ChildWorkflowID c"
    and "ensureChildren inst me ce t params children st = Some (r, st')"
  shows "keepsDisk w (ru_Mgr st) (ru_Mgr st') \<and>
    (r = Inr u \<longrightarrow> (\<forall>c\<in>set children. onDisk (ru_Mgr st') (cc_ChildWorkflowID c)))"
  using assms(3,4)
proof (induction children arbitrary: st)
  case (Cons child children)
  show ?case
  proof (cases "bindE (resolveChildParams t (cc_NodeID child) params) (\<lambda>childParams.
      bindE (validateInstanceParams (cc_Template child) childParams) (\<lambda>_. Inr childParams))")
    case (Inr childParams)
    then obtain q st1 where e: "ensureChildInstance inst me ce child childParams st = Some (q, st1)"
      using Cons.prems by (auto split: option.splits)
    have one: "keepsDisk w (ru_Mgr st) (ru_Mgr st1) \<and> (q = Inr y \<longrightarrow> onDisk (ru_Mgr st1) (cc_ChildWorkflowID child))" for y
      by (rule ensureChildInstance_disk[OF assms(1,2) _ e]) (use Cons.prems in simp)
    show ?thesis
    proof (cases q)
      case (Inr y)
      then have rest: "ensureChildren inst me ce t params children st1 = Some (r, st')"
        using Cons.prems e \<open>bindE _ _ = Inr childParams\<close> by simp
      have "keepsDisk w (ru_Mgr st1) (ru_Mgr st') \<and>
          (r = Inr u \<longrightarrow> (\<forall>c\<in>set children. onDisk (ru_Mgr st') (cc_ChildWorkflowID c)))"
        by (rule Cons.IH[OF _ rest]) (use Cons.prems(1) in simp)
      with one[of y] Inr show ?thesis by (auto simp: keepsDisk_def)
    qed (use Cons.prems e one Inr in auto)
  qed (use Cons.prems in auto)
qed (use assms(4) in auto)

lemma derivedID_derived [simp]: "derivedID (DeriveChildWorkflowID sha parent nodeID key)"
  by (simp add: derivedID_def DeriveChildWorkflowID_def)

lemma build_derived:
  assumes "BuildComposition fuel sha parent t resolve = Some (Inr (children, i))"
  shows "\<forall>c\<in>set children. derivedID (cc_ChildWorkflowID c)"
proof -
  obtain d where "composeTemplate fuel sha resolve parent t [tm_TemplateID t] = Some (Inr (d, i, children))"
    using assms by (auto simp: BuildComposition_def bindE_eq_Inr_iff)
  from composeTemplate_sound[OF this] obtain tree where "children = manifest sha parent tree" by blast
  then show ?thesis by (auto simp: manifest_def)
qed

lemma commitInstance_disk:
  assumes "tolerable ce w" and "commitInstance me cx ce wid t params children st = (r, st')"
  shows "w \<noteq> wid \<Longrightarrow> keepsDisk w (ru_Mgr st) (ru_Mgr st')" and "r = Inr snap \<Longrightarrow> onDisk (ru_Mgr st') wid"
    and "\<forall>x. onDisk (ru_Mgr st) x \<longrightarrow> onDisk (ru_Mgr st') x"
proof -
  obtain m' where a: "ApplyCommand me ce (ru_Next st) wid
      (instantiateCommand cx wid (instanceRecordOf ce (ru_Next st) t params children)) (ru_Mgr st) = (r, m')"
    and m': "ru_Mgr st' = m'" using assms(2) by (auto simp: commitInstance_def split: prod.splits)
  note a' = ApplyCommand_disk[OF assms(1) a]
  show "w \<noteq> wid \<Longrightarrow> keepsDisk w (ru_Mgr st) (ru_Mgr st')" using a'(3) m' by simp
  show "r = Inr snap \<Longrightarrow> onDisk (ru_Mgr st') wid" using a'(2) m' by (simp add: onDisk_def)
  show "\<forall>x. onDisk (ru_Mgr st) x \<longrightarrow> onDisk (ru_Mgr st') x" using a'(1) m' by simp
qed

lemma instantiate_cases:
  assumes "instantiateTemplate me cx ce fuel (Suc n) wid t params st = Some (r, st')"
  obtains (Refused) e where "r = Inl e" "ru_Mgr st' = ru_Mgr st"
    | (Child) e children i where "BuildComposition fuel (me_Sha256Hex me) wid t (resolveTemplate me cx) = Some (Inr (children, i))"
        "ensureChildren (instantiateTemplate me cx ce fuel n) me ce t params children (st\<lparr>ru_Count := Suc (ru_Count st)\<rparr>) =
          Some (Inl e, st')" "r = Inl e"
    | (Commit) children i st2 where
        "BuildComposition fuel (me_Sha256Hex me) wid t (resolveTemplate me cx) = Some (Inr (children, i))"
        "ensureChildren (instantiateTemplate me cx ce fuel n) me ce t params children (st\<lparr>ru_Count := Suc (ru_Count st)\<rparr>) =
          Some (Inr (), st2)" "commitInstance me cx ce wid t params children st2 = (r, st')"
  using assms by (auto simp: Let_def split: option.splits sum.splits if_splits)

lemma instantiateTemplate_disk:
  assumes "tolerable ce w" and "\<not> derivedID w"
  shows "instantiates w (instantiateTemplate me cx ce fuel n)"
proof (induction n)
  case (Suc n)
  have "keepsDisk w (ru_Mgr st) (ru_Mgr st') \<and> (\<forall>snap. r = Inr snap \<longrightarrow> onDisk (ru_Mgr st') wid)"
    if run: "instantiateTemplate me cx ce fuel (Suc n) wid t params st = Some (r, st')" and w: "w \<noteq> wid" for wid t params st r st'
  proof (cases rule: instantiate_cases[OF run])
    case (2 e children i)
    have "\<forall>c\<in>set children. w \<noteq> cc_ChildWorkflowID c" using build_derived[OF 2(1)] assms(2) by auto
    from ensureChildren_disk[OF assms(1) Suc this 2(2)] show ?thesis using 2(3) by simp
  next
    case (3 children i st2)
    have "\<forall>c\<in>set children. w \<noteq> cc_ChildWorkflowID c" using build_derived[OF 3(1)] assms(2) by auto
    from ensureChildren_disk[OF assms(1) Suc this 3(2)] have "keepsDisk w (ru_Mgr st) (ru_Mgr st2)" by simp
    with commitInstance_disk[OF assms(1) 3(3)] w show ?thesis by (auto dest: keepsDisk_trans)
  qed auto
  then show ?case unfolding instantiates_def by blast
qed (simp add: instantiates_def)

lemma createEntries_children [simp]:
  "inst_Children (snap_Instance (createEntries pol ev es s)) = inst_Children (snap_Instance s)"
  by (induction pol ev es s rule: createEntries.induct) (simp_all add: appendActivation_def updInst_def)

text \<open>The first snapshot of an instance lists the children of its instance record.\<close>

lemma first_snapshot:
  assumes "applyLocked env mi wid fs cmd = (Inr snap, fs')" and "sf_Snapshot fs = None"
    and "cmd_Kind cmd = CommandInstantiate"
    and "\<And>rec'. jc_Instance (se_Codec env) (cmd_Payload cmd) = Inr rec' \<Longrightarrow> rec' = rec"
  shows "inst_Children (snap_Instance snap) = ir_Children rec"
proof -
  have st: "cmd_Kind (stampCommand t cmd) = cmd_Kind cmd" "cmd_Payload (stampCommand t cmd) = cmd_Payload cmd" for t
    by (simp_all add: stampCommand_def Let_def)
  obtain events where ap: "Apply mi (se_Codec env) (se_Policies env) zeroSnapshot (stampCommand (mi_now mi) cmd) = Inr events"
    and red: "seReduceAll env zeroSnapshot events = Inr snap"
    using assms(1-3) by (auto simp: applyLocked_def commitCommand_def split: sum.splits)
  obtain ev where b: "events = [ev]" and k: "ev_Kind ev = EventInstantiated"
    and i: "ev_Instantiated ev = Some (nameInstance mi rec)"
    using ap assms(3,4) st
    by (auto simp: Apply_def buildCommandEvents_def buildInstantiate_def Let_def bindE_eq_Inr_iff newEvent_def split: if_splits)
  have "Reduce (se_Legacy env ev) (se_Policies env) zeroSnapshot ev = Inr snap" using red b by (simp add: bindE_eq_Inr_iff)
  then show ?thesis using k i
    by (auto simp: Reduce_def zeroSnapshot_def zeroInstance_def containsID_def applyEvent_def targetOf_def dispatchEvent_def applyInstantiated_def
        withLegacyDefaults_def stampInstance_def recordEvent_def updInst_def initInstance_def nameInstance_def Let_def
        bindE_eq_Inr_iff split: if_splits)
qed

lemma minted_not_derived: "\<not> derivedID (NewWorkflowID mi k)"
  by (simp add: derivedID_def NewWorkflowID_def newID_def)


section \<open>An example composition\<close>

text \<open>
  A template \<^verbatim>\<open>p\<close> whose only node composes the example template \<^verbatim>\<open>t\<close>, in a store that holds these two;
  the instance records of the example are encoded as two fixed texts.
\<close>

definition nestNode :: node_definition where
  "nestNode = demoNode\<lparr>nd_LaunchWrapper := '''', nd_WorkingDirectory := None,
     nd_Action := (nd_Action demoNode)\<lparr>ac_Kind := ActionWorkflow, ac_Run := None,
       ac_Workflow := Some \<lparr>wa_TemplateID = ''t'', wa_TemplateVersion = ''1'', wa_ChildKey = '''', wa_InputBindings = [],
         wa_OutputBindings = [], wa_Params = [\<lparr>cpb_Param = ''dir'', cpb_Value = ''/tmp'', cpb_FromInstanceParam = ''''\<rparr>],
         wa_OutcomeMap = [(''ok'', ''ok'')]\<rparr>\<rparr>\<rparr>"

definition nestTemplate :: template where
  "nestTemplate = demoTemplate\<lparr>tm_TemplateID := ''p'', tm_Nodes := [nestNode], tm_LaunchWrappers := [], tm_Params := []\<rparr>"

definition nestLoad :: "string \<Rightarrow> string \<Rightarrow> template result" where
  "nestLoad tid v = (if tid = ''t'' then Inr demoTemplate else if tid = ''p'' then Inr nestTemplate else Inl (Err ''no such file''))"

definition nestChild :: composition_child where
  "nestChild = \<lparr>cc_NodeID = ''build'', cc_ChildWorkflowID = DeriveChildWorkflowID (\<lambda>s. s) ''wf_'' ''build'' '''',
     cc_Template = demoTemplate\<rparr>"

definition nestParentRecord :: instance_record where
  "nestParentRecord = instanceRecordOf quietCall 3 nestTemplate [] [nestChild]"

definition nestChildRecord :: instance_record where
  "nestChildRecord = instanceRecordOf quietCall 2 demoTemplate [(''dir'', ''/tmp'')] []"

definition nestEncode :: "instance_record \<Rightarrow> raw" where
  "nestEncode rec = (if rec = nestParentRecord then ''parent'' else if rec = nestChildRecord then ''child'' else ''other'')"

definition nestDecode :: "raw \<Rightarrow> instance_record result" where
  "nestDecode r = (if r = ''parent'' then Inr nestParentRecord else if r = ''child'' then Inr nestChildRecord
     else Inl (Err ''unknown record''))"

definition nestManager :: manager_env where
  "nestManager = demoManager\<lparr>me_LoadTemplate := nestLoad,
     me_Store := (demoEnv [])\<lparr>se_Codec := demoCodec\<lparr>jc_Instance := nestDecode\<rparr>\<rparr>\<rparr>"

definition nestCompose :: compose_env where
  "nestCompose = \<lparr>cx_EncInstance = nestEncode, cx_NotExist = (\<lambda>_. True)\<rparr>"

definition nestState :: mgr where
  "nestState = demoState\<lparr>mg_Disk := []\<rparr>"

definition nestRequest :: "instantiate_request result" where
  "nestRequest = Inr \<lparr>iq_TemplateID = ''p'', iq_TemplateVersion = ''1'', iq_Params = []\<rparr>"

lemma nestLoad_ids: "\<forall>tid v t. nestLoad tid v = Inr t \<longrightarrow> tm_TemplateID t \<in> {''t'', ''p''}"
  by (simp add: nestLoad_def nestTemplate_def demoTemplate_def)

theorem composition_terminates_witness:
  "\<exists>r. \<forall>k. BuildComposition (3 + k) (\<lambda>s. s) ''w'' nestTemplate nestLoad = Some r"
proof -
  have 1: "finite {''t'', ''p''}" by simp
  have "\<exists>r. \<forall>k. BuildComposition (Suc (card {''t'', ''p''}) + k) (\<lambda>s. s) ''w'' nestTemplate nestLoad = Some r"
    by (rule composition_terminates[OF 1 nestLoad_ids])
  moreover have "Suc (card {''t'', ''p''}) = 3" by simp
  ultimately show ?thesis by (simp only:)
qed

theorem instantiation_bounded_witness:
  "\<exists>r st. WorkflowInstantiate nestManager nestCompose quietCall 3 nestRequest nestState = Some (r, st) \<and>
    ru_Count st \<le> DefaultMaximumCompositionInstances"
proof -
  have 1: "finite {''t'', ''p''}" and 3: "card {''t'', ''p''} < 3" by simp_all
  have 2: "\<forall>tid v t. me_LoadTemplate nestManager tid v = Inr t \<longrightarrow> tm_TemplateID t \<in> {''t'', ''p''}"
    using nestLoad_ids by (simp add: nestManager_def)
  show ?thesis by (rule instantiation_bounded[OF 1 2 3])
qed


end
