(* ===== verification/Wf_Lines.thy ===== *)
theory Wf_Lines
  imports Log_Lines
begin

text \<open>
  The framing of log files (\<^verbatim>\<open>durablefile/split.go\<close>), for arbitrary bytes: splitting loses nothing.
\<close>

text \<open>The lines of a text: none is empty, a newline only ends a line, and only the last one may be open.\<close>

definition properLines :: "string list \<Rightarrow> bool" where
  "properLines ls \<longleftrightarrow> list_all (\<lambda>l. l \<noteq> [] \<and> nl \<notin> set (butlast l)) ls \<and> list_all (\<lambda>l. last l = nl) (butlast ls)"

lemma properLines_Cons:
  "nl \<notin> set l \<Longrightarrow> properLines ls \<Longrightarrow> properLines ((l @ [nl]) # ls)"
  by (cases ls) (auto simp: properLines_def butlast_append)

lemma split_suffix:
  "data = pre @ rest \<Longrightarrow>
   concat (map (lineData data) (splitFrom (length pre) (length pre) rest)) = rest \<and>
   properLines (map (lineData data) (splitFrom (length pre) (length pre) rest))"
proof (induction rest arbitrary: pre rule: length_induct)
  case (1 rest)
  show ?case
  proof (cases "nl \<in> set rest")
    case True
    then obtain l rest' where r: "rest = l @ nl # rest'" "nl \<notin> set l" using split_list_first by metis
    have line: "lineData data (length pre, length pre + length l + 1) = l @ [nl]"
      by (simp add: lineData_def "1.prems" r(1))
    have "concat (map (lineData data) (splitFrom (length (pre @ l @ [nl])) (length (pre @ l @ [nl])) rest')) = rest' \<and>
        properLines (map (lineData data) (splitFrom (length (pre @ l @ [nl])) (length (pre @ l @ [nl])) rest'))"
      using "1.IH"[rule_format, of rest' "pre @ l @ [nl]"] "1.prems" r(1) by simp
    then show ?thesis using line properLines_Cons[OF r(2)] by (simp add: r(1) splitFrom_line[OF r(2)])
  next
    case False
    then have "nl \<notin> set (butlast rest)" by (auto dest: in_set_butlastD)
    then show ?thesis
      using False "1.prems" by (simp add: splitFrom_rest lineData_def properLines_def)
  qed
qed

lemma properLines_tail: "properLines (l # ls) \<Longrightarrow> l \<noteq> [] \<and> nl \<notin> set (butlast l) \<and> (ls \<noteq> [] \<longrightarrow> last l = nl) \<and> properLines ls"
  by (cases ls) (auto simp: properLines_def)

lemma split_lines:
  "properLines ls \<Longrightarrow> data = pre @ concat ls \<Longrightarrow>
   map (lineData data) (splitFrom (length pre) (length pre) (concat ls)) = ls"
proof (induction ls arbitrary: pre)
  case (Cons l ls)
  note l = properLines_tail[OF Cons.prems(1)]
  then obtain l' x where lx: "l = l' @ [x]" "nl \<notin> set l'" by (metis append_butlast_last_id)
  show ?case
  proof (cases "x = nl")
    case True
    have "map (lineData data) (splitFrom (length (pre @ l)) (length (pre @ l)) (concat ls)) = ls"
      using Cons.IH[of "pre @ l"] Cons.prems(2) l by simp
    moreover have "lineData data (length pre, length pre + length l' + 1) = l"
      using Cons.prems(2) by (simp add: lineData_def lx True)
    ultimately show ?thesis by (simp add: lx True splitFrom_line[OF lx(2)])
  next
    case False
    then have "ls = []" "nl \<notin> set l" using l lx by auto
    then show ?thesis using Cons.prems(2) l by (simp add: splitFrom_rest lineData_def)
  qed
qed simp

text \<open>
  Splitting a log is the inverse of writing lines. For any bytes, the spans that the splitter
  returns cut the text into the one list of lines that concatenates back to it, in which no line is
  empty, a newline only ends a line, and only the last line may lack its newline.
\<close>

theorem split_lines_exact:
  "map (lineData data) (SplitLines data) = ls \<longleftrightarrow> properLines ls \<and> concat ls = data"
  using split_suffix[of data "[]" data] split_lines[of ls data "[]"] by (auto simp: SplitLines_def)

end
