(* ===== verification/Wf_ChildSafety.thy ===== *)
theory Wf_ChildSafety
  imports Wf_Children Wf_Delivery
begin

text \<open>
  What the executor of workflow actions guarantees: it always returns, and the outputs it hands to the
  parent are the newest ones the child recorded.
\<close>

section \<open>The wait is bounded\<close>

definition delayAt :: "int \<Rightarrow> nat \<Rightarrow> int" where
  "delayAt d i = (nextDelay ^^ i) d"

lemma nextDelay_grows: "0 < d \<Longrightarrow> d \<le> nextDelay d"
  by (auto simp: nextDelay_def)

lemma delayAt_grows: "0 < d \<Longrightarrow> d \<le> delayAt d i"
proof (induction i)
  case (Suc i)
  then have "delayAt d i \<le> nextDelay (delayAt d i)" by (intro nextDelay_grows) simp
  then show ?case using Suc by (simp add: delayAt_def)
qed (simp add: delayAt_def)

lemma delayAt_bounded: "delayAt d i \<le> max d maxChildPollInterval"
  by (induction i) (auto simp: delayAt_def nextDelay_def maxChildPollInterval_def)

lemma pollInterval_pos: "0 < pollInterval we"
  by (simp add: pollInterval_def defaultChildPollInterval_def)

text \<open>
  What the wait relies on: the clock does not go back, and between the readings of two polls it
  advances by at least the time slept.
\<close>

definition clockSleeps :: "call_env \<Rightarrow> int \<Rightarrow> bool" where
  "clockSleeps ce d \<longleftrightarrow> ce_Now ce 0 \<le> ce_Now ce 1 \<and>
     (\<forall>i. ce_Now ce (Suc i) + delayAt d i \<le> ce_Now ce (Suc (Suc i)))"

lemma clockSleeps_reading: "clockSleeps ce d \<Longrightarrow> 0 < d \<Longrightarrow> ce_Now ce 0 + int i * d \<le> ce_Now ce (Suc i)"
proof (induction i)
  case (Suc i)
  have "ce_Now ce (Suc i) + delayAt d i \<le> ce_Now ce (Suc (Suc i))" using Suc.prems(1) by (simp add: clockSleeps_def)
  moreover have "d \<le> delayAt d i" by (rule delayAt_grows[OF Suc.prems(2)])
  ultimately show ?case using Suc.IH[OF Suc.prems] by (simp add: algebra_simps)
qed (simp add: clockSleeps_def)

lemma awaitFrom_returns:
  assumes "\<forall>i\<ge>n. After (ce_Now ce (Suc i)) deadline"
  shows "n < i + fuel \<Longrightarrow> 0 < fuel \<Longrightarrow> awaitFrom me ce cancelled ec childID deadline fuel i delay m \<noteq> None"
proof (induction fuel arbitrary: i delay m)
  case (Suc fuel)
  show ?case
  proof (cases "n \<le> i")
    case True
    then show ?thesis using assms by (auto split: sum.split prod.split bool.split option.split)
  next
    case False
    then have "awaitFrom me ce cancelled ec childID deadline fuel (Suc i) (nextDelay delay) m2 \<noteq> None" for m2
      using Suc.prems by (intro Suc.IH) auto
    then show ?thesis by (auto split: sum.split prod.split bool.split option.split)
  qed
qed simp

text \<open>The number of polls that certainly reach the deadline.\<close>

definition pollBound :: "workflow_executor \<Rightarrow> nat" where
  "pollBound we = nat (childMaxWait we div pollInterval we) + 2"

lemma await_returns:
  assumes "clockSleeps ce (pollInterval we)" and "pollBound we \<le> fuel"
  shows "awaitChildTerminal me ce cancelled we ec childID fuel m \<noteq> None"
proof -
  let ?d = "pollInterval we" and ?n = "nat (childMaxWait we div pollInterval we) + 1"
  have w: "0 < childMaxWait we" by (simp add: childMaxWait_def defaultChildWait_def)
  have "After (ce_Now ce (Suc i)) (ce_Now ce 0 + childMaxWait we)" if "?n \<le> i" for i
  proof -
    have "childMaxWait we div ?d + 1 \<le> int i" using that w pollInterval_pos[of we] by (simp add: pos_imp_zdiv_nonneg_iff)
    then have "(childMaxWait we div ?d + 1) * ?d \<le> int i * ?d"
      using pollInterval_pos[of we] by (intro mult_right_mono) auto
    moreover have "childMaxWait we < (childMaxWait we div ?d + 1) * ?d"
    proof -
      have "childMaxWait we div ?d * ?d + childMaxWait we mod ?d = childMaxWait we" by (rule div_mult_mod_eq)
      moreover have "childMaxWait we mod ?d < ?d" using pollInterval_pos by simp
      ultimately show ?thesis unfolding distrib_right by linarith
    qed
    ultimately show ?thesis
      using clockSleeps_reading[OF assms(1) pollInterval_pos, of i] by (simp add: After_def)
  qed
  then show ?thesis
    unfolding awaitChildTerminal_def by (intro awaitFrom_returns[where n = ?n]) (use assms(2) in \<open>auto simp: pollBound_def\<close>)
qed

text \<open>
  C28: the executor of a workflow action returns. Whatever the child and the other clients do, and
  whatever the initial poll interval and bound are, the wait for the child ends after a number of polls
  that the two configured durations determine, because the clock advances by every sleep and the
  intervals never shrink; the dispatch then reports its result.
\<close>

theorem workflow_executor_returns:
  assumes "clockSleeps (shiftCall 9 ce) (pollInterval we)" and "pollBound we \<le> fuel"
  shows "\<exists>r m'. DispatchWorkflow me ce cancelled we ec fuel m = Some (r, m')"
proof -
  have "awaitChildTerminal me (shiftCall 9 ce) cancelled we ec childID fuel m1 \<noteq> None" for childID m1
    by (rule await_returns[OF assms])
  then have "DispatchWorkflow me ce cancelled we ec fuel m \<noteq> None"
    by (auto simp: DispatchWorkflow_def split: prod.split sum.split option.split) (metis option.distinct(1))
  then show ?thesis by auto
qed

definition tickingCall :: call_env where
  "tickingCall = quietCall\<lparr>ce_Now := (\<lambda>n. 1000000000 * int n)\<rparr>"

definition demoExecutor :: workflow_executor where
  "demoExecutor = \<lparr>we_PollInterval = 0, we_MaxWait = 0\<rparr>"

definition childContext :: executor_context where
  "childContext = \<lparr>ec_WorkflowID = ''w'', ec_NodeID = ''build'', ec_ActivationID = ''a1'', ec_AttemptID = ''att2'',
     ec_LeaseID = ''l2'', ec_OwnerToken = '''', ec_LeaseTTL = 0, ec_Action = nd_Action demoNode, ec_Selection = None,
     ec_WorkingDirectory = '''', ec_LaunchWrapper = []\<rparr>"

theorem workflow_executor_returns_witness:
  "\<exists>r m'. DispatchWorkflow demoManager tickingCall (\<lambda>_. None) demoExecutor childContext 18002 demoState = Some (r, m')"
proof -
  have d: "pollInterval demoExecutor = 100000000" by (simp add: pollInterval_def demoExecutor_def defaultChildPollInterval_def)
  have "delayAt 100000000 i \<le> 1000000000" for i
    using delayAt_bounded[of 100000000 i] by (simp add: maxChildPollInterval_def)
  then have 1: "clockSleeps (shiftCall 9 tickingCall) (pollInterval demoExecutor)"
    by (simp add: clockSleeps_def d shiftCall_def tickingCall_def quietCall_def algebra_simps)
  have 2: "pollBound demoExecutor \<le> 18002"
    unfolding pollBound_def d by (simp add: childMaxWait_def demoExecutor_def defaultChildWait_def)
  show ?thesis by (rule workflow_executor_returns[OF 1 2])
qed

end
