(* ===== verification/Wf_AutoCompletion.thy ===== *)
theory Wf_AutoCompletion
  imports Wf_Decisions Wf_Template
begin

text \<open>
  The completion of a terminated attempt by the supervisor (\<^verbatim>\<open>autocompletion.go\<close>): the outcome, the
  artifacts and the outputs are derived from the declared contract of the node and the working directory.
  The files below the working directory, \<^verbatim>\<open>git\<close> and the JSON codec are the environment \<open>auto_env\<close>.
\<close>

section \<open>Text and paths\<close>

text \<open>\<^verbatim>\<open>strings.TrimSpace\<close>: the blank prefix, then the longest blank suffix.\<close>

fun trimEnd :: "string \<Rightarrow> string" where
  "trimEnd [] = []"
| "trimEnd (c # cs) = (if isBlank (c # cs) then [] else c # trimEnd cs)"

definition TrimSpace :: "string \<Rightarrow> string" where
  "TrimSpace s = trimEnd (skipSpace s)"

text \<open>\<^verbatim>\<open>filepath.Join\<close> of two elements: empty elements are left out.\<close>

definition Join :: "string \<Rightarrow> string \<Rightarrow> string" where
  "Join a b =
     (if a = '''' \<and> b = '''' then ''''
      else Clean (if a = '''' then b else if b = '''' then a else a @ CHR ''/'' # b))"

definition segmentsOf :: "string \<Rightarrow> string list" where
  "segmentsOf path = (let p = (if IsAbs path then tl path else path) in if p = '''' then [] else splitSlash p)"

fun dropCommon :: "string list \<Rightarrow> string list \<Rightarrow> string list \<times> string list" where
  "dropCommon (b # bs) (t # ts) = (if b = t then dropCommon bs ts else (b # bs, t # ts))"
| "dropCommon bs ts = (bs, ts)"

text \<open>\<^verbatim>\<open>filepath.Rel\<close>: up from the elements of the base that are left, then down to the target.\<close>

definition Rel :: "string \<Rightarrow> string \<Rightarrow> string result" where
  "Rel basepath targpath =
     (let base = Clean basepath; targ = Clean targpath; b = (if base = ''.'' then '''' else base);
          failed = Inl (Errorf ''Rel: can't make %s relative to %s'' [targpath, basepath]) in
      if targ = base then Inr ''.''
      else if IsAbs b \<noteq> IsAbs targ then failed
      else (case dropCommon (segmentsOf b) (segmentsOf targ) of
              ([], ts) \<Rightarrow> Inr (joinSlash ts)
            | (seg # bs, ts) \<Rightarrow>
                if seg = ''..'' then failed else Inr (joinSlash (replicate (Suc (length bs)) ''..'' @ ts))))"

definition secureJoin :: "string \<Rightarrow> string \<Rightarrow> string result" where
  "secureJoin workingDir rel =
     (let abs = Join workingDir rel; escapes = Inl (Errorf ''path %q escapes the working directory'' [rel]) in
      case Rel workingDir abs of
        Inl _ \<Rightarrow> escapes
      | Inr inside \<Rightarrow> if inside = ''..'' \<or> take 3 inside = ''../'' then escapes else Inr abs)"

section \<open>JSON pointers\<close>

text \<open>\<^verbatim>\<open>strings.ReplaceAll\<close> of a two-character escape.\<close>

fun replaceEscape :: "char \<Rightarrow> char \<Rightarrow> string \<Rightarrow> string" where
  "replaceEscape d c (a # b # s) = (if a = CHR ''~'' \<and> b = d then c # replaceEscape d c s else a # replaceEscape d c (b # s))"
| "replaceEscape d c s = s"

definition unescapeToken :: "string \<Rightarrow> string" where
  "unescapeToken token = replaceEscape (CHR ''0'') (CHR ''~'') (replaceEscape (CHR ''1'') (CHR ''/'') token)"

text \<open>\<^verbatim>\<open>strconv.Atoi\<close>: an optional sign and decimal digits, within 64 bits.\<close>

definition digitValue :: "char \<Rightarrow> int" where
  "digitValue c = int (of_char c) - 48"

definition isDigit :: "char \<Rightarrow> bool" where
  "isDigit c \<longleftrightarrow> 0 \<le> digitValue c \<and> digitValue c \<le> 9"

definition Atoi :: "string \<Rightarrow> int option" where
  "Atoi s =
     (let negative = (s \<noteq> '''' \<and> hd s = CHR ''-'');
          digits = (if s \<noteq> '''' \<and> (hd s = CHR ''-'' \<or> hd s = CHR ''+'') then tl s else s);
          v = foldl (\<lambda>n c. 10 * n + digitValue c) 0 digits;
          n = (if negative then - v else v) in
      if digits = '''' \<or> \<not> list_all isDigit digits then None
      else if - (2 ^ 63) \<le> n \<and> n < 2 ^ 63 then Some n else None)"

fun descend :: "string \<Rightarrow> json \<Rightarrow> json result" where
  "descend token (JObject kvs) =
     (case map_of kvs token of
        None \<Rightarrow> Inl (Errorf ''member %q not found'' [token])
      | Some next \<Rightarrow> Inr next)"
| "descend token (JArray js) =
     (case Atoi token of
        Some i \<Rightarrow> if i < 0 \<or> i \<ge> int (length js) then Inl (Errorf ''index %q out of range'' [token]) else Inr (js ! nat i)
      | None \<Rightarrow> Inl (Errorf ''index %q out of range'' [token]))"
| "descend token _ = Inl (Err ''cannot descend into scalar'')"

fun descendAll :: "string list \<Rightarrow> json \<Rightarrow> json result" where
  "descendAll [] cur = Inr cur"
| "descendAll (token # tokens) cur = bindE (descend (unescapeToken token) cur) (descendAll tokens)"

definition resolveJSONPointer :: "(raw \<Rightarrow> json result) \<Rightarrow> (json \<Rightarrow> raw) \<Rightarrow> raw \<Rightarrow> string \<Rightarrow> raw result" where
  "resolveJSONPointer decode marshal data pointer =
     bindE (require (pointer \<noteq> '''' \<and> hd pointer = CHR ''/'') (Err ''pointer must begin with /'')) (\<lambda>_.
     bindE (wrapE ''artifact is not valid JSON: '' [] (decode data)) (\<lambda>doc.
     bindE (descendAll (splitSlash (tl pointer)) doc) (\<lambda>cur. Inr (marshal cur))))"

section \<open>The environment\<close>

text \<open>
  \<open>au_Stat\<close>: whether a file is regular, and its size. \<open>au_Git\<close> runs \<^verbatim>\<open>git\<close> in a directory. \<open>au_Marshal\<close> and
  \<open>au_MarshalString\<close> encode documents and strings.
\<close>

record auto_env =
  au_Stat :: "string \<Rightarrow> (bool \<times> int) option"
  au_Digest :: "string \<Rightarrow> string result"
  au_ReadFile :: "string \<Rightarrow> raw result"
  au_Git :: "string \<Rightarrow> string list \<Rightarrow> string result"
  au_Decode :: "raw \<Rightarrow> json result"
  au_Marshal :: "json \<Rightarrow> raw"
  au_MarshalString :: "string \<Rightarrow> raw"
  au_ParseFloat :: "raw \<Rightarrow> rat option"

record auto_completion =
  ap_Outcome :: string
  ap_Outputs :: "complete_output list"
  ap_Artifacts :: "complete_artifact list"

section \<open>The outcome\<close>

definition addName :: "string list \<Rightarrow> string \<Rightarrow> string list" where
  "addName out name = (if name = '''' \<or> name \<in> set out then out else out @ [name])"

definition declaredOutcomeVocabulary :: "template \<Rightarrow> node_definition \<Rightarrow> string list" where
  "declaredOutcomeVocabulary tmpl node =
     (let out = foldl addName [] (map fst (nd_Branches node) @ map oc_Name (nd_Outcomes node) @
                  (case nd_Checkpoint node of None \<Rightarrow> [] | Some c \<Rightarrow> cp_ExitOutcomes c)) in
      if out = [] then foldl addName [] (tm_TerminalOutcomes tmpl) else out)"

definition autoCompletionOutcome :: "template \<Rightarrow> node_definition \<Rightarrow> string \<Rightarrow> string result" where
  "autoCompletionOutcome tmpl node markerLabel =
     (let vocabulary = declaredOutcomeVocabulary tmpl node; label = TrimSpace markerLabel in
      case vocabulary of
        [name] \<Rightarrow> Inr name
      | _ \<Rightarrow>
          if label \<noteq> '''' \<and> label \<in> set vocabulary then Inr label
          else Inl (Errorf ''node declares %d candidate outcomes and no terminal marker selected one of them''
                      [natString (length vocabulary)]))"

section \<open>The contract on files and on git\<close>

definition evalArtifact :: "auto_env \<Rightarrow> string \<Rightarrow> artifact_requirement \<Rightarrow> complete_artifact result" where
  "evalArtifact au workingDir req =
     bindE (require (\<not> IsAbs (ar_Path req))
       (Errorf ''completion artifact %q must be relative to the attempt's working directory'' [ar_Path req])) (\<lambda>_.
     bindE (wrapE ''completion artifact %q: '' [ar_Path req] (secureJoin workingDir (ar_Path req))) (\<lambda>abs.
     case au_Stat au abs of
       None \<Rightarrow> Inl (Errorf ''completion artifact %q does not exist in the working directory'' [ar_Path req])
     | Some (regular, bytes) \<Rightarrow>
         bindE (require regular (Errorf ''completion artifact %q is not a regular file'' [ar_Path req])) (\<lambda>_.
         bindE (require (\<not> (ar_NonEmpty req \<and> bytes = 0)) (Errorf ''completion artifact %q is empty'' [ar_Path req])) (\<lambda>_.
         let artifact = \<lparr>ca_SrcPath = abs, ca_StoredPath = ar_Path req, ca_NonEmpty = ar_NonEmpty req, ca_SHA256 = ar_SHA256 req\<rparr> in
         if ar_SHA256 req = '''' then Inr artifact
         else
           bindE (wrapE ''completion artifact %q: '' [ar_Path req] (au_Digest au abs)) (\<lambda>digest.
           bindE (require (digest = ar_SHA256 req)
             (Errorf ''completion artifact %q digest %s does not match the declared sha256 %s'' [ar_Path req, digest, ar_SHA256 req])) (\<lambda>_.
           Inr (artifact\<lparr>ca_SHA256 := digest\<rparr>)))))))"

definition evalFilesContract :: "auto_env \<Rightarrow> artifact_requirement list \<Rightarrow> string \<Rightarrow> complete_artifact list result" where
  "evalFilesContract au requirements workingDir = mapE (evalArtifact au workingDir) requirements"

definition evalGitContract :: "auto_env \<Rightarrow> git_requirement option \<Rightarrow> string \<Rightarrow> unit result" where
  "evalGitContract au git workingDir =
     (case git of
        None \<Rightarrow> Inr ()
      | Some req \<Rightarrow>
          bindE (require (\<not> gr_ChangedFromBase req)
            (Err ''completion git.changed_from_base has no recorded base commit to compare against'')) (\<lambda>_.
          bindE (if \<not> gr_Clean req then Inr ()
                 else bindE (wrapE ''completion git.clean could not be evaluated: '' [] (au_Git au workingDir [''status'', ''--porcelain''])) (\<lambda>out.
                      require (TrimSpace out = '''') (Err ''completion git.clean: the working directory has uncommitted changes''))) (\<lambda>_.
          if gr_Head req = '''' then Inr ()
          else bindE (wrapE ''completion git.head could not be evaluated: '' [] (au_Git au workingDir [''rev-parse'', ''HEAD''])) (\<lambda>out.
               require (TrimSpace out = TrimSpace (gr_Head req))
                 (Errorf ''completion git.head: HEAD %s does not match the declared head %s'' [TrimSpace out, gr_Head req])))))"

section \<open>The outputs\<close>

text \<open>One output from its source; \<open>None\<close> when it has none.\<close>

definition artifactOutput :: "auto_env \<Rightarrow> output_definition \<Rightarrow> output_source \<Rightarrow> string \<Rightarrow> raw option result" where
  "artifactOutput au def src workingDir =
     (let what = ''output %q: artifact source %q''; args = [od_ID def, os_Artifact src] in
      bindE (require (\<not> IsAbs (os_Artifact src)) (Errorf (what @ '' must be relative to the attempt's working directory'') args)) (\<lambda>_.
      bindE (wrapE (what @ '': '') args (secureJoin workingDir (os_Artifact src))) (\<lambda>abs.
      if os_Pointer src \<noteq> '''' then
        bindE (require (od_Type def \<noteq> OutputFile) (Errorf ''output %q: a pointer source requires a non-file output'' [od_ID def])) (\<lambda>_.
        bindE (wrapE (what @ '': '') args (au_ReadFile au abs)) (\<lambda>data.
        bindE (wrapE ''output %q: pointer %q into %q: '' [od_ID def, os_Pointer src, os_Artifact src]
                 (resolveJSONPointer (au_Decode au) (au_Marshal au) data (os_Pointer src))) (\<lambda>resolved.
        Inr (Some resolved))))
      else
        bindE (require (od_Type def = OutputFile) (Errorf ''output %q: whole-artifact source requires a file output'' [od_ID def])) (\<lambda>_.
        Inr (Some (au_MarshalString au (os_Artifact src)))))))"

definition resolveAutoOutput :: "auto_env \<Rightarrow> output_definition \<Rightarrow> string \<Rightarrow> string \<Rightarrow> raw option result" where
  "resolveAutoOutput au def singleArtifact workingDir =
     (case od_Source def of
        None \<Rightarrow>
          if od_Type def = OutputFile \<and> singleArtifact \<noteq> '''' then Inr (Some (au_MarshalString au singleArtifact))
          else Inr None
      | Some src \<Rightarrow>
          if os_Git src \<noteq> '''' then
            bindE (require (od_Type def = OutputString) (Errorf ''output %q: git-head source requires a string output'' [od_ID def])) (\<lambda>_.
            bindE (wrapE ''output %q: git-head source: '' [od_ID def] (au_Git au workingDir [''rev-parse'', ''HEAD''])) (\<lambda>out.
            Inr (Some (au_MarshalString au (TrimSpace out)))))
          else artifactOutput au def src workingDir)"

definition singleArtifactOf :: "node_definition \<Rightarrow> string" where
  "singleArtifactOf node =
     (case nd_Completion node of
        None \<Rightarrow> ''''
      | Some c \<Rightarrow> (case cc_Artifacts c of [a] \<Rightarrow> if cc_Kind c = CompletionFiles then ar_Path a else '''' | _ \<Rightarrow> ''''))"

fun resolveFrom :: "auto_env \<Rightarrow> string \<Rightarrow> string \<Rightarrow> output_definition list \<Rightarrow> complete_output list result" where
  "resolveFrom au single workingDir [] = Inr []"
| "resolveFrom au single workingDir (def # defs) =
     (case resolveAutoOutput au def single workingDir of
        Inl e \<Rightarrow> if od_Required def then Inl e else resolveFrom au single workingDir defs
      | Inr None \<Rightarrow>
          if od_Required def
          then Inl (Errorf ''required output %q cannot be resolved from the node's declared contract'' [od_ID def])
          else resolveFrom au single workingDir defs
      | Inr (Some value) \<Rightarrow>
          bindE (resolveFrom au single workingDir defs) (\<lambda>out. Inr (\<lparr>co_DefinitionID = od_ID def, co_Value = value\<rparr> # out)))"

definition resolveAutoOutputs :: "auto_env \<Rightarrow> node_definition \<Rightarrow> string \<Rightarrow> complete_output list result" where
  "resolveAutoOutputs au node workingDir = resolveFrom au (singleArtifactOf node) workingDir (nd_Outputs node)"

section \<open>The evaluation and the decision\<close>

definition evalCompletion :: "auto_env \<Rightarrow> node_definition \<Rightarrow> string \<Rightarrow> complete_artifact list result" where
  "evalCompletion au node workingDir =
     (case nd_Completion node of
        None \<Rightarrow> Inr []
      | Some c \<Rightarrow>
          (case cc_Kind c of
             CompletionFiles \<Rightarrow> evalFilesContract au (cc_Artifacts c) workingDir
           | CompletionGit \<Rightarrow> bindE (evalGitContract au (cc_Git c) workingDir) (\<lambda>_. Inr [])
           | CompletionExplicit \<Rightarrow> Inl (Err ''explicit completion cannot be evaluated by the supervisor'')
           | _ \<Rightarrow> Inr []))"

definition declaredOf :: "complete_output \<Rightarrow> output_value" where
  "declaredOf o1 = \<lparr>ov_ID = '''', ov_DefinitionID = co_DefinitionID o1, ov_ActivationID = '''', ov_Revision = 0,
     ov_Value = '''', ov_EvidenceIDs = [], ov_CreatedAt = 0\<rparr>"

definition EvaluateAutoCompletion ::
  "auto_env \<Rightarrow> template \<Rightarrow> node_definition \<Rightarrow> string \<Rightarrow> string \<Rightarrow> auto_completion result" where
  "EvaluateAutoCompletion au tmpl node workingDir markerLabel =
     bindE (autoCompletionOutcome tmpl node markerLabel) (\<lambda>outcome.
     bindE (evalCompletion au node workingDir) (\<lambda>artifacts.
     bindE (resolveAutoOutputs au node workingDir) (\<lambda>outputs.
     bindE (validateDeclaredOutputs node (map declaredOf outputs)) (\<lambda>_.
     bindE (validateCompleteOutputValues (au_ParseFloat au) tmpl node outputs) (\<lambda>_.
     bindE (validateDeclaredOutcome tmpl node outcome) (\<lambda>_.
     Inr \<lparr>ap_Outcome = outcome, ap_Outputs = outputs, ap_Artifacts = artifacts\<rparr>))))))"

text \<open>Eligible, the plan, and why the contract is unmet.\<close>

type_synonym auto_decision = "bool \<times> auto_completion option \<times> error option"

definition eligibleNode :: "node_definition \<Rightarrow> bool" where
  "eligibleNode node = (case ac_Kind (nd_Action node) of ActionRun \<Rightarrow> True | ActionLoop \<Rightarrow> True | ActionTeam \<Rightarrow> True | _ \<Rightarrow> False)"

definition decideOn :: "manager_env \<Rightarrow> auto_env \<Rightarrow> snapshot \<Rightarrow> string \<Rightarrow> string \<Rightarrow> string \<Rightarrow> string \<Rightarrow> string \<Rightarrow> auto_decision result" where
  "decideOn me au snap wid nodeID activationID workingDir markerLabel =
     bindE (findActivation (snap_Instance snap) nodeID activationID) (\<lambda>found.
     case found of
       None \<Rightarrow> Inl (Errorf ''activation %s for node %s not found'' [activationID, nodeID])
     | Some i \<Rightarrow>
         (case act_Dispatch (acts snap ! i) of
            None \<Rightarrow> Inr (False, None, None)
          | Some d \<Rightarrow>
              if \<not> IsAuto d then Inr (False, None, None)
              else
                bindE (wrapE ''load template for workflow %s: '' [wid] (templateFor me snap)) (\<lambda>tmpl.
                bindE (findNode tmpl nodeID) (\<lambda>node.
                if \<not> eligibleNode node then Inr (False, None, None)
                else (case EvaluateAutoCompletion au tmpl node workingDir markerLabel of
                        Inl e \<Rightarrow> Inr (True, None, Some e)
                      | Inr plan \<Rightarrow> Inr (True, Some plan, None))))))"

definition DecideAutoCompletion ::
  "manager_env \<Rightarrow> call_env \<Rightarrow> auto_env \<Rightarrow> string \<Rightarrow> string \<Rightarrow> string \<Rightarrow> string \<Rightarrow> string \<Rightarrow> auto_decision op" where
  "DecideAutoCompletion me ce au wid nodeID activationID workingDir markerLabel m =
     (case readCurrent me ce 0 wid m of
        (Inl e, m') \<Rightarrow> (wrapE ''load workflow %s: '' [wid] (Inl e), m')
      | (Inr (_, False), m') \<Rightarrow> (Inl (Errorf ''workflow %s not found'' [wid]), m')
      | (Inr (snap, True), m') \<Rightarrow> (decideOn me au snap wid nodeID activationID workingDir markerLabel, m'))"

text \<open>The request that \<^verbatim>\<open>CompleteAuto\<close> encodes and \<^verbatim>\<open>commandComplete\<close> decodes again.\<close>

definition autoRequest :: "string \<Rightarrow> string \<Rightarrow> string \<Rightarrow> string \<Rightarrow> string \<Rightarrow> auto_completion \<Rightarrow> command_complete_request" where
  "autoRequest nodeID activationID attemptID leaseID ownerToken plan =
     \<lparr>pq_NodeID = nodeID, pq_ActivationID = activationID, pq_AttemptID = attemptID, pq_LeaseID = leaseID,
      pq_OwnerToken = ownerToken, pq_Outcome = ap_Outcome plan, pq_Outputs = ap_Outputs plan, pq_Artifacts = ap_Artifacts plan\<rparr>"

definition CompleteAuto ::
  "manager_env \<Rightarrow> call_env \<Rightarrow> auto_env \<Rightarrow> (complete_artifact \<Rightarrow> staged_evidence result) \<Rightarrow> string \<Rightarrow> string \<Rightarrow> string \<Rightarrow> string \<Rightarrow>
   string \<Rightarrow> string \<Rightarrow> auto_completion \<Rightarrow> complete_response op" where
  "CompleteAuto me ce au stage wid nodeID activationID attemptID leaseID ownerToken plan =
     commandComplete me ce (au_ParseFloat au) stage wid (Inr (autoRequest nodeID activationID attemptID leaseID ownerToken plan))"

end
