(* ===== verification/Wf_AutoSafety.thy ===== *)
theory Wf_AutoSafety
  imports Wf_AutoCompletion Wf_Delivery
begin

text \<open>
  What an automatic completion promises: its files lie below the working directory, its outputs have the declared
  types, the completion command accepts it, and JSON pointers reach every part of a document.
\<close>

section \<open>Paths inside the working directory\<close>

definition rootedSegs :: "string \<Rightarrow> string list" where
  "rootedSegs path = cleanSegs True [] (splitSlash path)"

lemma rootedSegs_proper: "\<forall>seg\<in>set (rootedSegs path). properSeg seg"
  unfolding rootedSegs_def by (rule cleanSegs_rooted) (auto dest: splitSlash_segs)

lemma Clean_rooted: "IsAbs path \<Longrightarrow> Clean path = CHR ''/'' # joinSlash (rootedSegs path)"
  by (simp add: Clean_def IsAbs_def rootedSegs_def)

lemma joinSlash_eq_Nil: "\<forall>seg\<in>set segs. properSeg seg \<Longrightarrow> joinSlash segs = [] \<longleftrightarrow> segs = []"
  by (cases segs rule: joinSlash.cases) (auto simp: properSeg_def)

lemma segmentsOf_rooted:
  assumes "\<forall>seg\<in>set segs. properSeg seg"
  shows "segmentsOf (CHR ''/'' # joinSlash segs) = segs"
  using assms joinSlash_eq_Nil[OF assms] splitSlash_joinSlash[of segs]
  by (auto simp: segmentsOf_def IsAbs_def properSeg_def)

lemma dropCommon_prefix: "dropCommon bs ts = (bs', ts') \<Longrightarrow> \<exists>p. bs = p @ bs' \<and> ts = p @ ts'"
proof (induction bs ts rule: dropCommon.induct)
  case (1 b bs t ts)
  then show ?case by (cases "b = t") (auto intro: exI[of _ "_ # _"])
qed auto

lemma joinSlash_up: "take 3 (joinSlash (''..'' # segs)) = ''../'' \<or> joinSlash (''..'' # segs) = ''..''"
  by (cases segs) auto

lemma dropCommon_same: "dropCommon segs segs = ([], [])"
  by (induction segs) auto

lemma Rel_rooted:
  assumes "IsAbs base" and segs: "\<forall>seg\<in>set segs. properSeg seg" and ne: "segs \<noteq> rootedSegs base"
  shows "Rel base (CHR ''/'' # joinSlash segs) =
    (case dropCommon (rootedSegs base) segs of (bs, ts) \<Rightarrow> Inr (joinSlash (replicate (length bs) ''..'' @ ts)))"
proof -
  have targ: "Clean (CHR ''/'' # joinSlash segs) = CHR ''/'' # joinSlash segs" by (rule Clean_proper[OF segs])
  have "segmentsOf (Clean base) = rootedSegs base"
    using segmentsOf_rooted[OF rootedSegs_proper] by (simp add: Clean_rooted[OF assms(1)])
  moreover have "CHR ''/'' # joinSlash segs \<noteq> Clean base"
  proof
    assume eq: "CHR ''/'' # joinSlash segs = Clean base"
    show False using ne segmentsOf_rooted[OF segs] segmentsOf_rooted[OF rootedSegs_proper, of base]
      unfolding eq Clean_rooted[OF assms(1)] by simp
  qed
  moreover have "seg \<noteq> ''..''" if "dropCommon (rootedSegs base) segs = (seg # bs, ts)" for seg bs ts
  proof -
    have "\<exists>p. rootedSegs base = p @ seg # bs" using dropCommon_prefix[OF that] by blast
    then have "seg \<in> set (rootedSegs base)" by (elim exE) simp
    then have "properSeg seg" using rootedSegs_proper by blast
    then show ?thesis by (simp add: properSeg_def)
  qed
  moreover have "Clean base \<noteq> ''.''" "IsAbs (Clean base)" by (simp_all add: Clean_rooted[OF assms(1)] IsAbs_def)
  ultimately show ?thesis
    unfolding Rel_def targ Let_def segmentsOf_rooted[OF segs]
    by (auto simp: IsAbs_def split: prod.split list.split)
qed

text \<open>A path below a directory: the segments of the directory, then proper ones.\<close>

definition insideDir :: "string \<Rightarrow> string \<Rightarrow> bool" where
  "insideDir dir path \<longleftrightarrow> (\<exists>segs. list_all properSeg segs \<and> path = CHR ''/'' # joinSlash (rootedSegs dir @ segs))"

lemma secureJoin_inside:
  assumes "IsAbs workingDir" and ok: "secureJoin workingDir rel = Inr path"
  shows "insideDir workingDir path"
proof -
  define joined where "joined = (if rel = '''' then workingDir else workingDir @ CHR ''/'' # rel)"
  have abs: "IsAbs joined" and wd: "workingDir \<noteq> ''''" using assms(1) by (auto simp: IsAbs_def joined_def)
  let ?b = "rootedSegs workingDir" and ?t = "rootedSegs joined"
  have join: "Join workingDir rel = CHR ''/'' # joinSlash ?t"
    using wd Clean_rooted[OF abs] by (auto simp: Join_def joined_def)
  have path: "path = CHR ''/'' # joinSlash ?t"
    using ok by (auto simp: secureJoin_def Let_def join split: sum.splits if_splits)
  show ?thesis
  proof (cases "?t = ?b")
    case True
    then show ?thesis using path by (auto simp: insideDir_def intro: exI[of _ "[]"])
  next
    case False
    obtain bs ts where drop: "dropCommon ?b ?t = (bs, ts)" by fastforce
    have "Rel workingDir (Join workingDir rel) = Inr (joinSlash (replicate (length bs) ''..'' @ ts))"
      unfolding join Rel_rooted[OF assms(1) rootedSegs_proper False] drop by simp
    then have "bs = []"
      using ok joinSlash_up[of "replicate (length (tl bs)) ''..'' @ ts"]
      by (cases bs) (auto simp: secureJoin_def Let_def split: if_splits)
    then have "?t = ?b @ ts" using dropCommon_prefix[OF drop] by auto
    moreover have "list_all properSeg ts" using rootedSegs_proper[of joined] calculation by (simp add: list_all_iff)
    ultimately show ?thesis using path by (auto simp: insideDir_def)
  qed
qed


section \<open>An accepted evaluation is an accepted completion\<close>

lemma mapE_list_all2: "mapE f xs = Inr ys \<Longrightarrow> list_all2 (\<lambda>x y. f x = Inr y) xs ys"
  by (induction xs arbitrary: ys) (auto simp: bindE_eq_Inr_iff)

text \<open>An artifact of the plan is the declared one: a regular file below the working directory with the declared
  contents.\<close>

definition artifactMeets :: "auto_env \<Rightarrow> string \<Rightarrow> artifact_requirement \<Rightarrow> complete_artifact \<Rightarrow> bool" where
  "artifactMeets au workingDir req a \<longleftrightarrow>
     ca_StoredPath a = ar_Path req \<and> ca_NonEmpty a = ar_NonEmpty req \<and> ca_SHA256 a = ar_SHA256 req \<and>
     insideDir workingDir (ca_SrcPath a) \<and>
     (\<exists>bytes. au_Stat au (ca_SrcPath a) = Some (True, bytes) \<and> (ar_NonEmpty req \<longrightarrow> bytes \<noteq> 0)) \<and>
     (ar_SHA256 req = '''' \<or> au_Digest au (ca_SrcPath a) = Inr (ar_SHA256 req))"

definition declaredArtifacts :: "node_definition \<Rightarrow> artifact_requirement list" where
  "declaredArtifacts node =
     (case nd_Completion node of None \<Rightarrow> [] | Some c \<Rightarrow> if cc_Kind c = CompletionFiles then cc_Artifacts c else [])"

lemma evalArtifact_meets:
  assumes "IsAbs workingDir" and "evalArtifact au workingDir req = Inr a"
  shows "artifactMeets au workingDir req a"
  using assms secureJoin_inside[OF assms(1), of "ar_Path req"]
  by (auto simp: evalArtifact_def bindE_eq_Inr_iff wrapE_ok Let_def artifactMeets_def require_ok
      split: option.splits if_splits sum.splits)

lemma evalCompletion_meets:
  assumes "IsAbs workingDir" and "evalCompletion au node workingDir = Inr as"
  shows "list_all2 (artifactMeets au workingDir) (declaredArtifacts node) as"
proof (cases "nd_Completion node")
  case None
  then show ?thesis using assms by (simp add: evalCompletion_def declaredArtifacts_def)
next
  case (Some c)
  have "list_all2 (artifactMeets au workingDir) (cc_Artifacts c) as"
    if "mapE (evalArtifact au workingDir) (cc_Artifacts c) = Inr as"
    by (rule list_all2_mono[OF mapE_list_all2[OF that]]) (rule evalArtifact_meets[OF assms(1)])
  then show ?thesis using assms Some
    by (auto simp: evalCompletion_def declaredArtifacts_def evalFilesContract_def bindE_eq_Inr_iff
        split: completion_contract_kind.splits)
qed

text \<open>The last three checks of the evaluation are those of the completion command.\<close>

lemma EvaluateAutoCompletion_checks:
  assumes "EvaluateAutoCompletion au tmpl node workingDir markerLabel = Inr plan"
  shows "evalCompletion au node workingDir = Inr (ap_Artifacts plan)"
    and "validateDeclaredOutputs node (map declaredOf (ap_Outputs plan)) = Inr ()"
    and "validateCompleteOutputValues (au_ParseFloat au) tmpl node (ap_Outputs plan) = Inr ()"
    and "validateDeclaredOutcome tmpl node (ap_Outcome plan) = Inr ()"
  using assms by (auto simp: EvaluateAutoCompletion_def bindE_eq_Inr_iff)



section \<open>An example completion\<close>

text \<open>
  A node with two candidate outcomes whose contract is the report file: its file output is bound to the report by
  default, a number is read from the report, and an optional output has no value.
\<close>

definition reportNode :: node_definition where
  "reportNode = demoNode\<lparr>nd_Branches := [(''ok'', ''review''), (''retry'', ''build'')],
     nd_Completion := Some \<lparr>cc_Kind = CompletionFiles,
       cc_Artifacts = [\<lparr>ar_Path = ''out/../report.json'', ar_NonEmpty = True, ar_SHA256 = ''d1''\<rparr>], cc_Git = None\<rparr>,
     nd_Outputs := [
       \<lparr>od_ID = ''report'', od_Name = '''', od_Type = OutputFile, od_Required = True, od_Source = None\<rparr>,
       \<lparr>od_ID = ''pr'', od_Name = '''', od_Type = OutputNumber, od_Required = True,
         od_Source = Some \<lparr>os_Artifact = ''report.json'', os_Pointer = ''/prs/1'', os_Git = ''''\<rparr>\<rparr>,
       \<lparr>od_ID = ''note'', od_Name = '''', od_Type = OutputString, od_Required = False, od_Source = None\<rparr>]\<rparr>"

definition reportEnv :: auto_env where
  "reportEnv = \<lparr>au_Stat = (\<lambda>p. if p = ''/w/report.json'' then Some (True, 9) else None), au_Digest = (\<lambda>_. Inr ''d1''),
     au_ReadFile = (\<lambda>_. Inr ''doc''), au_Git = (\<lambda>_ _. Inl (Err ''no git'')),
     au_Decode = (\<lambda>_. Inr (JObject [(''prs'', JArray [JAtom ''7'', JAtom ''12''])])),
     au_Marshal = (\<lambda>j. case j of JAtom s \<Rightarrow> s | _ \<Rightarrow> ''{}''), au_MarshalString = (\<lambda>s. CHR 0x22 # s @ [CHR 0x22]),
     au_ParseFloat = (\<lambda>r. if r = ''12'' then Some 12 else None)\<rparr>"

definition reportPlan :: auto_completion where
  "reportPlan = \<lparr>ap_Outcome = ''retry'',
     ap_Outputs = [\<lparr>co_DefinitionID = ''report'', co_Value = CHR 0x22 # ''out/../report.json'' @ [CHR 0x22]\<rparr>,
       \<lparr>co_DefinitionID = ''pr'', co_Value = ''12''\<rparr>],
     ap_Artifacts = [\<lparr>ca_SrcPath = ''/w/report.json'', ca_StoredPath = ''out/../report.json'', ca_NonEmpty = True,
       ca_SHA256 = ''d1''\<rparr>]\<rparr>"

definition reportSnapshot :: snapshot where
  "reportSnapshot = zeroSnapshot\<lparr>snap_Instance := zeroInstance\<lparr>inst_Attempts :=
     [zeroAttempt\<lparr>at_ID := ''a1'', at_Status := AttemptSucceeded\<rparr>]\<rparr>\<rparr>"



section \<open>JSON pointers\<close>

text \<open>A location in a document, its RFC 6901 pointer, and the subdocument it names.\<close>

datatype pointer_step = Member string | Index nat

fun escapeToken :: "string \<Rightarrow> string" where
  "escapeToken [] = []"
| "escapeToken (c # cs) =
     (if c = CHR ''~'' then ''~0'' @ escapeToken cs else if c = CHR ''/'' then ''~1'' @ escapeToken cs else c # escapeToken cs)"

fun stepToken :: "pointer_step \<Rightarrow> string" where
  "stepToken (Member name) = escapeToken name"
| "stepToken (Index i) = natString i"

definition pointerOf :: "pointer_step list \<Rightarrow> string" where
  "pointerOf steps = CHR ''/'' # joinSlash (map stepToken steps)"

fun stepInto :: "pointer_step \<Rightarrow> json \<Rightarrow> json option" where
  "stepInto (Member name) (JObject kvs) = map_of kvs name"
| "stepInto (Index i) (JArray js) = (if i < length js then Some (js ! i) else None)"
| "stepInto _ _ = None"

fun subdocument :: "pointer_step list \<Rightarrow> json \<Rightarrow> json option" where
  "subdocument [] doc = Some doc"
| "subdocument (s # steps) doc = Option.bind (stepInto s doc) (subdocument steps)"

fun smallStep :: "pointer_step \<Rightarrow> bool" where
  "smallStep (Member name) = True"
| "smallStep (Index i) = (i < 2 ^ 63)"

lemma unescape_escape: "unescapeToken (escapeToken s) = s"
proof -
  have slash: "replaceEscape (CHR ''1'') (CHR ''/'') (escapeToken s) =
      concat (map (\<lambda>c. if c = CHR ''~'' then ''~0'' else [c]) s)" for s
  proof (induction s)
    case (Cons c cs)
    then show ?case by (cases "escapeToken cs") auto
  qed simp
  have tilde: "replaceEscape (CHR ''0'') (CHR ''~'') (concat (map (\<lambda>c. if c = CHR ''~'' then ''~0'' else [c]) s)) = s" for s
  proof (induction s)
    case (Cons c cs)
    then show ?case by (cases "concat (map (\<lambda>c. if c = CHR ''~'' then ''~0'' else [c]) cs)") auto
  qed simp
  show ?thesis by (simp add: unescapeToken_def slash tilde)
qed

lemma escape_noslash: "CHR ''/'' \<notin> set (escapeToken s)"
  by (induction s) auto

lemma digitValue_char: "n < 10 \<Longrightarrow> digitValue (char_of (48 + n)) = int n" for n :: nat
  by (simp add: digitValue_def)

lemma isDigit_char: "n < 10 \<Longrightarrow> isDigit (char_of (48 + n))" for n :: nat
  by (simp add: isDigit_def digitValue_char)

lemma natString_digits: "natString n \<noteq> [] \<and> list_all isDigit (natString n)"
  by (induction n rule: natString.induct) (subst (1 2) natString.simps, simp add: isDigit_char)

lemma natString_value: "foldl (\<lambda>n c. 10 * n + digitValue c) 0 (natString n) = int n"
proof (induction n rule: natString.induct)
  case (1 n)
  show ?case
  proof (cases "n < 10")
    case True
    then show ?thesis by (subst natString.simps) (simp add: digitValue_char)
  next
    case False
    have "10 * int (n div 10) + int (n mod 10) = int n" by presburger
    with False 1 show ?thesis by (subst natString.simps) (simp add: digitValue_char)
  qed
qed

lemma isDigit_plain: "isDigit c \<Longrightarrow> c \<noteq> CHR ''-'' \<and> c \<noteq> CHR ''+'' \<and> c \<noteq> CHR ''~'' \<and> c \<noteq> CHR ''/''"
  by (auto simp: isDigit_def digitValue_def)

lemma Atoi_natString: "n < 2 ^ 63 \<Longrightarrow> Atoi (natString n) = Some (int n)"
  using natString_digits[of n] natString_value[of n]
  by (cases "natString n") (auto simp: Atoi_def Let_def dest: isDigit_plain)


lemma natString_noslash: "CHR ''/'' \<notin> set (natString n) \<and> CHR ''~'' \<notin> set (natString n)"
  using natString_digits[of n] by (auto simp: list_all_iff dest: isDigit_plain)

lemma replaceEscape_plain: "CHR ''~'' \<notin> set s \<Longrightarrow> replaceEscape d c s = s"
  by (induction d c s rule: replaceEscape.induct) auto

lemma descend_step:
  assumes "stepInto step doc = Some sub" and "smallStep step"
  shows "descend (unescapeToken (stepToken step)) doc = Inr sub"
proof (cases step)
  case (Member name)
  then show ?thesis using assms by (cases doc) (auto simp: unescape_escape)
next
  case (Index i)
  have "unescapeToken (natString i) = natString i"
    using natString_noslash[of i] by (simp add: unescapeToken_def replaceEscape_plain)
  then show ?thesis using assms Index by (cases doc) (auto simp: Atoi_natString split: if_splits)
qed

lemma descendAll_steps:
  "subdocument steps doc = Some sub \<Longrightarrow> list_all smallStep steps \<Longrightarrow> descendAll (map stepToken steps) doc = Inr sub"
  by (induction steps arbitrary: doc) (auto simp: descend_step bind_eq_Some_conv)

text \<open>
  JSON pointers reach every part of a document. For a non-empty path of object members and array indexes (below
  2^63, so that \<^verbatim>\<open>strconv.Atoi\<close> reads them) that exists in the decoded document, its RFC 6901 pointer, with
  \<^verbatim>\<open>~\<close> and \<^verbatim>\<open>/\<close> escaped in the member names, resolves to the encoding of exactly that subdocument.
\<close>

theorem pointer_roundtrip:
  assumes "decode data = Inr doc" and "steps \<noteq> []" and "list_all smallStep steps"
    and "subdocument steps doc = Some sub"
  shows "resolveJSONPointer decode marshal data (pointerOf steps) = Inr (marshal sub)"
proof -
  have "CHR ''/'' \<notin> set (stepToken step)" for step
    using escape_noslash natString_noslash by (cases step) auto
  then have "splitSlash (joinSlash (map stepToken steps)) = map stepToken steps"
    using assms(2) by (intro splitSlash_joinSlash) auto
  then show ?thesis
    using assms(1) descendAll_steps[OF assms(4,3)] by (simp add: resolveJSONPointer_def pointerOf_def require_def)
qed

theorem pointer_roundtrip_witness:
  "resolveJSONPointer (\<lambda>_. Inr (JObject [(''a/b~1'', JArray [JAtom ''7'', JAtom ''12''])])) (\<lambda>j. case j of JAtom s \<Rightarrow> s | _ \<Rightarrow> '''')
     ''data'' ''/a~1b~01/1'' = Inr ''12''"
proof -
  have "pointerOf [Member ''a/b~1'', Index 1] = ''/a~1b~01/1''" by code_simp
  then show ?thesis
    using pointer_roundtrip[of "\<lambda>_. Inr (JObject [(''a/b~1'', JArray [JAtom ''7'', JAtom ''12''])])" "''data''" _
        "[Member ''a/b~1'', Index 1]" "JAtom ''12''"] by simp
qed

text \<open>
  The index tokens that are accepted are those of \<^verbatim>\<open>strconv.Atoi\<close>: a leading zero or a sign, which RFC 6901
  excludes, names an element as well.
\<close>

lemma loose_indexes:
  "1 < length js \<Longrightarrow> descend ''+1'' (JArray js) = Inr (js ! 1)"
  "1 < length js \<Longrightarrow> descend ''01'' (JArray js) = Inr (js ! 1)"
proof -
  have "Atoi ''+1'' = Some 1" "Atoi ''01'' = Some 1" "Atoi ''1'' = Some 1" by code_simp+
  then show "1 < length js \<Longrightarrow> descend ''+1'' (JArray js) = Inr (js ! 1)"
    "1 < length js \<Longrightarrow> descend ''01'' (JArray js) = Inr (js ! 1)"
    by auto
qed

end
