(* ===== verification/Wf_OutputTypes.thy ===== *)
theory Wf_OutputTypes
  imports Wf_Decisions
begin

text \<open>
  The declared types of the outputs carry a bound gate: what the template validation demands of a subject binding
  (\<^verbatim>\<open>graph.go\<close>, \<^verbatim>\<open>gate_bindings.go\<close>) and what a completion demands of its output values
  (\<^verbatim>\<open>completion.go\<close>) together make every bound subject decodable.
\<close>

section \<open>What the validation gives\<close>

lemma ValidateGraph_gates:
  assumes "ValidateGraph pf t = Inr ()"
  shows "distinct (map nd_ID (tm_Nodes t))"
    and "node \<in> set (tm_Nodes t) \<Longrightarrow> gate \<in> set (nd_Gates node) \<Longrightarrow> gateOK pf t node gate"
  using assms by (auto simp: ValidateGraph_def seq_ok checkSeen_distinct graph_checks checkAll_ok)

lemma map_of_rev_ID:
  assumes "distinct (map f xs)" and "x \<in> set xs"
  shows "map_of (rev (map (\<lambda>x. (f x, x)) xs)) (f x) = Some x"
proof (rule map_of_is_SomeI)
  show "distinct (map fst (rev (map (\<lambda>x. (f x, x)) xs)))"
    using assms(1) by (simp add: rev_map[symmetric] comp_def)
qed (use assms(2) in auto)

text \<open>The type of an output is that of the last definition with its id.\<close>

lemma map_of_rev_type:
  "map_of (rev (map (\<lambda>d. (od_ID d, od_Type d)) defs)) oid =
   map_option od_Type (map_of (rev (map (\<lambda>d. (od_ID d, d)) defs)) oid)"
  by (induction defs rule: rev_induct) auto

lemma outputTypes_node:
  assumes "distinct (map nd_ID (tm_Nodes t))" and "src \<in> set (tm_Nodes t)"
    and "outputTypes (tm_Nodes t) (nd_ID src) oid = Some ty"
  shows "\<exists>def. map_of (rev (map (\<lambda>d. (od_ID d, d)) (nd_Outputs src))) oid = Some def \<and> od_Type def = ty"
  using assms(3) by (auto simp: outputTypes_def map_of_rev_ID[OF assms(1,2)] map_of_rev_type)

lemma integral_pull_request:
  assumes "node \<in> set (tm_Nodes t)" and "gate \<in> set (nd_Gates node)"
    and "gd_SubjectBinding gate = Some b" and "sb_PullRequest b = Some r"
  shows "(tor_NodeID (sor_FromNodeOutput r), tor_OutputID (sor_FromNodeOutput r)) \<in> set (integralOutputRefs t)"
  using assms by (force simp: integralOutputRefs_def)

section \<open>Accepted values decode\<close>

definition acceptedValue :: "(raw \<Rightarrow> rat option) \<Rightarrow> template \<Rightarrow> node_definition \<Rightarrow> template_output_reference \<Rightarrow> raw \<Rightarrow> bool" where
  "acceptedValue pf t src ref v \<longleftrightarrow>
     validateOutputValue pf t src \<lparr>co_DefinitionID = tor_OutputID ref, co_Value = v\<rparr> = Inr ()"

text \<open>
  What the JSON decoder does with a text that is accepted as an output value: a number decodes to what
  \<^verbatim>\<open>strconv.ParseFloat\<close> reads, and a text that starts with a quotation mark decodes to a string.
\<close>

definition decodesLike :: "codec \<Rightarrow> (raw \<Rightarrow> rat option) \<Rightarrow> raw \<Rightarrow> bool" where
  "decodesLike jc pf v \<longleftrightarrow>
     jc_Number jc v = pf (trimmedJSON v) \<and>
     (trimmedJSON v \<noteq> '''' \<and> hd (trimmedJSON v) = CHR 0x22 \<longrightarrow> jc_String jc v \<noteq> None)"

lemma accepted_string:
  assumes "acceptedValue pf t src ref v" and "decodesLike jc pf v"
    and "map_of (rev (map (\<lambda>d. (od_ID d, d)) (nd_Outputs src))) (tor_OutputID ref) = Some def" "od_Type def = OutputString"
  shows "jc_String jc v \<noteq> None"
  using assms by (auto simp: acceptedValue_def validateOutputValue_def decodesLike_def Let_def require_ok split: if_splits)

lemma accepted_integer:
  assumes "acceptedValue pf t src ref v" and "decodesLike jc pf v"
    and "map_of (rev (map (\<lambda>d. (od_ID d, d)) (nd_Outputs src))) (tor_OutputID ref) = Some def" "od_Type def = OutputNumber"
    and "(nd_ID src, tor_OutputID ref) \<in> set (integralOutputRefs t)"
  shows "\<exists>n. pullRequestNumber jc v = Some n \<and> \<bar>n\<bar> \<le> maxSafeOutputFloat \<and> pf (trimmedJSON v) = Some (of_int n)"
proof -
  obtain x where x: "pf (trimmedJSON v) = Some x" "\<bar>x\<bar> \<le> of_int maxSafeOutputFloat" "x = of_int \<lfloor>x\<rfloor>"
    using assms by (auto simp: acceptedValue_def validateOutputValue_def validateSafeJSONNumber_def Let_def require_ok
        bindE_eq_Inr_iff split: if_splits option.splits)
  have "\<bar>\<lfloor>x\<rfloor>\<bar> \<le> maxSafeOutputFloat" using x(2,3) by (metis of_int_abs of_int_le_iff)
  then show ?thesis using x assms(2) by (auto simp: pullRequestNumber_def decodesLike_def)
qed

text \<open>The three bound outputs are declared on the one source node, with the types of their fields.\<close>

lemma binding_typed:
  assumes "bindingOK t node b" and "distinct (map nd_ID (tm_Nodes t))" and "src \<in> set (tm_Nodes t)"
    and "nd_ID src = tor_NodeID (subjectBindingRef (sb_Repository b))"
    and "(r, ty) \<in> {(sb_Repository b, OutputString), (sb_PullRequest b, OutputNumber), (sb_Revision b, OutputString)}"
  shows "tor_NodeID (subjectBindingRef r) = nd_ID src \<and> nd_ID src \<noteq> '''' \<and>
    (\<exists>def. map_of (rev (map (\<lambda>d. (od_ID d, d)) (nd_Outputs src))) (tor_OutputID (subjectBindingRef r)) = Some def \<and>
       od_Type def = ty)"
proof -
  have "tor_NodeID (subjectBindingRef r) = nd_ID src" "nd_ID src \<noteq> ''''"
    and "outputTypes (tm_Nodes t) (nd_ID src) (tor_OutputID (subjectBindingRef r)) = Some ty"
    using assms(1,4,5) by (auto simp: bindingOK_def refOK_def)
  then show ?thesis using outputTypes_node[OF assms(2,3)] by blast
qed

text \<open>
  C24: a bound subject is well typed. In a template the graph validation accepts, take a gate with a subject binding
  and three values that the completion of the bound source node accepts for the bound outputs. Then the subject
  decodes, with nothing unresolved: it is a pull request whose number is exactly the accepted number, an integer
  that a double represents.
\<close>

theorem bound_subject_decodes:
  assumes "ValidateGraph pf t = Inr ()" and "node \<in> set (tm_Nodes t)" and "gate \<in> set (nd_Gates node)"
    and "gd_SubjectBinding gate = Some b"
    and "src \<in> set (tm_Nodes t)" and "nd_ID src = tor_NodeID (subjectBindingRef (sb_Repository b))"
    and "list_all2 (\<lambda>(_, ref) v. acceptedValue pf t src ref v) (subjectFields b) raws"
    and "list_all (decodesLike jc pf) raws"
  shows "\<exists>subject. decodeSubject jc (sb_Type b) raws = (Some subject, []) \<and> su_Type subject = ''pull_request'' \<and>
    \<bar>su_PullRequest subject\<bar> \<le> maxSafeOutputFloat \<and>
    pf (trimmedJSON (raws ! 1)) = Some (of_int (su_PullRequest subject))"
proof -
  have ok: "bindingOK t node b"
    using ValidateGraph_gates(2)[OF assms(1-3)] assms(4) by (simp add: gateOK_def)
  obtain v1 v2 v3 where raws: "raws = [v1, v2, v3]"
    using assms(7) by (auto simp: subjectFields_def list_all2_Cons1)
  note typed = binding_typed[OF ok ValidateGraph_gates(1)[OF assms(1)] assms(5,6)]
  obtain d1 d2 d3 where defs:
    "map_of (rev (map (\<lambda>d. (od_ID d, d)) (nd_Outputs src))) (tor_OutputID (subjectBindingRef (sb_Repository b))) = Some d1"
    "od_Type d1 = OutputString"
    "map_of (rev (map (\<lambda>d. (od_ID d, d)) (nd_Outputs src))) (tor_OutputID (subjectBindingRef (sb_PullRequest b))) = Some d2"
    "od_Type d2 = OutputNumber"
    "map_of (rev (map (\<lambda>d. (od_ID d, d)) (nd_Outputs src))) (tor_OutputID (subjectBindingRef (sb_Revision b))) = Some d3"
    "od_Type d3 = OutputString"
    and same: "tor_NodeID (subjectBindingRef (sb_PullRequest b)) = nd_ID src" "nd_ID src \<noteq> ''''"
    using typed[of "sb_Repository b" OutputString] typed[of "sb_PullRequest b" OutputNumber]
      typed[of "sb_Revision b" OutputString] by auto
  have integral: "(nd_ID src, tor_OutputID (subjectBindingRef (sb_PullRequest b))) \<in> set (integralOutputRefs t)"
    using integral_pull_request[OF assms(2-4)] same by (auto simp: subjectBindingRef_def split: option.splits)
  have acc: "acceptedValue pf t src (subjectBindingRef (sb_Repository b)) v1" "decodesLike jc pf v1"
    "acceptedValue pf t src (subjectBindingRef (sb_PullRequest b)) v2" "decodesLike jc pf v2"
    "acceptedValue pf t src (subjectBindingRef (sb_Revision b)) v3" "decodesLike jc pf v3"
    using assms(7,8) raws by (simp_all add: subjectFields_def)
  obtain n where n: "pullRequestNumber jc v2 = Some n" "\<bar>n\<bar> \<le> maxSafeOutputFloat" "pf (trimmedJSON v2) = Some (of_int n)"
    using accepted_integer[OF acc(3,4) defs(3,4) integral] by blast
  obtain r v where "jc_String jc v1 = Some r" "jc_String jc v3 = Some v"
    using accepted_string[OF acc(1,2) defs(1,2)] accepted_string[OF acc(5,6) defs(5,6)] by blast
  with n show ?thesis using ok raws by (simp add: decodeSubject_def bindingOK_def)
qed


section \<open>An example\<close>

text \<open>
  The node \<^verbatim>\<open>review\<close> has an external gate about the pull request that \<^verbatim>\<open>build\<close> reports.
\<close>

definition prRef :: "string \<Rightarrow> subject_output_ref option" where
  "prRef oid = Some \<lparr>sor_FromNodeOutput = \<lparr>tor_NodeID = ''build'', tor_OutputID = oid\<rparr>\<rparr>"

definition prBinding :: subject_binding where
  "prBinding = \<lparr>sb_Type = ''pull_request'', sb_Repository = prRef ''repo'', sb_PullRequest = prRef ''pr'',
     sb_Revision = prRef ''rev''\<rparr>"

definition prOutput :: "string \<Rightarrow> output_type \<Rightarrow> output_definition" where
  "prOutput oid ty = \<lparr>od_ID = oid, od_Name = '''', od_Type = ty, od_Required = True, od_Source = None\<rparr>"

definition prSource :: node_definition where
  "prSource = demoNode\<lparr>nd_Outputs := [prOutput ''repo'' OutputString, prOutput ''pr'' OutputNumber, prOutput ''rev'' OutputString]\<rparr>"

definition prGate :: gate_definition where
  "prGate = \<lparr>gd_ID = ''ci'', gd_Name = '''', gd_Type = GateExternal, gd_Required = True, gd_AllowedOutcomes = [],
     gd_SubjectType = '''', gd_AdapterID = ''checks'', gd_Inputs = [], gd_SubjectBinding = Some prBinding,
     gd_ResultOutcomes = []\<rparr>"

definition prNode :: node_definition where
  "prNode = demoNode\<lparr>nd_ID := ''review'', nd_Dependencies := [''build''], nd_Branches := [], nd_Gates := [prGate],
     nd_LaunchWrapper := '''', nd_WorkingDirectory := None\<rparr>"

definition prTemplate :: template where
  "prTemplate = demoTemplate\<lparr>tm_Nodes := [prSource, prNode]\<rparr>"

definition prFloat :: "raw \<Rightarrow> rat option" where
  "prFloat r = (if r = ''42'' then Some 42 else None)"

definition prCodec :: codec where
  "prCodec = \<lparr>jc_Instance = (\<lambda>_. Inl (Err ''syntax'')), jc_Transition = (\<lambda>_. Inl (Err ''syntax'')),
     jc_Reroute = (\<lambda>_. Inl (Err ''syntax'')),
     jc_String = (\<lambda>r. if r \<noteq> '''' \<and> hd r = CHR 0x22 then Some (butlast (tl r)) else None), jc_Number = (\<lambda>r. prFloat (trimmedJSON r))\<rparr>"

definition prRaws :: "raw list" where
  "prRaws = [CHR 0x22 # ''o/r'' @ [CHR 0x22], '' 42'', CHR 0x22 # ''abc'' @ [CHR 0x22]]"

theorem bound_subject_decodes_witness:
  "decodeSubject prCodec ''pull_request'' prRaws =
     (Some \<lparr>su_Type = ''pull_request'', su_Repository = ''o/r'', su_PullRequest = 42, su_Revision = ''abc''\<rparr>, []) \<and>
   fst (decodeSubject prCodec ''pull_request'' prRaws) \<noteq> None"
proof -
  have valid: "ValidateGraph prFloat prTemplate = Inr ()" by code_simp
  have accepted: "list_all2 (\<lambda>(_, ref) v. acceptedValue prFloat prTemplate prSource ref v) (subjectFields prBinding) prRaws"
    by code_simp
  have codec: "list_all (decodesLike prCodec prFloat) prRaws" by code_simp
  have result: "decodeSubject prCodec ''pull_request'' prRaws =
     (Some \<lparr>su_Type = ''pull_request'', su_Repository = ''o/r'', su_PullRequest = 42, su_Revision = ''abc''\<rparr>, [])"
    by code_simp
  have "prSource \<in> set (tm_Nodes prTemplate)" "prNode \<in> set (tm_Nodes prTemplate)" "prGate \<in> set (nd_Gates prNode)"
    "gd_SubjectBinding prGate = Some prBinding" "sb_Type prBinding = ''pull_request''"
    "nd_ID prSource = tor_NodeID (subjectBindingRef (sb_Repository prBinding))"
    by (simp_all add: prTemplate_def prNode_def prGate_def prBinding_def prSource_def prRef_def subjectBindingRef_def
        demoNode_def)
  then show ?thesis
    using bound_subject_decodes[OF valid _ _ _ _ _ accepted codec, of prNode prGate] result by auto
qed

end
