(* ===== verification/Lp_Phase.thy ===== *)
theory Lp_Phase
  imports Wf_AutoCompletion
begin

text \<open>
  The phases that loop and team runs are made of (\<^verbatim>\<open>src/internal/phaseconfig\<close>), the classification of exit codes
  and stop reasons (\<^verbatim>\<open>runtime/exit.go\<close>, \<^verbatim>\<open>runtime/limits.go\<close>) and the loop configuration
  (\<^verbatim>\<open>looprunner/config.go\<close>).
\<close>

section \<open>Phases\<close>

record phase_requirements =
  pr_Files :: "string list"
  pr_NonEmptyFiles :: "string list"

record phase_on_incomplete =
  oi_Nudge :: string
  oi_MaxNudges :: int

record phase =
  ph_Name :: string
  ph_Prompt :: string
  ph_PromptFile :: string
  ph_LoopFile :: string
  ph_TeamFile :: string
  ph_ResumeFromPrevious :: bool
  ph_Conditional :: bool
  ph_Agent :: string
  ph_Model :: string
  ph_RosterEntry :: string
  ph_Requires :: phase_requirements
  ph_OnIncomplete :: phase_on_incomplete

record loop_marker =
  lm_Directive :: string
  lm_Label :: string

definition LoopDirectiveSeverity :: "string \<Rightarrow> int" where
  "LoopDirectiveSeverity d = (if d = ''abort'' then 3 else if d = ''exit'' then 2 else if d = ''continue'' then 1 else 0)"

section \<open>Exit codes and stop reasons\<close>

definition ExitCodeForStopReason :: "string \<Rightarrow> int" where
  "ExitCodeForStopReason r =
     (if r = ''end_turn'' then 0 else if r = ''refusal'' then 2 else if r = ''tool_denied'' then 2
      else if r = ''max_tokens'' then 3 else if r = ''max_turn_requests'' then 4 else if r = ''blocked'' then 5
      else if r = ''quota_exhausted'' then 6 else if r = ''rate_limited'' then 7 else if r = ''cancelled'' then 130
      else if r = ''progress_timeout'' then 124 else if r = ''timeout'' then 124 else 1)"

definition StopReasonForExitCode :: "int \<Rightarrow> string" where
  "StopReasonForExitCode c =
     (if c = 0 then ''end_turn'' else if c = 2 then ''refusal'' else if c = 3 then ''max_tokens''
      else if c = 4 then ''max_turn_requests'' else if c = 5 then ''blocked'' else if c = 6 then ''quota_exhausted''
      else if c = 7 then ''rate_limited'' else if c = 124 then ''timeout'' else if c = 130 then ''cancelled'' else '''')"

definition IsRetryableFailure :: "int \<Rightarrow> string \<Rightarrow> bool" where
  "IsRetryableFailure exitCode stopReason \<longleftrightarrow>
     stopReason \<noteq> ''session_id_conflict'' \<and> stopReason \<noteq> ''messaging_unavailable'' \<and>
     (exitCode = 1 \<or> stopReason = ''rate_limited'')"

text \<open>An exit code that names a stop reason is the code of that reason, and the success code is nobody else's.\<close>

lemma exit_code_roundtrip: "StopReasonForExitCode c \<noteq> '''' \<Longrightarrow> ExitCodeForStopReason (StopReasonForExitCode c) = c"
  by (auto simp: StopReasonForExitCode_def ExitCodeForStopReason_def)

lemma exit_code_success [simp]: "StopReasonForExitCode c = ''end_turn'' \<longleftrightarrow> c = 0"
  by (simp add: StopReasonForExitCode_def)

section \<open>Backoff\<close>

definition second :: int64 where
  "second = 1000000000"

text \<open>\<^verbatim>\<open>time.Duration(1<<uint(retry+1)) * time.Second\<close> on 64 bits; a negative count wraps to a huge one.\<close>

definition BackoffDuration :: "int \<Rightarrow> int64" where
  "BackoffDuration retry =
     (let d = (if 0 \<le> retry + 1 then push_bit (nat (retry + 1)) 1 else 0) * second in
      if sint (30 * second) < sint d then 30 * second else d)"

definition retryWaitCeiling :: int64 where
  "retryWaitCeiling = 5 * 60 * second"

text \<open>
  \<open>remaining\<close> is the time until the deadline of the context, when it has one. The result: the delay of the timer,
  \<open>None\<close> for no timer, and whether an attempt is worth making.
\<close>

definition RetryWait :: "int option \<Rightarrow> int64 \<Rightarrow> int64 \<Rightarrow> int64 option \<times> bool" where
  "RetryWait remaining backoff retryAfter =
     (let hinted = 0 < sint retryAfter;
          hint = retryAfter * second;
          delay = (if hinted \<and> sint backoff < sint hint then hint else backoff) in
      if hinted \<and> 300 < sint retryAfter then (None, False)
      else (case remaining of
              Some left \<Rightarrow> if left < sint delay then (None, \<not> hinted) else (Some delay, True)
            | None \<Rightarrow> (Some delay, True)))"

section \<open>Required files\<close>

text \<open>
  \<open>stat\<close> is the environment: whether a path is a directory, and its size; \<open>absOf\<close> is \<^verbatim>\<open>filepath.Abs\<close>.
\<close>

definition requiredFilePath :: "(string \<Rightarrow> string result) \<Rightarrow> string \<Rightarrow> string \<Rightarrow> string option" where
  "requiredFilePath absOf workDir path =
     (if IsAbs path then None
      else (case absOf workDir of
              Inl _ \<Rightarrow> None
            | Inr dir \<Rightarrow>
                (let cleanWorkDir = Clean dir; fullPath = Clean (Join cleanWorkDir path) in
                 if fullPath \<noteq> cleanWorkDir \<and> take (length (cleanWorkDir @ ''/'')) fullPath \<noteq> cleanWorkDir @ ''/''
                 then None else Some fullPath)))"

definition requiredFileExists ::
  "(string \<Rightarrow> string result) \<Rightarrow> (string \<Rightarrow> (bool \<times> int) option) \<Rightarrow> string \<Rightarrow> string \<Rightarrow> bool \<Rightarrow> bool" where
  "requiredFileExists absOf stat workDir path nonEmpty =
     (case Option.bind (requiredFilePath absOf workDir path) stat of
        None \<Rightarrow> False
      | Some (isDir, bytes) \<Rightarrow> \<not> isDir \<and> (nonEmpty \<longrightarrow> 0 < bytes))"

definition missingFiles :: "(string \<Rightarrow> bool) \<Rightarrow> string list \<Rightarrow> string list" where
  "missingFiles there paths = filter (\<lambda>p. \<not> there p) (fold (\<lambda>p seen. if p = '''' \<or> p \<in> set seen then seen else seen @ [p]) paths [])"

definition MissingRequiredFiles ::
  "(string \<Rightarrow> string result) \<Rightarrow> (string \<Rightarrow> (bool \<times> int) option) \<Rightarrow> string \<Rightarrow> phase_requirements \<Rightarrow> string list" where
  "MissingRequiredFiles absOf stat workDir req =
     (let missing = missingFiles (\<lambda>p. requiredFileExists absOf stat workDir p False) (pr_Files req) in
      missing @ filter (\<lambda>p. p \<noteq> '''' \<and> \<not> requiredFileExists absOf stat workDir p True \<and> p \<notin> set missing) (pr_NonEmptyFiles req))"

definition commaJoin :: "string list \<Rightarrow> string" where
  "commaJoin xs = (case xs of [] \<Rightarrow> '''' | x # xs \<Rightarrow> foldl (\<lambda>out s. out @ '', '' @ s) x xs)"

definition IncompleteNudgePrompt :: "string \<Rightarrow> string list \<Rightarrow> string" where
  "IncompleteNudgePrompt custom missing =
     (if TrimSpace custom \<noteq> '''' then custom
      else ''Continue. The phase is incomplete because required output files are missing: '' @ commaJoin missing @
           ''. Complete the assigned task now and write the required files. Do not ask for permission to continue.'')"

section \<open>Validation of phases\<close>

definition ValidatePhaseRoster :: "phase \<Rightarrow> unit result" where
  "ValidatePhaseRoster p =
     bindE (require (\<not> (ph_RosterEntry p \<noteq> '''' \<and> (ph_Agent p \<noteq> '''' \<or> ph_Model p \<noteq> '''')))
       (Errorf ''phase[name %s]: roster_entry is mutually exclusive with agent and model'' [ph_Name p])) (\<lambda>_.
     require (\<not> (ph_RosterEntry p \<noteq> '''' \<and> (ph_LoopFile p \<noteq> '''' \<or> ph_TeamFile p \<noteq> '''')))
       (Errorf ''phase[name %s]: roster_entry is mutually exclusive with loop_file and team_file'' [ph_Name p]))"

definition ValidatePhaseMutualExclusions :: "phase \<Rightarrow> unit result" where
  "ValidatePhaseMutualExclusions p =
     bindE (ValidatePhaseRoster p) (\<lambda>_.
     bindE (require (\<not> (ph_Prompt p \<noteq> '''' \<and> ph_PromptFile p \<noteq> ''''))
       (Errorf ''phase[name %s]: prompt and prompt_file are mutually exclusive'' [ph_Name p])) (\<lambda>_.
     bindE (require (\<not> (ph_Prompt p \<noteq> '''' \<and> (ph_LoopFile p \<noteq> '''' \<or> ph_TeamFile p \<noteq> '''')))
       (Errorf ''phase[name %s]: prompt is mutually exclusive with loop_file and team_file'' [ph_Name p])) (\<lambda>_.
     bindE (require (\<not> (ph_PromptFile p \<noteq> '''' \<and> (ph_LoopFile p \<noteq> '''' \<or> ph_TeamFile p \<noteq> '''')))
       (Errorf ''phase[name %s]: prompt_file is mutually exclusive with loop_file and team_file'' [ph_Name p])) (\<lambda>_.
     require (\<not> (ph_LoopFile p \<noteq> '''' \<and> ph_TeamFile p \<noteq> ''''))
       (Errorf ''phase[name %s]: loop_file and team_file are mutually exclusive'' [ph_Name p])))))"

definition ValidatePhaseHasPrompt :: "phase \<Rightarrow> unit result" where
  "ValidatePhaseHasPrompt p =
     bindE (require (\<not> (ph_Prompt p = '''' \<and> ph_PromptFile p = '''' \<and> ph_LoopFile p = '''' \<and> ph_TeamFile p = ''''))
       (Errorf ''prompt must not be empty (set prompt, prompt_file, loop_file, or team_file)'' [])) (\<lambda>_.
     bindE (require (\<not> (ph_Prompt p \<noteq> '''' \<and> (ph_LoopFile p \<noteq> '''' \<or> ph_TeamFile p \<noteq> '''')))
       (Errorf ''prompt is mutually exclusive with loop_file and team_file'' [])) (\<lambda>_.
     bindE (require (\<not> (ph_PromptFile p \<noteq> '''' \<and> (ph_LoopFile p \<noteq> '''' \<or> ph_TeamFile p \<noteq> '''')))
       (Errorf ''prompt_file is mutually exclusive with loop_file and team_file'' [])) (\<lambda>_.
     require (\<not> (ph_LoopFile p \<noteq> '''' \<and> ph_TeamFile p \<noteq> ''''))
       (Errorf ''loop_file and team_file are mutually exclusive'' []))))"

definition ValidatePhaseNames :: "phase list \<Rightarrow> unit result" where
  "ValidatePhaseNames phases =
     bindE (foldE (\<lambda>names p.
        if ph_Name p = '''' then Inr names
        else bindE (require (ph_Name p \<noteq> ''(initial)'') (Errorf ''duplicate phase name: \"(initial)\"'' [])) (\<lambda>_.
             bindE (require (ph_Name p \<notin> set names) (Errorf ''duplicate phase name: %q'' [ph_Name p])) (\<lambda>_.
             Inr (names @ [ph_Name p])))) [] phases) (\<lambda>_. Inr ())"

text \<open>\<open>readFile\<close> is \<^verbatim>\<open>os.ReadFile\<close>.\<close>

definition resolvePhaseFile :: "(string \<Rightarrow> string result) \<Rightarrow> string \<Rightarrow> phase \<Rightarrow> phase result" where
  "resolvePhaseFile readFile configDir p =
     (if ph_PromptFile p = '''' then Inr p
      else
        bindE (require (ph_Prompt p = '''') (Errorf ''phase[name %s]: prompt and prompt_file are mutually exclusive'' [ph_Name p])) (\<lambda>_.
        let absPath = (if IsAbs (ph_PromptFile p) then ph_PromptFile p else Join configDir (ph_PromptFile p)) in
        bindE (wrapE ''phase[name %s]: reading prompt_file %q: '' [ph_Name p, ph_PromptFile p] (readFile absPath)) (\<lambda>contents.
        Inr (p\<lparr>ph_Prompt := contents, ph_PromptFile := ''''\<rparr>))))"

definition ResolvePhaseFiles :: "(string \<Rightarrow> string result) \<Rightarrow> string \<Rightarrow> phase list \<Rightarrow> phase list result" where
  "ResolvePhaseFiles readFile configDir = mapE (resolvePhaseFile readFile configDir)"

section \<open>The loop configuration\<close>

record loop_config =
  lc_MaxIterations :: int
  lc_RosterFile :: string
  lc_Pre :: "phase list"
  lc_Loop :: "phase list"
  lc_Post :: "phase list"

definition InsertInitialPrompt :: "string \<Rightarrow> loop_config \<Rightarrow> loop_config" where
  "InsertInitialPrompt prompt c = c\<lparr>lc_Pre :=
     \<lparr>ph_Name = ''(initial)'', ph_Prompt = prompt, ph_PromptFile = '''', ph_LoopFile = '''', ph_TeamFile = '''',
      ph_ResumeFromPrevious = False, ph_Conditional = False, ph_Agent = '''', ph_Model = '''', ph_RosterEntry = '''',
      ph_Requires = \<lparr>pr_Files = [], pr_NonEmptyFiles = []\<rparr>, ph_OnIncomplete = \<lparr>oi_Nudge = '''', oi_MaxNudges = 0\<rparr>\<rparr>
     # lc_Pre c\<rparr>"

definition preValidate :: "loop_config \<Rightarrow> unit result" where
  "preValidate c =
     checkAll (\<lambda>p. wrapE ''loop config: '' [] (ValidatePhaseMutualExclusions p)) (lc_Pre c @ lc_Loop c @ lc_Post c)"

definition validateLoopPhase :: "nat \<times> phase \<Rightarrow> unit result" where
  "validateLoopPhase ip =
     (case ip of (i, p) \<Rightarrow>
        bindE (wrapE ''loop config: '' [] (ValidatePhaseRoster p)) (\<lambda>_.
        bindE (require (ph_Name p \<noteq> '''') (Errorf ''loop config: phase[index %d]: name must not be empty'' [natString i])) (\<lambda>_.
        bindE (require (\<not> (ph_Conditional p \<or> ph_Agent p \<noteq> '''' \<or> ph_Model p \<noteq> ''''))
          (Errorf ''loop config: phase[name %s]: conditional, agent, and model are only supported on team members'' [ph_Name p])) (\<lambda>_.
        wrapE ''loop config: phase[name %s]: '' [ph_Name p] (ValidatePhaseHasPrompt p)))))"

definition ValidateLoopConfig :: "loop_config \<Rightarrow> unit result" where
  "ValidateLoopConfig c =
     bindE (require (\<not> (lc_Pre c = [] \<and> lc_Loop c = [])) (Errorf ''loop config: at least one of pre or loop must be non-empty'' [])) (\<lambda>_.
     bindE (require (\<not> (lc_Loop c \<noteq> [] \<and> lc_MaxIterations c < 1))
       (Errorf ''loop config: max_iterations must be >= 1 when loop phases are present'' [])) (\<lambda>_.
     bindE (checkAll validateLoopPhase (enumerate 0 (lc_Pre c))) (\<lambda>_.
     bindE (checkAll validateLoopPhase (enumerate 0 (lc_Loop c))) (\<lambda>_.
     bindE (checkAll validateLoopPhase (enumerate 0 (lc_Post c))) (\<lambda>_.
     wrapE ''loop config: '' [] (ValidatePhaseNames (lc_Pre c @ lc_Loop c @ lc_Post c)))))))"

text \<open>\<open>known\<close>: whether the loaded roster has the entry; \<open>None\<close> when there is no roster.\<close>

definition validateRosterEntries :: "(string \<Rightarrow> unit result) option \<Rightarrow> phase list \<Rightarrow> unit result" where
  "validateRosterEntries known =
     checkAll (\<lambda>p.
       if ph_RosterEntry p = '''' then Inr ()
       else (case known of
               None \<Rightarrow> Inl (Errorf ''loop config: phase[name %s]: roster entry %q requires a roster file'' [ph_Name p, ph_RosterEntry p])
             | Some entry \<Rightarrow> wrapE ''loop config: phase[name %s]: '' [ph_Name p] (entry (ph_RosterEntry p))))"

text \<open>\<open>loaded\<close> is the decoded file, \<open>roster\<close> the outcome of \<^verbatim>\<open>rosterconfig.LoadForConfig\<close> on its roster file.\<close>

definition LoadLoopConfigWithRoster ::
  "(string \<Rightarrow> string result) \<Rightarrow> string \<Rightarrow> loop_config result \<Rightarrow> (string \<Rightarrow> (string \<Rightarrow> unit result) option result) \<Rightarrow> loop_config result" where
  "LoadLoopConfigWithRoster readFile configDir loaded roster =
     bindE loaded (\<lambda>raw.
     let cfg = (if lc_MaxIterations raw = 0 then raw\<lparr>lc_MaxIterations := 10\<rparr> else raw) in
     bindE (preValidate cfg) (\<lambda>_.
     bindE (ResolvePhaseFiles readFile configDir (lc_Pre cfg)) (\<lambda>pre.
     bindE (ResolvePhaseFiles readFile configDir (lc_Loop cfg)) (\<lambda>loop.
     bindE (ResolvePhaseFiles readFile configDir (lc_Post cfg)) (\<lambda>post.
     let cfg = cfg\<lparr>lc_Pre := pre, lc_Loop := loop, lc_Post := post\<rparr> in
     bindE (ValidateLoopConfig cfg) (\<lambda>_.
     bindE (roster (lc_RosterFile cfg)) (\<lambda>known.
     bindE (validateRosterEntries known (lc_Pre cfg @ lc_Loop cfg @ lc_Post cfg)) (\<lambda>_.
     Inr cfg))))))))"

end
