(* ===== verification/Lp_Runner.thy ===== *)
theory Lp_Runner
  imports Lp_Phase "HOL-Library.State_Monad"
begin

text \<open>
  The loop runner (\<^verbatim>\<open>src/internal/looprunner/runner.go\<close>): phases before, in and after a bounded loop, each a
  series of attempts with retries and with nudges for missing outputs. The model is a state monad over what the run leaves: the
  events it writes and the attempts it launches. Everything outside is the environment, asked at numbered moments
  (\<open>lw_Tick\<close>): the context, the attempts, nested runs, the files, \<^verbatim>\<open>git\<close>, the event sink and the broker.
\<close>

section \<open>Data\<close>

record attempt_result =
  pa_ExitCode :: int
  pa_SessionID :: string
  pa_StopReason :: string
  pa_RetryAfter :: int64
  pa_LoopDirective :: string
  pa_LoopLabel :: string
  pa_BrokerRunID :: string

definition noResult :: attempt_result where
  "noResult = \<lparr>pa_ExitCode = 0, pa_SessionID = '''', pa_StopReason = '''', pa_RetryAfter = 0, pa_LoopDirective = '''',
     pa_LoopLabel = '''', pa_BrokerRunID = ''''\<rparr>"

record nested_result =
  nr_ExitCode :: int
  nr_StopReason :: string
  nr_SessionID :: string
  nr_Reason :: string
  nr_RetryAfter :: int64

record run_result =
  rr_ExitCode :: int
  rr_StopReason :: string
  rr_SessionID :: string
  rr_Reason :: string
  rr_RetryAfter :: int64
  rr_MarkerDirective :: string
  rr_MarkerLabel :: string

definition plainResult :: "int \<Rightarrow> string \<Rightarrow> run_result" where
  "plainResult code reason = \<lparr>rr_ExitCode = code, rr_StopReason = reason, rr_SessionID = '''', rr_Reason = '''',
     rr_RetryAfter = 0, rr_MarkerDirective = '''', rr_MarkerLabel = ''''\<rparr>"

datatype ctx_error = Canceled | DeadlineExceeded

text \<open>The events of a run with the fields that its decisions determine; times and the run id are left out.\<close>

datatype loop_event =
    LoopStart int nat nat nat
  | LoopEnd string string int
  | PhaseStart string int string
  | PhaseEnd string int string string "loop_marker option"
  | Retrying int int

record attempt_call =
  ac_Phase :: phase
  ac_Launch :: int
  ac_Iteration :: int
  ac_PrevSession :: string

text \<open>
  \<open>le_Waited\<close> is what ends a wait that has a timer: the timer (\<open>None\<close>) or the context; \<open>le_Done\<close> ends a wait that has none.
\<close>

record loop_env =
  le_Err :: "nat \<Rightarrow> ctx_error option"
  le_Waited :: "nat \<Rightarrow> ctx_error option"
  le_Done :: "nat \<Rightarrow> ctx_error"
  le_Remaining :: "nat \<Rightarrow> int option"
  le_Attempt :: "nat \<Rightarrow> attempt_call \<Rightarrow> attempt_result \<times> error option"
  le_Nested :: "(nat \<Rightarrow> string \<Rightarrow> string \<Rightarrow> nested_result result) option"
  le_Write :: "nat \<Rightarrow> loop_event \<Rightarrow> unit result"
  le_Abs :: "string \<Rightarrow> string result"
  le_Stat :: "nat \<Rightarrow> string \<Rightarrow> (bool \<times> int) option"
  le_Commit :: "nat \<Rightarrow> string"
  le_Render :: "nat \<Rightarrow> string \<Rightarrow> int \<Rightarrow> string \<Rightarrow> string result"
  le_LastFinish :: "nat \<Rightarrow> string \<Rightarrow> string"

record run_options =
  ro_WorkDir :: string
  ro_Config :: loop_config
  ro_MaxRetries :: int
  ro_ConfigDir :: string

record loop_world =
  lw_Events :: "loop_event list"
  lw_Calls :: "attempt_call list"
  lw_Tick :: nat

type_synonym 'a loop_m = "(loop_world, 'a) state"

section \<open>Access to the environment\<close>

definition moment :: "nat loop_m" where
  "moment = State (\<lambda>w. (lw_Tick w, w\<lparr>lw_Tick := Suc (lw_Tick w)\<rparr>))"

definition ask :: "(nat \<Rightarrow> 'a) \<Rightarrow> 'a loop_m" where
  "ask f = do { n \<leftarrow> moment; State_Monad.return (f n) }"

text \<open>An event that the sink refuses is not in the trace.\<close>

definition emitEvent :: "loop_env \<Rightarrow> loop_event \<Rightarrow> unit result loop_m" where
  "emitEvent le ev = State (\<lambda>w.
     case le_Write le (lw_Tick w) ev of
       Inl e \<Rightarrow> (Inl e, w\<lparr>lw_Tick := Suc (lw_Tick w)\<rparr>)
     | Inr _ \<Rightarrow> (Inr (), w\<lparr>lw_Tick := Suc (lw_Tick w), lw_Events := lw_Events w @ [ev]\<rparr>))"

definition PhaseAttempt :: "loop_env \<Rightarrow> attempt_call \<Rightarrow> (attempt_result \<times> error option) loop_m" where
  "PhaseAttempt le call = State (\<lambda>w.
     (le_Attempt le (lw_Tick w) call, w\<lparr>lw_Tick := Suc (lw_Tick w), lw_Calls := lw_Calls w @ [call]\<rparr>))"

definition missingOf :: "loop_env \<Rightarrow> run_options \<Rightarrow> phase \<Rightarrow> string list loop_m" where
  "missingOf le ro p = ask (\<lambda>n. MissingRequiredFiles (le_Abs le) (le_Stat le n) (ro_WorkDir ro) (ph_Requires p))"

definition emitLoopEnd :: "loop_env \<Rightarrow> string \<Rightarrow> string \<Rightarrow> int \<Rightarrow> unit loop_m" where
  "emitLoopEnd le reason label iters = do { _ \<leftarrow> emitEvent le (LoopEnd reason label iters); State_Monad.return () }"

definition enrichFromBroker :: "loop_env \<Rightarrow> attempt_result \<Rightarrow> attempt_result loop_m" where
  "enrichFromBroker le r =
     (if pa_BrokerRunID r = '''' then State_Monad.return r
      else do { last \<leftarrow> ask (\<lambda>n. le_LastFinish le n (pa_BrokerRunID r));
                State_Monad.return (if pa_StopReason r = '''' \<and> last \<noteq> '''' then r\<lparr>pa_StopReason := last\<rparr> else r) })"

section \<open>Attempts of a phase\<close>

definition phaseStopReason :: "attempt_result \<Rightarrow> string" where
  "phaseStopReason r = (if pa_StopReason r \<noteq> '''' then pa_StopReason r else StopReasonForExitCode (pa_ExitCode r))"

definition markerFromResult :: "attempt_result \<Rightarrow> loop_marker option" where
  "markerFromResult r =
     (if pa_LoopDirective r = '''' then None
      else Some \<lparr>lm_Directive = pa_LoopDirective r, lm_Label = pa_LoopLabel r\<rparr>)"

text \<open>What \<^verbatim>\<open>wrappedAttempt\<close> captures: the retries and launches so far and the most severe marker of the failed attempts.\<close>

record attempt_state =
  as_Retries :: int
  as_Launches :: int
  as_Directive :: string
  as_Label :: string

definition judgeAttempt ::
  "attempt_result \<Rightarrow> error option \<Rightarrow> attempt_state \<Rightarrow> attempt_result \<times> error option \<times> attempt_state" where
  "judgeAttempt r err st0 =
     (let st = st0\<lparr>as_Launches := as_Launches st0 + 1, as_Retries := as_Retries st0 + 1\<rparr>;
          st' = (if pa_ExitCode r \<noteq> 1 \<or> LoopDirectiveSeverity (as_Directive st) < LoopDirectiveSeverity (pa_LoopDirective r)
                 then st\<lparr>as_Directive := pa_LoopDirective r, as_Label := pa_LoopLabel r\<rparr> else st) in
      if err \<noteq> None then (r, err, st)
      else (r\<lparr>pa_LoopDirective := as_Directive st', pa_LoopLabel := as_Label st'\<rparr>, None, st'))"

definition wrappedAttempt ::
  "loop_env \<Rightarrow> run_options \<Rightarrow> phase \<Rightarrow> int \<Rightarrow> string \<Rightarrow> attempt_state \<Rightarrow> (attempt_result \<times> error option \<times> attempt_state) loop_m" where
  "wrappedAttempt le ro p iteration prev st =
     do { _ \<leftarrow> (if 0 < as_Retries st \<and> as_Retries st \<le> ro_MaxRetries ro
               then emitEvent le (Retrying (as_Retries st) (ro_MaxRetries ro)) else State_Monad.return (Inr ()));
          (r, err) \<leftarrow> PhaseAttempt le
            \<lparr>ac_Phase = p, ac_Launch = as_Launches st, ac_Iteration = iteration, ac_PrevSession = prev\<rparr>;
          State_Monad.return (judgeAttempt r err st) }"

text \<open>\<^verbatim>\<open>runPhaseWithRetry\<close>: \<open>n\<close> retries are left, the next is number \<open>retry\<close>.\<close>

fun retryLoop ::
  "loop_env \<Rightarrow> run_options \<Rightarrow> phase \<Rightarrow> int \<Rightarrow> string \<Rightarrow> nat \<Rightarrow> int \<Rightarrow> attempt_result \<Rightarrow> attempt_state \<Rightarrow>
   (attempt_result \<times> error option \<times> attempt_state) loop_m" where
  "retryLoop le ro p iteration prev 0 retry r st = State_Monad.return (r, None, st)"
| "retryLoop le ro p iteration prev (Suc n) retry r st =
     (if \<not> IsRetryableFailure (pa_ExitCode r) (pa_StopReason r) then State_Monad.return (r, None, st)
      else do {
        left \<leftarrow> ask (le_Remaining le);
        case RetryWait left (BackoffDuration (retry - 1)) (pa_RetryAfter r) of
          (timer, again) \<Rightarrow>
            if \<not> again then State_Monad.return (r, None, st)
            else do {
              ended \<leftarrow> (case timer of None \<Rightarrow> ask (\<lambda>n. Some (le_Done le n)) | Some _ \<Rightarrow> ask (le_Waited le));
              case ended of
                Some DeadlineExceeded \<Rightarrow>
                  State_Monad.return (r\<lparr>pa_ExitCode := ExitCodeForStopReason ''timeout'', pa_StopReason := ''timeout''\<rparr>, None, st)
              | Some Canceled \<Rightarrow> State_Monad.return (r, None, st)
              | None \<Rightarrow> do {
                  (r, err, st) \<leftarrow> wrappedAttempt le ro p iteration prev st;
                  if err \<noteq> None then State_Monad.return (r, err, st)
                  else retryLoop le ro p iteration prev n (retry + 1) r st } } })"

definition runPhaseWithRetry ::
  "loop_env \<Rightarrow> run_options \<Rightarrow> phase \<Rightarrow> int \<Rightarrow> string \<Rightarrow> (attempt_result \<times> error option \<times> attempt_state) loop_m" where
  "runPhaseWithRetry le ro p iteration prev =
     do { (r, err, st) \<leftarrow> wrappedAttempt le ro p iteration prev
            \<lparr>as_Retries = 0, as_Launches = 0, as_Directive = '''', as_Label = ''''\<rparr>;
          if err \<noteq> None then State_Monad.return (r, err, st)
          else retryLoop le ro p iteration prev (nat (ro_MaxRetries ro)) 1 r st }"

text \<open>
  \<^verbatim>\<open>completePhaseRequirements\<close>: \<open>n\<close> nudges are left. \<open>first\<close> is the result before the nudges; the results of the nudges
  live in a variable of the loop body, so that the result after the last one is built from \<open>first\<close>.
\<close>

definition stillIncomplete :: "attempt_result \<Rightarrow> string list \<Rightarrow> bool" where
  "stillIncomplete r missing \<longleftrightarrow> \<not> (missing = [] \<or> pa_ExitCode r \<noteq> 0 \<or> phaseStopReason r \<noteq> ''end_turn'')"

fun nudgeLoop ::
  "loop_env \<Rightarrow> run_options \<Rightarrow> phase \<Rightarrow> int \<Rightarrow> attempt_result \<Rightarrow> nat \<Rightarrow> int \<Rightarrow> string \<Rightarrow> string list \<Rightarrow>
   (attempt_result \<times> error option) loop_m" where
  "nudgeLoop le ro p iteration first 0 launch session missing =
     State_Monad.return
       (noResult\<lparr>pa_ExitCode := ExitCodeForStopReason ''incomplete_output'', pa_SessionID := session,
          pa_StopReason := ''incomplete_output'', pa_LoopDirective := pa_LoopDirective first,
          pa_LoopLabel := pa_LoopLabel first, pa_BrokerRunID := pa_BrokerRunID first\<rparr>, None)"
| "nudgeLoop le ro p iteration first (Suc n) launch session missing =
     do { ended \<leftarrow> ask (le_Err le);
          case ended of
            Some DeadlineExceeded \<Rightarrow>
              State_Monad.return (first\<lparr>pa_ExitCode := ExitCodeForStopReason ''timeout'', pa_StopReason := ''timeout''\<rparr>, None)
          | Some Canceled \<Rightarrow>
              State_Monad.return (first\<lparr>pa_ExitCode := ExitCodeForStopReason ''cancelled'', pa_StopReason := ''cancelled''\<rparr>, None)
          | None \<Rightarrow> do {
              (r, err) \<leftarrow> PhaseAttempt le
                \<lparr>ac_Phase = p\<lparr>ph_Prompt := IncompleteNudgePrompt (oi_Nudge (ph_OnIncomplete p)) missing\<rparr>,
                 ac_Launch = launch, ac_Iteration = iteration, ac_PrevSession = session\<rparr>;
              if err \<noteq> None then State_Monad.return (r, err)
              else do {
                missing \<leftarrow> missingOf le ro p;
                if stillIncomplete r missing then nudgeLoop le ro p iteration first n (launch + 1) (pa_SessionID r) missing
                else State_Monad.return (r, None) } } }"

definition maxNudges :: "phase \<Rightarrow> nat" where
  "maxNudges p = (if oi_MaxNudges (ph_OnIncomplete p) = 0 then 1 else nat (oi_MaxNudges (ph_OnIncomplete p)))"

definition completePhaseRequirements ::
  "loop_env \<Rightarrow> run_options \<Rightarrow> phase \<Rightarrow> int \<Rightarrow> attempt_result \<Rightarrow> int \<Rightarrow> (attempt_result \<times> error option) loop_m" where
  "completePhaseRequirements le ro p iteration r launches =
     do { missing \<leftarrow> missingOf le ro p;
          if stillIncomplete r missing
          then nudgeLoop le ro p iteration r (maxNudges p) launches (pa_SessionID r) missing
          else State_Monad.return (r, None) }"

section \<open>One phase\<close>

definition nestedLoopDirective :: "nested_result \<Rightarrow> string" where
  "nestedLoopDirective r = (if nr_StopReason r = ''blocked'' then ''abort'' else '''')"

definition nestedPhase :: "loop_env \<Rightarrow> run_options \<Rightarrow> phase \<Rightarrow> attempt_result result loop_m" where
  "nestedPhase le ro p =
     (case le_Nested le of
        None \<Rightarrow> State_Monad.return (Inl (Errorf
          ''loop config: phase %q has loop_file or team_file but NestedRun is not configured'' [ph_Name p]))
      | Some run \<Rightarrow>
          (let file = (if ph_LoopFile p \<noteq> '''' then ph_LoopFile p else ph_TeamFile p);
               configPath = (if \<not> IsAbs file \<and> ro_ConfigDir ro \<noteq> '''' then Join (ro_ConfigDir ro) file else file);
               runType = (if ph_TeamFile p \<noteq> '''' then ''team'' else ''loop'') in
           do { r \<leftarrow> ask (\<lambda>n. run n configPath runType);
                State_Monad.return (bindE (wrapE ''loop config: phase %q nested run: '' [ph_Name p] r) (\<lambda>nested.
                  Inr (noResult\<lparr>pa_ExitCode := nr_ExitCode nested, pa_SessionID := nr_SessionID nested,
                    pa_StopReason := nr_StopReason nested, pa_RetryAfter := nr_RetryAfter nested,
                    pa_LoopDirective := nestedLoopDirective nested, pa_LoopLabel := nr_Reason nested\<rparr>))) }))"

text \<open>The attempts of a direct phase between its two events; the second event is deferred and reports the final result.\<close>

definition attemptPhase ::
  "loop_env \<Rightarrow> run_options \<Rightarrow> phase \<Rightarrow> string \<Rightarrow> int \<Rightarrow> string \<Rightarrow> (attempt_result \<times> error option) loop_m" where
  "attemptPhase le ro p rendered iteration prevSession =
     do { (r, err, st) \<leftarrow> runPhaseWithRetry le ro (p\<lparr>ph_Prompt := rendered\<rparr>) iteration prevSession;
          if err \<noteq> None then State_Monad.return (r, err)
          else completePhaseRequirements le ro p iteration r (as_Launches st) }"

definition executePhase ::
  "loop_env \<Rightarrow> run_options \<Rightarrow> phase \<Rightarrow> string \<Rightarrow> int \<Rightarrow> string \<Rightarrow> string \<Rightarrow> attempt_result result loop_m" where
  "executePhase le ro p kind iteration prevSession prevCommit =
     (if ph_LoopFile p \<noteq> '''' \<or> ph_TeamFile p \<noteq> '''' then nestedPhase le ro p
      else do {
        rendered \<leftarrow> ask (\<lambda>n. le_Render le n (ph_Prompt p) iteration prevCommit);
        case rendered of
          Inl e \<Rightarrow> State_Monad.return (wrapE ''render prompt for phase %q: '' [ph_Name p] (Inl e))
        | Inr prompt \<Rightarrow> do {
            started \<leftarrow> emitEvent le (PhaseStart (ph_Name p) iteration kind);
            case started of
              Inl e \<Rightarrow> State_Monad.return (Inl e)
            | Inr _ \<Rightarrow> do {
                (r, err) \<leftarrow> attemptPhase le ro p prompt iteration prevSession;
                _ \<leftarrow> emitEvent le (PhaseEnd (ph_Name p) iteration (phaseStopReason r) (pa_SessionID r) (markerFromResult r));
                State_Monad.return (case err of None \<Rightarrow> Inr r | Some e \<Rightarrow> Inl e) } } })"

section \<open>The run\<close>

definition cancelledRunResult :: "loop_env \<Rightarrow> ctx_error \<Rightarrow> int \<Rightarrow> run_result loop_m" where
  "cancelledRunResult le err iters =
     (let (reason, code) = (if err = DeadlineExceeded then (''timeout'', 124) else (''cancelled'', 130)) in
      do { emitLoopEnd le reason '''' iters; State_Monad.return (plainResult code reason) })"

text \<open>The ends of a run on an abort marker and on a failed phase.\<close>

definition abortedRun :: "loop_env \<Rightarrow> attempt_result \<Rightarrow> int \<Rightarrow> run_result loop_m" where
  "abortedRun le r iters =
     do { emitLoopEnd le ''abort'' (pa_LoopLabel r) iters;
          State_Monad.return ((plainResult 5 ''blocked'')\<lparr>rr_SessionID := pa_SessionID r, rr_Reason := pa_LoopLabel r\<rparr>) }"

definition failedRun :: "loop_env \<Rightarrow> attempt_result \<Rightarrow> int \<Rightarrow> run_result loop_m" where
  "failedRun le r iters =
     (let stopReason = phaseStopReason r in
      do { emitLoopEnd le (if stopReason = ''timeout'' then ''timeout'' else ''phase_failure'') '''' iters;
           State_Monad.return ((plainResult (pa_ExitCode r) stopReason)\<lparr>rr_SessionID := pa_SessionID r,
             rr_RetryAfter := pa_RetryAfter r\<rparr>) })"

text \<open>
  The phases of one kind in order. The result: an error, or the early end of the run if there is one, and the last commit.
\<close>

fun runSequentialPhases ::
  "loop_env \<Rightarrow> run_options \<Rightarrow> phase list \<Rightarrow> string \<Rightarrow> int \<Rightarrow> string \<Rightarrow> string \<Rightarrow> (run_result option result \<times> string) loop_m" where
  "runSequentialPhases le ro [] kind iters prevSession commit = State_Monad.return (Inr None, commit)"
| "runSequentialPhases le ro (p # ps) kind iters prevSession commit =
     do { before \<leftarrow> ask (le_Err le);
          case before of
            Some e \<Rightarrow> do { r \<leftarrow> cancelledRunResult le e iters; State_Monad.return (Inr (Some r), commit) }
          | None \<Rightarrow> do {
              res \<leftarrow> executePhase le ro p kind 0 (if ph_ResumeFromPrevious p then prevSession else '''') commit;
              case res of
                Inl e \<Rightarrow> do { emitLoopEnd le ''phase_failure'' '''' iters; State_Monad.return (Inl e, commit) }
              | Inr r0 \<Rightarrow> do {
                  r \<leftarrow> enrichFromBroker le r0;
                  commit \<leftarrow> ask (le_Commit le);
                  after \<leftarrow> ask (le_Err le);
                  case after of
                    Some e \<Rightarrow> do { c \<leftarrow> cancelledRunResult le e iters; State_Monad.return (Inr (Some c), commit) }
                  | None \<Rightarrow>
                      if pa_LoopDirective r = ''abort''
                      then do { c \<leftarrow> abortedRun le r iters; State_Monad.return (Inr (Some c), commit) }
                      else if pa_ExitCode r \<noteq> 0
                      then do { c \<leftarrow> failedRun le r iters; State_Monad.return (Inr (Some c), commit) }
                      else runSequentialPhases le ro ps kind iters (pa_SessionID r) commit } } }"

definition exitedRun :: "loop_env \<Rightarrow> run_options \<Rightarrow> attempt_result \<Rightarrow> int \<Rightarrow> string \<Rightarrow> run_result result loop_m" where
  "exitedRun le ro r iters commit =
     do { (post, _) \<leftarrow> runSequentialPhases le ro (lc_Post (ro_Config ro)) ''post'' iters '''' commit;
          case post of
            Inl e \<Rightarrow> State_Monad.return (Inl e)
          | Inr (Some early) \<Rightarrow> State_Monad.return (Inr early)
          | Inr None \<Rightarrow> do {
              emitLoopEnd le ''marker'' (pa_LoopLabel r) iters;
              State_Monad.return (Inr ((plainResult 0 ''end_turn'')\<lparr>rr_SessionID := pa_SessionID r,
                rr_MarkerDirective := pa_LoopDirective r, rr_MarkerLabel := pa_LoopLabel r\<rparr>)) } }"

text \<open>
  One iteration over the phases from index \<open>i\<close>; \<open>sessions\<close> are the sessions of the earlier phases. \<open>Inr commit\<close>: the
  iteration is complete; \<open>Inl\<close>: the run has ended.
\<close>

fun loopPhases ::
  "loop_env \<Rightarrow> run_options \<Rightarrow> int \<Rightarrow> int \<Rightarrow> nat \<Rightarrow> phase list \<Rightarrow> (nat \<Rightarrow> string) \<Rightarrow> string \<Rightarrow>
   (run_result result + string) loop_m" where
  "loopPhases le ro iteration iters i [] sessions commit = State_Monad.return (Inr commit)"
| "loopPhases le ro iteration iters i (p # ps) sessions commit =
     do { res \<leftarrow> executePhase le ro p ''loop'' iteration
            (if ph_ResumeFromPrevious p \<and> 0 < i then sessions (i - 1) else '''') commit;
          case res of
            Inl e \<Rightarrow> do { emitLoopEnd le ''phase_failure'' '''' iters; State_Monad.return (Inl (Inl e)) }
          | Inr r0 \<Rightarrow> do {
              r \<leftarrow> enrichFromBroker le r0;
              commit \<leftarrow> ask (le_Commit le);
              after \<leftarrow> ask (le_Err le);
              case after of
                Some e \<Rightarrow> do { c \<leftarrow> cancelledRunResult le e iters; State_Monad.return (Inl (Inr c)) }
              | None \<Rightarrow>
                  if pa_LoopDirective r = ''abort''
                  then do { c \<leftarrow> abortedRun le r iters; State_Monad.return (Inl (Inr c)) }
                  else if pa_LoopDirective r = ''exit''
                  then do { c \<leftarrow> exitedRun le ro r iters commit; State_Monad.return (Inl c) }
                  else if pa_ExitCode r \<noteq> 0
                  then do { c \<leftarrow> failedRun le r iters; State_Monad.return (Inl (Inr c)) }
                  else loopPhases le ro iteration iters (Suc i) ps (sessions(i := pa_SessionID r)) commit } }"

text \<open>\<open>n\<close> iterations are left, the next is number \<open>iteration\<close>.\<close>

fun iterations ::
  "loop_env \<Rightarrow> run_options \<Rightarrow> nat \<Rightarrow> int \<Rightarrow> string \<Rightarrow> (run_result result + string) loop_m" where
  "iterations le ro 0 iteration commit = State_Monad.return (Inr commit)"
| "iterations le ro (Suc n) iteration commit =
     do { before \<leftarrow> ask (le_Err le);
          case before of
            Some e \<Rightarrow> do { c \<leftarrow> cancelledRunResult le e (iteration - 1); State_Monad.return (Inl (Inr c)) }
          | None \<Rightarrow> do {
              res \<leftarrow> loopPhases le ro iteration (iteration - 1) 0 (lc_Loop (ro_Config ro)) (\<lambda>_. '''') commit;
              case res of
                Inl ended \<Rightarrow> State_Monad.return (Inl ended)
              | Inr commit \<Rightarrow> iterations le ro n (iteration + 1) commit } }"

text \<open>What follows the loop, or the phases before it when there is none.\<close>

definition finishRun :: "loop_env \<Rightarrow> run_options \<Rightarrow> string \<Rightarrow> int \<Rightarrow> string \<Rightarrow> run_result result loop_m" where
  "finishRun le ro reason iters commit =
     do { (post, _) \<leftarrow> runSequentialPhases le ro (lc_Post (ro_Config ro)) ''post'' iters '''' commit;
          case post of
            Inl e \<Rightarrow> State_Monad.return (Inl e)
          | Inr (Some early) \<Rightarrow> State_Monad.return (Inr early)
          | Inr None \<Rightarrow> do { emitLoopEnd le reason '''' iters; State_Monad.return (Inr (plainResult 0 ''end_turn'')) } }"

definition RunLoop :: "loop_env \<Rightarrow> run_options \<Rightarrow> run_result result loop_m" where
  "RunLoop le ro =
     (let c = ro_Config ro; limit = lc_MaxIterations c in
      do { started \<leftarrow> emitEvent le (LoopStart limit (length (lc_Pre c)) (length (lc_Loop c)) (length (lc_Post c)));
           case started of
             Inl e \<Rightarrow> State_Monad.return (Inl e)
           | Inr _ \<Rightarrow> do {
               commit \<leftarrow> ask (le_Commit le);
               (pre, commit) \<leftarrow> runSequentialPhases le ro (lc_Pre c) ''pre'' 0 '''' commit;
               case pre of
                 Inl e \<Rightarrow> State_Monad.return (Inl e)
               | Inr (Some early) \<Rightarrow> State_Monad.return (Inr early)
               | Inr None \<Rightarrow>
                   if lc_Loop c = [] then finishRun le ro ''end_turn'' 0 commit
                   else do {
                     res \<leftarrow> iterations le ro (nat limit) 1 commit;
                     case res of
                       Inl ended \<Rightarrow> State_Monad.return ended
                     | Inr commit \<Rightarrow> finishRun le ro ''max_iterations'' (max 0 limit) commit } } })"

end
