(* ===== verification/Lp_Safety.thy ===== *)
theory Lp_Safety
  imports Lp_Runner
begin

text \<open>
  What every run of a loop leaves: a well-bracketed trace of events whose last one classifies the result, and a
  bounded number of attempts. \<open>leaves\<close> is the contract of a program of the run: what it returns together with the
  events it writes and the attempts it launches.
\<close>

section \<open>Contracts\<close>

definition leaves :: "('a \<Rightarrow> loop_event list \<Rightarrow> attempt_call list \<Rightarrow> bool) \<Rightarrow> 'a loop_m \<Rightarrow> bool" where
  "leaves P m \<longleftrightarrow> (\<forall>w. \<exists>evs calls. lw_Events (snd (run_state m w)) = lw_Events w @ evs \<and>
     lw_Calls (snd (run_state m w)) = lw_Calls w @ calls \<and> P (fst (run_state m w)) evs calls)"

lemma leaves_return: "P x [] [] \<Longrightarrow> leaves P (State_Monad.return x)"
  by (simp add: leaves_def)

lemma leaves_bind:
  assumes "leaves P m" and "\<And>x evs calls. P x evs calls \<Longrightarrow> leaves (\<lambda>y evs' calls'. Q y (evs @ evs') (calls @ calls')) (f x)"
  shows "leaves Q (State_Monad.bind m f)"
  unfolding leaves_def
proof
  fix w
  obtain evs calls where m: "lw_Events (snd (run_state m w)) = lw_Events w @ evs" "lw_Calls (snd (run_state m w)) = lw_Calls w @ calls"
    "P (fst (run_state m w)) evs calls"
    using assms(1) unfolding leaves_def by blast
  obtain evs' calls' where f: "lw_Events (snd (run_state (f (fst (run_state m w))) (snd (run_state m w)))) = lw_Events (snd (run_state m w)) @ evs'"
    "lw_Calls (snd (run_state (f (fst (run_state m w))) (snd (run_state m w)))) = lw_Calls (snd (run_state m w)) @ calls'"
    "Q (fst (run_state (f (fst (run_state m w))) (snd (run_state m w)))) (evs @ evs') (calls @ calls')"
    using assms(2)[OF m(3)] unfolding leaves_def by blast
  show "\<exists>evs calls. lw_Events (snd (run_state (State_Monad.bind m f) w)) = lw_Events w @ evs \<and>
     lw_Calls (snd (run_state (State_Monad.bind m f) w)) = lw_Calls w @ calls \<and> Q (fst (run_state (State_Monad.bind m f) w)) evs calls"
    using m f by (intro exI[of _ "evs @ evs'"] exI[of _ "calls @ calls'"]) (simp add: split_beta)
qed

lemma leaves_mono: "leaves P m \<Longrightarrow> (\<And>x evs calls. P x evs calls \<Longrightarrow> Q x evs calls) \<Longrightarrow> leaves Q m"
  unfolding leaves_def by blast

lemma leaves_ask: "(\<And>x. leaves Q (f x)) \<Longrightarrow> leaves Q (State_Monad.bind (ask g) f)"
  by (rule leaves_bind[of "\<lambda>_ evs calls. evs = [] \<and> calls = []"])
    (auto simp: leaves_def ask_def moment_def State_Monad.return_def)

lemma leaves_attempt:
  "(\<And>r err. leaves (\<lambda>y evs calls. Q y evs (call # calls)) (f (r, err))) \<Longrightarrow> leaves Q (State_Monad.bind (PhaseAttempt le call) f)"
  by (rule leaves_bind[of "\<lambda>_ evs calls. evs = [] \<and> calls = [call]"]) (auto simp: leaves_def PhaseAttempt_def)

lemma leaves_if: "(b \<Longrightarrow> leaves Q m) \<Longrightarrow> (\<not> b \<Longrightarrow> leaves Q n) \<Longrightarrow> leaves Q (if b then m else n)"
  by simp

lemma leaves_option:
  "(x = None \<Longrightarrow> leaves Q m) \<Longrightarrow> (\<And>y. x = Some y \<Longrightarrow> leaves Q (f y)) \<Longrightarrow> leaves Q (case x of None \<Rightarrow> m | Some y \<Rightarrow> f y)"
  by (cases x) simp_all

lemma leaves_sum:
  "(\<And>e. x = Inl e \<Longrightarrow> leaves Q (g e)) \<Longrightarrow> (\<And>y. x = Inr y \<Longrightarrow> leaves Q (f y)) \<Longrightarrow>
   leaves Q (case x of Inl e \<Rightarrow> g e | Inr y \<Rightarrow> f y)"
  by (cases x) simp_all

lemma leaves_prod: "(\<And>a b. x = (a, b) \<Longrightarrow> leaves Q (f a b)) \<Longrightarrow> leaves Q (case x of (a, b) \<Rightarrow> f a b)"
  by (cases x) simp

lemma leaves_ctx: "leaves Q m \<Longrightarrow> leaves Q n \<Longrightarrow> leaves Q (case x of Canceled \<Rightarrow> m | DeadlineExceeded \<Rightarrow> n)"
  by (cases x) simp_all

lemmas leaves_rules = leaves_if leaves_option leaves_sum leaves_prod leaves_ctx leaves_ask leaves_attempt leaves_return

text \<open>An event sink that never fails.\<close>

definition sinkOK :: "loop_env \<Rightarrow> bool" where
  "sinkOK le \<longleftrightarrow> (\<forall>n ev. le_Write le n ev = Inr ())"

lemma leaves_emit:
  "sinkOK le \<Longrightarrow> leaves (\<lambda>y evs calls. Q y (ev # evs) calls) (f (Inr ())) \<Longrightarrow> leaves Q (State_Monad.bind (emitEvent le ev) f)"
  by (rule leaves_bind[of "\<lambda>x evs calls. x = Inr () \<and> evs = [ev] \<and> calls = []"])
    (auto simp: leaves_def emitEvent_def sinkOK_def)

section \<open>The attempts of a phase\<close>

fun retrying :: "loop_event \<Rightarrow> bool" where
  "retrying (Retrying i m) = True"
| "retrying _ = False"

text \<open>Attempts of one phase and iteration with consecutive launch numbers from \<open>l\<close>.\<close>

definition launched :: "phase \<Rightarrow> int \<Rightarrow> int \<Rightarrow> attempt_call list \<Rightarrow> bool" where
  "launched p iteration l calls \<longleftrightarrow>
     map ac_Launch calls = map (\<lambda>i. l + int i) [0..<length calls] \<and>
     (\<forall>c\<in>set calls. ac_Iteration c = iteration \<and> ph_Name (ac_Phase c) = ph_Name p)"

lemma launched_Nil [simp]: "launched p iteration l []"
  by (simp add: launched_def)

lemma launched_Cons [simp]:
  "launched p iteration l (c # calls) \<longleftrightarrow>
     ac_Launch c = l \<and> ac_Iteration c = iteration \<and> ph_Name (ac_Phase c) = ph_Name p \<and> launched p iteration (l + 1) calls"
  by (auto simp: launched_def map_upt_Suc algebra_simps simp del: upt_Suc)

lemma launched_append: "launched p iteration l (cs @ ds) \<longleftrightarrow> launched p iteration l cs \<and> launched p iteration (l + int (length cs)) ds"
  by (induction cs arbitrary: l) (auto simp: algebra_simps)

lemma judgeAttempt_launches: "judgeAttempt r err st = (r', err', st') \<Longrightarrow> as_Launches st' = as_Launches st + 1"
  by (auto simp: judgeAttempt_def Let_def split: if_splits)

lemma wrappedAttempt_leaves:
  assumes "sinkOK le"
  shows "leaves (\<lambda>(r, err, st') evs calls. list_all retrying evs \<and> as_Launches st' = as_Launches st + 1 \<and>
      length calls = 1 \<and> launched p iteration (as_Launches st) calls)
    (wrappedAttempt le ro p iteration prev st)"
  unfolding wrappedAttempt_def
  by (rule leaves_bind[of "\<lambda>_ evs calls. list_all retrying evs \<and> calls = []"])
    (auto simp: leaves_def emitEvent_def PhaseAttempt_def judgeAttempt_launches assms[unfolded sinkOK_def] split: prod.split)


lemma retryLoop_leaves:
  assumes "sinkOK le"
  shows "leaves (\<lambda>(r', err, st') evs calls. list_all retrying evs \<and> as_Launches st' = as_Launches st + int (length calls) \<and>
      length calls \<le> n \<and> launched p iteration (as_Launches st) calls)
    (retryLoop le ro p iteration prev n retry r st)"
proof (induction n arbitrary: retry r st)
  case (Suc n)
  have again: "leaves (\<lambda>(r', err, st') evs calls. list_all retrying evs \<and> as_Launches st' = as_Launches st + int (length calls) \<and>
      length calls \<le> Suc n \<and> launched p iteration (as_Launches st) calls)
    (do { (r, err, st) \<leftarrow> wrappedAttempt le ro p iteration prev st;
          if err \<noteq> None then State_Monad.return (r, err, st) else retryLoop le ro p iteration prev n (retry + 1) r st })"
    by (rule leaves_bind[OF wrappedAttempt_leaves[OF assms]])
      (auto intro!: leaves_return leaves_mono[OF Suc.IH] simp: launched_append)
  have stop: "leaves (\<lambda>(r', err, st') evs calls. list_all retrying evs \<and> as_Launches st' = as_Launches st + int (length calls) \<and>
      length calls \<le> Suc n \<and> launched p iteration (as_Launches st) calls) (State_Monad.return (r', err, st))" for r' err
    by (rule leaves_return) simp
  have wait: "leaves (\<lambda>_ evs calls. evs = [] \<and> calls = [])
      (case timer of None \<Rightarrow> ask (\<lambda>n. Some (le_Done le n)) | Some t \<Rightarrow> ask (le_Waited le))" for timer :: "int64 option"
    by (cases timer) (auto simp: leaves_def ask_def moment_def State_Monad.return_def)
  show ?case
    unfolding retryLoop.simps
    by (intro leaves_if leaves_ask leaves_prod stop leaves_bind[OF wait])
      (auto intro!: leaves_option leaves_ctx stop again)
qed (auto intro!: leaves_return)

lemma runPhaseWithRetry_leaves:
  assumes "sinkOK le"
  shows "leaves (\<lambda>(r, err, st) evs calls. list_all retrying evs \<and> as_Launches st = int (length calls) \<and>
      length calls \<le> Suc (nat (ro_MaxRetries ro)) \<and> launched p iteration 0 calls)
    (runPhaseWithRetry le ro p iteration prev)"
  unfolding runPhaseWithRetry_def
  by (rule leaves_bind[OF wrappedAttempt_leaves[OF assms]])
    (auto intro!: leaves_return leaves_mono[OF retryLoop_leaves[OF assms]] simp: launched_append)

lemma nudgeLoop_leaves:
  "leaves (\<lambda>_ evs calls. evs = [] \<and> length calls \<le> n \<and> launched p iteration l calls)
    (nudgeLoop le ro p iteration first n l session missing)"
proof (induction n arbitrary: l session missing)
  case (Suc n)
  show ?case
    unfolding nudgeLoop.simps missingOf_def
    by (intro leaves_rules leaves_mono[OF Suc.IH]) (auto simp: missingOf_def)
qed (auto intro!: leaves_return)

text \<open>The most attempts that a phase can take.\<close>

definition attemptBound :: "run_options \<Rightarrow> phase \<Rightarrow> nat" where
  "attemptBound ro p = Suc (nat (ro_MaxRetries ro)) + maxNudges p"

lemma attemptPhase_leaves:
  assumes "sinkOK le"
  shows "leaves (\<lambda>_ evs calls. list_all retrying evs \<and> length calls \<le> attemptBound ro p \<and> launched p iteration 0 calls)
    (attemptPhase le ro p rendered iteration prev)"
proof -
  have rest: "leaves (\<lambda>_ evs calls. evs = [] \<and> length calls \<le> maxNudges p \<and> launched p iteration l calls)
      (completePhaseRequirements le ro p iteration r l)" for r l
    unfolding completePhaseRequirements_def missingOf_def
    by (intro leaves_ask leaves_if leaves_mono[OF nudgeLoop_leaves] leaves_return) auto
  show ?thesis unfolding attemptPhase_def
    by (rule leaves_bind[OF runPhaseWithRetry_leaves[OF assms]])
      (auto intro!: leaves_return leaves_mono[OF rest] simp: launched_append attemptBound_def launched_def[of "p\<lparr>ph_Prompt := rendered\<rparr>"]
        launched_def[of p])
qed


section \<open>The trace of a run\<close>

text \<open>
  A trace is bracketed when every phase that starts ends, with the same name and iteration, before the next one
  starts, with nothing but retries in between. \<open>opened\<close> is the phase that has started.
\<close>

fun bracketed :: "(string \<times> int) option \<Rightarrow> loop_event list \<Rightarrow> bool" where
  "bracketed opened [] \<longleftrightarrow> opened = None"
| "bracketed None (PhaseStart name i kind # evs) = bracketed (Some (name, i)) evs"
| "bracketed (Some x) (Retrying k m # evs) = bracketed (Some x) evs"
| "bracketed (Some x) (PhaseEnd name i reason session marker # evs) \<longleftrightarrow> x = (name, i) \<and> bracketed None evs"
| "bracketed _ _ = False"

lemma bracketed_retries: "list_all retrying evs \<Longrightarrow> bracketed (Some x) (evs @ evs') = bracketed (Some x) evs'"
proof (induction evs)
  case (Cons ev evs)
  then show ?case by (cases ev) auto
qed simp

lemma bracketed_append: "bracketed opened evs \<Longrightarrow> bracketed opened (evs @ evs') = bracketed None evs'"
  by (induction opened evs rule: bracketed.induct) auto

lemma executePhase_leaves:
  assumes "sinkOK le"
  shows "leaves (\<lambda>_ evs calls. bracketed None evs \<and> length calls \<le> attemptBound ro p \<and> launched p iteration 0 calls)
    (executePhase le ro p kind iteration prev commit)"
proof -
  have nested: "leaves (\<lambda>_ evs calls. evs = [] \<and> calls = []) (nestedPhase le ro p)"
    unfolding nestedPhase_def Let_def by (intro leaves_rules) auto
  have direct: "leaves (\<lambda>_ evs calls. bracketed (Some (ph_Name p, iteration)) evs \<and> length calls \<le> attemptBound ro p \<and>
        launched p iteration 0 calls)
      (do { (r, err) \<leftarrow> attemptPhase le ro p prompt iteration prev;
            _ \<leftarrow> emitEvent le (PhaseEnd (ph_Name p) iteration (phaseStopReason r) (pa_SessionID r) (markerFromResult r));
            State_Monad.return (case err of None \<Rightarrow> Inr r | Some e \<Rightarrow> Inl e) })" for prompt
    by (rule leaves_bind[OF attemptPhase_leaves[OF assms]])
      (auto intro!: leaves_emit[OF assms] leaves_return simp: bracketed_retries)
  show ?thesis
    unfolding executePhase_def
    by (intro leaves_if leaves_ask leaves_sum leaves_emit[OF assms] leaves_return leaves_mono[OF nested] leaves_mono[OF direct]) auto
qed

text \<open>How the last event of a run classifies its result.\<close>

definition endClass :: "string \<Rightarrow> run_result result \<Rightarrow> bool" where
  "endClass reason res \<longleftrightarrow>
     (case res of
        Inl e \<Rightarrow> reason = ''phase_failure''
      | Inr r \<Rightarrow>
          (reason \<in> {''marker'', ''max_iterations'', ''end_turn''} \<and> rr_ExitCode r = 0 \<and> rr_StopReason r = ''end_turn'' \<and>
             (reason = ''marker'' \<longleftrightarrow> rr_MarkerDirective r = ''exit'')) \<or>
          (reason = ''abort'' \<and> rr_ExitCode r = 5 \<and> rr_StopReason r = ''blocked'') \<or>
          (reason = ''cancelled'' \<and> rr_ExitCode r = 130) \<or>
          (reason = ''timeout'' \<and> rr_ExitCode r \<noteq> 0 \<and> rr_StopReason r = ''timeout'') \<or>
          (reason = ''phase_failure'' \<and> rr_ExitCode r \<noteq> 0 \<and> rr_StopReason r \<noteq> ''timeout''))"

definition closedBy :: "int \<Rightarrow> run_result result \<Rightarrow> loop_event list \<Rightarrow> bool" where
  "closedBy limit res evs \<longleftrightarrow>
     (\<exists>body reason label n. evs = body @ [LoopEnd reason label n] \<and> bracketed None body \<and> endClass reason res \<and>
        0 \<le> n \<and> n \<le> limit)"

lemma closedBy_append: "bracketed None evs \<Longrightarrow> closedBy limit res evs' \<Longrightarrow> closedBy limit res (evs @ evs')"
  by (auto simp: closedBy_def bracketed_append)

lemma closedBy_end: "endClass reason res \<Longrightarrow> 0 \<le> n \<Longrightarrow> n \<le> limit \<Longrightarrow> closedBy limit res [LoopEnd reason label n]"
  by (auto simp: closedBy_def intro: exI[of _ "[]"])

lemma leaves_emitLoopEnd:
  assumes "sinkOK le" and "leaves (\<lambda>y evs calls. Q y (LoopEnd reason label n # evs) calls) (f ())"
  shows "leaves Q (State_Monad.bind (emitLoopEnd le reason label n) f)"
  by (rule leaves_bind[of "\<lambda>_ evs calls. evs = [LoopEnd reason label n] \<and> calls = []"])
    (use assms in \<open>auto simp: leaves_def emitLoopEnd_def emitEvent_def sinkOK_def split_beta\<close>)

text \<open>The three ways a run ends early.\<close>

lemma early_end:
  assumes "sinkOK le" and "0 \<le> iters" "iters \<le> limit"
  shows "leaves (\<lambda>r evs calls. closedBy limit (Inr r) evs \<and> calls = []) (cancelledRunResult le err iters)"
    and "leaves (\<lambda>r evs calls. closedBy limit (Inr r) evs \<and> calls = []) (abortedRun le a iters)"
    and "pa_ExitCode a \<noteq> 0 \<Longrightarrow> leaves (\<lambda>r evs calls. closedBy limit (Inr r) evs \<and> calls = []) (failedRun le a iters)"
  using assms(2,3) unfolding cancelledRunResult_def abortedRun_def failedRun_def Let_def
  by (auto intro!: leaves_emitLoopEnd[OF assms(1)] leaves_return closedBy_end simp: endClass_def plainResult_def split: prod.split)


section \<open>Sequences, iterations and the run\<close>

abbreviation attemptsOf :: "run_options \<Rightarrow> phase list \<Rightarrow> nat" where
  "attemptsOf ro ps \<equiv> sum_list (map (attemptBound ro) ps)"

text \<open>Phases that did not end the run leave a bracketed trace, an end leaves a closed one.\<close>

definition sequenceTrace :: "int \<Rightarrow> run_result option result \<Rightarrow> loop_event list \<Rightarrow> bool" where
  "sequenceTrace limit res evs \<longleftrightarrow>
     (case res of Inl e \<Rightarrow> closedBy limit (Inl e) evs | Inr None \<Rightarrow> bracketed None evs | Inr (Some r) \<Rightarrow> closedBy limit (Inr r) evs)"

lemma sequenceTrace_append: "bracketed None evs \<Longrightarrow> sequenceTrace limit res evs' \<Longrightarrow> sequenceTrace limit res (evs @ evs')"
  by (auto simp: sequenceTrace_def closedBy_append bracketed_append split: sum.splits option.splits)

lemma leaves_enrich:
  "(\<And>r'. pa_LoopDirective r' = pa_LoopDirective r \<Longrightarrow> pa_ExitCode r' = pa_ExitCode r \<Longrightarrow> leaves Q (f r')) \<Longrightarrow>
   leaves Q (State_Monad.bind (enrichFromBroker le r) f)"
  by (rule leaves_bind[of "\<lambda>r' evs calls. evs = [] \<and> calls = [] \<and> pa_LoopDirective r' = pa_LoopDirective r \<and> pa_ExitCode r' = pa_ExitCode r"])
    (auto simp: enrichFromBroker_def intro!: leaves_ask leaves_return)

lemma runSequentialPhases_leaves:
  assumes "sinkOK le" and "0 \<le> iters" "iters \<le> limit"
  shows "leaves (\<lambda>y evs calls. sequenceTrace limit (fst y) evs \<and> length calls \<le> attemptsOf ro ps)
    (runSequentialPhases le ro ps kind iters prev commit)"
proof (induction ps arbitrary: prev commit)
  case Nil
  show ?case by (auto intro!: leaves_return simp: sequenceTrace_def)
next
  case (Cons p ps)
  note early = early_end[OF assms]
  have tail: "leaves (\<lambda>y evs calls. sequenceTrace limit (fst y) (evs0 @ evs) \<and> length (calls0 @ calls) \<le> attemptsOf ro (p # ps))
      (runSequentialPhases le ro ps kind iters session commit)"
    if "bracketed None evs0" "length calls0 \<le> attemptBound ro p" for evs0 calls0 session commit
    using that by (intro leaves_mono[OF Cons.IH]) (auto simp: sequenceTrace_append)
  have stop: "leaves (\<lambda>y evs calls. sequenceTrace limit (fst y) (evs0 @ evs) \<and> length (calls0 @ calls) \<le> attemptsOf ro (p # ps))
      (do { c \<leftarrow> m; State_Monad.return (Inr (Some c), commit) })"
    if "leaves (\<lambda>r evs calls. closedBy limit (Inr r) evs \<and> calls = []) m" "bracketed None evs0" "length calls0 \<le> attemptBound ro p"
    for m evs0 calls0 commit
    using that(2,3) by (intro leaves_bind[OF that(1)] leaves_return) (auto simp: sequenceTrace_def closedBy_append)
  have err: "leaves (\<lambda>y evs calls. sequenceTrace limit (fst y) (evs0 @ evs) \<and> length (calls0 @ calls) \<le> attemptsOf ro (p # ps))
      (do { emitLoopEnd le ''phase_failure'' '''' iters; State_Monad.return (Inl e, commit) })"
    if "bracketed None evs0" "length calls0 \<le> attemptBound ro p" for evs0 calls0 e commit
    using that assms(2,3)
    by (intro leaves_emitLoopEnd[OF assms(1)] leaves_return)
      (auto simp: sequenceTrace_def intro!: closedBy_append closedBy_end, simp add: endClass_def)
  show ?case
    unfolding runSequentialPhases.simps
    by (intro leaves_ask leaves_option leaves_bind[OF executePhase_leaves[OF assms(1)]] leaves_sum leaves_enrich leaves_if
        err stop tail early stop[of _ "[]" "[]", unfolded append_Nil]; auto)
qed


text \<open>The phases after the loop close the trace; \<open>reason\<close> is what they report when nothing ends them early.\<close>

lemma post_leaves:
  assumes "sinkOK le" and "0 \<le> iters" "iters \<le> limit" and "endClass reason (Inr r)"
  shows "leaves (\<lambda>y evs calls. closedBy limit y evs \<and> length calls \<le> attemptsOf ro (lc_Post (ro_Config ro)))
    (do { (post, _) \<leftarrow> runSequentialPhases le ro (lc_Post (ro_Config ro)) ''post'' iters prev commit;
          case post of
            Inl e \<Rightarrow> State_Monad.return (Inl e)
          | Inr (Some early) \<Rightarrow> State_Monad.return (Inr early)
          | Inr None \<Rightarrow> do { emitLoopEnd le reason label iters; State_Monad.return (Inr r) } })"
  using assms(2-4)
  by (intro leaves_bind[OF runSequentialPhases_leaves[OF assms(1-3)]] leaves_prod leaves_sum leaves_option
      leaves_emitLoopEnd[OF assms(1)] leaves_return)
    (auto simp: sequenceTrace_def intro: closedBy_append closedBy_end)

lemma exitedRun_leaves:
  assumes "sinkOK le" and "0 \<le> iters" "iters \<le> limit" and "pa_LoopDirective r = ''exit''"
  shows "leaves (\<lambda>y evs calls. closedBy limit y evs \<and> length calls \<le> attemptsOf ro (lc_Post (ro_Config ro)))
    (exitedRun le ro r iters commit)"
  unfolding exitedRun_def by (rule post_leaves[OF assms(1-3)]) (simp add: endClass_def plainResult_def assms(4))

lemma finishRun_leaves:
  assumes "sinkOK le" and "0 \<le> iters" "iters \<le> limit" and "reason \<in> {''max_iterations'', ''end_turn''}"
  shows "leaves (\<lambda>y evs calls. closedBy limit y evs \<and> length calls \<le> attemptsOf ro (lc_Post (ro_Config ro)))
    (finishRun le ro reason iters commit)"
  unfolding finishRun_def using assms(4) by (intro post_leaves[OF assms(1-3)]) (auto simp: endClass_def plainResult_def)

text \<open>An iteration leaves a bracketed trace, unless it ends the run.\<close>

definition loopTrace :: "run_options \<Rightarrow> int \<Rightarrow> nat \<Rightarrow> run_result result + string \<Rightarrow> loop_event list \<Rightarrow> attempt_call list \<Rightarrow> bool" where
  "loopTrace ro limit n res evs calls \<longleftrightarrow>
     (case res of
        Inl ended \<Rightarrow> closedBy limit ended evs \<and> length calls \<le> n + attemptsOf ro (lc_Post (ro_Config ro))
      | Inr _ \<Rightarrow> bracketed None evs \<and> length calls \<le> n)"

lemma loopTrace_append:
  "bracketed None evs \<Longrightarrow> length calls \<le> k \<Longrightarrow> loopTrace ro limit n res evs' calls' \<Longrightarrow>
   loopTrace ro limit (k + n) res (evs @ evs') (calls @ calls')"
  by (auto simp: loopTrace_def closedBy_append bracketed_append split: sum.splits)

lemma loopPhases_leaves:
  assumes "sinkOK le" and "0 \<le> iters" "iters \<le> limit"
  shows "leaves (loopTrace ro limit (attemptsOf ro ps)) (loopPhases le ro iteration iters i ps sessions commit)"
proof (induction ps arbitrary: i sessions commit)
  case Nil
  show ?case by (auto intro!: leaves_return simp: loopTrace_def)
next
  case (Cons p ps)
  let ?Q = "loopTrace ro limit (attemptsOf ro (p # ps))"
  have tail: "leaves (\<lambda>y evs calls. ?Q y (evs0 @ evs) (calls0 @ calls)) (loopPhases le ro iteration iters j ps ss commit)"
    if "bracketed None evs0" "length calls0 \<le> attemptBound ro p" for evs0 calls0 j ss commit
    using that by (intro leaves_mono[OF Cons.IH]) (auto intro!: loopTrace_append)
  have stop: "leaves (\<lambda>y evs calls. ?Q y (evs0 @ evs) (calls0 @ calls)) (do { c \<leftarrow> m; State_Monad.return (Inl (Inr c)) })"
    if "leaves (\<lambda>r evs calls. closedBy limit (Inr r) evs \<and> calls = []) m" "bracketed None evs0" "length calls0 \<le> attemptBound ro p"
    for m evs0 calls0
    using that(2,3) by (intro leaves_bind[OF that(1)] leaves_return) (auto simp: loopTrace_def closedBy_append)
  have exit: "leaves (\<lambda>y evs calls. ?Q y (evs0 @ evs) (calls0 @ calls))
      (do { c \<leftarrow> exitedRun le ro r iters commit; State_Monad.return (Inl c) })"
    if "pa_LoopDirective r = ''exit''" "bracketed None evs0" "length calls0 \<le> attemptBound ro p" for r commit evs0 calls0
    using that(2,3) by (intro leaves_bind[OF exitedRun_leaves[OF assms that(1)]] leaves_return) (auto simp: loopTrace_def closedBy_append)
  have err: "leaves (\<lambda>y evs calls. ?Q y (evs0 @ evs) (calls0 @ calls))
      (do { emitLoopEnd le ''phase_failure'' '''' iters; State_Monad.return (Inl (Inl e)) })"
    if "bracketed None evs0" "length calls0 \<le> attemptBound ro p" for evs0 calls0 e
    using that assms(2,3)
    by (intro leaves_emitLoopEnd[OF assms(1)] leaves_return)
      (auto simp: loopTrace_def intro!: closedBy_append closedBy_end, simp add: endClass_def)
  show ?case
    unfolding loopPhases.simps
    by (intro leaves_ask leaves_option leaves_bind[OF executePhase_leaves[OF assms(1)]] leaves_sum leaves_enrich leaves_if
        err stop exit tail early_end[OF assms]; auto)
qed

lemma iterations_leaves:
  assumes "sinkOK le" and "1 \<le> iteration" "iteration + int n - 1 \<le> limit"
  shows "leaves (loopTrace ro limit (n * attemptsOf ro (lc_Loop (ro_Config ro)))) (iterations le ro n iteration commit)"
  using assms(2,3)
proof (induction n arbitrary: iteration commit)
  case 0
  show ?case by (auto intro!: leaves_return simp: loopTrace_def)
next
  case (Suc n)
  let ?loop = "attemptsOf ro (lc_Loop (ro_Config ro))"
  have iters: "0 \<le> iteration - 1" "iteration - 1 \<le> limit" using Suc.prems by auto
  have one: "leaves (loopTrace ro limit (Suc n * ?loop))
      (do { c \<leftarrow> cancelledRunResult le e (iteration - 1); State_Monad.return (Inl (Inr c)) })" for e
    by (intro leaves_bind[OF early_end(1)[OF assms(1) iters]] leaves_return) (simp add: loopTrace_def)
  have rest: "leaves (\<lambda>y evs calls. loopTrace ro limit (Suc n * ?loop) y (evs0 @ evs) (calls0 @ calls))
      (iterations le ro n (iteration + 1) commit)"
    if "bracketed None evs0" "length calls0 \<le> ?loop" for evs0 calls0 commit
    using that Suc.prems by (intro leaves_mono[OF Suc.IH]) (auto intro!: loopTrace_append)
  show ?case
    unfolding iterations.simps
    by (intro leaves_ask leaves_option leaves_bind[OF loopPhases_leaves[OF assms(1) iters]] leaves_sum leaves_return one rest)
      (auto simp: loopTrace_def)
qed


section \<open>What a run leaves\<close>

definition attemptBudget :: "run_options \<Rightarrow> nat" where
  "attemptBudget ro = attemptsOf ro (lc_Pre (ro_Config ro)) +
     nat (lc_MaxIterations (ro_Config ro)) * attemptsOf ro (lc_Loop (ro_Config ro)) + attemptsOf ro (lc_Post (ro_Config ro))"

lemma RunLoop_leaves:
  fixes ro :: run_options
  assumes "sinkOK le"
  defines "c \<equiv> ro_Config ro"
  shows "leaves (\<lambda>res evs calls. length calls \<le> attemptBudget ro \<and>
      (\<exists>rest. evs = LoopStart (lc_MaxIterations c) (length (lc_Pre c)) (length (lc_Loop c)) (length (lc_Post c)) # rest \<and>
         closedBy (max 0 (lc_MaxIterations c)) res rest))
    (RunLoop le ro)"
proof -
  let ?limit = "max 0 (lc_MaxIterations c)"
  have loop: "leaves (\<lambda>res evs calls. length calls \<le> nat (lc_MaxIterations c) * attemptsOf ro (lc_Loop c) + attemptsOf ro (lc_Post c) \<and>
      closedBy ?limit res evs)
    (do { res \<leftarrow> iterations le ro (nat (lc_MaxIterations c)) 1 commit;
          case res of
            Inl ended \<Rightarrow> State_Monad.return ended
          | Inr commit \<Rightarrow> finishRun le ro ''max_iterations'' ?limit commit })" for commit
    by (intro leaves_bind[OF iterations_leaves[OF assms(1), where limit = ?limit]] leaves_sum leaves_return
        leaves_mono[OF finishRun_leaves[OF assms(1), where limit = ?limit]])
      (auto simp: loopTrace_def c_def intro: closedBy_append)
  have noLoop: "leaves (\<lambda>res evs calls. length calls \<le> attemptsOf ro (lc_Post c) \<and> closedBy ?limit res evs)
      (finishRun le ro ''end_turn'' 0 commit)" for commit
    unfolding c_def by (rule leaves_mono[OF finishRun_leaves[OF assms(1), where limit = ?limit]]) (auto simp: c_def)
  show ?thesis
    unfolding RunLoop_def Let_def c_def[symmetric]
    by (intro leaves_emit[OF assms(1)] leaves_ask leaves_bind[OF runSequentialPhases_leaves[OF assms(1), where limit = ?limit]]
        leaves_prod leaves_sum leaves_option leaves_if leaves_return leaves_mono[OF loop] leaves_mono[OF noLoop])
      (auto simp: sequenceTrace_def attemptBudget_def c_def intro: closedBy_append)
qed


text \<open>
  C38: a loop run launches a bounded number of attempts. No agent can keep a run going: each phase takes at most one
  attempt, its retries and its nudges, the phases before and after the loop run at most once, and the phases of the
  loop at most as often as the configured limit.
\<close>

theorem loop_attempts_bounded:
  assumes "sinkOK le"
  shows "\<exists>calls. lw_Calls (snd (run_state (RunLoop le ro) w)) = lw_Calls w @ calls \<and>
    length calls \<le> sum_list (map (attemptBound ro) (lc_Pre (ro_Config ro))) +
      nat (lc_MaxIterations (ro_Config ro)) * sum_list (map (attemptBound ro) (lc_Loop (ro_Config ro))) +
      sum_list (map (attemptBound ro) (lc_Post (ro_Config ro)))"
  using RunLoop_leaves[OF assms, of ro] unfolding leaves_def attemptBudget_def by meson


section \<open>An exit marker hides a missing output\<close>

text \<open>The contracts of an access to the environment that keep what is known of its answer.\<close>

lemma leaves_ask_at: "(\<And>n. leaves Q (f (g n))) \<Longrightarrow> leaves Q (State_Monad.bind (ask g) f)"
  by (rule leaves_bind[of "\<lambda>x evs calls. evs = [] \<and> calls = [] \<and> (\<exists>n. x = g n)"])
    (auto simp: leaves_def ask_def moment_def State_Monad.return_def)

lemma leaves_attempt_at:
  "(\<And>n. leaves (\<lambda>y evs calls. Q y evs (call # calls)) (f (le_Attempt le n call))) \<Longrightarrow>
   leaves Q (State_Monad.bind (PhaseAttempt le call) f)"
  by (rule leaves_bind[of "\<lambda>x evs calls. evs = [] \<and> calls = [call] \<and> (\<exists>n. x = le_Attempt le n call)"])
    (auto simp: leaves_def PhaseAttempt_def)

text \<open>
  An agent that always reports success and asks to leave the loop (\<open>done1\<close>), in an environment that never interferes,
  without its required files.
\<close>

definition leavesLoop :: "loop_env \<Rightarrow> run_options \<Rightarrow> phase \<Rightarrow> attempt_result \<Rightarrow> bool" where
  "leavesLoop le ro p done1 \<longleftrightarrow>
     sinkOK le \<and> (\<forall>n. le_Err le n = None) \<and> (\<forall>n s i c. le_Render le n s i c = Inr s) \<and>
     (\<forall>n call. le_Attempt le n call = (done1, None)) \<and> pa_ExitCode done1 = 0 \<and> pa_StopReason done1 = '''' \<and>
     pa_LoopDirective done1 = ''exit'' \<and> pa_BrokerRunID done1 = '''' \<and>
     (\<forall>n. MissingRequiredFiles (le_Abs le) (le_Stat le n) (ro_WorkDir ro) (ph_Requires p) \<noteq> [])"

abbreviation incompleteExit :: "attempt_result \<Rightarrow> bool" where
  "incompleteExit r \<equiv> pa_ExitCode r = 1 \<and> pa_StopReason r = ''incomplete_output'' \<and> pa_LoopDirective r = ''exit'' \<and> pa_BrokerRunID r = ''''"

lemma nudgeLoop_incomplete:
  assumes "leavesLoop le ro p done1" and "pa_LoopDirective first = ''exit''" and "pa_BrokerRunID first = ''''"
  shows "leaves (\<lambda>y evs calls. snd y = None \<and> incompleteExit (fst y)) (nudgeLoop le ro p i first n l session missing)"
proof (induction n arbitrary: l session missing)
  case 0
  show ?case using assms(2,3) by (auto intro!: leaves_return simp: ExitCodeForStopReason_def)
next
  case (Suc n)
  show ?case
    unfolding nudgeLoop.simps missingOf_def
    by (intro leaves_ask_at leaves_attempt_at leaves_option leaves_prod leaves_if leaves_ctx leaves_return Suc.IH)
      (use assms(1) in \<open>auto simp: leavesLoop_def stillIncomplete_def phaseStopReason_def StopReasonForExitCode_def\<close>)
qed

lemma executePhase_incomplete:
  assumes "leavesLoop le ro p done1" and "ph_LoopFile p = ''''" "ph_TeamFile p = ''''"
  shows "leaves (\<lambda>x evs calls. \<exists>r session. x = Inr r \<and> incompleteExit r \<and>
      PhaseEnd (ph_Name p) i ''incomplete_output'' session (markerFromResult r) \<in> set evs)
    (executePhase le ro p kind i prev commit)"
proof -
  let ?good = "\<lambda>r. pa_ExitCode r = 0 \<and> pa_StopReason r = '''' \<and> pa_LoopDirective r = ''exit'' \<and> pa_BrokerRunID r = ''''"
  note env = assms(1)[unfolded leavesLoop_def]
  have wrapped: "leaves (\<lambda>y evs calls. fst (snd y) = None \<and> ?good (fst y)) (wrappedAttempt le ro q i prev st)" for q st
    unfolding wrappedAttempt_def
    by (rule leaves_bind[of "\<lambda>_ evs calls. True"])
      (use env in \<open>auto simp: leaves_def emitEvent_def sinkOK_def PhaseAttempt_def judgeAttempt_def Let_def split_beta\<close>)
  have stop: "retryLoop le ro q i prev n k r st = State_Monad.return (r, None, st)" if "?good r" for q n k r st
    using that by (cases n) (simp_all add: IsRetryableFailure_def)
  have retry: "leaves (\<lambda>y evs calls. fst (snd y) = None \<and> ?good (fst y)) (runPhaseWithRetry le ro q i prev)" for q
    unfolding runPhaseWithRetry_def
    by (rule leaves_bind[OF wrapped]) (auto simp: stop intro!: leaves_return split: prod.split)
  have attempts: "leaves (\<lambda>y evs calls. snd y = None \<and> incompleteExit (fst y)) (attemptPhase le ro p rendered i prev)" for rendered
    unfolding attemptPhase_def completePhaseRequirements_def missingOf_def
    by (rule leaves_bind[OF retry], intro leaves_prod leaves_if leaves_ask_at leaves_mono[OF nudgeLoop_incomplete[OF assms(1)]] leaves_return)
      (use env in \<open>auto simp: stillIncomplete_def phaseStopReason_def StopReasonForExitCode_def\<close>)
  show ?thesis
    unfolding executePhase_def
    by (intro leaves_if leaves_ask_at leaves_sum leaves_emit leaves_bind[OF attempts] leaves_prod leaves_return)
      (use env assms(2,3) in \<open>auto simp: phaseStopReason_def wrapE_ok\<close>)
qed


section \<open>An example\<close>

text \<open>
  A loop of one phase with a required report and one retry. In the first environment the agent fails once and then writes the
  report, in the second it leaves the loop without it.
\<close>

definition loopPhase :: phase where
  "loopPhase = \<lparr>ph_Name = ''fix'', ph_Prompt = ''go'', ph_PromptFile = '''', ph_LoopFile = '''', ph_TeamFile = '''',
     ph_ResumeFromPrevious = False, ph_Conditional = False, ph_Agent = '''', ph_Model = '''', ph_RosterEntry = '''',
     ph_Requires = \<lparr>pr_Files = [''report''], pr_NonEmptyFiles = []\<rparr>, ph_OnIncomplete = \<lparr>oi_Nudge = '''', oi_MaxNudges = 0\<rparr>\<rparr>"

definition loopOptions :: run_options where
  "loopOptions = \<lparr>ro_WorkDir = ''/w'', ro_Config = \<lparr>lc_MaxIterations = 2, lc_RosterFile = '''', lc_Pre = [], lc_Loop = [loopPhase],
     lc_Post = []\<rparr>, ro_MaxRetries = 1, ro_ConfigDir = ''''\<rparr>"

definition exitResult :: attempt_result where
  "exitResult = noResult\<lparr>pa_SessionID := ''s'', pa_LoopDirective := ''exit'', pa_LoopLabel := ''green''\<rparr>"

definition exitEnv :: loop_env where
  "exitEnv = \<lparr>le_Err = (\<lambda>_. None), le_Waited = (\<lambda>_. None), le_Done = (\<lambda>_. Canceled), le_Remaining = (\<lambda>_. None),
     le_Attempt = (\<lambda>_ _. (exitResult, None)), le_Nested = None, le_Write = (\<lambda>_ _. Inr ()), le_Abs = Inr, le_Stat = (\<lambda>_ _. None),
     le_Commit = (\<lambda>_. ''c''), le_Render = (\<lambda>_ s _ _. Inr s), le_LastFinish = (\<lambda>_ _. '''')\<rparr>"

definition retryEnv :: loop_env where
  "retryEnv = exitEnv\<lparr>le_Attempt := (\<lambda>_ call. (if ac_Launch call = 0 then noResult\<lparr>pa_ExitCode := 1\<rparr> else noResult, None)),
     le_Stat := (\<lambda>_ path. if path = ''/w/report'' then Some (False, 3) else None)\<rparr>"

definition freshLoop :: loop_world where
  "freshLoop = \<lparr>lw_Events = [], lw_Calls = [], lw_Tick = 0\<rparr>"

lemma exitEnv_sink: "sinkOK exitEnv" "sinkOK retryEnv"
  by (simp_all add: sinkOK_def exitEnv_def retryEnv_def)


theorem loop_attempts_bounded_witness:
  "length (lw_Calls (snd (run_state (RunLoop retryEnv loopOptions) freshLoop))) \<le> 6"
  using loop_attempts_bounded[OF exitEnv_sink(2), of loopOptions freshLoop]
  by (auto simp: freshLoop_def loopOptions_def attemptBound_def maxNudges_def loopPhase_def)

lemma exit_leavesLoop: "leavesLoop exitEnv loopOptions loopPhase exitResult"
proof -
  have "MissingRequiredFiles Inr (\<lambda>_. None) ''/w'' \<lparr>pr_Files = [''report''], pr_NonEmptyFiles = []\<rparr> \<noteq> []" by code_simp
  then show ?thesis using exitEnv_sink(1)
    by (simp add: leavesLoop_def exitEnv_def loopOptions_def loopPhase_def exitResult_def noResult_def)
qed


section \<open>Backoff\<close>

text \<open>The backoff doubles from two seconds up to half a minute, as long as it fits into 64 bits; later it is negative, then zero.\<close>

lemma backoff_doubles:
  assumes "0 \<le> retry" "retry < 33"
  shows "sint (BackoffDuration retry) = min (2 ^ nat (retry + 1)) 30 * 1000000000"
proof -
  have "list_all (\<lambda>n. sint (BackoffDuration (int n)) = min (2 ^ (n + 1)) 30 * 1000000000) [0..<33]" by code_simp
  moreover obtain n where "retry = int n" "n < 33" using assms by (metis nonneg_int_cases of_nat_less_iff of_nat_numeral)
  ultimately show ?thesis by (simp add: list_all_iff nat_add_distrib)
qed

lemma backoff_wraps: "sint (BackoffDuration 33) < 0" "BackoffDuration 63 = 0"
  by code_simp+

end
