(* ===== verification/Ad_Budget.thy ===== *)
theory Ad_Budget
  imports Prelude
begin

text \<open>
  The admission budget of a supervisor tree (\<^verbatim>\<open>src/internal/admission/budget.go\<close>): supervisors in several processes
  reserve and release slots in one locked file. Every operation holds the lock from its read to its write, so an
  operation is one step on the contents of the file. Process ids, the clock, random credentials and whether a process is alive
  are arguments; file errors are not modelled.
\<close>

section \<open>Data\<close>

record slot =
  sl_PID :: int
  sl_Holder :: string
  sl_At :: int
  sl_Token :: string

record budget_file =
  bf_RootID :: string
  bf_Capacity :: int
  bf_Active :: "(string \<times> slot) list"

text \<open>One participant's handle; \<open>bu_Open\<close>: it has a file. \<open>bu_Notifiers\<close> are the callbacks registered on it.\<close>

record budget =
  bu_Path :: string
  bu_RootID :: string
  bu_Capacity :: int
  bu_IsRoot :: bool
  bu_Open :: bool
  bu_Notifiers :: "nat list"

text \<open>\<open>tr_Linked\<close>: the path still names the file. \<open>tr_Woken\<close> are the callbacks that have been called.\<close>

record tree =
  tr_File :: budget_file
  tr_Linked :: bool
  tr_Woken :: "nat list"

datatype admit_error = BudgetClosed | CapacityError string int int string

definition DefaultTreeBudget :: int where
  "DefaultTreeBudget = 64"

fun admitErrorText :: "admit_error \<Rightarrow> error" where
  "admitErrorText BudgetClosed = Err ''admission: budget is closed''"
| "admitErrorText (CapacityError source limit active rid) =
     (if source = ''local'' then Errorf ''max runtimes (%d) reached'' [intString limit]
      else Errorf ''tree budget exhausted (%d/%d active)'' [intString active, intString limit])"

section \<open>Operations\<close>

definition CreateRoot :: "string \<Rightarrow> int \<Rightarrow> string \<Rightarrow> budget \<times> tree" where
  "CreateRoot path requested rid =
     (let capacity = (if requested \<le> 0 then DefaultTreeBudget else requested) in
      (\<lparr>bu_Path = path, bu_RootID = rid, bu_Capacity = capacity, bu_IsRoot = True, bu_Open = True, bu_Notifiers = []\<rparr>,
       \<lparr>tr_File = \<lparr>bf_RootID = rid, bf_Capacity = capacity, bf_Active = []\<rparr>, tr_Linked = True, tr_Woken = []\<rparr>))"

definition OpenBudget :: "string \<Rightarrow> tree \<Rightarrow> budget" where
  "OpenBudget path t =
     \<lparr>bu_Path = path, bu_RootID = bf_RootID (tr_File t), bu_Capacity = bf_Capacity (tr_File t), bu_IsRoot = False,
      bu_Open = True, bu_Notifiers = []\<rparr>"

definition CloseBudget :: "budget \<Rightarrow> tree \<Rightarrow> budget \<times> tree" where
  "CloseBudget b t =
     (if \<not> bu_Open b then (b, t)
      else (b\<lparr>bu_Open := False\<rparr>, if bu_IsRoot b then t\<lparr>tr_Linked := False\<rparr> else t))"

definition AddNotifier :: "nat \<Rightarrow> budget \<Rightarrow> budget" where
  "AddNotifier f b = b\<lparr>bu_Notifiers := bu_Notifiers b @ [f]\<rparr>"

definition notifyAll :: "budget \<Rightarrow> tree \<Rightarrow> tree" where
  "notifyAll b t = t\<lparr>tr_Woken := tr_Woken t @ bu_Notifiers b\<rparr>"

definition setActive :: "(string \<times> slot) list \<Rightarrow> tree \<Rightarrow> tree" where
  "setActive active t = t\<lparr>tr_File := (tr_File t)\<lparr>bf_Active := active\<rparr>\<rparr>"

definition AcquireSlot :: "string \<Rightarrow> int \<Rightarrow> int \<Rightarrow> string \<Rightarrow> budget \<Rightarrow> tree \<Rightarrow> (admit_error + string) \<times> tree" where
  "AcquireSlot holder pid now credential b t =
     (let bf = tr_File t in
      if \<not> bu_Open b then (Inl BudgetClosed, t)
      else if int (length (bf_Active bf)) \<ge> bf_Capacity bf
      then (Inl (CapacityError ''tree'' (bf_Capacity bf) (int (length (bf_Active bf))) (bf_RootID bf)), t)
      else (Inr credential, setActive (mapPut credential
              \<lparr>sl_PID = pid, sl_Holder = holder, sl_At = now, sl_Token = credential\<rparr> (bf_Active bf)) t))"

definition releaseLocked :: "string \<Rightarrow> budget \<Rightarrow> tree \<Rightarrow> bool \<times> tree" where
  "releaseLocked token b t =
     (if \<not> bu_Open b \<or> map_of (bf_Active (tr_File t)) token = None then (False, t)
      else (True, setActive (mapDel token (bf_Active (tr_File t))) t))"

definition ReleaseSlot :: "string \<Rightarrow> budget \<Rightarrow> tree \<Rightarrow> tree" where
  "ReleaseSlot token b t =
     (if token = '''' then t
      else (case releaseLocked token b t of (released, t') \<Rightarrow> if released then notifyAll b t' else t'))"

text \<open>\<open>alive\<close> is \<^verbatim>\<open>pidAlive\<close>.\<close>

definition staleSlot :: "(int \<Rightarrow> bool) \<Rightarrow> slot \<Rightarrow> bool" where
  "staleSlot alive s \<longleftrightarrow> \<not> sl_PID s \<le> 0 \<and> \<not> alive (sl_PID s)"

definition ReapSlots :: "(int \<Rightarrow> bool) \<Rightarrow> budget \<Rightarrow> tree \<Rightarrow> nat \<times> tree" where
  "ReapSlots alive b t =
     (if \<not> bu_Open b then (0, t)
      else
        let active = bf_Active (tr_File t); reclaimed = length (filter (\<lambda>(_, s). staleSlot alive s) active) in
        if reclaimed = 0 then (0, t)
        else (reclaimed, notifyAll b (setActive (filter (\<lambda>(_, s). \<not> staleSlot alive s) active) t)))"

definition StatusOf :: "budget \<Rightarrow> tree \<Rightarrow> int \<times> int \<times> string" where
  "StatusOf b t =
     (if \<not> bu_Open b then (0, bu_Capacity b, bu_RootID b)
      else (int (length (bf_Active (tr_File t))), bf_Capacity (tr_File t), bf_RootID (tr_File t)))"

section \<open>Runs of the participants\<close>

text \<open>A step names the handle it is made through, whatever handles there are.\<close>

datatype admit_step =
    AcquireBy budget string int int string
  | ReleaseBy budget string
  | ReapBy budget "int \<Rightarrow> bool"
  | StatusBy budget

fun admitStep :: "tree \<Rightarrow> admit_step \<Rightarrow> tree" where
  "admitStep t (AcquireBy b holder pid now credential) = snd (AcquireSlot holder pid now credential b t)"
| "admitStep t (ReleaseBy b token) = ReleaseSlot token b t"
| "admitStep t (ReapBy b alive) = snd (ReapSlots alive b t)"
| "admitStep t (StatusBy b) = t"

definition admitRun :: "tree \<Rightarrow> admit_step list \<Rightarrow> tree" where
  "admitRun = foldl admitStep"

text \<open>
  What the callers know: the credentials they were granted, each with its process, less those that were released
  through an open handle and those whose process was found dead.
\<close>

fun outstandingStep :: "tree \<Rightarrow> (string \<times> int) set \<Rightarrow> admit_step \<Rightarrow> (string \<times> int) set" where
  "outstandingStep t out (AcquireBy b holder pid now credential) =
     (case fst (AcquireSlot holder pid now credential b t) of Inr token \<Rightarrow> insert (token, pid) out | Inl _ \<Rightarrow> out)"
| "outstandingStep t out (ReleaseBy b token) = (if bu_Open b \<and> token \<noteq> '''' then {e \<in> out. fst e \<noteq> token} else out)"
| "outstandingStep t out (ReapBy b alive) = (if bu_Open b then {e \<in> out. snd e \<le> 0 \<or> alive (snd e)} else out)"
| "outstandingStep t out (StatusBy b) = out"

fun outstanding :: "tree \<Rightarrow> (string \<times> int) set \<Rightarrow> admit_step list \<Rightarrow> (string \<times> int) set" where
  "outstanding t out [] = out"
| "outstanding t out (s # steps) = outstanding (admitStep t s) (outstandingStep t out s) steps"

fun credentialOf :: "admit_step \<Rightarrow> string list" where
  "credentialOf (AcquireBy b holder pid now credential) = [credential]"
| "credentialOf _ = []"

section \<open>The budget is exact\<close>

definition slotsOf :: "tree \<Rightarrow> (string \<times> int) set" where
  "slotsOf t = (\<lambda>(k, s). (k, sl_PID s)) ` set (bf_Active (tr_File t))"

definition budgetOK :: "tree \<Rightarrow> bool" where
  "budgetOK t \<longleftrightarrow> distinct (map fst (bf_Active (tr_File t))) \<and> int (length (bf_Active (tr_File t))) \<le> bf_Capacity (tr_File t)"

lemma distinct_filter_fst: "distinct (map fst xs) \<Longrightarrow> distinct (map fst (filter P xs))"
  by (induction xs) auto

lemma length_filter_fst: "int (length (filter P xs)) \<le> c" if "int (length xs) \<le> c"
  using that length_filter_le[of P xs] by linarith

lemmas budget_defs = setActive_def notifyAll_def releaseLocked_def ReleaseSlot_def ReapSlots_def AcquireSlot_def mapPut_def mapDel_def

text \<open>Every operation keeps the capacity, whoever makes it and with whatever credential.\<close>

lemma admitStep_OK:
  assumes "budgetOK t"
  shows "budgetOK (admitStep t s)"
proof (cases s)
  case (AcquireBy b holder pid now credential)
  have "int (length (filter (\<lambda>(k, _). k \<noteq> credential) (bf_Active (tr_File t)))) \<le> int (length (bf_Active (tr_File t)))" by simp
  then have "1 + int (length (filter (\<lambda>(k, _). k \<noteq> credential) (bf_Active (tr_File t)))) \<le> bf_Capacity (tr_File t)"
    if "\<not> bf_Capacity (tr_File t) \<le> int (length (bf_Active (tr_File t)))"
    using that by linarith
  then show ?thesis using assms AcquireBy
    by (auto simp: budget_defs budgetOK_def Let_def distinct_filter_fst)
qed (use assms in \<open>auto simp: budget_defs budgetOK_def Let_def distinct_filter_fst length_filter_fst\<close>)

lemma admitStep_fixed [simp]:
  "bf_Capacity (tr_File (admitStep t s)) = bf_Capacity (tr_File t)" "bf_RootID (tr_File (admitStep t s)) = bf_RootID (tr_File t)"
  by (cases s; auto simp: budget_defs Let_def)+

text \<open>With a new credential, the slots of the file change as the callers' view does.\<close>

lemma admitStep_slots:
  assumes "set (credentialOf s) \<inter> fst ` slotsOf t = {}"
  shows "slotsOf (admitStep t s) = outstandingStep t (slotsOf t) s"
proof (cases s)
  case (AcquireBy b holder pid now credential)
  then show ?thesis using assms by (force simp: slotsOf_def budget_defs Let_def)
next
  case (ReleaseBy b token)
  have "map_of (bf_Active (tr_File t)) token = None \<Longrightarrow> (k, x) \<in> set (bf_Active (tr_File t)) \<Longrightarrow> k \<noteq> token" for k x
    by (metis map_of_eq_None_iff fst_conv image_eqI)
  then show ?thesis using ReleaseBy by (force simp: slotsOf_def budget_defs)
next
  case (ReapBy b alive)
  have all: "filter (\<lambda>(_, s). \<not> staleSlot alive s) xs = xs" if "length (filter (\<lambda>(_, s). staleSlot alive s) xs) = 0" for xs :: "(string \<times> slot) list"
    using that by (simp add: filter_empty_conv filter_id_conv split_beta)
  have "bf_Active (tr_File (admitStep t s)) =
      (if bu_Open b then filter (\<lambda>(_, s). \<not> staleSlot alive s) (bf_Active (tr_File t)) else bf_Active (tr_File t))"
    using ReapBy by (simp add: ReapSlots_def Let_def notifyAll_def setActive_def all)
  moreover have kept: "(\<lambda>(k, s). (k, sl_PID s)) ` set (filter (\<lambda>(_, s). \<not> staleSlot alive s) xs) =
      {e \<in> (\<lambda>(k, s). (k, sl_PID s)) ` set xs. snd e \<le> 0 \<or> alive (snd e)}" for xs
    by (induction xs) (auto simp: staleSlot_def)
  ultimately show ?thesis using ReapBy kept[of "bf_Active (tr_File t)"] by (cases "bu_Open b") (simp_all only: slotsOf_def outstandingStep.simps if_True if_False)
qed simp

lemma outstandingStep_fst: "fst ` outstandingStep t out s \<subseteq> fst ` out \<union> set (credentialOf s)"
  by (cases s) (auto simp: AcquireSlot_def Let_def split: if_splits)


lemma outstanding_append: "outstanding t out (xs @ [s]) =
    outstandingStep (admitRun t xs) (outstanding t out xs) s"
  by (induction xs arbitrary: t out) (simp_all add: admitRun_def)

lemma admitRun_append: "admitRun t (xs @ [s]) = admitStep (admitRun t xs) s"
  by (simp add: admitRun_def)

lemma run_slots:
  assumes "distinct (concat (map credentialOf steps))" and "slotsOf t = {}" and "budgetOK t"
  shows "slotsOf (admitRun t steps) = outstanding t {} steps \<and> budgetOK (admitRun t steps) \<and>
    bf_Capacity (tr_File (admitRun t steps)) = bf_Capacity (tr_File t) \<and>
    bf_RootID (tr_File (admitRun t steps)) = bf_RootID (tr_File t) \<and>
    fst ` outstanding t {} steps \<subseteq> set (concat (map credentialOf steps))"
  using assms(1)
proof (induction steps rule: rev_induct)
  case Nil
  then show ?case using assms(2,3) by (simp add: admitRun_def)
next
  case (snoc s steps)
  have IH: "slotsOf (admitRun t steps) = outstanding t {} steps" "budgetOK (admitRun t steps)"
    "bf_Capacity (tr_File (admitRun t steps)) = bf_Capacity (tr_File t)" "bf_RootID (tr_File (admitRun t steps)) = bf_RootID (tr_File t)"
    "fst ` outstanding t {} steps \<subseteq> set (concat (map credentialOf steps))"
    using snoc by auto
  have "set (concat (map credentialOf steps)) \<inter> set (credentialOf s) = {}" using snoc.prems by simp
  then have fresh: "set (credentialOf s) \<inter> fst ` slotsOf (admitRun t steps) = {}" using IH(1,5) by blast
  have "fst ` outstandingStep (admitRun t steps) (outstanding t {} steps) s \<subseteq> set (concat (map credentialOf (steps @ [s])))"
  proof -
    have "set (concat (map credentialOf (steps @ [s]))) = set (concat (map credentialOf steps)) \<union> set (credentialOf s)" by simp
    then show ?thesis
      using IH(5) outstandingStep_fst[of "admitRun t steps" "outstanding t {} steps" s] by blast
  qed
  then show ?case
    unfolding outstanding_append admitRun_append using IH by (simp add: admitStep_slots[OF fresh] admitStep_OK)
qed

lemma card_slots: "distinct (map fst (bf_Active (tr_File t))) \<Longrightarrow> card (slotsOf t) = length (bf_Active (tr_File t))"
proof -
  assume d: "distinct (map fst (bf_Active (tr_File t)))"
  then have "inj_on (\<lambda>(k, s). (k, sl_PID s)) (set (bf_Active (tr_File t)))"
    unfolding inj_on_def by (auto simp: distinct_map inj_on_def) (metis fst_conv prod.inject)
  then have "card (slotsOf t) = card (set (bf_Active (tr_File t)))" unfolding slotsOf_def by (rule card_image)
  also have "\<dots> = length (bf_Active (tr_File t))" using d by (intro distinct_card) (simp add: distinct_map)
  finally show ?thesis .
qed

abbreviation newTree :: "string \<Rightarrow> int \<Rightarrow> string \<Rightarrow> tree" where
  "newTree path requested rid \<equiv> snd (CreateRoot path requested rid)"

text \<open>
  C39: the tree never runs more than its budget. Take any operations of any participants on the file of a new root, in
  any order, through open or closed handles, with credentials that do not repeat. The reservations on file are then exactly
  those that callers still hold: granted, not released, and not of a process that was found dead. There are never more of
  them than the capacity, and a request through an open handle is granted exactly when there are fewer; a refusal reports their number.
\<close>

theorem admission_exact:
  assumes "distinct (concat (map credentialOf steps))"
  shows "slotsOf (admitRun (newTree path requested rid) steps) = outstanding (newTree path requested rid) {} steps \<and>
    int (card (outstanding (newTree path requested rid) {} steps)) \<le> bf_Capacity (tr_File (newTree path requested rid)) \<and>
    (bu_Open b \<longrightarrow> (case fst (AcquireSlot holder pid now credential b (admitRun (newTree path requested rid) steps)) of
       Inr token \<Rightarrow> token = credential \<and>
         int (card (outstanding (newTree path requested rid) {} steps)) < bf_Capacity (tr_File (newTree path requested rid))
     | Inl e \<Rightarrow> e = CapacityError ''tree'' (bf_Capacity (tr_File (newTree path requested rid)))
           (int (card (outstanding (newTree path requested rid) {} steps))) rid \<and>
         int (card (outstanding (newTree path requested rid) {} steps)) = bf_Capacity (tr_File (newTree path requested rid))))"
proof -
  define t0 where "t0 = newTree path requested rid"
  have new: "slotsOf t0 = {}" "budgetOK t0" "bf_RootID (tr_File t0) = rid"
    by (simp_all add: t0_def CreateRoot_def Let_def slotsOf_def budgetOK_def DefaultTreeBudget_def)
  note run = run_slots[OF assms new(1,2)]
  have "card (outstanding t0 {} steps) = length (bf_Active (tr_File (admitRun t0 steps)))"
    using run card_slots[of "admitRun t0 steps"] by (simp add: budgetOK_def)
  with run new(3) show ?thesis unfolding t0_def[symmetric] by (auto simp: AcquireSlot_def Let_def budgetOK_def)
qed

section \<open>An example\<close>

text \<open>A tree of two slots, a root and a nested participant, one release and one reaped process.\<close>

definition nestedBudget :: budget where
  "nestedBudget = OpenBudget ''/tmp/b'' (newTree ''/tmp/b'' 2 ''r'')"

definition exampleSteps :: "admit_step list" where
  "exampleSteps = [AcquireBy (fst (CreateRoot ''/tmp/b'' 2 ''r'')) ''a'' 10 1 ''t1'', AcquireBy nestedBudget ''b'' 20 2 ''t2'',
     AcquireBy nestedBudget ''c'' 20 3 ''t3'', ReleaseBy nestedBudget ''t1'', AcquireBy nestedBudget ''d'' 30 4 ''t4'',
     ReapBy nestedBudget (\<lambda>pid. pid \<noteq> 20)]"

theorem admission_exact_witness:
  "outstanding (newTree ''/tmp/b'' 2 ''r'') {} exampleSteps = {(''t4'', 30)} \<and>
   slotsOf (admitRun (newTree ''/tmp/b'' 2 ''r'') exampleSteps) = {(''t4'', 30)}"
proof -
  have d: "distinct (concat (map credentialOf exampleSteps))" by (simp add: exampleSteps_def)
  have "slotsOf (admitRun (newTree ''/tmp/b'' 2 ''r'') exampleSteps) = {(''t4'', 30)}" by code_simp
  then show ?thesis using admission_exact[OF d, of "''/tmp/b''" 2 "''r''"] by simp
qed

end
