(* ===== verification/Rs_Runstate.thy ===== *)
theory Rs_Runstate
  imports Wf_AutoCompletion
begin

text \<open>
  The state of a run as its consumers see it (\<^verbatim>\<open>src/internal/runstate\<close>) and the sentinel file through which a finished
  run tells it (\<^verbatim>\<open>runstate/sentinel.go\<close>, \<^verbatim>\<open>cli/sentinel.go\<close>). Statuses and phases are strings in the source, and here.
\<close>

section \<open>Statuses\<close>

definition IsTerminalStatus :: "string \<Rightarrow> bool" where
  "IsTerminalStatus s \<longleftrightarrow> s \<in> {''done'', ''failed'', ''timeout'', ''killed''}"

definition IsTerminalPhase :: "string \<Rightarrow> bool" where
  "IsTerminalPhase p = IsTerminalStatus p"

definition ParsePhase :: "string \<Rightarrow> string \<times> bool" where
  "ParsePhase raw =
     (if raw \<in> {'''', ''thinking'', ''working'', ''waiting'', ''done''} then (raw, True) else (''unknown'', False))"

record translation =
  ta_Status :: string
  ta_Phase :: string
  ta_TurnComplete :: bool
  ta_StatusRecognized :: bool

definition Translate :: "string \<Rightarrow> string \<Rightarrow> translation" where
  "Translate status phase =
     (let (s, p, recognized) =
        (if status = ''running'' then (''running'', if IsTerminalPhase phase then '''' else phase, True)
         else if status = ''idle'' then (if IsTerminalPhase phase then phase else ''running'', phase, True)
         else if status = ''ended'' then (''done'', phase, True)
         else if status \<in> {''done'', ''failed'', ''timeout'', ''killed'', ''waiting''} then (status, phase, True)
         else if status = ''blocked'' then (''failed'', phase, True)
         else (''unknown'', phase, False)) in
      \<lparr>ta_Status = s, ta_Phase = p, ta_TurnComplete = IsTerminalStatus s, ta_StatusRecognized = recognized\<rparr>)"

definition IsTurnComplete :: "string \<Rightarrow> string \<Rightarrow> bool" where
  "IsTurnComplete status phase = ta_TurnComplete (Translate status phase)"

fun lowerChar :: "char \<Rightarrow> char" where
  "lowerChar c = (if 65 \<le> (of_char c :: nat) \<and> (of_char c :: nat) \<le> 90 then char_of ((of_char c :: nat) + 32) else c)"

fun upperChar :: "char \<Rightarrow> char" where
  "upperChar c = (if 97 \<le> (of_char c :: nat) \<and> (of_char c :: nat) \<le> 122 then char_of ((of_char c :: nat) - 32) else c)"

definition SentinelStatus :: "string \<Rightarrow> string" where
  "SentinelStatus raw =
     (if raw = ''DONE'' then ''done'' else if raw = ''FAILED'' \<or> raw = ''BLOCKED'' then ''failed''
      else if raw = ''TIMEOUT'' then ''timeout'' else if raw = ''KILLED'' then ''killed'' else map lowerChar raw)"

section \<open>The await machine\<close>

record run_snapshot =
  rs_Status :: string
  rs_Phase :: string
  rs_PendingPermission :: bool

datatype await_state = StateActive | StateDone | StateFailed | StateTimeout | StateKilled | StatePendingPermission

datatype await_action = ActionContinue | ActionResnapshot | ActionExit

definition stateFromSnapshot :: "run_snapshot \<Rightarrow> await_state" where
  "stateFromSnapshot s =
     (if rs_PendingPermission s then StatePendingPermission
      else
        let st = ta_Status (Translate (rs_Status s) (rs_Phase s)) in
        if st = ''done'' then StateDone else if st = ''failed'' then StateFailed else if st = ''timeout'' then StateTimeout
        else if st = ''killed'' then StateKilled else StateActive)"

text \<open>The zero value of the machine is \<open>None\<close>.\<close>

definition currentState :: "await_state option \<Rightarrow> await_state" where
  "currentState m = (case m of None \<Rightarrow> StateActive | Some s \<Rightarrow> s)"

definition ObserveSnapshot :: "run_snapshot \<Rightarrow> await_state option \<Rightarrow> (await_state \<times> await_action) \<times> await_state option" where
  "ObserveSnapshot s m =
     (let st = stateFromSnapshot s in ((st, if st = StateActive then ActionContinue else ActionExit), Some st))"

definition ObserveEvent :: "string \<Rightarrow> await_state option \<Rightarrow> (await_state \<times> await_action) \<times> await_state option" where
  "ObserveEvent event m =
     ((currentState m,
       if event \<in> {''permission.request'', ''permission.response'', ''session.end'', ''agent.status'', ''subscriber.lagged'', ''client.lagged''}
       then ActionResnapshot else ActionContinue), m)"

datatype observation = SawSnapshot run_snapshot | SawEvent string

fun observe :: "await_state option \<Rightarrow> observation \<Rightarrow> (await_state \<times> await_action) \<times> await_state option" where
  "observe m (SawSnapshot s) = ObserveSnapshot s m"
| "observe m (SawEvent e) = ObserveEvent e m"

definition machineAfter :: "observation list \<Rightarrow> await_state option" where
  "machineAfter = foldl (\<lambda>m ob. snd (observe m ob)) None"

section \<open>The sentinel file\<close>

definition sentinelLineValue :: "string \<Rightarrow> string" where
  "sentinelLineValue = map (\<lambda>c. if c = CHR 0x0D \<or> c = CHR 0x0A then CHR '' '' else c)"

definition newline :: string where
  "newline = [CHR 0x0A]"

definition sentinelContent :: "int \<Rightarrow> string \<Rightarrow> string \<Rightarrow> string \<Rightarrow> int \<Rightarrow> string \<Rightarrow> string \<Rightarrow> string" where
  "sentinelContent exitCode sessionID0 stopReason0 runID retryAfter reason resultPath =
     (let sessionID = sentinelLineValue sessionID0; stopReason = sentinelLineValue stopReason0;
          orElse = (\<lambda>d. if stopReason = '''' then d else stopReason);
          trailer = (if runID \<noteq> '''' then ''RUN='' @ sentinelLineValue runID @ newline else '''') @
                    (if resultPath \<noteq> '''' then ''RESULT='' @ sentinelLineValue resultPath @ newline else '''');
          retry = (if 0 < retryAfter then ''RETRY_AFTER='' @ intString retryAfter @ newline else '''');
          head = (\<lambda>word stop. word @ newline @ ''SESSION='' @ sessionID @ newline @ ''STOP_REASON='' @ stop @ newline) in
      if exitCode = 0 then head ''DONE'' (orElse ''end_turn'') @ retry @ trailer
      else if exitCode = 5 then
        head ''BLOCKED'' ''blocked'' @
          (if reason \<noteq> '''' then ''REASON='' @ sentinelLineValue reason @ newline else '''') @ retry @ trailer
      else if exitCode = 124 then head ''TIMEOUT'' (orElse ''timeout'') @ retry @ trailer
      else if exitCode = 130 then head ''KILLED'' (orElse ''cancelled'') @ ''EXIT_CODE=130'' @ newline @ retry @ trailer
      else head ''FAILED'' (orElse (''exit_'' @ intString exitCode)) @ ''EXIT_CODE='' @ intString exitCode @ newline @ retry @ trailer)"

record sentinel =
  sn_Status :: string
  sn_SessionID :: string
  sn_StopReason :: string

text \<open>\<^verbatim>\<open>strings.Split\<close> at newlines and \<^verbatim>\<open>strings.Cut\<close> at the first equals sign.\<close>

fun splitNewline :: "string \<Rightarrow> string list" where
  "splitNewline [] = [[]]"
| "splitNewline (c # cs) =
     (if c = CHR 0x0A then [] # splitNewline cs
      else (case splitNewline cs of [] \<Rightarrow> [[c]] | l # ls \<Rightarrow> (c # l) # ls))"

definition cutEquals :: "string \<Rightarrow> (string \<times> string) option" where
  "cutEquals line =
     (if CHR ''='' \<in> set line
      then Some (takeWhile (\<lambda>c. c \<noteq> CHR ''='') line, tl (dropWhile (\<lambda>c. c \<noteq> CHR ''='') line)) else None)"

definition sentinelLine :: "sentinel \<Rightarrow> string \<Rightarrow> sentinel" where
  "sentinelLine s line =
     (case cutEquals line of
        None \<Rightarrow> s
      | Some (key, v) \<Rightarrow>
          if key = ''SESSION'' then s\<lparr>sn_SessionID := v\<rparr>
          else if key = ''STOP_REASON'' then s\<lparr>sn_StopReason := v\<rparr> else s)"

definition ReadSentinel :: "string result \<Rightarrow> sentinel result" where
  "ReadSentinel contents =
     bindE (wrapE ''read sentinel: '' [] contents) (\<lambda>d.
     case splitNewline (TrimSpace d) of
       [] \<Rightarrow> Inl (Err ''empty sentinel file'')
     | word # lines \<Rightarrow>
         if word = '''' then Inl (Err ''empty sentinel file'')
         else Inr (foldl sentinelLine \<lparr>sn_Status = word, sn_SessionID = '''', sn_StopReason = ''''\<rparr> lines))"

definition IsTerminalSentinel :: "string \<Rightarrow> bool" where
  "IsTerminalSentinel raw = IsTerminalStatus (SentinelStatus (map upperChar raw))"

definition isResumableSentinel :: "string \<Rightarrow> bool" where
  "isResumableSentinel raw \<longleftrightarrow> SentinelStatus (map upperChar raw) \<in> {''done'', ''failed''}"

definition ReadSentinelSession :: "string result \<Rightarrow> string result" where
  "ReadSentinelSession contents =
     bindE (ReadSentinel contents) (\<lambda>s.
     bindE (require (isResumableSentinel (sn_Status s))
       (Errorf ''run is not resumable (status: %s)'' [map lowerChar (sn_Status s)])) (\<lambda>_.
     bindE (require (sn_SessionID s \<noteq> '''') (Err ''no session in sentinel'')) (\<lambda>_.
     Inr (sn_SessionID s))))"
end
