(* ===== verification/Rs_Safety.thy ===== *)
theory Rs_Safety
  imports Rs_Runstate
begin

text \<open>
  What the consumers of a run can rely on: the await machine follows the last snapshot, and the sentinel file gives back the
  session and the stop reason that were written, whatever text the other fields carry.
\<close>

section \<open>Blank text\<close>

definition spaceByte :: "char \<Rightarrow> bool" where
  "spaceByte c \<longleftrightarrow> (let b = (of_char c :: nat) in b = 32 \<or> 9 \<le> b \<and> b \<le> 13 \<or> 128 \<le> b)"

lemma spaceLen_bytes: "list_all spaceByte (take (spaceLen s) s)"
proof -
  consider "spaceLen s = 0" | "spaceLen s \<noteq> 0" by blast
  then show ?thesis
  proof cases
    case 2
    then show ?thesis
      by (cases s; cases "tl s"; cases "tl (tl s)") (auto simp: spaceLen_def Let_def spaceByte_def numeral_2_eq_2 numeral_3_eq_3 split: if_splits)
  qed simp
qed

lemma spaceLen_le: "spaceLen s \<le> length s"
  by (cases s; cases "tl s"; cases "tl (tl s)") (auto simp: spaceLen_def Let_def numeral_2_eq_2 numeral_3_eq_3)

lemma isBlank_bytes: "isBlank s \<Longrightarrow> list_all spaceByte s"
proof (induction s rule: isBlank.induct)
  case (1 s)
  show ?case
  proof (cases "s = [] \<or> spaceLen s = 0")
    case True
    then show ?thesis using 1(2) by (subst (asm) isBlank.simps) (auto split: if_splits)
  next
    case False
    then have "list_all spaceByte (drop (spaceLen s) s)" using 1 by (subst (asm) (2) isBlank.simps) simp
    then have "list_all spaceByte (take (spaceLen s) s @ drop (spaceLen s) s)" using spaceLen_bytes[of s] by (simp only: list_all_append)
    then show ?thesis by simp
  qed
qed

lemma not_blank: "\<not> spaceByte c \<Longrightarrow> \<not> isBlank (xs @ c # ys)"
  using isBlank_bytes by fastforce

lemma trimEnd_append: "\<not> spaceByte c \<Longrightarrow> trimEnd (xs @ c # ys) = xs @ c # trimEnd ys"
proof (induction xs)
  case Nil
  then show ?case using not_blank[of c "[]" ys] by simp
next
  case (Cons a xs)
  then show ?case using not_blank[of c "a # xs" ys] by simp
qed

lemma trimEnd_blank: "isBlank s \<Longrightarrow> trimEnd s = []"
  by (cases s) auto

lemma trimEnd_prefix: "\<exists>rest. s = trimEnd s @ rest"
  by (induction s) (auto intro: exI[of _ "_ # _"])

section \<open>The lines of a sentinel\<close>

lemma splitNewline_plain: "CHR 0x0A \<notin> set s \<Longrightarrow> splitNewline s = [s]"
  by (induction s) auto

lemma splitNewline_append: "CHR 0x0A \<notin> set l \<Longrightarrow> splitNewline (l @ CHR 0x0A # r) = l # splitNewline r"
  by (induction l) auto

text \<open>A line \<open>key=value\<close> whose key starts with a printable character.\<close>

definition fieldLine :: "string \<Rightarrow> string \<Rightarrow> string" where
  "fieldLine key v = key @ CHR ''='' # v"

definition plainKey :: "string \<Rightarrow> bool" where
  "plainKey key \<longleftrightarrow> CHR ''='' \<notin> set key \<and> CHR 0x0A \<notin> set key"

lemma trimEnd_field: "trimEnd (xs @ fieldLine key v) = xs @ fieldLine key (trimEnd v)"
proof -
  have "\<not> spaceByte (CHR ''='')" by (simp add: spaceByte_def)
  from trimEnd_append[OF this, of "xs @ key" v] show ?thesis by (simp add: fieldLine_def)
qed

lemma cutEquals_field:
  assumes "plainKey key"
  shows "cutEquals (fieldLine key v) = Some (key, v)"
proof -
  have "CHR ''='' \<notin> set key" using assms by (simp add: plainKey_def)
  then have "takeWhile (\<lambda>c. c \<noteq> CHR ''='') (fieldLine key v) = key \<and> dropWhile (\<lambda>c. c \<noteq> CHR ''='') (fieldLine key v) = CHR ''='' # v"
    by (induction key) (auto simp: fieldLine_def)
  then show ?thesis by (simp add: cutEquals_def) (simp add: fieldLine_def)
qed

definition fieldText :: "(string \<times> string) list \<Rightarrow> string" where
  "fieldText fs = concat (map (\<lambda>(k, v). fieldLine k v @ newline) fs)"

definition plainFields :: "(string \<times> string) list \<Rightarrow> bool" where
  "plainFields fs \<longleftrightarrow> (\<forall>(k, v)\<in>set fs. plainKey k \<and> CHR 0x0A \<notin> set v)"

lemma spaceLen_newline: "s \<noteq> [] \<Longrightarrow> spaceLen (s @ newline) = spaceLen s"
  by (cases s; cases "tl s"; cases "tl (tl s)") (auto simp: spaceLen_def Let_def newline_def numeral_2_eq_2 numeral_3_eq_3)

lemma isBlank_newline: "isBlank (s @ newline) = isBlank s"
proof (induction s rule: isBlank.induct)
  case (1 s)
  show ?case
  proof (cases "s = []")
    case True
    have "isBlank newline" by code_simp
    then show ?thesis using True by simp
  next
    case False
    then show ?thesis using 1 spaceLen_le[of s]
      by (subst (1 2) isBlank.simps) (simp add: spaceLen_newline)
  qed
qed

lemma trimEnd_newline: "trimEnd (v @ newline) = trimEnd v"
proof (induction v)
  case Nil
  have "trimEnd newline = []" by code_simp
  then show ?case by simp
next
  case (Cons c v)
  then show ?case using isBlank_newline[of "c # v"] by simp
qed


lemma splitNewline_fields:
  assumes "plainFields fs" and "CHR 0x0A \<notin> set l"
  shows "splitNewline (fieldText fs @ l) = map (\<lambda>(k, v). fieldLine k v) fs @ [l]"
  using assms
proof (induction fs)
  case (Cons f fs)
  obtain k v where f: "f = (k, v)" by fastforce
  have "CHR 0x0A \<notin> set (fieldLine k v)" using Cons.prems(1) f by (auto simp: plainFields_def plainKey_def fieldLine_def)
  from splitNewline_append[OF this, of "fieldText fs @ l"] show ?case
    using Cons f by (auto simp: fieldText_def newline_def plainFields_def)
qed (simp add: splitNewline_plain fieldText_def)

lemma sentinelLine_field:
  "plainKey k \<Longrightarrow> sentinelLine s (fieldLine k v) =
    (if k = ''SESSION'' then s\<lparr>sn_SessionID := v\<rparr> else if k = ''STOP_REASON'' then s\<lparr>sn_StopReason := v\<rparr> else s)"
  by (simp add: sentinelLine_def cutEquals_field)

definition readFields :: "string \<Rightarrow> (string \<times> string) list \<Rightarrow> sentinel" where
  "readFields word fs = foldl (\<lambda>s (k, v). if k = ''SESSION'' then s\<lparr>sn_SessionID := v\<rparr>
     else if k = ''STOP_REASON'' then s\<lparr>sn_StopReason := v\<rparr> else s) \<lparr>sn_Status = word, sn_SessionID = '''', sn_StopReason = ''''\<rparr> fs"

lemma foldl_sentinelLine:
  "plainFields fs \<Longrightarrow> foldl sentinelLine s (map (\<lambda>(k, v). fieldLine k v) fs) =
    foldl (\<lambda>s (k, v). if k = ''SESSION'' then s\<lparr>sn_SessionID := v\<rparr>
      else if k = ''STOP_REASON'' then s\<lparr>sn_StopReason := v\<rparr> else s) s fs"
  by (induction fs arbitrary: s) (auto simp: plainFields_def sentinelLine_field)

text \<open>The reader takes the fields line by line; of the last one it takes the value without its trailing blanks.\<close>

lemma ReadSentinel_fields:
  assumes "plainFields (fs @ [(k, v)])" and "word \<noteq> []" "\<not> spaceByte (hd word)" "CHR 0x0A \<notin> set word"
  shows "ReadSentinel (Inr (word @ newline @ fieldText (fs @ [(k, v)]))) = Inr (readFields word (fs @ [(k, trimEnd v)]))"
proof -
  let ?text = "word @ newline @ fieldText (fs @ [(k, v)])" and ?front = "word @ newline @ fieldText fs"
  obtain c cs where word: "word = c # cs" using assms(2) by (cases word) auto
  have "spaceLen ?text = 0"
  proof (rule ccontr)
    assume "spaceLen ?text \<noteq> 0"
    then have "spaceByte c" using spaceLen_bytes[of ?text] word by (cases "spaceLen ?text") auto
    then show False using assms(3) word by simp
  qed
  then have "skipSpace ?text = ?text" by (subst skipSpace.simps) simp
  moreover have "?text = ?front @ fieldLine k v @ newline" by (simp add: fieldText_def)
  moreover have "trimEnd (?front @ fieldLine k v @ newline) = ?front @ fieldLine k (trimEnd v)"
    using trimEnd_newline[of "?front @ fieldLine k v"] trimEnd_field[of ?front k v] by simp
  ultimately have trim: "TrimSpace ?text = word @ CHR 0x0A # fieldText fs @ fieldLine k (trimEnd v)"
    by (simp add: TrimSpace_def newline_def)
  obtain rest where "v = trimEnd v @ rest" using trimEnd_prefix by blast
  then have "set (trimEnd v) \<subseteq> set v" by (metis Un_upper1 set_append)
  then have plain: "plainFields fs" "plainFields (fs @ [(k, trimEnd v)])" "CHR 0x0A \<notin> set (fieldLine k (trimEnd v))"
    using assms(1) by (auto simp: plainFields_def plainKey_def fieldLine_def)
  have "splitNewline (TrimSpace ?text) = word # map (\<lambda>(k, v). fieldLine k v) (fs @ [(k, trimEnd v)])"
    unfolding trim using splitNewline_append[OF assms(4)] splitNewline_fields[OF plain(1,3)] by simp
  then show ?thesis
    using foldl_sentinelLine[OF plain(2)] assms(2) by (simp add: ReadSentinel_def readFields_def)
qed


section \<open>The sentinel gives back what was written\<close>

definition sentinelWord :: "int \<Rightarrow> string" where
  "sentinelWord code = (if code = 0 then ''DONE'' else if code = 5 then ''BLOCKED'' else if code = 124 then ''TIMEOUT''
     else if code = 130 then ''KILLED'' else ''FAILED'')"

definition effectiveStop :: "int \<Rightarrow> string \<Rightarrow> string" where
  "effectiveStop code stop =
     (if code = 5 then ''blocked'' else if stop \<noteq> '''' then sentinelLineValue stop
      else if code = 0 then ''end_turn'' else if code = 124 then ''timeout'' else if code = 130 then ''cancelled''
      else ''exit_'' @ intString code)"

definition otherFields :: "int \<Rightarrow> string \<Rightarrow> int \<Rightarrow> string \<Rightarrow> string \<Rightarrow> (string \<times> string) list" where
  "otherFields code runID retryAfter reason resultPath =
     (if code = 5 \<and> reason \<noteq> '''' then [(''REASON'', sentinelLineValue reason)] else []) @
     (if code \<notin> {0, 5, 124} then [(''EXIT_CODE'', intString code)] else []) @
     (if 0 < retryAfter then [(''RETRY_AFTER'', intString retryAfter)] else []) @
     (if runID \<noteq> '''' then [(''RUN'', sentinelLineValue runID)] else []) @
     (if resultPath \<noteq> '''' then [(''RESULT'', sentinelLineValue resultPath)] else [])"

lemma sentinelLineValue_plain: "CHR 0x0A \<notin> set (sentinelLineValue s)" "sentinelLineValue s = '''' \<longleftrightarrow> s = ''''"
  by (auto simp: sentinelLineValue_def)

lemma natString_nonewline: "CHR 0x0A \<notin> set (natString n)"
proof (induction n rule: natString.induct)
  case (1 n)
  have digit: "CHR 0x0A \<noteq> char_of (48 + d)" if "d < 10" for d :: nat
  proof
    assume "CHR 0x0A = char_of (48 + d)"
    then have "(of_char (CHR 0x0A) :: nat) = of_char (char_of (48 + d) :: char)" by (simp only:)
    then show False using that by simp
  qed
  show ?case
  proof (cases "n < 10")
    case True
    then show ?thesis using digit[OF True] by (subst natString.simps) (simp only: if_True list.set insert_iff empty_iff simp_thms)
  next
    case False
    have "CHR 0x0A \<noteq> char_of (48 + n mod 10)" by (rule digit) simp
    with False 1 show ?thesis by (subst natString.simps) (simp only: if_False set_append list.set Un_iff insert_iff empty_iff simp_thms)
  qed
qed

lemma intString_nonewline: "CHR 0x0A \<notin> set (intString i)"
  by (simp add: intString_def natString_nonewline)

lemma sentinelContent_fields:
  "sentinelContent code sid stop runID retryAfter reason resultPath = sentinelWord code @ newline @
     fieldText ([(''SESSION'', sentinelLineValue sid), (''STOP_REASON'', effectiveStop code stop)] @
       otherFields code runID retryAfter reason resultPath)"
proof -
  have "intString 130 = ''130''" by code_simp
  then show ?thesis
    by (simp add: sentinelContent_def Let_def fieldText_def fieldLine_def sentinelWord_def effectiveStop_def otherFields_def
        sentinelLineValue_plain(2))
qed

lemma plainKeys: "plainKey ''SESSION''" "plainKey ''STOP_REASON''" "plainKey ''REASON''" "plainKey ''EXIT_CODE''"
  "plainKey ''RETRY_AFTER''" "plainKey ''RUN''" "plainKey ''RESULT''"
  by (simp_all add: plainKey_def)

lemma otherFields_plain: "plainFields (otherFields code runID retryAfter reason resultPath)"
  by (auto simp: plainFields_def otherFields_def plainKeys sentinelLineValue_plain intString_nonewline)

lemma effectiveStop_plain: "CHR 0x0A \<notin> set (effectiveStop code stop)"
  by (simp add: effectiveStop_def sentinelLineValue_plain intString_nonewline)

text \<open>The other fields do not touch the session and the stop reason, whatever their values are.\<close>

lemma readFields_others:
  assumes "\<forall>(k, v)\<in>set others. k \<notin> {''SESSION'', ''STOP_REASON''}"
  shows "readFields word ([(''SESSION'', s), (''STOP_REASON'', r)] @ others) = \<lparr>sn_Status = word, sn_SessionID = s, sn_StopReason = r\<rparr>"
proof -
  have "foldl (\<lambda>s (k, v). if k = ''SESSION'' then s\<lparr>sn_SessionID := v\<rparr>
      else if k = ''STOP_REASON'' then s\<lparr>sn_StopReason := v\<rparr> else s) x others = x" for x
    using assms by (induction others arbitrary: x) auto
  then show ?thesis by (simp add: readFields_def)
qed

lemma otherFields_keys: "\<forall>(k, v)\<in>set (otherFields code runID retryAfter reason resultPath). k \<notin> {''SESSION'', ''STOP_REASON''}"
  by (auto simp: otherFields_def)



section \<open>The await machine\<close>

lemma machineAfter_snoc: "machineAfter (obs @ [ob]) = snd (observe (machineAfter obs) ob)"
  by (simp add: machineAfter_def)

fun snapshotOf :: "observation \<Rightarrow> run_snapshot option" where
  "snapshotOf (SawSnapshot s) = Some s"
| "snapshotOf (SawEvent e) = None"

lemma machineAfter_last:
  "currentState (machineAfter obs) =
     (case rev (List.map_filter snapshotOf obs) of [] \<Rightarrow> StateActive | s # _ \<Rightarrow> stateFromSnapshot s)"
proof (induction obs rule: rev_induct)
  case Nil
  show ?case by (simp add: machineAfter_def currentState_def List.map_filter_simps)
next
  case (snoc ob obs)
  then show ?case
    by (cases ob) (auto simp: machineAfter_snoc ObserveSnapshot_def ObserveEvent_def Let_def currentState_def map_filter_def)
qed

lemma turn_statuses: "ta_TurnComplete (Translate status phase) \<longleftrightarrow> ta_Status (Translate status phase) \<in> {''done'', ''failed'', ''timeout'', ''killed''}"
  by (simp add: Translate_def Let_def IsTerminalStatus_def)

lemma state_active_iff: "stateFromSnapshot s = StateActive \<longleftrightarrow> \<not> rs_PendingPermission s \<and> \<not> IsTurnComplete (rs_Status s) (rs_Phase s)"
  by (auto simp: stateFromSnapshot_def Let_def IsTurnComplete_def turn_statuses)

text \<open>
  An await ends exactly when an authoritative snapshot says so. After any observations, an observation makes
  the machine exit if and only if it is a snapshot with a pending permission or a complete turn; the state it reports then is that
  snapshot's. An event never ends the wait and leaves the state that of the last snapshot.
\<close>

theorem await_exit_exact:
  "(snd (fst (observe (machineAfter obs) ob)) = ActionExit \<longleftrightarrow>
      (\<exists>s. ob = SawSnapshot s \<and> (rs_PendingPermission s \<or> IsTurnComplete (rs_Status s) (rs_Phase s)))) \<and>
   fst (fst (observe (machineAfter obs) ob)) =
      (case rev (List.map_filter snapshotOf (obs @ [ob])) of [] \<Rightarrow> StateActive | s # _ \<Rightarrow> stateFromSnapshot s)"
  using state_active_iff machineAfter_last[of obs]
  by (cases ob) (auto simp: ObserveSnapshot_def ObserveEvent_def Let_def map_filter_def)

end
