(* ===== verification/Sv_Lifecycle.thy ===== *)
theory Sv_Lifecycle
  imports Rs_Runstate Lp_Phase
begin

text \<open>
  The lifecycle machine of a supervised runtime (\<^verbatim>\<open>src/internal/stable/runtime_lifecycle.go\<close>): the closed state, the
  signals, the effects, and the pure transition function, called \<open>nextLifecycle\<close> here. The machine predicts; the
  supervisor commits and executes (\<open>Sv_Child\<close>). The enumerations are integers in the source with range checks; here they are
  datatypes, for which the range checks hold, and \<open>execNum\<close> and its kin are the integers that error texts print.
\<close>

section \<open>The closed state\<close>

datatype exec_state = execReserved | execStarting | execRunning | execIdle | execParked | execParkedEnding | execEnded
datatype shutdown_stage = shutdownNone | shutdownRequested
datatype writer_stage = writerOpen | writerClosing | writerClosed
datatype completion_stage = completionOpen | completionAdmissionClosed | completionPublished
datatype attempt_class = directAttemptClass | workflowAttemptClass
datatype run_kind = runKindOrdinaryDirect | runKindWorkflowDirect | runKindDecider
datatype probe_kind = probeNone | probeTerminalPrompt | probeRetryPrompt
datatype completion_boundary = afterRunTeardown | afterSpawnRollback

record lifecycle_state =
  ls_exec :: exec_state
  ls_attempts :: int
  ls_shutdown :: shutdown_stage
  ls_writer :: writer_stage
  ls_completion :: completion_stage
  ls_class :: attempt_class
  ls_pendingProbe :: probe_kind

definition freshLifecycle :: "attempt_class \<Rightarrow> lifecycle_state" where
  "freshLifecycle c = \<lparr>ls_exec = execReserved, ls_attempts = 0, ls_shutdown = shutdownNone, ls_writer = writerOpen,
     ls_completion = completionOpen, ls_class = c, ls_pendingProbe = probeNone\<rparr>"

definition isActive :: "lifecycle_state \<Rightarrow> bool" where
  "isActive l \<longleftrightarrow> ls_exec l = execRunning"

definition isParked :: "lifecycle_state \<Rightarrow> bool" where
  "isParked l \<longleftrightarrow> ls_exec l = execParked \<or> ls_exec l = execParkedEnding"

definition isCompleted :: "lifecycle_state \<Rightarrow> bool" where
  "isCompleted l \<longleftrightarrow> ls_completion l = completionAdmissionClosed \<or> ls_completion l = completionPublished"

definition isShuttingDown :: "lifecycle_state \<Rightarrow> bool" where
  "isShuttingDown l \<longleftrightarrow> ls_shutdown l = shutdownRequested"

definition isWriterClosing :: "lifecycle_state \<Rightarrow> bool" where
  "isWriterClosing l \<longleftrightarrow> ls_writer l = writerClosing \<or> ls_writer l = writerClosed"

definition isWriterClosed :: "lifecycle_state \<Rightarrow> bool" where
  "isWriterClosed l \<longleftrightarrow> ls_writer l = writerClosed"

definition runtimeStatus :: "lifecycle_state \<Rightarrow> string" where
  "runtimeStatus l =
     (if isCompleted l then ''ended''
      else (case ls_exec l of
              execStarting \<Rightarrow> ''running''
            | execRunning \<Rightarrow> ''running''
            | execIdle \<Rightarrow> if ls_class l = workflowAttemptClass then ''running'' else ''idle''
            | _ \<Rightarrow> ''idle''))"

section \<open>Signals, effects and continuations\<close>

datatype signal_kind =
    signalPublished | signalAttemptPreparing | signalAttemptStarted | signalAttemptStartFailed | signalAttemptSettled
  | signalWorkflowFinalized | signalAttemptReturned | signalAttemptOutcome | signalPromptContinuation
  | signalSuccessPresented | signalParkRequested | signalPromptDequeued | signalLocalSlotAcquired | signalParkTimedOut
  | signalParkWaitEnded | signalIdleContextEnded | signalRunEnded | signalSpawnRolledBack | signalShutdownRequested
  | signalWriterCloseBegun | signalWriterCloseFinished | signalCompletionPublished | signalAgentStatusObserved
  | signalSessionEndObserved | signalFault

datatype ctx_end = ctxCanceled | ctxDeadline

record lifecycle_signal =
  sg_kind :: signal_kind
  sg_class :: attempt_class
  sg_runKind :: run_kind
  sg_exitCode :: int
  sg_stopReason :: string
  sg_sentinelReason :: string
  sg_sentinelRetryAfter :: int64
  sg_resultSessionID :: string
  sg_sessionIDConflict :: bool
  sg_retryable :: bool
  sg_retriesRemaining :: bool
  sg_probeKind :: probe_kind
  sg_promptConsumed :: bool
  sg_terminalContextErr :: "ctx_end option"
  sg_resumeContextErr :: "ctx_end option"
  sg_idleContextErr :: "ctx_end option"
  sg_phase :: string
  sg_label :: string
  sg_idleExitCode :: int
  sg_idleStopReason :: string
  sg_recordExit :: bool
  sg_idleEnd :: bool
  sg_closeCalled :: bool
  sg_boundary :: completion_boundary

text \<open>A signal with the zero values of the fields that its sender leaves out.\<close>

definition signalOf :: "signal_kind \<Rightarrow> attempt_class \<Rightarrow> lifecycle_signal" where
  "signalOf k c = \<lparr>sg_kind = k, sg_class = c, sg_runKind = runKindOrdinaryDirect, sg_exitCode = 0, sg_stopReason = '''',
     sg_sentinelReason = '''', sg_sentinelRetryAfter = 0, sg_resultSessionID = '''', sg_sessionIDConflict = False,
     sg_retryable = False, sg_retriesRemaining = False, sg_probeKind = probeNone, sg_promptConsumed = False,
     sg_terminalContextErr = None, sg_resumeContextErr = None, sg_idleContextErr = None, sg_phase = '''', sg_label = '''',
     sg_idleExitCode = 0, sg_idleStopReason = '''', sg_recordExit = False, sg_idleEnd = False, sg_closeCalled = False,
     sg_boundary = afterRunTeardown\<rparr>"

text \<open>An effect with the fields of the payload that its kind uses.\<close>

datatype lifecycle_effect =
    effectClearPresentation
  | effectSetAgentPresentation string string
  | effectSetSuccessPresentation
  | effectSetSessionEndPresentation string
  | effectSetIdleEndData int string
  | effectRecordOutcomeExit int
  | effectSettleTurnWaiters
  | effectReleaseTreeToken
  | effectWriteSentinel int string string int64
  | effectSignalCapacity
  | effectEmitSessionEnd string
  | effectConsiderProviderCancel
  | effectCancelContext
  | effectPublishCompletion completion_boundary
  | effectCloseDone

datatype continuation_kind =
    contNone | contPark | contEnd | contProbeTerminalPrompt | contProbeRetryPrompt
  | contResumeQueued | contRetry | contBackoff | contIdleContextEnd

type_synonym lifecycle_transition = "lifecycle_state \<times> continuation_kind \<times> lifecycle_effect list"

section \<open>Numbers in error texts\<close>

definition execNum :: "exec_state \<Rightarrow> string" where
  "execNum e = natString (case e of execReserved \<Rightarrow> 0 | execStarting \<Rightarrow> 1 | execRunning \<Rightarrow> 2 | execIdle \<Rightarrow> 3
     | execParked \<Rightarrow> 4 | execParkedEnding \<Rightarrow> 5 | execEnded \<Rightarrow> 6)"

definition completionNum :: "completion_stage \<Rightarrow> string" where
  "completionNum c = natString (case c of completionOpen \<Rightarrow> 0 | completionAdmissionClosed \<Rightarrow> 1 | completionPublished \<Rightarrow> 2)"

definition writerNum :: "writer_stage \<Rightarrow> string" where
  "writerNum w = natString (case w of writerOpen \<Rightarrow> 0 | writerClosing \<Rightarrow> 1 | writerClosed \<Rightarrow> 2)"

definition classNum :: "attempt_class \<Rightarrow> string" where
  "classNum c = natString (case c of directAttemptClass \<Rightarrow> 0 | workflowAttemptClass \<Rightarrow> 1)"

definition runKindNum :: "run_kind \<Rightarrow> string" where
  "runKindNum k = natString (case k of runKindOrdinaryDirect \<Rightarrow> 0 | runKindWorkflowDirect \<Rightarrow> 1 | runKindDecider \<Rightarrow> 2)"

definition probeNum :: "probe_kind \<Rightarrow> string" where
  "probeNum p = natString (case p of probeNone \<Rightarrow> 0 | probeTerminalPrompt \<Rightarrow> 1 | probeRetryPrompt \<Rightarrow> 2)"

definition boundaryNum :: "completion_boundary \<Rightarrow> string" where
  "boundaryNum b = natString (case b of afterRunTeardown \<Rightarrow> 0 | afterSpawnRollback \<Rightarrow> 1)"

definition signalNum :: "signal_kind \<Rightarrow> string" where
  "signalNum k = natString (case k of
       signalPublished \<Rightarrow> 0 | signalAttemptPreparing \<Rightarrow> 1 | signalAttemptStarted \<Rightarrow> 2 | signalAttemptStartFailed \<Rightarrow> 3
     | signalAttemptSettled \<Rightarrow> 4 | signalWorkflowFinalized \<Rightarrow> 5 | signalAttemptReturned \<Rightarrow> 6 | signalAttemptOutcome \<Rightarrow> 7
     | signalPromptContinuation \<Rightarrow> 8 | signalSuccessPresented \<Rightarrow> 9 | signalParkRequested \<Rightarrow> 10 | signalPromptDequeued \<Rightarrow> 11
     | signalLocalSlotAcquired \<Rightarrow> 12 | signalParkTimedOut \<Rightarrow> 13 | signalParkWaitEnded \<Rightarrow> 14 | signalIdleContextEnded \<Rightarrow> 15
     | signalRunEnded \<Rightarrow> 16 | signalSpawnRolledBack \<Rightarrow> 17 | signalShutdownRequested \<Rightarrow> 18 | signalWriterCloseBegun \<Rightarrow> 19
     | signalWriterCloseFinished \<Rightarrow> 20 | signalCompletionPublished \<Rightarrow> 21 | signalAgentStatusObserved \<Rightarrow> 22
     | signalSessionEndObserved \<Rightarrow> 23 | signalFault \<Rightarrow> 24)"

section \<open>Validation\<close>

definition validateLifecycleState :: "lifecycle_state \<Rightarrow> unit result" where
  "validateLifecycleState l =
     bindE (require (0 \<le> ls_attempts l) (Errorf ''lifecycle: negative attempt count %d'' [intString (ls_attempts l)])) (\<lambda>_.
     bindE (require (\<not> (ls_exec l = execRunning \<and> ls_attempts l = 0)) (Err ''lifecycle: running with zero attempts'')) (\<lambda>_.
     bindE (require (\<not> (0 < ls_attempts l \<and> ls_exec l \<noteq> execRunning))
       (Errorf ''lifecycle: %d attempts in exec state %d'' [intString (ls_attempts l), execNum (ls_exec l)])) (\<lambda>_.
     bindE (require (\<not> (ls_completion l \<noteq> completionOpen \<and> 0 < ls_attempts l))
       (Errorf ''lifecycle: completion %d with %d attempts'' [completionNum (ls_completion l), intString (ls_attempts l)])) (\<lambda>_.
     bindE (case ls_completion l of
              completionAdmissionClosed \<Rightarrow>
                require (ls_exec l \<in> {execParked, execIdle, execParkedEnding, execEnded})
                  (Errorf ''lifecycle: admission closed in exec state %d'' [execNum (ls_exec l)])
            | completionPublished \<Rightarrow>
                require (ls_exec l = execEnded) (Errorf ''lifecycle: published in exec state %d'' [execNum (ls_exec l)])
            | completionOpen \<Rightarrow> Inr ()) (\<lambda>_.
     bindE (require (\<not> (ls_exec l = execReserved \<and> (ls_completion l \<noteq> completionOpen \<or> ls_attempts l \<noteq> 0)))
       (Errorf ''lifecycle: reserved with completion %d, attempts %d'' [completionNum (ls_completion l), intString (ls_attempts l)])) (\<lambda>_.
     bindE (require (\<not> (ls_class l = directAttemptClass \<and> 1 < ls_attempts l))
       (Errorf ''lifecycle: direct runtime with %d attempts'' [intString (ls_attempts l)])) (\<lambda>_.
     if ls_pendingProbe l \<noteq> probeNone then
       bindE (require (ls_exec l = execStarting \<or> ls_exec l = execIdle)
         (Errorf ''lifecycle: pending probe %d in exec state %d'' [probeNum (ls_pendingProbe l), execNum (ls_exec l)])) (\<lambda>_.
       require (ls_completion l = completionOpen)
         (Errorf ''lifecycle: pending probe %d after completion %d'' [probeNum (ls_pendingProbe l), completionNum (ls_completion l)]))
     else Inr ())))))))"

definition requireOpen :: "lifecycle_state \<Rightarrow> signal_kind \<Rightarrow> unit result" where
  "requireOpen l k =
     bindE (require (ls_completion l = completionOpen)
       (Errorf ''lifecycle: signal %d after completion %d'' [signalNum k, completionNum (ls_completion l)])) (\<lambda>_.
     require (\<not> (ls_exec l = execEnded \<or> ls_exec l = execParkedEnding))
       (Errorf ''lifecycle: signal %d in exec state %d'' [signalNum k, execNum (ls_exec l)]))"

definition validateLifecycleSignal :: "lifecycle_signal \<Rightarrow> unit result" where
  "validateLifecycleSignal sg =
     (case sg_kind sg of
        signalPromptContinuation \<Rightarrow>
          require (sg_probeKind sg \<noteq> probeNone)
            (Errorf ''lifecycle: promptContinuation with invalid probe kind %d'' [probeNum (sg_probeKind sg)])
      | signalSuccessPresented \<Rightarrow>
          require (sg_exitCode sg = 0) (Errorf ''lifecycle: successPresented with exit code %d'' [intString (sg_exitCode sg)])
      | signalParkRequested \<Rightarrow>
          require (sg_runKind sg = runKindOrdinaryDirect)
            (Errorf ''lifecycle: parkRequested with run kind %d'' [runKindNum (sg_runKind sg)])
      | signalWriterCloseFinished \<Rightarrow>
          require (sg_closeCalled sg) (Err ''lifecycle: writerCloseFinished without a Close call on a nonnil sink'')
      | signalRunEnded \<Rightarrow>
          require (sg_boundary sg = afterRunTeardown)
            (Errorf ''lifecycle: runEnded with boundary %d, want afterRunTeardown'' [boundaryNum (sg_boundary sg)])
      | signalSpawnRolledBack \<Rightarrow>
          require (sg_boundary sg = afterSpawnRollback)
            (Errorf ''lifecycle: spawnRolledBack with boundary %d, want afterSpawnRollback'' [boundaryNum (sg_boundary sg)])
      | _ \<Rightarrow> Inr ())"

section \<open>Transitions of attempts\<close>

definition nextPublished :: "lifecycle_state \<Rightarrow> lifecycle_transition result" where
  "nextPublished st =
     bindE (require (ls_exec st = execReserved) (Errorf ''lifecycle: published from exec state %d'' [execNum (ls_exec st)])) (\<lambda>_.
     Inr (st\<lparr>ls_exec := execStarting\<rparr>, contNone, []))"

text \<open>Where an attempt can be prepared, started or fail to start: at rest, or beside others in a workflow.\<close>

definition attemptSource :: "lifecycle_state \<Rightarrow> lifecycle_signal \<Rightarrow> error \<Rightarrow> string \<Rightarrow> unit result" where
  "attemptSource st sg beside elsewhere =
     bindE (requireOpen st (sg_kind sg)) (\<lambda>_.
     case ls_exec st of
       execStarting \<Rightarrow> Inr ()
     | execIdle \<Rightarrow> Inr ()
     | execRunning \<Rightarrow> require (sg_class sg = workflowAttemptClass) beside
     | _ \<Rightarrow> Inl (Errorf elsewhere [execNum (ls_exec st)]))"

definition nextAttemptPreparing :: "lifecycle_state \<Rightarrow> lifecycle_signal \<Rightarrow> lifecycle_transition result" where
  "nextAttemptPreparing st sg =
     bindE (attemptSource st sg (Errorf ''lifecycle: preparing in running state with class %d'' [classNum (sg_class sg)])
       ''lifecycle: preparing from exec state %d'') (\<lambda>_.
     Inr (st, contNone, [effectClearPresentation]))"

definition nextAttemptStarted :: "lifecycle_state \<Rightarrow> lifecycle_signal \<Rightarrow> lifecycle_transition result" where
  "nextAttemptStarted st sg =
     bindE (attemptSource st sg (Err ''lifecycle: direct parallel attempt start rejected'')
       ''lifecycle: attempt started from exec state %d'') (\<lambda>_.
     Inr (st\<lparr>ls_attempts := ls_attempts st + 1, ls_exec := execRunning\<rparr>, contNone, []))"

definition nextAttemptStartFailed :: "lifecycle_state \<Rightarrow> lifecycle_signal \<Rightarrow> lifecycle_transition result" where
  "nextAttemptStartFailed st sg =
     bindE (attemptSource st sg (Errorf ''lifecycle: start failed in running state with class %d'' [classNum (sg_class sg)])
       ''lifecycle: start failed from exec state %d'') (\<lambda>_.
     Inr (if ls_exec st = execStarting then st\<lparr>ls_exec := execIdle\<rparr> else st, contNone, []))"

definition nextAttemptSettled :: "lifecycle_state \<Rightarrow> lifecycle_signal \<Rightarrow> lifecycle_transition result" where
  "nextAttemptSettled st sg =
     bindE (requireOpen st (sg_kind sg)) (\<lambda>_.
     bindE (require (ls_exec st = execRunning \<and> 0 < ls_attempts st)
       (Errorf ''lifecycle: settled from exec %d with %d attempts'' [execNum (ls_exec st), intString (ls_attempts st)])) (\<lambda>_.
     bindE (require (\<not> (sg_class sg = directAttemptClass \<and> ls_attempts st \<noteq> 1))
       (Errorf ''lifecycle: direct settle with %d attempts'' [intString (ls_attempts st)])) (\<lambda>_.
     (let out = st\<lparr>ls_attempts := ls_attempts st - 1\<rparr> in
      Inr (if ls_attempts out = 0 then (out\<lparr>ls_exec := execIdle\<rparr>, contNone, [effectClearPresentation, effectSettleTurnWaiters])
           else (out, contNone, []))))))"

definition nextWorkflowFinalized :: "lifecycle_state \<Rightarrow> lifecycle_signal \<Rightarrow> lifecycle_transition result" where
  "nextWorkflowFinalized st sg =
     bindE (requireOpen st (sg_kind sg)) (\<lambda>_.
     bindE (require (sg_class sg = workflowAttemptClass)
       (Errorf ''lifecycle: workflow finalized with class %d'' [classNum (sg_class sg)])) (\<lambda>_.
     bindE (require (ls_exec st \<in> {execStarting, execIdle, execRunning})
       (Errorf ''lifecycle: finalized from exec state %d'' [execNum (ls_exec st)])) (\<lambda>_.
     Inr (st\<lparr>ls_attempts := 0, ls_exec := execIdle\<rparr>, contNone, [effectSettleTurnWaiters]))))"

text \<open>At rest in a direct run: the guard that the signals after an attempt share.\<close>

definition directAtRest :: "lifecycle_state \<Rightarrow> lifecycle_signal \<Rightarrow> string \<Rightarrow> string \<Rightarrow> unit result" where
  "directAtRest st sg wrongClass wrongExec =
     bindE (requireOpen st (sg_kind sg)) (\<lambda>_.
     bindE (require (sg_class sg = directAttemptClass) (Errorf wrongClass [classNum (sg_class sg)])) (\<lambda>_.
     require (ls_exec st = execStarting \<or> ls_exec st = execIdle) (Errorf wrongExec [execNum (ls_exec st)])))"

definition nextAttemptReturned :: "lifecycle_state \<Rightarrow> lifecycle_signal \<Rightarrow> lifecycle_transition result" where
  "nextAttemptReturned st sg =
     bindE (directAtRest st sg ''lifecycle: attempt returned with class %d'' ''lifecycle: attempt returned from exec state %d'') (\<lambda>_.
     Inr (st, contNone, [effectReleaseTreeToken]))"

section \<open>The outcome of an attempt, and the prompt that may follow\<close>

definition resultSentinel :: "lifecycle_signal \<Rightarrow> lifecycle_effect" where
  "resultSentinel sg = effectWriteSentinel (sg_exitCode sg) (sg_sentinelReason sg) (sg_resultSessionID sg) (sg_sentinelRetryAfter sg)"

definition nextAttemptOutcome :: "lifecycle_state \<Rightarrow> lifecycle_signal \<Rightarrow> lifecycle_transition result" where
  "nextAttemptOutcome st sg =
     bindE (directAtRest st sg ''lifecycle: attempt outcome with class %d'' ''lifecycle: attempt outcome from exec state %d'') (\<lambda>_.
     bindE (require (ls_pendingProbe st = probeNone)
       (Errorf ''lifecycle: attempt outcome with probe %d still pending'' [probeNum (ls_pendingProbe st)])) (\<lambda>_.
     (let record = effectRecordOutcomeExit (sg_exitCode sg); sentinel = resultSentinel sg in
      Inr (if \<not> sg_retryable sg \<or> \<not> sg_retriesRemaining sg then
             (if sg_exitCode sg = 0 then
                (st, if sg_runKind sg = runKindOrdinaryDirect then contPark else contEnd, [record, sentinel])
              else if sg_runKind sg = runKindDecider \<or> sg_sessionIDConflict sg then (st, contEnd, [record, sentinel])
              else (st\<lparr>ls_pendingProbe := probeTerminalPrompt\<rparr>, contProbeTerminalPrompt, [record]))
           else if sg_runKind sg = runKindDecider then (st, contEnd, [record, sentinel])
           else (st\<lparr>ls_pendingProbe := probeRetryPrompt\<rparr>, contProbeRetryPrompt, [])))))"

definition nextPromptContinuation :: "lifecycle_state \<Rightarrow> lifecycle_signal \<Rightarrow> lifecycle_transition result" where
  "nextPromptContinuation st sg =
     bindE (directAtRest st sg ''lifecycle: prompt continuation with class %d'' ''lifecycle: prompt continuation from exec state %d'') (\<lambda>_.
     bindE (require (ls_pendingProbe st \<noteq> probeNone) (Err ''lifecycle: prompt continuation without a pending probe'')) (\<lambda>_.
     bindE (require (sg_probeKind sg = ls_pendingProbe st)
       (Errorf ''lifecycle: prompt continuation with probe %d while probe %d is pending''
         [probeNum (sg_probeKind sg), probeNum (ls_pendingProbe st)])) (\<lambda>_.
     (let out = st\<lparr>ls_pendingProbe := probeNone\<rparr> in
      Inr (case sg_probeKind sg of
             probeTerminalPrompt \<Rightarrow>
               (out, if sg_terminalContextErr sg = None \<and> sg_promptConsumed sg then contResumeQueued else contEnd, [resultSentinel sg])
           | probeRetryPrompt \<Rightarrow>
               (out, if sg_promptConsumed sg \<and> sg_resumeContextErr sg = None then contRetry
                     else if sg_promptConsumed sg \<and> sg_resumeContextErr sg \<noteq> None then contIdleContextEnd
                     else if sg_idleContextErr sg \<noteq> None then contIdleContextEnd
                     else contBackoff, [])
           | probeNone \<Rightarrow> (out, contNone, []))))))"

section \<open>Parking and the idle end\<close>

definition nextSuccessPresented :: "lifecycle_state \<Rightarrow> lifecycle_signal \<Rightarrow> lifecycle_transition result" where
  "nextSuccessPresented st sg =
     bindE (requireOpen st (sg_kind sg)) (\<lambda>_.
     bindE (require (ls_exec st = execStarting \<or> ls_exec st = execIdle)
       (Errorf ''lifecycle: success presented from exec state %d'' [execNum (ls_exec st)])) (\<lambda>_.
     Inr (st, contNone, [effectSetSuccessPresentation])))"

definition nextParkRequested :: "lifecycle_state \<Rightarrow> lifecycle_signal \<Rightarrow> lifecycle_transition result" where
  "nextParkRequested st sg =
     bindE (require (sg_class sg = directAttemptClass)
       (Errorf ''lifecycle: park requested with class %d'' [classNum (sg_class sg)])) (\<lambda>_.
     bindE (requireOpen st (sg_kind sg)) (\<lambda>_.
     bindE (require (ls_exec st = execStarting \<or> ls_exec st = execIdle)
       (Errorf ''lifecycle: park requested from exec state %d'' [execNum (ls_exec st)])) (\<lambda>_.
     Inr (st\<lparr>ls_exec := execParked\<rparr>, contNone, [effectSignalCapacity]))))"

definition parkedOpen :: "lifecycle_state \<Rightarrow> lifecycle_signal \<Rightarrow> string \<Rightarrow> unit result" where
  "parkedOpen st sg wrongExec =
     bindE (requireOpen st (sg_kind sg)) (\<lambda>_. require (ls_exec st = execParked) (Errorf wrongExec [execNum (ls_exec st)]))"

definition nextPromptDequeued :: "lifecycle_state \<Rightarrow> lifecycle_signal \<Rightarrow> lifecycle_transition result" where
  "nextPromptDequeued st sg =
     bindE (parkedOpen st sg ''lifecycle: prompt dequeued from exec state %d'') (\<lambda>_. Inr (st, contNone, []))"

definition nextLocalSlotAcquired :: "lifecycle_state \<Rightarrow> lifecycle_signal \<Rightarrow> lifecycle_transition result" where
  "nextLocalSlotAcquired st sg =
     bindE (parkedOpen st sg ''lifecycle: local slot acquired from exec state %d'') (\<lambda>_.
     Inr (st\<lparr>ls_exec := execIdle\<rparr>, contNone, []))"

definition nextParkTimedOut :: "lifecycle_state \<Rightarrow> lifecycle_signal \<Rightarrow> lifecycle_transition result" where
  "nextParkTimedOut st sg =
     bindE (parkedOpen st sg ''lifecycle: park timed out from exec state %d'') (\<lambda>_.
     Inr (st\<lparr>ls_completion := completionAdmissionClosed\<rparr>, contNone, []))"

definition nextParkWaitEnded :: "lifecycle_state \<Rightarrow> lifecycle_transition result" where
  "nextParkWaitEnded st =
     bindE (require (ls_completion st \<noteq> completionPublished)
       (Errorf ''lifecycle: park wait ended after completion %d'' [completionNum (ls_completion st)])) (\<lambda>_.
     bindE (require (ls_exec st = execParked)
       (Errorf ''lifecycle: park wait ended from exec state %d'' [execNum (ls_exec st)])) (\<lambda>_.
     Inr (st\<lparr>ls_exec := execIdle\<rparr>, contNone, [])))"

definition nextIdleContextEnded :: "lifecycle_state \<Rightarrow> lifecycle_signal \<Rightarrow> lifecycle_transition result" where
  "nextIdleContextEnded st sg =
     bindE (require (ls_completion st \<noteq> completionPublished)
       (Errorf ''lifecycle: idle context ended after completion %d'' [completionNum (ls_completion st)])) (\<lambda>_.
     bindE (require (ls_exec st \<in> {execStarting, execIdle, execParked})
       (Errorf ''lifecycle: idle context ended from exec state %d'' [execNum (ls_exec st)])) (\<lambda>_.
     Inr (st, contNone,
       [effectSetIdleEndData (sg_idleExitCode sg) (sg_idleStopReason sg),
        effectWriteSentinel (sg_idleExitCode sg) (sg_idleStopReason sg) (sg_resultSessionID sg) 0,
        effectEmitSessionEnd (sg_idleStopReason sg)])))"

section \<open>Teardown and publication\<close>

definition nextRunEnded :: "lifecycle_state \<Rightarrow> lifecycle_transition result" where
  "nextRunEnded st =
     bindE (require (ls_completion st = completionOpen \<or> ls_completion st = completionAdmissionClosed)
       (Errorf ''lifecycle: run ended after completion %d'' [completionNum (ls_completion st)])) (\<lambda>_.
     bindE (require (ls_attempts st = 0) (Errorf ''lifecycle: run ended with %d attempts'' [intString (ls_attempts st)])) (\<lambda>_.
     case ls_exec st of
       execStarting \<Rightarrow> Inr (st\<lparr>ls_exec := execEnded\<rparr>, contNone, [effectPublishCompletion afterRunTeardown])
     | execIdle \<Rightarrow> Inr (st\<lparr>ls_exec := execEnded\<rparr>, contNone, [effectPublishCompletion afterRunTeardown])
     | execParked \<Rightarrow> Inr (st\<lparr>ls_exec := execParkedEnding\<rparr>, contNone, [effectPublishCompletion afterRunTeardown])
     | execEnded \<Rightarrow> Inr (st, contNone, [effectPublishCompletion afterRunTeardown])
     | execParkedEnding \<Rightarrow> Inr (st, contNone, [effectPublishCompletion afterRunTeardown])
     | _ \<Rightarrow> Inl (Errorf ''lifecycle: run ended from exec state %d'' [execNum (ls_exec st)])))"

definition nextSpawnRolledBack :: "lifecycle_state \<Rightarrow> lifecycle_transition result" where
  "nextSpawnRolledBack st =
     bindE (require (ls_completion st = completionOpen)
       (Errorf ''lifecycle: spawn rolled back after completion %d'' [completionNum (ls_completion st)])) (\<lambda>_.
     bindE (require (ls_exec st = execReserved \<or> ls_exec st = execStarting)
       (Errorf ''lifecycle: spawn rolled back from exec state %d'' [execNum (ls_exec st)])) (\<lambda>_.
     Inr (st, contNone, [effectPublishCompletion afterSpawnRollback])))"

definition shutdownRequestedEffects :: "bool \<Rightarrow> lifecycle_effect list" where
  "shutdownRequestedEffects alreadyRequested =
     effectConsiderProviderCancel # (if alreadyRequested then [] else [effectCancelContext])"

definition nextShutdownRequested :: "lifecycle_state \<Rightarrow> lifecycle_transition result" where
  "nextShutdownRequested st =
     Inr (if ls_shutdown st = shutdownNone then st\<lparr>ls_shutdown := shutdownRequested\<rparr> else st, contNone,
       shutdownRequestedEffects (ls_shutdown st = shutdownRequested))"

definition nextWriterCloseBegun :: "lifecycle_state \<Rightarrow> lifecycle_transition result" where
  "nextWriterCloseBegun st = Inr (if ls_writer st = writerOpen then st\<lparr>ls_writer := writerClosing\<rparr> else st, contNone, [])"

definition nextWriterCloseFinished :: "lifecycle_state \<Rightarrow> lifecycle_transition result" where
  "nextWriterCloseFinished st =
     bindE (require (ls_writer st = writerClosing)
       (Errorf ''lifecycle: writer close finished from writer stage %d'' [writerNum (ls_writer st)])) (\<lambda>_.
     Inr (st\<lparr>ls_writer := writerClosed\<rparr>, contNone, []))"

definition nextCompletionPublished :: "lifecycle_state \<Rightarrow> lifecycle_signal \<Rightarrow> lifecycle_transition result" where
  "nextCompletionPublished st sg =
     (if ls_completion st = completionPublished then Inr (st, contNone, [])
      else
        bindE (require (ls_attempts st = 0)
          (Errorf ''lifecycle: completion published with %d attempts'' [intString (ls_attempts st)])) (\<lambda>_.
        if sg_boundary sg = afterSpawnRollback then
          bindE (require (ls_completion st = completionOpen)
            (Errorf ''lifecycle: rollback publication after completion %d'' [completionNum (ls_completion st)])) (\<lambda>_.
          bindE (require (ls_exec st = execReserved \<or> ls_exec st = execStarting)
            (Errorf ''lifecycle: rollback publication from exec state %d'' [execNum (ls_exec st)])) (\<lambda>_.
          Inr (st\<lparr>ls_exec := execEnded, ls_completion := completionPublished\<rparr>, contNone,
            [effectSettleTurnWaiters, effectCloseDone])))
        else
          bindE (require (ls_exec st = execEnded \<or> ls_exec st = execParkedEnding)
            (Errorf ''lifecycle: completion published from exec state %d'' [execNum (ls_exec st)])) (\<lambda>_.
          bindE (require (ls_completion st = completionOpen \<or> ls_completion st = completionAdmissionClosed)
            (Errorf ''lifecycle: completion published after completion %d'' [completionNum (ls_completion st)])) (\<lambda>_.
          bindE (require (isShuttingDown st)
            (Err ''lifecycle: afterRunTeardown publication without a requested shutdown'')) (\<lambda>_.
          bindE (require (isWriterClosing st)
            (Err ''lifecycle: afterRunTeardown publication without a closing writer'')) (\<lambda>_.
          Inr (st\<lparr>ls_completion := completionPublished,
                 ls_exec := (if ls_exec st = execParkedEnding then execEnded else ls_exec st)\<rparr>, contNone,
            [effectSettleTurnWaiters, effectCloseDone])))))))"

section \<open>Observations and the fault\<close>

definition nextAgentStatusObserved :: "lifecycle_state \<Rightarrow> lifecycle_signal \<Rightarrow> lifecycle_transition result" where
  "nextAgentStatusObserved st sg =
     Inr (st, contNone, if sg_phase sg \<noteq> '''' then [effectSetAgentPresentation (sg_phase sg) (sg_label sg)] else [])"

definition nextSessionEndObserved :: "lifecycle_state \<Rightarrow> lifecycle_signal \<Rightarrow> lifecycle_transition result" where
  "nextSessionEndObserved st sg = Inr (st, contNone, [effectSetSessionEndPresentation (sg_stopReason sg)])"

definition nextFault :: "lifecycle_state \<Rightarrow> lifecycle_signal \<Rightarrow> lifecycle_transition result" where
  "nextFault st sg =
     bindE (require (ls_completion st \<noteq> completionPublished)
       (Errorf ''lifecycle: fault after completion %d'' [completionNum (ls_completion st)])) (\<lambda>_.
     Inr (st\<lparr>ls_pendingProbe := probeNone, ls_attempts := 0,
            ls_exec := (if ls_exec st = execParked \<or> ls_exec st = execParkedEnding then execParkedEnding else execEnded)\<rparr>,
          contEnd,
          (if sg_recordExit sg then [effectRecordOutcomeExit (sg_exitCode sg)] else []) @
          (if sg_idleEnd sg then [effectSetIdleEndData (sg_idleExitCode sg) (sg_idleStopReason sg)] else []) @
          [effectSettleTurnWaiters]))"

section \<open>The transition function\<close>

definition matrixOf :: "lifecycle_state \<Rightarrow> lifecycle_signal \<Rightarrow> lifecycle_transition result" where
  "matrixOf st sg =
     (case sg_kind sg of
        signalPublished \<Rightarrow> nextPublished st
      | signalAttemptPreparing \<Rightarrow> nextAttemptPreparing st sg
      | signalAttemptStarted \<Rightarrow> nextAttemptStarted st sg
      | signalAttemptStartFailed \<Rightarrow> nextAttemptStartFailed st sg
      | signalAttemptSettled \<Rightarrow> nextAttemptSettled st sg
      | signalWorkflowFinalized \<Rightarrow> nextWorkflowFinalized st sg
      | signalAttemptReturned \<Rightarrow> nextAttemptReturned st sg
      | signalAttemptOutcome \<Rightarrow> nextAttemptOutcome st sg
      | signalPromptContinuation \<Rightarrow> nextPromptContinuation st sg
      | signalSuccessPresented \<Rightarrow> nextSuccessPresented st sg
      | signalParkRequested \<Rightarrow> nextParkRequested st sg
      | signalPromptDequeued \<Rightarrow> nextPromptDequeued st sg
      | signalLocalSlotAcquired \<Rightarrow> nextLocalSlotAcquired st sg
      | signalParkTimedOut \<Rightarrow> nextParkTimedOut st sg
      | signalParkWaitEnded \<Rightarrow> nextParkWaitEnded st
      | signalIdleContextEnded \<Rightarrow> nextIdleContextEnded st sg
      | signalRunEnded \<Rightarrow> nextRunEnded st
      | signalSpawnRolledBack \<Rightarrow> nextSpawnRolledBack st
      | signalShutdownRequested \<Rightarrow> nextShutdownRequested st
      | signalWriterCloseBegun \<Rightarrow> nextWriterCloseBegun st
      | signalWriterCloseFinished \<Rightarrow> nextWriterCloseFinished st
      | signalCompletionPublished \<Rightarrow> nextCompletionPublished st sg
      | signalAgentStatusObserved \<Rightarrow> nextAgentStatusObserved st sg
      | signalSessionEndObserved \<Rightarrow> nextSessionEndObserved st sg
      | signalFault \<Rightarrow> nextFault st sg)"

definition dualLockedKind :: "signal_kind \<Rightarrow> bool" where
  "dualLockedKind k \<longleftrightarrow> k \<in> {signalShutdownRequested, signalWriterCloseBegun, signalWriterCloseFinished}"

definition probeBlocks :: "signal_kind \<Rightarrow> bool" where
  "probeBlocks k \<longleftrightarrow> k \<in> {signalAttemptPreparing, signalAttemptStarted, signalParkRequested, signalIdleContextEnded}"

text \<open>An error stands for the unchanged state without effects.\<close>

definition nextLifecycle :: "lifecycle_state \<Rightarrow> lifecycle_signal \<Rightarrow> lifecycle_transition result" where
  "nextLifecycle st sg =
     bindE (wrapE ''lifecycle: signal %d on invalid state: '' [signalNum (sg_kind sg)] (validateLifecycleState st)) (\<lambda>_.
     bindE (validateLifecycleSignal sg) (\<lambda>_.
     bindE (require (sg_class sg = ls_class st)
       (Errorf ''lifecycle: signal %d with attempt class %d on state class %d''
         [signalNum (sg_kind sg), classNum (sg_class sg), classNum (ls_class st)])) (\<lambda>_.
     bindE (require (\<not> (ls_pendingProbe st \<noteq> probeNone \<and> probeBlocks (sg_kind sg)))
       (Errorf ''lifecycle: signal %d while probe %d is pending'' [signalNum (sg_kind sg), probeNum (ls_pendingProbe st)])) (\<lambda>_.
     bindE (matrixOf st sg) (\<lambda>(out, cont, eff).
     bindE (require (dualLockedKind (sg_kind sg) \<or> (ls_shutdown out = ls_shutdown st \<and> ls_writer out = ls_writer st))
       (Errorf ''lifecycle: signal %d changed a dual-locked dimension'' [signalNum (sg_kind sg)])) (\<lambda>_.
     bindE (wrapE ''lifecycle: signal %d produces invalid state: '' [signalNum (sg_kind sg)] (validateLifecycleState out)) (\<lambda>_.
     Inr (out, cont, eff))))))))"

end
