(* ===== verification/Sv_Machine.thy ===== *)
theory Sv_Machine
  imports Sv_Lifecycle
begin

text \<open>
  What the lifecycle machine guarantees for every sequence of signals, legal or not: its states stay valid, the publication
  and the cancellation of the context happen once, a pending probe is answered before anything else starts, and a
  fault always leaves a way to the publication.
\<close>

section \<open>Valid states and single transitions\<close>

definition validLc :: "lifecycle_state \<Rightarrow> bool" where
  "validLc l \<longleftrightarrow>
     0 \<le> ls_attempts l \<and> (ls_exec l = execRunning \<longleftrightarrow> 0 < ls_attempts l) \<and>
     (ls_completion l \<noteq> completionOpen \<longrightarrow> ls_attempts l = 0 \<and> ls_pendingProbe l = probeNone) \<and>
     (ls_completion l = completionAdmissionClosed \<longrightarrow> ls_exec l \<in> {execParked, execIdle, execParkedEnding, execEnded}) \<and>
     (ls_completion l = completionPublished \<longrightarrow> ls_exec l = execEnded) \<and>
     (ls_class l = directAttemptClass \<longrightarrow> ls_attempts l \<le> 1) \<and>
     (ls_pendingProbe l \<noteq> probeNone \<longrightarrow> ls_exec l \<in> {execStarting, execIdle})"

lemma valid_iff: "validateLifecycleState l = Inr u \<longleftrightarrow> validLc l"
  unfolding validateLifecycleState_def validLc_def
  by (cases "ls_completion l"; cases "ls_exec l"; auto simp: require_def)

lemma validLc_fresh: "validLc (freshLifecycle c)"
  by (simp add: validLc_def freshLifecycle_def)

lemma next_accepts:
  "nextLifecycle st sg = Inr (out, cont, eff) \<longleftrightarrow>
     validLc st \<and> validateLifecycleSignal sg = Inr () \<and> sg_class sg = ls_class st \<and>
     \<not> (ls_pendingProbe st \<noteq> probeNone \<and> probeBlocks (sg_kind sg)) \<and> matrixOf st sg = Inr (out, cont, eff) \<and>
     (dualLockedKind (sg_kind sg) \<or> ls_shutdown out = ls_shutdown st \<and> ls_writer out = ls_writer st) \<and> validLc out"
  unfolding nextLifecycle_def by (auto simp: bindE_eq_Inr_iff wrapE_ok valid_iff require_ok split: prod.splits)

text \<open>When each signal is accepted, and with what; the texts of the errors do not matter here.\<close>

definition openRun :: "lifecycle_state \<Rightarrow> bool" where
  "openRun st \<longleftrightarrow> ls_completion st = completionOpen \<and> ls_exec st \<noteq> execEnded \<and> ls_exec st \<noteq> execParkedEnding"

lemma requireOpen_iff: "requireOpen st k = Inr u \<longleftrightarrow> openRun st"
  by (auto simp: requireOpen_def openRun_def bindE_eq_Inr_iff require_ok)

lemma attemptSource_iff:
  "attemptSource st sg e t = Inr u \<longleftrightarrow> ls_completion st = completionOpen \<and>
     (ls_exec st \<in> {execStarting, execIdle} \<or> ls_exec st = execRunning \<and> sg_class sg = workflowAttemptClass)"
  by (cases "ls_exec st") (auto simp: attemptSource_def requireOpen_iff openRun_def bindE_eq_Inr_iff require_ok)

lemma directAtRest_iff:
  "directAtRest st sg t t' = Inr u \<longleftrightarrow>
     ls_completion st = completionOpen \<and> sg_class sg = directAttemptClass \<and> ls_exec st \<in> {execStarting, execIdle}"
  by (auto simp: directAtRest_def requireOpen_iff openRun_def bindE_eq_Inr_iff require_ok)

lemma parkedOpen_iff: "parkedOpen st sg t = Inr u \<longleftrightarrow> ls_completion st = completionOpen \<and> ls_exec st = execParked"
  by (auto simp: parkedOpen_def requireOpen_iff openRun_def bindE_eq_Inr_iff require_ok)

lemmas guard_iffs = requireOpen_iff attemptSource_iff directAtRest_iff parkedOpen_iff require_ok

lemma next_iffs:
  "nextPublished st = Inr t \<longleftrightarrow> ls_exec st = execReserved \<and> t = (st\<lparr>ls_exec := execStarting\<rparr>, contNone, [])"
  "nextAttemptPreparing st sg = Inr t \<longleftrightarrow> attemptSource st sg (Err []) [] = Inr () \<and> t = (st, contNone, [effectClearPresentation])"
  "nextAttemptStarted st sg = Inr t \<longleftrightarrow> attemptSource st sg (Err []) [] = Inr () \<and>
     t = (st\<lparr>ls_attempts := ls_attempts st + 1, ls_exec := execRunning\<rparr>, contNone, [])"
  "nextAttemptStartFailed st sg = Inr t \<longleftrightarrow> attemptSource st sg (Err []) [] = Inr () \<and>
     t = (if ls_exec st = execStarting then st\<lparr>ls_exec := execIdle\<rparr> else st, contNone, [])"
  "nextAttemptSettled st sg = Inr t \<longleftrightarrow> ls_completion st = completionOpen \<and> ls_exec st = execRunning \<and> 0 < ls_attempts st \<and>
     (sg_class sg = directAttemptClass \<longrightarrow> ls_attempts st = 1) \<and>
     t = (if ls_attempts st = 1
          then (st\<lparr>ls_attempts := 0, ls_exec := execIdle\<rparr>, contNone, [effectClearPresentation, effectSettleTurnWaiters])
          else (st\<lparr>ls_attempts := ls_attempts st - 1\<rparr>, contNone, []))"
  "nextWorkflowFinalized st sg = Inr t \<longleftrightarrow> ls_completion st = completionOpen \<and> sg_class sg = workflowAttemptClass \<and>
     ls_exec st \<in> {execStarting, execIdle, execRunning} \<and>
     t = (st\<lparr>ls_attempts := 0, ls_exec := execIdle\<rparr>, contNone, [effectSettleTurnWaiters])"
  "nextAttemptReturned st sg = Inr t \<longleftrightarrow> directAtRest st sg [] [] = Inr () \<and> t = (st, contNone, [effectReleaseTreeToken])"
  "nextSuccessPresented st sg = Inr t \<longleftrightarrow> ls_completion st = completionOpen \<and> ls_exec st \<in> {execStarting, execIdle} \<and>
     t = (st, contNone, [effectSetSuccessPresentation])"
  "nextParkRequested st sg = Inr t \<longleftrightarrow> sg_class sg = directAttemptClass \<and> ls_completion st = completionOpen \<and>
     ls_exec st \<in> {execStarting, execIdle} \<and> t = (st\<lparr>ls_exec := execParked\<rparr>, contNone, [effectSignalCapacity])"
  "nextPromptDequeued st sg = Inr t \<longleftrightarrow> parkedOpen st sg [] = Inr () \<and> t = (st, contNone, [])"
  "nextLocalSlotAcquired st sg = Inr t \<longleftrightarrow> parkedOpen st sg [] = Inr () \<and> t = (st\<lparr>ls_exec := execIdle\<rparr>, contNone, [])"
  "nextParkTimedOut st sg = Inr t \<longleftrightarrow> parkedOpen st sg [] = Inr () \<and>
     t = (st\<lparr>ls_completion := completionAdmissionClosed\<rparr>, contNone, [])"
  "nextParkWaitEnded st = Inr t \<longleftrightarrow> ls_completion st \<noteq> completionPublished \<and> ls_exec st = execParked \<and>
     t = (st\<lparr>ls_exec := execIdle\<rparr>, contNone, [])"
  "nextIdleContextEnded st sg = Inr t \<longleftrightarrow> ls_completion st \<noteq> completionPublished \<and>
     ls_exec st \<in> {execStarting, execIdle, execParked} \<and>
     t = (st, contNone, [effectSetIdleEndData (sg_idleExitCode sg) (sg_idleStopReason sg),
        effectWriteSentinel (sg_idleExitCode sg) (sg_idleStopReason sg) (sg_resultSessionID sg) 0,
        effectEmitSessionEnd (sg_idleStopReason sg)])"
  by (auto simp: nextPublished_def nextAttemptPreparing_def nextAttemptStarted_def nextAttemptStartFailed_def
      nextAttemptSettled_def nextWorkflowFinalized_def nextAttemptReturned_def nextSuccessPresented_def nextParkRequested_def
      nextPromptDequeued_def nextLocalSlotAcquired_def nextParkTimedOut_def nextParkWaitEnded_def nextIdleContextEnded_def
      guard_iffs openRun_def bindE_eq_Inr_iff Let_def)

lemma nextRunEnded_iff:
  "nextRunEnded st = Inr t \<longleftrightarrow> ls_completion st \<noteq> completionPublished \<and> ls_attempts st = 0 \<and>
     ls_exec st \<notin> {execReserved, execRunning} \<and>
     t = (st\<lparr>ls_exec := (if ls_exec st = execParked \<or> ls_exec st = execParkedEnding then execParkedEnding else execEnded)\<rparr>,
          contNone, [effectPublishCompletion afterRunTeardown])"
  by (cases "ls_exec st"; cases "ls_completion st") (auto simp: nextRunEnded_def bindE_eq_Inr_iff require_ok)

lemma nextSpawnRolledBack_iff:
  "nextSpawnRolledBack st = Inr t \<longleftrightarrow> ls_completion st = completionOpen \<and> ls_exec st \<in> {execReserved, execStarting} \<and>
     t = (st, contNone, [effectPublishCompletion afterSpawnRollback])"
  by (auto simp: nextSpawnRolledBack_def bindE_eq_Inr_iff require_ok)

lemma nextShutdownRequested_iff:
  "nextShutdownRequested st = Inr t \<longleftrightarrow>
     t = (st\<lparr>ls_shutdown := shutdownRequested\<rparr>, contNone, shutdownRequestedEffects (ls_shutdown st = shutdownRequested))"
  by (cases st; cases "ls_shutdown st") (auto simp: nextShutdownRequested_def)

lemma nextWriterCloseBegun_iff:
  "nextWriterCloseBegun st = Inr t \<longleftrightarrow>
     t = (if ls_writer st = writerOpen then st\<lparr>ls_writer := writerClosing\<rparr> else st, contNone, [])"
  by (auto simp: nextWriterCloseBegun_def)

lemma nextWriterCloseFinished_iff:
  "nextWriterCloseFinished st = Inr t \<longleftrightarrow> ls_writer st = writerClosing \<and> t = (st\<lparr>ls_writer := writerClosed\<rparr>, contNone, [])"
  by (auto simp: nextWriterCloseFinished_def bindE_eq_Inr_iff require_ok)

lemma nextCompletionPublished_iff:
  "nextCompletionPublished st sg = Inr t \<longleftrightarrow>
     (if ls_completion st = completionPublished then t = (st, contNone, [])
      else ls_attempts st = 0 \<and>
        (if sg_boundary sg = afterSpawnRollback then ls_completion st = completionOpen \<and> ls_exec st \<in> {execReserved, execStarting}
         else ls_exec st \<in> {execEnded, execParkedEnding} \<and> isShuttingDown st \<and> isWriterClosing st) \<and>
        t = (st\<lparr>ls_completion := completionPublished, ls_exec := execEnded\<rparr>, contNone, [effectSettleTurnWaiters, effectCloseDone]))"
  by (cases st; cases "ls_completion st"; cases "ls_exec st") (auto simp: nextCompletionPublished_def bindE_eq_Inr_iff require_ok)

lemma nextFault_iff:
  "nextFault st sg = Inr t \<longleftrightarrow> ls_completion st \<noteq> completionPublished \<and>
     t = (st\<lparr>ls_pendingProbe := probeNone, ls_attempts := 0,
            ls_exec := (if ls_exec st = execParked \<or> ls_exec st = execParkedEnding then execParkedEnding else execEnded)\<rparr>,
          contEnd, (if sg_recordExit sg then [effectRecordOutcomeExit (sg_exitCode sg)] else []) @
          (if sg_idleEnd sg then [effectSetIdleEndData (sg_idleExitCode sg) (sg_idleStopReason sg)] else []) @
          [effectSettleTurnWaiters])"
  by (auto simp: nextFault_def bindE_eq_Inr_iff require_ok)

lemma nextAgentStatusObserved_iff:
  "nextAgentStatusObserved st sg = Inr t \<longleftrightarrow>
     t = (st, contNone, if sg_phase sg \<noteq> '''' then [effectSetAgentPresentation (sg_phase sg) (sg_label sg)] else [])"
  by (auto simp: nextAgentStatusObserved_def)

lemma nextSessionEndObserved_iff:
  "nextSessionEndObserved st sg = Inr t \<longleftrightarrow> t = (st, contNone, [effectSetSessionEndPresentation (sg_stopReason sg)])"
  by (auto simp: nextSessionEndObserved_def)

lemma nextAttemptOutcome_iff:
  "nextAttemptOutcome st sg = Inr t \<longleftrightarrow> directAtRest st sg [] [] = Inr () \<and> ls_pendingProbe st = probeNone \<and>
     t = (if \<not> sg_retryable sg \<or> \<not> sg_retriesRemaining sg then
            (if sg_exitCode sg = 0 then
               (st, if sg_runKind sg = runKindOrdinaryDirect then contPark else contEnd,
                [effectRecordOutcomeExit (sg_exitCode sg), resultSentinel sg])
             else if sg_runKind sg = runKindDecider \<or> sg_sessionIDConflict sg then
               (st, contEnd, [effectRecordOutcomeExit (sg_exitCode sg), resultSentinel sg])
             else (st\<lparr>ls_pendingProbe := probeTerminalPrompt\<rparr>, contProbeTerminalPrompt, [effectRecordOutcomeExit (sg_exitCode sg)]))
          else if sg_runKind sg = runKindDecider then (st, contEnd, [effectRecordOutcomeExit (sg_exitCode sg), resultSentinel sg])
          else (st\<lparr>ls_pendingProbe := probeRetryPrompt\<rparr>, contProbeRetryPrompt, []))"
  by (auto simp: nextAttemptOutcome_def Let_def guard_iffs bindE_eq_Inr_iff)

lemma nextPromptContinuation_iff:
  "nextPromptContinuation st sg = Inr t \<longleftrightarrow> directAtRest st sg [] [] = Inr () \<and> ls_pendingProbe st \<noteq> probeNone \<and>
     sg_probeKind sg = ls_pendingProbe st \<and>
     t = (st\<lparr>ls_pendingProbe := probeNone\<rparr>,
          if sg_probeKind sg = probeTerminalPrompt then
            (if sg_terminalContextErr sg = None \<and> sg_promptConsumed sg then contResumeQueued else contEnd)
          else if sg_promptConsumed sg then (if sg_resumeContextErr sg = None then contRetry else contIdleContextEnd)
          else if sg_idleContextErr sg \<noteq> None then contIdleContextEnd else contBackoff,
          if sg_probeKind sg = probeTerminalPrompt then [resultSentinel sg] else [])"
  by (cases "sg_probeKind sg") (auto simp: nextPromptContinuation_def Let_def guard_iffs bindE_eq_Inr_iff)

lemmas accept_iffs = next_iffs nextRunEnded_iff nextSpawnRolledBack_iff nextShutdownRequested_iff nextWriterCloseBegun_iff
  nextWriterCloseFinished_iff nextCompletionPublished_iff nextFault_iff nextAgentStatusObserved_iff nextSessionEndObserved_iff
  nextAttemptOutcome_iff nextPromptContinuation_iff guard_iffs

lemma matrix_keeps:
  assumes "matrixOf st sg = Inr (out, cont, eff)"
  shows "ls_class out = ls_class st"
    and "dualLockedKind (sg_kind sg) \<or> ls_shutdown out = ls_shutdown st \<and> ls_writer out = ls_writer st"
  using assms
  by (cases "sg_kind sg"; auto simp: matrixOf_def accept_iffs dualLockedKind_def
    split: if_splits)+

lemma matrix_once:
  assumes "matrixOf st sg = Inr (out, cont, eff)"
  shows "count_list eff effectCloseDone = of_bool (ls_completion st \<noteq> completionPublished \<and> ls_completion out = completionPublished)"
    and "count_list eff effectCancelContext = of_bool (ls_shutdown st \<noteq> shutdownRequested \<and> ls_shutdown out = shutdownRequested)"
    and "ls_completion st = completionPublished \<Longrightarrow> ls_completion out = completionPublished"
    and "ls_shutdown st = shutdownRequested \<Longrightarrow> ls_shutdown out = shutdownRequested"
  using assms
  by (cases "sg_kind sg"; cases "ls_shutdown st"; auto simp: matrixOf_def accept_iffs
      shutdownRequestedEffects_def resultSentinel_def
    split: if_splits)+

fun quietEffect :: "lifecycle_effect \<Rightarrow> bool" where
  "quietEffect (effectSetAgentPresentation _ _) = True"
| "quietEffect (effectSetSessionEndPresentation _) = True"
| "quietEffect effectConsiderProviderCancel = True"
| "quietEffect effectCancelContext = True"
| "quietEffect _ = False"

lemma published_quiet:
  assumes "matrixOf st sg = Inr (out, cont, eff)" and "validLc st" and "ls_completion st = completionPublished"
  shows "list_all quietEffect eff \<and> ls_exec out = execEnded \<and> ls_attempts out = 0"
  using assms
  by (cases "sg_kind sg"; auto simp: matrixOf_def accept_iffs validLc_def
      shutdownRequestedEffects_def
    split: if_splits)

section \<open>Sequences of signals\<close>

text \<open>A rejected signal leaves the state and has no effects.\<close>

fun drive :: "lifecycle_state \<Rightarrow> lifecycle_signal list \<Rightarrow> lifecycle_state \<times> lifecycle_effect list" where
  "drive st [] = (st, [])"
| "drive st (sg # sgs) =
     (case nextLifecycle st sg of
        Inl _ \<Rightarrow> drive st sgs
      | Inr (out, cont, eff) \<Rightarrow> (fst (drive out sgs), eff @ snd (drive out sgs)))"

lemma drive_induct [consumes 1, case_names start step]:
  assumes "drive st sgs = (st', effs)" and "P st []"
    and "\<And>s es sg out cont eff. P s es \<Longrightarrow> nextLifecycle s sg = Inr (out, cont, eff) \<Longrightarrow> P out (es @ eff)"
  shows "P st' effs"
proof -
  have "P (fst (drive st sgs)) (es @ snd (drive st sgs))" if "P st es" for es
    using that
  proof (induction sgs arbitrary: st es)
    case (Cons sg sgs)
    then show ?case
      using assms(3)[of st es sg]
      by (cases "nextLifecycle st sg") (auto split: prod.splits simp: append_assoc[symmetric] simp del: append_assoc)
  qed simp
  with assms(1,2) show ?thesis by (metis append_Nil fst_conv snd_conv)
qed

lemma count_list_append: "count_list (xs @ ys) x = count_list xs x + count_list ys x"
  by (induction xs) auto

lemma drive_counts:
  assumes "drive st sgs = (st', effs)" and "validLc st"
  shows "validLc st' \<and> ls_class st' = ls_class st \<and>
    count_list effs effectCloseDone + of_bool (ls_completion st = completionPublished) = of_bool (ls_completion st' = completionPublished) \<and>
    count_list effs effectCancelContext + of_bool (ls_shutdown st = shutdownRequested) = of_bool (ls_shutdown st' = shutdownRequested)"
  using assms(1)
proof (induction rule: drive_induct)
  case (step s es sg out cont eff)
  have m: "matrixOf s sg = Inr (out, cont, eff)" "validLc out" using step(2) by (auto simp: next_accepts)
  show ?case using step(1) m matrix_keeps(1)[OF m(1)] matrix_once[OF m(1)]
    by (auto simp: count_list_append)
qed (use assms(2) in simp)

lemma drive_quiet:
  assumes "drive st sgs = (st', effs)" and "validLc st" and "ls_completion st = completionPublished"
  shows "validLc st' \<and> ls_completion st' = completionPublished \<and> list_all quietEffect effs"
  using assms(1)
proof (induction rule: drive_induct)
  case (step s es sg out cont eff)
  have m: "matrixOf s sg = Inr (out, cont, eff)" "validLc out" using step(2) by (auto simp: next_accepts)
  show ?case using step(1) m published_quiet[OF m(1)] matrix_once(3)[OF m(1)] by simp
qed (use assms in simp)

text \<open>
  C15: the end of a runtime is published once and for good. Whatever signals reach the machine, in any order, its state stays
  valid, the channel that waiters block on is closed exactly when the completion is published and never again, and the
  context of the run is canceled by the first shutdown request only. After the publication nothing runs: no attempt is live
  and every further signal at most updates the presentation or asks for a provider cancel.
\<close>

theorem lifecycle_published_once:
  assumes "drive (freshLifecycle c) sgs = (st, effs)" and "drive st later = (st', effs')"
  shows "validLc st \<and> ls_class st = c \<and>
    count_list effs effectCloseDone = of_bool (ls_completion st = completionPublished) \<and>
    count_list effs effectCancelContext = of_bool (isShuttingDown st) \<and>
    (ls_completion st = completionPublished \<longrightarrow>
       ls_completion st' = completionPublished \<and> ls_exec st' = execEnded \<and> ls_attempts st' = 0 \<and> list_all quietEffect effs')"
  using drive_counts[OF assms(1) validLc_fresh] drive_quiet[OF assms(2)]
  by (auto simp: freshLifecycle_def isShuttingDown_def validLc_def)

text \<open>A direct runtime that is shut down twice and published twice, and for which an attempt is announced at the end.\<close>

definition exampleSignals :: "lifecycle_signal list" where
  "exampleSignals = map (\<lambda>k. signalOf k directAttemptClass)
     [signalPublished, signalShutdownRequested, signalShutdownRequested, signalRunEnded,
      signalWriterCloseBegun, signalCompletionPublished, signalCompletionPublished, signalAttemptStarted]"

lemma drive_foldl: "fst (drive st sgs) = foldl (\<lambda>s sg. case nextLifecycle s sg of Inl _ \<Rightarrow> s | Inr (out, _, _) \<Rightarrow> out) st sgs"
  by (induction sgs arbitrary: st) (auto split: sum.splits)

lemma example_published:
  "ls_completion (fst (drive (freshLifecycle directAttemptClass) exampleSignals)) = completionPublished \<and>
   isShuttingDown (fst (drive (freshLifecycle directAttemptClass) exampleSignals))"
  unfolding drive_foldl by code_simp

theorem lifecycle_published_once_witness:
  "\<exists>st effs. drive (freshLifecycle directAttemptClass) exampleSignals = (st, effs) \<and> ls_completion st = completionPublished \<and>
     count_list effs effectCloseDone = 1 \<and> count_list effs effectCancelContext = 1 \<and> list_all quietEffect (snd (drive st exampleSignals))"
proof -
  obtain st effs where d: "drive (freshLifecycle directAttemptClass) exampleSignals = (st, effs)" by (meson surj_pair)
  have "ls_completion st = completionPublished" "isShuttingDown st" using example_published unfolding d by simp_all
  then show ?thesis
    using lifecycle_published_once[OF d surjective_pairing, of exampleSignals] d by (intro exI[of _ st] exI[of _ effs]) simp
qed

section \<open>The probe protocol\<close>

lemma probe_waits:
  assumes "nextLifecycle st sg = Inr (out, cont, eff)" and "ls_pendingProbe st \<noteq> probeNone"
    and "sg_kind sg \<noteq> signalPromptContinuation" and "sg_kind sg \<noteq> signalFault" and "ls_class st = directAttemptClass"
  shows "ls_pendingProbe out = ls_pendingProbe st \<and> ls_completion out = completionOpen \<and>
    (\<forall>a b s r. effectWriteSentinel a b s r \<notin> set eff) \<and> ls_attempts out = 0"
proof -
  have m: "matrixOf st sg = Inr (out, cont, eff)" and v: "validLc out" and b: "\<not> probeBlocks (sg_kind sg)"
    using assms(1,2) by (auto simp: next_accepts)
  have "ls_pendingProbe out = ls_pendingProbe st \<and> (\<forall>a b s r. effectWriteSentinel a b s r \<notin> set eff)"
    using m b assms(2-4) unfolding matrixOf_def
    by (cases "sg_kind sg"; simp add: accept_iffs probeBlocks_def shutdownRequestedEffects_def split: if_splits)
  with v assms(2) show ?thesis by (auto simp: validLc_def)
qed

text \<open>The sentinels among a list of effects.\<close>

fun sentinelsOf :: "lifecycle_effect list \<Rightarrow> lifecycle_effect list" where
  "sentinelsOf [] = []"
| "sentinelsOf (effectWriteSentinel a b s r # es) = effectWriteSentinel a b s r # sentinelsOf es"
| "sentinelsOf (_ # es) = sentinelsOf es"

lemma sentinelsOf_append: "sentinelsOf (xs @ ys) = sentinelsOf xs @ sentinelsOf ys"
  by (induction xs rule: sentinelsOf.induct) auto

lemma sentinelsOf_none: "(\<forall>a b s r. effectWriteSentinel a b s r \<notin> set es) \<Longrightarrow> sentinelsOf es = []"
  by (induction es rule: sentinelsOf.induct) auto

lemma drive_probe:
  assumes "drive st sgs = (st', effs)" and "ls_pendingProbe st = p" and "p \<noteq> probeNone" and "ls_class st = directAttemptClass"
    and "validLc st" and "\<forall>sg\<in>set sgs. sg_kind sg \<noteq> signalPromptContinuation \<and> sg_kind sg \<noteq> signalFault"
  shows "validLc st' \<and> ls_pendingProbe st' = p \<and> ls_class st' = directAttemptClass \<and> sentinelsOf effs = []"
  using assms
proof (induction sgs arbitrary: st effs)
  case (Cons sg sgs)
  show ?case
  proof (cases "nextLifecycle st sg")
    case (Inr r)
    obtain out cont eff where r: "r = (out, cont, eff)" by (cases r)
    have nx: "nextLifecycle st sg = Inr (out, cont, eff)" using Inr r by simp
    have w: "ls_pendingProbe out = p" "sentinelsOf eff = []"
      using probe_waits[OF nx] Cons.prems sentinelsOf_none by auto
    have "validLc out" "ls_class out = directAttemptClass"
      using nx matrix_keeps(1) Cons.prems by (auto simp: next_accepts)
    then show ?thesis
      using Cons.IH[OF _ w(1) Cons.prems(3), of "snd (drive out sgs)"] Cons.prems nx w by (auto simp: sentinelsOf_append)
  qed (use Cons in auto)
qed simp


text \<open>A failed attempt without retries, an attempt and an observation while the probe waits, and the answer that takes a queued prompt.\<close>

definition exampleOutcome :: lifecycle_signal where
  "exampleOutcome = (signalOf signalAttemptOutcome directAttemptClass)
     \<lparr>sg_exitCode := 1, sg_sentinelReason := ''error'', sg_retryable := True\<rparr>"

definition exampleAnswer :: lifecycle_signal where
  "exampleAnswer = (signalOf signalPromptContinuation directAttemptClass)
     \<lparr>sg_exitCode := 1, sg_sentinelReason := ''error'', sg_probeKind := probeTerminalPrompt, sg_promptConsumed := True\<rparr>"

definition exampleIdle :: lifecycle_state where
  "exampleIdle = (freshLifecycle directAttemptClass)\<lparr>ls_exec := execIdle\<rparr>"

lemma example_outcome:
  "nextLifecycle exampleIdle exampleOutcome =
     Inr (exampleIdle\<lparr>ls_pendingProbe := probeTerminalPrompt\<rparr>, contProbeTerminalPrompt, [effectRecordOutcomeExit 1])"
  unfolding next_accepts
  by (simp add: exampleIdle_def exampleOutcome_def freshLifecycle_def signalOf_def validLc_def validateLifecycleSignal_def probeBlocks_def
      dualLockedKind_def matrixOf_def accept_iffs)


section \<open>Faults\<close>

lemma drive_append: "drive st (xs @ ys) = (let (st1, e1) = drive st xs; (st2, e2) = drive st1 ys in (st2, e1 @ e2))"
  by (induction xs arbitrary: st) (auto simp: Let_def split: sum.splits prod.splits)

text \<open>A run that has ended, in either form, stays ended.\<close>

definition runOver :: "lifecycle_state \<Rightarrow> bool" where
  "runOver st \<longleftrightarrow> ls_exec st = execEnded \<or> ls_exec st = execParkedEnding"

lemma matrix_progress:
  assumes "matrixOf st sg = Inr (out, cont, eff)" and "validLc st"
  shows "runOver st \<Longrightarrow> runOver out" and "isWriterClosing st \<Longrightarrow> isWriterClosing out"
  using assms
  by (cases "sg_kind sg"; auto simp: matrixOf_def accept_iffs runOver_def isWriterClosing_def validLc_def split: if_splits)+

lemma drive_progress:
  assumes "validLc st"
  shows "validLc (fst (drive st sgs)) \<and> ls_class (fst (drive st sgs)) = ls_class st \<and>
    (runOver st \<longrightarrow> runOver (fst (drive st sgs))) \<and> (isShuttingDown st \<longrightarrow> isShuttingDown (fst (drive st sgs))) \<and>
    (isWriterClosing st \<longrightarrow> isWriterClosing (fst (drive st sgs)))"
proof -
  obtain st' effs where d: "drive st sgs = (st', effs)" by (cases "drive st sgs")
  from d have "validLc st' \<and> ls_class st' = ls_class st \<and> (runOver st \<longrightarrow> runOver st') \<and>
      (isShuttingDown st \<longrightarrow> isShuttingDown st') \<and> (isWriterClosing st \<longrightarrow> isWriterClosing st')"
  proof (induction rule: drive_induct)
    case (step s es sg out cont eff)
    have "matrixOf s sg = Inr (out, cont, eff)" "validLc out" "validLc s" using step(2) by (auto simp: next_accepts)
    then show ?case using step(1) matrix_progress[of s sg out cont eff] matrix_keeps(1)[of s sg out cont eff] matrix_once(4)[of s sg out cont eff]
      by (auto simp: isShuttingDown_def)
  qed (use assms in simp)
  with d show ?thesis by simp
qed

lemma fault_step:
  assumes "validLc st" and "sg_class sg = ls_class st" and "ls_completion st \<noteq> completionPublished" and "sg_kind sg = signalFault"
  shows "runOver (fst (drive st [sg]))"
proof -
  have "\<exists>out cont eff. nextLifecycle st sg = Inr (out, cont, eff) \<and> runOver out"
    using assms unfolding next_accepts
    by (simp add: matrixOf_def accept_iffs validateLifecycleSignal_def probeBlocks_def dualLockedKind_def runOver_def)
      (auto simp: validLc_def)
  then show ?thesis by force
qed

lemma shutdown_step:
  assumes "validLc st" and "sg_class sg = ls_class st" and "sg_kind sg = signalShutdownRequested"
  shows "isShuttingDown (fst (drive st [sg]))"
proof -
  have "\<exists>out cont eff. nextLifecycle st sg = Inr (out, cont, eff) \<and> isShuttingDown out"
    using assms unfolding next_accepts
    by (simp add: matrixOf_def accept_iffs validateLifecycleSignal_def probeBlocks_def dualLockedKind_def isShuttingDown_def)
      (auto simp: validLc_def)
  then show ?thesis by force
qed

lemma writer_step:
  assumes "validLc st" and "sg_class sg = ls_class st" and "sg_kind sg = signalWriterCloseBegun"
  shows "isWriterClosing (fst (drive st [sg]))"
proof -
  have "\<exists>out cont eff. nextLifecycle st sg = Inr (out, cont, eff) \<and> isWriterClosing out"
    using assms unfolding next_accepts
    by (cases "ls_writer st"; simp add: matrixOf_def accept_iffs validateLifecycleSignal_def probeBlocks_def dualLockedKind_def isWriterClosing_def;
        auto simp: validLc_def)
  then show ?thesis by force
qed

lemma publish_step:
  assumes "validLc st" and "sg_class sg = ls_class st" and "sg_kind sg = signalCompletionPublished" and "sg_boundary sg = afterRunTeardown"
    and "runOver st" and "isShuttingDown st" and "isWriterClosing st"
  shows "ls_completion (fst (drive st [sg])) = completionPublished"
proof -
  have "\<exists>out cont eff. nextLifecycle st sg = Inr (out, cont, eff) \<and> ls_completion out = completionPublished"
  proof (cases "ls_completion st = completionPublished")
    case True
    then show ?thesis using assms unfolding next_accepts
      by (simp add: matrixOf_def accept_iffs validateLifecycleSignal_def probeBlocks_def)
  next
    case False
    have "ls_attempts st = 0" "ls_pendingProbe st = probeNone" using assms(1,5) by (auto simp: validLc_def runOver_def)
    with False show ?thesis using assms unfolding next_accepts
      by (simp add: matrixOf_def accept_iffs validateLifecycleSignal_def probeBlocks_def runOver_def validLc_def)
  qed
  then show ?thesis by force
qed

text \<open>
  C17: a fault never strands a runtime. From every valid state that is not yet published, a fault, a shutdown request, the close of
  the writer and the publication, in this order and with any other signals before, between and after them, leave the
  completion published.
\<close>

theorem fault_leads_to_publication:
  assumes "validLc st" and "sg_kind fault = signalFault" and "sg_kind shut = signalShutdownRequested"
    and "sg_kind wr = signalWriterCloseBegun" and "sg_kind pub = signalCompletionPublished" and "sg_boundary pub = afterRunTeardown"
    and "\<forall>sg\<in>{fault, shut, wr, pub}. sg_class sg = ls_class st"
  shows "ls_completion (fst (drive st (a @ fault # b @ shut # c @ wr # d @ pub # e))) = completionPublished"
proof -
  have app: "fst (drive s (xs @ ys)) = fst (drive (fst (drive s xs)) ys)" for s xs ys
    by (simp add: drive_append Let_def split: prod.splits)
  have cons: "fst (drive s (x # ys)) = fst (drive (fst (drive s [x])) ys)" for s x ys
    using app[of s "[x]" ys] by simp
  have final: "ls_completion (fst (drive s xs)) = completionPublished" if "ls_completion s = completionPublished" "validLc s" for s xs
    using drive_quiet[of s xs] that by (cases "drive s xs") auto
  note progress = drive_progress
  define s1 where "s1 = fst (drive st a)"
  define s2 where "s2 = fst (drive (fst (drive s1 [fault])) b)"
  define s3 where "s3 = fst (drive (fst (drive s2 [shut])) c)"
  define s4 where "s4 = fst (drive (fst (drive s3 [wr])) d)"
  have whole: "fst (drive st (a @ fault # b @ shut # c @ wr # d @ pub # e)) = fst (drive (fst (drive s4 [pub])) e)"
    unfolding s1_def s2_def s3_def s4_def by (metis app cons)
  have v1: "validLc s1" "ls_class s1 = ls_class st" using progress[OF assms(1)] by (auto simp: s1_def)
  have v2: "validLc s2" "ls_class s2 = ls_class st" using progress v1 by (simp_all add: s2_def del: drive.simps)
  have v3: "validLc s3" "ls_class s3 = ls_class st" "runOver s2 \<longrightarrow> runOver s3" using progress v2 by (simp_all add: s3_def del: drive.simps)
  have v4: "validLc s4" "ls_class s4 = ls_class st" "runOver s3 \<longrightarrow> runOver s4" "isShuttingDown s3 \<longrightarrow> isShuttingDown s4"
    using progress v3 by (simp_all add: s4_def del: drive.simps)
  have o2: "ls_completion s1 \<noteq> completionPublished \<longrightarrow> runOver s2"
    using fault_step[of s1 fault] v1 assms(2,7) progress[of "fst (drive s1 [fault])" b] progress[of s1 "[fault]"] by (simp add: s2_def del: drive.simps)
  have o3: "isShuttingDown s3"
    using shutdown_step[of s2 shut] v2 assms(3,7) progress[of "fst (drive s2 [shut])" c] progress[of s2 "[shut]"] by (simp add: s3_def del: drive.simps)
  have o4: "isWriterClosing s4"
    using writer_step[of s3 wr] v3 assms(4,7) progress[of "fst (drive s3 [wr])" d] progress[of s3 "[wr]"] by (simp add: s4_def del: drive.simps)
  have "ls_completion (fst (drive s4 [pub])) = completionPublished"
  proof (cases "ls_completion s1 = completionPublished")
    case True
    have "ls_completion s4 = completionPublished"
      unfolding s4_def s3_def s2_def using final True v1 progress by metis
    then show ?thesis using final v4(1) by blast
  next
    case False
    then show ?thesis using publish_step[of s4 pub] o2 o3 o4 v3 v4 assms(5-7) by (simp del: drive.simps)
  qed
  then show ?thesis using whole final progress[OF v4(1), of "[pub]"] by (simp del: drive.simps)
qed

theorem fault_leads_to_publication_witness:
  "let s = (\<lambda>k. signalOf k directAttemptClass);
       st = (freshLifecycle directAttemptClass)\<lparr>ls_exec := execRunning, ls_attempts := 1\<rparr> in
   ls_completion (fst (drive st ([] @ s signalFault # [s signalParkRequested] @ s signalShutdownRequested # [] @
     s signalWriterCloseBegun # [s signalWriterCloseFinished] @ s signalCompletionPublished # [s signalPublished]))) = completionPublished"
  unfolding Let_def
  by (rule fault_leads_to_publication) (simp_all add: validLc_def freshLifecycle_def signalOf_def)

end
