(* ===== verification/Sv_Child.thy ===== *)
theory Sv_Child
  imports Sv_Lifecycle "HOL-Library.State_Monad"
begin

text \<open>
  A direct runtime of the supervisor (\<^verbatim>\<open>src/internal/stable/supervisor.go\<close>: \<^verbatim>\<open>runChild\<close> and what it calls, and
  \<^verbatim>\<open>runtime_lifecycle_apply.go\<close>, which commits what the machine of \<open>Sv_Lifecycle\<close> predicts). The model is a state monad over
  the runtime and the trace of what it does to the outside. A critical section under the lock of the runtime is one step; before
  it, other goroutines may have had theirs: the steps \<open>ce_Others\<close> that the environment lists for the moment.
  \<open>ce_Rejects\<close> is the injected transition failure of the tests: it rejects a transition as an illegal one is rejected,
  and nothing of what is shown for every \<open>ce_Rejects\<close> depends on the machine accepting anything.
\<close>

section \<open>Data\<close>

text \<open>\<open>ch_turnWaiters\<close> are channels by number; \<open>ch_doneFired\<close> is \<^verbatim>\<open>doneOnce\<close>; the class of attempts is in the lifecycle state.\<close>

record child_runtime =
  ch_lc :: lifecycle_state
  ch_phase :: string
  ch_phaseLabel :: string
  ch_exitCode :: int
  ch_lastStopReason :: string
  ch_turnWaiters :: "nat list"
  ch_promptQueue :: "string list"
  ch_promptClaimed :: bool
  ch_warmResumePending :: bool
  ch_session :: string
  ch_sentinelFile :: string
  ch_treeToken :: string
  ch_hasWriter :: bool
  ch_pendingPermission :: bool
  ch_doneFired :: bool

record attempt_outcome =
  ao_exitCode :: int
  ao_sessionID :: string
  ao_stopReason :: string
  ao_retryAfter :: int64

datatype child_action =
    AttemptLaunched string string int
  | SentinelWritten string int string string int64
  | SessionEndEmitted string
  | ChildErrorEmitted
  | CapacitySignaled
  | TokenReleased string
  | ProviderCancelRequested
  | ContextCanceled
  | WriterSinkClosed
  | WaiterClosed nat
  | DoneClosed
  | RuntimeActivitySignaled
  | TerminationRecorded attempt_status
  | LifecycleErrorReported error

datatype other_step =
    OtherShutdown
  | OtherStatus string string
  | OtherSessionEnd string
  | OtherPermission bool
  | OtherAdopt string
  | OtherPrompt string
  | OtherInterruptPrompt string bool
  | OtherWait nat
  | OtherUnwait nat
  | OtherWarmResume string string

datatype park_wake = WakePrompt | WakeContext | WakeTimeout

text \<open>
  \<open>ce_Session\<close>: \<^verbatim>\<open>attemptSession\<close>, with whether a failure is a messaging one; \<open>ce_Turn\<close>: the turn once started. Both can panic
  (\<open>None\<close>). \<open>ce_Acquire\<close> and \<open>ce_Slot\<close>: the waits for the tree budget and for a local slot.
\<close>

record child_env =
  ce_Rejects :: "nat \<Rightarrow> signal_kind \<Rightarrow> bool"
  ce_Others :: "nat \<Rightarrow> other_step list"
  ce_Err :: "nat \<Rightarrow> ctx_end option"
  ce_Remaining :: "nat \<Rightarrow> int option"
  ce_Session :: "nat \<Rightarrow> string \<Rightarrow> (bool + string) option"
  ce_Turn :: "nat \<Rightarrow> string \<Rightarrow> attempt_outcome option"
  ce_Acquire :: "nat \<Rightarrow> string result"
  ce_Slot :: "nat \<Rightarrow> unit result"
  ce_Wake :: "nat \<Rightarrow> park_wake"
  ce_Backoff :: "nat \<Rightarrow> ctx_end option"
  ce_Done :: "nat \<Rightarrow> ctx_end"
  ce_DirectAnswer :: "nat \<Rightarrow> bool"

record child_world =
  cw_child :: child_runtime
  cw_trace :: "child_action list"
  cw_tick :: nat

type_synonym 'a child_m = "(child_world, 'a) state"

section \<open>Access\<close>

definition act :: "child_action \<Rightarrow> unit child_m" where
  "act a = State (\<lambda>w. ((), w\<lparr>cw_trace := cw_trace w @ [a]\<rparr>))"

definition getC :: "child_runtime child_m" where
  "getC = State (\<lambda>w. (cw_child w, w))"

definition putC :: "(child_runtime \<Rightarrow> child_runtime) \<Rightarrow> unit child_m" where
  "putC f = State (\<lambda>w. ((), w\<lparr>cw_child := f (cw_child w)\<rparr>))"

definition putLc :: "(lifecycle_state \<Rightarrow> lifecycle_state) \<Rightarrow> unit child_m" where
  "putLc f = putC (\<lambda>c. c\<lparr>ch_lc := f (ch_lc c)\<rparr>)"

definition nextTick :: "nat child_m" where
  "nextTick = State (\<lambda>w. (cw_tick w, w\<lparr>cw_tick := Suc (cw_tick w)\<rparr>))"

definition learn :: "(nat \<Rightarrow> 'a) \<Rightarrow> 'a child_m" where
  "learn f = do { n \<leftarrow> nextTick; State_Monad.return (f n) }"

definition skip :: "unit child_m" where
  "skip = State_Monad.return ()"

fun eachOf :: "('a \<Rightarrow> unit child_m) \<Rightarrow> 'a list \<Rightarrow> unit child_m" where
  "eachOf f [] = skip"
| "eachOf f (x # xs) = do { _ \<leftarrow> f x; eachOf f xs }"

definition reportLifecycleError :: "error option \<Rightarrow> unit child_m" where
  "reportLifecycleError e = (case e of None \<Rightarrow> skip | Some e \<Rightarrow> act (LifecycleErrorReported e))"

definition errorOf :: "'a result \<Rightarrow> error option" where
  "errorOf r = (case r of Inl e \<Rightarrow> Some e | Inr _ \<Rightarrow> None)"

section \<open>Committing a transition\<close>

definition settleTurnLocked :: "unit child_m" where
  "settleTurnLocked =
     do { c \<leftarrow> getC;
          _ \<leftarrow> putC (\<lambda>c. c\<lparr>ch_turnWaiters := []\<rparr>);
          eachOf (\<lambda>n. act (WaiterClosed n)) (ch_turnWaiters c) }"

fun ownedEffect :: "lifecycle_effect \<Rightarrow> unit child_m" where
  "ownedEffect effectClearPresentation = putC (\<lambda>c. c\<lparr>ch_phase := '''', ch_phaseLabel := ''''\<rparr>)"
| "ownedEffect (effectSetAgentPresentation phase label) =
     putC (\<lambda>c. c\<lparr>ch_phase := phase, ch_phaseLabel := (if label \<noteq> '''' then label else ch_phaseLabel c)\<rparr>)"
| "ownedEffect effectSetSuccessPresentation = putC (\<lambda>c. c\<lparr>ch_phase := ''done''\<rparr>)"
| "ownedEffect (effectSetSessionEndPresentation reason) =
     putC (\<lambda>c. c\<lparr>ch_phase := ''done'', ch_lastStopReason := (if reason \<noteq> '''' then reason else ch_lastStopReason c)\<rparr>)"
| "ownedEffect (effectSetIdleEndData code reason) =
     putC (\<lambda>c. c\<lparr>ch_exitCode := code, ch_phase := ''done'', ch_lastStopReason := reason\<rparr>)"
| "ownedEffect (effectRecordOutcomeExit code) = putC (\<lambda>c. c\<lparr>ch_exitCode := code\<rparr>)"
| "ownedEffect effectSettleTurnWaiters = settleTurnLocked"
| "ownedEffect _ = skip"

definition applyOwnedLifecycleEffects :: "lifecycle_effect list \<Rightarrow> unit child_m" where
  "applyOwnedLifecycleEffects = eachOf ownedEffect"

definition signalKindName :: "signal_kind \<Rightarrow> string" where
  "signalKindName k = (case k of
       signalPublished \<Rightarrow> ''published'' | signalAttemptPreparing \<Rightarrow> ''attemptPreparing'' | signalAttemptStarted \<Rightarrow> ''attemptStarted''
     | signalAttemptStartFailed \<Rightarrow> ''attemptStartFailed'' | signalAttemptSettled \<Rightarrow> ''attemptSettled''
     | signalWorkflowFinalized \<Rightarrow> ''workflowFinalized'' | signalAttemptReturned \<Rightarrow> ''attemptReturned''
     | signalAttemptOutcome \<Rightarrow> ''attemptOutcome'' | signalPromptContinuation \<Rightarrow> ''promptContinuation''
     | signalSuccessPresented \<Rightarrow> ''successPresented'' | signalParkRequested \<Rightarrow> ''parkRequested''
     | signalPromptDequeued \<Rightarrow> ''promptDequeued'' | signalLocalSlotAcquired \<Rightarrow> ''localSlotAcquired''
     | signalParkTimedOut \<Rightarrow> ''parkTimedOut'' | signalParkWaitEnded \<Rightarrow> ''parkWaitEnded''
     | signalIdleContextEnded \<Rightarrow> ''idleContextEnded'' | signalRunEnded \<Rightarrow> ''runEnded'' | signalSpawnRolledBack \<Rightarrow> ''spawnRolledBack''
     | signalShutdownRequested \<Rightarrow> ''shutdownRequested'' | signalWriterCloseBegun \<Rightarrow> ''writerCloseBegun''
     | signalWriterCloseFinished \<Rightarrow> ''writerCloseFinished'' | signalCompletionPublished \<Rightarrow> ''completionPublished''
     | signalAgentStatusObserved \<Rightarrow> ''agentStatusObserved'' | signalSessionEndObserved \<Rightarrow> ''sessionEndObserved''
     | signalFault \<Rightarrow> ''fault'')"

text \<open>
  The commit is field by field: the shutdown and writer stages only under both locks. Every effect kind is owned or
  deferred, so that the error for an unknown kind cannot occur.
\<close>

definition commitFields :: "bool \<Rightarrow> lifecycle_state \<Rightarrow> lifecycle_state \<Rightarrow> lifecycle_state" where
  "commitFields dualLocked predicted l =
     (let l' = l\<lparr>ls_exec := ls_exec predicted, ls_attempts := ls_attempts predicted,
                 ls_completion := ls_completion predicted, ls_pendingProbe := ls_pendingProbe predicted\<rparr> in
      if dualLocked then l'\<lparr>ls_shutdown := ls_shutdown predicted, ls_writer := ls_writer predicted\<rparr> else l')"

definition transactLifecycle ::
  "child_env \<Rightarrow> bool \<Rightarrow> lifecycle_signal \<Rightarrow> (continuation_kind \<times> lifecycle_effect list) result child_m" where
  "transactLifecycle ce dualLocked sg =
     (if \<not> dualLocked \<and> dualLockedKind (sg_kind sg) then
        State_Monad.return (Inl (Errorf ''lifecycle: signal %d requires the dual-locked wrapper'' [signalNum (sg_kind sg)]))
      else do {
        c \<leftarrow> getC;
        rejected \<leftarrow> learn (\<lambda>n. ce_Rejects ce n (sg_kind sg));
        case nextLifecycle (ch_lc c) sg of
          Inl e \<Rightarrow> State_Monad.return (Inl e)
        | Inr (predicted, cont, eff) \<Rightarrow>
            if rejected then
              State_Monad.return (Inl (Errorf ''lifecycle: injected transition failure for signal %d (%s)''
                [signalNum (sg_kind sg), signalKindName (sg_kind sg)]))
            else do {
              _ \<leftarrow> putLc (commitFields dualLocked predicted);
              _ \<leftarrow> applyOwnedLifecycleEffects eff;
              State_Monad.return (Inr (cont, eff)) } })"

text \<open>A signal with the class of the runtime; \<open>f\<close> fills in its payload.\<close>

definition applySignal ::
  "child_env \<Rightarrow> bool \<Rightarrow> signal_kind \<Rightarrow> (lifecycle_signal \<Rightarrow> lifecycle_signal) \<Rightarrow>
   (continuation_kind \<times> lifecycle_effect list) result child_m" where
  "applySignal ce dualLocked k f =
     do { c \<leftarrow> getC; transactLifecycle ce dualLocked (f (signalOf k (ls_class (ch_lc c)))) }"

section \<open>Fail-safes of failed transitions\<close>

definition completePublicationFailSafe :: "unit child_m" where
  "completePublicationFailSafe =
     do { _ \<leftarrow> putLc (\<lambda>l. l\<lparr>ls_exec := execEnded, ls_attempts := 0, ls_pendingProbe := probeNone,
                             ls_completion := completionPublished\<rparr>);
          settleTurnLocked }"

definition parkTimeoutFailSafe :: "unit child_m" where
  "parkTimeoutFailSafe =
     putLc (\<lambda>l. if ls_completion l = completionOpen then l\<lparr>ls_completion := completionAdmissionClosed\<rparr> else l)"

definition shutdownFailSafe :: "unit child_m" where
  "shutdownFailSafe = putLc (\<lambda>l. l\<lparr>ls_shutdown := shutdownRequested\<rparr>)"

definition writerCloseBegunFailSafe :: "unit child_m" where
  "writerCloseBegunFailSafe = putLc (\<lambda>l. if ls_writer l = writerOpen then l\<lparr>ls_writer := writerClosing\<rparr> else l)"

definition writerCloseFinishedFailSafe :: "unit child_m" where
  "writerCloseFinishedFailSafe = putLc (\<lambda>l. l\<lparr>ls_writer := writerClosed\<rparr>)"

definition whenFailed :: "'a result \<Rightarrow> unit child_m \<Rightarrow> unit child_m" where
  "whenFailed r failSafe = (case r of Inl e \<Rightarrow> failSafe | Inr _ \<Rightarrow> skip)"

section \<open>Shutdown of a runtime\<close>

fun shutdownEffect :: "bool \<Rightarrow> lifecycle_effect \<Rightarrow> unit child_m" where
  "shutdownEffect cancelProvider effectConsiderProviderCancel = (if cancelProvider then act ProviderCancelRequested else skip)"
| "shutdownEffect cancelProvider effectCancelContext = act ContextCanceled"
| "shutdownEffect cancelProvider _ = skip"

definition executeShutdownDeferredEffects :: "bool \<Rightarrow> lifecycle_effect list \<Rightarrow> unit child_m" where
  "executeShutdownDeferredEffects cancelProvider = eachOf (shutdownEffect cancelProvider)"

definition beginChildShutdown :: "child_env \<Rightarrow> unit child_m" where
  "beginChildShutdown ce =
     do { c \<leftarrow> getC;
          r \<leftarrow> applySignal ce True signalShutdownRequested id;
          _ \<leftarrow> whenFailed r shutdownFailSafe;
          cancelProvider \<leftarrow> learn (ce_DirectAnswer ce);
          _ \<leftarrow> executeShutdownDeferredEffects cancelProvider
                (case r of Inl _ \<Rightarrow> shutdownRequestedEffects (isShuttingDown (ch_lc c)) | Inr (_, eff) \<Rightarrow> eff);
          reportLifecycleError (errorOf r) }"

section \<open>Other goroutines\<close>

definition sentinelExists :: "string \<Rightarrow> child_action list \<Rightarrow> bool" where
  "sentinelExists path tr \<longleftrightarrow> (\<exists>a\<in>set tr. case a of SentinelWritten p _ _ _ _ \<Rightarrow> p = path | _ \<Rightarrow> False)"

text \<open>The admission of a warm resume: \<^verbatim>\<open>gateWarmResumeChild\<close>, and a sentinel path that is not in use.\<close>

definition gateWarmResumeChild :: "child_runtime \<Rightarrow> bool" where
  "gateWarmResumeChild c \<longleftrightarrow>
     \<not> (isCompleted (ch_lc c) \<or> isShuttingDown (ch_lc c) \<or> isWriterClosing (ch_lc c)) \<and>
     \<not> (\<not> isParked (ch_lc c) \<or> ch_warmResumePending c \<or> ch_promptClaimed c \<or> ch_promptQueue c \<noteq> [])"

definition rotateWarmResumeTurn :: "string \<Rightarrow> string \<Rightarrow> child_runtime \<Rightarrow> child_runtime" where
  "rotateWarmResumeTurn prompt path c =
     c\<lparr>ch_sentinelFile := path, ch_hasWriter := True, ch_lastStopReason := '''', ch_pendingPermission := False,
       ch_exitCode := 0, ch_phase := ''working'', ch_phaseLabel := '''', ch_warmResumePending := True,
       ch_promptQueue := ch_promptQueue c @ [prompt]\<rparr>"

definition admitWarmResume :: "string \<Rightarrow> string \<Rightarrow> unit child_m" where
  "admitWarmResume prompt path =
     State (\<lambda>w. ((), if gateWarmResumeChild (cw_child w) \<and> path \<noteq> '''' \<and> path \<noteq> ch_sentinelFile (cw_child w) \<and>
                       \<not> sentinelExists path (cw_trace w)
                    then w\<lparr>cw_child := rotateWarmResumeTurn prompt path (cw_child w)\<rparr> else w))"

definition RuntimePrompt :: "string \<Rightarrow> child_runtime \<Rightarrow> child_runtime" where
  "RuntimePrompt text c = (if isCompleted (ch_lc c) then c else c\<lparr>ch_promptQueue := ch_promptQueue c @ [text]\<rparr>)"

definition RuntimeInterruptAndPrompt :: "string \<Rightarrow> bool \<Rightarrow> child_runtime \<Rightarrow> child_runtime" where
  "RuntimeInterruptAndPrompt text keepQueue c =
     (if isCompleted (ch_lc c) then c else c\<lparr>ch_promptQueue := text # (if keepQueue then ch_promptQueue c else [])\<rparr>)"

definition registerTurnWaiter :: "nat \<Rightarrow> child_runtime \<Rightarrow> child_runtime" where
  "registerTurnWaiter n c = (if isCompleted (ch_lc c) then c else c\<lparr>ch_turnWaiters := ch_turnWaiters c @ [n]\<rparr>)"

definition removeTurnWaiterLocked :: "nat \<Rightarrow> child_runtime \<Rightarrow> child_runtime" where
  "removeTurnWaiterLocked n c = c\<lparr>ch_turnWaiters := remove1 n (ch_turnWaiters c)\<rparr>"

text \<open>The two observations are those of the fanout writer, which holds the lock; it skips a status once the phase is done.\<close>

fun otherStep :: "child_env \<Rightarrow> other_step \<Rightarrow> unit child_m" where
  "otherStep ce OtherShutdown = beginChildShutdown ce"
| "otherStep ce (OtherStatus raw label) =
     do { c \<leftarrow> getC;
          if raw \<noteq> '''' \<and> ch_phase c \<noteq> ''done'' then
            do { r \<leftarrow> applySignal ce False signalAgentStatusObserved (\<lambda>sg. sg\<lparr>sg_phase := fst (ParsePhase raw), sg_label := label\<rparr>);
                 reportLifecycleError (errorOf r) }
          else skip }"
| "otherStep ce (OtherSessionEnd reason) =
     do { r \<leftarrow> applySignal ce False signalSessionEndObserved (\<lambda>sg. sg\<lparr>sg_stopReason := reason\<rparr>);
          reportLifecycleError (errorOf r) }"
| "otherStep ce (OtherPermission asked) = putC (\<lambda>c. c\<lparr>ch_pendingPermission := asked\<rparr>)"
| "otherStep ce (OtherAdopt session) = putC (\<lambda>c. c\<lparr>ch_session := session\<rparr>)"
| "otherStep ce (OtherPrompt text) = putC (RuntimePrompt text)"
| "otherStep ce (OtherInterruptPrompt text keepQueue) = putC (RuntimeInterruptAndPrompt text keepQueue)"
| "otherStep ce (OtherWait n) = putC (registerTurnWaiter n)"
| "otherStep ce (OtherUnwait n) = putC (removeTurnWaiterLocked n)"
| "otherStep ce (OtherWarmResume prompt path) = admitWarmResume prompt path"

text \<open>The turn of the other goroutines before a critical section, and a critical section that applies one signal.\<close>

definition interleave :: "child_env \<Rightarrow> unit child_m" where
  "interleave ce = do { others \<leftarrow> learn (ce_Others ce); eachOf (otherStep ce) others }"

definition locked ::
  "child_env \<Rightarrow> signal_kind \<Rightarrow> (lifecycle_signal \<Rightarrow> lifecycle_signal) \<Rightarrow>
   (continuation_kind \<times> lifecycle_effect list) result child_m" where
  "locked ce k f = do { _ \<leftarrow> interleave ce; applySignal ce False k f }"

definition signalReported :: "child_env \<Rightarrow> signal_kind \<Rightarrow> (lifecycle_signal \<Rightarrow> lifecycle_signal) \<Rightarrow> unit child_m" where
  "signalReported ce k f = do { r \<leftarrow> locked ce k f; reportLifecycleError (errorOf r) }"

section \<open>Deferred effects and the publication\<close>

definition releaseTreeToken :: "unit child_m" where
  "releaseTreeToken =
     do { c \<leftarrow> getC;
          _ \<leftarrow> putC (\<lambda>c. c\<lparr>ch_treeToken := ''''\<rparr>);
          if ch_treeToken c = '''' then skip else act (TokenReleased (ch_treeToken c)) }"

definition writeSentinel :: "int \<Rightarrow> string \<Rightarrow> string \<Rightarrow> int64 \<Rightarrow> unit child_m" where
  "writeSentinel code reason sessionID retryAfter =
     do { c \<leftarrow> getC;
          if ch_sentinelFile c \<noteq> '''' then act (SentinelWritten (ch_sentinelFile c) code sessionID reason retryAfter) else skip }"

fun deferredEffect :: "(completion_boundary \<Rightarrow> unit child_m) \<Rightarrow> lifecycle_effect \<Rightarrow> unit child_m" where
  "deferredEffect publish (effectWriteSentinel code reason sessionID retryAfter) = writeSentinel code reason sessionID retryAfter"
| "deferredEffect publish effectSignalCapacity = act CapacitySignaled"
| "deferredEffect publish effectReleaseTreeToken = releaseTreeToken"
| "deferredEffect publish (effectEmitSessionEnd reason) = act (SessionEndEmitted reason)"
| "deferredEffect publish (effectPublishCompletion boundary) = publish boundary"
| "deferredEffect publish effectCloseDone = act DoneClosed"
| "deferredEffect publish _ = skip"

text \<open>
  \<^verbatim>\<open>complete\<close>. The effects of the publication hold no publication cue (\<open>publication_effects\<close>), so that the cue of the
  executor inside \<^verbatim>\<open>doneOnce\<close> is not reached.
\<close>

definition publishOnce :: "child_env \<Rightarrow> completion_boundary \<Rightarrow> unit child_m" where
  "publishOnce ce boundary =
     do { _ \<leftarrow> putC (\<lambda>c. c\<lparr>ch_doneFired := True\<rparr>);
          _ \<leftarrow> releaseTreeToken;
          _ \<leftarrow> interleave ce;
          _ \<leftarrow> putC (\<lambda>c. c\<lparr>ch_pendingPermission := False\<rparr>);
          r \<leftarrow> applySignal ce False signalCompletionPublished (\<lambda>sg. sg\<lparr>sg_boundary := boundary\<rparr>);
          _ \<leftarrow> whenFailed r completePublicationFailSafe;
          _ \<leftarrow> reportLifecycleError (errorOf r);
          _ \<leftarrow> (case r of Inl _ \<Rightarrow> act DoneClosed | Inr (_, eff) \<Rightarrow> eachOf (deferredEffect (\<lambda>_. skip)) eff);
          act RuntimeActivitySignaled }"

definition completeChild :: "child_env \<Rightarrow> completion_boundary \<Rightarrow> unit child_m" where
  "completeChild ce boundary = do { c \<leftarrow> getC; if ch_doneFired c then skip else publishOnce ce boundary }"

definition executeDeferredLifecycleEffects :: "child_env \<Rightarrow> lifecycle_effect list \<Rightarrow> unit child_m" where
  "executeDeferredLifecycleEffects ce = eachOf (deferredEffect (completeChild ce))"

section \<open>The fault fail-safe and the idle end\<close>

record lifecycle_fault =
  lf_exitCode :: int
  lf_reason :: string
  lf_sessionID :: string
  lf_retryAfter :: int64
  lf_recordExit :: bool
  lf_sentinelWritten :: bool
  lf_parkPath :: bool
  lf_idleEnd :: bool

definition resultFault :: "attempt_outcome \<Rightarrow> string \<Rightarrow> lifecycle_fault" where
  "resultFault r stopReason =
     \<lparr>lf_exitCode = ao_exitCode r, lf_reason = stopReason, lf_sessionID = ao_sessionID r, lf_retryAfter = ao_retryAfter r,
      lf_recordExit = True, lf_sentinelWritten = False, lf_parkPath = False, lf_idleEnd = False\<rparr>"

definition failSafeRunChildTransition :: "child_env \<Rightarrow> lifecycle_fault \<Rightarrow> unit child_m" where
  "failSafeRunChildTransition ce fault =
     do { r \<leftarrow> locked ce signalFault (\<lambda>sg.
            let sg = (if lf_recordExit fault then sg\<lparr>sg_recordExit := True, sg_exitCode := lf_exitCode fault\<rparr> else sg) in
            if lf_idleEnd fault
            then sg\<lparr>sg_idleEnd := True, sg_idleExitCode := lf_exitCode fault, sg_idleStopReason := lf_reason fault\<rparr> else sg);
          _ \<leftarrow> reportLifecycleError (errorOf r);
          executeDeferredLifecycleEffects ce
            ([effectReleaseTreeToken] @
             (if lf_sentinelWritten fault then []
              else [effectWriteSentinel (lf_exitCode fault) (lf_reason fault) (lf_sessionID fault) (lf_retryAfter fault)]) @
             (if lf_idleEnd fault then [effectEmitSessionEnd (lf_reason fault)] else []) @
             (if lf_parkPath fault then [effectSignalCapacity] else [])) }"

definition stopReasonForCtxErr :: "ctx_end \<Rightarrow> string" where
  "stopReasonForCtxErr e = (case e of ctxDeadline \<Rightarrow> ''timeout'' | ctxCanceled \<Rightarrow> ''cancelled'')"

definition idleEndFault :: "string \<Rightarrow> ctx_end option \<Rightarrow> lifecycle_fault" where
  "idleEndFault session ctxErr =
     (case ctxErr of
        None \<Rightarrow> \<lparr>lf_exitCode = 0, lf_reason = '''', lf_sessionID = '''', lf_retryAfter = 0, lf_recordExit = False,
                 lf_sentinelWritten = True, lf_parkPath = False, lf_idleEnd = False\<rparr>
      | Some e \<Rightarrow>
          \<lparr>lf_exitCode = ExitCodeForStopReason (stopReasonForCtxErr e), lf_reason = stopReasonForCtxErr e, lf_sessionID = session,
           lf_retryAfter = 0, lf_recordExit = True, lf_sentinelWritten = False, lf_parkPath = False, lf_idleEnd = True\<rparr>)"

definition writeIdleContextEnd :: "child_env \<Rightarrow> ctx_end \<Rightarrow> unit child_m" where
  "writeIdleContextEnd ce e =
     do { c \<leftarrow> getC;
          let stopReason = stopReasonForCtxErr e;
          r \<leftarrow> locked ce signalIdleContextEnded (\<lambda>sg.
            sg\<lparr>sg_idleExitCode := ExitCodeForStopReason stopReason, sg_idleStopReason := stopReason, sg_resultSessionID := ch_session c\<rparr>);
          case r of
            Inl err \<Rightarrow> do { _ \<leftarrow> reportLifecycleError (Some err);
                           c \<leftarrow> getC;
                           failSafeRunChildTransition ce (idleEndFault (ch_session c) (Some e)) }
          | Inr (_, eff) \<Rightarrow> executeDeferredLifecycleEffects ce eff }"

text \<open>The idle end is recorded only when the context has ended.\<close>

definition idleEndIfEnded :: "child_env \<Rightarrow> unit child_m" where
  "idleEndIfEnded ce = do { e \<leftarrow> learn (ce_Err ce); case e of None \<Rightarrow> skip | Some e \<Rightarrow> writeIdleContextEnd ce e }"

section \<open>Prompts, slots and tokens\<close>

definition takePrompt :: "child_runtime \<Rightarrow> child_runtime" where
  "takePrompt c = c\<lparr>ch_promptQueue := tl (ch_promptQueue c), ch_promptClaimed := (ch_promptClaimed c \<or> isParked (ch_lc c))\<rparr>"

definition dequeuePrompt :: "child_env \<Rightarrow> string option child_m" where
  "dequeuePrompt ce =
     do { _ \<leftarrow> interleave ce;
          c \<leftarrow> getC;
          if isCompleted (ch_lc c) \<or> ch_promptQueue c = [] then State_Monad.return None
          else do { _ \<leftarrow> putC takePrompt; State_Monad.return (Some (hd (ch_promptQueue c))) } }"

text \<open>
  \<^verbatim>\<open>waitForNextPrompt\<close> polls the queue whenever it is woken; \<open>fuel\<close> bounds the wakes that bring nothing. A wait that
  runs out of fuel has not returned: \<open>None\<close>.
\<close>

fun waitForNextPrompt :: "child_env \<Rightarrow> nat \<Rightarrow> string option option child_m" where
  "waitForNextPrompt ce 0 = State_Monad.return None"
| "waitForNextPrompt ce (Suc fuel) =
     do { prompt \<leftarrow> dequeuePrompt ce;
          case prompt of
            Some p \<Rightarrow> do { _ \<leftarrow> signalReported ce signalPromptDequeued id; State_Monad.return (Some (Some p)) }
          | None \<Rightarrow> do {
              _ \<leftarrow> interleave ce;
              c \<leftarrow> getC;
              if isCompleted (ch_lc c) then State_Monad.return (Some None)
              else do {
                wake \<leftarrow> learn (ce_Wake ce);
                case wake of
                  WakePrompt \<Rightarrow> waitForNextPrompt ce fuel
                | WakeContext \<Rightarrow> State_Monad.return (Some None)
                | WakeTimeout \<Rightarrow> do {
                    _ \<leftarrow> interleave ce;
                    c \<leftarrow> getC;
                    if ch_promptQueue c \<noteq> [] then do {
                      _ \<leftarrow> putC (\<lambda>c. c\<lparr>ch_promptQueue := tl (ch_promptQueue c), ch_promptClaimed := True\<rparr>);
                      r \<leftarrow> applySignal ce False signalPromptDequeued id;
                      _ \<leftarrow> reportLifecycleError (errorOf r);
                      State_Monad.return (Some (Some (hd (ch_promptQueue c)))) }
                    else do {
                      r \<leftarrow> applySignal ce False signalParkTimedOut id;
                      _ \<leftarrow> whenFailed r parkTimeoutFailSafe;
                      _ \<leftarrow> reportLifecycleError (errorOf r);
                      State_Monad.return (Some None) } } } } }"

definition acquireChildTreeToken :: "child_env \<Rightarrow> unit result child_m" where
  "acquireChildTreeToken ce =
     do { r \<leftarrow> learn (ce_Acquire ce);
          case r of
            Inl e \<Rightarrow> State_Monad.return (Inl e)
          | Inr token \<Rightarrow> do { _ \<leftarrow> interleave ce; _ \<leftarrow> putC (\<lambda>c. c\<lparr>ch_treeToken := token\<rparr>); State_Monad.return (Inr ()) } }"

text \<open>\<open>Some ended\<close>: the wait failed, and \<open>ended\<close> says that the fault fail-safe already ended the run.\<close>

definition acquireLocalRuntimeSlot :: "child_env \<Rightarrow> bool option child_m" where
  "acquireLocalRuntimeSlot ce =
     do { r \<leftarrow> learn (ce_Slot ce);
          case r of
            Inl _ \<Rightarrow> State_Monad.return (Some False)
          | Inr _ \<Rightarrow> do {
              r \<leftarrow> locked ce signalLocalSlotAcquired id;
              case r of
                Inr _ \<Rightarrow> State_Monad.return None
              | Inl e \<Rightarrow> do {
                  _ \<leftarrow> reportLifecycleError (Some e);
                  ctxErr \<leftarrow> learn (ce_Err ce);
                  c \<leftarrow> getC;
                  _ \<leftarrow> failSafeRunChildTransition ce (idleEndFault (ch_session c) ctxErr);
                  State_Monad.return (Some True) } } }"

section \<open>One attempt\<close>

definition runChildAttempt :: "child_env \<Rightarrow> string \<Rightarrow> string \<Rightarrow> int \<Rightarrow> attempt_outcome option child_m" where
  "runChildAttempt ce resumeID prompt attempt =
     do { _ \<leftarrow> signalReported ce signalAttemptPreparing id;
          _ \<leftarrow> act (AttemptLaunched resumeID prompt attempt);
          s \<leftarrow> learn (\<lambda>n. ce_Session ce n resumeID);
          case s of
            None \<Rightarrow> State_Monad.return None
          | Some (Inl messaging) \<Rightarrow> do {
              _ \<leftarrow> act ChildErrorEmitted;
              _ \<leftarrow> signalReported ce signalAttemptStartFailed id;
              State_Monad.return (Some \<lparr>ao_exitCode = 1, ao_sessionID = '''',
                ao_stopReason = (if messaging then ''messaging_unavailable'' else ''''), ao_retryAfter = 0\<rparr>) }
          | Some (Inr session) \<Rightarrow> do {
              _ \<leftarrow> interleave ce;
              _ \<leftarrow> putC (\<lambda>c. c\<lparr>ch_session := session\<rparr>);
              _ \<leftarrow> signalReported ce signalAttemptStarted id;
              turn \<leftarrow> learn (\<lambda>n. ce_Turn ce n session);
              _ \<leftarrow> signalReported ce signalAttemptSettled id;
              State_Monad.return turn } }"

section \<open>The run\<close>

record child_spec =
  sp_kind :: run_kind
  sp_maxRetries :: int
  sp_recordsTermination :: bool

datatype run_step = RunReturned | RunPanicked | RunStuck | RunAgain int string string

definition backoffDelay :: "int \<Rightarrow> int64" where
  "backoffDelay attempt =
     (let seconds = push_bit (nat (attempt - 1)) (2 :: int64) in (if 30 < sint seconds then 30 else seconds) * second)"

text \<open>What the continuation of an attempt needs to know of it: the wait before a retry, and whether one is left.\<close>

definition attemptPlan :: "child_env \<Rightarrow> child_spec \<Rightarrow> int \<Rightarrow> attempt_outcome \<Rightarrow> (int64 option \<times> bool) child_m" where
  "attemptPlan ce sp attempt r =
     (if IsRetryableFailure (ao_exitCode r) (ao_stopReason r) \<and> attempt \<le> sp_maxRetries sp then
        do { remaining \<leftarrow> learn (ce_Remaining ce);
             State_Monad.return (RetryWait remaining (backoffDelay attempt) (ao_retryAfter r)) }
      else State_Monad.return (None, attempt \<le> sp_maxRetries sp))"

definition sentinelReason :: "attempt_outcome \<Rightarrow> string" where
  "sentinelReason r = (if ao_stopReason r = '''' then StopReasonForExitCode (ao_exitCode r) else ao_stopReason r)"

definition resumeSession :: "attempt_outcome \<Rightarrow> string child_m" where
  "resumeSession r =
     (if ao_sessionID r \<noteq> '''' then State_Monad.return (ao_sessionID r)
      else do { c \<leftarrow> getC; State_Monad.return (ch_session c) })"

definition failRun :: "child_env \<Rightarrow> error \<Rightarrow> lifecycle_fault \<Rightarrow> run_step child_m" where
  "failRun ce e fault =
     do { _ \<leftarrow> reportLifecycleError (Some e);
          _ \<leftarrow> failSafeRunChildTransition ce fault;
          State_Monad.return RunReturned }"

definition presentSuccess :: "child_env \<Rightarrow> int \<Rightarrow> unit child_m" where
  "presentSuccess ce code = signalReported ce signalSuccessPresented (\<lambda>sg. sg\<lparr>sg_exitCode := code\<rparr>)"

definition endRun :: "child_env \<Rightarrow> attempt_outcome \<Rightarrow> lifecycle_effect list \<Rightarrow> run_step child_m" where
  "endRun ce r eff =
     do { _ \<leftarrow> executeDeferredLifecycleEffects ce eff;
          _ \<leftarrow> (if ao_exitCode r = 0 then presentSuccess ce (ao_exitCode r) else skip);
          State_Monad.return RunReturned }"

definition afterPark :: "child_env \<Rightarrow> attempt_outcome \<Rightarrow> string option \<Rightarrow> run_step child_m" where
  "afterPark ce r wake =
     (case wake of
        None \<Rightarrow> do {
          ended \<leftarrow> locked ce signalParkWaitEnded id;
          case ended of
            Inl e \<Rightarrow> do {
              ctxErr \<leftarrow> learn (ce_Err ce);
              c \<leftarrow> getC;
              failRun ce e ((case ctxErr of None \<Rightarrow> (resultFault r (sentinelReason r))\<lparr>lf_sentinelWritten := True\<rparr>
                             | Some _ \<Rightarrow> idleEndFault (ch_session c) ctxErr)\<lparr>lf_parkPath := True\<rparr>) }
          | Inr _ \<Rightarrow> do { _ \<leftarrow> idleEndIfEnded ce; State_Monad.return RunReturned } }
      | Some prompt \<Rightarrow> do {
          slot \<leftarrow> acquireLocalRuntimeSlot ce;
          case slot of
            None \<Rightarrow> do { resumeID \<leftarrow> resumeSession r; State_Monad.return (RunAgain 0 resumeID prompt) }
          | Some faulted \<Rightarrow> do { _ \<leftarrow> (if faulted then skip else idleEndIfEnded ce); State_Monad.return RunReturned } })"

definition parkRun :: "child_env \<Rightarrow> nat \<Rightarrow> attempt_outcome \<Rightarrow> lifecycle_effect list \<Rightarrow> run_step child_m" where
  "parkRun ce fuel r eff =
     do { _ \<leftarrow> executeDeferredLifecycleEffects ce eff;
          _ \<leftarrow> presentSuccess ce (ao_exitCode r);
          p \<leftarrow> locked ce signalParkRequested (\<lambda>sg. sg\<lparr>sg_runKind := runKindOrdinaryDirect\<rparr>);
          case p of
            Inl e \<Rightarrow> failRun ce e ((resultFault r (sentinelReason r))\<lparr>lf_sentinelWritten := True, lf_parkPath := True\<rparr>)
          | Inr (_, parkEff) \<Rightarrow> do {
              _ \<leftarrow> putC (\<lambda>c. c\<lparr>ch_warmResumePending := False, ch_promptClaimed := False\<rparr>);
              _ \<leftarrow> executeDeferredLifecycleEffects ce parkEff;
              wake \<leftarrow> waitForNextPrompt ce fuel;
              case wake of None \<Rightarrow> State_Monad.return RunStuck | Some wake \<Rightarrow> afterPark ce r wake } }"

definition probeTerminal :: "child_env \<Rightarrow> attempt_outcome \<Rightarrow> run_step child_m" where
  "probeTerminal ce r =
     do { ctxErr \<leftarrow> learn (ce_Err ce);
          prompt \<leftarrow> (if ctxErr = None then dequeuePrompt ce else State_Monad.return None);
          resumeID \<leftarrow> resumeSession r;
          p \<leftarrow> locked ce signalPromptContinuation (\<lambda>sg.
            sg\<lparr>sg_probeKind := probeTerminalPrompt, sg_terminalContextErr := ctxErr, sg_promptConsumed := (prompt \<noteq> None),
               sg_exitCode := ao_exitCode r, sg_sentinelReason := sentinelReason r, sg_sentinelRetryAfter := ao_retryAfter r,
               sg_resultSessionID := ao_sessionID r\<rparr>);
          case p of
            Inl e \<Rightarrow> failRun ce e (resultFault r (sentinelReason r))
          | Inr (cont, eff) \<Rightarrow> do {
              _ \<leftarrow> executeDeferredLifecycleEffects ce eff;
              State_Monad.return (case prompt of
                Some text \<Rightarrow> if cont = contResumeQueued then RunAgain 0 resumeID text else RunReturned
              | None \<Rightarrow> RunReturned) } }"

text \<open>The context is read once when a prompt was taken and once for the signal. An absent timer leaves only the context to wait for.\<close>

definition probeRetry :: "child_env \<Rightarrow> attempt_outcome \<Rightarrow> int64 option \<Rightarrow> int \<Rightarrow> string \<Rightarrow> string \<Rightarrow> run_step child_m" where
  "probeRetry ce r timer attempt resumeID0 text0 =
     do { let resumeID = (if ao_sessionID r \<noteq> '''' then ao_sessionID r else resumeID0);
          prompt \<leftarrow> dequeuePrompt ce;
          taken \<leftarrow> (if prompt = None then State_Monad.return False else learn (\<lambda>n. ce_Err ce n = None));
          ctxErr \<leftarrow> learn (ce_Err ce);
          let again = (if taken then RunAgain 0 resumeID (the prompt) else RunAgain attempt resumeID text0);
          p \<leftarrow> locked ce signalPromptContinuation (\<lambda>sg.
            sg\<lparr>sg_probeKind := probeRetryPrompt, sg_promptConsumed := taken, sg_resumeContextErr := ctxErr, sg_idleContextErr := ctxErr\<rparr>);
          case p of
            Inl e \<Rightarrow> failRun ce e (resultFault r (sentinelReason r))
          | Inr (cont, _) \<Rightarrow>
              if cont = contIdleContextEnd then do {
                _ \<leftarrow> writeIdleContextEnd ce (case ctxErr of Some e \<Rightarrow> e | None \<Rightarrow> ctxCanceled);
                State_Monad.return RunReturned }
              else if cont = contRetry then State_Monad.return again
              else do {
                ended \<leftarrow> learn (\<lambda>n. if timer = None then Some (ce_Done ce n) else ce_Backoff ce n);
                case ended of
                  None \<Rightarrow> State_Monad.return again
                | Some e \<Rightarrow> do { _ \<leftarrow> writeIdleContextEnd ce e; State_Monad.return RunReturned } } }"

definition judgeOutcome ::
  "child_env \<Rightarrow> child_spec \<Rightarrow> nat \<Rightarrow> attempt_outcome \<Rightarrow> int64 option \<times> bool \<Rightarrow> int \<Rightarrow> string \<Rightarrow> string \<Rightarrow> run_step child_m" where
  "judgeOutcome ce sp fuel r plan attempt resumeID prompt =
     do { p \<leftarrow> locked ce signalAttemptOutcome (\<lambda>sg.
            sg\<lparr>sg_runKind := sp_kind sp, sg_exitCode := ao_exitCode r, sg_stopReason := ao_stopReason r,
               sg_sentinelReason := sentinelReason r, sg_sentinelRetryAfter := ao_retryAfter r,
               sg_resultSessionID := ao_sessionID r, sg_sessionIDConflict := (ao_stopReason r = ''session_id_conflict''),
               sg_retryable := IsRetryableFailure (ao_exitCode r) (ao_stopReason r), sg_retriesRemaining := snd plan\<rparr>);
          case p of
            Inl e \<Rightarrow> failRun ce e (resultFault r (sentinelReason r))
          | Inr (cont, eff) \<Rightarrow>
              (case cont of
                 contEnd \<Rightarrow> endRun ce r eff
               | contPark \<Rightarrow> parkRun ce fuel r eff
               | contProbeTerminalPrompt \<Rightarrow> probeTerminal ce r
               | contProbeRetryPrompt \<Rightarrow> probeRetry ce r (fst plan) attempt resumeID prompt
               | _ \<Rightarrow> State_Monad.return (RunAgain attempt resumeID prompt)) }"

definition childIteration ::
  "child_env \<Rightarrow> child_spec \<Rightarrow> nat \<Rightarrow> int \<Rightarrow> string \<Rightarrow> string \<Rightarrow> bool \<Rightarrow> run_step child_m" where
  "childIteration ce sp fuel attempt resumeID0 prompt needAcquire =
     do { c \<leftarrow> getC;
          let resumeID = (if 1 < attempt \<and> resumeID0 = '''' then ch_session c else resumeID0);
          token \<leftarrow> (if needAcquire then acquireChildTreeToken ce else State_Monad.return (Inr ()));
          case token of
            Inl _ \<Rightarrow> do { _ \<leftarrow> idleEndIfEnded ce; State_Monad.return RunReturned }
          | Inr _ \<Rightarrow> do {
              result \<leftarrow> runChildAttempt ce resumeID prompt attempt;
              case result of
                None \<Rightarrow> State_Monad.return RunPanicked
              | Some r \<Rightarrow> do {
                  plan \<leftarrow> attemptPlan ce sp attempt r;
                  ret \<leftarrow> locked ce signalAttemptReturned id;
                  case ret of
                    Inl e \<Rightarrow> failRun ce e (resultFault r (sentinelReason r))
                  | Inr (_, eff) \<Rightarrow> do {
                      _ \<leftarrow> executeDeferredLifecycleEffects ce eff;
                      judgeOutcome ce sp fuel r plan attempt resumeID prompt } } } }"

text \<open>The loop; the first attempt holds the token of the spawn. Out of fuel the run has not returned.\<close>

fun childLoop :: "child_env \<Rightarrow> child_spec \<Rightarrow> nat \<Rightarrow> int \<Rightarrow> string \<Rightarrow> string \<Rightarrow> bool \<Rightarrow> run_step child_m" where
  "childLoop ce sp 0 attempt resumeID prompt needAcquire = State_Monad.return RunStuck"
| "childLoop ce sp (Suc fuel) attempt resumeID prompt needAcquire =
     do { step \<leftarrow> childIteration ce sp fuel attempt resumeID prompt needAcquire;
          case step of
            RunAgain attempt' resumeID' prompt' \<Rightarrow> childLoop ce sp fuel (attempt' + 1) resumeID' prompt' True
          | _ \<Rightarrow> State_Monad.return step }"

section \<open>Teardown\<close>

definition recordWorkflowTermination :: "child_env \<Rightarrow> child_spec \<Rightarrow> bool \<Rightarrow> unit child_m" where
  "recordWorkflowTermination ce sp panicked =
     do { c \<leftarrow> getC;
          if \<not> sp_recordsTermination sp then skip
          else do {
            ctxErr \<leftarrow> learn (ce_Err ce);
            act (TerminationRecorded
              (if panicked then AttemptPanicked
               else if ch_exitCode c = 124 then AttemptTimedOut
               else if ctxErr \<noteq> None \<or> ch_exitCode c = 130 then AttemptCanceled
               else if ch_exitCode c = 0 then AttemptSucceeded
               else AttemptFailed)) } }"

definition finishUnstartedWarmResume :: "child_env \<Rightarrow> unit child_m" where
  "finishUnstartedWarmResume ce =
     do { _ \<leftarrow> interleave ce;
          c \<leftarrow> getC;
          written \<leftarrow> State (\<lambda>w. (sentinelExists (ch_sentinelFile c) (cw_trace w), w));
          if \<not> ch_warmResumePending c \<or> ch_sentinelFile c = '''' \<or> written then skip
          else do {
            _ \<leftarrow> putC (\<lambda>c. c\<lparr>ch_exitCode := 1, ch_lastStopReason := ''error''\<rparr>);
            _ \<leftarrow> act ChildErrorEmitted;
            act (SentinelWritten (ch_sentinelFile c) 1 (ch_session c) ''error'' 0) } }"

definition closeChildEventWriter :: "child_env \<Rightarrow> unit child_m" where
  "closeChildEventWriter ce =
     do { _ \<leftarrow> interleave ce;
          begun \<leftarrow> applySignal ce True signalWriterCloseBegun id;
          _ \<leftarrow> whenFailed begun writerCloseBegunFailSafe;
          _ \<leftarrow> interleave ce;
          c \<leftarrow> getC;
          finished \<leftarrow> (if \<not> isWriterClosed (ch_lc c) \<and> ch_hasWriter c then do {
                         _ \<leftarrow> act WriterSinkClosed;
                         r \<leftarrow> applySignal ce True signalWriterCloseFinished (\<lambda>sg. sg\<lparr>sg_closeCalled := True\<rparr>);
                         _ \<leftarrow> whenFailed r writerCloseFinishedFailSafe;
                         State_Monad.return (errorOf r) }
                       else State_Monad.return None);
          _ \<leftarrow> reportLifecycleError (errorOf begun);
          reportLifecycleError finished }"

definition finishRunEnded :: "child_env \<Rightarrow> unit child_m" where
  "finishRunEnded ce =
     do { r \<leftarrow> locked ce signalRunEnded (\<lambda>sg. sg\<lparr>sg_boundary := afterRunTeardown\<rparr>);
          case r of
            Inl e \<Rightarrow> do { _ \<leftarrow> reportLifecycleError (Some e); completeChild ce afterRunTeardown }
          | Inr (_, eff) \<Rightarrow> executeDeferredLifecycleEffects ce eff }"

definition teardownChild :: "child_env \<Rightarrow> child_spec \<Rightarrow> bool \<Rightarrow> unit child_m" where
  "teardownChild ce sp panicked =
     do { c \<leftarrow> getC;
          _ \<leftarrow> (if panicked then do { _ \<leftarrow> act ChildErrorEmitted; writeSentinel 1 ''error'' (ch_session c) 0 } else skip);
          _ \<leftarrow> recordWorkflowTermination ce sp panicked;
          _ \<leftarrow> interleave ce;
          _ \<leftarrow> beginChildShutdown ce;
          _ \<leftarrow> finishUnstartedWarmResume ce;
          _ \<leftarrow> closeChildEventWriter ce;
          _ \<leftarrow> finishRunEnded ce;
          act CapacitySignaled }"

text \<open>\<^verbatim>\<open>runChild\<close>: whether the run returned within the fuel.\<close>

definition runChild :: "child_env \<Rightarrow> child_spec \<Rightarrow> nat \<Rightarrow> string \<Rightarrow> bool child_m" where
  "runChild ce sp fuel prompt =
     do { step \<leftarrow> childLoop ce sp fuel 1 '''' prompt False;
          if step = RunStuck then State_Monad.return False
          else do { _ \<leftarrow> teardownChild ce sp (step = RunPanicked); State_Monad.return True } }"

text \<open>A runtime as the spawn leaves it: published, with its class, its token and its sentinel path.\<close>

definition spawnedChild :: "string \<Rightarrow> string \<Rightarrow> child_runtime" where
  "spawnedChild sentinelFile token =
     \<lparr>ch_lc = (freshLifecycle directAttemptClass)\<lparr>ls_exec := execStarting\<rparr>, ch_phase = '''', ch_phaseLabel = '''', ch_exitCode = 0,
      ch_lastStopReason = '''', ch_turnWaiters = [], ch_promptQueue = [], ch_promptClaimed = False, ch_warmResumePending = False,
      ch_session = '''', ch_sentinelFile = sentinelFile, ch_treeToken = token, ch_hasWriter = True, ch_pendingPermission = False,
      ch_doneFired = False\<rparr>"

definition spawnedWorld :: "string \<Rightarrow> string \<Rightarrow> child_world" where
  "spawnedWorld sentinelFile token = \<lparr>cw_child = spawnedChild sentinelFile token, cw_trace = [], cw_tick = 0\<rparr>"

definition runTrace :: "child_env \<Rightarrow> child_spec \<Rightarrow> nat \<Rightarrow> string \<Rightarrow> child_world \<Rightarrow> child_action list" where
  "runTrace ce sp fuel prompt w = cw_trace (snd (run_state (runChild ce sp fuel prompt) w))"

end
