(* ===== verification/Sv_Publication.thy ===== *)
theory Sv_Publication
  imports Sv_Machine Sv_Child
begin

text \<open>
  The end of a direct run, whatever the environment does: other goroutines between any two critical sections, panics, and any set of
  transitions that the machine rejects. \<open>keeps I R m\<close> is the contract of a program of the run: from a state where \<open>I\<close> holds it
  ends in one, with a result that satisfies \<open>R\<close>. The locale \<open>run_invariant\<close> lifts an invariant of the single steps to the
  whole loop.
\<close>

section \<open>Contracts\<close>

definition keeps :: "(child_world \<Rightarrow> bool) \<Rightarrow> ('a \<Rightarrow> bool) \<Rightarrow> 'a child_m \<Rightarrow> bool" where
  "keeps I R m \<longleftrightarrow> (\<forall>w. I w \<longrightarrow> R (fst (run_state m w)) \<and> I (snd (run_state m w)))"

named_theorems keeps_rules

lemma keeps_return [keeps_rules]: "R x \<Longrightarrow> keeps I R (State_Monad.return x)"
  by (simp add: keeps_def State_Monad.return_def)

lemma keeps_skip [keeps_rules]: "R () \<Longrightarrow> keeps I R skip"
  by (simp add: skip_def keeps_return)

lemma keeps_bind:
  assumes "keeps I Q m" and "\<And>x. Q x \<Longrightarrow> keeps I R (f x)"
  shows "keeps I R (State_Monad.bind m f)"
  using assms by (simp add: keeps_def split_beta)

lemma keeps_then: "keeps I (\<lambda>_. True) m \<Longrightarrow> (\<And>x. keeps I R (f x)) \<Longrightarrow> keeps I R (State_Monad.bind m f)"
  by (rule keeps_bind)

lemma keeps_mono: "keeps I Q m \<Longrightarrow> (\<And>x. Q x \<Longrightarrow> R x) \<Longrightarrow> keeps I R m"
  by (auto simp: keeps_def)

lemma keeps_eachOf: "(\<And>x. x \<in> set xs \<Longrightarrow> keeps I (\<lambda>_. True) (f x)) \<Longrightarrow> R () \<Longrightarrow> keeps I R (eachOf f xs)"
  by (induction xs) (auto intro!: keeps_rules keeps_then)

lemma keeps_if [keeps_rules]: "(b \<Longrightarrow> keeps I R m) \<Longrightarrow> (\<not> b \<Longrightarrow> keeps I R m') \<Longrightarrow> keeps I R (if b then m else m')"
  by simp

lemma keeps_sum [keeps_rules]:
  "(\<And>e. r = Inl e \<Longrightarrow> keeps I R (f e)) \<Longrightarrow> (\<And>x. r = Inr x \<Longrightarrow> keeps I R (g x)) \<Longrightarrow> keeps I R (case r of Inl e \<Rightarrow> f e | Inr x \<Rightarrow> g x)"
  by (cases r) auto

lemma keeps_option [keeps_rules]:
  "(r = None \<Longrightarrow> keeps I R m) \<Longrightarrow> (\<And>x. r = Some x \<Longrightarrow> keeps I R (f x)) \<Longrightarrow> keeps I R (case r of None \<Rightarrow> m | Some x \<Rightarrow> f x)"
  by (cases r) auto

lemma keeps_park_wake [keeps_rules]:
  "keeps I R m \<Longrightarrow> keeps I R m' \<Longrightarrow> keeps I R m'' \<Longrightarrow>
   keeps I R (case r of WakePrompt \<Rightarrow> m | WakeContext \<Rightarrow> m' | WakeTimeout \<Rightarrow> m'')"
  by (cases r) auto

lemma keeps_prod [keeps_rules]: "(\<And>a b. p = (a, b) \<Longrightarrow> keeps I R (f a b)) \<Longrightarrow> keeps I R (case p of (a, b) \<Rightarrow> f a b)"
  by (cases p) auto

lemma keeps_getC [keeps_rules]: "(\<And>c. R c) \<Longrightarrow> keeps I R getC"
  by (simp add: keeps_def getC_def)

section \<open>Invariants of a run\<close>

text \<open>The signals of the run itself, before it ends, and the actions that are neither a launch nor part of the end.\<close>

definition bodyKind :: "signal_kind \<Rightarrow> bool" where
  "bodyKind k \<longleftrightarrow> \<not> dualLockedKind k \<and> k \<notin> {signalRunEnded, signalSpawnRolledBack, signalCompletionPublished}"

fun ordinary :: "child_action \<Rightarrow> bool" where
  "ordinary (AttemptLaunched _ _ _) = False"
| "ordinary ContextCanceled = False"
| "ordinary DoneClosed = False"
| "ordinary _ = True"

fun bodyEffect :: "lifecycle_effect \<Rightarrow> bool" where
  "bodyEffect (effectPublishCompletion _) = False"
| "bodyEffect effectCloseDone = False"
| "bodyEffect effectCancelContext = False"
| "bodyEffect _ = True"

lemma matrix_body:
  assumes "matrixOf st sg = Inr (out, cont, eff)" and "bodyKind (sg_kind sg)"
  shows "list_all bodyEffect eff" and "ls_completion st \<noteq> completionPublished \<Longrightarrow> ls_completion out \<noteq> completionPublished"
  using assms
  by (cases "sg_kind sg"; auto simp: matrixOf_def accept_iffs bodyKind_def dualLockedKind_def resultSentinel_def split: if_splits)+

text \<open>What a successful transaction returns: a continuation and effects that the machine predicts for the signal.\<close>

definition accepted ::
  "signal_kind \<Rightarrow> (lifecycle_signal \<Rightarrow> lifecycle_signal) \<Rightarrow> (continuation_kind \<times> lifecycle_effect list) result \<Rightarrow> bool" where
  "accepted k f r \<longleftrightarrow>
     (\<forall>cont eff. r = Inr (cont, eff) \<longrightarrow>
        list_all bodyEffect eff \<and> (\<exists>st out c. nextLifecycle st (f (signalOf k c)) = Inr (out, cont, eff)))"

text \<open>The steps of others that put a prompt into the queue.\<close>

fun brings :: "other_step \<Rightarrow> bool" where
  "brings (OtherPrompt _) = True"
| "brings (OtherInterruptPrompt _ _) = True"
| "brings (OtherWarmResume _ _) = True"
| "brings _ = False"

text \<open>\<open>change\<close>: how the fields of the runtime other than its lifecycle may change.\<close>

locale run_invariant =
  fixes ce :: child_env and I :: "child_world \<Rightarrow> bool" and launchable :: "int \<Rightarrow> bool"
    and change :: "child_runtime \<Rightarrow> child_runtime \<Rightarrow> bool"
  assumes tick: "I w \<Longrightarrow> I (w\<lparr>cw_tick := t\<rparr>)"
    and action: "I w \<Longrightarrow> ordinary a \<Longrightarrow> I (w\<lparr>cw_trace := cw_trace w @ [a]\<rparr>)"
    and launch: "I w \<Longrightarrow> launchable n \<Longrightarrow> I (w\<lparr>cw_trace := cw_trace w @ [AttemptLaunched s p n]\<rparr>)"
    and fields: "I w \<Longrightarrow> ch_lc c = ch_lc (cw_child w) \<Longrightarrow> ch_doneFired c = ch_doneFired (cw_child w) \<Longrightarrow> change (cw_child w) c \<Longrightarrow>
      I (w\<lparr>cw_child := c\<rparr>)"
    and plain: "ch_promptQueue c' = ch_promptQueue c \<or> ch_promptQueue c' = tl (ch_promptQueue c) \<Longrightarrow> change c c'"
    and prompted: "st \<in> set (ce_Others ce m) \<Longrightarrow> brings st \<Longrightarrow> change c c'"
    and commit: "I w \<Longrightarrow> bodyKind (sg_kind sg) \<Longrightarrow> nextLifecycle (ch_lc (cw_child w)) sg = Inr (out, cont, eff) \<Longrightarrow>
      I (w\<lparr>cw_child := (cw_child w)\<lparr>ch_lc := commitFields False out (ch_lc (cw_child w))\<rparr>\<rparr>)"
    and timeout: "I w \<Longrightarrow> I (snd (run_state parkTimeoutFailSafe w))"
    and shutdown: "I w \<Longrightarrow> I (snd (run_state (beginChildShutdown ce) w))"
begin

lemma keeps_act: "ordinary a \<Longrightarrow> R () \<Longrightarrow> keeps I R (act a)"
  by (simp add: keeps_def act_def action)

lemma keeps_launch: "launchable n \<Longrightarrow> R () \<Longrightarrow> keeps I R (act (AttemptLaunched s p n))"
  by (auto simp: keeps_def act_def intro: launch)

lemma keeps_learn: "(\<And>n. R (g n)) \<Longrightarrow> keeps I R (learn g)"
  by (simp add: keeps_def learn_def nextTick_def State_Monad.return_def tick)

lemma keeps_putC:
  "(\<And>c. ch_lc (f c) = ch_lc c \<and> ch_doneFired (f c) = ch_doneFired c \<and>
     (ch_promptQueue (f c) = ch_promptQueue c \<or> ch_promptQueue (f c) = tl (ch_promptQueue c))) \<Longrightarrow> R () \<Longrightarrow> keeps I R (putC f)"
  by (simp add: keeps_def putC_def fields plain)

lemma keeps_report: "R () \<Longrightarrow> keeps I R (reportLifecycleError e)"
  unfolding reportLifecycleError_def by (intro keeps_rules keeps_act) auto

lemmas basic = keeps_rules keeps_act keeps_launch keeps_learn keeps_putC keeps_report

lemma keeps_settle: "R () \<Longrightarrow> keeps I R settleTurnLocked"
  unfolding settleTurnLocked_def by (intro keeps_then basic keeps_eachOf) auto

lemma keeps_owned: "keeps I (\<lambda>_. True) (ownedEffect e)"
  by (cases e) (auto intro!: basic keeps_settle)

lemma keeps_signal:
  assumes "bodyKind k" and "\<And>c. sg_kind (f (signalOf k c)) = k"
  shows "keeps I (accepted k f) (applySignal ce False k f)"
proof -
  have "keeps I (\<lambda>r. \<forall>cont eff. r = Inr (cont, eff) \<longrightarrow> list_all bodyEffect eff \<and>
      (\<exists>st out. nextLifecycle st sg = Inr (out, cont, eff))) (transactLifecycle ce False sg)"
    if k: "sg_kind sg = k" for sg
    unfolding keeps_def
  proof (intro allI impI)
    fix w assume I: "I w"
    define w1 where "w1 = w\<lparr>cw_tick := Suc (cw_tick w)\<rparr>"
    have I1: "I w1" and c1: "cw_child w1 = cw_child w" using I tick by (simp_all add: w1_def)
    have owned: "I v \<Longrightarrow> I (snd (run_state (applyOwnedLifecycleEffects eff) v))" for eff v
      using keeps_eachOf[of eff I ownedEffect "\<lambda>_. True", OF keeps_owned] by (simp add: keeps_def applyOwnedLifecycleEffects_def)
    show "(\<forall>cont eff. fst (run_state (transactLifecycle ce False sg) w) = Inr (cont, eff) \<longrightarrow> list_all bodyEffect eff \<and>
        (\<exists>st out. nextLifecycle st sg = Inr (out, cont, eff))) \<and>
        I (snd (run_state (transactLifecycle ce False sg) w))"
    proof (cases "nextLifecycle (ch_lc (cw_child w)) sg")
      case (Inl e)
      then show ?thesis using assms(1) k I1
        by (simp add: transactLifecycle_def bodyKind_def getC_def learn_def nextTick_def State_Monad.return_def split_beta w1_def)
    next
      case (Inr r)
      obtain out cont eff where r: "r = (out, cont, eff)" by (cases r)
      have body: "list_all bodyEffect eff"
        using Inr r matrix_body(1) assms(1) k by (auto simp: next_accepts)
      have I2: "I (w1\<lparr>cw_child := (cw_child w1)\<lparr>ch_lc := commitFields False out (ch_lc (cw_child w1))\<rparr>\<rparr>)"
        using commit[OF I1, of sg out cont eff] assms(1) k Inr r c1 by simp
      show ?thesis using assms(1) k I1 body owned[OF I2] Inr r
        by (auto simp: transactLifecycle_def bodyKind_def getC_def learn_def nextTick_def State_Monad.return_def split_beta putLc_def
            putC_def w1_def)
    qed
  qed
  from this[OF assms(2)] have "keeps I (accepted k f) (transactLifecycle ce False (f (signalOf k c)))" for c
    by (rule keeps_mono) (unfold accepted_def, blast)
  then show ?thesis unfolding applySignal_def by (intro keeps_then keeps_getC) simp_all
qed

lemma keeps_shutdown: "R () \<Longrightarrow> keeps I R (beginChildShutdown ce)"
  by (simp add: keeps_def shutdown)

lemma signal_any:
  "bodyKind k \<Longrightarrow> (\<And>c. sg_kind (f (signalOf k c)) = k) \<Longrightarrow> keeps I (\<lambda>_. True) (applySignal ce False k f)"
  by (rule keeps_mono[OF keeps_signal]) auto

lemma keeps_prompted:
  "st \<in> set (ce_Others ce m) \<Longrightarrow> brings st \<Longrightarrow> (\<And>c. ch_lc (f c) = ch_lc c \<and> ch_doneFired (f c) = ch_doneFired c) \<Longrightarrow>
   keeps I (\<lambda>_. True) (putC f)"
  by (auto simp: keeps_def putC_def intro!: fields prompted)

lemma keeps_warm:
  "st \<in> set (ce_Others ce m) \<Longrightarrow> brings st \<Longrightarrow> keeps I (\<lambda>_. True) (admitWarmResume p path)"
  by (auto simp: keeps_def admitWarmResume_def rotateWarmResumeTurn_def intro!: fields prompted)

lemma keeps_other:
  assumes "st \<in> set (ce_Others ce m)"
  shows "keeps I (\<lambda>_. True) (otherStep ce st)"
proof (cases "brings st")
  case True
  note p = keeps_prompted[OF assms True] and warm = keeps_warm[OF assms True]
  show ?thesis using True
    by (cases st) (simp_all add: p warm RuntimePrompt_def RuntimeInterruptAndPrompt_def)
next
  case False
  then show ?thesis
    by (cases st) (auto intro!: keeps_then basic keeps_shutdown signal_any
      simp: bodyKind_def dualLockedKind_def signalOf_def registerTurnWaiter_def removeTurnWaiterLocked_def split: if_splits)
qed

lemma keeps_interleave: "R () \<Longrightarrow> keeps I R (interleave ce)"
  unfolding interleave_def
  by (rule keeps_bind[OF keeps_learn[of "\<lambda>os. \<exists>m. os = ce_Others ce m"]]) (auto intro!: keeps_eachOf keeps_other)

lemma keeps_locked:
  assumes "bodyKind k" and "\<And>c. sg_kind (f (signalOf k c)) = k"
  shows "keeps I (accepted k f) (locked ce k f)"
  unfolding locked_def by (intro keeps_then keeps_interleave keeps_signal assms) simp

lemma locked_any:
  "bodyKind k \<Longrightarrow> (\<And>c. sg_kind (f (signalOf k c)) = k) \<Longrightarrow> keeps I (\<lambda>_. True) (locked ce k f)"
  by (rule keeps_mono[OF keeps_locked]) auto

lemma keeps_signalReported:
  "bodyKind k \<Longrightarrow> (\<And>c. sg_kind (f (signalOf k c)) = k) \<Longrightarrow> R () \<Longrightarrow> keeps I R (signalReported ce k f)"
  unfolding signalReported_def by (intro keeps_then locked_any keeps_report)

lemma keeps_token: "R () \<Longrightarrow> keeps I R releaseTreeToken"
  unfolding releaseTreeToken_def by (intro keeps_then basic) auto

lemma keeps_sentinel: "R () \<Longrightarrow> keeps I R (writeSentinel code reason s r)"
  unfolding writeSentinel_def by (intro keeps_then basic) auto

lemma keeps_deferred:
  assumes "list_all bodyEffect eff" and "R ()"
  shows "keeps I R (executeDeferredLifecycleEffects ce eff)"
proof -
  have "keeps I (\<lambda>_. True) (deferredEffect (completeChild ce) e)" if "bodyEffect e" for e
    using that by (cases e) (auto intro!: basic keeps_token keeps_sentinel)
  with assms show ?thesis unfolding executeDeferredLifecycleEffects_def
    by (intro keeps_eachOf) (auto simp: list_all_iff)
qed

lemmas body_simps = bodyKind_def dualLockedKind_def signalOf_def accepted_def

lemma keeps_failSafe: "R () \<Longrightarrow> keeps I R (failSafeRunChildTransition ce fault)"
  unfolding failSafeRunChildTransition_def
  by (intro keeps_then locked_any keeps_report keeps_deferred) (auto simp: body_simps Let_def)

lemma keeps_idleEnd: "R () \<Longrightarrow> keeps I R (writeIdleContextEnd ce e)"
  unfolding writeIdleContextEnd_def Let_def
  by (intro keeps_then keeps_getC keeps_bind[OF keeps_locked] basic keeps_failSafe keeps_deferred) (auto simp: body_simps)

lemma keeps_idleEndIfEnded: "R () \<Longrightarrow> keeps I R (idleEndIfEnded ce)"
  unfolding idleEndIfEnded_def by (intro keeps_then basic keeps_idleEnd) auto

lemma keeps_dequeue: "(\<And>p. R p) \<Longrightarrow> keeps I R (dequeuePrompt ce)"
  unfolding dequeuePrompt_def by (intro keeps_then basic keeps_interleave) (auto simp: takePrompt_def)

lemma keeps_timeout: "R () \<Longrightarrow> keeps I R parkTimeoutFailSafe"
  by (simp add: keeps_def timeout)

lemma keeps_failed: "keeps I R m \<Longrightarrow> R () \<Longrightarrow> keeps I R (whenFailed r m)"
  unfolding whenFailed_def by (intro basic) auto

lemma keeps_wait: "(\<And>x. R x) \<Longrightarrow> keeps I R (waitForNextPrompt ce fuel)"
proof (induction fuel)
  case (Suc fuel)
  show ?case
    unfolding waitForNextPrompt.simps
    by (intro keeps_then keeps_dequeue basic keeps_signalReported keeps_interleave signal_any keeps_failed keeps_timeout Suc.IH
        Suc.prems TrueI) (simp_all add: body_simps)
qed (simp add: keeps_return)

lemma keeps_acquire: "(\<And>r. R r) \<Longrightarrow> keeps I R (acquireChildTreeToken ce)"
  unfolding acquireChildTreeToken_def by (intro keeps_then basic keeps_interleave) auto

lemma keeps_slot: "(\<And>r. R r) \<Longrightarrow> keeps I R (acquireLocalRuntimeSlot ce)"
  unfolding acquireLocalRuntimeSlot_def
  by (intro keeps_then basic locked_any keeps_failSafe) (auto simp: body_simps)

lemma keeps_attempt: "launchable n \<Longrightarrow> (\<And>r. R r) \<Longrightarrow> keeps I R (runChildAttempt ce s p n)"
  unfolding runChildAttempt_def
  by (intro keeps_then basic keeps_signalReported keeps_interleave) (auto simp: body_simps intro!: keeps_then basic keeps_signalReported keeps_interleave)

lemma keeps_failRun: "R RunReturned \<Longrightarrow> keeps I R (failRun ce e fault)"
  unfolding failRun_def by (intro keeps_then basic keeps_failSafe) auto

lemma keeps_resume: "(\<And>s. R s) \<Longrightarrow> keeps I R (resumeSession r)"
  unfolding resumeSession_def by (intro keeps_then basic) auto

lemma keeps_present: "R () \<Longrightarrow> keeps I R (presentSuccess ce code)"
  unfolding presentSuccess_def by (intro keeps_signalReported) (auto simp: body_simps)

lemma keeps_endRun: "list_all bodyEffect eff \<Longrightarrow> R RunReturned \<Longrightarrow> keeps I R (endRun ce r eff)"
  unfolding endRun_def by (intro keeps_then basic keeps_deferred keeps_present) auto

definition fresh :: "run_step \<Rightarrow> bool" where
  "fresh step \<longleftrightarrow> (\<forall>n s p. step = RunAgain n s p \<longrightarrow> n = 0)"

lemma keeps_afterPark: "keeps I fresh (afterPark ce r wake)"
  unfolding afterPark_def
  by (intro keeps_then basic locked_any keeps_failRun keeps_idleEndIfEnded keeps_slot keeps_resume) (auto simp: body_simps fresh_def)

lemma keeps_park: "list_all bodyEffect eff \<Longrightarrow> keeps I fresh (parkRun ce fuel r eff)"
  unfolding parkRun_def
  by (intro keeps_then basic keeps_deferred keeps_present keeps_bind[OF keeps_locked] keeps_failRun keeps_wait keeps_afterPark)
    (auto simp: body_simps fresh_def)

lemma keeps_probeTerminal: "keeps I fresh (probeTerminal ce r)"
  unfolding probeTerminal_def
  by (intro keeps_then basic keeps_deferred keeps_dequeue keeps_resume keeps_bind[OF keeps_locked] keeps_failRun)
    (auto simp: body_simps fresh_def split: option.splits)

definition continues :: "int \<Rightarrow> run_step \<Rightarrow> bool" where
  "continues n step \<longleftrightarrow> (\<forall>n' s p. step = RunAgain n' s p \<longrightarrow> n' = 0 \<or> n' = n)"

lemma keeps_probeRetry: "keeps I (continues n) (probeRetry ce r timer n s p)"
  unfolding probeRetry_def Let_def
  by (intro keeps_then basic keeps_deferred keeps_dequeue keeps_bind[OF keeps_locked] keeps_failRun keeps_idleEnd)
    (auto simp: body_simps continues_def)

text \<open>The loop goes on with a new prompt, or with the next attempt while retries remain.\<close>

definition goesOn :: "child_spec \<Rightarrow> int \<Rightarrow> run_step \<Rightarrow> bool" where
  "goesOn sp n step \<longleftrightarrow> (\<forall>n' s p. step = RunAgain n' s p \<longrightarrow> n' = 0 \<or> n' = n \<and> n \<le> sp_maxRetries sp)"

lemma outcome_continuations:
  assumes "nextLifecycle st sg = Inr (out, cont, eff)" and "sg_kind sg = signalAttemptOutcome"
  shows "cont \<in> {contEnd, contPark, contProbeTerminalPrompt, contProbeRetryPrompt} \<and>
    (cont = contProbeRetryPrompt \<longrightarrow> sg_retriesRemaining sg)"
proof -
  have "nextAttemptOutcome st sg = Inr (out, cont, eff)" using assms by (simp add: next_accepts matrixOf_def)
  then show ?thesis by (auto simp: accept_iffs split: if_splits)
qed

lemma keeps_judge:
  assumes "snd plan \<Longrightarrow> n \<le> sp_maxRetries sp"
  shows "keeps I (goesOn sp n) (judgeOutcome ce sp fuel r plan n s p)"
  unfolding judgeOutcome_def
proof (rule keeps_bind[OF keeps_locked])
  fix res
  let ?f = "\<lambda>sg. sg\<lparr>sg_runKind := sp_kind sp, sg_exitCode := ao_exitCode r, sg_stopReason := ao_stopReason r,
    sg_sentinelReason := sentinelReason r, sg_sentinelRetryAfter := ao_retryAfter r, sg_resultSessionID := ao_sessionID r,
    sg_sessionIDConflict := (ao_stopReason r = ''session_id_conflict''),
    sg_retryable := IsRetryableFailure (ao_exitCode r) (ao_stopReason r), sg_retriesRemaining := snd plan\<rparr>"
  assume acc: "accepted signalAttemptOutcome ?f res"
  show "keeps I (goesOn sp n) (case res of Inl e \<Rightarrow> failRun ce e (resultFault r (sentinelReason r))
      | Inr (cont, eff) \<Rightarrow> (case cont of contEnd \<Rightarrow> endRun ce r eff | contPark \<Rightarrow> parkRun ce fuel r eff
          | contProbeTerminalPrompt \<Rightarrow> probeTerminal ce r
          | contProbeRetryPrompt \<Rightarrow> probeRetry ce r (fst plan) n s p
          | _ \<Rightarrow> State_Monad.return (RunAgain n s p)))"
  proof (cases res)
    case (Inl e)
    then show ?thesis by (simp add: keeps_failRun goesOn_def)
  next
    case (Inr x)
    obtain cont eff where x: "x = (cont, eff)" by (cases x)
    with acc Inr have "list_all bodyEffect eff" and "cont \<in> {contEnd, contPark, contProbeTerminalPrompt, contProbeRetryPrompt}"
      and "cont = contProbeRetryPrompt \<longrightarrow> snd plan"
      using outcome_continuations[of _ "?f (signalOf signalAttemptOutcome c)" for c] by (fastforce simp: accepted_def signalOf_def)+
    then show ?thesis using assms Inr x
      by (auto simp: goesOn_def fresh_def continues_def
          intro!: keeps_endRun keeps_mono[OF keeps_park] keeps_mono[OF keeps_probeTerminal] keeps_mono[OF keeps_probeRetry])
  qed
qed (auto simp: body_simps)

lemma keeps_plan: "keeps I (\<lambda>plan. snd plan \<longrightarrow> n \<le> sp_maxRetries sp) (attemptPlan ce sp n r)"
  unfolding attemptPlan_def by (intro keeps_then basic) auto

lemma keeps_iteration:
  assumes "launchable n"
  shows "keeps I (goesOn sp n) (childIteration ce sp fuel n s p b)"
  unfolding childIteration_def Let_def
  by (intro keeps_then keeps_acquire keeps_rules keeps_idleEndIfEnded keeps_attempt keeps_bind[OF keeps_plan] keeps_bind[OF keeps_locked]
      keeps_failRun keeps_deferred keeps_judge assms) (auto simp: body_simps goesOn_def)

lemma keeps_loop:
  assumes "launchable n" and "launchable 1" and "\<And>n. launchable n \<Longrightarrow> n \<le> sp_maxRetries sp \<Longrightarrow> launchable (n + 1)"
  shows "keeps I (\<lambda>step. \<forall>n s p. step \<noteq> RunAgain n s p) (childLoop ce sp fuel n s p b)"
  using assms(1)
proof (induction fuel arbitrary: n s p b)
  case (Suc fuel)
  show ?case unfolding childLoop.simps
  proof (rule keeps_bind[OF keeps_iteration[OF Suc.prems]])
    fix step assume g: "goesOn sp n step"
    show "keeps I (\<lambda>step. \<forall>n s p. step \<noteq> RunAgain n s p)
        (case step of RunAgain n' s' p' \<Rightarrow> childLoop ce sp fuel (n' + 1) s' p' True | _ \<Rightarrow> State_Monad.return step)"
      using g Suc.prems assms(2,3) by (cases step) (auto simp: goesOn_def intro!: keeps_return Suc.IH)
  qed
qed (simp add: keeps_return)

end

section \<open>The shutdown\<close>

lemmas run_defs = getC_def putC_def putLc_def act_def learn_def nextTick_def skip_def State_Monad.return_def

lemma shutdown_result:
  assumes "nextLifecycle st sg = Inr (out, cont, eff)" and "sg_kind sg = signalShutdownRequested"
  shows "out = st\<lparr>ls_shutdown := shutdownRequested\<rparr>" and "eff = shutdownRequestedEffects (isShuttingDown st)"
  using assms by (auto simp: next_accepts matrixOf_def accept_iffs isShuttingDown_def)

text \<open>A shutdown request commits the stage, asks for the effects, and reports a rejection; nothing else.\<close>

lemma beginChildShutdown_effect:
  "\<exists>acts. snd (run_state (beginChildShutdown ce) w) =
      \<lparr>cw_child = (cw_child w)\<lparr>ch_lc := (ch_lc (cw_child w))\<lparr>ls_shutdown := shutdownRequested\<rparr>\<rparr>,
       cw_trace = cw_trace w @ acts, cw_tick = cw_tick w + 2\<rparr> \<and>
     count_list acts ContextCanceled = of_bool (\<not> isShuttingDown (ch_lc (cw_child w))) \<and>
     (\<forall>a\<in>set acts. ordinary a \<or> a = ContextCanceled)"
proof -
  let ?l = "ch_lc (cw_child w)"
  let ?sg = "signalOf signalShutdownRequested (ls_class ?l)"
  have commit: "commitFields True (?l\<lparr>ls_shutdown := shutdownRequested\<rparr>) ?l = ?l\<lparr>ls_shutdown := shutdownRequested\<rparr>"
    by (simp add: commitFields_def Let_def)
  show ?thesis
  proof (cases "nextLifecycle ?l ?sg")
    case (Inl e)
    then show ?thesis
      by (cases w) (simp add: beginChildShutdown_def applySignal_def transactLifecycle_def run_defs whenFailed_def shutdownFailSafe_def
          executeShutdownDeferredEffects_def shutdownRequestedEffects_def reportLifecycleError_def errorOf_def split_beta)
  next
    case (Inr x)
    obtain out cont eff where x: "x = (out, cont, eff)" by (cases x)
    have "out = ?l\<lparr>ls_shutdown := shutdownRequested\<rparr>" "eff = shutdownRequestedEffects (isShuttingDown ?l)"
      using shutdown_result[of ?l ?sg out cont eff] Inr x by (simp_all add: signalOf_def)
    then show ?thesis using Inr x commit
      by (cases w) (simp add: beginChildShutdown_def applySignal_def transactLifecycle_def run_defs whenFailed_def shutdownFailSafe_def
          executeShutdownDeferredEffects_def shutdownRequestedEffects_def reportLifecycleError_def errorOf_def split_beta
          applyOwnedLifecycleEffects_def)
  qed
qed

section \<open>Before the publication\<close>

text \<open>
  What holds until the publication: done is not closed, and the context has been canceled exactly if the shutdown was requested. The
  parameters say whether the publication is under way, and what is known of the shutdown and the writer.
\<close>

definition unpublished :: "bool \<Rightarrow> bool \<Rightarrow> bool \<Rightarrow> child_world \<Rightarrow> bool" where
  "unpublished fired shut closing w \<longleftrightarrow>
     (ch_doneFired (cw_child w) \<longleftrightarrow> fired) \<and> DoneClosed \<notin> set (cw_trace w) \<and>
     ls_completion (ch_lc (cw_child w)) \<noteq> completionPublished \<and>
     count_list (cw_trace w) ContextCanceled = of_bool (isShuttingDown (ch_lc (cw_child w))) \<and>
     (shut \<longrightarrow> isShuttingDown (ch_lc (cw_child w))) \<and> (closing \<longrightarrow> isWriterClosing (ch_lc (cw_child w)))"

lemma ordinary_cases: "ordinary a \<Longrightarrow> a \<noteq> DoneClosed \<and> a \<noteq> ContextCanceled"
  by (cases a) auto

interpretation pub: run_invariant ce "unpublished fired shut closing" "\<lambda>_. True" "\<lambda>_ _. True" for ce fired shut closing
proof unfold_locales
  fix w sg out cont eff
  assume u: "unpublished fired shut closing w" and k: "bodyKind (sg_kind sg)"
    and n: "nextLifecycle (ch_lc (cw_child w)) sg = Inr (out, cont, eff)"
  have "ls_completion out \<noteq> completionPublished" using u k n matrix_body(2) by (auto simp: next_accepts unpublished_def)
  then show "unpublished fired shut closing (w\<lparr>cw_child := (cw_child w)\<lparr>ch_lc := commitFields False out (ch_lc (cw_child w))\<rparr>\<rparr>)"
    using u by (simp add: unpublished_def commitFields_def Let_def isShuttingDown_def isWriterClosing_def)
next
  fix w assume u: "unpublished fired shut closing w"
  obtain acts where s: "snd (run_state (beginChildShutdown ce) w) =
      \<lparr>cw_child = (cw_child w)\<lparr>ch_lc := (ch_lc (cw_child w))\<lparr>ls_shutdown := shutdownRequested\<rparr>\<rparr>,
       cw_trace = cw_trace w @ acts, cw_tick = cw_tick w + 2\<rparr>"
    and "count_list acts ContextCanceled = of_bool (\<not> isShuttingDown (ch_lc (cw_child w)))"
    and "\<forall>a\<in>set acts. ordinary a \<or> a = ContextCanceled" using beginChildShutdown_effect by blast
  moreover from this have "DoneClosed \<notin> set acts" using ordinary_cases by blast
  ultimately show "unpublished fired shut closing (snd (run_state (beginChildShutdown ce) w))"
    using u by (auto simp: unpublished_def count_list_append isShuttingDown_def isWriterClosing_def)
qed (auto simp: unpublished_def count_list_append parkTimeoutFailSafe_def run_defs isShuttingDown_def isWriterClosing_def
    dest: ordinary_cases)

lemma shutdown_requested:
  assumes "unpublished fired shut closing w"
  shows "unpublished fired True closing (snd (run_state (beginChildShutdown ce) w))"
  using pub.keeps_shutdown[of "\<lambda>_. True" fired shut closing ce] assms beginChildShutdown_effect[of ce w]
  by (auto simp: keeps_def unpublished_def isShuttingDown_def)

section \<open>Sequences of contracts\<close>

definition leadsTo :: "(child_world \<Rightarrow> bool) \<Rightarrow> 'a child_m \<Rightarrow> ('a \<Rightarrow> child_world \<Rightarrow> bool) \<Rightarrow> bool" where
  "leadsTo P m Q \<longleftrightarrow> (\<forall>w. P w \<longrightarrow> Q (fst (run_state m w)) (snd (run_state m w)))"

lemma leads_bind: "leadsTo P m Q \<Longrightarrow> (\<And>x. leadsTo (Q x) (f x) R) \<Longrightarrow> leadsTo P (State_Monad.bind m f) R"
  by (simp add: leadsTo_def split_beta)

lemma leads_return: "(\<And>w. P w \<Longrightarrow> Q x w) \<Longrightarrow> leadsTo P (State_Monad.return x) Q"
  by (simp add: leadsTo_def State_Monad.return_def)

lemma leads_weaken: "leadsTo P m Q \<Longrightarrow> (\<And>w. P' w \<Longrightarrow> P w) \<Longrightarrow> (\<And>x w. Q x w \<Longrightarrow> Q' x w) \<Longrightarrow> leadsTo P' m Q'"
  by (simp add: leadsTo_def)

lemma leads_keeps: "keeps I R m \<Longrightarrow> leadsTo I m (\<lambda>x w. R x \<and> I w)"
  by (simp add: leadsTo_def keeps_def)

lemma leads_kept: "keeps I (\<lambda>_. True) m \<Longrightarrow> leadsTo I m (\<lambda>_. I)"
  by (simp add: leadsTo_def keeps_def)

section \<open>The token of the tree\<close>

definition holdsToken :: "string \<Rightarrow> child_world \<Rightarrow> bool" where
  "holdsToken t w \<longleftrightarrow> ch_treeToken (cw_child w) = t"

lemma token_act: "keeps (holdsToken t) (\<lambda>_. True) (act a)"
  by (simp add: keeps_def act_def holdsToken_def)

lemma token_learn: "keeps (holdsToken t) (\<lambda>_. True) (learn g)"
  by (simp add: keeps_def run_defs holdsToken_def)

lemma token_putC: "(\<And>c. ch_treeToken (f c) = ch_treeToken c) \<Longrightarrow> keeps (holdsToken t) (\<lambda>_. True) (putC f)"
  by (simp add: keeps_def putC_def holdsToken_def)

lemma token_report: "keeps (holdsToken t) (\<lambda>_. True) (reportLifecycleError e)"
  unfolding reportLifecycleError_def by (intro keeps_rules token_act) simp

lemma token_settle: "keeps (holdsToken t) (\<lambda>_. True) settleTurnLocked"
  unfolding settleTurnLocked_def by (intro keeps_then keeps_getC keeps_eachOf token_act token_putC) simp_all

lemma token_owned: "keeps (holdsToken t) (\<lambda>_. True) (ownedEffect e)"
  by (cases e) (auto intro!: token_putC token_settle keeps_skip)

lemma token_signal: "keeps (holdsToken t) (\<lambda>_. True) (applySignal ce dual k f)"
  unfolding applySignal_def transactLifecycle_def applyOwnedLifecycleEffects_def putLc_def
  by (intro keeps_then keeps_rules token_learn token_putC keeps_eachOf token_owned) simp_all

lemma token_shutdown: "keeps (holdsToken t) (\<lambda>_. True) (beginChildShutdown ce)"
proof -
  have "ch_treeToken (cw_child (snd (run_state (beginChildShutdown ce) w))) = ch_treeToken (cw_child w)" for w
    using beginChildShutdown_effect[of ce w] by auto
  then show ?thesis by (simp add: keeps_def holdsToken_def)
qed

lemma token_warm: "keeps (holdsToken t) (\<lambda>_. True) (admitWarmResume p path)"
  by (simp add: keeps_def admitWarmResume_def rotateWarmResumeTurn_def holdsToken_def)

lemma token_other: "keeps (holdsToken t) (\<lambda>_. True) (otherStep ce st)"
  by (cases st) (auto intro!: keeps_then keeps_rules token_shutdown token_signal token_report token_warm token_putC
    simp: RuntimePrompt_def RuntimeInterruptAndPrompt_def registerTurnWaiter_def removeTurnWaiterLocked_def)

lemma token_interleave: "keeps (holdsToken t) (\<lambda>_. True) (interleave ce)"
  unfolding interleave_def by (intro keeps_then token_learn keeps_eachOf token_other) simp

section \<open>The publication\<close>

definition runFinished :: "child_world \<Rightarrow> bool" where
  "runFinished w \<longleftrightarrow>
     (let c = cw_child w; l = ch_lc c in
      ls_completion l = completionPublished \<and> ls_exec l = execEnded \<and> ls_attempts l = 0 \<and> ls_pendingProbe l = probeNone \<and>
      isShuttingDown l \<and> isWriterClosing l \<and> ch_turnWaiters c = [] \<and> ch_treeToken c = '''' \<and>
      count_list (cw_trace w) DoneClosed = 1 \<and> count_list (cw_trace w) ContextCanceled = 1)"

lemma run_eachOf_act: "run_state (eachOf (\<lambda>n. act (g n)) xs) w = ((), w\<lparr>cw_trace := cw_trace w @ map g xs\<rparr>)"
  by (induction xs arbitrary: w) (simp_all add: run_defs)

lemma run_settle:
  "run_state settleTurnLocked w =
     ((), w\<lparr>cw_child := (cw_child w)\<lparr>ch_turnWaiters := []\<rparr>, cw_trace := cw_trace w @ map WaiterClosed (ch_turnWaiters (cw_child w))\<rparr>)"
  by (simp add: settleTurnLocked_def getC_def putC_def run_eachOf_act)

lemma publication_effects:
  assumes "nextLifecycle st sg = Inr (out, cont, eff)" and "sg_kind sg = signalCompletionPublished"
    and "ls_completion st \<noteq> completionPublished"
  shows "out = st\<lparr>ls_completion := completionPublished, ls_exec := execEnded\<rparr>" and "ls_attempts st = 0" and "ls_pendingProbe out = probeNone"
    and "eff = [effectSettleTurnWaiters, effectCloseDone]"
proof -
  have "nextCompletionPublished st sg = Inr (out, cont, eff)" and v: "validLc out"
    using assms(1,2) by (simp_all add: next_accepts matrixOf_def)
  then show "out = st\<lparr>ls_completion := completionPublished, ls_exec := execEnded\<rparr>" "ls_attempts st = 0"
      "eff = [effectSettleTurnWaiters, effectCloseDone]"
    using assms(3) by (simp_all add: nextCompletionPublished_iff)
  then show "ls_pendingProbe out = probeNone" using v by (auto simp: validLc_def)
qed

lemma count_waiters: "count_list (map WaiterClosed ns) DoneClosed = 0" "count_list (map WaiterClosed ns) ContextCanceled = 0"
  by (induction ns) auto

lemma count_absent: "x \<notin> set xs \<Longrightarrow> count_list xs x = 0"
  by (induction xs) auto

lemma publish_transaction:
  "leadsTo (\<lambda>w. unpublished True True True w \<and> holdsToken '''' w)
     (do { r \<leftarrow> applySignal ce False signalCompletionPublished (\<lambda>sg. sg\<lparr>sg_boundary := b\<rparr>);
           _ \<leftarrow> whenFailed r completePublicationFailSafe;
           _ \<leftarrow> reportLifecycleError (errorOf r);
           _ \<leftarrow> (case r of Inl _ \<Rightarrow> act DoneClosed | Inr (_, eff) \<Rightarrow> eachOf (deferredEffect (\<lambda>_. skip)) eff);
           act RuntimeActivitySignaled })
     (\<lambda>_. runFinished)"
  unfolding leadsTo_def
proof (intro allI impI)
  fix w assume w: "unpublished True True True w \<and> holdsToken '''' w"
  let ?l = "ch_lc (cw_child w)"
  let ?sg = "(signalOf signalCompletionPublished (ls_class ?l))\<lparr>sg_boundary := b\<rparr>"
  have k: "sg_kind ?sg = signalCompletionPublished" by (simp add: signalOf_def)
  note d = applySignal_def transactLifecycle_def dualLockedKind_def run_defs whenFailed_def completePublicationFailSafe_def
    reportLifecycleError_def errorOf_def split_beta run_settle runFinished_def Let_def count_list_append count_waiters
    applyOwnedLifecycleEffects_def commitFields_def
  have u: "count_list (cw_trace w) DoneClosed = 0" "count_list (cw_trace w) ContextCanceled = 1" "isShuttingDown ?l" "isWriterClosing ?l"
      "ls_completion ?l \<noteq> completionPublished" "ch_treeToken (cw_child w) = ''''"
    using w count_absent by (auto simp: unpublished_def holdsToken_def)
  show "runFinished (snd (run_state (do { r \<leftarrow> applySignal ce False signalCompletionPublished (\<lambda>sg. sg\<lparr>sg_boundary := b\<rparr>);
           _ \<leftarrow> whenFailed r completePublicationFailSafe;
           _ \<leftarrow> reportLifecycleError (errorOf r);
           _ \<leftarrow> (case r of Inl _ \<Rightarrow> act DoneClosed | Inr (_, eff) \<Rightarrow> eachOf (deferredEffect (\<lambda>_. skip)) eff);
           act RuntimeActivitySignaled }) w))"
  proof (cases "nextLifecycle ?l ?sg")
    case (Inl e)
    then show ?thesis using u k by (simp add: d isShuttingDown_def isWriterClosing_def)
  next
    case (Inr x)
    obtain out cont eff where x: "x = (out, cont, eff)" by (cases x)
    note p = publication_effects[OF Inr[unfolded x] k u(5)]
    show ?thesis using u k Inr x p by (simp add: d isShuttingDown_def isWriterClosing_def)
  qed
qed

lemma keeps_leads:
  "keeps (holdsToken t) (\<lambda>_. True) m \<Longrightarrow> keeps I (\<lambda>_. True) m \<Longrightarrow>
   leadsTo (\<lambda>w. I w \<and> holdsToken t w) m (\<lambda>_ w. I w \<and> holdsToken t w)"
  by (simp add: leadsTo_def keeps_def)

lemma token_released: "leadsTo (unpublished True s c) releaseTreeToken (\<lambda>_ w. unpublished True s c w \<and> holdsToken '''' w)"
  by (auto simp: leadsTo_def releaseTreeToken_def run_defs unpublished_def holdsToken_def count_list_append)

lemma publish_leads: "leadsTo (unpublished False True True) (publishOnce ce b) (\<lambda>_. runFinished)"
proof -
  have fire: "leadsTo (unpublished False True True) (putC (\<lambda>c. c\<lparr>ch_doneFired := True\<rparr>)) (\<lambda>_. unpublished True True True)"
    by (simp add: leadsTo_def putC_def unpublished_def)
  have others: "leadsTo (\<lambda>w. unpublished True True True w \<and> holdsToken '''' w) (interleave ce)
      (\<lambda>_ w. unpublished True True True w \<and> holdsToken '''' w)"
    by (rule keeps_leads[OF token_interleave pub.keeps_interleave]) simp
  have clear: "leadsTo (\<lambda>w. unpublished True True True w \<and> holdsToken '''' w) (putC (\<lambda>c. c\<lparr>ch_pendingPermission := False\<rparr>))
      (\<lambda>_ w. unpublished True True True w \<and> holdsToken '''' w)"
    by (simp add: leadsTo_def putC_def unpublished_def holdsToken_def)
  show ?thesis unfolding publishOnce_def
    by (rule leads_bind[OF fire leads_bind[OF token_released leads_bind[OF others leads_bind[OF clear publish_transaction]]]])
qed

lemma complete_leads: "leadsTo (unpublished False True True) (completeChild ce b) (\<lambda>_. runFinished)"
proof -
  have "run_state (completeChild ce b) w = run_state (publishOnce ce b) w" if "unpublished False True True w" for w
    using that by (simp add: completeChild_def getC_def unpublished_def)
  with publish_leads show ?thesis by (simp add: leadsTo_def)
qed

section \<open>Teardown\<close>

lemma runEnded_effects:
  assumes "nextLifecycle st sg = Inr (out, cont, eff)" and "sg_kind sg = signalRunEnded"
  shows "eff = [effectPublishCompletion afterRunTeardown]" and "ls_completion out = ls_completion st"
    and "ls_shutdown out = ls_shutdown st" and "ls_writer out = ls_writer st"
  using assms by (auto simp: next_accepts matrixOf_def nextRunEnded_iff)

lemma runEnded_signal:
  "leadsTo (unpublished False True True) (applySignal ce False signalRunEnded f)
     (\<lambda>r w. unpublished False True True w \<and> (\<forall>cont eff. r = Inr (cont, eff) \<longrightarrow> eff = [effectPublishCompletion afterRunTeardown]))"
  if f: "\<And>c. sg_kind (f (signalOf signalRunEnded c)) = signalRunEnded"
  unfolding leadsTo_def
proof (intro allI impI)
  fix w assume u: "unpublished False True True w"
  let ?l = "ch_lc (cw_child w)" let ?sg = "f (signalOf signalRunEnded (ls_class ?l))"
  note d = applySignal_def transactLifecycle_def dualLockedKind_def run_defs split_beta applyOwnedLifecycleEffects_def
    commitFields_def Let_def unpublished_def isShuttingDown_def isWriterClosing_def
  show "unpublished False True True (snd (run_state (applySignal ce False signalRunEnded f) w)) \<and>
      (\<forall>cont eff. fst (run_state (applySignal ce False signalRunEnded f) w) = Inr (cont, eff) \<longrightarrow> eff = [effectPublishCompletion afterRunTeardown])"
  proof (cases "nextLifecycle ?l ?sg")
    case (Inl e)
    then show ?thesis using u f by (simp add: d)
  next
    case (Inr x)
    obtain out cont eff where x: "x = (out, cont, eff)" by (cases x)
    note p = runEnded_effects[OF Inr[unfolded x] f]
    show ?thesis using u f Inr x p by (auto simp: d)
  qed
qed

lemma finish_leads: "leadsTo (unpublished False True True) (finishRunEnded ce) (\<lambda>_. runFinished)"
  unfolding finishRunEnded_def
proof (rule leads_bind)
  let ?Q = "\<lambda>r w. unpublished False True True w \<and> (\<forall>cont eff. r = Inr (cont, eff) \<longrightarrow> eff = [effectPublishCompletion afterRunTeardown])"
  show "leadsTo (unpublished False True True) (locked ce signalRunEnded (\<lambda>sg. sg\<lparr>sg_boundary := afterRunTeardown\<rparr>)) ?Q"
    unfolding locked_def
    by (rule leads_bind[OF leads_kept[OF pub.keeps_interleave] runEnded_signal]) (simp_all add: signalOf_def)
next
  fix r :: "(continuation_kind \<times> lifecycle_effect list) result"
  show "leadsTo (\<lambda>w. unpublished False True True w \<and> (\<forall>cont eff. r = Inr (cont, eff) \<longrightarrow> eff = [effectPublishCompletion afterRunTeardown]))
      (case r of Inl e \<Rightarrow> do { _ \<leftarrow> reportLifecycleError (Some e); completeChild ce afterRunTeardown }
        | Inr (_, eff) \<Rightarrow> executeDeferredLifecycleEffects ce eff) (\<lambda>_. runFinished)"
  proof (cases r)
    case (Inl e)
    then show ?thesis
      using leads_bind[OF leads_kept[OF pub.keeps_report] complete_leads] by (fastforce simp: leadsTo_def split_beta)
  next
    case (Inr x)
    obtain cont eff where x: "x = (cont, eff)" by (cases x)
    show ?thesis
    proof (cases "eff = [effectPublishCompletion afterRunTeardown]")
      case True
      then show ?thesis using complete_leads Inr x
        by (auto simp: leadsTo_def executeDeferredLifecycleEffects_def skip_def State_Monad.return_def split_beta)
    next
      case False
      then show ?thesis using Inr x by (simp add: leadsTo_def)
    qed
  qed
qed

text \<open>The writer stage is all that the two writer signals change.\<close>

lemma writer_signal:
  assumes "k = signalWriterCloseBegun \<or> k = signalWriterCloseFinished" and "\<And>c. sg_kind (f (signalOf k c)) = k"
  shows "\<exists>wr. snd (run_state (applySignal ce True k f) w) =
      w\<lparr>cw_child := (cw_child w)\<lparr>ch_lc := (ch_lc (cw_child w))\<lparr>ls_writer := wr\<rparr>\<rparr>, cw_tick := Suc (cw_tick w)\<rparr> \<and>
    (wr = ls_writer (ch_lc (cw_child w)) \<or> wr \<noteq> writerOpen) \<and>
    (isOk (fst (run_state (applySignal ce True k f) w)) \<longrightarrow> wr \<noteq> writerOpen)"
proof -
  let ?l = "ch_lc (cw_child w)" let ?sg = "f (signalOf k (ls_class ?l))"
  note d = applySignal_def transactLifecycle_def run_defs split_beta applyOwnedLifecycleEffects_def
  have same: "w\<lparr>cw_tick := t\<rparr> = w\<lparr>cw_child := (cw_child w)\<lparr>ch_lc := ?l\<lparr>ls_writer := ls_writer ?l\<rparr>\<rparr>, cw_tick := t\<rparr>" for t
    by simp
  show ?thesis
  proof (cases "nextLifecycle ?l ?sg")
    case (Inl e)
    then show ?thesis by (intro exI[of _ "ls_writer ?l"]) (simp add: d)
  next
    case (Inr x)
    obtain out cont eff where x: "x = (out, cont, eff)" by (cases x)
    have m: "matrixOf ?l ?sg = Inr (out, cont, eff)" using Inr x by (simp add: next_accepts)
    have k: "sg_kind ?sg = k" by (rule assms(2))
    have "(\<exists>wr. out = ?l\<lparr>ls_writer := wr\<rparr> \<and> wr \<noteq> writerOpen) \<and> eff = []"
      using assms(1)
    proof
      assume "k = signalWriterCloseBegun"
      with m k have o: "out = (if ls_writer ?l = writerOpen then ?l\<lparr>ls_writer := writerClosing\<rparr> else ?l)" and e: "eff = []"
        by (simp_all add: matrixOf_def nextWriterCloseBegun_iff)
      show ?thesis
      proof (cases "ls_writer ?l = writerOpen")
        case False
        with o have "out = ?l\<lparr>ls_writer := ls_writer ?l\<rparr>" by simp
        with False e show ?thesis by blast
      qed (use o e in auto)
    next
      assume "k = signalWriterCloseFinished"
      with m k show ?thesis by (auto simp: matrixOf_def nextWriterCloseFinished_iff)
    qed
    then obtain wr where wr: "eff = []" "out = ?l\<lparr>ls_writer := wr\<rparr>" "wr \<noteq> writerOpen" by blast
    then have "commitFields True out ?l = ?l\<lparr>ls_writer := wr\<rparr>" by (simp add: commitFields_def Let_def)
    with Inr x wr show ?thesis
    proof (cases "ce_Rejects ce (cw_tick w) (sg_kind ?sg)")
      case True
      with Inr x show ?thesis by (intro exI[of _ "ls_writer ?l"]) (simp add: d)
    next
      case False
      with Inr x wr \<open>commitFields True out ?l = ?l\<lparr>ls_writer := wr\<rparr>\<close> show ?thesis
        by (intro exI[of _ wr]) (simp add: d)
    qed
  qed
qed

lemma unpublished_writer:
  "unpublished fired s c w \<Longrightarrow> wr = ls_writer (ch_lc (cw_child w)) \<or> wr \<noteq> writerOpen \<Longrightarrow>
   unpublished fired s c (w\<lparr>cw_child := (cw_child w)\<lparr>ch_lc := (ch_lc (cw_child w))\<lparr>ls_writer := wr\<rparr>\<rparr>, cw_tick := t\<rparr>)"
  by (cases wr) (auto simp: unpublished_def isShuttingDown_def isWriterClosing_def)

lemma begun_leads:
  "leadsTo (unpublished False True False) (applySignal ce True signalWriterCloseBegun id)
     (\<lambda>r w. unpublished False True False w \<and> (isOk r \<longrightarrow> isWriterClosing (ch_lc (cw_child w))))"
  unfolding leadsTo_def
proof (intro allI impI)
  fix w assume u: "unpublished False True False w"
  obtain wr where "snd (run_state (applySignal ce True signalWriterCloseBegun id) w) =
      w\<lparr>cw_child := (cw_child w)\<lparr>ch_lc := (ch_lc (cw_child w))\<lparr>ls_writer := wr\<rparr>\<rparr>, cw_tick := Suc (cw_tick w)\<rparr>"
    and "wr = ls_writer (ch_lc (cw_child w)) \<or> wr \<noteq> writerOpen"
    and "isOk (fst (run_state (applySignal ce True signalWriterCloseBegun id) w)) \<longrightarrow> wr \<noteq> writerOpen"
    using writer_signal[of signalWriterCloseBegun id ce w] by (auto simp: signalOf_def)
  with u show "unpublished False True False (snd (run_state (applySignal ce True signalWriterCloseBegun id) w)) \<and>
      (isOk (fst (run_state (applySignal ce True signalWriterCloseBegun id) w)) \<longrightarrow>
         isWriterClosing (ch_lc (cw_child (snd (run_state (applySignal ce True signalWriterCloseBegun id) w)))))"
    using unpublished_writer[OF u, of wr] by (cases wr) (auto simp: isWriterClosing_def)
qed

lemma failSafe_leads:
  "leadsTo (\<lambda>w. unpublished False True False w \<and> (isOk r \<longrightarrow> isWriterClosing (ch_lc (cw_child w))))
     (whenFailed r writerCloseBegunFailSafe) (\<lambda>_. unpublished False True True)"
  by (cases r) (auto simp: leadsTo_def whenFailed_def writerCloseBegunFailSafe_def run_defs unpublished_def isShuttingDown_def
    isWriterClosing_def, (metis writer_stage.exhaust)+)

lemma keeps_finished: "keeps (unpublished False True True) (\<lambda>_. True)
    (applySignal ce True signalWriterCloseFinished (\<lambda>sg. sg\<lparr>sg_closeCalled := True\<rparr>))"
  unfolding keeps_def
proof (intro allI impI conjI TrueI)
  fix w assume u: "unpublished False True True w"
  obtain wr where "snd (run_state (applySignal ce True signalWriterCloseFinished (\<lambda>sg. sg\<lparr>sg_closeCalled := True\<rparr>)) w) =
      w\<lparr>cw_child := (cw_child w)\<lparr>ch_lc := (ch_lc (cw_child w))\<lparr>ls_writer := wr\<rparr>\<rparr>, cw_tick := Suc (cw_tick w)\<rparr>"
    and "wr = ls_writer (ch_lc (cw_child w)) \<or> wr \<noteq> writerOpen"
    using writer_signal[of signalWriterCloseFinished "\<lambda>sg. sg\<lparr>sg_closeCalled := True\<rparr>" ce w] by (auto simp: signalOf_def)
  then show "unpublished False True True (snd (run_state (applySignal ce True signalWriterCloseFinished (\<lambda>sg. sg\<lparr>sg_closeCalled := True\<rparr>)) w))"
    using unpublished_writer[OF u, of wr] by simp
qed

lemma keeps_finishedFailSafe: "keeps (unpublished False True True) (\<lambda>_. True) writerCloseFinishedFailSafe"
  by (simp add: keeps_def writerCloseFinishedFailSafe_def run_defs unpublished_def isShuttingDown_def isWriterClosing_def)

lemma close_leads: "leadsTo (unpublished False True False) (closeChildEventWriter ce) (\<lambda>_. unpublished False True True)"
proof -
  have rest: "keeps (unpublished False True True) (\<lambda>_. True) (do {
      _ \<leftarrow> interleave ce;
      c \<leftarrow> getC;
      finished \<leftarrow> (if \<not> isWriterClosed (ch_lc c) \<and> ch_hasWriter c then do {
                     _ \<leftarrow> act WriterSinkClosed;
                     r \<leftarrow> applySignal ce True signalWriterCloseFinished (\<lambda>sg. sg\<lparr>sg_closeCalled := True\<rparr>);
                     _ \<leftarrow> whenFailed r writerCloseFinishedFailSafe;
                     State_Monad.return (errorOf r) }
                   else State_Monad.return None);
      _ \<leftarrow> reportLifecycleError (errorOf begun);
      reportLifecycleError finished })" for begun :: "(continuation_kind \<times> lifecycle_effect list) result"
    unfolding whenFailed_def
    by (intro keeps_then keeps_rules pub.keeps_interleave pub.keeps_act pub.keeps_report keeps_finished keeps_finishedFailSafe) simp_all
  show ?thesis unfolding closeChildEventWriter_def
    by (rule leads_bind[OF leads_kept[OF pub.keeps_interleave] leads_bind[OF begun_leads leads_bind[OF failSafe_leads leads_kept[OF rest]]]]) simp
qed

section \<open>The whole run\<close>

lemma keeps_recorded: "keeps (unpublished False s c) (\<lambda>_. True) (recordWorkflowTermination ce sp panicked)"
  unfolding recordWorkflowTermination_def by (intro keeps_then keeps_rules pub.basic) simp_all

lemma keeps_warmFinish: "keeps (unpublished False s c) (\<lambda>_. True) (finishUnstartedWarmResume ce)"
proof -
  have look: "keeps (unpublished False s c) (\<lambda>_. True) (State (\<lambda>w. (g (cw_trace w), w)))" for g :: "child_action list \<Rightarrow> bool"
    by (simp add: keeps_def)
  show ?thesis unfolding finishUnstartedWarmResume_def
    by (intro keeps_then keeps_rules pub.basic pub.keeps_interleave look) simp_all
qed

lemma shutdown_leads: "leadsTo (unpublished False False False) (beginChildShutdown ce) (\<lambda>_. unpublished False True False)"
  using shutdown_requested by (simp add: leadsTo_def)

lemma signaled_finished: "leadsTo runFinished (act CapacitySignaled) (\<lambda>_. runFinished)"
  by (simp add: leadsTo_def act_def runFinished_def Let_def count_list_append)

lemma teardown_leads: "leadsTo (unpublished False False False) (teardownChild ce sp panicked) (\<lambda>_. runFinished)"
proof -
  have say: "keeps (unpublished False False False) (\<lambda>_. True)
      (if panicked then do { _ \<leftarrow> act ChildErrorEmitted; writeSentinel 1 ''error'' s 0 } else skip)" for s
    by (intro keeps_then keeps_rules pub.basic pub.keeps_sentinel) simp_all
  show ?thesis unfolding teardownChild_def
    by (rule leads_bind[OF leads_kept[OF keeps_getC] leads_bind[OF leads_kept[OF say] leads_bind[OF leads_kept[OF keeps_recorded]
        leads_bind[OF leads_kept[OF pub.keeps_interleave] leads_bind[OF shutdown_leads leads_bind[OF leads_kept[OF keeps_warmFinish]
        leads_bind[OF close_leads leads_bind[OF finish_leads signaled_finished]]]]]]]]) simp_all
qed

lemma run_leads: "leadsTo (unpublished False False False) (runChild ce sp fuel prompt) (\<lambda>returned w. returned \<longrightarrow> runFinished w)"
  unfolding runChild_def
proof (rule leads_bind[OF leads_kept])
  show "keeps (unpublished False False False) (\<lambda>_. True) (childLoop ce sp fuel 1 '''' prompt False)"
    by (rule keeps_mono[OF pub.keeps_loop]) simp_all
  have "leadsTo (unpublished False False False) (do { _ \<leftarrow> teardownChild ce sp panicked; State_Monad.return True })
      (\<lambda>returned w. returned \<longrightarrow> runFinished w)" for panicked
    by (rule leads_bind[OF teardown_leads leads_return]) simp
  then show "leadsTo (unpublished False False False) (if step = RunStuck then State_Monad.return False
      else do { _ \<leftarrow> teardownChild ce sp (step = RunPanicked); State_Monad.return True }) (\<lambda>returned w. returned \<longrightarrow> runFinished w)" for step
    by (simp add: leads_return)
qed

text \<open>The numbers of the attempts that a run launches, in order.\<close>

fun launches :: "child_action list \<Rightarrow> int list" where
  "launches [] = []"
| "launches (AttemptLaunched s p n # tr) = n # launches tr"
| "launches (_ # tr) = launches tr"

lemma launches_append: "launches (xs @ ys) = launches xs @ launches ys"
  by (induction xs rule: launches.induct) auto

lemma launches_ordinary: "ordinary a \<or> a = ContextCanceled \<Longrightarrow> launches [a] = []"
  by (cases a) auto

lemma launches_none: "\<forall>a\<in>set tr. ordinary a \<or> a = ContextCanceled \<Longrightarrow> launches tr = []"
  by (induction tr rule: launches.induct) auto

definition inRange :: "child_spec \<Rightarrow> child_world \<Rightarrow> bool" where
  "inRange sp w \<longleftrightarrow> (\<forall>n\<in>set (launches (cw_trace w)). 1 \<le> n \<and> n \<le> max 0 (sp_maxRetries sp) + 1)"

interpretation nums: run_invariant ce "inRange sp" "\<lambda>n. 1 \<le> n \<and> n \<le> max 0 (sp_maxRetries sp) + 1" "\<lambda>_ _. True" for ce sp
proof unfold_locales
  fix w assume n: "inRange sp w"
  obtain acts where "cw_trace (snd (run_state (beginChildShutdown ce) w)) = cw_trace w @ acts"
    and "\<forall>a\<in>set acts. ordinary a \<or> a = ContextCanceled" using beginChildShutdown_effect[of ce w] by auto
  with n launches_none show "inRange sp (snd (run_state (beginChildShutdown ce) w))"
    by (simp add: inRange_def launches_append)
qed (auto simp: inRange_def launches_append launches_ordinary parkTimeoutFailSafe_def run_defs)

lemma loop_numbers: "keeps (inRange sp) (\<lambda>_. True) (childLoop ce sp fuel 1 '''' prompt False)"
  by (rule keeps_mono[OF nums.keeps_loop]) auto

end
