(* ===== verification/Sv_Return.thy ===== *)
theory Sv_Return
  imports Sv_Publication
begin

text \<open>
  A direct run returns. The loop of \<^verbatim>\<open>runChild\<close> goes round again for a retry, of which there are at most
  \<^verbatim>\<open>MaxRetries\<close> for one prompt, or for a new prompt, so that it ends when prompts stop coming. \<open>promptless\<close> is the
  case of no prompt at all, where the number of rounds can be named.
\<close>

section \<open>Runs return\<close>

text \<open>Nobody sends a prompt, and the wait of a parked run ends with its context or its grace window.\<close>

definition promptless :: "child_env \<Rightarrow> bool" where
  "promptless ce \<longleftrightarrow> (\<forall>m. (\<forall>st\<in>set (ce_Others ce m). \<not> brings st) \<and> ce_Wake ce m \<noteq> WakePrompt)"

definition emptyQueue :: "child_env \<Rightarrow> child_world \<Rightarrow> bool" where
  "emptyQueue ce w \<longleftrightarrow> (promptless ce \<longrightarrow> ch_promptQueue (cw_child w) = [])"

interpretation idle: run_invariant ce "emptyQueue ce" "\<lambda>_. True"
  "\<lambda>c c'. promptless ce \<longrightarrow> ch_promptQueue c = [] \<longrightarrow> ch_promptQueue c' = []" for ce
proof unfold_locales
  fix w assume "emptyQueue ce w"
  then show "emptyQueue ce (snd (run_state (beginChildShutdown ce) w))"
    using beginChildShutdown_effect[of ce w] by (auto simp: emptyQueue_def)
next
  fix st m and c c' :: child_runtime
  assume "st \<in> set (ce_Others ce m)" "brings st"
  then show "promptless ce \<longrightarrow> ch_promptQueue c = [] \<longrightarrow> ch_promptQueue c' = []" by (auto simp: promptless_def)
qed (auto simp: emptyQueue_def parkTimeoutFailSafe_def run_defs)

lemma idle_getC: "promptless ce \<Longrightarrow> keeps (emptyQueue ce) (\<lambda>c. ch_promptQueue c = []) getC"
  by (simp add: keeps_def getC_def emptyQueue_def)

lemma idle_dequeue: "promptless ce \<Longrightarrow> keeps (emptyQueue ce) (\<lambda>p. p = None) (dequeuePrompt ce)"
  unfolding dequeuePrompt_def
  by (rule keeps_then[OF idle.keeps_interleave keeps_bind[OF idle_getC]]) (simp_all add: keeps_return)

lemma idle_wake: "promptless ce \<Longrightarrow> keeps (emptyQueue ce) (\<lambda>wake. wake \<noteq> WakePrompt) (learn (ce_Wake ce))"
  by (intro idle.keeps_learn) (simp add: promptless_def)

lemma idle_timeout:
  "keeps (emptyQueue ce) (\<lambda>x. x = Some None) (do {
     r \<leftarrow> applySignal ce False signalParkTimedOut id;
     _ \<leftarrow> whenFailed r parkTimeoutFailSafe;
     _ \<leftarrow> reportLifecycleError (errorOf r);
     State_Monad.return (Some None) })"
  by (intro keeps_then idle.basic idle.signal_any idle.keeps_failed idle.keeps_timeout) (simp_all add: idle.body_simps)

lemma idle_wait:
  assumes "promptless ce"
  shows "keeps (emptyQueue ce) (\<lambda>x. x = Some None) (waitForNextPrompt ce (Suc fuel))"
proof -
  have wake: "keeps (emptyQueue ce) R (case r of WakePrompt \<Rightarrow> m | WakeContext \<Rightarrow> m' | WakeTimeout \<Rightarrow> m'')"
    if "r \<noteq> WakePrompt" "keeps (emptyQueue ce) R m'" "keeps (emptyQueue ce) R m''" for R r and m m' m'' :: "'x child_m"
    using that by (cases r) auto
  show ?thesis unfolding waitForNextPrompt.simps
    by (rule keeps_bind[OF idle_dequeue[OF assms]], simp)
      (intro keeps_then[OF idle.keeps_interleave] keeps_bind[OF idle_getC[OF assms]] keeps_if keeps_return
        keeps_bind[OF idle_wake[OF assms]] wake idle_timeout; simp)
qed

text \<open>What an iteration with the attempt \<open>n\<close> ends in: the run is over, or the next attempt is a retry that is left.\<close>

definition retriesOnly :: "child_spec \<Rightarrow> int \<Rightarrow> run_step \<Rightarrow> bool" where
  "retriesOnly sp n step \<longleftrightarrow> step \<noteq> RunStuck \<and> (\<forall>n' s p. step = RunAgain n' s p \<longrightarrow> n' = n \<and> n \<le> sp_maxRetries sp)"

lemma retriesOnly_simps [simp]:
  "retriesOnly sp n RunReturned" "retriesOnly sp n RunPanicked" "\<not> retriesOnly sp n RunStuck"
  "retriesOnly sp n (RunAgain n' s p) \<longleftrightarrow> n' = n \<and> n \<le> sp_maxRetries sp"
  by (auto simp: retriesOnly_def)

lemma idle_afterPark: "keeps (emptyQueue ce) (retriesOnly sp n) (afterPark ce r None)"
  unfolding afterPark_def option.case
  by (intro keeps_then idle.basic idle.locked_any idle.keeps_failRun idle.keeps_idleEndIfEnded) (simp_all add: idle.body_simps)

lemma idle_park:
  "promptless ce \<Longrightarrow> list_all bodyEffect eff \<Longrightarrow> keeps (emptyQueue ce) (retriesOnly sp n) (parkRun ce (Suc fuel) r eff)"
  unfolding parkRun_def
  by (intro keeps_then idle.basic idle.keeps_deferred idle.keeps_present keeps_bind[OF idle.keeps_locked] idle.keeps_failRun
      keeps_bind[OF idle_wait]) (auto simp: idle.body_simps idle_afterPark)

lemma idle_probeTerminal: "promptless ce \<Longrightarrow> keeps (emptyQueue ce) (retriesOnly sp n) (probeTerminal ce r)"
proof -
  assume quiet: "promptless ce"
  have take: "keeps (emptyQueue ce) (\<lambda>p. p = None) (if e = None then dequeuePrompt ce else State_Monad.return None)" for e :: "ctx_end option"
    using quiet by (simp add: idle_dequeue keeps_return)
  show ?thesis unfolding probeTerminal_def
    by (intro keeps_then[OF idle.keeps_learn] keeps_bind[OF take] keeps_then[OF idle.keeps_resume] keeps_bind[OF idle.keeps_locked]
        keeps_sum keeps_prod keeps_then[OF idle.keeps_deferred] idle.keeps_failRun keeps_return)
      (auto simp: idle.body_simps)
qed

lemma idle_probeRetry:
  "promptless ce \<Longrightarrow> n \<le> sp_maxRetries sp \<Longrightarrow> keeps (emptyQueue ce) (retriesOnly sp n) (probeRetry ce r timer n s p)"
  unfolding probeRetry_def Let_def
  by (intro keeps_bind[OF idle_dequeue] keeps_then[OF idle.keeps_learn] keeps_if keeps_sum keeps_prod keeps_option
      keeps_bind[OF idle.keeps_locked] keeps_then[OF idle.keeps_idleEnd] idle.keeps_failRun keeps_return
      keeps_bind[where Q = "\<lambda>taken. taken = False"]; simp add: idle.body_simps)

lemma idle_judge:
  assumes "promptless ce" and "snd plan \<Longrightarrow> n \<le> sp_maxRetries sp"
  shows "keeps (emptyQueue ce) (retriesOnly sp n) (judgeOutcome ce sp (Suc fuel) r plan n s p)"
  unfolding judgeOutcome_def
proof (rule keeps_bind[OF idle.keeps_locked])
  fix res
  let ?f = "\<lambda>sg. sg\<lparr>sg_runKind := sp_kind sp, sg_exitCode := ao_exitCode r, sg_stopReason := ao_stopReason r,
    sg_sentinelReason := sentinelReason r, sg_sentinelRetryAfter := ao_retryAfter r, sg_resultSessionID := ao_sessionID r,
    sg_sessionIDConflict := (ao_stopReason r = ''session_id_conflict''),
    sg_retryable := IsRetryableFailure (ao_exitCode r) (ao_stopReason r), sg_retriesRemaining := snd plan\<rparr>"
  assume acc: "accepted signalAttemptOutcome ?f res"
  show "keeps (emptyQueue ce) (retriesOnly sp n) (case res of Inl e \<Rightarrow> failRun ce e (resultFault r (sentinelReason r))
      | Inr (cont, eff) \<Rightarrow> (case cont of contEnd \<Rightarrow> endRun ce r eff | contPark \<Rightarrow> parkRun ce (Suc fuel) r eff
          | contProbeTerminalPrompt \<Rightarrow> probeTerminal ce r
          | contProbeRetryPrompt \<Rightarrow> probeRetry ce r (fst plan) n s p
          | _ \<Rightarrow> State_Monad.return (RunAgain n s p)))"
  proof (cases res)
    case (Inr x)
    obtain cont eff where x: "x = (cont, eff)" by (cases x)
    have "list_all bodyEffect eff" and "cont \<in> {contEnd, contPark, contProbeTerminalPrompt, contProbeRetryPrompt}"
      and "cont = contProbeRetryPrompt \<longrightarrow> snd plan"
      using idle.outcome_continuations[of _ "?f (signalOf signalAttemptOutcome c)" for c] acc Inr x by (fastforce simp: accepted_def signalOf_def)+
    then show ?thesis using assms Inr x
      by (auto intro!: idle.keeps_endRun idle_park idle_probeTerminal idle_probeRetry)
  qed (simp add: idle.keeps_failRun)
qed (auto simp: idle.body_simps)

lemma idle_iteration:
  assumes "promptless ce"
  shows "keeps (emptyQueue ce) (retriesOnly sp n) (childIteration ce sp (Suc fuel) n s p b)"
  unfolding childIteration_def Let_def
  by (intro keeps_then idle.keeps_acquire keeps_rules idle.keeps_idleEndIfEnded idle.keeps_attempt keeps_bind[OF idle.keeps_plan]
      keeps_bind[OF idle.keeps_locked] idle.keeps_failRun idle.keeps_deferred idle_judge assms) (auto simp: idle.body_simps)

text \<open>Each round uses one unit of fuel, and a park in the last round one more.\<close>

lemma idle_loop:
  assumes "promptless ce" and "nat (sp_maxRetries sp + 1 - n) + 2 \<le> fuel"
  shows "keeps (emptyQueue ce) (\<lambda>step. step \<noteq> RunStuck) (childLoop ce sp fuel n s p b)"
  using assms(2)
proof (induction fuel arbitrary: n s p b)
  case (Suc fuel)
  then obtain f where f: "fuel = Suc f" by (cases fuel) auto
  show ?case unfolding childLoop.simps
  proof (rule keeps_bind)
    show "keeps (emptyQueue ce) (retriesOnly sp n) (childIteration ce sp fuel n s p b)"
      unfolding f by (rule idle_iteration[OF assms(1)])
    fix step assume "retriesOnly sp n step"
    then show "keeps (emptyQueue ce) (\<lambda>step. step \<noteq> RunStuck)
        (case step of RunAgain n' s' p' \<Rightarrow> childLoop ce sp fuel (n' + 1) s' p' True | _ \<Rightarrow> State_Monad.return step)"
      using Suc.prems by (cases step) (auto intro!: keeps_return Suc.IH)
  qed
qed simp

lemma promptless_returns:
  assumes "promptless ce" and "nat (sp_maxRetries sp) + 2 \<le> fuel" and "ch_promptQueue (cw_child w) = []"
  shows "fst (run_state (runChild ce sp fuel prompt) w)"
proof -
  have "fst (run_state (childLoop ce sp fuel 1 '''' prompt False) w) \<noteq> RunStuck"
    using idle_loop[OF assms(1), of sp 1 fuel "''''" prompt False] assms(2,3) by (simp add: keeps_def emptyQueue_def)
  then show ?thesis by (simp add: runChild_def State_Monad.return_def split_beta)
qed

section \<open>Attempts are launchedAre in the loop alone\<close>

definition launchedAre :: "int list \<Rightarrow> child_world \<Rightarrow> bool" where
  "launchedAre ns w \<longleftrightarrow> launches (cw_trace w) = ns"

lemma quiet_act: "launches [a] = [] \<Longrightarrow> keeps (launchedAre ns) (\<lambda>_. True) (act a)"
  by (simp add: keeps_def act_def launchedAre_def launches_append)

lemma quiet_learn: "keeps (launchedAre ns) (\<lambda>_. True) (learn g)"
  by (simp add: keeps_def run_defs launchedAre_def)

lemma quiet_putC: "keeps (launchedAre ns) (\<lambda>_. True) (putC f)"
  by (simp add: keeps_def putC_def launchedAre_def)

lemma quiet_look: "keeps (launchedAre ns) (\<lambda>_. True) (State (\<lambda>w. (g (cw_trace w), w)))"
  by (simp add: keeps_def)

lemma quiet_report: "keeps (launchedAre ns) (\<lambda>_. True) (reportLifecycleError e)"
  unfolding reportLifecycleError_def by (intro keeps_rules quiet_act) simp_all

lemma quiet_settle: "keeps (launchedAre ns) (\<lambda>_. True) settleTurnLocked"
  unfolding settleTurnLocked_def by (intro keeps_then keeps_getC keeps_eachOf quiet_act quiet_putC) simp_all

lemma quiet_owned: "keeps (launchedAre ns) (\<lambda>_. True) (ownedEffect e)"
  by (cases e) (auto intro!: quiet_putC quiet_settle keeps_skip)

lemma quiet_signal: "keeps (launchedAre ns) (\<lambda>_. True) (applySignal ce dual k f)"
  unfolding applySignal_def transactLifecycle_def applyOwnedLifecycleEffects_def putLc_def
  by (intro keeps_then keeps_rules quiet_learn quiet_putC keeps_eachOf quiet_owned) simp_all

lemma quiet_shutdown: "keeps (launchedAre ns) (\<lambda>_. True) (beginChildShutdown ce)"
  unfolding keeps_def
proof (intro allI impI conjI TrueI)
  fix w assume "launchedAre ns w"
  obtain acts where "cw_trace (snd (run_state (beginChildShutdown ce) w)) = cw_trace w @ acts"
    and "\<forall>a\<in>set acts. ordinary a \<or> a = ContextCanceled" using beginChildShutdown_effect[of ce w] by auto
  with \<open>launchedAre ns w\<close> launches_none show "launchedAre ns (snd (run_state (beginChildShutdown ce) w))"
    by (simp add: launchedAre_def launches_append)
qed

lemma quiet_warm: "keeps (launchedAre ns) (\<lambda>_. True) (admitWarmResume p path)"
  by (simp add: keeps_def admitWarmResume_def launchedAre_def)

lemmas quiet_basic = keeps_rules quiet_act quiet_learn quiet_putC quiet_look quiet_report quiet_signal quiet_shutdown quiet_warm

lemma quiet_other: "keeps (launchedAre ns) (\<lambda>_. True) (otherStep ce st)"
  by (cases st) (auto intro!: keeps_then quiet_basic)

lemma quiet_interleave: "keeps (launchedAre ns) (\<lambda>_. True) (interleave ce)"
  unfolding interleave_def by (intro keeps_then quiet_learn keeps_eachOf quiet_other) simp

lemma quiet_failed: "keeps (launchedAre ns) (\<lambda>_. True) m \<Longrightarrow> keeps (launchedAre ns) (\<lambda>_. True) (whenFailed r m)"
  unfolding whenFailed_def by (intro keeps_rules) simp_all

lemma quiet_deferred:
  assumes "\<And>b. keeps (launchedAre ns) (\<lambda>_. True) (publish b)"
  shows "keeps (launchedAre ns) (\<lambda>_. True) (eachOf (deferredEffect publish) eff)"
proof (rule keeps_eachOf)
  show "keeps (launchedAre ns) (\<lambda>_. True) (deferredEffect publish e)" for e
    by (cases e) (auto intro!: keeps_then quiet_basic assms simp: writeSentinel_def releaseTreeToken_def)
qed simp

lemma quiet_complete: "keeps (launchedAre ns) (\<lambda>_. True) (completeChild ce b)"
  unfolding completeChild_def publishOnce_def releaseTreeToken_def completePublicationFailSafe_def putLc_def
  by (intro keeps_then quiet_basic quiet_interleave quiet_failed quiet_settle quiet_deferred; simp)

lemma quiet_sentinel: "keeps (launchedAre ns) (\<lambda>_. True) (writeSentinel code reason s r)"
  unfolding writeSentinel_def by (intro keeps_then quiet_basic) simp_all

lemma quiet_recorded: "keeps (launchedAre ns) (\<lambda>_. True) (recordWorkflowTermination ce sp panicked)"
  unfolding recordWorkflowTermination_def by (intro keeps_then quiet_basic) simp_all

lemma quiet_warmFinish: "keeps (launchedAre ns) (\<lambda>_. True) (finishUnstartedWarmResume ce)"
  unfolding finishUnstartedWarmResume_def by (intro keeps_then quiet_basic quiet_interleave) simp_all

lemma quiet_close: "keeps (launchedAre ns) (\<lambda>_. True) (closeChildEventWriter ce)"
  unfolding closeChildEventWriter_def writerCloseBegunFailSafe_def writerCloseFinishedFailSafe_def putLc_def
  by (intro keeps_then quiet_basic quiet_interleave quiet_failed; simp)

lemma quiet_finish: "keeps (launchedAre ns) (\<lambda>_. True) (finishRunEnded ce)"
  unfolding finishRunEnded_def locked_def executeDeferredLifecycleEffects_def
  by (intro keeps_then quiet_basic quiet_interleave quiet_complete quiet_deferred; simp)

lemma quiet_teardown: "keeps (launchedAre ns) (\<lambda>_. True) (teardownChild ce sp panicked)"
  unfolding teardownChild_def
  by (intro keeps_then quiet_recorded quiet_warmFinish quiet_close quiet_finish quiet_sentinel quiet_basic quiet_interleave) simp_all

lemma keepsD: "keeps I R m \<Longrightarrow> I w \<Longrightarrow> I (snd (run_state m w))"
  by (simp add: keeps_def)

lemma teardown_numbers: "keeps (inRange sp) (\<lambda>_. True) (teardownChild ce sp panicked)"
proof -
  have "launches (cw_trace (snd (run_state (teardownChild ce sp panicked) w))) = launches (cw_trace w)" for w
    by (rule keepsD[OF quiet_teardown, unfolded launchedAre_def, OF refl])
  then show ?thesis by (simp add: keeps_def inRange_def)
qed

lemma run_numbers: "keeps (inRange sp) (\<lambda>_. True) (runChild ce sp fuel prompt)"
  unfolding runChild_def by (intro keeps_then[OF loop_numbers] keeps_if keeps_then[OF teardown_numbers] keeps_return) simp_all

section \<open>The run\<close>

text \<open>
  C14: a direct run always comes to its end. Whatever other goroutines do between its critical sections, whatever the attempts
  return or whether they panic, and whichever transitions are rejected: when \<^verbatim>\<open>runChild\<close> returns, the completion is
  published with no attempt, waiter, token or probe left, the context was canceled once and done was closed once, and every
  attempt was launchedAre with a number from 1 to the number of retries plus one. If no prompt comes in, it does return.
\<close>

theorem direct_run_publishes:
  assumes "run_state (runChild ce sp fuel prompt) (spawnedWorld path token) = (returned, w)"
  shows "(returned \<longrightarrow> runFinished w) \<and>
    (\<forall>n\<in>set (launches (cw_trace w)). 1 \<le> n \<and> n \<le> max 0 (sp_maxRetries sp) + 1) \<and>
    (promptless ce \<longrightarrow> nat (sp_maxRetries sp) + 2 \<le> fuel \<longrightarrow> returned)"
proof -
  have start: "unpublished False False False (spawnedWorld path token)" "inRange sp (spawnedWorld path token)"
      "ch_promptQueue (cw_child (spawnedWorld path token)) = []"
    by (simp_all add: unpublished_def inRange_def spawnedWorld_def spawnedChild_def freshLifecycle_def isShuttingDown_def)
  have "returned \<longrightarrow> runFinished w"
    using run_leads[unfolded leadsTo_def, rule_format, OF start(1), of ce sp fuel prompt] by (simp add: assms)
  moreover have "inRange sp w" using keepsD[OF run_numbers start(2), of ce fuel prompt] by (simp add: assms)
  moreover have "promptless ce \<longrightarrow> nat (sp_maxRetries sp) + 2 \<le> fuel \<longrightarrow> returned"
    using promptless_returns[OF _ _ start(3), of ce sp fuel prompt] by (simp add: assms)
  ultimately show ?thesis by (simp add: inRange_def)
qed

text \<open>
  A run with one retry: the first attempt fails to start, the second succeeds and parks; another goroutine asks for the shutdown
  while the attempt starts, and the timeout of the park is rejected.
\<close>

definition exampleEnv :: child_env where
  "exampleEnv =
     \<lparr>ce_Rejects = (\<lambda>n k. k = signalParkTimedOut), ce_Others = (\<lambda>n. if n = 12 then [OtherWait 7, OtherShutdown] else []),
      ce_Err = (\<lambda>n. None), ce_Remaining = (\<lambda>n. None), ce_Session = (\<lambda>n s. if n < 10 then Some (Inl False) else Some (Inr ''s-1'')),
      ce_Turn = (\<lambda>n s. Some \<lparr>ao_exitCode = 0, ao_sessionID = s, ao_stopReason = ''end_turn'', ao_retryAfter = 0\<rparr>),
      ce_Acquire = (\<lambda>n. Inr ''tok-2''), ce_Slot = (\<lambda>n. Inr ()), ce_Wake = (\<lambda>n. WakeTimeout), ce_Backoff = (\<lambda>n. None),
      ce_Done = (\<lambda>n. ctxCanceled), ce_DirectAnswer = (\<lambda>n. False)\<rparr>"

definition exampleSpec :: child_spec where
  "exampleSpec = \<lparr>sp_kind = runKindOrdinaryDirect, sp_maxRetries = 1, sp_recordsTermination = True\<rparr>"

lemma example_numbers: "launches (runTrace exampleEnv exampleSpec 3 ''go'' (spawnedWorld ''/s'' ''tok-1'')) = [1, 2]"
  by code_simp

lemma example_quiet: "promptless exampleEnv"
  by (simp add: promptless_def exampleEnv_def)

theorem direct_run_publishes_witness:
  "runFinished (snd (run_state (runChild exampleEnv exampleSpec 3 ''go'') (spawnedWorld ''/s'' ''tok-1''))) \<and>
   launches (runTrace exampleEnv exampleSpec 3 ''go'' (spawnedWorld ''/s'' ''tok-1'')) = [1, 2]"
  using direct_run_publishes[OF surjective_pairing, of exampleEnv exampleSpec 3 "''go''" "''/s''" "''tok-1''"] example_quiet example_numbers
  by (simp add: exampleSpec_def)

text \<open>
  A run whose retry cannot get a tree token back although its context is live (a broken budget file, or a supervisor that is shutting
  down): the outcome of the first attempt was left to the retry, so that the run is published without a sentinel.
\<close>

definition tokenlessEnv :: child_env where
  "tokenlessEnv = exampleEnv\<lparr>ce_Others := (\<lambda>n. []), ce_Acquire := (\<lambda>n. Inl (Err ''budget file is corrupt''))\<rparr>"

lemma retry_without_sentinel:
  "sentinelExists ''/s'' (runTrace tokenlessEnv exampleSpec 3 ''go'' (spawnedWorld ''/s'' ''tok-1'')) = False \<and>
   fst (run_state (runChild tokenlessEnv exampleSpec 3 ''go'') (spawnedWorld ''/s'' ''tok-1''))"
  by code_simp

end
