(* ===== verification/Wc_Model.thy ===== *)
theory Wc_Model
  imports Log_Lines
begin

text \<open>
  The record of one workflow controller and its events (\<^verbatim>\<open>workflowcontroller/model.go\<close>,
  \<^verbatim>\<open>lease.go\<close>): desired state, leader lease, poll cursors, diagnostics, and the reducer of the
  controller's event log. The maps of the record are association lists; a nil and an empty map are
  not told apart, and no entry of \<^verbatim>\<open>PollCursors\<close> is nil, because the reducer stores copies only.
\<close>

section \<open>Data\<close>

definition SchemaVersion :: int where
  "SchemaVersion = 1"

datatype desired_state = DesiredEnabled | DesiredDisabled | DesiredOther string

datatype controller_event_kind =
    EventCreated | EventEnabled | EventDisabled
  | EventLeaderAcquired | EventLeaderRenewed | EventLeaderReleased | EventLeaderExpired
  | EventCapacityBlocked | EventCapacityCleared
  | EventPollCommitted | EventPollScheduled | EventPollCleared
  | EventDiagRecorded | EventDiagCleared
  | EventUnknown string

record leader_lease =
  ll_LeaseID :: string
  ll_OwnerID :: string
  ll_OwnerEpoch :: int
  ll_AcquiredAt :: gotime
  ll_RenewedAt :: gotime
  ll_ExpiresAt :: gotime

record poll_cursor =
  pc_WorkflowID :: string
  pc_NodeID :: string
  pc_ActivationID :: string
  pc_GateID :: string
  pc_AdapterID :: string
  pc_SubjectHash :: string
  pc_LastPollAt :: gotime
  pc_NextPollAt :: gotime
  pc_RetryCount :: int
  pc_PollCount :: int
  pc_PollID :: string

record controller_record =
  ct_SchemaVersion :: int
  ct_ControllerID :: string
  ct_DesiredState :: desired_state
  ct_MaxInflight :: int
  ct_Revision :: int
  ct_OwnerEpoch :: int
  ct_Leader :: "leader_lease option"
  ct_PollCursors :: "(string \<times> poll_cursor) list"
  ct_Diagnostics :: "(string \<times> string) list"
  ct_CreatedAt :: gotime
  ct_UpdatedAt :: gotime
  ct_DisabledReason :: string
  ct_CapacityBlocked :: string

record controller_event =
  cv_Kind :: controller_event_kind
  cv_Seq :: int
  cv_Time :: gotime
  cv_MaxInflight :: int
  cv_Reason :: string
  cv_LeaseID :: string
  cv_OwnerID :: string
  cv_OwnerEpoch :: int
  cv_ExpiresAt :: gotime
  cv_BlockedReason :: string
  cv_BlockedDetail :: string
  cv_Cursor :: "poll_cursor option"
  cv_CursorKey :: string
  cv_DiagKind :: string
  cv_DiagKey :: string
  cv_DiagDetail :: string

text \<open>An event with the kind, sequence number and time given and every other field zero.\<close>

definition controllerEvent :: "controller_event_kind \<Rightarrow> int \<Rightarrow> gotime \<Rightarrow> controller_event" where
  "controllerEvent kind seq now =
     \<lparr>cv_Kind = kind, cv_Seq = seq, cv_Time = now, cv_MaxInflight = 0, cv_Reason = '''', cv_LeaseID = '''',
      cv_OwnerID = '''', cv_OwnerEpoch = 0, cv_ExpiresAt = 0, cv_BlockedReason = '''', cv_BlockedDetail = '''',
      cv_Cursor = None, cv_CursorKey = '''', cv_DiagKind = '''', cv_DiagKey = '''', cv_DiagDetail = ''''\<rparr>"

definition zeroController :: controller_record where
  "zeroController =
     \<lparr>ct_SchemaVersion = 0, ct_ControllerID = '''', ct_DesiredState = DesiredOther '''', ct_MaxInflight = 0,
      ct_Revision = 0, ct_OwnerEpoch = 0, ct_Leader = None, ct_PollCursors = [], ct_Diagnostics = [],
      ct_CreatedAt = 0, ct_UpdatedAt = 0, ct_DisabledReason = '''', ct_CapacityBlocked = ''''\<rparr>"

section \<open>Leases (lease.go)\<close>

definition LeaseTTL :: int where
  "LeaseTTL = 30 * 1000000000"

definition RenewInterval :: int where
  "RenewInterval = 10 * 1000000000"

definition leaderRecoveryReason :: string where
  "leaderRecoveryReason = ''recovery''"

definition leaderTimeoutReason :: string where
  "leaderTimeoutReason = ''timeout''"

definition leaseExpired :: "gotime \<Rightarrow> leader_lease option \<Rightarrow> bool" where
  "leaseExpired now lease = (case lease of None \<Rightarrow> False | Some l \<Rightarrow> After now (ll_ExpiresAt l))"

definition checkLeaseCAS :: "controller_record \<Rightarrow> string \<Rightarrow> int \<Rightarrow> unit result" where
  "checkLeaseCAS rec leaseID ownerEpoch =
     (case ct_Leader rec of
        None \<Rightarrow> Inl (ErrConflict [])
      | Some l \<Rightarrow>
          require (ll_LeaseID l = leaseID \<and> ll_OwnerEpoch l = ownerEpoch \<and> ct_OwnerEpoch rec = ownerEpoch)
            (ErrConflict []))"

section \<open>Identifiers\<close>

definition controllerIDChar :: "char \<Rightarrow> bool" where
  "controllerIDChar c \<longleftrightarrow>
     (let n = (of_char c :: nat) in
      65 \<le> n \<and> n \<le> 90 \<or> 97 \<le> n \<and> n \<le> 122 \<or> 48 \<le> n \<and> n \<le> 57 \<or> c = CHR ''.'' \<or> c = CHR ''_'' \<or> c = CHR ''-'')"

text \<open>A byte outside ASCII belongs to a rune that the loop of the source refuses.\<close>

definition validateControllerID :: "string \<Rightarrow> unit result" where
  "validateControllerID i =
     (if i = '''' then Inl (ErrInvalidController [''controller id must be non-empty''])
      else if hd i = CHR ''.'' then Inl (ErrInvalidController [''controller id must not start with a dot'', i])
      else require (list_all controllerIDChar i) (ErrInvalidController [''controller id contains invalid character'', i]))"

definition diagnosticKey :: "string \<Rightarrow> string \<Rightarrow> string" where
  "diagnosticKey kind name = kind @ ''/'' @ name"

section \<open>The reducer\<close>

definition storeCursor :: "controller_event \<Rightarrow> controller_record \<Rightarrow> controller_record" where
  "storeCursor e rec =
     (case cv_Cursor e of
        None \<Rightarrow> rec
      | Some c \<Rightarrow> if cv_CursorKey e = '''' then rec
                  else rec\<lparr>ct_PollCursors := mapPut (cv_CursorKey e) c (ct_PollCursors rec)\<rparr>)"

definition applyControllerEvent :: "controller_record \<Rightarrow> controller_event \<Rightarrow> controller_record result" where
  "applyControllerEvent rec0 e =
     (let rec = rec0\<lparr>ct_Revision := cv_Seq e, ct_UpdatedAt := cv_Time e\<rparr> in
      case cv_Kind e of
        EventCreated \<Rightarrow>
          Inr (rec\<lparr>ct_DesiredState := DesiredDisabled, ct_MaxInflight := cv_MaxInflight e, ct_DisabledReason := '''',
                   ct_CapacityBlocked := '''', ct_Leader := None, ct_OwnerEpoch := 0\<rparr>)
      | EventEnabled \<Rightarrow>
          Inr (rec\<lparr>ct_DesiredState := DesiredEnabled, ct_DisabledReason := '''', ct_CapacityBlocked := ''''\<rparr>)
      | EventDisabled \<Rightarrow>
          Inr (rec\<lparr>ct_DesiredState := DesiredDisabled, ct_DisabledReason := cv_Reason e, ct_CapacityBlocked := ''''\<rparr>)
      | EventLeaderAcquired \<Rightarrow>
          Inr (rec\<lparr>ct_OwnerEpoch := cv_OwnerEpoch e,
                   ct_Leader := Some \<lparr>ll_LeaseID = cv_LeaseID e, ll_OwnerID = cv_OwnerID e,
                     ll_OwnerEpoch = cv_OwnerEpoch e, ll_AcquiredAt = cv_Time e, ll_RenewedAt = cv_Time e,
                     ll_ExpiresAt = cv_ExpiresAt e\<rparr>\<rparr>)
      | EventLeaderRenewed \<Rightarrow>
          Inr (rec\<lparr>ct_Leader := map_option (\<lambda>l. l\<lparr>ll_RenewedAt := cv_Time e, ll_ExpiresAt := cv_ExpiresAt e\<rparr>)
                     (ct_Leader rec)\<rparr>)
      | EventLeaderReleased \<Rightarrow> Inr (rec\<lparr>ct_Leader := None\<rparr>)
      | EventLeaderExpired \<Rightarrow> Inr (rec\<lparr>ct_Leader := None\<rparr>)
      | EventCapacityBlocked \<Rightarrow> Inr (rec\<lparr>ct_CapacityBlocked := cv_BlockedReason e\<rparr>)
      | EventCapacityCleared \<Rightarrow> Inr (rec\<lparr>ct_CapacityBlocked := ''''\<rparr>)
      | EventPollCommitted \<Rightarrow> Inr (storeCursor e rec)
      | EventPollScheduled \<Rightarrow> Inr (storeCursor e rec)
      | EventPollCleared \<Rightarrow> Inr (rec\<lparr>ct_PollCursors := mapDel (cv_CursorKey e) (ct_PollCursors rec)\<rparr>)
      | EventDiagRecorded \<Rightarrow>
          Inr (rec\<lparr>ct_Diagnostics := mapPut (diagnosticKey (cv_DiagKind e) (cv_DiagKey e)) (cv_DiagDetail e) (ct_Diagnostics rec)\<rparr>)
      | EventDiagCleared \<Rightarrow>
          Inr (rec\<lparr>ct_Diagnostics := mapDel (diagnosticKey (cv_DiagKind e) (cv_DiagKey e)) (ct_Diagnostics rec)\<rparr>)
      | EventUnknown k \<Rightarrow> Inl (Errorf ''unknown controller event kind %q'' [k]))"

end
