(* ===== verification/Wc_Store.thy ===== *)
theory Wc_Store
  imports Wc_Model "HOL-Library.List_Lexorder" "HOL-Library.Char_ord"
begin

text \<open>
  The store of controller records (\<^verbatim>\<open>workflowcontroller/store.go\<close>): per controller a snapshot file, the active event
  log and the previous generation of it. Every operation runs under the controller's file lock, so
  operations on one controller are sequential; file-system errors are not modelled, and a record
  survives its JSON round trip. A missing log file is an empty one: a read, an append and the
  rotation test treat the two alike. The Markdown projection is derived output and left out.
\<close>

section \<open>State\<close>

record ctl_files =
  cf_Snapshot :: "controller_record option"
  cf_Prev :: string
  cf_Log :: string

text \<open>
  The controllers root (one directory per controller id) and the wake channels: a subscriber is its
  number and whether a wake is buffered.
\<close>

record controller_store =
  cs_Dirs :: "(string \<times> ctl_files) list"
  cs_Subscribers :: "(nat \<times> bool) list"

record ctl_env =
  cn_Encode :: "controller_event \<Rightarrow> raw"
  cn_Decode :: "raw \<Rightarrow> controller_event option"
  cn_CompactBytes :: nat

definition defaultCompactLogBytes :: nat where
  "defaultCompactLogBytes = 64 * 1024"

definition compactThreshold :: "ctl_env \<Rightarrow> nat" where
  "compactThreshold env = (if cn_CompactBytes env = 0 then defaultCompactLogBytes else cn_CompactBytes env)"

definition noFiles :: ctl_files where
  "noFiles = \<lparr>cf_Snapshot = None, cf_Prev = '''', cf_Log = ''''\<rparr>"

definition dirOf :: "string \<Rightarrow> controller_store \<Rightarrow> ctl_files" where
  "dirOf cid st = (case map_of (cs_Dirs st) cid of None \<Rightarrow> noFiles | Some fs \<Rightarrow> fs)"

definition putDir :: "string \<Rightarrow> ctl_files \<Rightarrow> controller_store \<Rightarrow> controller_store" where
  "putDir cid fs st = st\<lparr>cs_Dirs := mapPut cid fs (cs_Dirs st)\<rparr>"

definition notifyChange :: "controller_store \<Rightarrow> controller_store" where
  "notifyChange st = st\<lparr>cs_Subscribers := map (\<lambda>(c, _). (c, True)) (cs_Subscribers st)\<rparr>"

definition SubscribeStore :: "controller_store \<Rightarrow> nat \<times> controller_store" where
  "SubscribeStore st =
     (let ch = Suc (Max (insert 0 (set (map fst (cs_Subscribers st)))))
      in (ch, st\<lparr>cs_Subscribers := cs_Subscribers st @ [(ch, False)]\<rparr>))"

definition cancelStoreSubscription :: "nat \<Rightarrow> controller_store \<Rightarrow> controller_store" where
  "cancelStoreSubscription ch st =
     (case findIdx (\<lambda>(c, _). c = ch) (cs_Subscribers st) of
        None \<Rightarrow> st
      | Some i \<Rightarrow> st\<lparr>cs_Subscribers := take i (cs_Subscribers st) @ drop (Suc i) (cs_Subscribers st)\<rparr>)"

section \<open>Replay\<close>

text \<open>The step on one event: skip what the record already holds, refuse a gap, apply the rest.\<close>

definition replayStep :: "string \<Rightarrow> controller_record \<times> nat \<times> nat \<Rightarrow> controller_event \<Rightarrow> (controller_record \<times> nat \<times> nat) result" where
  "replayStep cid acc e =
     (case acc of (rec, replayed, i) \<Rightarrow>
      if cv_Seq e > ct_Revision rec then
        if cv_Seq e \<noteq> ct_Revision rec + 1
        then Inl (ErrLogHole [cid, intString (ct_Revision rec + 1), intString (cv_Seq e - 1), intString (cv_Seq e)])
        else bindE (wrapE ''controller %s event %d: '' [cid, intString (cv_Seq e)] (applyControllerEvent rec e))
               (\<lambda>rec'. Inr (rec', Suc replayed, Suc i))
      else Inr (rec, replayed, Suc i))"

fun replayControllerLines ::
  "(raw \<Rightarrow> controller_event option) \<Rightarrow> string \<Rightarrow> string \<Rightarrow> (nat \<times> nat) list \<Rightarrow> controller_record \<times> nat \<times> nat \<Rightarrow> nat \<Rightarrow>
   ((controller_record \<times> nat \<times> nat) \<times> nat option) result" where
  "replayControllerLines dec cid data [] acc good = Inr (acc, None)"
| "replayControllerLines dec cid data (sp # sps) acc good =
     (case dec (lineData data sp) of
        Some e \<Rightarrow> bindE (replayStep cid acc e) (\<lambda>acc'. replayControllerLines dec cid data sps acc' (snd sp))
      | None \<Rightarrow>
          if sps = [] then Inr (acc, Some good)
          else Inl (Errorf ''controller %s event log corrupted at line %d'' [cid, natString (Suc (snd (snd acc)))]))"

text \<open>The advanced record, the number of events replayed and the file after a truncation.\<close>

definition replayController ::
  "ctl_env \<Rightarrow> string \<Rightarrow> controller_record \<Rightarrow> string \<Rightarrow> (controller_record \<times> nat \<times> string) result" where
  "replayController env cid rec data =
     (if isBlank data then Inr (rec, 0, data)
      else bindE (replayControllerLines (cn_Decode env) cid data (SplitLines data) (rec, 0, 0) 0)
        (\<lambda>((rec', replayed, _), cut).
           case cut of None \<Rightarrow> Inr (rec', replayed, data) | Some good \<Rightarrow> Inr (rec', replayed, take good data)))"

text \<open>\<^verbatim>\<open>loadLocked\<close> on an existing snapshot: the previous generation, then the active log.\<close>

definition loadController ::
  "ctl_env \<Rightarrow> string \<Rightarrow> ctl_files \<Rightarrow> (controller_record \<times> nat) result \<times> ctl_files" where
  "loadController env cid fs =
     (case cf_Snapshot fs of
        None \<Rightarrow> (Inr (zeroController, 0), fs)
      | Some rec \<Rightarrow>
          (case replayController env cid rec (cf_Prev fs) of
             Inl e \<Rightarrow> (Inl e, fs)
           | Inr (rec1, n, prev) \<Rightarrow>
               (case replayController env cid rec1 (cf_Log fs) of
                  Inl e \<Rightarrow> (Inl e, fs\<lparr>cf_Prev := prev\<rparr>)
                | Inr (rec2, m, log) \<Rightarrow> (Inr (rec2, n + m), fs\<lparr>cf_Prev := prev, cf_Log := log\<rparr>))))"

definition loadForCommand :: "ctl_env \<Rightarrow> string \<Rightarrow> ctl_files \<Rightarrow> controller_record result \<times> ctl_files" where
  "loadForCommand env cid fs =
     (case validateControllerID cid of
        Inl e \<Rightarrow> (Inl e, fs)
      | Inr _ \<Rightarrow>
          (case cf_Snapshot fs of
             None \<Rightarrow> (Inl (ErrNotFound [cid]), fs)
           | Some _ \<Rightarrow>
               (case loadController env cid fs of
                  (Inl e, fs') \<Rightarrow> (Inl e, fs')
                | (Inr (rec, _), fs') \<Rightarrow> (Inr rec, fs'))))"

section \<open>Commits\<close>

definition appendControllerEvents :: "ctl_env \<Rightarrow> controller_event list \<Rightarrow> ctl_files \<Rightarrow> ctl_files" where
  "appendControllerEvents env evs fs = fs\<lparr>cf_Log := cf_Log fs @ encLog (cn_Encode env) evs\<rparr>"

definition compactLog :: "ctl_env \<Rightarrow> ctl_files \<Rightarrow> ctl_files" where
  "compactLog env fs =
     (if length (cf_Log fs) \<le> compactThreshold env then fs
      else fs\<lparr>cf_Prev := cf_Log fs, cf_Log := ''''\<rparr>)"

definition writeController :: "ctl_env \<Rightarrow> controller_record \<Rightarrow> ctl_files \<Rightarrow> ctl_files" where
  "writeController env rec fs = compactLog env (fs\<lparr>cf_Snapshot := Some rec\<rparr>)"

definition commitController ::
  "ctl_env \<Rightarrow> controller_record \<Rightarrow> controller_event list \<Rightarrow> ctl_files \<Rightarrow> controller_record result \<times> ctl_files" where
  "commitController env rec evs fs =
     (let fs1 = (if evs = [] then fs else appendControllerEvents env evs fs) in
      case foldE applyControllerEvent rec evs of
        Inl e \<Rightarrow> (Inl e, fs1)
      | Inr rec' \<Rightarrow> (Inr rec', writeController env rec' fs1))"

text \<open>
  The shape of every command: validate the id, load under the lock, decide on the record, and either
  answer at once (\<open>Inl\<close>) or commit events and answer from the record after them. A commit wakes
  the subscribers.
\<close>

type_synonym 'a ctl_plan = "controller_record \<Rightarrow> 'a result + controller_event list \<times> (controller_record \<Rightarrow> 'a)"

definition runController ::
  "ctl_env \<Rightarrow> string \<Rightarrow> 'a ctl_plan \<Rightarrow> controller_store \<Rightarrow> 'a result \<times> controller_store" where
  "runController env cid plan st =
     (case loadForCommand env cid (dirOf cid st) of
        (Inl e, fs) \<Rightarrow> (Inl e, if map_of (cs_Dirs st) cid = None then st else putDir cid fs st)
      | (Inr rec, fs) \<Rightarrow>
          (case plan rec of
             Inl r \<Rightarrow> (r, putDir cid fs st)
           | Inr (evs, answer) \<Rightarrow>
               (case commitController env rec evs fs of
                  (Inl e, fs') \<Rightarrow> (Inl e, notifyChange (putDir cid fs' st))
                | (Inr rec', fs') \<Rightarrow> (Inr (answer rec'), notifyChange (putDir cid fs' st)))))"

section \<open>Operations\<close>

definition CreateController ::
  "ctl_env \<Rightarrow> gotime \<Rightarrow> string \<Rightarrow> int \<Rightarrow> controller_store \<Rightarrow> controller_record result \<times> controller_store" where
  "CreateController env now cid maxInflight st =
     (case bindE (validateControllerID cid) (\<lambda>_.
             require (maxInflight > 0) (ErrInvalidController [''max_inflight must be positive, got %d'', intString maxInflight])) of
        Inl e \<Rightarrow> (Inl e, st)
      | Inr _ \<Rightarrow>
          (let fs = dirOf cid st in
           case cf_Snapshot fs of
             Some _ \<Rightarrow>
               (case loadController env cid fs of
                  (Inl e, fs') \<Rightarrow> (Inl e, putDir cid fs' st)
                | (Inr (rec, _), fs') \<Rightarrow>
                    (if ct_DesiredState rec = DesiredDisabled \<and> ct_MaxInflight rec = maxInflight then Inr rec
                     else Inl (ErrConflict [''controller %s already exists'', cid]), putDir cid fs' st))
           | None \<Rightarrow>
               (let rec = zeroController\<lparr>ct_SchemaVersion := SchemaVersion, ct_ControllerID := cid,
                     ct_DesiredState := DesiredDisabled, ct_MaxInflight := maxInflight,
                     ct_CreatedAt := now, ct_UpdatedAt := now\<rparr> in
                case commitController env rec [(controllerEvent EventCreated 1 now)\<lparr>cv_MaxInflight := maxInflight\<rparr>] fs of
                  (r, fs') \<Rightarrow> (r, notifyChange (putDir cid fs' st)))))"

definition GetController :: "ctl_env \<Rightarrow> string \<Rightarrow> controller_store \<Rightarrow> (controller_record \<times> bool) result \<times> controller_store" where
  "GetController env cid st =
     (case validateControllerID cid of
        Inl e \<Rightarrow> (Inl e, st)
      | Inr _ \<Rightarrow>
          (case cf_Snapshot (dirOf cid st) of
             None \<Rightarrow> (Inr (zeroController, False), st)
           | Some _ \<Rightarrow>
               (case loadController env cid (dirOf cid st) of
                  (Inl e, fs) \<Rightarrow> (Inl e, putDir cid fs st)
                | (Inr (rec, _), fs) \<Rightarrow> (Inr (rec, True), putDir cid fs st))))"

definition leaderReleasedEvent :: "int \<Rightarrow> gotime \<Rightarrow> leader_lease \<Rightarrow> controller_event" where
  "leaderReleasedEvent seq now l =
     (controllerEvent EventLeaderReleased seq now)
       \<lparr>cv_LeaseID := ll_LeaseID l, cv_OwnerID := ll_OwnerID l, cv_OwnerEpoch := ll_OwnerEpoch l\<rparr>"

definition leaderExpiredEvent :: "int \<Rightarrow> gotime \<Rightarrow> string \<Rightarrow> leader_lease \<Rightarrow> controller_event" where
  "leaderExpiredEvent seq now reason l =
     (controllerEvent EventLeaderExpired seq now)
       \<lparr>cv_Reason := reason, cv_LeaseID := ll_LeaseID l, cv_OwnerID := ll_OwnerID l, cv_OwnerEpoch := ll_OwnerEpoch l\<rparr>"

definition desiredPlan :: "gotime \<Rightarrow> desired_state \<Rightarrow> string \<Rightarrow> controller_record ctl_plan" where
  "desiredPlan now desired reason rec =
     (let seq = ct_Revision rec in
      if desired = DesiredEnabled then
        if ct_DesiredState rec = DesiredEnabled then Inl (Inr rec)
        else Inr ([controllerEvent EventEnabled (seq + 1) now], id)
      else if ct_DesiredState rec = DesiredDisabled \<and> ct_Leader rec = None then Inl (Inr rec)
      else Inr ((controllerEvent EventDisabled (seq + 1) now)\<lparr>cv_Reason := reason\<rparr> #
                  (case ct_Leader rec of None \<Rightarrow> [] | Some l \<Rightarrow> [leaderReleasedEvent (seq + 2) now l]), id))"

definition SetDesiredState ::
  "ctl_env \<Rightarrow> gotime \<Rightarrow> string \<Rightarrow> desired_state \<Rightarrow> string \<Rightarrow> controller_store \<Rightarrow> controller_record result \<times> controller_store" where
  "SetDesiredState env now cid desired reason st =
     (case bindE (validateControllerID cid) (\<lambda>_.
             require (desired = DesiredEnabled \<or> desired = DesiredDisabled) (ErrInvalidController [''unknown desired state''])) of
        Inl e \<Rightarrow> (Inl e, st)
      | Inr _ \<Rightarrow> runController env cid (desiredPlan now desired reason) st)"

text \<open>\<open>leaseID\<close> is the fresh random identifier the call would draw.\<close>

definition acquirePlan :: "gotime \<Rightarrow> string \<Rightarrow> string \<Rightarrow> string \<Rightarrow> (controller_record \<times> bool) ctl_plan" where
  "acquirePlan now leaseID cid ownerID rec =
     (if ct_DesiredState rec \<noteq> DesiredEnabled then Inl (Inl (ErrDisabled [cid]))
      else if leaseExpired now (ct_Leader rec) then
        Inr ([leaderExpiredEvent (ct_Revision rec + 1) now leaderTimeoutReason (the (ct_Leader rec)),
              (controllerEvent EventLeaderAcquired (ct_Revision rec + 2) now)
                \<lparr>cv_LeaseID := leaseID, cv_OwnerID := ownerID, cv_OwnerEpoch := ct_OwnerEpoch rec + 1,
                 cv_ExpiresAt := now + LeaseTTL\<rparr>], \<lambda>rec'. (rec', True))
      else if ct_Leader rec \<noteq> None then Inl (Inr (rec, False))
      else
        Inr ([(controllerEvent EventLeaderAcquired (ct_Revision rec + 1) now)
                \<lparr>cv_LeaseID := leaseID, cv_OwnerID := ownerID, cv_OwnerEpoch := ct_OwnerEpoch rec + 1,
                 cv_ExpiresAt := now + LeaseTTL\<rparr>], \<lambda>rec'. (rec', True)))"

definition AcquireLease ::
  "ctl_env \<Rightarrow> gotime \<Rightarrow> string \<Rightarrow> string \<Rightarrow> string \<Rightarrow> controller_store \<Rightarrow> (controller_record \<times> bool) result \<times> controller_store" where
  "AcquireLease env now leaseID cid ownerID st = runController env cid (acquirePlan now leaseID cid ownerID) st"

definition renewPlan :: "gotime \<Rightarrow> string \<Rightarrow> int \<Rightarrow> controller_record ctl_plan" where
  "renewPlan now leaseID ownerEpoch rec =
     (case checkLeaseCAS rec leaseID ownerEpoch of
        Inl e \<Rightarrow> Inl (Inl e)
      | Inr _ \<Rightarrow>
          Inr ([(controllerEvent EventLeaderRenewed (ct_Revision rec + 1) now)
                  \<lparr>cv_LeaseID := leaseID, cv_OwnerEpoch := ownerEpoch, cv_ExpiresAt := now + LeaseTTL\<rparr>], id))"

definition RenewLease ::
  "ctl_env \<Rightarrow> gotime \<Rightarrow> string \<Rightarrow> string \<Rightarrow> int \<Rightarrow> controller_store \<Rightarrow> controller_record result \<times> controller_store" where
  "RenewLease env now cid leaseID ownerEpoch st = runController env cid (renewPlan now leaseID ownerEpoch) st"

definition releasePlan :: "gotime \<Rightarrow> string \<Rightarrow> string \<Rightarrow> int \<Rightarrow> controller_record ctl_plan" where
  "releasePlan now cid leaseID ownerEpoch rec =
     (case checkLeaseCAS rec leaseID ownerEpoch of
        Inl e \<Rightarrow> Inl (Inl e)
      | Inr _ \<Rightarrow>
          if leaseExpired now (ct_Leader rec)
          then Inl (Inl (ErrConflict [''controller %s release lease: lease expired'', cid]))
          else Inr ([leaderReleasedEvent (ct_Revision rec + 1) now (the (ct_Leader rec))], id))"

definition ReleaseLease ::
  "ctl_env \<Rightarrow> gotime \<Rightarrow> string \<Rightarrow> string \<Rightarrow> int \<Rightarrow> controller_store \<Rightarrow> controller_record result \<times> controller_store" where
  "ReleaseLease env now cid leaseID ownerEpoch st = runController env cid (releasePlan now cid leaseID ownerEpoch) st"

text \<open>
  \<^verbatim>\<open>WithLeader\<close> runs \<open>fn\<close> under the lock; \<open>fn\<close> acts outside the controller's files, so only its answer
  appears here.
\<close>

definition leaderPlan :: "gotime \<Rightarrow> string \<Rightarrow> int \<Rightarrow> 'a result \<Rightarrow> 'a ctl_plan" where
  "leaderPlan now leaseID ownerEpoch fn rec =
     (if ct_DesiredState rec \<noteq> DesiredEnabled then Inl (Inl ErrNotLeader)
      else if checkLeaseCAS rec leaseID ownerEpoch \<noteq> Inr () then Inl (Inl ErrNotLeader)
      else if leaseExpired now (ct_Leader rec) then Inl (Inl ErrNotLeader)
      else Inl fn)"

definition WithLeader ::
  "ctl_env \<Rightarrow> gotime \<Rightarrow> string \<Rightarrow> string \<Rightarrow> int \<Rightarrow> 'a result \<Rightarrow> controller_store \<Rightarrow> 'a result \<times> controller_store" where
  "WithLeader env now cid leaseID ownerEpoch fn st =
     (case validateControllerID cid of
        Inl e \<Rightarrow> (Inl e, st)
      | Inr _ \<Rightarrow>
          if cf_Snapshot (dirOf cid st) = None then (Inl ErrNotLeader, st)
          else runController env cid (leaderPlan now leaseID ownerEpoch fn) st)"

definition blockPlan :: "gotime \<Rightarrow> string \<Rightarrow> string \<Rightarrow> (controller_record \<times> bool) ctl_plan" where
  "blockPlan now reason detail rec =
     (if ct_CapacityBlocked rec = reason then Inl (Inr (rec, False))
      else Inr ([(controllerEvent EventCapacityBlocked (ct_Revision rec + 1) now)
                   \<lparr>cv_BlockedReason := reason, cv_BlockedDetail := detail\<rparr>], \<lambda>rec'. (rec', True)))"

definition RecordCapacityBlocked ::
  "ctl_env \<Rightarrow> gotime \<Rightarrow> string \<Rightarrow> string \<Rightarrow> string \<Rightarrow> controller_store \<Rightarrow> (controller_record \<times> bool) result \<times> controller_store" where
  "RecordCapacityBlocked env now cid reason detail st = runController env cid (blockPlan now reason detail) st"

definition unblockCapacityPlan :: "gotime \<Rightarrow> (controller_record \<times> bool) ctl_plan" where
  "unblockCapacityPlan now rec =
     (if ct_CapacityBlocked rec = '''' then Inl (Inr (rec, False))
      else Inr ([controllerEvent EventCapacityCleared (ct_Revision rec + 1) now], \<lambda>rec'. (rec', True)))"

definition ClearCapacityBlocked ::
  "ctl_env \<Rightarrow> gotime \<Rightarrow> string \<Rightarrow> controller_store \<Rightarrow> (controller_record \<times> bool) result \<times> controller_store" where
  "ClearCapacityBlocked env now cid st = runController env cid (unblockCapacityPlan now) st"

section \<open>Recovery and fleet reads\<close>

text \<open>The events of a recovery are appended and applied without a commit: only the snapshot write may rotate.\<close>

definition recoverFiles :: "ctl_env \<Rightarrow> gotime \<Rightarrow> string \<Rightarrow> ctl_files \<Rightarrow> (controller_record \<times> bool) result \<times> ctl_files" where
  "recoverFiles env now cid fs =
     (if cf_Snapshot fs = None then (Inr (zeroController, False), fs)
      else case loadController env cid fs of
        (Inl e, fs1) \<Rightarrow> (Inl e, fs1)
      | (Inr (rec, replayed), fs1) \<Rightarrow>
          if leaseExpired now (ct_Leader rec) then
            (let e = leaderExpiredEvent (ct_Revision rec + 1) now leaderRecoveryReason (the (ct_Leader rec));
                 fs2 = appendControllerEvents env [e] fs1 in
             case applyControllerEvent rec e of
               Inl err \<Rightarrow> (Inl err, fs2)
             | Inr rec' \<Rightarrow> (Inr (rec', True), writeController env rec' fs2))
          else (Inr (rec, True), if 0 < replayed then writeController env rec fs1 else fs1))"

definition recoverController ::
  "ctl_env \<Rightarrow> gotime \<Rightarrow> string \<Rightarrow> controller_store \<Rightarrow> (controller_record \<times> bool) result \<times> controller_store" where
  "recoverController env now cid st =
     (if cf_Snapshot (dirOf cid st) = None then (Inr (zeroController, False), st)
      else case recoverFiles env now cid (dirOf cid st) of (r, fs) \<Rightarrow> (r, putDir cid fs st))"

text \<open>A fleet read: the records that loaded, and one failure per controller with a hole in its log.\<close>

record controllers =
  cl_Records :: "controller_record list"
  cl_Failures :: "(string \<times> error) list"

fun isLogHole :: "error \<Rightarrow> bool" where
  "isLogHole (ErrLogHole _) = True"
| "isLogHole _ = False"

fun loadAllFrom ::
  "(string \<Rightarrow> controller_store \<Rightarrow> (controller_record \<times> bool) result \<times> controller_store) \<Rightarrow> string list \<Rightarrow> controllers \<Rightarrow>
   controller_store \<Rightarrow> controllers result \<times> controller_store" where
  "loadAllFrom load [] out st = (Inr out, st)"
| "loadAllFrom load (cid # cids) out st =
     (case load cid st of
        (Inl e, st') \<Rightarrow>
          if isLogHole e then loadAllFrom load cids (out\<lparr>cl_Failures := cl_Failures out @ [(cid, e)]\<rparr>) st'
          else (Inl e, st')
      | (Inr (rec, ok), st') \<Rightarrow>
          loadAllFrom load cids (if ok then out\<lparr>cl_Records := cl_Records out @ [rec]\<rparr> else out) st')"

definition controllerIDs :: "controller_store \<Rightarrow> string list" where
  "controllerIDs st = sort (map fst (cs_Dirs st))"

definition ListControllers :: "ctl_env \<Rightarrow> controller_store \<Rightarrow> controllers result \<times> controller_store" where
  "ListControllers env st =
     loadAllFrom (GetController env) (controllerIDs st) \<lparr>cl_Records = [], cl_Failures = []\<rparr> st"

definition RecoverControllers :: "ctl_env \<Rightarrow> gotime \<Rightarrow> controller_store \<Rightarrow> controllers result \<times> controller_store" where
  "RecoverControllers env now st =
     loadAllFrom (recoverController env now) (controllerIDs st) \<lparr>cl_Records = [], cl_Failures = []\<rparr> st"

end
