(* ===== verification/Wc_Poll.thy ===== *)
theory Wc_Poll
  imports Wc_Store
begin

text \<open>
  The durable poll cursors of a controller (\<^verbatim>\<open>workflowcontroller/poll.go\<close>): the backoff schedule on 64-bit
  durations, the commands on cursors and diagnostics, and the queries for due polls. The hex digest of SHA-256 is a
  parameter, and so is the floating-point scaling by the jitter, as an arbitrary function on delays.
\<close>

section \<open>Backoff\<close>

definition AdapterMinRetryDelay :: int64 where
  "AdapterMinRetryDelay = 30 * Second"

definition AdapterMaxRetryDelay :: int64 where
  "AdapterMaxRetryDelay = 300 * Second"

definition Millisecond :: int64 where
  "Millisecond = 1000000"

definition ClampRetryDelay :: "int64 \<Rightarrow> int64 \<Rightarrow> int64" where
  "ClampRetryDelay requested floorDelay =
     (if sint requested < sint floorDelay then floorDelay
      else if sint requested > sint AdapterMaxRetryDelay then AdapterMaxRetryDelay
      else requested)"

definition pollBaseDelay :: int64 where
  "pollBaseDelay = 30 * Second"

text \<open>The loop that doubles the delay: at most \<open>n\<close> times, and not once it has reached the cap.\<close>

fun doubleDelay :: "nat \<Rightarrow> int64 \<Rightarrow> int64" where
  "doubleDelay 0 delay = delay"
| "doubleDelay (Suc n) delay =
     (if sint delay < sint AdapterMaxRetryDelay then doubleDelay n (delay * 2) else delay)"

definition PollBackoffDelay :: "int64 \<Rightarrow> int \<Rightarrow> int64 option \<Rightarrow> (int64 \<Rightarrow> int64) option \<Rightarrow> int64 \<times> int" where
  "PollBackoffDelay base retryCount retryAfterMS jitter =
     (let delay0 =
        (case retryAfterMS of
           Some ms \<Rightarrow> ClampRetryDelay (ms * Millisecond) base
         | None \<Rightarrow>
             (let d = doubleDelay (nat (retryCount + 1)) base in
              if sint d > sint AdapterMaxRetryDelay \<or> sint d \<le> 0 then AdapterMaxRetryDelay else d));
          delay1 = (if sint delay0 < sint base then base else delay0);
          delay2 = (case jitter of None \<Rightarrow> delay1 | Some scale \<Rightarrow> ClampRetryDelay (scale delay1) base)
      in (delay2, retryCount + 1))"

section \<open>Cursors\<close>

definition zeroCursor :: poll_cursor where
  "zeroCursor =
     \<lparr>pc_WorkflowID = '''', pc_NodeID = '''', pc_ActivationID = '''', pc_GateID = '''', pc_AdapterID = '''',
      pc_SubjectHash = '''', pc_LastPollAt = 0, pc_NextPollAt = 0, pc_RetryCount = 0, pc_PollCount = 0, pc_PollID = ''''\<rparr>"

definition PollCursorKey :: "poll_cursor \<Rightarrow> string" where
  "PollCursorKey c =
     pc_WorkflowID c @ ''/'' @ pc_NodeID c @ ''/'' @ pc_ActivationID c @ ''/'' @ pc_GateID c @ ''/'' @ pc_SubjectHash c"

text \<open>\<open>sha\<close> gives the hexadecimal digest; sixteen bytes of it are thirty-two digits.\<close>

definition DerivePollID :: "(string \<Rightarrow> string) \<Rightarrow> string \<Rightarrow> poll_cursor \<Rightarrow> int \<Rightarrow> string" where
  "DerivePollID sha controllerID c count =
     (let sep = [CHR 0x00] in
      ''poll_'' @ take 32 (sha (''poll'' @ sep @ controllerID @ sep @ pc_WorkflowID c @ sep @ pc_NodeID c @ sep @
        pc_ActivationID c @ sep @ pc_GateID c @ sep @ pc_SubjectHash c @ sep @ intString count)))"

definition inFlight :: "poll_cursor \<Rightarrow> bool" where
  "inFlight c \<longleftrightarrow> \<not> IsZero (pc_LastPollAt c) \<and> IsZero (pc_NextPollAt c)"

text \<open>The caller's identity fields, carried over to a stored cursor.\<close>

definition carryIdentity :: "poll_cursor \<Rightarrow> poll_cursor \<Rightarrow> poll_cursor" where
  "carryIdentity cursor c =
     c\<lparr>pc_WorkflowID := pc_WorkflowID cursor, pc_NodeID := pc_NodeID cursor, pc_ActivationID := pc_ActivationID cursor,
       pc_GateID := pc_GateID cursor, pc_AdapterID := pc_AdapterID cursor, pc_SubjectHash := pc_SubjectHash cursor\<rparr>"

definition cursorEvent :: "controller_event_kind \<Rightarrow> controller_record \<Rightarrow> gotime \<Rightarrow> string \<Rightarrow> poll_cursor \<Rightarrow> controller_event" where
  "cursorEvent kind rec now key c =
     (controllerEvent kind (ct_Revision rec + 1) now)\<lparr>cv_CursorKey := key, cv_Cursor := Some c\<rparr>"

definition ensurePlan :: "gotime \<Rightarrow> poll_cursor \<Rightarrow> gotime \<Rightarrow> (poll_cursor \<times> bool) ctl_plan" where
  "ensurePlan now cursor firstPollAt rec =
     (let key = PollCursorKey cursor in
      case map_of (ct_PollCursors rec) key of
        Some existing \<Rightarrow> Inl (Inr (existing, False))
      | None \<Rightarrow>
          (let seed = cursor\<lparr>pc_NextPollAt := firstPollAt\<rparr> in
           Inr ([cursorEvent EventPollScheduled rec now key seed], \<lambda>_. (seed, True))))"

definition EnsurePollCursor ::
  "ctl_env \<Rightarrow> gotime \<Rightarrow> string \<Rightarrow> poll_cursor \<Rightarrow> gotime \<Rightarrow> controller_store \<Rightarrow> (poll_cursor \<times> bool) result \<times> controller_store" where
  "EnsurePollCursor env now cid cursor firstPollAt st = runController env cid (ensurePlan now cursor firstPollAt) st"

definition storedCursor :: "controller_record \<Rightarrow> poll_cursor \<Rightarrow> poll_cursor" where
  "storedCursor rec cursor =
     (case map_of (ct_PollCursors rec) (PollCursorKey cursor) of None \<Rightarrow> cursor | Some existing \<Rightarrow> existing)"

definition committedCursor :: "(string \<Rightarrow> string) \<Rightarrow> string \<Rightarrow> gotime \<Rightarrow> controller_record \<Rightarrow> poll_cursor \<Rightarrow> poll_cursor" where
  "committedCursor sha cid pollNow rec cursor =
     (let c = storedCursor rec cursor;
          c1 = (if pc_PollID c = '''' \<or> \<not> inFlight c
                then c\<lparr>pc_PollCount := pc_PollCount c + 1, pc_PollID := DerivePollID sha cid c (pc_PollCount c + 1)\<rparr>
                else c)
      in carryIdentity cursor (c1\<lparr>pc_LastPollAt := pollNow, pc_NextPollAt := 0\<rparr>))"

definition commitPollPlan :: "(string \<Rightarrow> string) \<Rightarrow> gotime \<Rightarrow> string \<Rightarrow> gotime \<Rightarrow> poll_cursor \<Rightarrow> poll_cursor ctl_plan" where
  "commitPollPlan sha now cid pollNow cursor rec =
     (let c = committedCursor sha cid pollNow rec cursor in
      Inr ([cursorEvent EventPollCommitted rec now (PollCursorKey cursor) c], \<lambda>_. c))"

text \<open>\<open>now\<close> is the clock of the store, \<open>pollNow\<close> the caller's.\<close>

definition CommitPoll ::
  "(string \<Rightarrow> string) \<Rightarrow> ctl_env \<Rightarrow> gotime \<Rightarrow> string \<Rightarrow> poll_cursor \<Rightarrow> gotime \<Rightarrow> controller_store \<Rightarrow>
   poll_cursor result \<times> controller_store" where
  "CommitPoll sha env now cid cursor pollNow st = runController env cid (commitPollPlan sha now cid pollNow cursor) st"

definition retryPlan :: "gotime \<Rightarrow> poll_cursor \<Rightarrow> gotime \<Rightarrow> int \<Rightarrow> poll_cursor ctl_plan" where
  "retryPlan now cursor nextPoll retryCount rec =
     (let c = storedCursor rec cursor in
      if pc_NextPollAt c = nextPoll \<and> pc_RetryCount c = retryCount then Inl (Inr c)
      else
        (let updated = (carryIdentity cursor c)\<lparr>pc_NextPollAt := nextPoll, pc_RetryCount := retryCount\<rparr> in
         Inr ([cursorEvent EventPollScheduled rec now (PollCursorKey cursor) updated], \<lambda>_. updated)))"

definition SchedulePollRetry ::
  "ctl_env \<Rightarrow> gotime \<Rightarrow> string \<Rightarrow> poll_cursor \<Rightarrow> gotime \<Rightarrow> int \<Rightarrow> controller_store \<Rightarrow> poll_cursor result \<times> controller_store" where
  "SchedulePollRetry env now cid cursor nextPoll retryCount st = runController env cid (retryPlan now cursor nextPoll retryCount) st"

definition clearCursorPlan :: "gotime \<Rightarrow> poll_cursor \<Rightarrow> unit ctl_plan" where
  "clearCursorPlan now cursor rec =
     (let key = PollCursorKey cursor in
      if map_of (ct_PollCursors rec) key = None then Inl (Inr ())
      else Inr ([(controllerEvent EventPollCleared (ct_Revision rec + 1) now)\<lparr>cv_CursorKey := key\<rparr>], \<lambda>_. ()))"

definition ClearPollCursor :: "ctl_env \<Rightarrow> gotime \<Rightarrow> string \<Rightarrow> poll_cursor \<Rightarrow> controller_store \<Rightarrow> unit result \<times> controller_store" where
  "ClearPollCursor env now cid cursor st = runController env cid (clearCursorPlan now cursor) st"

section \<open>Queries\<close>

definition pollIsDue :: "gotime \<Rightarrow> poll_cursor \<Rightarrow> bool" where
  "pollIsDue now c \<longleftrightarrow> inFlight c \<or> \<not> IsZero (pc_NextPollAt c) \<and> \<not> After (pc_NextPollAt c) now"

definition PollDue :: "ctl_env \<Rightarrow> string \<Rightarrow> gotime \<Rightarrow> controller_store \<Rightarrow> poll_cursor list result \<times> controller_store" where
  "PollDue env cid now st =
     (case GetController env cid st of
        (Inl e, st') \<Rightarrow> (Inl e, st')
      | (Inr (_, False), st') \<Rightarrow> (Inl (ErrNotFound [cid]), st')
      | (Inr (rec, True), st') \<Rightarrow> (Inr (filter (pollIsDue now) (map snd (ct_PollCursors rec))), st'))"

definition earlier :: "gotime \<Rightarrow> poll_cursor \<Rightarrow> gotime" where
  "earlier earliest c =
     (if IsZero (pc_NextPollAt c) then earliest
      else if IsZero earliest \<or> pc_NextPollAt c < earliest then pc_NextPollAt c
      else earliest)"

definition NextPollTime :: "ctl_env \<Rightarrow> string \<Rightarrow> controller_store \<Rightarrow> (gotime \<times> bool) result \<times> controller_store" where
  "NextPollTime env cid st =
     (case GetController env cid st of
        (Inl e, st') \<Rightarrow> (Inl e, st')
      | (Inr (_, False), st') \<Rightarrow> (Inr (0, False), st')
      | (Inr (rec, True), st') \<Rightarrow>
          (let earliest = foldl earlier 0 (map snd (ct_PollCursors rec)) in (Inr (earliest, \<not> IsZero earliest), st')))"

section \<open>Diagnostics\<close>

definition diagnosticPlan :: "gotime \<Rightarrow> string \<Rightarrow> string \<Rightarrow> string \<Rightarrow> bool ctl_plan" where
  "diagnosticPlan now kind name detail rec =
     (if map_of (ct_Diagnostics rec) (diagnosticKey kind name) = Some detail then Inl (Inr False)
      else Inr ([(controllerEvent EventDiagRecorded (ct_Revision rec + 1) now)
                   \<lparr>cv_DiagKind := kind, cv_DiagKey := name, cv_DiagDetail := detail\<rparr>], \<lambda>_. True))"

definition RecordDiagnostic ::
  "ctl_env \<Rightarrow> gotime \<Rightarrow> string \<Rightarrow> string \<Rightarrow> string \<Rightarrow> string \<Rightarrow> controller_store \<Rightarrow> bool result \<times> controller_store" where
  "RecordDiagnostic env now cid kind name detail st =
     (case bindE (validateControllerID cid) (\<lambda>_.
             require (kind \<noteq> '''' \<and> name \<noteq> '''') (Err ''diagnostic requires kind and name'')) of
        Inl e \<Rightarrow> (Inl e, st)
      | Inr _ \<Rightarrow> runController env cid (diagnosticPlan now kind name detail) st)"

definition clearDiagnosticPlan :: "gotime \<Rightarrow> string \<Rightarrow> string \<Rightarrow> unit ctl_plan" where
  "clearDiagnosticPlan now kind name rec =
     (if map_of (ct_Diagnostics rec) (diagnosticKey kind name) = None then Inl (Inr ())
      else Inr ([(controllerEvent EventDiagCleared (ct_Revision rec + 1) now)\<lparr>cv_DiagKind := kind, cv_DiagKey := name\<rparr>], \<lambda>_. ()))"

definition ClearDiagnostic ::
  "ctl_env \<Rightarrow> gotime \<Rightarrow> string \<Rightarrow> string \<Rightarrow> string \<Rightarrow> controller_store \<Rightarrow> unit result \<times> controller_store" where
  "ClearDiagnostic env now cid kind name st = runController env cid (clearDiagnosticPlan now kind name) st"

end
