(* ===== verification/Wc_Replay.thy ===== *)
theory Wc_Replay
  imports Wc_Poll
begin

text \<open>
  What the files of a controller hold: a history of events, of which the previous generation and the
  active log keep a suffix, and a snapshot after some prefix. Replay is exact for every snapshot that
  the two generations reach back to, and reports a hole for every older one.
\<close>

section \<open>Numbered histories\<close>

abbreviation applyAll :: "controller_record \<Rightarrow> controller_event list \<Rightarrow> controller_record result" where
  "applyAll \<equiv> foldE applyControllerEvent"

definition numbered :: "int \<Rightarrow> controller_event list \<Rightarrow> bool" where
  "numbered r es \<longleftrightarrow> (\<forall>i<length es. cv_Seq (es ! i) = r + int i + 1)"

lemma all_Suc_split: "(\<forall>i<Suc n. P i) \<longleftrightarrow> P 0 \<and> (\<forall>i<n. P (Suc i))"
  by (auto simp: less_Suc_eq_0_disj)

lemma numbered_simps [simp]:
  "numbered r []"
  "numbered r (e # es) \<longleftrightarrow> cv_Seq e = r + 1 \<and> numbered (r + 1) es"
proof -
  show "numbered r []" by (simp add: numbered_def)
  show "numbered r (e # es) \<longleftrightarrow> cv_Seq e = r + 1 \<and> numbered (r + 1) es"
    unfolding numbered_def by (simp add: all_Suc_split algebra_simps)
qed

lemma numbered_append [simp]:
  "numbered r (xs @ ys) \<longleftrightarrow> numbered r xs \<and> numbered (r + int (length xs)) ys"
  by (induction xs arbitrary: r) (auto simp: algebra_simps)

lemma numbered_take: "numbered r es \<Longrightarrow> numbered r (take k es)"
  using numbered_append[of r "take k es" "drop k es"] by (metis append_take_drop_id)

lemma numbered_drop: "numbered r es \<Longrightarrow> k \<le> length es \<Longrightarrow> numbered (r + int k) (drop k es)"
  using numbered_append[of r "take k es" "drop k es"] by (metis append_take_drop_id length_take min.absorb2)

lemma apply_revision: "applyControllerEvent rec e = Inr rec' \<Longrightarrow> ct_Revision rec' = cv_Seq e"
  by (auto simp: applyControllerEvent_def storeCursor_def Let_def
      split: controller_event_kind.splits option.splits if_splits)

lemma applyAll_revision:
  "applyAll rec es = Inr rec' \<Longrightarrow> numbered (ct_Revision rec) es \<Longrightarrow> ct_Revision rec' = ct_Revision rec + int (length es)"
  by (induction es arbitrary: rec) (auto simp: bindE_eq_Inr_iff dest: apply_revision)

section \<open>Replaying a numbered list\<close>

interpretation ctl: log_walk enc dec "replayStep cid" "replayControllerLines dec cid" for enc dec cid
  by unfold_locales simp_all

lemma replay_skips:
  "numbered r es \<Longrightarrow> r + int (length es) \<le> ct_Revision rec \<Longrightarrow>
   foldE (replayStep cid) (rec, n, i) es = Inr (rec, n, i + length es)"
  by (induction es arbitrary: r i) (auto simp: replayStep_def)

lemma replay_applies:
  "numbered (ct_Revision rec) es \<Longrightarrow> applyAll rec es = Inr rec' \<Longrightarrow>
   foldE (replayStep cid) (rec, n, i) es = Inr (rec', n + length es, i + length es)"
proof (induction es arbitrary: rec n i)
  case (Cons e es)
  then obtain u where u: "applyControllerEvent rec e = Inr u" "applyAll u es = Inr rec'"
    by (auto simp: bindE_eq_Inr_iff)
  have "numbered (ct_Revision u) es" using Cons.prems(1) apply_revision[OF u(1)] by simp
  from Cons.IH[OF this u(2)] show ?case using Cons.prems(1) u(1) by (simp add: replayStep_def)
qed simp

text \<open>A list that starts at or below the record's revision: the known part is skipped, the rest applied.\<close>

lemma replay_part:
  assumes "numbered r es" and "r \<le> ct_Revision rec"
    and "applyAll rec (drop (nat (ct_Revision rec - r)) es) = Inr rec'"
  shows "foldE (replayStep cid) (rec, n, i) es =
    Inr (rec', n + (length es - nat (ct_Revision rec - r)), i + length es)"
proof -
  let ?k = "nat (ct_Revision rec - r)"
  have split: "es = take ?k es @ drop ?k es" by simp
  have "r + int (length (take ?k es)) \<le> ct_Revision rec" using assms(2) by simp
  note skip = replay_skips[OF numbered_take[OF assms(1)] this, of cid n i]
  show ?thesis
  proof (cases "?k \<le> length es")
    case True
    from numbered_drop[OF assms(1) this] have "numbered (ct_Revision rec) (drop ?k es)" using assms(2) by simp
    note new = replay_applies[OF this assms(3), of cid n "i + length (take ?k es)"]
    show ?thesis
      by (subst split, subst foldE_append) (use skip new True in simp)
  next
    case False
    then have all: "take ?k es = es" "drop ?k es = []" by simp_all
    then have "rec' = rec" using assms(3) by simp
    then show ?thesis using skip False by (simp add: all)
  qed
qed

lemma replay_hole:
  "numbered r es \<Longrightarrow> es \<noteq> [] \<Longrightarrow> ct_Revision rec < r \<Longrightarrow>
   foldE (replayStep cid) (rec, n, i) es =
     Inl (ErrLogHole [cid, intString (ct_Revision rec + 1), intString r, intString (r + 1)])"
  by (cases es) (auto simp: replayStep_def)

lemma replayController_clean:
  assumes "jsonLaws (cn_Encode env) (cn_Decode env) (set es)"
  shows "replayController env cid rec (encLog (cn_Encode env) es) =
    bindE (foldE (replayStep cid) (rec, 0, 0) es) (\<lambda>(rec', n, _). Inr (rec', n, encLog (cn_Encode env) es))"
proof (cases "es = []")
  case False
  have "\<not> isBlank (encLog (cn_Encode env) es)" using encLog_not_blank[OF assms False, of "[]"] by simp
  then show ?thesis
    by (simp add: replayController_def ctl.walk_clean[OF assms]) (simp add: bindE_def split: sum.split)
qed (simp add: replayController_def)

section \<open>The files of a controller\<close>

text \<open>
  \<open>generations env fs h0 p l\<close>: the previous generation holds \<open>p\<close>, the active log \<open>l\<close>, and \<open>h0\<close> are the
  events before, which are gone. A generation is kept as soon as there was a rotation.
\<close>

definition generations :: "ctl_env \<Rightarrow> ctl_files \<Rightarrow> controller_event list \<Rightarrow> controller_event list \<Rightarrow> controller_event list \<Rightarrow> bool" where
  "generations env fs h0 p l \<longleftrightarrow>
     cf_Prev fs = encLog (cn_Encode env) p \<and> cf_Log fs = encLog (cn_Encode env) l \<and>
     (p = [] \<longrightarrow> h0 = []) \<and> numbered 0 (h0 @ p @ l) \<and> jsonLaws (cn_Encode env) (cn_Decode env) (set (p @ l))"

definition snapshotAt :: "controller_record \<Rightarrow> controller_event list \<Rightarrow> nat \<Rightarrow> ctl_files \<Rightarrow> bool" where
  "snapshotAt r0 h s fs \<longleftrightarrow>
     s \<le> length h \<and> ct_Revision r0 = 0 \<and> (\<exists>rec. cf_Snapshot fs = Some rec \<and> applyAll r0 (take s h) = Inr rec)"

lemma load_exact:
  assumes gen: "generations env fs h0 p l" and snap: "snapshotAt r0 (h0 @ p @ l) s fs"
    and cur: "applyAll r0 (h0 @ p @ l) = Inr cur"
  shows "loadController env cid fs =
    (if length h0 \<le> s then (Inr (cur, length (h0 @ p @ l) - s), fs)
     else (Inl (ErrLogHole [cid, intString (int s + 1), intString (int (length h0)), intString (int (length h0) + 1)]), fs))"
proof -
  let ?h = "h0 @ p @ l"
  let ?enc = "cn_Encode env" and ?dec = "cn_Decode env"
  have js: "jsonLaws ?enc ?dec (set p)" "jsonLaws ?enc ?dec (set l)" and num: "numbered 0 ?h"
    and bytes: "cf_Prev fs = encLog ?enc p" "cf_Log fs = encLog ?enc l"
    using gen by (auto simp: generations_def jsonLaws_Un)
  obtain rec where rec: "cf_Snapshot fs = Some rec" "applyAll r0 (take s ?h) = Inr rec"
    and s: "s \<le> length ?h" and r0: "ct_Revision r0 = 0"
    using snap by (auto simp: snapshotAt_def)
  have rev: "ct_Revision rec = int s"
    using applyAll_revision[OF rec(2)] numbered_take[OF num, of s] r0 s by simp
  have nump: "numbered (int (length h0)) p" and numl: "numbered (int (length h0) + int (length p)) l"
    using num by simp_all
  show ?thesis
  proof (cases "length h0 \<le> s")
    case True
    let ?dp = "drop (s - length h0) p" and ?dl = "drop (s - length h0 - length p) l"
    have dropped: "drop s ?h = ?dp @ ?dl" using True by simp
    have "applyAll r0 (take s ?h @ drop s ?h) = Inr cur" using cur by (simp only: append_take_drop_id)
    then have "applyAll rec (drop s ?h) = Inr cur" by (simp only: foldE_append rec(2) bindE_simps)
    then obtain u where u: "applyAll rec ?dp = Inr u" "applyAll u ?dl = Inr cur"
      unfolding dropped by (auto simp: foldE_append bindE_eq_Inr_iff)
    have numd: "numbered (ct_Revision rec) ?dp"
    proof (cases "s - length h0 \<le> length p")
      case True
      from numbered_drop[OF nump this] show ?thesis using \<open>length h0 \<le> s\<close> rev by simp
    qed simp
    have revu: "ct_Revision u = int s + int (length ?dp)" using applyAll_revision[OF u(1) numd] rev by simp
    have pl: "foldE (replayStep cid) (rec, 0, 0) p = Inr (u, length p - (s - length h0), length p)"
      using replay_part[OF nump, of rec u cid 0 0] rev True u(1) by (simp add: nat_diff_distrib)
    have amount: "nat (ct_Revision u - (int (length h0) + int (length p))) = s - length h0 - length p"
      using True by (simp add: revu)
    have "int (length h0) + int (length p) \<le> ct_Revision u" using True by (simp add: revu)
    from replay_part[OF numl this, of cur cid 0 0] u(2) amount
    have ll: "foldE (replayStep cid) (u, 0, 0) l = Inr (cur, length l - (s - length h0 - length p), length l)"
      by simp
    have count: "(length p - (s - length h0)) + (length l - (s - length h0 - length p)) = length ?h - s"
      using True s by simp
    show ?thesis
      using True count by (simp add: loadController_def rec(1) bytes replayController_clean[OF js(1)]
          replayController_clean[OF js(2)] pl ll)
  next
    case False
    then have "p \<noteq> []" using gen by (auto simp: generations_def)
    have "ct_Revision rec < int (length h0)" using False rev by simp
    note hole = replay_hole[OF nump \<open>p \<noteq> []\<close> this, of cid 0 0]
    show ?thesis
      using False by (simp add: loadController_def rec(1) bytes replayController_clean[OF js(1)] hole rev)
  qed
qed

section \<open>What commands leave on disk\<close>

text \<open>
  \<open>stored env fs r0 h cur\<close>: the files hold the history \<open>h\<close> up to events before the previous generation,
  the snapshot is not older than that generation, and \<open>cur\<close> is the record after \<open>h\<close>.
\<close>

definition stored :: "ctl_env \<Rightarrow> ctl_files \<Rightarrow> controller_record \<Rightarrow> controller_event list \<Rightarrow> controller_record \<Rightarrow> bool" where
  "stored env fs r0 h cur \<longleftrightarrow>
     applyAll r0 h = Inr cur \<and>
     (\<exists>h0 p l s. h = h0 @ p @ l \<and> generations env fs h0 p l \<and> snapshotAt r0 h s fs \<and> length h0 \<le> s)"

lemma stored_load:
  assumes "stored env fs r0 h cur"
  obtains n where "loadController env cid fs = (Inr (cur, n), fs)" and "cf_Snapshot fs \<noteq> None"
    and "n = 0 \<Longrightarrow> cf_Snapshot fs = Some cur"
proof -
  obtain h0 p l s where h: "h = h0 @ p @ l" and gen: "generations env fs h0 p l"
    and snap: "snapshotAt r0 (h0 @ p @ l) s fs" and s: "length h0 \<le> s"
    and cur: "applyAll r0 (h0 @ p @ l) = Inr cur"
    using assms by (auto simp: stored_def)
  have "loadController env cid fs = (Inr (cur, length (h0 @ p @ l) - s), fs)"
    using load_exact[OF gen snap cur] s by simp
  moreover have "cf_Snapshot fs \<noteq> None" using snap by (auto simp: snapshotAt_def)
  moreover have "cf_Snapshot fs = Some cur" if "length (h0 @ p @ l) - s = 0"
  proof -
    have "length (h0 @ p @ l) \<le> s" using that by (simp only: diff_is_0_eq)
    then have "take s (h0 @ p @ l) = h0 @ p @ l" by (rule take_all)
    then show ?thesis using snap cur by (metis snapshotAt_def sum.inject(2))
  qed
  ultimately show thesis by (rule that)
qed

lemma stored_revision:
  assumes "stored env fs r0 h cur"
  shows "ct_Revision cur = int (length h)"
proof -
  have "applyAll r0 h = Inr cur" "numbered 0 h" "ct_Revision r0 = 0"
    using assms unfolding stored_def generations_def snapshotAt_def by blast+
  then show ?thesis using applyAll_revision[of r0 h cur] by simp
qed

lemma stored_write:
  assumes "generations env fs h0 p l" and "applyAll r0 (h0 @ p @ l) = Inr cur" and "ct_Revision r0 = 0"
  shows "stored env (writeController env cur fs) r0 (h0 @ p @ l) cur"
proof (cases "length (cf_Log fs) \<le> compactThreshold env")
  case True
  with assms show ?thesis
    unfolding stored_def writeController_def compactLog_def
    by (intro conjI exI[of _ h0] exI[of _ p] exI[of _ l] exI[of _ "length (h0 @ p @ l)"])
      (auto simp: generations_def snapshotAt_def)
next
  case False
  then have "l \<noteq> []" using assms(1) by (auto simp: generations_def)
  with assms False show ?thesis
    unfolding stored_def writeController_def compactLog_def
    by (intro conjI exI[of _ "h0 @ p"] exI[of _ l] exI[of _ "[]"] exI[of _ "length (h0 @ p @ l)"])
      (auto simp: generations_def snapshotAt_def jsonLaws_Un)
qed

lemma stored_append:
  assumes "stored env fs r0 h cur" and "numbered (ct_Revision cur) evs"
    and "jsonLaws (cn_Encode env) (cn_Decode env) (set evs)" and "applyAll cur evs = Inr cur'"
  obtains h0 p l where "h @ evs = h0 @ p @ l" and "generations env (appendControllerEvents env evs fs) h0 p l"
    and "applyAll r0 (h0 @ p @ l) = Inr cur'" and "ct_Revision r0 = 0"
proof -
  obtain h0 p l s where h: "h = h0 @ p @ l" and gen: "generations env fs h0 p l"
    and snap: "snapshotAt r0 (h0 @ p @ l) s fs" and cur: "applyAll r0 h = Inr cur"
    using assms(1) by (auto simp: stored_def)
  have "numbered (int (length h)) evs" using assms(2) stored_revision[OF assms(1)] by simp
  with gen assms(3) have "generations env (appendControllerEvents env evs fs) h0 p (l @ evs)"
    by (auto simp: generations_def appendControllerEvents_def encLog_append jsonLaws_Un h algebra_simps)
  moreover have "applyAll r0 (h0 @ p @ l @ evs) = Inr cur'"
    using cur assms(4) foldE_append_Inr[of applyControllerEvent r0 h evs cur'] by (simp add: h)
  ultimately show thesis using that[of h0 p "l @ evs"] snap h by (auto simp: snapshotAt_def)
qed

lemma stored_commit:
  assumes "stored env fs r0 h cur" and "numbered (ct_Revision cur) evs"
    and "jsonLaws (cn_Encode env) (cn_Decode env) (set evs)" and "applyAll cur evs = Inr cur'"
  obtains fs' where "commitController env cur evs fs = (Inr cur', fs')" and "stored env fs' r0 (h @ evs) cur'"
proof -
  obtain h0 p l where parts: "h @ evs = h0 @ p @ l" "generations env (appendControllerEvents env evs fs) h0 p l"
    "applyAll r0 (h0 @ p @ l) = Inr cur'" "ct_Revision r0 = 0"
    using stored_append[OF assms] .
  have "appendControllerEvents env [] fs = fs" by (simp add: appendControllerEvents_def)
  then have "commitController env cur evs fs = (Inr cur', writeController env cur' (appendControllerEvents env evs fs))"
    using assms(4) by (simp add: commitController_def)
  with stored_write[OF parts(2-4)] parts(1) show thesis using that by simp
qed

end
