(* ===== verification/Wc_Operations.thy ===== *)
theory Wc_Operations
  imports Wc_Replay
begin

text \<open>
  Runs of controller operations: a trace semantics of the store, the history that a trace leaves,
  and the refinement of the file-level operations by decisions on the current record. The interface between
  the two is the locale \<open>controller_plan\<close>: a plan emits events numbered from the record's revision that
  the reducer accepts, and grants leadership only when nobody holds it, with the next epoch.
\<close>

section \<open>Plans\<close>

definition after :: "controller_record \<Rightarrow> controller_event list \<Rightarrow> controller_record" where
  "after rec evs = (case applyAll rec evs of Inl _ \<Rightarrow> rec | Inr rec' \<Rightarrow> rec')"

fun admissible :: "controller_record \<Rightarrow> controller_event list \<Rightarrow> bool" where
  "admissible rec [] = True"
| "admissible rec (e # es) =
     (case applyControllerEvent rec e of
        Inl _ \<Rightarrow> False
      | Inr rec' \<Rightarrow>
          cv_Kind e \<noteq> EventCreated \<and>
          (cv_Kind e = EventLeaderAcquired \<longrightarrow> cv_OwnerEpoch e = ct_OwnerEpoch rec + 1 \<and> ct_Leader rec = None) \<and>
          admissible rec' es)"

lemma after_Nil [simp]: "after rec [] = rec"
  by (simp add: after_def)

lemma admissible_ex: "admissible rec evs \<Longrightarrow> \<exists>rec'. applyAll rec evs = Inr rec'"
  by (induction evs arbitrary: rec) (auto split: sum.splits)

lemma admissible_applies: "admissible rec evs \<Longrightarrow> applyAll rec evs = Inr (after rec evs)"
  using admissible_ex[of rec evs] by (auto simp: after_def)

lemma after_Cons: "admissible rec (e # es) \<Longrightarrow> applyControllerEvent rec e = Inr u \<Longrightarrow> after rec (e # es) = after u es"
  using admissible_ex[of u es] by (auto simp: after_def)

lemma admissible_append:
  "admissible rec (xs @ ys) \<longleftrightarrow> admissible rec xs \<and> admissible (after rec xs) ys"
proof (induction xs arbitrary: rec)
  case (Cons x xs)
  show ?case
  proof (cases "applyControllerEvent rec x")
    case (Inr u)
    with Cons.IH[of u] after_Cons[of rec x xs u] show ?thesis by auto
  qed simp
qed simp

lemma after_append:
  assumes "admissible rec (xs @ ys)"
  shows "after rec (xs @ ys) = after (after rec xs) ys"
proof -
  have "admissible rec xs" "admissible (after rec xs) ys" using assms by (simp_all add: admissible_append)
  from this[THEN admissible_applies] have "applyAll rec (xs @ ys) = Inr (after (after rec xs) ys)"
    by (simp add: foldE_append)
  then show ?thesis by (simp only: after_def[of rec "xs @ ys"] sum.case)
qed

definition emittedBy :: "'a ctl_plan \<Rightarrow> controller_record \<Rightarrow> controller_event list" where
  "emittedBy plan rec = (case plan rec of Inl _ \<Rightarrow> [] | Inr (evs, _) \<Rightarrow> evs)"

definition answerOf :: "'a ctl_plan \<Rightarrow> controller_record \<Rightarrow> 'a result" where
  "answerOf plan rec = (case plan rec of Inl r \<Rightarrow> r | Inr (evs, answer) \<Rightarrow> Inr (answer (after rec evs)))"

lemma dirOf_putDir [simp]: "dirOf c (putDir cid fs st) = (if c = cid then fs else dirOf c st)"
  by (simp add: dirOf_def putDir_def)

lemma dirOf_notifyChange [simp]: "dirOf c (notifyChange st) = dirOf c st"
  by (simp add: dirOf_def notifyChange_def)

lemma stored_dir: "stored env (dirOf cid st) r0 h cur \<Longrightarrow> map_of (cs_Dirs st) cid \<noteq> None"
  by (auto simp: stored_def snapshotAt_def dirOf_def noFiles_def split: option.splits)

locale controller_plan =
  fixes plan :: "'a ctl_plan"
  assumes planned: "plan rec = Inr (evs, answer) \<Longrightarrow> numbered (ct_Revision rec) evs \<and> admissible rec evs"
begin

lemma emitted_numbered: "numbered (ct_Revision rec) (emittedBy plan rec)"
  using planned by (auto simp: emittedBy_def split: sum.splits)

lemma emitted_admissible: "admissible rec (emittedBy plan rec)"
  using planned by (auto simp: emittedBy_def split: sum.splits)

text \<open>A command answers and acts as its plan does on the current record.\<close>

lemma run_refines:
  assumes "validateControllerID cid = Inr ()" and stored: "stored env (dirOf cid st) r0 h cur"
    and "jsonLaws (cn_Encode env) (cn_Decode env) (set (emittedBy plan cur))"
  shows "fst (runController env cid plan st) = answerOf plan cur"
    and "stored env (dirOf cid (snd (runController env cid plan st))) r0 (h @ emittedBy plan cur) (after cur (emittedBy plan cur))"
proof -
  obtain n where load: "loadController env cid (dirOf cid st) = (Inr (cur, n), dirOf cid st)"
    and "cf_Snapshot (dirOf cid st) \<noteq> None"
    using stored_load[OF stored] .
  then have cmd: "loadForCommand env cid (dirOf cid st) = (Inr cur, dirOf cid st)"
    using assms(1) by (auto simp: loadForCommand_def)
  have "fst (runController env cid plan st) = answerOf plan cur \<and>
      stored env (dirOf cid (snd (runController env cid plan st))) r0 (h @ emittedBy plan cur) (after cur (emittedBy plan cur))"
  proof (cases "plan cur")
    case (Inl r)
    with stored show ?thesis by (simp add: runController_def cmd answerOf_def emittedBy_def)
  next
    case (Inr p)
    obtain evs answer where p: "p = (evs, answer)" by (cases p)
    note ok = planned[OF Inr[unfolded p]]
    have "jsonLaws (cn_Encode env) (cn_Decode env) (set evs)" using assms(3) Inr p by (simp add: emittedBy_def)
    then obtain fs' where "commitController env cur evs (dirOf cid st) = (Inr (after cur evs), fs')"
      "stored env fs' r0 (h @ evs) (after cur evs)"
      using stored_commit[OF stored _ _ admissible_applies] ok by blast
    with Inr p show ?thesis by (simp add: runController_def cmd answerOf_def emittedBy_def)
  qed
  then show "fst (runController env cid plan st) = answerOf plan cur"
    and "stored env (dirOf cid (snd (runController env cid plan st))) r0 (h @ emittedBy plan cur) (after cur (emittedBy plan cur))"
    by blast+
qed

end

lemma controllerEvent_fields [simp]:
  "cv_Kind (controllerEvent kind seq now) = kind" "cv_Seq (controllerEvent kind seq now) = seq"
  "cv_Time (controllerEvent kind seq now) = now"
  by (simp_all add: controllerEvent_def)

lemmas plan_defs = leaderReleasedEvent_def leaderExpiredEvent_def cursorEvent_def applyControllerEvent_def
  storeCursor_def Let_def

interpretation desired: controller_plan "desiredPlan now d reason" for now d reason
  by unfold_locales (auto simp: desiredPlan_def plan_defs split: if_splits option.splits)

interpretation acquiring: controller_plan "acquirePlan now leaseID cid ownerID" for now leaseID cid ownerID
  by unfold_locales (auto simp: acquirePlan_def plan_defs split: if_splits)

interpretation renewing: controller_plan "renewPlan now leaseID e" for now leaseID e
  by unfold_locales (auto simp: renewPlan_def plan_defs split: sum.splits)

interpretation releasing: controller_plan "releasePlan now cid leaseID e" for now cid leaseID e
  by unfold_locales (auto simp: releasePlan_def plan_defs split: sum.splits if_splits)

interpretation leading: controller_plan "leaderPlan now leaseID e fn" for now leaseID e fn
  by unfold_locales (auto simp: leaderPlan_def split: if_splits)

interpretation blocking: controller_plan "blockPlan now reason detail" for now reason detail
  by unfold_locales (auto simp: blockPlan_def plan_defs split: if_splits)

interpretation unblocking: controller_plan "unblockCapacityPlan now" for now
  by unfold_locales (auto simp: unblockCapacityPlan_def plan_defs split: if_splits)

interpretation ensuring: controller_plan "ensurePlan now cursor firstPollAt" for now cursor firstPollAt
  by unfold_locales (auto simp: ensurePlan_def plan_defs split: option.splits if_splits)

interpretation polling: controller_plan "commitPollPlan sha now cid pollNow cursor" for sha now cid pollNow cursor
  by unfold_locales (auto simp: commitPollPlan_def plan_defs split: if_splits)

interpretation retrying: controller_plan "retryPlan now cursor nextPoll n" for now cursor nextPoll n
  by unfold_locales (auto simp: retryPlan_def plan_defs split: if_splits)

interpretation clearing: controller_plan "clearCursorPlan now cursor" for now cursor
  by unfold_locales (auto simp: clearCursorPlan_def plan_defs split: if_splits)

interpretation diagnosing: controller_plan "diagnosticPlan now kind name detail" for now kind name detail
  by unfold_locales (auto simp: diagnosticPlan_def plan_defs split: if_splits)

interpretation undiagnosing: controller_plan "clearDiagnosticPlan now kind name" for now kind name
  by unfold_locales (auto simp: clearDiagnosticPlan_def plan_defs split: if_splits)

section \<open>Traces\<close>

text \<open>One operation on a controller; the random lease id is an argument of \<open>OpAcquire\<close>.\<close>

datatype ctl_op =
    OpSetDesired desired_state string
  | OpAcquire string string
  | OpRenew string int
  | OpRelease string int
  | OpWithLeader string int
  | OpBlock string string
  | OpUnblock
  | OpEnsure poll_cursor gotime
  | OpCommitPoll poll_cursor gotime
  | OpRetry poll_cursor gotime int
  | OpClearCursor poll_cursor
  | OpDiagnose string string string
  | OpClearDiagnostic string string
  | OpRecover
  | OpGet

fun perform :: "(string \<Rightarrow> string) \<Rightarrow> ctl_env \<Rightarrow> string \<Rightarrow> gotime \<times> ctl_op \<Rightarrow> controller_store \<Rightarrow> controller_store" where
  "perform sha env cid (now, OpSetDesired d reason) st = snd (SetDesiredState env now cid d reason st)"
| "perform sha env cid (now, OpAcquire leaseID ownerID) st = snd (AcquireLease env now leaseID cid ownerID st)"
| "perform sha env cid (now, OpRenew leaseID e) st = snd (RenewLease env now cid leaseID e st)"
| "perform sha env cid (now, OpRelease leaseID e) st = snd (ReleaseLease env now cid leaseID e st)"
| "perform sha env cid (now, OpWithLeader leaseID e) st = snd (WithLeader env now cid leaseID e (Inr ()) st)"
| "perform sha env cid (now, OpBlock reason detail) st = snd (RecordCapacityBlocked env now cid reason detail st)"
| "perform sha env cid (now, OpUnblock) st = snd (ClearCapacityBlocked env now cid st)"
| "perform sha env cid (now, OpEnsure cursor t) st = snd (EnsurePollCursor env now cid cursor t st)"
| "perform sha env cid (now, OpCommitPoll cursor t) st = snd (CommitPoll sha env now cid cursor t st)"
| "perform sha env cid (now, OpRetry cursor t n) st = snd (SchedulePollRetry env now cid cursor t n st)"
| "perform sha env cid (now, OpClearCursor cursor) st = snd (ClearPollCursor env now cid cursor st)"
| "perform sha env cid (now, OpDiagnose kind name detail) st = snd (RecordDiagnostic env now cid kind name detail st)"
| "perform sha env cid (now, OpClearDiagnostic kind name) st = snd (ClearDiagnostic env now cid kind name st)"
| "perform sha env cid (now, OpRecover) st = snd (recoverController env now cid st)"
| "perform sha env cid (now, OpGet) st = snd (GetController env cid st)"

text \<open>The events an operation appends when the current record is \<open>rec\<close>.\<close>

fun emitted :: "(string \<Rightarrow> string) \<Rightarrow> string \<Rightarrow> gotime \<times> ctl_op \<Rightarrow> controller_record \<Rightarrow> controller_event list" where
  "emitted sha cid (now, OpSetDesired d reason) rec =
     (if d = DesiredEnabled \<or> d = DesiredDisabled then emittedBy (desiredPlan now d reason) rec else [])"
| "emitted sha cid (now, OpAcquire leaseID ownerID) rec = emittedBy (acquirePlan now leaseID cid ownerID) rec"
| "emitted sha cid (now, OpRenew leaseID e) rec = emittedBy (renewPlan now leaseID e) rec"
| "emitted sha cid (now, OpRelease leaseID e) rec = emittedBy (releasePlan now cid leaseID e) rec"
| "emitted sha cid (now, OpWithLeader leaseID e) rec = []"
| "emitted sha cid (now, OpBlock reason detail) rec = emittedBy (blockPlan now reason detail) rec"
| "emitted sha cid (now, OpUnblock) rec = emittedBy (unblockCapacityPlan now) rec"
| "emitted sha cid (now, OpEnsure cursor t) rec = emittedBy (ensurePlan now cursor t) rec"
| "emitted sha cid (now, OpCommitPoll cursor t) rec = emittedBy (commitPollPlan sha now cid t cursor) rec"
| "emitted sha cid (now, OpRetry cursor t n) rec = emittedBy (retryPlan now cursor t n) rec"
| "emitted sha cid (now, OpClearCursor cursor) rec = emittedBy (clearCursorPlan now cursor) rec"
| "emitted sha cid (now, OpDiagnose kind name detail) rec =
     (if kind \<noteq> '''' \<and> name \<noteq> '''' then emittedBy (diagnosticPlan now kind name detail) rec else [])"
| "emitted sha cid (now, OpClearDiagnostic kind name) rec = emittedBy (clearDiagnosticPlan now kind name) rec"
| "emitted sha cid (now, OpRecover) rec =
     (if leaseExpired now (ct_Leader rec)
      then [leaderExpiredEvent (ct_Revision rec + 1) now leaderRecoveryReason (the (ct_Leader rec))] else [])"
| "emitted sha cid (now, OpGet) rec = []"

fun history :: "(string \<Rightarrow> string) \<Rightarrow> string \<Rightarrow> (gotime \<times> ctl_op) list \<Rightarrow> controller_record \<Rightarrow> controller_event list" where
  "history sha cid [] rec = []"
| "history sha cid (op # ops) rec =
     emitted sha cid op rec @ history sha cid ops (after rec (emitted sha cid op rec))"

definition performs :: "(string \<Rightarrow> string) \<Rightarrow> ctl_env \<Rightarrow> string \<Rightarrow> (gotime \<times> ctl_op) list \<Rightarrow> controller_store \<Rightarrow> controller_store" where
  "performs sha env cid ops st = fold (perform sha env cid) ops st"

lemma emits_admissible: "admissible rec (emitted sha cid op rec)"
proof (cases "(sha, cid, op, rec)" rule: emitted.cases)
  case (14 sha cid now rec)
  then show ?thesis by (auto simp: plan_defs)
qed (auto simp: desired.emitted_admissible acquiring.emitted_admissible renewing.emitted_admissible
    releasing.emitted_admissible blocking.emitted_admissible unblocking.emitted_admissible
    ensuring.emitted_admissible polling.emitted_admissible retrying.emitted_admissible
    clearing.emitted_admissible diagnosing.emitted_admissible undiagnosing.emitted_admissible)

lemma history_admissible: "admissible rec (history sha cid ops rec)"
  by (induction ops arbitrary: rec) (simp_all add: admissible_append emits_admissible)

section \<open>The files follow the history\<close>

lemma stored_rewrite:
  assumes "stored env fs r0 h cur"
  shows "stored env (writeController env cur fs) r0 h cur"
proof -
  obtain h0 p l where "h = h0 @ p @ l" "generations env fs h0 p l" "applyAll r0 h = Inr cur" "ct_Revision r0 = 0"
    using assms unfolding stored_def snapshotAt_def by blast
  then show ?thesis using stored_write[of env fs h0 p l r0 cur] by simp
qed

lemma recover_refines:
  assumes stored: "stored env fs r0 h cur"
    and js: "jsonLaws (cn_Encode env) (cn_Decode env) (set (emitted sha cid (now, OpRecover) cur))"
  shows "\<exists>fs'. recoverFiles env now cid fs = (Inr (after cur (emitted sha cid (now, OpRecover) cur), True), fs') \<and>
    stored env fs' r0 (h @ emitted sha cid (now, OpRecover) cur) (after cur (emitted sha cid (now, OpRecover) cur))"
proof -
  obtain n where load: "loadController env cid fs = (Inr (cur, n), fs)" and some: "cf_Snapshot fs \<noteq> None"
    using stored_load[OF stored] .
  show ?thesis
  proof (cases "leaseExpired now (ct_Leader cur)")
    case True
    let ?e = "leaderExpiredEvent (ct_Revision cur + 1) now leaderRecoveryReason (the (ct_Leader cur))"
    have ev: "emitted sha cid (now, OpRecover) cur = [?e]" using True by simp
    have adm: "admissible cur [?e]" using emits_admissible[of cur sha cid "(now, OpRecover)"] ev by simp
    then have red: "applyAll cur [?e] = Inr (after cur [?e])" by (rule admissible_applies)
    have "numbered (ct_Revision cur) [?e]" by (simp add: leaderExpiredEvent_def)
    from stored_append[OF stored this js[unfolded ev] red] obtain h0 p l where
      parts: "h @ [?e] = h0 @ p @ l" "generations env (appendControllerEvents env [?e] fs) h0 p l"
        "applyAll r0 (h0 @ p @ l) = Inr (after cur [?e])" "ct_Revision r0 = 0" .
    have one: "applyControllerEvent cur ?e = Inr (after cur [?e])" using red by (auto simp: bindE_eq_Inr_iff)
    show ?thesis
      using stored_write[OF parts(2-4)] some load True
      by (simp add: recoverFiles_def Let_def one ev parts(1)[symmetric])
  next
    case False
    then have ev: "emitted sha cid (now, OpRecover) cur = []" by simp
    show ?thesis
      using stored stored_rewrite[OF stored] some load False by (simp add: recoverFiles_def ev del: emitted.simps)
  qed
qed

lemma perform_refines:
  assumes valid: "validateControllerID cid = Inr ()" and stored: "stored env (dirOf cid st) r0 h cur"
    and js: "jsonLaws (cn_Encode env) (cn_Decode env) (set (emitted sha cid op cur))"
  shows "stored env (dirOf cid (perform sha env cid op st)) r0 (h @ emitted sha cid op cur) (after cur (emitted sha cid op cur))"
proof -
  obtain n where load: "loadController env cid (dirOf cid st) = (Inr (cur, n), dirOf cid st)"
    and some: "cf_Snapshot (dirOf cid st) \<noteq> None"
    using stored_load[OF stored] .
  obtain now act where op: "op = (now, act)" by (cases op)
  show ?thesis
  proof (cases act)
    case (OpSetDesired d reason)
    then show ?thesis
      using desired.run_refines(2)[OF valid stored, of now d reason] js stored valid
      by (auto simp: op SetDesiredState_def require_def)
  next
    case (OpAcquire leaseID ownerID)
    then show ?thesis
      using acquiring.run_refines(2)[OF valid stored, of now leaseID cid ownerID] js by (simp add: op AcquireLease_def)
  next
    case (OpRenew leaseID e)
    then show ?thesis using renewing.run_refines(2)[OF valid stored, of now leaseID e] js by (simp add: op RenewLease_def)
  next
    case (OpRelease leaseID e)
    then show ?thesis
      using releasing.run_refines(2)[OF valid stored, of now cid leaseID e] js by (simp add: op ReleaseLease_def)
  next
    case (OpWithLeader leaseID e)
    have none: "emittedBy (leaderPlan now leaseID e (Inr ())) cur = []"
      by (simp add: emittedBy_def leaderPlan_def)
    with OpWithLeader show ?thesis
      using leading.run_refines(2)[OF valid stored, of now leaseID e "Inr ()"] js some valid
      by (auto simp: op WithLeader_def)
  next
    case (OpBlock reason detail)
    then show ?thesis
      using blocking.run_refines(2)[OF valid stored, of now reason detail] js by (simp add: op RecordCapacityBlocked_def)
  next
    case OpUnblock
    then show ?thesis using unblocking.run_refines(2)[OF valid stored, of now] js by (simp add: op ClearCapacityBlocked_def)
  next
    case (OpEnsure cursor t)
    then show ?thesis using ensuring.run_refines(2)[OF valid stored, of now cursor t] js by (simp add: op EnsurePollCursor_def)
  next
    case (OpCommitPoll cursor t)
    then show ?thesis
      using polling.run_refines(2)[OF valid stored, of sha now cid t cursor] js by (simp add: op CommitPoll_def)
  next
    case (OpRetry cursor t k)
    then show ?thesis
      using retrying.run_refines(2)[OF valid stored, of now cursor t k] js by (simp add: op SchedulePollRetry_def)
  next
    case (OpClearCursor cursor)
    then show ?thesis using clearing.run_refines(2)[OF valid stored, of now cursor] js by (simp add: op ClearPollCursor_def)
  next
    case (OpDiagnose kind name detail)
    then show ?thesis
      using diagnosing.run_refines(2)[OF valid stored, of now kind name detail] js stored valid
      by (auto simp: op RecordDiagnostic_def require_def)
  next
    case (OpClearDiagnostic kind name)
    then show ?thesis
      using undiagnosing.run_refines(2)[OF valid stored, of now kind name] js by (simp add: op ClearDiagnostic_def)
  next
    case OpRecover
    then show ?thesis
      using recover_refines[OF stored, of sha cid now] js some by (auto simp: op recoverController_def simp del: emitted.simps)
  next
    case OpGet
    then show ?thesis using stored load some valid by (auto simp: op GetController_def)
  qed
qed

lemma performs_refines:
  assumes "validateControllerID cid = Inr ()" and "stored env (dirOf cid st) r0 h cur"
    and "jsonLaws (cn_Encode env) (cn_Decode env) (set (history sha cid ops cur))"
  shows "stored env (dirOf cid (performs sha env cid ops st)) r0 (h @ history sha cid ops cur) (after cur (history sha cid ops cur))"
  using assms(2,3)
proof (induction ops arbitrary: st h cur)
  case (Cons op ops)
  let ?evs = "emitted sha cid op cur"
  have js: "jsonLaws (cn_Encode env) (cn_Decode env) (set ?evs)"
    "jsonLaws (cn_Encode env) (cn_Decode env) (set (history sha cid ops (after cur ?evs)))"
    using Cons.prems(2) by (simp_all add: jsonLaws_Un)
  have "admissible cur (?evs @ history sha cid ops (after cur ?evs))" using history_admissible[of cur sha cid "op # ops"] by simp
  from after_append[OF this] Cons.IH[OF perform_refines[OF assms(1) Cons.prems(1) js(1)] js(2)]
  show ?case by (simp add: performs_def)
qed (simp add: performs_def)

text \<open>The first events of a controller.\<close>

definition newController :: "gotime \<Rightarrow> string \<Rightarrow> int \<Rightarrow> controller_record" where
  "newController now cid maxInflight =
     zeroController\<lparr>ct_SchemaVersion := SchemaVersion, ct_ControllerID := cid, ct_DesiredState := DesiredDisabled,
       ct_MaxInflight := maxInflight, ct_CreatedAt := now, ct_UpdatedAt := now\<rparr>"

definition createdEvent :: "gotime \<Rightarrow> int \<Rightarrow> controller_event" where
  "createdEvent now maxInflight = (controllerEvent EventCreated 1 now)\<lparr>cv_MaxInflight := maxInflight\<rparr>"

definition createdRecord :: "gotime \<Rightarrow> string \<Rightarrow> int \<Rightarrow> controller_record" where
  "createdRecord now cid maxInflight = (newController now cid maxInflight)\<lparr>ct_Revision := 1\<rparr>"

lemma create_stored:
  assumes "validateControllerID cid = Inr ()" and "0 < m" and "dirOf cid st = noFiles"
    and "jsonLaws (cn_Encode env) (cn_Decode env) {createdEvent now m}"
  shows "fst (CreateController env now cid m st) = Inr (createdRecord now cid m)"
    and "stored env (dirOf cid (snd (CreateController env now cid m st))) (newController now cid m)
           [createdEvent now m] (createdRecord now cid m)"
proof -
  let ?r0 = "newController now cid m" and ?e = "createdEvent now m" and ?rec = "createdRecord now cid m"
  have red: "applyAll ?r0 [?e] = Inr ?rec"
    by (simp add: newController_def createdEvent_def createdRecord_def applyControllerEvent_def zeroController_def
        controllerEvent_def)
  have gen: "generations env (appendControllerEvents env [?e] noFiles) [] [] [?e]"
    using assms(4) by (simp add: generations_def appendControllerEvents_def noFiles_def createdEvent_def)
  have rev: "ct_Revision ?r0 = 0" by (simp add: newController_def zeroController_def)
  have com: "commitController env ?r0 [?e] noFiles = (Inr ?rec, writeController env ?rec (appendControllerEvents env [?e] noFiles))"
    using red by (simp add: commitController_def)
  have run: "CreateController env now cid m st =
      (Inr ?rec, notifyChange (putDir cid (writeController env ?rec (appendControllerEvents env [?e] noFiles)) st))"
    using assms(1,2) com unfolding newController_def createdEvent_def
    by (simp add: CreateController_def require_def assms(3) noFiles_def Let_def)
  show "fst (CreateController env now cid m st) = Inr ?rec" by (simp add: run)
  show "stored env (dirOf cid (snd (CreateController env now cid m st))) ?r0 [?e] ?rec"
    using stored_write[of env _ "[]" "[]" "[?e]" ?r0 ?rec] gen red rev by (simp add: run)
qed

end
