(* ===== verification/Wc_LeaderSafety.thy ===== *)
theory Wc_LeaderSafety
  imports Wc_Operations
begin

text \<open>
  The safety of a controller's leadership and the exactness of its recovery, for every run of
  operations since the controller was created.
\<close>

section \<open>Grants\<close>

text \<open>The grants in a history, and the record's view of them.\<close>

definition grants :: "controller_event list \<Rightarrow> controller_event list" where
  "grants h = filter (\<lambda>e. cv_Kind e = EventLeaderAcquired) h"

lemma grants_simps [simp]:
  "grants [] = []" "grants (xs @ ys) = grants xs @ grants ys"
  "grants (e # es) = (if cv_Kind e = EventLeaderAcquired then e # grants es else grants es)"
  by (simp_all add: grants_def)

definition leaderInv :: "controller_event list \<Rightarrow> controller_record \<Rightarrow> bool" where
  "leaderInv h rec \<longleftrightarrow>
     map cv_OwnerEpoch (grants h) = map int [1..<Suc (length (grants h))] \<and>
     ct_OwnerEpoch rec = int (length (grants h)) \<and>
     (case ct_Leader rec of
        None \<Rightarrow> True
      | Some l \<Rightarrow> grants h \<noteq> [] \<and> ll_LeaseID l = cv_LeaseID (last (grants h)) \<and> ll_OwnerEpoch l = ct_OwnerEpoch rec)"

lemma apply_keeps_leader:
  assumes "applyControllerEvent rec e = Inr u" and "cv_Kind e \<noteq> EventCreated" and "cv_Kind e \<noteq> EventLeaderAcquired"
  shows "ct_OwnerEpoch u = ct_OwnerEpoch rec"
    and "ct_Leader u = Some l' \<Longrightarrow> \<exists>l. ct_Leader rec = Some l \<and> ll_LeaseID l' = ll_LeaseID l \<and> ll_OwnerEpoch l' = ll_OwnerEpoch l"
  using assms by (cases "cv_Kind e"; auto simp: applyControllerEvent_def storeCursor_def Let_def split: option.splits if_splits)+

lemma apply_grant:
  assumes "applyControllerEvent rec e = Inr u" and "cv_Kind e = EventLeaderAcquired"
  shows "ct_OwnerEpoch u = cv_OwnerEpoch e"
    and "\<exists>l. ct_Leader u = Some l \<and> ll_LeaseID l = cv_LeaseID e \<and> ll_OwnerEpoch l = cv_OwnerEpoch e"
  using assms by (auto simp: applyControllerEvent_def Let_def)

lemma leaderInv_step:
  assumes "leaderInv h rec" and "admissible rec [e]"
  shows "leaderInv (h @ [e]) (after rec [e])"
proof -
  obtain u where u: "applyControllerEvent rec e = Inr u" and "cv_Kind e \<noteq> EventCreated"
    and grant: "cv_Kind e = EventLeaderAcquired \<Longrightarrow> cv_OwnerEpoch e = ct_OwnerEpoch rec + 1"
    using assms(2) by (auto split: sum.splits)
  then have after: "after rec [e] = u" by (simp add: after_def)
  show ?thesis
  proof (cases "cv_Kind e = EventLeaderAcquired")
    case True
    with apply_grant[OF u] grant assms(1) show ?thesis by (auto simp: after leaderInv_def)
  next
    case False
    with apply_keeps_leader[OF u \<open>cv_Kind e \<noteq> EventCreated\<close>] assms(1) show ?thesis
      by (cases "ct_Leader u") (force simp: after leaderInv_def)+
  qed
qed

lemma leaderInv_run: "leaderInv h rec \<Longrightarrow> admissible rec es \<Longrightarrow> leaderInv (h @ es) (after rec es)"
proof (induction es arbitrary: h rec)
  case (Cons e es)
  have adm: "admissible rec ([e] @ es)" using Cons.prems(2) by simp
  then have "admissible rec [e]" "admissible (after rec [e]) es" by (simp_all only: admissible_append)
  with Cons.IH[of "h @ [e]" "after rec [e]"] leaderInv_step[OF Cons.prems(1)] after_append[OF adm]
  show ?case by simp
qed simp

lemma leaderInv_created: "leaderInv [createdEvent now m] (createdRecord now cid m)"
  by (simp add: leaderInv_def createdEvent_def createdRecord_def newController_def zeroController_def controllerEvent_def)

section \<open>Runs since the creation\<close>

text \<open>
  \<open>runFrom sha env cid t0 m st ops\<close>: the store after the controller was created in \<open>st\<close> and \<open>ops\<close> ran on it;
  \<open>fullHistory\<close> is what they emitted and \<open>current\<close> the record after it.
\<close>

definition runFrom ::
  "(string \<Rightarrow> string) \<Rightarrow> ctl_env \<Rightarrow> string \<Rightarrow> gotime \<Rightarrow> int \<Rightarrow> controller_store \<Rightarrow> (gotime \<times> ctl_op) list \<Rightarrow> controller_store" where
  "runFrom sha env cid t0 m st ops = performs sha env cid ops (snd (CreateController env t0 cid m st))"

definition fullHistory :: "(string \<Rightarrow> string) \<Rightarrow> string \<Rightarrow> gotime \<Rightarrow> int \<Rightarrow> (gotime \<times> ctl_op) list \<Rightarrow> controller_event list" where
  "fullHistory sha cid t0 m ops = createdEvent t0 m # history sha cid ops (createdRecord t0 cid m)"

definition current :: "(string \<Rightarrow> string) \<Rightarrow> string \<Rightarrow> gotime \<Rightarrow> int \<Rightarrow> (gotime \<times> ctl_op) list \<Rightarrow> controller_record" where
  "current sha cid t0 m ops =
     after (createdRecord t0 cid m) (history sha cid ops (createdRecord t0 cid m))"

lemma run_stored:
  assumes "validateControllerID cid = Inr ()" and "0 < m" and "dirOf cid st = noFiles"
    and "jsonLaws (cn_Encode env) (cn_Decode env) (set (fullHistory sha cid t0 m ops))"
  shows "stored env (dirOf cid (runFrom sha env cid t0 m st ops)) (newController t0 cid m)
    (fullHistory sha cid t0 m ops) (current sha cid t0 m ops)"
proof -
  have js: "jsonLaws (cn_Encode env) (cn_Decode env) {createdEvent t0 m}"
    "jsonLaws (cn_Encode env) (cn_Decode env) (set (history sha cid ops (createdRecord t0 cid m)))"
    using assms(4) by (auto simp: fullHistory_def intro: jsonLaws_mono)
  show ?thesis
    using performs_refines[OF assms(1) create_stored(2)[OF assms(1-3) js(1)] js(2)]
    by (simp add: runFrom_def fullHistory_def current_def)
qed

lemma run_leaderInv: "leaderInv (fullHistory sha cid t0 m ops) (current sha cid t0 m ops)"
  using leaderInv_run[OF leaderInv_created history_admissible]
  by (simp add: fullHistory_def current_def)

lemma history_append:
  "history sha cid (ops @ ops') rec =
     history sha cid ops rec @ history sha cid ops' (after rec (history sha cid ops rec))"
proof (induction ops arbitrary: rec)
  case (Cons op ops)
  have "admissible rec (emitted sha cid op rec @ history sha cid ops (after rec (emitted sha cid op rec)))"
    using history_admissible[of rec sha cid "op # ops"] by simp
  from after_append[OF this] Cons.IH show ?case by simp
qed simp

lemma run_append:
  "fullHistory sha cid t0 m (ops @ ops') =
     fullHistory sha cid t0 m ops @ history sha cid ops' (current sha cid t0 m ops)"
  by (simp add: fullHistory_def current_def history_append)

section \<open>What the guard accepts\<close>

lemma leader_run:
  assumes "validateControllerID cid = Inr ()" and "stored env (dirOf cid st) r0 h cur"
  shows "fst (WithLeader env now cid leaseID e fn st) = answerOf (leaderPlan now leaseID e fn) cur"
proof -
  obtain n where "cf_Snapshot (dirOf cid st) \<noteq> None" using stored_load[OF assms(2)] .
  moreover have "emittedBy (leaderPlan now leaseID e fn) cur = []" by (simp add: emittedBy_def leaderPlan_def)
  ultimately show ?thesis
    using leading.run_refines(1)[OF assms, of now leaseID e fn] assms(1)
    by (auto simp: WithLeader_def jsonLaws_def)
qed

definition leads :: "controller_record \<Rightarrow> gotime \<Rightarrow> string \<Rightarrow> int \<Rightarrow> bool" where
  "leads rec now leaseID e \<longleftrightarrow>
     ct_DesiredState rec = DesiredEnabled \<and> ct_OwnerEpoch rec = e \<and>
     (\<exists>l. ct_Leader rec = Some l \<and> ll_LeaseID l = leaseID \<and> ll_OwnerEpoch l = e \<and> now \<le> ll_ExpiresAt l)"

lemma leader_answer:
  "answerOf (leaderPlan now leaseID e fn) rec = (if leads rec now leaseID e then fn else Inl ErrNotLeader)"
  by (auto simp: answerOf_def leaderPlan_def leads_def checkLeaseCAS_def require_def leaseExpired_def After_def
      split: option.splits)

lemma leads_inv:
  assumes "leaderInv h rec" and "leads rec now leaseID e"
  shows "e = int (length (grants h))" and "grants h \<noteq> []" and "leaseID = cv_LeaseID (last (grants h))"
  using assms by (auto simp: leaderInv_def leads_def)

lemma run_leader:
  assumes "validateControllerID cid = Inr ()" and "0 < m" and "dirOf cid st = noFiles"
    and "jsonLaws (cn_Encode env) (cn_Decode env) (set (fullHistory sha cid t0 m ops))"
  shows "fst (WithLeader env now cid leaseID e fn (runFrom sha env cid t0 m st ops)) =
    (if leads (current sha cid t0 m ops) now leaseID e then fn else Inl ErrNotLeader)"
  using leader_run[OF assms(1) run_stored[OF assms], of now leaseID e fn] by (simp add: leader_answer)

text \<open>
  C29: fencing. Let a controller be created and let any operations run on it, restarts and recoveries
  included. If the pair \<open>(l1, e1)\<close> passes the leader guard after some of them and the pair \<open>(l2, e2)\<close>
  after more, then the epochs differ by exactly the number of grants in between; with no grant in
  between it is the same lease. So a holder that lost the lease never passes the guard again.
\<close>

theorem leader_fencing:
  assumes "validateControllerID cid = Inr ()" and "0 < m" and "dirOf cid st = noFiles"
    and "jsonLaws (cn_Encode env) (cn_Decode env) (set (fullHistory sha cid t0 m (ops1 @ ops2)))"
    and "fst (WithLeader env t1 cid l1 e1 (Inr x1) (runFrom sha env cid t0 m st ops1)) = Inr y1"
    and "fst (WithLeader env t2 cid l2 e2 (Inr x2) (runFrom sha env cid t0 m st (ops1 @ ops2))) = Inr y2"
  shows "e2 = e1 + int (length (grants (history sha cid ops2 (current sha cid t0 m ops1)))) \<and> (e1 = e2 \<longrightarrow> l1 = l2)"
proof -
  have js: "jsonLaws (cn_Encode env) (cn_Decode env) (set (fullHistory sha cid t0 m ops1))"
    using assms(4) by (auto simp: run_append intro: jsonLaws_mono)
  have "leads (current sha cid t0 m ops1) t1 l1 e1"
    using assms(5) run_leader[OF assms(1-3) js, of t1 l1 e1 "Inr x1"] by (auto split: if_splits)
  note first = leads_inv[OF run_leaderInv this]
  have "leads (current sha cid t0 m (ops1 @ ops2)) t2 l2 e2"
    using assms(6) run_leader[OF assms(1-4), of t2 l2 e2 "Inr x2"] by (auto split: if_splits)
  note second = leads_inv[OF run_leaderInv this]
  show ?thesis
    using first second by (auto simp: run_append)
qed

lemma current_append:
  "current sha cid t0 m (ops @ ops') =
     after (current sha cid t0 m ops) (history sha cid ops' (current sha cid t0 m ops))"
  using after_append[OF history_admissible[of "createdRecord t0 cid m" sha cid "ops @ ops'", unfolded history_append]]
  by (simp add: current_def history_append)

lemma runFrom_snoc: "runFrom sha env cid t0 m st (ops @ [op]) = perform sha env cid op (runFrom sha env cid t0 m st ops)"
  by (simp add: runFrom_def performs_def)

lemma acquire_answer:
  assumes "leaderInv h rec"
  shows "(\<exists>rec'. answerOf (acquirePlan now leaseID cid owner) rec = Inr (rec', True)) \<longleftrightarrow>
      ct_DesiredState rec = DesiredEnabled \<and> (\<forall>l e. \<not> leads rec now l e)"
  using assms by (auto simp: answerOf_def acquirePlan_def leads_def leaseExpired_def After_def leaderInv_def
      split: option.splits)

lemma acquired_record:
  assumes "ct_DesiredState rec = DesiredEnabled" and "\<forall>l e. \<not> leads rec now l e" and "leaderInv h rec"
  shows "leads (after rec (emittedBy (acquirePlan now leaseID cid owner) rec)) t l e \<longleftrightarrow>
    l = leaseID \<and> e = ct_OwnerEpoch rec + 1 \<and> t \<le> now + LeaseTTL"
proof -
  have "ct_Leader rec = None \<or> leaseExpired now (ct_Leader rec)"
    using assms by (auto simp: leads_def leaseExpired_def After_def leaderInv_def split: option.splits)
  then show ?thesis
    using assms(1) by (auto simp: emittedBy_def acquirePlan_def after_def applyControllerEvent_def leads_def
        leaderExpiredEvent_def leaseExpired_def)
qed

lemma no_leader_later:
  "\<forall>l e. \<not> leads rec now l e \<Longrightarrow> now \<le> t \<Longrightarrow> \<not> leads rec t l e"
  by (fastforce simp: leads_def)

text \<open>
  Leadership is granted exactly when it is free. On an enabled controller a request is granted exactly when
  no pair passes the leader guard at that moment. Then none of the pairs before passes it at any later
  time either, and the new pair does, with the next epoch, for the duration of the lease.
\<close>

theorem lease_granted_when_free:
  assumes "validateControllerID cid = Inr ()" and "0 < m" and "dirOf cid st0 = noFiles"
    and js: "jsonLaws (cn_Encode env) (cn_Decode env) (set (fullHistory sha cid t0 m (ops @ [(now, OpAcquire leaseID owner)])))"
    and st: "st = runFrom sha env cid t0 m st0 ops" and rec: "rec = current sha cid t0 m ops"
    and run: "AcquireLease env now leaseID cid owner st = (answer, st')"
  shows "((\<exists>rec'. answer = Inr (rec', True)) \<longleftrightarrow>
      ct_DesiredState rec = DesiredEnabled \<and> (\<forall>l e. fst (WithLeader env now cid l e (Inr ()) st) \<noteq> Inr ())) \<and>
    ((\<exists>rec'. answer = Inr (rec', True)) \<longrightarrow>
      (\<forall>t l e. now \<le> t \<longrightarrow> fst (WithLeader env t cid l e (Inr ()) st) \<noteq> Inr ()) \<and>
      (\<forall>t l e. fst (WithLeader env t cid l e (Inr ()) st') = Inr () \<longleftrightarrow>
         l = leaseID \<and> e = ct_OwnerEpoch rec + 1 \<and> t \<le> now + LeaseTTL))"
proof -
  let ?op = "(now, OpAcquire leaseID owner)"
  have js0: "jsonLaws (cn_Encode env) (cn_Decode env) (set (fullHistory sha cid t0 m ops))"
    using js by (auto simp: run_append intro: jsonLaws_mono)
  have js1: "jsonLaws (cn_Encode env) (cn_Decode env) (set (emittedBy (acquirePlan now leaseID cid owner) rec))"
    using js by (auto simp: run_append rec intro: jsonLaws_mono)
  have inv: "leaderInv (fullHistory sha cid t0 m ops) rec" unfolding rec by (rule run_leaderInv)
  have before: "fst (WithLeader env t cid l e (Inr ()) st) = Inr () \<longleftrightarrow> leads rec t l e" for t l e
    using run_leader[OF assms(1-3) js0, of t l e "Inr ()"] by (simp add: st rec)
  have answer: "answer = answerOf (acquirePlan now leaseID cid owner) rec"
    using acquiring.run_refines(1)[OF assms(1) run_stored[OF assms(1-3) js0], of now leaseID cid owner] js1 run
    by (simp add: AcquireLease_def st rec)
  have "st' = runFrom sha env cid t0 m st0 (ops @ [?op])" using run by (simp add: runFrom_snoc st)
  moreover have "current sha cid t0 m (ops @ [?op]) = after rec (emittedBy (acquirePlan now leaseID cid owner) rec)"
    by (simp add: current_append rec)
  ultimately have later: "fst (WithLeader env t cid l e (Inr ()) st') = Inr () \<longleftrightarrow>
      leads (after rec (emittedBy (acquirePlan now leaseID cid owner) rec)) t l e" for t l e
    using run_leader[OF assms(1-4), of t l e "Inr ()"] by simp
  have granted: "(\<exists>rec'. answer = Inr (rec', True)) \<longleftrightarrow>
      ct_DesiredState rec = DesiredEnabled \<and> (\<forall>l e. \<not> leads rec now l e)"
    unfolding answer by (rule acquire_answer[OF inv])
  show ?thesis
  proof (intro conjI impI allI)
    show "(\<exists>rec'. answer = Inr (rec', True)) \<longleftrightarrow>
        ct_DesiredState rec = DesiredEnabled \<and> (\<forall>l e. fst (WithLeader env now cid l e (Inr ()) st) \<noteq> Inr ())"
      unfolding before by (rule granted)
  next
    fix t l e
    assume "\<exists>rec'. answer = Inr (rec', True)" and "now \<le> t"
    then show "fst (WithLeader env t cid l e (Inr ()) st) \<noteq> Inr ()"
      unfolding before granted by (blast dest: no_leader_later)
  next
    fix t l e
    assume "\<exists>rec'. answer = Inr (rec', True)"
    then show "fst (WithLeader env t cid l e (Inr ()) st') = Inr () \<longleftrightarrow>
        l = leaseID \<and> e = ct_OwnerEpoch rec + 1 \<and> t \<le> now + LeaseTTL"
      unfolding later granted using acquired_record[OF _ _ inv] by blast
  qed
qed

section \<open>Replay from older snapshots\<close>

lemma replay_any_snapshot:
  assumes "stored env fs r0 h cur"
  obtains k where "k \<le> length h" and "cf_Prev fs @ cf_Log fs = encLog (cn_Encode env) (drop k h)"
    and "\<And>s. s \<le> length h \<Longrightarrow>
      fst (loadController env cid (fs\<lparr>cf_Snapshot := Some (after r0 (take s h))\<rparr>)) =
        (if k \<le> s then Inr (cur, length h - s)
         else Inl (ErrLogHole [cid, intString (int s + 1), intString (int k), intString (int k + 1)]))"
proof -
  obtain h0 p l s0 where h: "h = h0 @ p @ l" and gen: "generations env fs h0 p l"
    and snap: "snapshotAt r0 h s0 fs" and cur: "applyAll r0 h = Inr cur"
    using assms by (auto simp: stored_def)
  have prefix: "applyAll r0 (take s h) = Inr (after r0 (take s h))" for s
    using cur foldE_append_Inr[of applyControllerEvent r0 "take s h" "drop s h" cur]
    by (auto simp: after_def)
  have "generations env (fs\<lparr>cf_Snapshot := Some (after r0 (take s h))\<rparr>) h0 p l" for s
    using gen by (simp add: generations_def)
  moreover have "snapshotAt r0 (h0 @ p @ l) s (fs\<lparr>cf_Snapshot := Some (after r0 (take s h))\<rparr>)" if "s \<le> length h" for s
    using that snap prefix[of s] unfolding h snapshotAt_def by (simp del: take_append)
  ultimately have "fst (loadController env cid (fs\<lparr>cf_Snapshot := Some (after r0 (take s h))\<rparr>)) =
      (if length h0 \<le> s then Inr (cur, length h - s)
       else Inl (ErrLogHole [cid, intString (int s + 1), intString (int (length h0)), intString (int (length h0) + 1)]))"
    if "s \<le> length h" for s
    using that load_exact[of env _ h0 p l r0 s cur cid] cur unfolding h by (simp del: take_append)
  moreover have "cf_Prev fs @ cf_Log fs = encLog (cn_Encode env) (drop (length h0) h)"
    using gen by (simp add: generations_def h encLog_append)
  ultimately show thesis using that[of "length h0"] h by simp
qed

text \<open>
  C30: replay is exact or refused. After any run of operations the two log generations hold the events from some
  number \<open>k\<close> on. Put back any earlier snapshot of the record, one after \<open>s\<close> events: if \<open>s\<close> is not
  below \<open>k\<close>, loading it replays to the current record, and otherwise it reports the hole with the
  missing range. In no case does it produce another record.
\<close>

theorem stale_snapshot_exact:
  assumes "validateControllerID cid = Inr ()" and "0 < m" and "dirOf cid st = noFiles"
    and "jsonLaws (cn_Encode env) (cn_Decode env) (set (fullHistory sha cid t0 m ops))"
    and h: "h = fullHistory sha cid t0 m ops" and fs: "fs = dirOf cid (runFrom sha env cid t0 m st ops)"
  shows "\<exists>k\<le>length h. cf_Prev fs @ cf_Log fs = encLog (cn_Encode env) (drop k h) \<and>
    (\<forall>s\<le>length h. fst (loadController env cid (fs\<lparr>cf_Snapshot := Some (after (newController t0 cid m) (take s h))\<rparr>)) =
      (if k \<le> s then Inr (current sha cid t0 m ops, length h - s)
       else Inl (ErrLogHole [cid, intString (int s + 1), intString (int k), intString (int k + 1)])))"
  using replay_any_snapshot[OF run_stored[OF assms(1-4), folded h fs]] by metis

section \<open>An example run\<close>

text \<open>A controller that is enabled, acquired, renewed, lost to a timeout and acquired again, with a tiny log limit.\<close>

definition demoControllerOps :: "(gotime \<times> ctl_op) list" where
  "demoControllerOps =
     [(10, OpSetDesired DesiredEnabled ''''), (20, OpAcquire ''lease_a'' ''host1''), (30, OpRenew ''lease_a'' 1)]"

definition demoControllerLater :: "(gotime \<times> ctl_op) list" where
  "demoControllerLater = [(40 + LeaseTTL, OpAcquire ''lease_b'' ''host2''), (50 + LeaseTTL, OpRenew ''lease_b'' 2)]"

definition demoControllerEncode :: "controller_event \<Rightarrow> raw" where
  "demoControllerEncode e = ''{'' @ intString (cv_Seq e) @ ''}''"

definition demoControllerHistory :: "controller_event list" where
  "demoControllerHistory = fullHistory id ''ctl'' 5 2 (demoControllerOps @ demoControllerLater)"

definition demoControllerEnv :: ctl_env where
  "demoControllerEnv =
     \<lparr>cn_Encode = demoControllerEncode,
      cn_Decode = (\<lambda>s. find (\<lambda>e. s = demoControllerEncode e \<or> s = demoControllerEncode e @ [nl]) demoControllerHistory),
      cn_CompactBytes = 9\<rparr>"

definition emptyStore :: controller_store where
  "emptyStore = \<lparr>cs_Dirs = [], cs_Subscribers = []\<rparr>"

lemma demo_controller_json:
  "jsonLaws (cn_Encode demoControllerEnv) (cn_Decode demoControllerEnv) (set demoControllerHistory)"
  unfolding jsonLaws_list by code_simp

lemma demo_controller_id: "validateControllerID ''ctl'' = Inr ()"
  by code_simp

lemma demo_controller_empty: "dirOf cid emptyStore = noFiles"
  by (simp add: dirOf_def emptyStore_def)

theorem leader_fencing_witness:
  "(2::int) = 1 + int (length (grants (history id ''ctl'' demoControllerLater (current id ''ctl'' 5 2 demoControllerOps))))"
proof -
  have js: "jsonLaws (cn_Encode demoControllerEnv) (cn_Decode demoControllerEnv)
      (set (fullHistory id ''ctl'' 5 2 (demoControllerOps @ demoControllerLater)))"
    using demo_controller_json by (simp add: demoControllerHistory_def)
  have "fst (WithLeader demoControllerEnv 35 ''ctl'' ''lease_a'' 1 (Inr ())
      (runFrom id demoControllerEnv ''ctl'' 5 2 emptyStore demoControllerOps)) = Inr ()" by code_simp
  moreover have "fst (WithLeader demoControllerEnv (60 + LeaseTTL) ''ctl'' ''lease_b'' 2 (Inr ())
      (runFrom id demoControllerEnv ''ctl'' 5 2 emptyStore (demoControllerOps @ demoControllerLater))) = Inr ()" by code_simp
  ultimately show ?thesis
    using leader_fencing[OF demo_controller_id _ demo_controller_empty js, of 35 "''lease_a''" 1 "()" "()" "60 + LeaseTTL" "''lease_b''" 2 "()" "()"]
    by simp
qed

theorem lease_granted_when_free_witness:
  "fst (WithLeader demoControllerEnv (50 + LeaseTTL) ''ctl'' ''lease_a'' 1 (Inr ())
     (runFrom id demoControllerEnv ''ctl'' 5 2 emptyStore demoControllerOps)) \<noteq> Inr ()"
proof -
  let ?st = "runFrom id demoControllerEnv ''ctl'' 5 2 emptyStore demoControllerOps"
  let ?run = "AcquireLease demoControllerEnv (40 + LeaseTTL) ''lease_b'' ''ctl'' ''host2'' ?st"
  have "set (fullHistory id ''ctl'' 5 2 (demoControllerOps @ [(40 + LeaseTTL, OpAcquire ''lease_b'' ''host2'')])) \<subseteq>
      set demoControllerHistory"
    unfolding demoControllerHistory_def demoControllerLater_def by (auto simp: run_append)
  then have js: "jsonLaws (cn_Encode demoControllerEnv) (cn_Decode demoControllerEnv)
      (set (fullHistory id ''ctl'' 5 2 (demoControllerOps @ [(40 + LeaseTTL, OpAcquire ''lease_b'' ''host2'')])))"
    by (rule jsonLaws_mono[OF demo_controller_json])
  have "(case fst ?run of Inl _ \<Rightarrow> False | Inr (_, granted) \<Rightarrow> granted)" by code_simp
  then have "\<exists>rec'. fst ?run = Inr (rec', True)" by (auto split: sum.splits)
  then have "\<forall>t l e. 40 + LeaseTTL \<le> t \<longrightarrow> fst (WithLeader demoControllerEnv t ''ctl'' l e (Inr ()) ?st) \<noteq> Inr ()"
    using lease_granted_when_free[OF demo_controller_id _ demo_controller_empty js refl refl prod.collapse[symmetric]] by simp
  then show ?thesis by simp
qed

theorem stale_snapshot_exact_witness:
  "\<exists>k\<le>7. list_all (\<lambda>s. fst (loadController demoControllerEnv ''ctl''
       ((dirOf ''ctl'' (runFrom id demoControllerEnv ''ctl'' 5 2 emptyStore (demoControllerOps @ demoControllerLater)))
          \<lparr>cf_Snapshot := Some (after (newController 5 ''ctl'' 2) (take s demoControllerHistory))\<rparr>)) =
     (if k \<le> s then Inr (current id ''ctl'' 5 2 (demoControllerOps @ demoControllerLater), 7 - s)
      else Inl (ErrLogHole [''ctl'', intString (int s + 1), intString (int k), intString (int k + 1)]))) [0..<8]"
proof -
  have js: "jsonLaws (cn_Encode demoControllerEnv) (cn_Decode demoControllerEnv)
      (set (fullHistory id ''ctl'' 5 2 (demoControllerOps @ demoControllerLater)))"
    using demo_controller_json by (simp add: demoControllerHistory_def)
  have len: "length demoControllerHistory = 7" by code_simp
  have two: "0 < (2::int)" by simp
  show ?thesis
    using stale_snapshot_exact[OF demo_controller_id two demo_controller_empty js refl refl]
    unfolding demoControllerHistory_def[symmetric] len list_all_iff by (elim exE conjE) (intro exI conjI, assumption, simp)
qed

end
