(* ===== verification/Wc_PollSafety.thy ===== *)
theory Wc_PollSafety
  imports Wc_LeaderSafety
begin

text \<open>
  The idempotency keys of external polls across crashes, and the bounds of the backoff schedule.
\<close>

section \<open>One cursor\<close>

definition cursorAt :: "string \<Rightarrow> controller_record \<Rightarrow> poll_cursor option" where
  "cursorAt key rec = map_of (ct_PollCursors rec) key"

lemma PollCursorKey_nonempty [simp]: "PollCursorKey c \<noteq> ''''" "'''' \<noteq> PollCursorKey c"
  by (simp_all add: PollCursorKey_def)

lemma PollCursorKey_carry [simp]: "PollCursorKey (carryIdentity cursor c) = PollCursorKey cursor"
  by (simp add: carryIdentity_def PollCursorKey_def)

lemma after_single: "applyControllerEvent rec e = Inr u \<Longrightarrow> after rec [e] = u"
  by (simp add: after_def)

lemma stored_cursor: "cursorAt (PollCursorKey cursor) rec = Some c \<Longrightarrow> storedCursor rec cursor = c"
  by (simp add: cursorAt_def storedCursor_def)

text \<open>The events that are not about cursors leave every cursor as it is.\<close>

lemma apply_keeps_cursors:
  "applyControllerEvent rec e = Inr u \<Longrightarrow> cv_Kind e \<notin> {EventPollCommitted, EventPollScheduled, EventPollCleared} \<Longrightarrow>
   ct_PollCursors u = ct_PollCursors rec"
  by (cases "cv_Kind e") (auto simp: applyControllerEvent_def Let_def)

lemma run_keeps_cursors:
  "admissible rec es \<Longrightarrow> \<forall>e\<in>set es. cv_Kind e \<notin> {EventPollCommitted, EventPollScheduled, EventPollCleared} \<Longrightarrow>
   ct_PollCursors (after rec es) = ct_PollCursors rec"
proof (induction es arbitrary: rec)
  case (Cons e es)
  then obtain u where u: "applyControllerEvent rec e = Inr u" "admissible u es" by (auto split: sum.splits)
  with Cons after_Cons[OF Cons.prems(1) u(1)] apply_keeps_cursors[OF u(1)] show ?case by simp
qed simp

lemma other_kinds:
  "\<forall>e\<in>set (emittedBy (desiredPlan now d reason) rec). cv_Kind e \<notin> {EventPollCommitted, EventPollScheduled, EventPollCleared}"
  "\<forall>e\<in>set (emittedBy (acquirePlan now leaseID cid owner) rec). cv_Kind e \<notin> {EventPollCommitted, EventPollScheduled, EventPollCleared}"
  "\<forall>e\<in>set (emittedBy (renewPlan now leaseID ep) rec). cv_Kind e \<notin> {EventPollCommitted, EventPollScheduled, EventPollCleared}"
  "\<forall>e\<in>set (emittedBy (releasePlan now cid leaseID ep) rec). cv_Kind e \<notin> {EventPollCommitted, EventPollScheduled, EventPollCleared}"
  "\<forall>e\<in>set (emittedBy (blockPlan now reason detail) rec). cv_Kind e \<notin> {EventPollCommitted, EventPollScheduled, EventPollCleared}"
  "\<forall>e\<in>set (emittedBy (unblockCapacityPlan now) rec). cv_Kind e \<notin> {EventPollCommitted, EventPollScheduled, EventPollCleared}"
  "\<forall>e\<in>set (emittedBy (diagnosticPlan now kind name detail) rec). cv_Kind e \<notin> {EventPollCommitted, EventPollScheduled, EventPollCleared}"
  "\<forall>e\<in>set (emittedBy (clearDiagnosticPlan now kind name) rec). cv_Kind e \<notin> {EventPollCommitted, EventPollScheduled, EventPollCleared}"
  by (auto simp: emittedBy_def desiredPlan_def acquirePlan_def renewPlan_def releasePlan_def blockPlan_def
      unblockCapacityPlan_def diagnosticPlan_def clearDiagnosticPlan_def leaderReleasedEvent_def leaderExpiredEvent_def
      Let_def split: option.splits sum.splits if_splits)

text \<open>What each operation does to the cursor under \<open>key\<close>.\<close>

fun cursorAfter :: "(string \<Rightarrow> string) \<Rightarrow> string \<Rightarrow> string \<Rightarrow> controller_record \<Rightarrow> ctl_op \<Rightarrow> poll_cursor option" where
  "cursorAfter sha cid key rec (OpCommitPoll cursor t) =
     (if PollCursorKey cursor = key then Some (committedCursor sha cid t rec cursor) else cursorAt key rec)"
| "cursorAfter sha cid key rec (OpRetry cursor t n) =
     (let c = storedCursor rec cursor in
      if PollCursorKey cursor \<noteq> key \<or> pc_NextPollAt c = t \<and> pc_RetryCount c = n then cursorAt key rec
      else Some ((carryIdentity cursor c)\<lparr>pc_NextPollAt := t, pc_RetryCount := n\<rparr>))"
| "cursorAfter sha cid key rec (OpEnsure cursor t) =
     (if PollCursorKey cursor = key \<and> cursorAt key rec = None then Some (cursor\<lparr>pc_NextPollAt := t\<rparr>) else cursorAt key rec)"
| "cursorAfter sha cid key rec (OpClearCursor cursor) =
     (if PollCursorKey cursor = key then None else cursorAt key rec)"
| "cursorAfter sha cid key rec _ = cursorAt key rec"

lemma cursor_step:
  "cursorAt key (after rec (emitted sha cid (now, op) rec)) = cursorAfter sha cid key rec op"
proof -
  have keeps: "\<forall>e\<in>set (emitted sha cid (now, op) rec). cv_Kind e \<notin> {EventPollCommitted, EventPollScheduled, EventPollCleared} \<Longrightarrow>
      cursorAt key (after rec (emitted sha cid (now, op) rec)) = cursorAt key rec"
    using run_keeps_cursors[OF emits_admissible] by (simp add: cursorAt_def)
  show ?thesis
  proof (cases op)
    case (OpCommitPoll cursor t)
    then show ?thesis
      by (auto simp: emittedBy_def commitPollPlan_def Let_def cursorEvent_def after_def applyControllerEvent_def
          storeCursor_def cursorAt_def)
  next
    case (OpRetry cursor t n)
    then show ?thesis
      by (auto simp: emittedBy_def retryPlan_def Let_def cursorEvent_def after_def applyControllerEvent_def
          storeCursor_def cursorAt_def)
  next
    case (OpEnsure cursor t)
    then show ?thesis
      by (auto simp: emittedBy_def ensurePlan_def Let_def cursorEvent_def after_def applyControllerEvent_def
          storeCursor_def cursorAt_def split: option.splits)
  next
    case (OpClearCursor cursor)
    then show ?thesis
      by (auto simp: emittedBy_def clearCursorPlan_def Let_def after_def applyControllerEvent_def cursorAt_def
          controllerEvent_def)
  next
    case OpRecover
    then show ?thesis using keeps by (simp add: leaderExpiredEvent_def)
  qed (use keeps other_kinds in auto)
qed

section \<open>Poll cycles\<close>

text \<open>
  The number of polls that a list of operations starts afresh under \<open>key\<close>, with one more commit at
  its end: a commit starts a new poll exactly when a retry was scheduled since the last one.
\<close>

fun cycles :: "string \<Rightarrow> bool \<Rightarrow> (gotime \<times> ctl_op) list \<Rightarrow> nat" where
  "cycles key scheduled [] = (if scheduled then 1 else 0)"
| "cycles key scheduled ((now, op) # ops) =
     (case op of
        OpRetry cursor t n \<Rightarrow> cycles key (scheduled \<or> PollCursorKey cursor = key) ops
      | OpCommitPoll cursor t \<Rightarrow>
          if PollCursorKey cursor = key then (if scheduled then 1 else 0) + cycles key False ops
          else cycles key scheduled ops
      | _ \<Rightarrow> cycles key scheduled ops)"

text \<open>The clock of a poll is never zero, and the cursor is not cleared.\<close>

fun keepsPolling :: "string \<Rightarrow> gotime \<times> ctl_op \<Rightarrow> bool" where
  "keepsPolling key (now, OpClearCursor cursor) = (PollCursorKey cursor \<noteq> key)"
| "keepsPolling key (now, OpCommitPoll cursor t) = (t \<noteq> 0)"
| "keepsPolling key (now, OpRetry cursor t n) = (t \<noteq> 0)"
| "keepsPolling key _ = True"

text \<open>The cursor after \<open>k\<close> polls were started since the one with count \<open>n1\<close> and id \<open>id1\<close>.\<close>

definition pollState :: "(string \<Rightarrow> string) \<Rightarrow> string \<Rightarrow> string \<Rightarrow> int \<Rightarrow> string \<Rightarrow> nat \<Rightarrow> bool \<Rightarrow> poll_cursor \<Rightarrow> bool" where
  "pollState sha cid key n1 id1 k scheduled c \<longleftrightarrow>
     pc_LastPollAt c \<noteq> 0 \<and> pc_PollID c \<noteq> '''' \<and> (scheduled \<longleftrightarrow> pc_NextPollAt c \<noteq> 0) \<and> PollCursorKey c = key \<and>
     pc_PollCount c = n1 + int k \<and>
     (if k = 0 then pc_PollID c = id1 else \<exists>x. PollCursorKey x = key \<and> pc_PollID c = DerivePollID sha cid x (n1 + int k))"

lemma DerivePollID_nonempty [simp]: "DerivePollID sha cid c n \<noteq> ''''"
  by (simp add: DerivePollID_def Let_def)

lemma PollCursorKey_update [simp]:
  "PollCursorKey (c\<lparr>pc_NextPollAt := t\<rparr>) = PollCursorKey c" "PollCursorKey (c\<lparr>pc_LastPollAt := t\<rparr>) = PollCursorKey c"
  "PollCursorKey (c\<lparr>pc_RetryCount := n\<rparr>) = PollCursorKey c" "PollCursorKey (c\<lparr>pc_PollCount := n\<rparr>) = PollCursorKey c"
  "PollCursorKey (c\<lparr>pc_PollID := i\<rparr>) = PollCursorKey c"
  by (simp_all add: PollCursorKey_def)

lemma carry_fields [simp]:
  "pc_LastPollAt (carryIdentity cursor c) = pc_LastPollAt c" "pc_NextPollAt (carryIdentity cursor c) = pc_NextPollAt c"
  "pc_PollCount (carryIdentity cursor c) = pc_PollCount c" "pc_PollID (carryIdentity cursor c) = pc_PollID c"
  "pc_RetryCount (carryIdentity cursor c) = pc_RetryCount c"
  by (simp_all add: carryIdentity_def)

lemma commit_state:
  assumes "cursorAt key rec = Some c" and "pollState sha cid key n1 id1 k scheduled c"
    and "PollCursorKey cursor = key" and "t \<noteq> 0"
  shows "pollState sha cid key n1 id1 (if scheduled then Suc k else k) False (committedCursor sha cid t rec cursor)"
proof -
  have c: "storedCursor rec cursor = c" using assms(1,3) stored_cursor by blast
  show ?thesis
  proof (cases scheduled)
    case True
    have count: "n1 + int k + 1 = n1 + int (Suc k)" by simp
    from True assms(2-4) show ?thesis
      by (auto simp: pollState_def committedCursor_def Let_def inFlight_def IsZero_def c count simp del: of_nat_Suc
          intro!: exI[of _ c])
  next
    case False
    with assms(2-4) show ?thesis
      by (auto simp: pollState_def committedCursor_def Let_def inFlight_def IsZero_def c)
  qed
qed

lemma cycles_state:
  assumes "\<forall>op\<in>set ops. keepsPolling key op"
    and "cursorAt key rec = Some c" and "pollState sha cid key n1 id1 k scheduled c"
    and "PollCursorKey cursor = key" and "t \<noteq> 0"
  shows "pollState sha cid key n1 id1 (k + cycles key scheduled ops) False
    (committedCursor sha cid t (after rec (history sha cid ops rec)) cursor)"
  using assms(1-3)
proof (induction ops arbitrary: rec c k scheduled)
  case Nil
  then show ?case using commit_state[OF Nil.prems(2,3) assms(4,5)] by (cases scheduled) simp_all
next
  case (Cons op ops)
  obtain now act where op: "op = (now, act)" by (cases op)
  let ?rec = "after rec (emitted sha cid op rec)"
  have run: "after rec (history sha cid (op # ops) rec) = after ?rec (history sha cid ops ?rec)"
    using after_append[of rec "emitted sha cid op rec" "history sha cid ops ?rec"] history_admissible[of rec sha cid "op # ops"]
    by simp
  have keep: "keepsPolling key (now, act)" "\<forall>op\<in>set ops. keepsPolling key op" using Cons.prems(1) op by auto
  have at: "cursorAt key ?rec = cursorAfter sha cid key rec act" unfolding op by (rule cursor_step)
  note IH = Cons.IH[OF keep(2), of ?rec]
  have same: "cursorAfter sha cid key rec act = cursorAt key rec \<Longrightarrow> ?case"
    if "cycles key scheduled (op # ops) = cycles key scheduled ops"
    using IH[of c k scheduled] Cons.prems(2,3) at that unfolding run by simp
  show ?case
  proof (cases act)
    case (OpCommitPoll cursor' t')
    show ?thesis
    proof (cases "PollCursorKey cursor' = key")
      case True
      have "t' \<noteq> 0" using keep(1) OpCommitPoll by simp
      note IH[OF _ commit_state[OF Cons.prems(2,3) True this]]
      with at True OpCommitPoll show ?thesis unfolding run by (cases scheduled) (simp_all add: op)
    qed (use same OpCommitPoll op in auto)
  next
    case (OpRetry cursor' t' n')
    show ?thesis
    proof (cases "PollCursorKey cursor' = key")
      case True
      have "t' \<noteq> 0" using keep(1) OpRetry by simp
      have c: "storedCursor rec cursor' = c" using Cons.prems(2) True stored_cursor by blast
      let ?c = "if pc_NextPollAt c = t' \<and> pc_RetryCount c = n' then c
        else (carryIdentity cursor' c)\<lparr>pc_NextPollAt := t', pc_RetryCount := n'\<rparr>"
      have "cursorAt key ?rec = Some ?c" using at OpRetry True c Cons.prems(2) by (auto simp: Let_def)
      moreover have "pollState sha cid key n1 id1 k True ?c"
        using Cons.prems(3) \<open>t' \<noteq> 0\<close> True by (auto simp: pollState_def)
      ultimately show ?thesis using IH[of ?c k True] True OpRetry unfolding run by (simp add: op)
    qed (use same OpRetry op in \<open>auto simp: Let_def\<close>)
  next
    case (OpEnsure cursor' t')
    then show ?thesis using same Cons.prems(2) op by auto
  next
    case (OpClearCursor cursor')
    then show ?thesis using same keep(1) op by auto
  qed (use same op in auto)
qed

lemma commit_run:
  assumes "validateControllerID cid = Inr ()" and "stored env (dirOf cid st) r0 h rec"
    and "jsonLaws (cn_Encode env) (cn_Decode env) (set (emitted sha cid (now, OpCommitPoll cursor t) rec))"
  shows "fst (CommitPoll sha env now cid cursor t st) = Inr (committedCursor sha cid t rec cursor)"
  using polling.run_refines(1)[OF assms(1,2), of sha now cid t cursor] assms(3)
  by (simp add: CommitPoll_def answerOf_def commitPollPlan_def Let_def)

text \<open>
  C31: poll ids survive crashes. Let a poll of one gate be committed, then any operations run that do not clear
  its cursor, then a poll of the same gate be committed again. The second poll counts as many polls more as
  retries were scheduled and committed in between. If there was none (the process crashed before the
  result landed, however often it committed the poll again), the poll id is the same; otherwise it is derived from the new count.
\<close>

theorem poll_ids_survive_crashes:
  assumes "validateControllerID cid = Inr ()" and "0 < m" and "dirOf cid st = noFiles"
    and js: "jsonLaws (cn_Encode env) (cn_Decode env) (set (fullHistory sha cid t0 m
      (ops1 @ [(now1, OpCommitPoll cur1 t1)] @ ops2 @ [(now2, OpCommitPoll cur2 t2)])))"
    and "PollCursorKey cur1 = key" and "PollCursorKey cur2 = key" and "t1 \<noteq> 0" and "t2 \<noteq> 0"
    and "\<forall>op\<in>set ops2. keepsPolling key op"
    and "fst (CommitPoll sha env now1 cid cur1 t1 (runFrom sha env cid t0 m st ops1)) = Inr c1"
    and "fst (CommitPoll sha env now2 cid cur2 t2
      (runFrom sha env cid t0 m st (ops1 @ [(now1, OpCommitPoll cur1 t1)] @ ops2))) = Inr c2"
  shows "pc_PollCount c2 = pc_PollCount c1 + int (cycles key False ops2) \<and>
    (if cycles key False ops2 = 0 then pc_PollID c2 = pc_PollID c1
     else \<exists>x. PollCursorKey x = key \<and> pc_PollID c2 = DerivePollID sha cid x (pc_PollCount c2))"
proof -
  let ?op1 = "(now1, OpCommitPoll cur1 t1)" and ?op2 = "(now2, OpCommitPoll cur2 t2)"
  let ?rec = "current sha cid t0 m ops1"
  let ?rec1 = "after ?rec (emitted sha cid ?op1 ?rec)"
  have cur2: "current sha cid t0 m (ops1 @ [?op1] @ ops2) = after ?rec1 (history sha cid ops2 ?rec1)"
    using current_append[of sha cid t0 m "ops1 @ [?op1]" ops2] current_append[of sha cid t0 m ops1 "[?op1]"] by simp
  have sub: "set (fullHistory sha cid t0 m ops) \<subseteq> set (fullHistory sha cid t0 m (ops @ ops'))" for ops ops'
    by (simp add: run_append)
  have js1: "jsonLaws (cn_Encode env) (cn_Decode env) (set (fullHistory sha cid t0 m ops1))"
    using jsonLaws_mono[OF js sub] .
  have js2: "jsonLaws (cn_Encode env) (cn_Decode env) (set (fullHistory sha cid t0 m (ops1 @ [?op1] @ ops2)))"
    using jsonLaws_mono[OF js] sub[of "ops1 @ [?op1] @ ops2" "[?op2]"] by simp
  have "set (emitted sha cid ?op1 ?rec) \<subseteq> set (fullHistory sha cid t0 m (ops1 @ [?op1]))"
    by (simp add: run_append)
  then have "set (emitted sha cid ?op1 ?rec) \<subseteq> set (fullHistory sha cid t0 m (ops1 @ [?op1] @ ops2))"
    using sub[of "ops1 @ [?op1]" ops2] unfolding append_assoc by (rule subset_trans)
  then have je1: "jsonLaws (cn_Encode env) (cn_Decode env) (set (emitted sha cid ?op1 ?rec))"
    by (rule jsonLaws_mono[OF js2])
  have "set (emitted sha cid ?op2 (current sha cid t0 m (ops1 @ [?op1] @ ops2))) \<subseteq>
      set (fullHistory sha cid t0 m ((ops1 @ [?op1] @ ops2) @ [?op2]))"
    by (subst run_append) simp
  then have je2: "jsonLaws (cn_Encode env) (cn_Decode env) (set (emitted sha cid ?op2 (current sha cid t0 m (ops1 @ [?op1] @ ops2))))"
    using jsonLaws_mono[OF js] by simp
  have c1: "c1 = committedCursor sha cid t1 ?rec cur1"
    using assms(10) commit_run[OF assms(1) run_stored[OF assms(1-3) js1] je1] by simp
  have "c2 = committedCursor sha cid t2 (current sha cid t0 m (ops1 @ [?op1] @ ops2)) cur2"
    using assms(11) commit_run[OF assms(1) run_stored[OF assms(1-3) js2] je2] by simp
  then have c2: "c2 = committedCursor sha cid t2 (after ?rec1 (history sha cid ops2 ?rec1)) cur2" by (simp only: cur2)
  have at: "cursorAt key ?rec1 = Some c1" using cursor_step[of key ?rec sha cid now1 "OpCommitPoll cur1 t1"] assms(5) c1 by simp
  have "pollState sha cid key (pc_PollCount c1) (pc_PollID c1) 0 False c1"
    using assms(5,7) unfolding c1
    by (auto simp: pollState_def committedCursor_def Let_def)
  from cycles_state[OF assms(9) at this assms(6,8)]
  have "pollState sha cid key (pc_PollCount c1) (pc_PollID c1) (cycles key False ops2) False c2" by (simp add: c2)
  then show ?thesis by (auto simp: pollState_def)
qed

definition demoCursor :: poll_cursor where
  "demoCursor = zeroCursor\<lparr>pc_WorkflowID := ''w'', pc_NodeID := ''n'', pc_ActivationID := ''a'', pc_GateID := ''g'', pc_SubjectHash := ''h''\<rparr>"

definition demoPollKey :: string where
  "demoPollKey = ''w/n/a/g/h''"

text \<open>Two commits with a restart in between, then a retry and a third.\<close>

definition demoPolls :: "(gotime \<times> ctl_op) list" where
  "demoPolls = [(12, OpRecover), (13, OpCommitPoll demoCursor 13), (14, OpRetry demoCursor 44 1)]"

definition demoPollHistory :: "controller_event list" where
  "demoPollHistory =
     fullHistory id ''ctl'' 5 2 ([(10, OpEnsure demoCursor 11)] @ [(11, OpCommitPoll demoCursor 11)] @ demoPolls @ [(45, OpCommitPoll demoCursor 45)])"

definition demoPollEnv :: ctl_env where
  "demoPollEnv =
     \<lparr>cn_Encode = demoControllerEncode,
      cn_Decode = (\<lambda>s. find (\<lambda>e. s = demoControllerEncode e \<or> s = demoControllerEncode e @ [nl]) demoPollHistory),
      cn_CompactBytes = 9\<rparr>"

theorem poll_ids_survive_crashes_witness:
  "case (fst (CommitPoll id demoPollEnv 11 ''ctl'' demoCursor 11 (runFrom id demoPollEnv ''ctl'' 5 2 emptyStore [(10, OpEnsure demoCursor 11)])),
         fst (CommitPoll id demoPollEnv 45 ''ctl'' demoCursor 45
           (runFrom id demoPollEnv ''ctl'' 5 2 emptyStore ([(10, OpEnsure demoCursor 11)] @ [(11, OpCommitPoll demoCursor 11)] @ demoPolls)))) of
     (Inr c1, Inr c2) \<Rightarrow> pc_PollCount c2 = pc_PollCount c1 + 1 | _ \<Rightarrow> False"
proof -
  let ?r1 = "fst (CommitPoll id demoPollEnv 11 ''ctl'' demoCursor 11 (runFrom id demoPollEnv ''ctl'' 5 2 emptyStore [(10, OpEnsure demoCursor 11)]))"
  let ?r2 = "fst (CommitPoll id demoPollEnv 45 ''ctl'' demoCursor 45
      (runFrom id demoPollEnv ''ctl'' 5 2 emptyStore ([(10, OpEnsure demoCursor 11)] @ [(11, OpCommitPoll demoCursor 11)] @ demoPolls)))"
  have "jsonLaws (cn_Encode demoPollEnv) (cn_Decode demoPollEnv) (set demoPollHistory)"
    unfolding jsonLaws_list by code_simp
  then have js: "jsonLaws (cn_Encode demoPollEnv) (cn_Decode demoPollEnv) (set (fullHistory id ''ctl'' 5 2
      ([(10, OpEnsure demoCursor 11)] @ [(11, OpCommitPoll demoCursor 11)] @ demoPolls @ [(45, OpCommitPoll demoCursor 45)])))"
    by (simp only: demoPollHistory_def)
  have key: "PollCursorKey demoCursor = demoPollKey" by code_simp
  have keeps: "\<forall>op\<in>set demoPolls. keepsPolling demoPollKey op" by code_simp
  have one: "cycles demoPollKey False demoPolls = 1" by code_simp
  have ok: "isOk ?r1" "isOk ?r2" by code_simp+
  then obtain c1 c2 where c: "?r1 = Inr c1" "?r2 = Inr c2" by (auto simp: isOk_iff)
  have nz: "0 < (2::int)" "11 \<noteq> (0::gotime)" "45 \<noteq> (0::gotime)" by simp_all
  from poll_ids_survive_crashes[OF demo_controller_id nz(1) demo_controller_empty js key key nz(2,3) keeps c]
  show ?thesis unfolding c one by simp
qed

section \<open>The backoff schedule\<close>

lemma second_values: "sint Second = 1000000000" "sint AdapterMaxRetryDelay = 300000000000"
  by (simp_all add: Second_def AdapterMaxRetryDelay_def)

lemma double_sint:
  fixes d :: int64
  assumes "0 < sint d" and "sint d < 300000000000"
  shows "sint (d * 2) = 2 * sint d"
proof -
  have "sint (d * 2) = signed_take_bit 63 (sint d * 2)"
    by (simp add: sint_word_ariths)
  then show ?thesis using assms by (simp add: signed_take_bit_int_eq_self)
qed

text \<open>The doubling loop never overflows: it stops at the first delay that reaches the cap.\<close>

lemma doubleDelay_value:
  assumes "0 < sint d"
  shows "0 < sint (doubleDelay n d) \<and> min (sint (doubleDelay n d)) 300000000000 = min (sint d * 2 ^ n) 300000000000"
  using assms
proof (induction n arbitrary: d)
  case (Suc n)
  show ?case
  proof (cases "sint d < 300000000000")
    case True
    note double = double_sint[OF Suc.prems True]
    show ?thesis using Suc.IH[of "d * 2"] Suc.prems True by (simp add: double second_values algebra_simps)
  next
    case False
    have "(1::int) \<le> 2 ^ Suc n" by (rule one_le_power) simp
    then have "300000000000 * 1 \<le> sint d * 2 ^ Suc n" using False by (intro mult_mono) auto
    then show ?thesis using False Suc.prems by (simp add: second_values)
  qed
qed simp

lemma clamp_value:
  assumes "sint lo \<le> 300000000000"
  shows "sint (ClampRetryDelay d lo) = max (sint lo) (min (sint d) 300000000000)"
  using assms by (auto simp: ClampRetryDelay_def second_values)

lemma milliseconds:
  fixes ms :: int64
  assumes "0 \<le> sint ms" and "sint ms \<le> 9223372036854"
  shows "sint (ms * Millisecond) = sint ms * 1000000"
proof -
  have "sint (ms * Millisecond) = signed_take_bit 63 (sint ms * 1000000)"
    by (simp add: sint_word_ariths Millisecond_def)
  then show ?thesis using assms by (simp add: signed_take_bit_int_eq_self)
qed

text \<open>
  The backoff schedule. For a base interval between one nanosecond and five minutes, the delay before the
  next poll stays between the base and five minutes, whatever the adapter asks for and whatever the jitter is, and the
  retry count grows by one. Without a request and without jitter the delay after \<open>k\<close> failures is the base
  doubled \<open>k + 1\<close> times, capped; a request of at most 9223372036854 milliseconds is clamped into the
  range. No 64-bit overflow disturbs either.
\<close>

theorem backoff_exact:
  assumes "0 < sint base" and "sint base \<le> 300000000000" and "0 \<le> k"
  shows "sint base \<le> sint (fst (PollBackoffDelay base k req jitter)) \<and>
    sint (fst (PollBackoffDelay base k req jitter)) \<le> 300000000000 \<and>
    snd (PollBackoffDelay base k req jitter) = k + 1 \<and>
    sint (fst (PollBackoffDelay base k None None)) = min (sint base * 2 ^ nat (k + 1)) 300000000000 \<and>
    (\<forall>ms. 0 \<le> sint ms \<and> sint ms \<le> 9223372036854 \<longrightarrow>
      sint (fst (PollBackoffDelay base k (Some ms) None)) = max (sint base) (min (sint ms * 1000000) 300000000000))"
proof -
  define d where "d = doubleDelay (nat (k + 1)) base"
  have d: "0 < sint d" "min (sint d) 300000000000 = min (sint base * 2 ^ nat (k + 1)) 300000000000"
    using doubleDelay_value[OF assms(1), of "nat (k + 1)"] by (simp_all add: d_def)
  have "(1::int) \<le> 2 ^ nat (k + 1)" by (rule one_le_power) simp
  then have "sint base * 1 \<le> sint base * 2 ^ nat (k + 1)" using assms(1) by (intro mult_left_mono) auto
  then have big: "sint base \<le> min (sint d) 300000000000" using d(2) assms(2) by simp
  show ?thesis
    using assms(2) big d
    by (auto simp: PollBackoffDelay_def Let_def d_def[symmetric] clamp_value second_values milliseconds split: option.splits)
qed

theorem backoff_exact_witness:
  "sint (fst (PollBackoffDelay pollBaseDelay 2 None None)) = 240000000000 \<and>
   sint (fst (PollBackoffDelay pollBaseDelay 2 (Some 1000) None)) = 30000000000"
proof -
  have b: "sint pollBaseDelay = 30000000000" by (simp add: pollBaseDelay_def Second_def)
  have "sint (1000 :: int64) = 1000" by simp
  with backoff_exact[of pollBaseDelay 2] show ?thesis by (simp add: b)
qed

text \<open>
  A request beyond that bound wraps around in the conversion to nanoseconds: an adapter that asks for
  the longest possible pause is polled again after the base interval, not after five minutes.
\<close>

lemma retry_after_overflow:
  "fst (PollBackoffDelay pollBaseDelay k (Some 9223372036855) None) = pollBaseDelay"
proof -
  have "sint ((9223372036855 :: int64) * Millisecond) = - 9223372036854551616"
    by (simp add: Millisecond_def)
  moreover have "sint pollBaseDelay = 30000000000" by (simp add: pollBaseDelay_def Second_def)
  ultimately show ?thesis by (simp add: PollBackoffDelay_def Let_def ClampRetryDelay_def second_values)
qed

end
