(* ===== verification/Wc_Policy.thy ===== *)
theory Wc_Policy
  imports Wf_Model "HOL-Library.List_Lexorder" "HOL-Library.Char_ord" "HOL-Library.Product_Lexorder" "HOL-Library.Multiset"
begin

text \<open>
  The dispatch policy of a controller (\<^verbatim>\<open>workflowcontroller/policy.go\<close>, \<^verbatim>\<open>inflight.go\<close>): which ready
  candidates to dispatch next, given what is in flight. Candidate kinds are strings, as in the source,
  because the order compares them. \<^verbatim>\<open>wait.Minutes()\<close> is modelled as the whole number of minutes; the
  floating-point conversion of the source agrees for waits below 2 to the 18 minutes, and above
  them the cap at 100 hides the difference for every priority a template may declare.
\<close>

definition CandidateProvider :: string where
  "CandidateProvider = ''provider''"

definition CandidateExternalPark :: string where
  "CandidateExternalPark = ''external_park''"

record candidate =
  cd_Identity :: execution_identity
  cd_Kind :: string
  cd_ControllerID :: string
  cd_Revision :: int
  cd_ReadyAt :: gotime
  cd_Priority :: int
  cd_ConcurrencyKey :: string

record in_flight_attempt =
  fa_Identity :: execution_identity
  fa_ControllerID :: string
  fa_ConcurrencyKey :: string
  fa_Terminal :: bool

record select_input =
  si_ControllerID :: string
  si_Candidates :: "candidate list"
  si_InFlight :: "in_flight_attempt list"
  si_Now :: gotime
  si_MaxInflight :: int

record decision =
  dn_Candidate :: candidate
  dn_EffectivePriority :: int

section \<open>What is in flight\<close>

definition heldKeys :: "in_flight_attempt list \<Rightarrow> string list" where
  "heldKeys inflight = map fa_ConcurrencyKey (filter (\<lambda>a. \<not> fa_Terminal a \<and> fa_ConcurrencyKey a \<noteq> '''') inflight)"

definition activeCount :: "in_flight_attempt list \<Rightarrow> string \<Rightarrow> int" where
  "activeCount inflight controllerID = int (length (filter (\<lambda>a. \<not> fa_Terminal a \<and> fa_ControllerID a = controllerID) inflight))"

definition activationKey :: "execution_identity \<Rightarrow> string \<times> string \<times> string" where
  "activationKey i = (id_WorkflowID i, id_NodeID i, id_ActivationID i)"

definition activeActivations :: "in_flight_attempt list \<Rightarrow> (string \<times> string \<times> string) list" where
  "activeActivations inflight = map (\<lambda>a. activationKey (fa_Identity a)) (filter (\<lambda>a. \<not> fa_Terminal a) inflight)"

section \<open>The order\<close>

text \<open>\<^verbatim>\<open>Time.Sub\<close> saturates at the ends of the 64-bit range.\<close>

definition timeSub :: "gotime \<Rightarrow> gotime \<Rightarrow> int" where
  "timeSub t u = max (- (2 ^ 63)) (min (2 ^ 63 - 1) (t - u))"

definition effectivePriority :: "candidate \<Rightarrow> gotime \<Rightarrow> int" where
  "effectivePriority c now =
     (let wait = (if timeSub now (cd_ReadyAt c) < 0 then 0 else timeSub now (cd_ReadyAt c));
          priority = cd_Priority c + wait div (60 * 1000000000)
      in if priority > 100 then 100 else priority)"

definition candidateLess :: "gotime \<Rightarrow> candidate \<Rightarrow> candidate \<Rightarrow> bool" where
  "candidateLess now a b =
     (let pa = effectivePriority a now; pb = effectivePriority b now; ia = cd_Identity a; ib = cd_Identity b in
      if pa \<noteq> pb then pa > pb
      else if cd_ReadyAt a \<noteq> cd_ReadyAt b then cd_ReadyAt a < cd_ReadyAt b
      else if id_WorkflowID ia \<noteq> id_WorkflowID ib then id_WorkflowID ia < id_WorkflowID ib
      else if id_NodeID ia \<noteq> id_NodeID ib then id_NodeID ia < id_NodeID ib
      else if id_ActivationID ia \<noteq> id_ActivationID ib then id_ActivationID ia < id_ActivationID ib
      else if cd_Kind a \<noteq> cd_Kind b then cd_Kind a < cd_Kind b
      else cd_ConcurrencyKey a < cd_ConcurrencyKey b)"

text \<open>\<^verbatim>\<open>sort.SliceStable\<close>: sorting by insertion, before the first element that is not smaller.\<close>

fun insertStable :: "('a \<Rightarrow> 'a \<Rightarrow> bool) \<Rightarrow> 'a \<Rightarrow> 'a list \<Rightarrow> 'a list" where
  "insertStable lt x [] = [x]"
| "insertStable lt x (y # ys) = (if lt y x then y # insertStable lt x ys else x # y # ys)"

definition SliceStable :: "('a \<Rightarrow> 'a \<Rightarrow> bool) \<Rightarrow> 'a list \<Rightarrow> 'a list" where
  "SliceStable lt xs = foldr (insertStable lt) xs []"

section \<open>The selection\<close>

text \<open>The loop, with the keys held, the slots that remain and the activations selected so far.\<close>

fun selectFrom ::
  "gotime \<Rightarrow> (string \<times> string \<times> string) list \<Rightarrow> candidate list \<Rightarrow> string list \<Rightarrow> int \<Rightarrow> (string \<times> string \<times> string) list \<Rightarrow> decision list" where
  "selectFrom now claimed [] held remaining selected = []"
| "selectFrom now claimed (c # cs) held remaining selected =
     (let key = activationKey (cd_Identity c);
          d = \<lparr>dn_Candidate = c, dn_EffectivePriority = effectivePriority c now\<rparr> in
      if key \<in> set claimed then selectFrom now claimed cs held remaining selected
      else if key \<in> set selected then selectFrom now claimed cs held remaining selected
      else if cd_Kind c = CandidateExternalPark then d # selectFrom now claimed cs held remaining (key # selected)
      else if remaining \<le> 0 then selectFrom now claimed cs held remaining selected
      else if cd_ConcurrencyKey c \<noteq> '''' then
        if cd_ConcurrencyKey c \<in> set held then selectFrom now claimed cs held remaining selected
        else d # selectFrom now claimed cs (cd_ConcurrencyKey c # held) (remaining - 1) (key # selected)
      else d # selectFrom now claimed cs held (remaining - 1) (key # selected))"

definition Select :: "select_input \<Rightarrow> decision list" where
  "Select input =
     (let eligible = filter (\<lambda>c. cd_ControllerID c = si_ControllerID input) (si_Candidates input);
          sorted = SliceStable (candidateLess (si_Now input)) eligible
      in selectFrom (si_Now input) (activeActivations (si_InFlight input)) sorted (heldKeys (si_InFlight input))
           (si_MaxInflight input - activeCount (si_InFlight input) (si_ControllerID input)) [])"

end
