(* ===== verification/Wc_PolicySafety.thy ===== *)
theory Wc_PolicySafety
  imports Wc_Policy "HOL-Library.Sublist"
begin

text \<open>
  The correctness of the dispatch policy: what \<^verbatim>\<open>Select\<close> returns is safe to dispatch together, nothing that
  could be added is left out, and the result depends on the contents of the input only as far as the order tells candidates apart.
\<close>

section \<open>The order as a key\<close>

definition sortKey :: "gotime \<Rightarrow> candidate \<Rightarrow> int \<times> int \<times> string \<times> string \<times> string \<times> string \<times> string" where
  "sortKey now c =
     (- effectivePriority c now, cd_ReadyAt c, id_WorkflowID (cd_Identity c), id_NodeID (cd_Identity c),
      id_ActivationID (cd_Identity c), cd_Kind c, cd_ConcurrencyKey c)"

lemma candidateLess_key: "candidateLess now a b \<longleftrightarrow> sortKey now a < sortKey now b"
  by (auto simp: candidateLess_def sortKey_def Let_def)

lemma insertStable_key:
  fixes key :: "'a \<Rightarrow> 'k::linorder"
  assumes "\<And>a b. lt a b \<longleftrightarrow> key a < key b"
  shows "insertStable lt x ys = insort_key key x ys"
  by (induction ys) (auto simp: assms)

lemma SliceStable_key:
  fixes key :: "'a \<Rightarrow> 'k::linorder"
  assumes "\<And>a b. lt a b \<longleftrightarrow> key a < key b"
  shows "SliceStable lt xs = sort_key key xs"
  unfolding SliceStable_def sort_key_def
  by (rule foldr_cong) (simp_all add: insertStable_key[where key = key, OF assms] fun_eq_iff)

lemma sorted_candidates: "SliceStable (candidateLess now) cs = sort_key (sortKey now) cs"
  by (rule SliceStable_key) (rule candidateLess_key)

section \<open>The selection loop\<close>

abbreviation actKey :: "candidate \<Rightarrow> string \<times> string \<times> string" where
  "actKey c \<equiv> activationKey (cd_Identity c)"

abbreviation takesSlot :: "candidate \<Rightarrow> bool" where
  "takesSlot c \<equiv> cd_Kind c \<noteq> CandidateExternalPark"

definition slotKeys :: "candidate list \<Rightarrow> string list" where
  "slotKeys cs = map cd_ConcurrencyKey (filter (\<lambda>c. takesSlot c \<and> cd_ConcurrencyKey c \<noteq> '''') cs)"

text \<open>Why a candidate was left out: its slot is gone, or its key is held, or an earlier choice holds it.\<close>

definition leftOut :: "gotime \<Rightarrow> string list \<Rightarrow> int \<Rightarrow> candidate list \<Rightarrow> candidate \<Rightarrow> bool" where
  "leftOut now held remaining chosen c \<longleftrightarrow>
     takesSlot c \<and>
     (int (length (filter takesSlot chosen)) = max 0 remaining \<or>
      cd_ConcurrencyKey c \<noteq> '''' \<and>
        (cd_ConcurrencyKey c \<in> set held \<or>
         (\<exists>d\<in>set chosen. takesSlot d \<and> cd_ConcurrencyKey d = cd_ConcurrencyKey c \<and> sortKey now d \<le> sortKey now c)))"

definition goodChoice ::
  "gotime \<Rightarrow> (string \<times> string \<times> string) list \<Rightarrow> candidate list \<Rightarrow> string list \<Rightarrow> int \<Rightarrow> (string \<times> string \<times> string) list \<Rightarrow> candidate list \<Rightarrow> bool" where
  "goodChoice now claimed cs held remaining selected chosen \<longleftrightarrow>
     subseq chosen cs \<and> distinct (map actKey chosen) \<and>
     (\<forall>c\<in>set chosen. actKey c \<notin> set claimed \<and> actKey c \<notin> set selected) \<and>
     int (length (filter takesSlot chosen)) \<le> max 0 remaining \<and>
     distinct (slotKeys chosen) \<and> set (slotKeys chosen) \<inter> set held = {} \<and>
     (\<forall>c\<in>set cs. actKey c \<notin> set claimed \<and> actKey c \<notin> set selected \<and> actKey c \<notin> actKey ` set chosen \<longrightarrow>
        leftOut now held remaining chosen c)"

lemma slotKeys_simps [simp]:
  "slotKeys [] = []"
  "slotKeys (c # cs) = (if takesSlot c \<and> cd_ConcurrencyKey c \<noteq> '''' then cd_ConcurrencyKey c # slotKeys cs else slotKeys cs)"
  by (simp_all add: slotKeys_def)

lemma slotKeys_in: "k \<in> set (slotKeys cs) \<longleftrightarrow> (\<exists>c\<in>set cs. takesSlot c \<and> cd_ConcurrencyKey c = k \<and> k \<noteq> '''')"
  by (auto simp: slotKeys_def)

text \<open>Skipping a candidate that is stale, chosen already, or blocked.\<close>

lemma goodChoice_skip:
  assumes "goodChoice now claimed cs held remaining selected chosen"
    and "actKey c \<in> set claimed \<or> actKey c \<in> set selected \<or> leftOut now held remaining chosen c"
  shows "goodChoice now claimed (c # cs) held remaining selected chosen"
  using assms by (auto simp: goodChoice_def)

text \<open>Choosing a candidate.\<close>

lemma goodChoice_park:
  assumes "goodChoice now claimed cs held remaining (actKey c # selected) chosen"
    and "actKey c \<notin> set claimed" and "actKey c \<notin> set selected" and "\<not> takesSlot c"
  shows "goodChoice now claimed (c # cs) held remaining selected (c # chosen)"
  using assms by (auto simp: goodChoice_def leftOut_def)

lemma goodChoice_slot:
  assumes good: "goodChoice now claimed cs held' (remaining - 1) (actKey c # selected) chosen"
    and "actKey c \<notin> set claimed" and "actKey c \<notin> set selected" and "takesSlot c" and "0 < remaining"
    and first: "\<forall>d\<in>set cs. sortKey now c \<le> sortKey now d"
    and held: "held' = (if cd_ConcurrencyKey c = '''' then held else cd_ConcurrencyKey c # held)"
      "cd_ConcurrencyKey c = '''' \<or> cd_ConcurrencyKey c \<notin> set held"
  shows "goodChoice now claimed (c # cs) held remaining selected (c # chosen)"
proof -
  have left: "leftOut now held remaining (c # chosen) d"
    if "d \<in> set cs" "leftOut now held' (remaining - 1) chosen d" for d
    using that first held(1) assms(4,5) by (auto simp: leftOut_def split: if_splits)
  have keys: "set (slotKeys chosen) \<inter> set held' = {}" "distinct (slotKeys chosen)"
    using good by (auto simp: goodChoice_def)
  have "distinct (slotKeys (c # chosen))" "set (slotKeys (c # chosen)) \<inter> set held = {}"
    using keys held by (auto split: if_splits)
  with good left assms(2-5) show ?thesis unfolding goodChoice_def by auto
qed

lemma selectFrom_good:
  "sorted (map (sortKey now) cs) \<Longrightarrow>
   goodChoice now claimed cs held remaining selected (map dn_Candidate (selectFrom now claimed cs held remaining selected))"
proof (induction cs arbitrary: held remaining selected)
  case Nil
  then show ?case by (simp add: goodChoice_def)
next
  case (Cons c cs)
  then have srt: "sorted (map (sortKey now) cs)" and first: "\<forall>d\<in>set cs. sortKey now c \<le> sortKey now d" by auto
  note IH = Cons.IH[OF srt]
  consider "actKey c \<in> set claimed \<or> actKey c \<in> set selected"
    | "actKey c \<notin> set claimed" "actKey c \<notin> set selected" "\<not> takesSlot c"
    | "actKey c \<notin> set claimed" "actKey c \<notin> set selected" "takesSlot c" "remaining \<le> 0"
    | "actKey c \<notin> set claimed" "actKey c \<notin> set selected" "takesSlot c" "0 < remaining"
      "cd_ConcurrencyKey c \<noteq> ''''" "cd_ConcurrencyKey c \<in> set held"
    | "actKey c \<notin> set claimed" "actKey c \<notin> set selected" "takesSlot c" "0 < remaining"
      "cd_ConcurrencyKey c = '''' \<or> cd_ConcurrencyKey c \<notin> set held"
    by fastforce
  then show ?case
  proof cases
    case 1
    then show ?thesis using goodChoice_skip[OF IH] by (auto simp: Let_def)
  next
    case 2
    then show ?thesis using goodChoice_park[OF IH] by (simp add: Let_def)
  next
    case 3
    have "leftOut now held remaining (map dn_Candidate (selectFrom now claimed cs held remaining selected)) c"
      using 3 IH[of held remaining selected] by (auto simp: leftOut_def goodChoice_def)
    then show ?thesis using 3 goodChoice_skip[OF IH] by (simp add: Let_def)
  next
    case 4
    then show ?thesis using goodChoice_skip[OF IH[of held remaining selected], of c] by (simp add: Let_def leftOut_def)
  next
    case 5
    let ?held = "if cd_ConcurrencyKey c = '''' then held else cd_ConcurrencyKey c # held"
    from goodChoice_slot[OF IH[of ?held "remaining - 1" "actKey c # selected"] 5(1-4) first refl 5(5)] 5
    show ?thesis by (auto simp: Let_def)
  qed
qed

lemma selectFrom_priority:
  "d \<in> set (selectFrom now claimed cs held remaining selected) \<Longrightarrow> dn_EffectivePriority d = effectivePriority (dn_Candidate d) now"
  by (induction cs arbitrary: held remaining selected) (auto simp: Let_def split: if_splits)

section \<open>Correctness\<close>

text \<open>The candidates a pass chose, and the ones it could choose from.\<close>

definition chosen :: "select_input \<Rightarrow> candidate list" where
  "chosen input = map dn_Candidate (Select input)"

definition eligible :: "select_input \<Rightarrow> candidate list" where
  "eligible input = filter (\<lambda>c. cd_ControllerID c = si_ControllerID input) (si_Candidates input)"

definition freeSlots :: "select_input \<Rightarrow> int" where
  "freeSlots input = si_MaxInflight input - activeCount (si_InFlight input) (si_ControllerID input)"

lemma chosen_good:
  "goodChoice (si_Now input) (activeActivations (si_InFlight input)) (sort_key (sortKey (si_Now input)) (eligible input))
     (heldKeys (si_InFlight input)) (freeSlots input) [] (chosen input)"
  unfolding chosen_def Select_def Let_def sorted_candidates freeSlots_def eligible_def[symmetric]
  by (rule selectFrom_good) simp

text \<open>
  C32: the dispatch policy. The chosen candidates stand in dispatch order and belong to the controller;
  no activation is chosen twice or has a live attempt; they take at most the free slots; their concurrency keys are
  distinct and held by no live attempt. And nothing is left out without need: an eligible candidate
  whose activation is neither chosen nor live takes a slot, and either all free slots are taken, or its key is held by a
  live attempt or by a chosen candidate that is not behind it.
\<close>

theorem select_sound_and_complete:
  "subseq (chosen input) (sort_key (sortKey (si_Now input)) (eligible input)) \<and>
   distinct (map actKey (chosen input)) \<and>
   actKey ` set (chosen input) \<inter> set (activeActivations (si_InFlight input)) = {} \<and>
   int (length (filter takesSlot (chosen input))) \<le> max 0 (freeSlots input) \<and>
   distinct (slotKeys (chosen input)) \<and> set (slotKeys (chosen input)) \<inter> set (heldKeys (si_InFlight input)) = {} \<and>
   list_all (\<lambda>d. dn_EffectivePriority d = effectivePriority (dn_Candidate d) (si_Now input)) (Select input) \<and>
   list_all (\<lambda>c. actKey c \<in> set (activeActivations (si_InFlight input)) \<or> actKey c \<in> actKey ` set (chosen input) \<or>
       leftOut (si_Now input) (heldKeys (si_InFlight input)) (freeSlots input) (chosen input) c) (eligible input)"
proof -
  have "\<forall>d\<in>set (Select input). dn_EffectivePriority d = effectivePriority (dn_Candidate d) (si_Now input)"
    by (auto simp: Select_def Let_def dest: selectFrom_priority)
  then show ?thesis
    using chosen_good[of input] by (auto simp: goodChoice_def list_all_iff)
qed

section \<open>Independence of the order\<close>

lemma selectFrom_held_cong:
  "set claimed = set claimed' \<Longrightarrow> set held = set held' \<Longrightarrow>
   selectFrom now claimed cs held remaining selected = selectFrom now claimed' cs held' remaining selected"
proof (induction cs arbitrary: held held' remaining selected)
  case (Cons c cs)
  have "set (cd_ConcurrencyKey c # held) = set (cd_ConcurrencyKey c # held')" using Cons.prems(2) by simp
  note IH = Cons.IH[OF Cons.prems(1) Cons.prems(2)] Cons.IH[OF Cons.prems(1) this]
  show ?case by (simp only: selectFrom.simps Let_def IH Cons.prems)
qed simp

lemma sort_key_perm:
  fixes key :: "'a \<Rightarrow> 'k::linorder"
  assumes "mset xs = mset ys" and "inj_on key (set xs)"
  shows "sort_key key xs = sort_key key ys"
  by (rule sort_key_inj_key_eq) (simp_all add: assms)

text \<open>
  The policy ignores the order of its input. Permuting the candidates and the attempts in flight does
  not change the decisions, provided that no two different eligible candidates agree in effective
  priority, ready time, activation, kind and concurrency key.
\<close>

theorem select_order_independent:
  assumes "mset (si_Candidates a) = mset (si_Candidates b)" and "mset (si_InFlight a) = mset (si_InFlight b)"
    and "si_ControllerID a = si_ControllerID b" and "si_Now a = si_Now b" and "si_MaxInflight a = si_MaxInflight b"
    and "inj_on (sortKey (si_Now a)) (set (eligible a))"
  shows "Select a = Select b"
proof -
  have "mset (eligible a) = mset (eligible b)" using assms(1,3) by (simp add: eligible_def mset_filter)
  then have srt: "sort_key (sortKey (si_Now b)) (eligible a) = sort_key (sortKey (si_Now b)) (eligible b)"
    using sort_key_perm assms(4,6) by metis
  have same: "set (si_InFlight a) = set (si_InFlight b)" using assms(2) by (rule mset_eq_setD)
  have "set (activeActivations (si_InFlight a)) = set (activeActivations (si_InFlight b))"
    "set (heldKeys (si_InFlight a)) = set (heldKeys (si_InFlight b))"
    using same by (auto simp: activeActivations_def heldKeys_def)
  note cong = selectFrom_held_cong[OF this]
  have "size (filter_mset (\<lambda>x. \<not> fa_Terminal x \<and> fa_ControllerID x = si_ControllerID b) (mset (si_InFlight a))) =
      size (filter_mset (\<lambda>x. \<not> fa_Terminal x \<and> fa_ControllerID x = si_ControllerID b) (mset (si_InFlight b)))"
    by (simp only: assms(2))
  then have "activeCount (si_InFlight a) (si_ControllerID b) = activeCount (si_InFlight b) (si_ControllerID b)"
    by (simp add: activeCount_def flip: mset_filter)
  with srt cong assms(3-5) show ?thesis
    unfolding Select_def Let_def sorted_candidates eligible_def by simp
qed

definition demoCandidate :: "string \<Rightarrow> int \<Rightarrow> candidate" where
  "demoCandidate actID revision =
     \<lparr>cd_Identity = zeroIdentity\<lparr>id_WorkflowID := ''w'', id_NodeID := ''n'', id_ActivationID := actID\<rparr>,
      cd_Kind = CandidateProvider, cd_ControllerID = ''ctl'', cd_Revision = revision, cd_ReadyAt = 5, cd_Priority = 50,
      cd_ConcurrencyKey = ''k''\<rparr>"

definition demoSelect :: "candidate list \<Rightarrow> select_input" where
  "demoSelect cs = \<lparr>si_ControllerID = ''ctl'', si_Candidates = cs, si_InFlight = [], si_Now = 10, si_MaxInflight = 2\<rparr>"

theorem select_order_independent_witness:
  "Select (demoSelect [demoCandidate ''a2'' 1, demoCandidate ''a1'' 2]) = Select (demoSelect [demoCandidate ''a1'' 2, demoCandidate ''a2'' 1])"
proof -
  let ?a = "demoSelect [demoCandidate ''a2'' 1, demoCandidate ''a1'' 2]"
  have inj: "inj_on (sortKey (si_Now ?a)) (set (eligible ?a))"
    by (auto simp: inj_on_def eligible_def demoSelect_def sortKey_def demoCandidate_def zeroIdentity_def)
  show ?thesis
    by (rule select_order_independent[OF _ _ _ _ _ inj]) (simp_all add: demoSelect_def)
qed

text \<open>
  The proviso is needed: two reports of one activation at different revisions agree in everything the order
  compares, the sort keeps their order, and the second one is dropped as a duplicate.
\<close>

lemma select_depends_on_order:
  "map (\<lambda>d. cd_Revision (dn_Candidate d)) (Select (demoSelect [demoCandidate ''a'' 1, demoCandidate ''a'' 2])) = [1] \<and>
   map (\<lambda>d. cd_Revision (dn_Candidate d)) (Select (demoSelect [demoCandidate ''a'' 2, demoCandidate ''a'' 1])) = [2]"
  by code_simp

end
