(* ===== verification/Wc_Runner.thy ===== *)
theory Wc_Runner
  imports Wf_Parking Wc_Poll Wc_Policy "HOL-Library.State_Monad"
begin

text \<open>
  The leader loop of a controller (\<^verbatim>\<open>workflowcontroller/runner.go\<close>, \<^verbatim>\<open>poller.go\<close>): one goroutine
  that holds the lease, runs passes and talks to worker goroutines through channels. The model is a
  state monad over the controller store, the loop's own state, the published status and the workers that have not delivered
  a result yet. Everything outside is the environment, asked at numbered moments (\<open>rn_Tick\<close>): the clock, the host
  (\<^verbatim>\<open>RunnerDeps\<close>, \<^verbatim>\<open>Poller\<close>), which result lies in a channel, what wakes the loop, and what other processes do to the store
  before each access of the loop.
\<close>

section \<open>Data\<close>

datatype dispatch_result_kind =
    ResultDispatched | ResultCapacityBlocked | ResultStale | ResultKeyHeld | ResultNotLeader
  | ResultStartFailed | ResultCanceled | ResultParked | ResultUnresolvedBinding | ResultKindOther string

fun resultKindString :: "dispatch_result_kind \<Rightarrow> string" where
  "resultKindString ResultDispatched = ''dispatched''"
| "resultKindString ResultCapacityBlocked = ''capacity_blocked''"
| "resultKindString ResultStale = ''stale''"
| "resultKindString ResultKeyHeld = ''key_held''"
| "resultKindString ResultNotLeader = ''not_leader''"
| "resultKindString ResultStartFailed = ''start_failed''"
| "resultKindString ResultCanceled = ''canceled''"
| "resultKindString ResultParked = ''parked''"
| "resultKindString ResultUnresolvedBinding = ''unresolved_binding''"
| "resultKindString (ResultKindOther s) = s"

record dispatch_result =
  dr_Kind :: dispatch_result_kind
  dr_Source :: string
  dr_Detail :: string
  dr_PollSeeds :: "parked_gate_ref list"

record runner_status =
  rt_Leading :: bool
  rt_LastReconcile :: gotime
  rt_LastOutcome :: string
  rt_Inflight :: int
  rt_CapacityBlocked :: string
  rt_CapacityDetail :: string

definition DefaultAntiEntropy :: int where
  "DefaultAntiEntropy = 5 * 1000000000"

definition outcomeLogHole :: string where
  "outcomeLogHole = ''log_hole''"

datatype wake_reason = wakeNone | wakeTimer | wakeChange | wakeCapacity | wakeResult

datatype step_result = stepNext | stepLoop | stepExit

datatype poll_failure_kind =
    PollFailureNone | PollFailureTransient | PollFailureUnavailable | PollFailureObsolete | PollFailureOther string

datatype poll_apply_outcome = PollApplied | PollStale | PollObsolete | PollSubjectMismatch | PollApplyOther string

definition AdapterResultPending :: string where
  "AdapterResultPending = ''pending''"

text \<open>The fields of \<^verbatim>\<open>AdapterResult\<close> that the loop looks at; the rest is for the host.\<close>

record adapter_result =
  ar_Result :: string
  ar_RetryAfterMS :: "int64 option"

text \<open>\<open>po_Err\<close> is the text of the error.\<close>

record poll_outcome =
  po_Cursor :: poll_cursor
  po_Result :: "adapter_result option"
  po_Failure :: poll_failure_kind
  po_Err :: "string option"

record leader_state =
  lr_LeaseID :: string
  lr_OwnerEpoch :: int
  lr_Holding :: bool
  lr_BlockedSource :: string
  lr_LastRefresh :: gotime
  lr_Wake :: wake_reason
  lr_Timer :: int
  lr_Unreported :: "(execution_identity \<times> nat \<times> string) list"
  lr_Outstanding :: int
  lr_PollInFlight :: "string list"
  lr_PendingPolls :: int

record runner_config =
  rc_ControllerID :: string
  rc_OwnerID :: string
  rc_RenewInterval :: int
  rc_AntiEntropy :: int
  rc_Poll :: bool
  rc_PollBase :: int64
  rc_MaxPollWorkers :: nat

definition defaultMaxPollWorkers :: nat where
  "defaultMaxPollWorkers = 4"

text \<open>\<^verbatim>\<open>NewRunner\<close> replaces what is not positive by the package defaults.\<close>

definition runnerDefaults :: "runner_config \<Rightarrow> runner_config" where
  "runnerDefaults rc =
     rc\<lparr>rc_RenewInterval := (if rc_RenewInterval rc \<le> 0 then RenewInterval else rc_RenewInterval rc),
        rc_AntiEntropy := (if rc_AntiEntropy rc \<le> 0 then DefaultAntiEntropy else rc_AntiEntropy rc),
        rc_PollBase := (if sint (rc_PollBase rc) \<le> 0 then pollBaseDelay else rc_PollBase rc),
        rc_MaxPollWorkers := (if rc_MaxPollWorkers rc = 0 then defaultMaxPollWorkers else rc_MaxPollWorkers rc)\<rparr>"

text \<open>
  What ends a wait. A result event names the worker that delivers, by its place in the list of workers that are
  still out. A worker that is not there cannot deliver, and a signal channel that is not listened to is
  never ready: then the timer ends the wait.
\<close>

datatype wake_event = WokenDone | WokenTimer | WokenChange | WokenCapacity | WokenResult nat | WokenPoll nat

record runner_env =
  rv_Ctl :: ctl_env
  rv_Sha :: "string \<Rightarrow> string"
  rv_Now :: "nat \<Rightarrow> gotime"
  rv_LeaseID :: "nat \<Rightarrow> string"
  rv_Canceled :: "nat \<Rightarrow> bool"
  rv_Others :: "nat \<Rightarrow> controller_store \<Rightarrow> controller_store"
  rv_Candidates :: "nat \<Rightarrow> candidate list result"
  rv_InFlight :: "nat \<Rightarrow> in_flight_attempt list result"
  rv_Refresh :: "nat \<Rightarrow> unit result"
  rv_ParkedGates :: "nat \<Rightarrow> parked_gate_ref list result"
  rv_Dispatch :: "nat \<Rightarrow> decision \<Rightarrow> leader_lease \<Rightarrow> dispatch_result result"
  rv_Poll :: "nat \<Rightarrow> poll_cursor \<Rightarrow> adapter_result \<times> poll_failure_kind \<times> string option"
  rv_Apply :: "nat \<Rightarrow> poll_cursor \<Rightarrow> adapter_result \<Rightarrow> leader_lease \<Rightarrow> poll_apply_outcome result"
  rv_Jitter :: "nat \<Rightarrow> int64 \<Rightarrow> int64"
  rv_Wake :: "nat \<Rightarrow> wake_event"
  rv_Delivered :: "nat \<Rightarrow> nat option"

text \<open>
  \<open>rn_Workers\<close> are the dispatch workers started and not yet received from, \<open>rn_PollWorkers\<close> the poll workers.
\<close>

record runner =
  rn_Store :: controller_store
  rn_State :: leader_state
  rn_Status :: runner_status
  rn_Workers :: "(decision \<times> leader_lease) list"
  rn_PollWorkers :: "poll_cursor list"
  rn_Tick :: nat

type_synonym 'a run_m = "(runner, 'a) state"

section \<open>Access to the environment\<close>

definition tick :: "nat run_m" where
  "tick = State (\<lambda>r. (rn_Tick r, r\<lparr>rn_Tick := Suc (rn_Tick r)\<rparr>))"

definition clock :: "runner_env \<Rightarrow> gotime run_m" where
  "clock rv = do { n \<leftarrow> tick; State_Monad.return (rv_Now rv n) }"

definition storeOp :: "runner_env \<Rightarrow> (gotime \<Rightarrow> nat \<Rightarrow> controller_store \<Rightarrow> 'a \<times> controller_store) \<Rightarrow> 'a run_m" where
  "storeOp rv f = State (\<lambda>r.
     case f (rv_Now rv (rn_Tick r)) (rn_Tick r) (rv_Others rv (rn_Tick r) (rn_Store r)) of
       (x, st) \<Rightarrow> (x, r\<lparr>rn_Store := st, rn_Tick := Suc (rn_Tick r)\<rparr>))"

definition theState :: "leader_state run_m" where
  "theState = State (\<lambda>r. (rn_State r, r))"

definition setState :: "(leader_state \<Rightarrow> leader_state) \<Rightarrow> unit run_m" where
  "setState f = State (\<lambda>r. ((), r\<lparr>rn_State := f (rn_State r)\<rparr>))"

definition publish :: "(runner_status \<Rightarrow> runner_status) \<Rightarrow> unit run_m" where
  "publish f = State (\<lambda>r. ((), r\<lparr>rn_Status := f (rn_Status r)\<rparr>))"

fun forEach :: "('b \<Rightarrow> unit run_m) \<Rightarrow> 'b list \<Rightarrow> unit run_m" where
  "forEach f [] = State_Monad.return ()"
| "forEach f (x # xs) = do { f x; forEach f xs }"

definition outcome :: "string \<Rightarrow> unit run_m" where
  "outcome s = publish (\<lambda>st. st\<lparr>rt_LastOutcome := s\<rparr>)"

section \<open>The state of the loop\<close>

definition clearLeadStatus :: "unit run_m" where
  "clearLeadStatus = publish (\<lambda>st. st\<lparr>rt_Leading := False, rt_Inflight := 0, rt_CapacityBlocked := '''', rt_CapacityDetail := ''''\<rparr>)"

definition buildInflightView :: "runner_config \<Rightarrow> leader_state \<Rightarrow> in_flight_attempt list \<Rightarrow> in_flight_attempt list" where
  "buildInflightView rc s inflight =
     inflight @ concat (map (\<lambda>(i, n, key). replicate n
       \<lparr>fa_Identity = i, fa_ControllerID = rc_ControllerID rc, fa_ConcurrencyKey = key, fa_Terminal = False\<rparr>) (lr_Unreported s))"

definition seedCursor :: "parked_gate_ref \<Rightarrow> poll_cursor" where
  "seedCursor g =
     zeroCursor\<lparr>pc_WorkflowID := pg_WorkflowID g, pc_NodeID := pg_NodeID g, pc_ActivationID := pg_ActivationID g,
       pc_GateID := pg_GateID g, pc_AdapterID := pg_AdapterID g, pc_SubjectHash := pg_SubjectHash g\<rparr>"

definition ensureSeed :: "runner_env \<Rightarrow> runner_config \<Rightarrow> parked_gate_ref \<Rightarrow> unit run_m" where
  "ensureSeed rv rc g =
     do { now \<leftarrow> clock rv;
          _ \<leftarrow> storeOp rv (\<lambda>t _. EnsurePollCursor (rv_Ctl rv) t (rc_ControllerID rc) (seedCursor g) (timeAdd now (rc_PollBase rc)));
          State_Monad.return () }"

definition reseedPollCursors :: "runner_env \<Rightarrow> runner_config \<Rightarrow> (string \<times> poll_cursor) list \<Rightarrow> unit run_m" where
  "reseedPollCursors rv rc existing =
     do { n \<leftarrow> tick;
          case rv_ParkedGates rv n of
            Inl _ \<Rightarrow> outcome ''parked_gates_error''
          | Inr seeds \<Rightarrow>
              forEach (\<lambda>g. if map_of existing (PollCursorKey (seedCursor g)) \<noteq> None then State_Monad.return ()
                           else ensureSeed rv rc g) seeds }"

definition decrementUnreported :: "execution_identity \<Rightarrow> leader_state \<Rightarrow> leader_state" where
  "decrementUnreported i s =
     (case map_of (lr_Unreported s) i of
        None \<Rightarrow> s
      | Some (n, key) \<Rightarrow>
          if n = 0 then s
          else if n = 1 then s\<lparr>lr_Unreported := mapDel i (lr_Unreported s)\<rparr>
          else s\<lparr>lr_Unreported := mapPut i (n - 1, key) (lr_Unreported s)\<rparr>)"

definition release :: "runner_env \<Rightarrow> runner_config \<Rightarrow> unit run_m" where
  "release rv rc =
     do { s \<leftarrow> theState;
          if \<not> lr_Holding s then State_Monad.return ()
          else do { setState (\<lambda>s. s\<lparr>lr_Holding := False\<rparr>);
                    _ \<leftarrow> storeOp rv (\<lambda>t _. ReleaseLease (rv_Ctl rv) t (rc_ControllerID rc) (lr_LeaseID s) (lr_OwnerEpoch s));
                    State_Monad.return () } }"

definition dropLeadership :: "unit run_m" where
  "dropLeadership = do { setState (\<lambda>s. s\<lparr>lr_Holding := False, lr_LeaseID := '''', lr_BlockedSource := ''''\<rparr>); clearLeadStatus }"

definition clearBlock :: "unit run_m" where
  "clearBlock =
     do { setState (\<lambda>s. s\<lparr>lr_BlockedSource := ''''\<rparr>);
          publish (\<lambda>st. st\<lparr>rt_CapacityBlocked := '''', rt_CapacityDetail := ''''\<rparr>) }"

section \<open>Results of dispatch workers\<close>

definition handleDispatched :: "runner_env \<Rightarrow> runner_config \<Rightarrow> execution_identity \<Rightarrow> dispatch_result \<Rightarrow> bool run_m" where
  "handleDispatched rv rc i res =
     (case dr_Kind res of
        ResultDispatched \<Rightarrow>
          do { setState (\<lambda>s. s\<lparr>lr_BlockedSource := ''''\<rparr>);
               _ \<leftarrow> storeOp rv (\<lambda>t _. ClearCapacityBlocked (rv_Ctl rv) t (rc_ControllerID rc));
               publish (\<lambda>st. st\<lparr>rt_LastOutcome := ''dispatched'', rt_CapacityBlocked := '''', rt_CapacityDetail := ''''\<rparr>);
               State_Monad.return False }
      | ResultCapacityBlocked \<Rightarrow>
          (let source = dr_Source res;
               detail = (if source = ''tree'' then ''descendant_budget'' else ''local capacity exhausted'') in
           do { setState (\<lambda>s. s\<lparr>lr_BlockedSource := source\<rparr>);
                _ \<leftarrow> storeOp rv (\<lambda>t _. RecordCapacityBlocked (rv_Ctl rv) t (rc_ControllerID rc) source detail);
                publish (\<lambda>st. st\<lparr>rt_LastOutcome := ''capacity_blocked('' @ source @ '')'', rt_CapacityBlocked := source,
                  rt_CapacityDetail := detail\<rparr>);
                State_Monad.return False })
      | ResultNotLeader \<Rightarrow> do { dropLeadership; State_Monad.return True }
      | ResultParked \<Rightarrow>
          do { forEach (ensureSeed rv rc) (dr_PollSeeds res); outcome ''parked''; State_Monad.return False }
      | ResultUnresolvedBinding \<Rightarrow>
          do { _ \<leftarrow> storeOp rv (\<lambda>t _. RecordDiagnostic (rv_Ctl rv) t (rc_ControllerID rc) ''unresolved_binding''
                   (id_WorkflowID i @ ''/'' @ id_NodeID i @ ''/'' @ id_ActivationID i) (dr_Detail res));
               outcome ''unresolved_binding''; State_Monad.return False }
      | k \<Rightarrow> do { outcome (resultKindString k); State_Monad.return False })"

definition handleResult ::
  "runner_env \<Rightarrow> runner_config \<Rightarrow> execution_identity \<times> dispatch_result result \<Rightarrow> bool run_m" where
  "handleResult rv rc res =
     (case snd res of
        Inl _ \<Rightarrow> do { outcome ''dispatch_error''; State_Monad.return False }
      | Inr dr \<Rightarrow> handleDispatched rv rc (fst res) dr)"

text \<open>
  Worker \<open>i\<close> delivers: it dispatched unless the context was canceled before it started. \<open>receiveResult\<close> is the
  bookkeeping of the loop for one delivery.
\<close>

definition receiveResult :: "execution_identity \<Rightarrow> leader_state \<Rightarrow> leader_state" where
  "receiveResult i s = decrementUnreported i (s\<lparr>lr_Outstanding := lr_Outstanding s - 1\<rparr>)"

definition dispatchWorker :: "runner_env \<Rightarrow> nat \<Rightarrow> decision \<times> leader_lease \<Rightarrow> execution_identity \<times> dispatch_result result" where
  "dispatchWorker rv n w =
     (cd_Identity (dn_Candidate (fst w)),
      if rv_Canceled rv n
      then Inr \<lparr>dr_Kind = ResultCanceled, dr_Source = '''', dr_Detail = '''', dr_PollSeeds = []\<rparr>
      else rv_Dispatch rv n (fst w) (snd w))"

definition takeResult :: "runner_env \<Rightarrow> nat \<Rightarrow> (execution_identity \<times> dispatch_result result) option run_m" where
  "takeResult rv i = State (\<lambda>r.
     if i < length (rn_Workers r) then
       (let res = dispatchWorker rv (rn_Tick r) (rn_Workers r ! i) in
        (Some res, r\<lparr>rn_Workers := take i (rn_Workers r) @ drop (Suc i) (rn_Workers r),
                     rn_State := receiveResult (fst res) (rn_State r), rn_Tick := Suc (rn_Tick r)\<rparr>))
     else (None, r))"

definition workersOut :: "nat run_m" where
  "workersOut = State (\<lambda>r. (length (rn_Workers r), r))"

definition pollWorkersOut :: "nat run_m" where
  "pollWorkersOut = State (\<lambda>r. (length (rn_PollWorkers r), r))"

text \<open>\<^verbatim>\<open>drainResults\<close>: at most one delivery for each worker that is out, while the channel has one.\<close>

fun drainFrom :: "runner_env \<Rightarrow> runner_config \<Rightarrow> nat \<Rightarrow> bool \<Rightarrow> bool run_m" where
  "drainFrom rv rc 0 lost = State_Monad.return lost"
| "drainFrom rv rc (Suc k) lost =
     do { n \<leftarrow> tick;
          case rv_Delivered rv n of
            None \<Rightarrow> State_Monad.return lost
          | Some i \<Rightarrow>
              do { taken \<leftarrow> takeResult rv i;
                   case taken of
                     None \<Rightarrow> State_Monad.return lost
                   | Some res \<Rightarrow> do { l \<leftarrow> handleResult rv rc res; drainFrom rv rc k (lost \<or> l) } } }"

definition drainResults :: "runner_env \<Rightarrow> runner_config \<Rightarrow> bool run_m" where
  "drainResults rv rc = do { out \<leftarrow> workersOut; drainFrom rv rc out False }"

section \<open>Polls (poller.go)\<close>

definition pollWorker :: "runner_env \<Rightarrow> nat \<Rightarrow> poll_cursor \<Rightarrow> poll_outcome" where
  "pollWorker rv n cursor =
     (if rv_Canceled rv n
      then \<lparr>po_Cursor = cursor, po_Result = None, po_Failure = PollFailureTransient, po_Err = Some ''context canceled''\<rparr>
      else case rv_Poll rv n cursor of
        (res, failure, err) \<Rightarrow> \<lparr>po_Cursor = cursor, po_Result = Some res, po_Failure = failure, po_Err = err\<rparr>)"

definition schedulePollRetry :: "runner_env \<Rightarrow> runner_config \<Rightarrow> poll_cursor \<Rightarrow> int64 option \<Rightarrow> unit run_m" where
  "schedulePollRetry rv rc cursor retryAfterMS =
     do { j \<leftarrow> tick;
          now \<leftarrow> clock rv;
          let (delay, nextRetry) = PollBackoffDelay (rc_PollBase rc) (pc_RetryCount cursor) retryAfterMS (Some (rv_Jitter rv j));
          _ \<leftarrow> storeOp rv (\<lambda>t _. SchedulePollRetry (rv_Ctl rv) t (rc_ControllerID rc) cursor (timeAdd now delay) nextRetry);
          State_Monad.return () }"

definition clearCursor :: "runner_env \<Rightarrow> runner_config \<Rightarrow> poll_cursor \<Rightarrow> unit run_m" where
  "clearCursor rv rc cursor =
     do { _ \<leftarrow> storeOp rv (\<lambda>t _. ClearPollCursor (rv_Ctl rv) t (rc_ControllerID rc) cursor); State_Monad.return () }"

definition diagnose :: "runner_env \<Rightarrow> runner_config \<Rightarrow> string \<Rightarrow> string \<Rightarrow> string \<Rightarrow> unit run_m" where
  "diagnose rv rc kind name detail =
     do { _ \<leftarrow> storeOp rv (\<lambda>t _. RecordDiagnostic (rv_Ctl rv) t (rc_ControllerID rc) kind name detail); State_Monad.return () }"

definition undiagnose :: "runner_env \<Rightarrow> runner_config \<Rightarrow> string \<Rightarrow> string \<Rightarrow> unit run_m" where
  "undiagnose rv rc kind name =
     do { _ \<leftarrow> storeOp rv (\<lambda>t _. ClearDiagnostic (rv_Ctl rv) t (rc_ControllerID rc) kind name); State_Monad.return () }"

text \<open>A completed verdict, landed by the host.\<close>

definition applyVerdict :: "runner_env \<Rightarrow> runner_config \<Rightarrow> poll_cursor \<Rightarrow> adapter_result \<Rightarrow> leader_lease \<Rightarrow> bool run_m" where
  "applyVerdict rv rc cursor res lease =
     (let key = PollCursorKey cursor in
      do { n \<leftarrow> tick;
           case rv_Apply rv n cursor res lease of
             Inl _ \<Rightarrow> do { schedulePollRetry rv rc cursor None; outcome ''apply_error''; State_Monad.return False }
           | Inr PollStale \<Rightarrow> do { outcome ''poll_stale''; State_Monad.return True }
           | Inr PollSubjectMismatch \<Rightarrow>
               do { diagnose rv rc ''poll_subject_mismatch'' key ''adapter result observed on a subject other than the pinned gate subject'';
                    schedulePollRetry rv rc cursor (ar_RetryAfterMS res);
                    outcome ''poll_subject_mismatch''; State_Monad.return False }
           | Inr PollObsolete \<Rightarrow>
               do { clearCursor rv rc cursor;
                    diagnose rv rc ''poll_obsolete'' key ''gate no longer parked on this activation'';
                    outcome ''poll_obsolete''; State_Monad.return False }
           | Inr _ \<Rightarrow>
               do { clearCursor rv rc cursor;
                    undiagnose rv rc ''poll_subject_mismatch'' key;
                    outcome (''applied:'' @ ar_Result res); State_Monad.return False } })"

text \<open>The outcome of one poll, whose cursor is not in flight any more.\<close>

definition judgePoll :: "runner_env \<Rightarrow> runner_config \<Rightarrow> poll_outcome \<Rightarrow> leader_lease \<Rightarrow> bool run_m" where
  "judgePoll rv rc out lease =
     (let cursor = po_Cursor out in
      do { n \<leftarrow> tick;
           if rv_Canceled rv n then State_Monad.return False
           else if po_Failure out = PollFailureObsolete then
             do { clearCursor rv rc cursor; outcome ''poll_obsolete''; State_Monad.return False }
           else if po_Failure out = PollFailureUnavailable then
             do { diagnose rv rc ''adapter_unavailable'' (pc_AdapterID cursor)
                    (case po_Err out of None \<Rightarrow> ''adapter unavailable'' | Some e \<Rightarrow> e);
                  schedulePollRetry rv rc cursor None;
                  outcome ''adapter_unavailable''; State_Monad.return False }
           else if po_Err out \<noteq> None then
             do { schedulePollRetry rv rc cursor None; outcome ''poll_error''; State_Monad.return False }
           else
             do { undiagnose rv rc ''adapter_unavailable'' (pc_AdapterID cursor);
                  case po_Result out of
                    None \<Rightarrow> do { schedulePollRetry rv rc cursor None; outcome ''pending''; State_Monad.return False }
                  | Some res \<Rightarrow>
                      if ar_Result res = AdapterResultPending
                      then do { schedulePollRetry rv rc cursor (ar_RetryAfterMS res); outcome ''pending''; State_Monad.return False }
                      else applyVerdict rv rc cursor res lease } })"

definition handlePollOutcome :: "runner_env \<Rightarrow> runner_config \<Rightarrow> poll_outcome \<Rightarrow> leader_lease \<Rightarrow> bool run_m" where
  "handlePollOutcome rv rc out lease =
     do { setState (\<lambda>s. s\<lparr>lr_PollInFlight := filter (\<lambda>k. k \<noteq> PollCursorKey (po_Cursor out)) (lr_PollInFlight s)\<rparr>);
          judgePoll rv rc out lease }"

text \<open>The lease the loop shows to the host: the pair it holds, and nothing else.\<close>

definition heldLease :: "leader_state \<Rightarrow> leader_lease" where
  "heldLease s =
     \<lparr>ll_LeaseID = lr_LeaseID s, ll_OwnerID = '''', ll_OwnerEpoch = lr_OwnerEpoch s, ll_AcquiredAt = 0, ll_RenewedAt = 0,
      ll_ExpiresAt = 0\<rparr>"

definition takePoll :: "runner_env \<Rightarrow> nat \<Rightarrow> poll_outcome option run_m" where
  "takePoll rv i = State (\<lambda>r.
     if i < length (rn_PollWorkers r) then
       (Some (pollWorker rv (rn_Tick r) (rn_PollWorkers r ! i)),
        r\<lparr>rn_PollWorkers := take i (rn_PollWorkers r) @ drop (Suc i) (rn_PollWorkers r), rn_Tick := Suc (rn_Tick r)\<rparr>)
     else (None, r))"

definition handlePollResult :: "runner_env \<Rightarrow> runner_config \<Rightarrow> poll_outcome \<Rightarrow> unit run_m" where
  "handlePollResult rv rc out =
     do { setState (\<lambda>s. s\<lparr>lr_PendingPolls := lr_PendingPolls s - 1\<rparr>);
          s \<leftarrow> theState;
          lost \<leftarrow> handlePollOutcome rv rc out (heldLease s);
          if lost then dropLeadership else State_Monad.return () }"

text \<open>Poll worker \<open>i\<close> delivers and its outcome is handled; \<open>False\<close> when there is no such worker.\<close>

definition deliverPoll :: "runner_env \<Rightarrow> runner_config \<Rightarrow> nat \<Rightarrow> bool run_m" where
  "deliverPoll rv rc i =
     do { taken \<leftarrow> takePoll rv i;
          case taken of
            None \<Rightarrow> State_Monad.return False
          | Some out \<Rightarrow> do { handlePollResult rv rc out; State_Monad.return True } }"

fun drainPollsFrom :: "runner_env \<Rightarrow> runner_config \<Rightarrow> nat \<Rightarrow> unit run_m" where
  "drainPollsFrom rv rc 0 = State_Monad.return ()"
| "drainPollsFrom rv rc (Suc k) =
     do { n \<leftarrow> tick;
          case rv_Delivered rv n of
            None \<Rightarrow> State_Monad.return ()
          | Some i \<Rightarrow>
              do { delivered \<leftarrow> deliverPoll rv rc i;
                   if delivered then drainPollsFrom rv rc k else State_Monad.return () } }"

definition drainPollResults :: "runner_env \<Rightarrow> runner_config \<Rightarrow> unit run_m" where
  "drainPollResults rv rc = do { out \<leftarrow> pollWorkersOut; drainPollsFrom rv rc out }"

definition startPoll :: "string \<Rightarrow> poll_cursor \<Rightarrow> unit run_m" where
  "startPoll key c = State (\<lambda>r.
     ((), r\<lparr>rn_State := (rn_State r)\<lparr>lr_PollInFlight := key # lr_PollInFlight (rn_State r),
              lr_PendingPolls := lr_PendingPolls (rn_State r) + 1\<rparr>,
            rn_PollWorkers := rn_PollWorkers r @ [c]\<rparr>))"

text \<open>
  The loop over the due cursors: a cursor with a running worker is skipped, and the pass stops when all
  poll workers are busy.
\<close>

fun offerFrom :: "runner_env \<Rightarrow> runner_config \<Rightarrow> poll_cursor list \<Rightarrow> unit run_m" where
  "offerFrom rv rc [] = State_Monad.return ()"
| "offerFrom rv rc (cursor # due) =
     do { s \<leftarrow> theState;
          let key = PollCursorKey cursor;
          if key \<in> set (lr_PollInFlight s) then offerFrom rv rc due
          else if length (lr_PollInFlight s) \<ge> rc_MaxPollWorkers rc then State_Monad.return ()
          else
            do { now \<leftarrow> clock rv;
                 committed \<leftarrow> storeOp rv (\<lambda>t _. CommitPoll (rv_Sha rv) (rv_Ctl rv) t (rc_ControllerID rc) cursor now);
                 case committed of
                   Inl _ \<Rightarrow> offerFrom rv rc due
                 | Inr c \<Rightarrow>
                     do { startPoll key c; offerFrom rv rc due } } }"

definition offerPolls :: "runner_env \<Rightarrow> runner_config \<Rightarrow> unit run_m" where
  "offerPolls rv rc =
     do { now \<leftarrow> clock rv;
          due \<leftarrow> storeOp rv (\<lambda>_ _. PollDue (rv_Ctl rv) (rc_ControllerID rc) now);
          case due of Inl _ \<Rightarrow> State_Monad.return () | Inr cursors \<Rightarrow> offerFrom rv rc cursors }"

definition nextPollWait :: "runner_env \<Rightarrow> runner_config \<Rightarrow> int \<Rightarrow> int run_m" where
  "nextPollWait rv rc wait =
     (if \<not> rc_Poll rc then State_Monad.return wait
      else
        do { res \<leftarrow> storeOp rv (\<lambda>_ _. NextPollTime (rv_Ctl rv) (rc_ControllerID rc));
             case res of
               Inl _ \<Rightarrow> State_Monad.return wait
             | Inr (earliest, ok) \<Rightarrow>
                 if \<not> ok then State_Monad.return wait
                 else do { now \<leftarrow> clock rv;
                           let d = (if timeSub earliest now < 0 then 0 else timeSub earliest now);
                           State_Monad.return (if d < wait then d else wait) } })"

section \<open>Waiting and stopping\<close>

text \<open>\<^verbatim>\<open>drainWorkers\<close>: receive from every worker that is out, whichever comes first.\<close>

definition someWorker :: "runner_env \<Rightarrow> nat \<Rightarrow> nat \<Rightarrow> nat" where
  "someWorker rv n out = (case rv_Delivered rv n of Some i \<Rightarrow> if i < out then i else 0 | None \<Rightarrow> 0)"

fun drainDispatch :: "runner_env \<Rightarrow> nat \<Rightarrow> unit run_m" where
  "drainDispatch rv 0 = State_Monad.return ()"
| "drainDispatch rv (Suc k) =
     do { s \<leftarrow> theState;
          if lr_Outstanding s \<le> 0 then State_Monad.return ()
          else do { n \<leftarrow> tick; out \<leftarrow> workersOut; _ \<leftarrow> takeResult rv (someWorker rv n out); drainDispatch rv k } }"

fun drainPending :: "runner_env \<Rightarrow> runner_config \<Rightarrow> nat \<Rightarrow> unit run_m" where
  "drainPending rv rc 0 = State_Monad.return ()"
| "drainPending rv rc (Suc k) =
     do { s \<leftarrow> theState;
          if lr_PendingPolls s \<le> 0 then State_Monad.return ()
          else do { n \<leftarrow> tick; out \<leftarrow> pollWorkersOut; _ \<leftarrow> deliverPoll rv rc (someWorker rv n out); drainPending rv rc k } }"

definition drainWorkers :: "runner_env \<Rightarrow> runner_config \<Rightarrow> unit run_m" where
  "drainWorkers rv rc =
     do { out \<leftarrow> workersOut; drainDispatch rv out; polls \<leftarrow> pollWorkersOut; drainPending rv rc polls }"

definition stopOnLogHole :: "error \<Rightarrow> bool run_m" where
  "stopOnLogHole e =
     (if \<not> isLogHole e then State_Monad.return False
      else do { outcome outcomeLogHole; State_Monad.return True })"

definition wakeSignal :: "bool \<Rightarrow> wake_reason \<Rightarrow> (wake_reason \<times> bool) run_m" where
  "wakeSignal listenWake w = State_Monad.return (if listenWake then w else wakeTimer, False)"

definition waitForWake :: "runner_env \<Rightarrow> runner_config \<Rightarrow> int \<Rightarrow> bool \<Rightarrow> (wake_reason \<times> bool) run_m" where
  "waitForWake rv rc d listenWake =
     do { setState (\<lambda>s. s\<lparr>lr_Timer := (if d < 0 then 0 else d)\<rparr>);
          n \<leftarrow> tick;
          case rv_Wake rv n of
            WokenDone \<Rightarrow>
              if listenWake then do { release rv rc; drainWorkers rv rc; State_Monad.return (wakeNone, True) }
              else State_Monad.return (wakeNone, False)
          | WokenTimer \<Rightarrow> State_Monad.return (wakeTimer, False)
          | WokenChange \<Rightarrow> wakeSignal listenWake wakeChange
          | WokenCapacity \<Rightarrow> wakeSignal listenWake wakeCapacity
          | WokenResult i \<Rightarrow>
              do { taken \<leftarrow> takeResult rv i;
                   case taken of
                     None \<Rightarrow> State_Monad.return (wakeTimer, False)
                   | Some res \<Rightarrow> do { _ \<leftarrow> handleResult rv rc res; State_Monad.return (wakeResult, False) } }
          | WokenPoll i \<Rightarrow>
              do { delivered \<leftarrow> deliverPoll rv rc i;
                   State_Monad.return (if delivered then wakeResult else wakeTimer, False) } }"

text \<open>A wait at the end of a step: the wake reason is kept, and the loop goes on or ends.\<close>

definition waitAndKeep :: "runner_env \<Rightarrow> runner_config \<Rightarrow> int \<Rightarrow> step_result run_m" where
  "waitAndKeep rv rc wait =
     do { (w, exited) \<leftarrow> waitForWake rv rc wait True;
          setState (\<lambda>s. s\<lparr>lr_Wake := w\<rparr>);
          State_Monad.return (if exited then stepExit else stepLoop) }"

text \<open>A wait that keeps the wake reason only when the loop goes on.\<close>

definition waitOrExit :: "runner_env \<Rightarrow> runner_config \<Rightarrow> int \<Rightarrow> step_result run_m" where
  "waitOrExit rv rc wait =
     do { (w, exited) \<leftarrow> waitForWake rv rc wait True;
          if exited then State_Monad.return stepExit
          else do { setState (\<lambda>s. s\<lparr>lr_Wake := w\<rparr>); State_Monad.return stepLoop } }"

section \<open>The steps of a pass\<close>

definition startLeading :: "controller_record \<Rightarrow> step_result run_m" where
  "startLeading rec =
     do { setState (\<lambda>s. s\<lparr>lr_LeaseID := (case ct_Leader rec of None \<Rightarrow> '''' | Some l \<Rightarrow> ll_LeaseID l),
            lr_OwnerEpoch := (case ct_Leader rec of None \<Rightarrow> 0 | Some l \<Rightarrow> ll_OwnerEpoch l),
            lr_Holding := True, lr_BlockedSource := '''', lr_LastRefresh := 0\<rparr>);
          publish (\<lambda>st. st\<lparr>rt_Leading := True\<rparr>);
          State_Monad.return stepNext }"

definition acquireFailed :: "runner_env \<Rightarrow> runner_config \<Rightarrow> error \<Rightarrow> step_result run_m" where
  "acquireFailed rv rc e =
     (case e of
        ErrDisabled _ \<Rightarrow> do { drainWorkers rv rc; State_Monad.return stepExit }
      | _ \<Rightarrow>
          do { stop \<leftarrow> stopOnLogHole e;
               if stop then do { drainWorkers rv rc; State_Monad.return stepExit }
               else do { outcome ''acquire_error'';
                         _ \<leftarrow> waitForWake rv rc (rc_RenewInterval rc) False;
                         State_Monad.return stepLoop } })"

definition acquireLead :: "runner_env \<Rightarrow> runner_config \<Rightarrow> step_result run_m" where
  "acquireLead rv rc =
     do { res \<leftarrow> storeOp rv (\<lambda>t n. AcquireLease (rv_Ctl rv) t (rv_LeaseID rv n) (rc_ControllerID rc) (rc_OwnerID rc));
          case res of
            Inl e \<Rightarrow> acquireFailed rv rc e
          | Inr (rec, granted) \<Rightarrow>
              if granted then startLeading rec
              else do { _ \<leftarrow> waitForWake rv rc (rc_RenewInterval rc) False; State_Monad.return stepLoop } }"

definition acquire :: "runner_env \<Rightarrow> runner_config \<Rightarrow> step_result run_m" where
  "acquire rv rc =
     do { s \<leftarrow> theState; if lr_Holding s then State_Monad.return stepNext else acquireLead rv rc }"

text \<open>The record, the time of the next renewal and how to proceed.\<close>

definition renew :: "runner_env \<Rightarrow> runner_config \<Rightarrow> (controller_record \<times> gotime \<times> step_result) run_m" where
  "renew rv rc =
     do { s \<leftarrow> theState;
          res \<leftarrow> storeOp rv (\<lambda>t _. RenewLease (rv_Ctl rv) t (rc_ControllerID rc) (lr_LeaseID s) (lr_OwnerEpoch s));
          case res of
            Inl e \<Rightarrow>
              do { stop \<leftarrow> stopOnLogHole e;
                   dropLeadership;
                   if stop then do { drainWorkers rv rc; State_Monad.return (zeroController, 0, stepExit) }
                   else do { _ \<leftarrow> waitForWake rv rc (rc_RenewInterval rc) False;
                             State_Monad.return (zeroController, 0, stepLoop) } }
          | Inr _ \<Rightarrow>
              do { now \<leftarrow> clock rv;
                   got \<leftarrow> storeOp rv (\<lambda>_ _. GetController (rv_Ctl rv) (rc_ControllerID rc));
                   case got of
                     Inl _ \<Rightarrow>
                       do { outcome ''state_error'';
                            step \<leftarrow> waitAndKeep rv rc (rc_RenewInterval rc);
                            State_Monad.return (zeroController, 0, step) }
                   | Inr (rec, ok) \<Rightarrow>
                       if \<not> ok \<or> ct_DesiredState rec \<noteq> DesiredEnabled
                       then do { release rv rc; drainWorkers rv rc; State_Monad.return (zeroController, 0, stepExit) }
                       else State_Monad.return (rec, now + rc_RenewInterval rc, stepNext) } }"

definition refreshDue :: "runner_config \<Rightarrow> leader_state \<Rightarrow> gotime \<Rightarrow> bool" where
  "refreshDue rc s now \<longleftrightarrow> IsZero (lr_LastRefresh s) \<or> timeSub now (lr_LastRefresh s) \<ge> rc_AntiEntropy rc"

definition clearingRules :: "bool \<Rightarrow> unit run_m" where
  "clearingRules refreshed =
     do { s \<leftarrow> theState;
          (if lr_BlockedSource s \<noteq> '''' \<and> (lr_Wake s = wakeCapacity \<or> refreshed) then clearBlock else State_Monad.return ());
          setState (\<lambda>s. s\<lparr>lr_Wake := wakeNone\<rparr>) }"

definition refreshView :: "runner_env \<Rightarrow> runner_config \<Rightarrow> controller_record \<Rightarrow> int \<Rightarrow> (int \<times> step_result) run_m" where
  "refreshView rv rc rec wait =
     do { s \<leftarrow> theState;
          now \<leftarrow> clock rv;
          if \<not> refreshDue rc s now then do { clearingRules False; State_Monad.return (wait, stepNext) }
          else
            do { n \<leftarrow> tick;
                 case rv_Refresh rv n of
                   Inl _ \<Rightarrow> do { outcome ''refresh_error''; step \<leftarrow> waitOrExit rv rc wait; State_Monad.return (wait, step) }
                 | Inr _ \<Rightarrow>
                     do { now' \<leftarrow> clock rv;
                          setState (\<lambda>s. s\<lparr>lr_LastRefresh := now'\<rparr>);
                          (if rc_Poll rc then reseedPollCursors rv rc (ct_PollCursors rec) else State_Monad.return ());
                          clearingRules True;
                          State_Monad.return (wait, stepNext) } } }"

definition preparePass :: "runner_env \<Rightarrow> runner_config \<Rightarrow> controller_record \<Rightarrow> gotime \<Rightarrow> (int \<times> step_result) run_m" where
  "preparePass rv rc rec nextRenewDue =
     do { now \<leftarrow> clock rv;
          let wait = min (rc_AntiEntropy rc) (timeSub nextRenewDue now);
          if \<not> rc_Poll rc then refreshView rv rc rec wait
          else
            do { drainPollResults rv rc;
                 s \<leftarrow> theState;
                 if \<not> lr_Holding s
                 then do { _ \<leftarrow> waitForWake rv rc (rc_RenewInterval rc) False; State_Monad.return (wait, stepLoop) }
                 else do { offerPolls rv rc; wait' \<leftarrow> nextPollWait rv rc wait; refreshView rv rc rec wait' } } }"

definition blockedPass :: "runner_env \<Rightarrow> runner_config \<Rightarrow> int \<Rightarrow> step_result run_m" where
  "blockedPass rv rc wait =
     do { n \<leftarrow> tick;
          case rv_InFlight rv n of
            Inl _ \<Rightarrow> do { outcome ''inflight_error''; waitAndKeep rv rc wait }
          | Inr inflight \<Rightarrow>
              do { s \<leftarrow> theState;
                   now \<leftarrow> clock rv;
                   publish (\<lambda>st. st\<lparr>rt_LastReconcile := now,
                     rt_Inflight := activeCount (buildInflightView rc s inflight) (rc_ControllerID rc)\<rparr>);
                   waitOrExit rv rc wait } }"

definition addUnreported :: "candidate \<Rightarrow> leader_state \<Rightarrow> leader_state" where
  "addUnreported c s =
     s\<lparr>lr_Unreported := mapPut (cd_Identity c)
         (Suc (case map_of (lr_Unreported s) (cd_Identity c) of None \<Rightarrow> 0 | Some (n, _) \<Rightarrow> n), cd_ConcurrencyKey c) (lr_Unreported s),
       lr_Outstanding := lr_Outstanding s + 1\<rparr>"

definition startWorker :: "decision \<Rightarrow> unit run_m" where
  "startWorker d = State (\<lambda>r.
     ((), r\<lparr>rn_State := addUnreported (dn_Candidate d) (rn_State r),
            rn_Workers := rn_Workers r @ [(d, heldLease (rn_State r))]\<rparr>))"

fun handOff :: "runner_env \<Rightarrow> runner_config \<Rightarrow> decision list \<Rightarrow> unit run_m" where
  "handOff rv rc [] = State_Monad.return ()"
| "handOff rv rc (d # ds) =
     do { lost \<leftarrow> drainResults rv rc;
          s \<leftarrow> theState;
          n \<leftarrow> tick;
          if lost \<or> lr_BlockedSource s \<noteq> '''' \<or> \<not> lr_Holding s then State_Monad.return ()
          else if rv_Canceled rv n then State_Monad.return ()
          else
            do { res \<leftarrow> storeOp rv (\<lambda>t _. RenewLease (rv_Ctl rv) t (rc_ControllerID rc) (lr_LeaseID s) (lr_OwnerEpoch s));
                 case res of
                   Inl _ \<Rightarrow> dropLeadership
                 | Inr _ \<Rightarrow> do { startWorker d; handOff rv rc ds } } }"

definition dispatchDecisions :: "runner_env \<Rightarrow> runner_config \<Rightarrow> controller_record \<Rightarrow> int \<Rightarrow> candidate list \<Rightarrow> in_flight_attempt list \<Rightarrow> step_result run_m" where
  "dispatchDecisions rv rc rec wait candidates inflight =
     do { s \<leftarrow> theState;
          let view = buildInflightView rc s inflight;
          now \<leftarrow> clock rv;
          let decisions = Select \<lparr>si_ControllerID = rc_ControllerID rc, si_Candidates = candidates, si_InFlight = view,
            si_Now = now, si_MaxInflight = ct_MaxInflight rec\<rparr>;
          reconciledAt \<leftarrow> clock rv;
          publish (\<lambda>st. let st' = st\<lparr>rt_LastReconcile := reconciledAt, rt_Inflight := activeCount view (rc_ControllerID rc)\<rparr> in
            if decisions = [] \<and> rt_CapacityBlocked st' = '''' then st'\<lparr>rt_LastOutcome := ''idle''\<rparr> else st');
          handOff rv rc decisions;
          s' \<leftarrow> theState;
          if \<not> lr_Holding s'
          then do { _ \<leftarrow> waitForWake rv rc (rc_RenewInterval rc) False; State_Monad.return stepLoop }
          else waitOrExit rv rc wait }"

definition dispatchPass :: "runner_env \<Rightarrow> runner_config \<Rightarrow> controller_record \<Rightarrow> int \<Rightarrow> step_result run_m" where
  "dispatchPass rv rc rec wait =
     do { n \<leftarrow> tick;
          case rv_Candidates rv n of
            Inl _ \<Rightarrow> do { outcome ''candidates_error''; waitAndKeep rv rc wait }
          | Inr candidates \<Rightarrow>
              do { n' \<leftarrow> tick;
                   case rv_InFlight rv n' of
                     Inl _ \<Rightarrow> do { outcome ''inflight_error''; waitAndKeep rv rc wait }
                   | Inr inflight \<Rightarrow>
                       if ct_MaxInflight rec \<le> 0 then do { outcome ''no_capacity''; waitAndKeep rv rc wait }
                       else dispatchDecisions rv rc rec wait candidates inflight } }"

text \<open>One turn of the leader loop; \<open>True\<close> when the loop ends.\<close>

definition turn :: "runner_env \<Rightarrow> runner_config \<Rightarrow> bool run_m" where
  "turn rv rc =
     do { n \<leftarrow> tick;
          if rv_Canceled rv n then do { release rv rc; drainWorkers rv rc; State_Monad.return True }
          else
            do { step \<leftarrow> acquire rv rc;
                 if step \<noteq> stepNext then State_Monad.return (step = stepExit)
                 else
                   do { (rec, nextRenewDue, step) \<leftarrow> renew rv rc;
                        if step \<noteq> stepNext then State_Monad.return (step = stepExit)
                        else
                          do { (wait, step) \<leftarrow> preparePass rv rc rec nextRenewDue;
                               if step \<noteq> stepNext then State_Monad.return (step = stepExit)
                               else
                                 do { s \<leftarrow> theState;
                                      step \<leftarrow> (if lr_BlockedSource s \<noteq> '''' then blockedPass rv rc wait
                                              else dispatchPass rv rc rec wait);
                                      State_Monad.return (step = stepExit) } } } } }"

text \<open>The loop for a number of turns; \<open>True\<close> when it ended within them, with the leadership status cleared.\<close>

fun runnerLoop :: "runner_env \<Rightarrow> runner_config \<Rightarrow> nat \<Rightarrow> bool run_m" where
  "runnerLoop rv rc 0 = State_Monad.return False"
| "runnerLoop rv rc (Suc k) =
     do { ended \<leftarrow> turn rv rc;
          if ended then do { clearLeadStatus; State_Monad.return True } else runnerLoop rv rc k }"

definition newLeaderState :: leader_state where
  "newLeaderState =
     \<lparr>lr_LeaseID = '''', lr_OwnerEpoch = 0, lr_Holding = False, lr_BlockedSource = '''', lr_LastRefresh = 0,
      lr_Wake = wakeNone, lr_Timer = 0, lr_Unreported = [], lr_Outstanding = 0, lr_PollInFlight = [], lr_PendingPolls = 0\<rparr>"

definition newRunner :: "controller_store \<Rightarrow> runner" where
  "newRunner st =
     \<lparr>rn_Store = st, rn_State = newLeaderState,
      rn_Status = \<lparr>rt_Leading = False, rt_LastReconcile = 0, rt_LastOutcome = '''', rt_Inflight = 0, rt_CapacityBlocked = '''',
        rt_CapacityDetail = ''''\<rparr>,
      rn_Workers = [], rn_PollWorkers = [], rn_Tick = 0\<rparr>"

end
