(* ===== verification/Wc_RunnerSafety.thy ===== *)
theory Wc_RunnerSafety
  imports Wc_Runner Wc_PolicySafety
begin

text \<open>
  The bookkeeping of the leader loop, its dispatch pass and its end. \<open>run_order\<close> is the contract of a
  relation between the states before and after a program: reflexive and transitive relations are kept by
  sequencing, branching and loops. It is instantiated with what quiet steps leave alone (\<open>calm\<close>), with the
  invariant of the books (\<open>guard\<close>) and with the workers that only disappear (\<open>shrinks\<close>).
\<close>

section \<open>Relations that programs keep\<close>

locale run_order =
  fixes R :: "runner \<Rightarrow> runner \<Rightarrow> bool"
  assumes refl: "R r r"
    and trans: "R r s \<Longrightarrow> R s t \<Longrightarrow> R r t"
begin

lemma kept_pure: "(\<And>r. snd (run_state m r) = r) \<Longrightarrow> state_io_rel R m"
  by (simp add: state_io_rel_def refl)

lemma kept_return: "state_io_rel R (State_Monad.return x)"
  by (rule kept_pure) simp

lemma kept_bind:
  assumes "state_io_rel R m" and "\<And>x. state_io_rel R (f x)"
  shows "state_io_rel R (State_Monad.bind m f)"
  using assms by (auto simp: state_io_rel_def split: prod.split) (metis snd_conv trans)

lemma kept_if: "(b \<Longrightarrow> state_io_rel R m) \<Longrightarrow> (\<not> b \<Longrightarrow> state_io_rel R n) \<Longrightarrow> state_io_rel R (if b then m else n)"
  by simp

lemma kept_option:
  "state_io_rel R m \<Longrightarrow> (\<And>y. state_io_rel R (f y)) \<Longrightarrow> state_io_rel R (case x of None \<Rightarrow> m | Some y \<Rightarrow> f y)"
  by (cases x) simp_all

lemma kept_sum:
  "(\<And>e. state_io_rel R (g e)) \<Longrightarrow> (\<And>y. state_io_rel R (f y)) \<Longrightarrow> state_io_rel R (case x of Inl e \<Rightarrow> g e | Inr y \<Rightarrow> f y)"
  by (cases x) simp_all

lemma kept_prod: "(\<And>a b. state_io_rel R (f a b)) \<Longrightarrow> state_io_rel R (case x of (a, b) \<Rightarrow> f a b)"
  by (cases x) simp

lemma kept_forEach: "(\<And>x. state_io_rel R (f x)) \<Longrightarrow> state_io_rel R (forEach f xs)"
  by (induction xs) (simp_all add: kept_return kept_bind)

lemma kept_wake:
  "state_io_rel R f1 \<Longrightarrow> state_io_rel R f2 \<Longrightarrow> state_io_rel R f3 \<Longrightarrow> state_io_rel R f4 \<Longrightarrow>
   (\<And>i. state_io_rel R (f5 i)) \<Longrightarrow> (\<And>i. state_io_rel R (f6 i)) \<Longrightarrow>
   state_io_rel R (case w of WokenDone \<Rightarrow> f1 | WokenTimer \<Rightarrow> f2 | WokenChange \<Rightarrow> f3 | WokenCapacity \<Rightarrow> f4 |
     WokenResult i \<Rightarrow> f5 i | WokenPoll i \<Rightarrow> f6 i)"
  by (cases w) simp_all

lemmas kept = kept_return kept_bind kept_if kept_option kept_sum kept_prod kept_forEach kept_wake

end

section \<open>Steps that leave the books alone\<close>

abbreviation holding :: "runner \<Rightarrow> bool" where
  "holding r \<equiv> lr_Holding (rn_State r)"

definition books :: "runner \<Rightarrow> (decision \<times> leader_lease) list \<times> poll_cursor list \<times> (execution_identity \<times> nat \<times> string) list \<times> int \<times> string list \<times> int" where
  "books r = (rn_Workers r, rn_PollWorkers r, lr_Unreported (rn_State r), lr_Outstanding (rn_State r),
     lr_PollInFlight (rn_State r), lr_PendingPolls (rn_State r))"

definition calm :: "runner \<Rightarrow> runner \<Rightarrow> bool" where
  "calm r r' \<longleftrightarrow> books r' = books r \<and> (holding r' \<longrightarrow> holding r)"

interpretation calm: run_order calm
  by unfold_locales (auto simp: calm_def)

abbreviation calmly :: "'a run_m \<Rightarrow> bool" where
  "calmly m \<equiv> state_io_rel calm m"

lemma calm_tick: "calmly tick"
  by (simp add: tick_def state_io_rel_def calm_def books_def)

lemma calm_clock: "calmly (clock rv)"
  unfolding clock_def by (intro calm.kept calm_tick)

lemma calm_storeOp: "calmly (storeOp rv f)"
  by (simp add: storeOp_def state_io_rel_def calm_def books_def split: prod.split)

lemma calm_theState: "calmly theState"
  by (rule calm.kept_pure) (simp add: theState_def)

lemma calm_workersOut: "calmly workersOut" "calmly pollWorkersOut"
  by (auto intro!: calm.kept_pure simp: workersOut_def pollWorkersOut_def)

lemma calm_publish: "calmly (publish f)"
  by (simp add: publish_def state_io_rel_def calm_def books_def)

lemma calm_setState:
  assumes "\<And>s. lr_Unreported (f s) = lr_Unreported s" and "\<And>s. lr_Outstanding (f s) = lr_Outstanding s"
    and "\<And>s. lr_PollInFlight (f s) = lr_PollInFlight s" and "\<And>s. lr_PendingPolls (f s) = lr_PendingPolls s"
    and "\<And>s. lr_Holding (f s) \<Longrightarrow> lr_Holding s"
  shows "calmly (setState f)"
  using assms by (auto simp: setState_def state_io_rel_def calm_def books_def)

lemma calm_outcome: "calmly (outcome s)" "calmly clearLeadStatus"
  by (simp_all add: outcome_def clearLeadStatus_def calm_publish)

lemmas calm_ops = calm_tick calm_clock calm_storeOp calm_theState calm_workersOut calm_publish calm_outcome calm_setState
lemmas calm_basic = calm.kept calm_ops

lemma calm_lead: "calmly dropLeadership" "calmly clearBlock" "calmly (release rv rc)"
  unfolding dropLeadership_def clearBlock_def release_def by (intro calm_basic; simp)+

lemma calm_ensureSeed: "calmly (ensureSeed rv rc g)"
  unfolding ensureSeed_def by (intro calm_basic)

lemma calm_reseed: "calmly (reseedPollCursors rv rc existing)"
  unfolding reseedPollCursors_def by (intro calm_basic calm_ensureSeed)

lemma calm_handleResult: "calmly (handleResult rv rc res)"
proof -
  have "calmly (handleDispatched rv rc i dr)" for i dr
    unfolding handleDispatched_def Let_def
    by (cases "dr_Kind dr") (auto intro!: calm_basic calm_lead calm_ensureSeed)
  then show ?thesis unfolding handleResult_def by (intro calm_basic)
qed

lemma calm_schedule: "calmly (schedulePollRetry rv rc c ms)" "calmly (clearCursor rv rc c)" "calmly (diagnose rv rc k n d)"
  "calmly (undiagnose rv rc k n)"
  unfolding schedulePollRetry_def clearCursor_def diagnose_def undiagnose_def Let_def by (intro calm_basic)+

lemma calm_applyVerdict: "calmly (applyVerdict rv rc c res lease)"
proof -
  have "calmly (case x of PollStale \<Rightarrow> a | PollSubjectMismatch \<Rightarrow> b | PollObsolete \<Rightarrow> d | _ \<Rightarrow> e)"
    if "calmly a" "calmly b" "calmly d" "calmly e" for a b d e :: "bool run_m" and x
    using that by (cases x) simp_all
  then show ?thesis unfolding applyVerdict_def Let_def
    by (auto intro!: calm_basic calm_schedule split: poll_apply_outcome.split)
qed

lemma calm_judgePoll: "calmly (judgePoll rv rc out lease)"
  unfolding judgePoll_def Let_def by (intro calm_basic calm_schedule calm_applyVerdict)


section \<open>The books\<close>

definition candidatesOut :: "runner \<Rightarrow> candidate list" where
  "candidatesOut r = map (\<lambda>w. dn_Candidate (fst w)) (rn_Workers r)"

definition owed :: "candidate \<Rightarrow> execution_identity \<times> nat \<times> string" where
  "owed c = (cd_Identity c, 1, cd_ConcurrencyKey c)"

text \<open>
  Every dispatch worker is counted and owes one result under its identity and key, no two work on one activation or hold
  one key; every poll worker is counted and its cursor is in flight, no two poll one cursor, and there are at most \<open>m\<close>.
\<close>

definition accounted :: "nat \<Rightarrow> runner \<Rightarrow> bool" where
  "accounted m r \<longleftrightarrow>
     lr_Outstanding (rn_State r) = int (length (rn_Workers r)) \<and>
     mset (lr_Unreported (rn_State r)) = mset (map owed (candidatesOut r)) \<and>
     distinct (map actKey (candidatesOut r)) \<and> distinct (slotKeys (candidatesOut r)) \<and>
     lr_PendingPolls (rn_State r) = int (length (rn_PollWorkers r)) \<and>
     mset (lr_PollInFlight (rn_State r)) = mset (map PollCursorKey (rn_PollWorkers r)) \<and>
     distinct (map PollCursorKey (rn_PollWorkers r)) \<and> length (rn_PollWorkers r) \<le> m"

definition guard :: "nat \<Rightarrow> bool \<Rightarrow> runner \<Rightarrow> bool" where
  "guard m b r \<longleftrightarrow> accounted m r \<and> (b \<longrightarrow> \<not> holding r)"

interpretation guarded: run_order "\<lambda>r r'. guard m b r \<longrightarrow> guard m b r'" for m b
  by unfold_locales auto

abbreviation guardedly :: "nat \<Rightarrow> bool \<Rightarrow> 'a run_m \<Rightarrow> bool" where
  "guardedly m b f \<equiv> state_io_rel (\<lambda>r r'. guard m b r \<longrightarrow> guard m b r') f"

lemma calm_guard: "calm r r' \<Longrightarrow> guard m b r \<Longrightarrow> guard m b r'"
  by (auto simp: calm_def books_def guard_def accounted_def candidatesOut_def)

lemma guarded_calm: "calmly f \<Longrightarrow> guardedly m b f"
  by (auto simp: state_io_rel_def intro: calm_guard)

lemmas guarded_basic = guarded.kept calm_ops[THEN guarded_calm] calm_lead[THEN guarded_calm] calm_ensureSeed[THEN guarded_calm]
  calm_reseed[THEN guarded_calm] calm_handleResult[THEN guarded_calm]

subsection \<open>A worker delivers\<close>

lemma mset_remove: "i < length xs \<Longrightarrow> mset (take i xs @ drop (Suc i) xs) = mset xs - {#xs ! i#}"
  by (metis Cons_nth_drop_Suc add_mset_remove_trivial append_take_drop_id mset_append mset.simps(2) union_mset_add_mset_right)

lemma distinct_mset_le:
  assumes "mset xs' \<subseteq># mset xs" and "distinct (map f xs)"
  shows "distinct (map f xs')"
proof -
  obtain zs where "mset xs = mset (xs' @ zs)" using assms(1) by (metis ex_mset mset_append mset_subset_eq_exists_conv)
  then have "mset (map f xs) = mset (map f (xs' @ zs))" by (simp only: mset_map)
  then show ?thesis using assms(2) mset_eq_imp_distinct_iff by fastforce
qed

lemma slotKeys_mset_le:
  assumes "mset xs' \<subseteq># mset xs" and "distinct (slotKeys xs)"
  shows "distinct (slotKeys xs')"
  unfolding slotKeys_def
proof (rule distinct_mset_le)
  let ?P = "\<lambda>c. takesSlot c \<and> cd_ConcurrencyKey c \<noteq> ''''"
  show "mset (filter ?P xs') \<subseteq># mset (filter ?P xs)" unfolding mset_filter by (rule multiset_filter_mono) (rule assms)
  show "distinct (map cd_ConcurrencyKey (filter ?P xs))" using assms(2) by (simp only: slotKeys_def)
qed

text \<open>What the workers owe, by identity.\<close>

lemma owed_keys: "mset u = mset (map owed cs) \<Longrightarrow> mset (map fst u) = mset (map cd_Identity cs)"
  by (metis (mono_tags, lifting) comp_apply map_map mset_map fst_conv map_eq_conv owed_def)

lemma identities_distinct: "distinct (map actKey cs) \<Longrightarrow> distinct (map cd_Identity cs)"
  by (metis (no_types, lifting) distinct_map map_map comp_apply map_eq_conv)

lemma owed_set: "mset u = mset (map owed cs) \<Longrightarrow> set u = owed ` set cs"
  by (metis set_map set_mset_mset)

lemma owed_lookup:
  assumes "mset u = mset (map owed cs)" and "distinct (map cd_Identity cs)" and "c \<in> set cs"
  shows "map_of u (cd_Identity c) = Some (1, cd_ConcurrencyKey c)"
proof (rule map_of_is_SomeI)
  show "distinct (map fst u)" using assms(2) owed_keys[OF assms(1)] by (metis mset_eq_imp_distinct_iff)
  show "(cd_Identity c, 1, cd_ConcurrencyKey c) \<in> set u" using assms(3) by (auto simp: owed_set[OF assms(1)] owed_def)
qed

lemma owed_lookup_none:
  assumes "mset u = mset (map owed cs)" and "i \<notin> cd_Identity ` set cs"
  shows "map_of u i = None"
  using assms(2) by (auto simp: map_of_eq_None_iff owed_set[OF assms(1)] owed_def)

lemma owed_delete:
  assumes "mset u = mset (map owed (as @ c # bs))" and "distinct (map cd_Identity (as @ c # bs))"
  shows "mset (mapDel (cd_Identity c) u) = mset (map owed (as @ bs))"
proof -
  have same: "filter (\<lambda>(k, _). k \<noteq> cd_Identity c) (map owed xs) = map owed xs" if "cd_Identity c \<notin> cd_Identity ` set xs" for xs
    using that by (induction xs) (auto simp: owed_def)
  have "mset (mapDel (cd_Identity c) u) = mset (filter (\<lambda>(k, _). k \<noteq> cd_Identity c) (map owed (as @ c # bs)))"
    by (simp only: mapDel_def mset_filter assms(1))
  also have "\<dots> = mset (map owed (as @ bs))" using assms(2) by (auto simp: same) (simp add: owed_def)
  finally show ?thesis .
qed

lemma owed_insert:
  assumes "mset u = mset (map owed cs)" and "cd_Identity c \<notin> cd_Identity ` set cs"
  shows "mset (mapPut (cd_Identity c) (1, cd_ConcurrencyKey c) u) = mset (map owed (cs @ [c]))"
proof -
  have "filter (\<lambda>(k, _). k \<noteq> cd_Identity c) u = u"
    using assms(2) by (auto simp: filter_id_conv owed_set[OF assms(1)] owed_def) (metis image_eqI)
  then show ?thesis using assms(1) by (simp add: mapPut_def owed_def)
qed

lemma takeResult_guard: "guardedly m b (takeResult rv i)"
proof -
  have "guard m b (snd (run_state (takeResult rv i) r))" if g: "guard m b r" for r
  proof (cases "i < length (rn_Workers r)")
    case True
    let ?f = "\<lambda>w. dn_Candidate (fst w)" and ?u = "lr_Unreported (rn_State r)" and ?w = "rn_Workers r ! i"
    define as bs c where "as = map ?f (take i (rn_Workers r))" and "bs = map ?f (drop (Suc i) (rn_Workers r))" and "c = ?f ?w"
    let ?r = "snd (run_state (takeResult rv i) r)"
    have out: "candidatesOut r = as @ c # bs"
      using arg_cong[OF id_take_nth_drop[OF True], of "map ?f"] by (simp only: candidatesOut_def as_def bs_def c_def map_append list.map)
    have u: "mset ?u = mset (map owed (as @ c # bs))" and d: "distinct (map actKey (as @ c # bs))"
      and k: "distinct (slotKeys (as @ c # bs))"
      using g by (simp_all add: guard_def accounted_def out del: map_append list.map)
    note ids = identities_distinct[OF d]
    have owes: "map_of ?u (cd_Identity c) = Some (1, cd_ConcurrencyKey c)" by (rule owed_lookup[OF u ids]) simp
    have out': "candidatesOut ?r = as @ bs" and wk: "length (rn_Workers ?r) = length (rn_Workers r) - 1"
      and polls: "rn_PollWorkers ?r = rn_PollWorkers r"
      using True by (simp_all add: takeResult_def Let_def candidatesOut_def as_def bs_def)
    have st: "rn_State ?r = (rn_State r)\<lparr>lr_Outstanding := lr_Outstanding (rn_State r) - 1,
        lr_Unreported := mapDel (cd_Identity c) ?u\<rparr>"
      using True owes by (simp add: takeResult_def Let_def receiveResult_def decrementUnreported_def dispatchWorker_def c_def)
    have "mset as + mset bs \<subseteq># mset (as @ c # bs)" by simp
    then have le: "mset (as @ bs) \<subseteq># mset (as @ c # bs)" by simp
    show ?thesis unfolding guard_def accounted_def out' st polls
      using g True owed_delete[OF u ids] distinct_mset_le[OF le d] slotKeys_mset_le[OF le k]
      by (simp add: guard_def accounted_def wk del: map_append mset_append)
  qed (use g in \<open>simp add: takeResult_def\<close>)
  then show ?thesis by (simp add: state_io_rel_def)
qed

lemma startWorker_guard:
  assumes g: "guard m b r" and "actKey (dn_Candidate d) \<notin> actKey ` set (candidatesOut r)"
    and "distinct (slotKeys (candidatesOut r @ [dn_Candidate d]))"
  shows "guard m b (snd (run_state (startWorker d) r))"
proof -
  let ?c = "dn_Candidate d" and ?u = "lr_Unreported (rn_State r)"
  have fresh: "cd_Identity ?c \<notin> cd_Identity ` set (candidatesOut r)" using assms(2) by (metis (no_types) image_iff)
  have u: "mset ?u = mset (map owed (candidatesOut r))" using g by (simp add: guard_def accounted_def)
  show ?thesis using g assms owed_lookup_none[OF u fresh] owed_insert[OF u fresh]
    by (auto simp: startWorker_def addUnreported_def guard_def accounted_def candidatesOut_def)
qed

subsection \<open>A poll worker delivers\<close>

lemma handlePollResult_books:
  "books (snd (run_state (handlePollResult rv rc out) r)) =
     (rn_Workers r, rn_PollWorkers r, lr_Unreported (rn_State r), lr_Outstanding (rn_State r),
      filter (\<lambda>k. k \<noteq> PollCursorKey (po_Cursor out)) (lr_PollInFlight (rn_State r)), lr_PendingPolls (rn_State r) - 1) \<and>
   (holding (snd (run_state (handlePollResult rv rc out) r)) \<longrightarrow> holding r)"
proof -
  let ?s = "rn_State r"
  let ?r = "r\<lparr>rn_State := ?s\<lparr>lr_PendingPolls := lr_PendingPolls ?s - 1,
    lr_PollInFlight := filter (\<lambda>k. k \<noteq> PollCursorKey (po_Cursor out)) (lr_PollInFlight ?s)\<rparr>\<rparr>"
  let ?m = "do { lost \<leftarrow> judgePoll rv rc out (heldLease (?s\<lparr>lr_PendingPolls := lr_PendingPolls ?s - 1\<rparr>));
                 if lost then dropLeadership else State_Monad.return () }"
  have "calmly ?m" by (intro calm_basic calm_judgePoll calm_lead)
  moreover have "run_state (handlePollResult rv rc out) r = run_state ?m ?r"
    by (simp add: handlePollResult_def handlePollOutcome_def setState_def theState_def)
  ultimately show ?thesis by (auto simp: state_io_rel_def calm_def books_def)
qed

lemma deliverPoll_effect:
  assumes g: "guard m b r" and i: "i < length (rn_PollWorkers r)"
  shows "guard m b (snd (run_state (deliverPoll rv rc i) r)) \<and>
         rn_PollWorkers (snd (run_state (deliverPoll rv rc i) r)) = take i (rn_PollWorkers r) @ drop (Suc i) (rn_PollWorkers r) \<and>
         rn_Workers (snd (run_state (deliverPoll rv rc i) r)) = rn_Workers r"
proof -
  define as bs w where "as = take i (rn_PollWorkers r)" and "bs = drop (Suc i) (rn_PollWorkers r)" and "w = rn_PollWorkers r ! i"
  have ws: "rn_PollWorkers r = as @ w # bs" using i by (simp add: as_def bs_def w_def id_take_nth_drop)
  define out where "out = pollWorker rv (rn_Tick r) w"
  define r1 where "r1 = r\<lparr>rn_PollWorkers := as @ bs, rn_Tick := Suc (rn_Tick r)\<rparr>"
  define r2 where "r2 = snd (run_state (handlePollResult rv rc out) r1)"
  have run: "snd (run_state (deliverPoll rv rc i) r) = r2"
    using i by (simp add: deliverPoll_def takePoll_def r2_def r1_def out_def as_def bs_def w_def split: prod.split)
  have key: "po_Cursor out = w" by (simp add: out_def pollWorker_def split: prod.split)
  have b2: "books r2 = (rn_Workers r, as @ bs, lr_Unreported (rn_State r), lr_Outstanding (rn_State r),
      filter (\<lambda>k. k \<noteq> PollCursorKey w) (lr_PollInFlight (rn_State r)), lr_PendingPolls (rn_State r) - 1)"
    and h2: "holding r2 \<longrightarrow> holding r"
    using handlePollResult_books[of rv rc out r1] by (simp_all add: r2_def r1_def key)
  have poll: "mset (lr_PollInFlight (rn_State r)) = mset (map PollCursorKey (as @ w # bs))"
    and dist: "distinct (map PollCursorKey (as @ w # bs))"
    using g by (simp_all add: guard_def accounted_def ws)
  have same: "filter (\<lambda>k. k \<noteq> PollCursorKey w) (map PollCursorKey xs) = map PollCursorKey xs" if "PollCursorKey w \<notin> PollCursorKey ` set xs" for xs
    using that by (auto simp: filter_id_conv) (metis image_eqI)
  have "mset (filter (\<lambda>k. k \<noteq> PollCursorKey w) (lr_PollInFlight (rn_State r))) = mset (filter (\<lambda>k. k \<noteq> PollCursorKey w) (map PollCursorKey (as @ w # bs)))"
    by (simp only: mset_filter poll)
  also have "\<dots> = mset (map PollCursorKey (as @ bs))" using dist by (simp add: same)
  finally have "mset (filter (\<lambda>k. k \<noteq> PollCursorKey w) (lr_PollInFlight (rn_State r))) = mset (map PollCursorKey (as @ bs))" .
  then have "guard m b r2" using g b2 h2 dist
    by (auto simp: guard_def accounted_def books_def candidatesOut_def ws)
  then show ?thesis using b2 by (simp add: run books_def as_def bs_def)
qed

lemma deliverPoll_none: "i \<ge> length (rn_PollWorkers r) \<Longrightarrow> run_state (deliverPoll rv rc i) r = (False, r)"
  by (simp add: deliverPoll_def takePoll_def)

lemma deliverPoll_guard: "guardedly m b (deliverPoll rv rc i)"
proof -
  have "guard m b (snd (run_state (deliverPoll rv rc i) r))" if "guard m b r" for r
  proof (cases "i < length (rn_PollWorkers r)")
    case True
    from deliverPoll_effect[OF that True] show ?thesis by (rule conjunct1)
  qed (use that in \<open>simp add: deliverPoll_none\<close>)
  then show ?thesis by (simp add: state_io_rel_def)
qed

subsection \<open>A poll worker starts\<close>

lemma CommitPoll_key:
  assumes "CommitPoll sha env now cid cursor t st = (Inr c, st')"
  shows "PollCursorKey c = PollCursorKey cursor"
proof -
  have key: "PollCursorKey (committedCursor sha cid t rec cursor) = PollCursorKey cursor" for rec
    by (simp add: committedCursor_def carryIdentity_def PollCursorKey_def Let_def)
  show ?thesis using assms
    by (auto simp: CommitPoll_def runController_def commitPollPlan_def Let_def key
        split: prod.splits sum.splits)
qed

lemma startPoll_guard:
  assumes "guard m b r" and "PollCursorKey c = key" and "key \<notin> set (lr_PollInFlight (rn_State r))"
    and "length (lr_PollInFlight (rn_State r)) < m"
  shows "guard m b (snd (run_state (startPoll key c) r))"
proof -
  have poll: "mset (lr_PollInFlight (rn_State r)) = mset (map PollCursorKey (rn_PollWorkers r))"
    using assms(1) by (simp add: guard_def accounted_def)
  have "set (lr_PollInFlight (rn_State r)) = PollCursorKey ` set (rn_PollWorkers r)"
    and "length (lr_PollInFlight (rn_State r)) = length (rn_PollWorkers r)"
    using arg_cong[OF poll, of set_mset] arg_cong[OF poll, of size] by simp_all
  then show ?thesis using assms by (auto simp: startPoll_def guard_def accounted_def candidatesOut_def)
qed

lemma offerFrom_guard: "guard (rc_MaxPollWorkers rc) b r \<Longrightarrow> guard (rc_MaxPollWorkers rc) b (snd (run_state (offerFrom rv rc due) r))"
proof (induction due arbitrary: r)
  case (Cons cursor due)
  let ?key = "PollCursorKey cursor" and ?s = "rn_State r"
  have state: "run_state theState r = (?s, r)" by (simp add: theState_def)
  show ?case
  proof (cases "?key \<in> set (lr_PollInFlight ?s) \<or> length (lr_PollInFlight ?s) \<ge> rc_MaxPollWorkers rc")
    case True
    then show ?thesis using Cons by (auto simp: state Let_def)
  next
    case False
    obtain now r1 where r1: "run_state (clock rv) r = (now, r1)" by fastforce
    let ?op = "storeOp rv (\<lambda>t _. CommitPoll (rv_Sha rv) (rv_Ctl rv) t (rc_ControllerID rc) cursor now)"
    obtain x r2 where r2: "run_state ?op r1 = (x, r2)" by fastforce
    have "calm r r1" by (rule state_io_relD[OF calm_clock r1])
    moreover have "calm r1 r2" by (rule state_io_relD[OF calm_storeOp r2])
    ultimately have c: "calm r r2" by (rule calm.trans)
    then have g: "guard (rc_MaxPollWorkers rc) b r2" using Cons.prems by (rule calm_guard)
    show ?thesis
    proof (cases x)
      case (Inl e)
      then show ?thesis using False r1 r2 Cons.IH[OF g] by (simp add: state Let_def)
    next
      case (Inr cur)
      have "PollCursorKey cur = ?key" using r2 Inr by (auto simp: storeOp_def split: prod.splits intro: CommitPoll_key)
      moreover have "lr_PollInFlight (rn_State r2) = lr_PollInFlight ?s" using c by (simp add: calm_def books_def)
      ultimately have "guard (rc_MaxPollWorkers rc) b (snd (run_state (startPoll ?key cur) r2))"
        using startPoll_guard[OF g, of cur ?key] False by simp
      from Cons.IH[OF this] show ?thesis using False r1 r2 Inr by (simp add: state Let_def case_prod_beta)
    qed
  qed
qed simp


section \<open>Draining and waiting\<close>

definition drained :: "runner \<Rightarrow> bool" where
  "drained r \<longleftrightarrow> rn_Workers r = [] \<and> rn_PollWorkers r = []"

lemma drainResults_guard: "guardedly m b (drainResults rv rc)"
proof -
  have "guardedly m b (drainFrom rv rc k lost)" for k lost
    by (induction k arbitrary: lost) (auto intro!: guarded_basic takeResult_guard)
  then show ?thesis unfolding drainResults_def by (intro guarded_basic)
qed

lemma drainPollResults_guard: "guardedly m b (drainPollResults rv rc)"
proof -
  have "guardedly m b (drainPollsFrom rv rc k)" for k
    by (induction k) (auto intro!: guarded_basic deliverPoll_guard)
  then show ?thesis unfolding drainPollResults_def by (intro guarded_basic)
qed

lemma offerPolls_guard: "guardedly (rc_MaxPollWorkers rc) b (offerPolls rv rc)"
proof -
  have "guardedly (rc_MaxPollWorkers rc) b (offerFrom rv rc due)" for due
    by (simp add: state_io_rel_def offerFrom_guard)
  then show ?thesis unfolding offerPolls_def by (intro guarded_basic)
qed

lemma someWorker_less: "0 < n \<Longrightarrow> someWorker rv k n < n"
  by (simp add: someWorker_def split: option.split)

lemma drainDispatch_effect:
  "guard m b r \<Longrightarrow> length (rn_Workers r) \<le> k \<Longrightarrow>
   guard m b (snd (run_state (drainDispatch rv k) r)) \<and> rn_Workers (snd (run_state (drainDispatch rv k) r)) = [] \<and>
   rn_PollWorkers (snd (run_state (drainDispatch rv k) r)) = rn_PollWorkers r"
proof (induction k arbitrary: r)
  case (Suc k)
  show ?case
  proof (cases "rn_Workers r = []")
    case True
    then show ?thesis using Suc.prems(1) by (simp add: theState_def guard_def accounted_def)
  next
    case False
    define i where "i = someWorker rv (rn_Tick r) (length (rn_Workers r))"
    have i: "i < length (rn_Workers r)" using False by (simp add: i_def someWorker_less)
    define r1 where "r1 = r\<lparr>rn_Tick := Suc (rn_Tick r)\<rparr>"
    define r2 where "r2 = snd (run_state (takeResult rv i) r1)"
    have "guard m b r1" using Suc.prems(1) by (simp add: r1_def guard_def accounted_def candidatesOut_def)
    then have g: "guard m b r2" using takeResult_guard[of m b rv i] by (simp add: state_io_rel_def r2_def)
    have "rn_Workers r2 = take i (rn_Workers r) @ drop (Suc i) (rn_Workers r)" and p: "rn_PollWorkers r2 = rn_PollWorkers r"
      using i by (simp_all add: r2_def r1_def takeResult_def Let_def)
    then have "length (rn_Workers r2) \<le> k" using i Suc.prems(2) by simp
    moreover have "0 < lr_Outstanding (rn_State r)" using Suc.prems(1) False by (simp add: guard_def accounted_def)
    ultimately have "snd (run_state (drainDispatch rv (Suc k)) r) = snd (run_state (drainDispatch rv k) r2)"
      by (simp add: theState_def tick_def workersOut_def r1_def r2_def i_def case_prod_beta)
    then show ?thesis using Suc.IH[OF g \<open>length (rn_Workers r2) \<le> k\<close>] p by simp
  qed
qed simp

lemma drainPending_effect:
  "guard m b r \<Longrightarrow> length (rn_PollWorkers r) \<le> k \<Longrightarrow>
   guard m b (snd (run_state (drainPending rv rc k) r)) \<and> rn_PollWorkers (snd (run_state (drainPending rv rc k) r)) = [] \<and>
   rn_Workers (snd (run_state (drainPending rv rc k) r)) = rn_Workers r"
proof (induction k arbitrary: r)
  case (Suc k)
  show ?case
  proof (cases "rn_PollWorkers r = []")
    case True
    then show ?thesis using Suc.prems(1) by (simp add: theState_def guard_def accounted_def)
  next
    case False
    define i where "i = someWorker rv (rn_Tick r) (length (rn_PollWorkers r))"
    have i: "i < length (rn_PollWorkers r)" using False by (simp add: i_def someWorker_less)
    define r1 where "r1 = r\<lparr>rn_Tick := Suc (rn_Tick r)\<rparr>"
    define r2 where "r2 = snd (run_state (deliverPoll rv rc i) r1)"
    have g1: "guard m b r1" using Suc.prems(1) by (simp add: r1_def guard_def accounted_def candidatesOut_def)
    have i1: "i < length (rn_PollWorkers r1)" using i by (simp add: r1_def)
    note eff = deliverPoll_effect[OF g1 i1, of rv rc, folded r2_def]
    have "length (rn_PollWorkers r2) \<le> k" using eff i Suc.prems(2) by (simp add: r1_def)
    moreover have "0 < lr_PendingPolls (rn_State r)" using Suc.prems(1) False by (simp add: guard_def accounted_def)
    ultimately have "snd (run_state (drainPending rv rc (Suc k)) r) = snd (run_state (drainPending rv rc k) r2)"
      by (simp add: theState_def tick_def pollWorkersOut_def r1_def r2_def i_def case_prod_beta)
    then show ?thesis using Suc.IH[of r2] eff \<open>length (rn_PollWorkers r2) \<le> k\<close> by (simp add: r1_def)
  qed
qed simp

lemma drainWorkers_effect:
  assumes "guard m b r"
  shows "guard m b (snd (run_state (drainWorkers rv rc) r)) \<and> drained (snd (run_state (drainWorkers rv rc) r))"
proof -
  define r1 where "r1 = snd (run_state (drainDispatch rv (length (rn_Workers r))) r)"
  note d = drainDispatch_effect[OF assms order.refl, of rv, folded r1_def]
  note p = drainPending_effect[OF conjunct1[OF d] order.refl, of rv rc]
  have "snd (run_state (drainWorkers rv rc) r) = snd (run_state (drainPending rv rc (length (rn_PollWorkers r1))) r1)"
    by (simp add: drainWorkers_def workersOut_def pollWorkersOut_def r1_def split: prod.split)
  then show ?thesis using d p by (simp add: drained_def)
qed

lemma drainWorkers_guard: "guardedly m b (drainWorkers rv rc)"
  by (simp add: state_io_rel_def drainWorkers_effect)

lemma stopOnLogHole_guard: "guardedly m b (stopOnLogHole e)"
  unfolding stopOnLogHole_def by (intro guarded_basic)

lemma waitForWake_guard: "guardedly m b (waitForWake rv rc d listenWake)"
  unfolding waitForWake_def wakeSignal_def
  by (intro guarded_basic drainWorkers_guard takeResult_guard deliverPoll_guard; simp)

lemmas guarded_steps = guarded_basic drainResults_guard drainPollResults_guard offerPolls_guard drainWorkers_guard stopOnLogHole_guard
  waitForWake_guard

section \<open>How a step ends\<close>

definition runs :: "(runner \<Rightarrow> bool) \<Rightarrow> 'a run_m \<Rightarrow> ('a \<Rightarrow> runner \<Rightarrow> bool) \<Rightarrow> bool" where
  "runs P f Q \<longleftrightarrow> (\<forall>r. P r \<longrightarrow> (case run_state f r of (x, r') \<Rightarrow> Q x r'))"

lemma runs_return: "(\<And>r. P r \<Longrightarrow> Q x r) \<Longrightarrow> runs P (State_Monad.return x) Q"
  by (simp add: runs_def)

lemma runs_bind: "runs P f R \<Longrightarrow> (\<And>x. runs (R x) (g x) Q) \<Longrightarrow> runs P (State_Monad.bind f g) Q"
  by (fastforce simp: runs_def split: prod.splits)

lemma runs_weaken: "runs P f R \<Longrightarrow> (\<And>r. P' r \<Longrightarrow> P r) \<Longrightarrow> (\<And>x r. R x r \<Longrightarrow> Q x r) \<Longrightarrow> runs P' f Q"
  by (fastforce simp: runs_def split: prod.splits)

lemma runs_if: "(b \<Longrightarrow> runs P f Q) \<Longrightarrow> (\<not> b \<Longrightarrow> runs P g Q) \<Longrightarrow> runs P (if b then f else g) Q"
  by simp

lemma runs_option: "runs P f Q \<Longrightarrow> (\<And>y. runs P (g y) Q) \<Longrightarrow> runs P (case x of None \<Rightarrow> f | Some y \<Rightarrow> g y) Q"
  by (cases x) simp_all

lemma runs_sum: "(\<And>e. runs P (f e) Q) \<Longrightarrow> (\<And>y. runs P (g y) Q) \<Longrightarrow> runs P (case x of Inl e \<Rightarrow> f e | Inr y \<Rightarrow> g y) Q"
  by (cases x) simp_all

lemma runs_prod: "(\<And>a b. runs P (f a b) Q) \<Longrightarrow> runs P (case x of (a, b) \<Rightarrow> f a b) Q"
  by (cases x) simp

lemma runs_guarded: "guardedly m b f \<Longrightarrow> runs (guard m b) f (\<lambda>_. guard m b)"
  by (auto simp: runs_def dest: state_io_relD)

lemma runs_seq: "guardedly m b f \<Longrightarrow> (\<And>x. runs (guard m b) (g x) Q) \<Longrightarrow> runs (guard m b) (State_Monad.bind f g) Q"
  by (rule runs_bind[OF runs_guarded])

text \<open>The loop goes on, or it ended: no worker is out, and the lease is not held.\<close>

definition endsClean :: "nat \<Rightarrow> bool \<Rightarrow> runner \<Rightarrow> bool" where
  "endsClean m ended r \<longleftrightarrow> guard m False r \<and> (ended \<longrightarrow> drained r \<and> \<not> holding r)"


lemma endsCleanD: "endsClean m ended r \<Longrightarrow> guard m False r"
  by (simp add: endsClean_def)

lemma guard_weaken: "guard m b r \<Longrightarrow> guard m False r"
  by (simp add: guard_def)

lemma runs_ends_lead:
  assumes "calmly f" and "\<And>r. \<not> holding (snd (run_state f r))" and "runs (guard m True) g Q"
  shows "runs (guard m b) (State_Monad.bind f (\<lambda>_. g)) Q"
proof (rule runs_bind)
  have "guard m True r'" if "guard m b r" and run: "run_state f r = (x, r')" for r x r'
  proof -
    have "guard m b r'" using calm_guard[OF state_io_relD[OF assms(1) run] that(1)] .
    moreover have "\<not> holding r'" using assms(2)[of r] run by simp
    ultimately show ?thesis by (simp add: guard_def)
  qed
  then show "runs (guard m b) f (\<lambda>_. guard m True)" by (auto simp: runs_def)
qed (rule assms(3))

lemma runs_release: "runs (guard m True) g Q \<Longrightarrow> runs (guard m b) (State_Monad.bind (release rv rc) (\<lambda>_. g)) Q"
  by (rule runs_ends_lead[OF calm_lead(3)])
     (auto simp: release_def theState_def setState_def storeOp_def split: prod.split)

lemma runs_dropLeadership: "runs (guard m True) g Q \<Longrightarrow> runs (guard m b) (State_Monad.bind dropLeadership (\<lambda>_. g)) Q"
  by (rule runs_ends_lead[OF calm_lead(1)])
     (auto simp: dropLeadership_def clearLeadStatus_def setState_def publish_def)

lemma runs_drain:
  assumes "\<And>r. endsClean m True r \<Longrightarrow> Q x r"
  shows "runs (guard m True) (State_Monad.bind (drainWorkers rv rc) (\<lambda>_. State_Monad.return x)) Q"
proof -
  have "Q x (snd (run_state (drainWorkers rv rc) r))" if "guard m True r" for r
    using drainWorkers_effect[OF that, of rv rc] by (auto intro!: assms simp: endsClean_def guard_def)
  then show ?thesis by (simp add: runs_def case_prod_beta)
qed

lemma runs_goes_on: "Q = (\<lambda>r. endsClean m False r) \<Longrightarrow> runs (guard m b) (State_Monad.return x) (\<lambda>_. Q)"
  by (rule runs_return) (simp add: endsClean_def guard_weaken)

lemma runs_wake:
  "runs P f1 Q \<Longrightarrow> runs P f2 Q \<Longrightarrow> runs P f3 Q \<Longrightarrow> runs P f4 Q \<Longrightarrow> (\<And>i. runs P (f5 i) Q) \<Longrightarrow> (\<And>i. runs P (f6 i) Q) \<Longrightarrow>
   runs P (case w of WokenDone \<Rightarrow> f1 | WokenTimer \<Rightarrow> f2 | WokenChange \<Rightarrow> f3 | WokenCapacity \<Rightarrow> f4 |
     WokenResult i \<Rightarrow> f5 i | WokenPoll i \<Rightarrow> f6 i) Q"
  by (cases w) simp_all

lemmas runs_cases = runs_if runs_option runs_sum runs_prod runs_wake

lemma waitForWake_runs: "runs (guard m b) (waitForWake rv rc d listenWake) (\<lambda>(_, ended). endsClean m ended)"
proof -
  let ?Q = "\<lambda>(_ :: wake_reason, ended). endsClean m ended"
  have stay: "runs (guard m b) (State_Monad.return (w, False)) ?Q" for b w
    by (rule runs_return) (simp add: endsClean_def guard_weaken)
  have leave: "runs (guard m True) (State_Monad.bind (drainWorkers rv rc) (\<lambda>_. State_Monad.return (wakeNone, True))) ?Q"
    by (rule runs_drain) simp
  have result: "runs (guard m b) (State_Monad.bind (handleResult rv rc res) (\<lambda>_. State_Monad.return (wakeResult, False))) ?Q" for res
    by (rule runs_seq[OF calm_handleResult[THEN guarded_calm] stay])
  have timer: "guardedly m b (setState (\<lambda>s. s\<lparr>lr_Timer := t\<rparr>))" for t
    by (rule calm_setState[THEN guarded_calm]) simp_all
  show ?thesis
    unfolding waitForWake_def wakeSignal_def
    by (intro runs_seq[OF timer] runs_seq[OF calm_tick[THEN guarded_calm]] runs_cases stay runs_release leave
        runs_seq[OF takeResult_guard] runs_seq[OF deliverPoll_guard] result)
qed


subsection \<open>The steps of a pass\<close>

abbreviation stepEnds :: "nat \<Rightarrow> step_result \<Rightarrow> runner \<Rightarrow> bool" where
  "stepEnds m step \<equiv> endsClean m (step = stepExit)"

lemma runs_step: "step \<noteq> stepExit \<Longrightarrow> runs (guard m b) (State_Monad.return step) (stepEnds m)"
  by (rule runs_return) (simp add: endsClean_def guard_weaken)

lemma runs_exit: "runs (guard m True) (State_Monad.bind (drainWorkers rv rc) (\<lambda>_. State_Monad.return stepExit)) (stepEnds m)"
  by (rule runs_drain) simp

lemma guarded_setWake: "guardedly m b (setState (\<lambda>s. s\<lparr>lr_Wake := w\<rparr>))"
  by (rule calm_setState[THEN guarded_calm]) simp_all

lemma setWake_runs: "runs (endsClean m e) (setState (\<lambda>s. s\<lparr>lr_Wake := w\<rparr>)) (\<lambda>_. endsClean m e)"
  by (auto simp: runs_def setState_def endsClean_def guard_def accounted_def candidatesOut_def drained_def)

lemma waitAndKeep_runs: "runs (guard m b) (waitAndKeep rv rc wait) (stepEnds m)"
  unfolding waitAndKeep_def
  by (rule runs_bind[OF waitForWake_runs]) (auto intro!: runs_bind[OF setWake_runs] runs_return)

lemma waitOrExit_runs: "runs (guard m b) (waitOrExit rv rc wait) (stepEnds m)"
  unfolding waitOrExit_def
  by (rule runs_bind[OF waitForWake_runs]) (auto intro!: runs_bind[OF setWake_runs] runs_return runs_if)

lemma runs_again: "runs (guard m b) (State_Monad.bind (waitForWake rv rc d l) (\<lambda>_. State_Monad.return stepLoop)) (stepEnds m)"
  by (rule runs_seq[OF waitForWake_guard runs_step]) simp

lemma runs_read: "(\<And>s. runs (\<lambda>r. P r \<and> rn_State r = s) (f s) Q) \<Longrightarrow> runs P (State_Monad.bind theState f) Q"
  by (auto simp: runs_def theState_def)

lemma runs_given: "runs P f Q \<Longrightarrow> runs (\<lambda>r. P r \<and> R r) f Q"
  by (simp add: runs_def)

lemma startLeading_runs: "runs (guard m True) (startLeading rec) (stepEnds m)"
proof -
  have "runs (guard m True) (setState f) (\<lambda>_. guard m False)"
    if "\<And>s. lr_Unreported (f s) = lr_Unreported s" "\<And>s. lr_Outstanding (f s) = lr_Outstanding s"
      "\<And>s. lr_PollInFlight (f s) = lr_PollInFlight s" "\<And>s. lr_PendingPolls (f s) = lr_PendingPolls s" for f
    using that by (auto simp: runs_def setState_def guard_def accounted_def candidatesOut_def)
  then show ?thesis
    unfolding startLeading_def by (rule runs_bind) (auto intro!: runs_seq[OF calm_publish[THEN guarded_calm]] runs_step)
qed

lemma acquire_runs: "runs (guard m False) (acquire rv rc) (stepEnds m)"
proof -
  have failed: "runs (guard m True) (acquireFailed rv rc e) (stepEnds m)" for e
    unfolding acquireFailed_def
    by (cases e) (auto intro!: runs_seq[OF stopOnLogHole_guard] runs_if runs_exit runs_seq[OF calm_outcome(1)[THEN guarded_calm]] runs_again)
  have "runs (guard m True) (acquireLead rv rc) (stepEnds m)"
    unfolding acquireLead_def
    by (intro runs_seq[OF calm_storeOp[THEN guarded_calm]] runs_cases failed startLeading_runs runs_again)
  then have "runs (\<lambda>r. guard m False r \<and> rn_State r = s) (if lr_Holding s then State_Monad.return stepNext else acquireLead rv rc)
      (stepEnds m)" for s
    using runs_step[of stepNext m False] by (auto simp: runs_def guard_def)
  then show ?thesis unfolding acquire_def by (rule runs_read)
qed

lemma renew_runs: "runs (guard m False) (renew rv rc) (\<lambda>(_, _, step). stepEnds m step)"
proof -
  let ?Q = "\<lambda>(_ :: controller_record, _ :: gotime, step). stepEnds m step"
  have pack: "runs P (State_Monad.bind f (\<lambda>step. State_Monad.return (x, t, step))) ?Q" if "runs P f (stepEnds m)" for P f x t
    using that by (rule runs_bind) (rule runs_return, simp)
  have exit: "runs (guard m True) (do { drainWorkers rv rc; State_Monad.return (x, t, stepExit) }) ?Q" for x t
    by (rule runs_drain) simp
  have again: "runs (guard m b) (do { _ \<leftarrow> waitForWake rv rc d l; State_Monad.return (x, t, stepLoop) }) ?Q" for b d l x t
    by (rule runs_seq[OF waitForWake_guard runs_return]) (simp add: endsClean_def guard_weaken)
  have on: "runs (guard m b) (State_Monad.return (x, t, stepNext)) ?Q" for b x t
    by (rule runs_return) (simp add: endsClean_def guard_weaken)
  show ?thesis
    unfolding renew_def
    by (intro runs_seq[OF calm_theState[THEN guarded_calm]] runs_seq[OF calm_storeOp[THEN guarded_calm]] runs_cases
        runs_seq[OF stopOnLogHole_guard] runs_dropLeadership exit again runs_seq[OF calm_clock[THEN guarded_calm]]
        runs_seq[OF calm_outcome(1)[THEN guarded_calm]] pack[OF waitAndKeep_runs] runs_release on)
qed

lemma preparePass_runs:
  "runs (guard (rc_MaxPollWorkers rc) False) (preparePass rv rc rec due) (\<lambda>(_, step). stepEnds (rc_MaxPollWorkers rc) step)"
proof -
  let ?m = "rc_MaxPollWorkers rc"
  let ?Q = "\<lambda>(_ :: int, step). stepEnds ?m step"
  have pack: "runs P (State_Monad.bind f (\<lambda>step. State_Monad.return (w, step))) ?Q" if "runs P f (stepEnds ?m)" for P f w
    using that by (rule runs_bind) (rule runs_return, simp)
  have on: "runs (guard ?m b) (State_Monad.return (w, stepNext)) ?Q" for b w
    by (rule runs_return) (simp add: endsClean_def guard_weaken)
  have again: "runs (guard ?m b) (do { _ \<leftarrow> waitForWake rv rc d l; State_Monad.return (w, stepLoop) }) ?Q" for b d l w
    by (rule runs_seq[OF waitForWake_guard runs_return]) (simp add: endsClean_def guard_weaken)
  have rules: "guardedly ?m b (clearingRules x)" for b x
    unfolding clearingRules_def by (intro guarded_basic; simp)
  have refreshed: "guardedly ?m b (setState (\<lambda>s. s\<lparr>lr_LastRefresh := t\<rparr>))" for b t
    by (rule calm_setState[THEN guarded_calm]) simp_all
  have seeds: "guardedly ?m b (if c then reseedPollCursors rv rc cs else State_Monad.return ())" for b c cs
    by (intro guarded_basic)
  have view: "runs (guard ?m False) (refreshView rv rc rec w) ?Q" for w
    unfolding refreshView_def
    by (intro runs_seq[OF calm_theState[THEN guarded_calm]] runs_seq[OF calm_clock[THEN guarded_calm]] runs_cases
        runs_seq[OF rules] on runs_seq[OF calm_tick[THEN guarded_calm]] runs_seq[OF calm_outcome(1)[THEN guarded_calm]]
        pack[OF waitOrExit_runs] runs_seq[OF refreshed] runs_seq[OF seeds])
  have wait: "guardedly ?m b (nextPollWait rv rc w)" for b w
    unfolding nextPollWait_def Let_def by (intro guarded_basic)
  show ?thesis
    unfolding preparePass_def Let_def
    by (intro runs_seq[OF calm_clock[THEN guarded_calm]] runs_cases view runs_seq[OF drainPollResults_guard]
        runs_seq[OF calm_theState[THEN guarded_calm]] again runs_seq[OF offerPolls_guard] runs_seq[OF wait])
qed

lemma blockedPass_runs: "runs (guard m False) (blockedPass rv rc wait) (stepEnds m)"
  unfolding blockedPass_def
  by (intro runs_seq[OF calm_tick[THEN guarded_calm]] runs_cases runs_seq[OF calm_outcome(1)[THEN guarded_calm]] waitAndKeep_runs
      runs_seq[OF calm_theState[THEN guarded_calm]] runs_seq[OF calm_clock[THEN guarded_calm]]
      runs_seq[OF calm_publish[THEN guarded_calm]] waitOrExit_runs)


subsection \<open>Dispatching\<close>

definition shrinks :: "runner \<Rightarrow> runner \<Rightarrow> bool" where
  "shrinks r r' \<longleftrightarrow> mset (candidatesOut r') \<subseteq># mset (candidatesOut r)"

interpretation shrinking: run_order shrinks
  by unfold_locales (auto simp: shrinks_def)

lemma calm_shrinks: "calmly f \<Longrightarrow> state_io_rel shrinks f"
  by (auto simp: state_io_rel_def calm_def books_def shrinks_def candidatesOut_def)

lemma takeResult_shrinks: "state_io_rel shrinks (takeResult rv i)"
proof -
  have "mset (map f (take i xs @ drop (Suc i) xs)) \<subseteq># mset (map f xs)" if "i < length xs" for xs and f :: "decision \<times> leader_lease \<Rightarrow> candidate"
    unfolding mset_map mset_remove[OF that] by (intro image_mset_subseteq_mono diff_subset_eq_self)
  then show ?thesis
    by (simp add: state_io_rel_def takeResult_def Let_def shrinks_def candidatesOut_def del: map_append mset_append mset_map)
qed

lemma drainResults_shrinks: "state_io_rel shrinks (drainResults rv rc)"
proof -
  have "state_io_rel shrinks (drainFrom rv rc k lost)" for k lost
    by (induction k arbitrary: lost)
       (auto intro!: shrinking.kept takeResult_shrinks calm_tick[THEN calm_shrinks] calm_handleResult[THEN calm_shrinks])
  then show ?thesis
    unfolding drainResults_def by (intro shrinking.kept calm_workersOut[THEN calm_shrinks])
qed

text \<open>
  The candidates \<open>cs\<close> still to be handed off fit beside the workers that are out, and all of them take at most \<open>n\<close> slots.
\<close>

definition room :: "nat \<Rightarrow> candidate list \<Rightarrow> runner \<Rightarrow> bool" where
  "room n cs r \<longleftrightarrow>
     distinct (map actKey (candidatesOut r @ cs)) \<and> distinct (slotKeys (candidatesOut r @ cs)) \<and>
     length (filter takesSlot (candidatesOut r @ cs)) \<le> n"

lemma room_shrinks:
  assumes "shrinks r r'" and "room n cs r"
  shows "room n cs r'"
proof -
  have le: "mset (candidatesOut r' @ cs) \<subseteq># mset (candidatesOut r @ cs)" using assms(1) by (simp add: shrinks_def)
  then have "mset (filter takesSlot (candidatesOut r' @ cs)) \<subseteq># mset (filter takesSlot (candidatesOut r @ cs))"
    unfolding mset_filter by (rule multiset_filter_mono)
  then have "length (filter takesSlot (candidatesOut r' @ cs)) \<le> length (filter takesSlot (candidatesOut r @ cs))"
    by (metis size_mset size_mset_mono)
  then show ?thesis using assms(2) distinct_mset_le[OF le, of actKey] slotKeys_mset_le[OF le]
    by (simp add: room_def del: map_append filter_append)
qed

lemma runs_room:
  assumes "guardedly m b f" and "state_io_rel shrinks f" and "\<And>x. runs (\<lambda>r. guard m b r \<and> room n cs r) (g x) Q"
  shows "runs (\<lambda>r. guard m b r \<and> room n cs r) (State_Monad.bind f g) Q"
  using assms(3) by (rule runs_bind[rotated]) (use assms(1,2) in \<open>auto simp: runs_def dest: state_io_relD intro: room_shrinks\<close>)

lemma runs_room_calm: "calmly f \<Longrightarrow> (\<And>x. runs (\<lambda>r. guard m b r \<and> room n cs r) (g x) Q) \<Longrightarrow>
  runs (\<lambda>r. guard m b r \<and> room n cs r) (State_Monad.bind f g) Q"
  by (rule runs_room[OF guarded_calm calm_shrinks])

lemma startWorker_runs:
  "runs (\<lambda>r. guard m b r \<and> room n (dn_Candidate d # cs) r) (startWorker d) (\<lambda>_ r. guard m b r \<and> room n cs r)"
proof -
  have "guard m b (snd (run_state (startWorker d) r)) \<and> room n cs (snd (run_state (startWorker d) r))"
    if g: "guard m b r" and room: "room n (dn_Candidate d # cs) r" for r
  proof
    have "distinct (slotKeys (candidatesOut r @ [dn_Candidate d]))"
      using room by (auto simp: room_def slotKeys_def)
    then show "guard m b (snd (run_state (startWorker d) r))"
      using room by (intro startWorker_guard[OF g]) (auto simp: room_def)
    show "room n cs (snd (run_state (startWorker d) r))"
      using room by (simp add: startWorker_def room_def candidatesOut_def)
  qed
  then show ?thesis by (simp add: runs_def case_prod_beta)
qed

lemma handOff_runs:
  "runs (\<lambda>r. guard m b r \<and> room n (map dn_Candidate ds) r) (handOff rv rc ds) (\<lambda>_ r. guard m b r \<and> room n [] r)"
proof (induction ds)
  case Nil
  show ?case by (simp add: runs_return)
next
  case (Cons d ds)
  have stop: "runs (\<lambda>r. guard m b r \<and> room n (map dn_Candidate (d # ds)) r) f (\<lambda>_ r. guard m b r \<and> room n [] r)"
    if "calmly f" for f :: "unit run_m"
  proof -
    have "runs (\<lambda>r. guard m b r \<and> room n (map dn_Candidate (d # ds)) r) f (\<lambda>_ r. guard m b r \<and> room n (map dn_Candidate (d # ds)) r)"
      using guarded_calm[OF that, of m b] calm_shrinks[OF that] by (auto simp: runs_def dest: state_io_relD intro: room_shrinks)
    then show ?thesis by (rule runs_weaken) (auto simp: room_def slotKeys_def)
  qed
  show ?case
    unfolding handOff.simps list.map
    by (intro runs_room[OF drainResults_guard drainResults_shrinks] runs_room_calm[OF calm_theState] runs_room_calm[OF calm_tick]
        runs_room_calm[OF calm_storeOp] runs_cases stop[unfolded list.map] calm.kept_return calm_lead
        runs_bind[OF startWorker_runs] Cons.IH)
qed

text \<open>The decisions of a pass fit beside the workers, because every worker stands in the view they were made from.\<close>

lemma owed_view:
  assumes "accounted m r" and "c \<in> set (candidatesOut r)"
  shows "\<lparr>fa_Identity = cd_Identity c, fa_ControllerID = rc_ControllerID rc, fa_ConcurrencyKey = cd_ConcurrencyKey c,
           fa_Terminal = False\<rparr> \<in> set (buildInflightView rc (rn_State r) inflight)"
proof -
  have "(cd_Identity c, 1, cd_ConcurrencyKey c) \<in> set (lr_Unreported (rn_State r))"
    using assms owed_set[of "lr_Unreported (rn_State r)" "candidatesOut r"] by (auto simp: accounted_def owed_def)
  then show ?thesis by (force simp: buildInflightView_def)
qed

lemma owed_count:
  assumes "accounted m r"
  shows "int (length (rn_Workers r)) \<le> activeCount (buildInflightView rc (rn_State r) inflight) (rc_ControllerID rc)"
proof -
  let ?u = "lr_Unreported (rn_State r)"
  let ?g = "\<lambda>(i, n, key). replicate n \<lparr>fa_Identity = i, fa_ControllerID = rc_ControllerID rc, fa_ConcurrencyKey = key, fa_Terminal = False\<rparr>"
  let ?live = "\<lambda>a. \<not> fa_Terminal a \<and> fa_ControllerID a = rc_ControllerID rc"
  have "filter ?live (concat (map ?g u)) = concat (map ?g u)" for u by (induction u) auto
  moreover have "length (concat (map ?g u)) = sum_list (map (\<lambda>(_, n, _). n) u)" for u by (induction u) auto
  moreover have "mset ?u = mset (map owed (candidatesOut r))" using assms by (simp add: accounted_def)
  then have "mset (map (\<lambda>(_, n, _). n) ?u) = mset (map (\<lambda>(_, n, _). n) (map owed (candidatesOut r)))" by (simp only: mset_map)
  then have "sum_list (map (\<lambda>(_, n, _). n) ?u) = sum_list (map (\<lambda>(_, n, _). n) (map owed (candidatesOut r)))"
    by (metis sum_mset_sum_list)
  moreover have "sum_list (map (\<lambda>(_, n, _). n) (map owed cs)) = length cs" for cs by (induction cs) (auto simp: owed_def)
  ultimately have "length (filter ?live (concat (map ?g ?u))) = length (candidatesOut r)" by simp
  then show ?thesis by (simp add: activeCount_def buildInflightView_def candidatesOut_def)
qed

lemma selected_room:
  assumes acc: "accounted m r"
    and input: "si_InFlight input = buildInflightView rc (rn_State r) inflight" "si_ControllerID input = rc_ControllerID rc"
  shows "room (max (length (filter takesSlot (candidatesOut r))) (nat (si_MaxInflight input))) (map dn_Candidate (Select input)) r"
proof -
  let ?cs = "candidatesOut r"
  note good = chosen_good[of input, unfolded goodChoice_def]
  have acts: "actKey ` set ?cs \<subseteq> set (activeActivations (si_InFlight input))"
    using owed_view[OF acc, of _ rc inflight] by (force simp: input activeActivations_def)
  have keys: "set (slotKeys ?cs) \<subseteq> set (heldKeys (si_InFlight input))"
    using owed_view[OF acc, of _ rc inflight] by (force simp: input heldKeys_def slotKeys_in)
  have "actKey ` set (chosen input) \<inter> set (activeActivations (si_InFlight input)) = {}" using good by blast
  then have "actKey ` set ?cs \<inter> actKey ` set (chosen input) = {}" using acts by blast
  then have acts': "distinct (map actKey (?cs @ chosen input))" using acc good by (simp add: accounted_def)
  have "slotKeys (?cs @ chosen input) = slotKeys ?cs @ slotKeys (chosen input)" by (simp add: slotKeys_def)
  moreover have "set (slotKeys ?cs) \<inter> set (slotKeys (chosen input)) = {}" using good keys by blast
  ultimately have "distinct (slotKeys (?cs @ chosen input))" using acc good by (simp add: accounted_def)
  moreover have "length (filter takesSlot (?cs @ chosen input)) \<le> max (length (filter takesSlot ?cs)) (nat (si_MaxInflight input))"
  proof -
    have "length (filter takesSlot ?cs) \<le> length (rn_Workers r)" using length_filter_le[of takesSlot ?cs] by (simp add: candidatesOut_def)
    then have "int (length (filter takesSlot ?cs)) \<le> activeCount (si_InFlight input) (si_ControllerID input)"
      using owed_count[OF acc, of rc inflight] by (simp add: input)
    moreover have "int (length (filter takesSlot (chosen input))) \<le> max 0 (freeSlots input)" using good by blast
    ultimately show ?thesis unfolding filter_append length_append freeSlots_def by linarith
  qed
  ultimately show ?thesis using acts' by (simp add: room_def chosen_def del: map_append)
qed


text \<open>A program that starts no worker takes no slot.\<close>

abbreviation slotsOut :: "runner \<Rightarrow> nat" where
  "slotsOut r \<equiv> length (filter takesSlot (candidatesOut r))"

lemma runs_conj: "runs P f Q \<Longrightarrow> runs P' f Q' \<Longrightarrow> runs (\<lambda>r. P r \<and> P' r) f (\<lambda>x r. Q x r \<and> Q' x r)"
  by (auto simp: runs_def)

lemma runs_slots: "state_io_rel shrinks f \<Longrightarrow> runs (\<lambda>r. slotsOut r \<le> n) f (\<lambda>_ r. slotsOut r \<le> n)"
proof -
  have "slotsOut r' \<le> slotsOut r" if "shrinks r r'" for r r'
  proof -
    have "mset (filter takesSlot (candidatesOut r')) \<subseteq># mset (filter takesSlot (candidatesOut r))"
      unfolding mset_filter using that by (intro multiset_filter_mono) (simp add: shrinks_def)
    then show ?thesis by (metis size_mset size_mset_mono)
  qed
  then show "state_io_rel shrinks f \<Longrightarrow> ?thesis" by (fastforce simp: runs_def dest: state_io_relD)
qed

lemma deliverPoll_shrinks: "state_io_rel shrinks (deliverPoll rv rc i)"
proof -
  have "rn_Workers (snd (run_state (handlePollResult rv rc out) r)) = rn_Workers r" for out r
    using handlePollResult_books[of rv rc out r] by (simp add: books_def)
  then show ?thesis
    by (simp add: state_io_rel_def deliverPoll_def takePoll_def shrinks_def candidatesOut_def case_prod_beta)
qed

lemmas shrinking_steps = shrinking.kept calm_ops[THEN calm_shrinks] calm_lead[THEN calm_shrinks]
  calm_handleResult[THEN calm_shrinks] takeResult_shrinks deliverPoll_shrinks

lemma drainWorkers_shrinks: "state_io_rel shrinks (drainWorkers rv rc)"
proof -
  have "state_io_rel shrinks (drainDispatch rv k)" for k by (induction k) (auto intro!: shrinking_steps)
  moreover have "state_io_rel shrinks (drainPending rv rc k)" for k by (induction k) (auto intro!: shrinking_steps)
  ultimately show ?thesis unfolding drainWorkers_def by (intro shrinking_steps)
qed

lemma waiting_shrinks: "state_io_rel shrinks (waitForWake rv rc d l)" "state_io_rel shrinks (waitOrExit rv rc d)"
proof -
  show wait: "state_io_rel shrinks (waitForWake rv rc d l)" for d l
    unfolding waitForWake_def wakeSignal_def by (intro shrinking_steps drainWorkers_shrinks; simp)
  show "state_io_rel shrinks (waitOrExit rv rc d)"
    unfolding waitOrExit_def by (intro shrinking_steps wait; simp)
qed

lemma room_empty: "room n [] r \<Longrightarrow> slotsOut r \<le> n"
  by (simp add: room_def)

lemma dispatchDecisions_runs:
  "runs (\<lambda>r. guard m False r \<and> slotsOut r \<le> n) (dispatchDecisions rv rc rec wait cs inflight)
     (\<lambda>step r. stepEnds m step r \<and> slotsOut r \<le> max n (nat (ct_MaxInflight rec)))"
proof -
  let ?n = "max n (nat (ct_MaxInflight rec))"
  let ?Q = "\<lambda>step r. stepEnds m step r \<and> slotsOut r \<le> ?n"
  define P where "P s r \<longleftrightarrow> guard m False r \<and> slotsOut r \<le> n \<and> lr_Unreported (rn_State r) = lr_Unreported s" for s :: leader_state and r
  have P_calm: "runs (P s) (State_Monad.bind f g) Q" if f: "calmly f" and g: "\<And>x. runs (P s) (g x) Q" for s f g Q
  proof (rule runs_bind)
    have "P s r'" if "calm r r'" "P s r" for r r'
      using that calm_guard[OF that(1)] by (auto simp: P_def calm_def books_def candidatesOut_def)
    then show "runs (P s) f (\<lambda>_. P s)" using f by (auto simp: runs_def dest: state_io_relD)
  qed (rule g)
  have after: "runs (\<lambda>r. guard m False r \<and> slotsOut r \<le> ?n) f ?Q" if "runs (guard m False) f (stepEnds m)" "state_io_rel shrinks f" for f
    using runs_conj[OF that(1) runs_slots[OF that(2)]] .
  have tail: "runs (\<lambda>r. guard m False r \<and> slotsOut r \<le> ?n)
      (do { s' \<leftarrow> theState; if \<not> lr_Holding s' then do { _ \<leftarrow> waitForWake rv rc d False; State_Monad.return stepLoop } else waitOrExit rv rc wait }) ?Q" for d
    by (intro after runs_seq[OF calm_theState[THEN guarded_calm]] runs_cases runs_again waitOrExit_runs shrinking_steps waiting_shrinks)
  have decided: "runs (P s) (do { handOff rv rc (Select input); s' \<leftarrow> theState;
      if \<not> lr_Holding s' then do { _ \<leftarrow> waitForWake rv rc d False; State_Monad.return stepLoop } else waitOrExit rv rc wait }) ?Q"
    if input: "si_InFlight input = buildInflightView rc s inflight" "si_ControllerID input = rc_ControllerID rc" "si_MaxInflight input = ct_MaxInflight rec"
    for s input d
  proof (rule runs_bind[OF _ tail])
    show "runs (P s) (handOff rv rc (Select input)) (\<lambda>_ r. guard m False r \<and> slotsOut r \<le> ?n)"
    proof (rule runs_weaken[OF handOff_runs[of m False ?n "Select input"]])
      fix r assume P: "P s r"
      then have "si_InFlight input = buildInflightView rc (rn_State r) inflight" by (simp add: input(1) P_def buildInflightView_def)
      then have "room (max (slotsOut r) (nat (si_MaxInflight input))) (map dn_Candidate (Select input)) r"
        using P input(2) selected_room[of m r input rc inflight] by (simp add: P_def guard_def)
      then show "guard m False r \<and> room ?n (map dn_Candidate (Select input)) r" using P input(3) by (auto simp: P_def room_def)
    qed (simp add: room_empty)
  qed
  have start: "runs (\<lambda>r. (guard m False r \<and> slotsOut r \<le> n) \<and> rn_State r = s) f Q" if "runs (P s) f Q" for s f Q
    by (rule runs_weaken[OF that]) (auto simp: P_def)
  show ?thesis
    unfolding dispatchDecisions_def Let_def
    by (rule runs_read, rule start) (intro P_calm calm_clock calm_publish decided; simp)
qed


section \<open>The loop\<close>

lemma dispatchPass_runs: "runs (guard m False) (dispatchPass rv rc rec wait) (stepEnds m)"
proof -
  have decided: "runs (guard m False) (dispatchDecisions rv rc rec wait cs inflight) (stepEnds m)" for cs inflight
  proof -
    have "case run_state (dispatchDecisions rv rc rec wait cs inflight) r of (x, r') \<Rightarrow> stepEnds m x r'" if "guard m False r" for r
      using dispatchDecisions_runs[of m "slotsOut r" rv rc rec wait cs inflight] that by (auto simp: runs_def)
    then show ?thesis by (simp add: runs_def)
  qed
  show ?thesis
    unfolding dispatchPass_def
    by (intro runs_seq[OF calm_tick[THEN guarded_calm]] runs_cases runs_seq[OF calm_outcome(1)[THEN guarded_calm]] waitAndKeep_runs decided)
qed

lemma turn_runs: "runs (guard (rc_MaxPollWorkers rc) False) (turn rv rc) (endsClean (rc_MaxPollWorkers rc))"
proof -
  let ?m = "rc_MaxPollWorkers rc"
  have carry: "runs (stepEnds ?m step) (if step \<noteq> stepNext then State_Monad.return (step = stepExit) else f) (endsClean ?m)"
    if "runs (guard ?m False) f (endsClean ?m)" for step f
    using that by (auto intro!: runs_return runs_weaken[OF that] simp: endsClean_def)
  have last: "runs (guard ?m False) (State_Monad.bind f (\<lambda>step. State_Monad.return (step = stepExit))) (endsClean ?m)"
    if "runs (guard ?m False) f (stepEnds ?m)" for f
    by (rule runs_bind[OF that]) (rule runs_return)
  have stop: "runs (guard ?m False) (do { release rv rc; drainWorkers rv rc; State_Monad.return True }) (endsClean ?m)"
    by (intro runs_release runs_drain)
  have work: "runs (guard ?m False) (do { s \<leftarrow> theState;
      step \<leftarrow> (if lr_BlockedSource s \<noteq> '''' then blockedPass rv rc wait else dispatchPass rv rc rec wait);
      State_Monad.return (step = stepExit) }) (endsClean ?m)" for rec wait
    by (intro runs_seq[OF calm_theState[THEN guarded_calm]] last runs_if blockedPass_runs dispatchPass_runs)
  have prepared: "runs (guard ?m False) (do { (wait, step) \<leftarrow> preparePass rv rc rec due;
      if step \<noteq> stepNext then State_Monad.return (step = stepExit)
      else do { s \<leftarrow> theState;
                step \<leftarrow> (if lr_BlockedSource s \<noteq> '''' then blockedPass rv rc wait else dispatchPass rv rc rec wait);
                State_Monad.return (step = stepExit) } }) (endsClean ?m)" for rec due
    by (rule runs_bind[OF preparePass_runs]) (auto intro: carry[OF work])
  show ?thesis
    unfolding turn_def
    by (intro runs_seq[OF calm_tick[THEN guarded_calm]] runs_if stop runs_bind[OF acquire_runs] carry)
       (rule runs_bind[OF renew_runs], auto intro: carry[OF prepared])
qed

definition quiet :: "nat \<Rightarrow> bool \<Rightarrow> runner \<Rightarrow> bool" where
  "quiet m ended r \<longleftrightarrow> endsClean m ended r \<and> (ended \<longrightarrow> \<not> rt_Leading (rn_Status r))"

lemma runnerLoop_runs: "runs (guard (rc_MaxPollWorkers rc) False) (runnerLoop rv rc k) (quiet (rc_MaxPollWorkers rc))"
proof (induction k)
  case 0
  show ?case by (simp add: runs_return quiet_def endsClean_def)
next
  case (Suc k)
  let ?m = "rc_MaxPollWorkers rc"
  have "runs (endsClean ?m ended) (if ended then do { clearLeadStatus; State_Monad.return True } else runnerLoop rv rc k) (quiet ?m)" for ended
  proof (cases ended)
    case True
    then show ?thesis
      by (auto simp: runs_def clearLeadStatus_def publish_def quiet_def endsClean_def guard_def accounted_def candidatesOut_def drained_def)
  next
    case False
    then show ?thesis using runs_weaken[OF Suc.IH, of "endsClean ?m False"] by (simp add: endsClean_def)
  qed
  then show ?case unfolding runnerLoop.simps by (rule runs_bind[OF turn_runs])
qed

lemma newRunner_guard: "guard m False (newRunner st)"
  by (simp add: guard_def accounted_def newRunner_def newLeaderState_def candidatesOut_def slotKeys_def)

definition runnerAfter :: "runner_env \<Rightarrow> runner_config \<Rightarrow> controller_store \<Rightarrow> nat \<Rightarrow> runner" where
  "runnerAfter rv rc st k = snd (run_state (runnerLoop rv rc k) (newRunner st))"

lemma runnerAfter_guard: "guard (rc_MaxPollWorkers rc) False (runnerAfter rv rc st k)"
  using runnerLoop_runs[of rc rv k] newRunner_guard[of "rc_MaxPollWorkers rc" st]
  by (auto simp: runs_def runnerAfter_def quiet_def endsClean_def case_prod_beta)

text \<open>A loop that ended stays ended with more turns; a loop that is canceled ends in the next turn.\<close>

lemma runnerLoop_ends:
  "rv_Canceled rv (rn_Tick (snd (run_state (runnerLoop rv rc k) r))) \<or> fst (run_state (runnerLoop rv rc k) r) \<Longrightarrow>
   fst (run_state (runnerLoop rv rc (Suc k)) r)"
proof (induction k arbitrary: r)
  case 0
  then show ?case by (simp add: turn_def tick_def case_prod_beta)
next
  case (Suc k)
  obtain ended r1 where turn: "run_state (turn rv rc) r = (ended, r1)" by fastforce
  show ?case
  proof (cases ended)
    case True
    then show ?thesis using turn by (simp add: case_prod_beta)
  next
    case False
    then have "run_state (runnerLoop rv rc (Suc n)) r = run_state (runnerLoop rv rc n) r1" for n using turn by simp
    then show ?thesis using Suc.IH[of r1] Suc.prems by (simp only:)
  qed
qed



text \<open>
  C34: the loop ends clean. When it is canceled before a turn, that turn ends it; and whenever it ended (canceled,
  disabled, removed, or stopped by a hole in the history), every worker has delivered, the lease is not held
  and the published status does not lead.
\<close>

theorem runner_stops_clean:
  assumes "rv_Canceled rv (rn_Tick (runnerAfter rv rc st k)) \<or> fst (run_state (runnerLoop rv rc k) (newRunner st))"
  shows "fst (run_state (runnerLoop rv rc (Suc k)) (newRunner st)) \<and>
    rn_Workers (runnerAfter rv rc st (Suc k)) = [] \<and> rn_PollWorkers (runnerAfter rv rc st (Suc k)) = [] \<and>
    \<not> lr_Holding (rn_State (runnerAfter rv rc st (Suc k))) \<and> \<not> rt_Leading (rn_Status (runnerAfter rv rc st (Suc k)))"
proof -
  have "fst (run_state (runnerLoop rv rc (Suc k)) (newRunner st))"
    using assms runnerLoop_ends[of rv rc k "newRunner st"] by (auto simp: runnerAfter_def)
  then show ?thesis
    using runnerLoop_runs[of rc rv "Suc k"] newRunner_guard[of "rc_MaxPollWorkers rc" st]
    by (auto simp: runs_def runnerAfter_def quiet_def endsClean_def drained_def case_prod_beta simp del: runnerLoop.simps)
qed

text \<open>
  C35: the slots of a pass. Whatever the host offers, and although other results arrive in the middle of the pass, the
  workers that take a slot are at most as many as before the pass or as the controller admits.
\<close>

theorem pass_respects_capacity:
  assumes "accounted m r"
  shows "slotsOut (snd (run_state (dispatchDecisions rv rc rec wait cs inflight) r)) \<le> max (slotsOut r) (nat (ct_MaxInflight rec))"
proof -
  have "guard m False r" using assms by (simp add: guard_def)
  then show ?thesis
    using dispatchDecisions_runs[of m "slotsOut r" rv rc rec wait cs inflight] by (auto simp: runs_def case_prod_beta)
qed


section \<open>Examples\<close>

text \<open>A host with two candidates; the clock counts the moments, the context is canceled from moment 3 on.\<close>

definition demoRunnerEnv :: runner_env where
  "demoRunnerEnv =
     \<lparr>rv_Ctl = \<lparr>cn_Encode = (\<lambda>_. ''{}''), cn_Decode = (\<lambda>_. None), cn_CompactBytes = 100\<rparr>, rv_Sha = id, rv_Now = int,
      rv_LeaseID = (\<lambda>_. ''lease''), rv_Canceled = (\<lambda>n. n \<ge> 3), rv_Others = (\<lambda>_ st. st),
      rv_Candidates = (\<lambda>_. Inr [demoCandidate ''a1'' 1, demoCandidate ''a2'' 2]), rv_InFlight = (\<lambda>_. Inr []), rv_Refresh = (\<lambda>_. Inr ()),
      rv_ParkedGates = (\<lambda>_. Inr []),
      rv_Dispatch = (\<lambda>_ _ _. Inr \<lparr>dr_Kind = ResultDispatched, dr_Source = '''', dr_Detail = '''', dr_PollSeeds = []\<rparr>),
      rv_Poll = (\<lambda>_ _. (\<lparr>ar_Result = AdapterResultPending, ar_RetryAfterMS = None\<rparr>, PollFailureNone, None)),
      rv_Apply = (\<lambda>_ _ _ _. Inr PollApplied), rv_Jitter = (\<lambda>_ d. d), rv_Wake = (\<lambda>_. WokenTimer), rv_Delivered = (\<lambda>_. None)\<rparr>"

definition demoRunnerConfig :: runner_config where
  "demoRunnerConfig = runnerDefaults
     \<lparr>rc_ControllerID = ''ctl'', rc_OwnerID = ''host'', rc_RenewInterval = 0, rc_AntiEntropy = 0, rc_Poll = True, rc_PollBase = 0,
      rc_MaxPollWorkers = 0\<rparr>"

definition noControllers :: controller_store where
  "noControllers = \<lparr>cs_Dirs = [], cs_Subscribers = []\<rparr>"

text \<open>The controller is missing: the loop fails to acquire the lease, waits, and is canceled at moment 3.\<close>

theorem runner_stops_clean_witness:
  "fst (run_state (runnerLoop demoRunnerEnv demoRunnerConfig (Suc 1)) (newRunner noControllers)) \<and>
   rt_LastOutcome (rn_Status (runnerAfter demoRunnerEnv demoRunnerConfig noControllers (Suc 1))) = ''acquire_error'' \<and>
   rn_Workers (runnerAfter demoRunnerEnv demoRunnerConfig noControllers (Suc 1)) = []"
proof -
  have "rv_Canceled demoRunnerEnv (rn_Tick (runnerAfter demoRunnerEnv demoRunnerConfig noControllers 1))" by code_simp
  moreover have "rt_LastOutcome (rn_Status (runnerAfter demoRunnerEnv demoRunnerConfig noControllers (Suc 1))) = ''acquire_error''"
    by code_simp
  ultimately show ?thesis using runner_stops_clean[of demoRunnerEnv demoRunnerConfig noControllers 1] by blast
qed

definition demoRecord :: controller_record where
  "demoRecord = zeroController\<lparr>ct_SchemaVersion := SchemaVersion, ct_ControllerID := ''ctl'', ct_DesiredState := DesiredEnabled,
     ct_MaxInflight := 1, ct_Revision := 2, ct_OwnerEpoch := 1,
     ct_Leader := Some \<lparr>ll_LeaseID = ''lease'', ll_OwnerID = ''host'', ll_OwnerEpoch = 1, ll_AcquiredAt = 0, ll_RenewedAt = 0,
       ll_ExpiresAt = 99\<rparr>\<rparr>"

definition demoLeading :: runner where
  "demoLeading =
     (newRunner \<lparr>cs_Dirs = [(''ctl'', \<lparr>cf_Snapshot = Some demoRecord, cf_Prev = '''', cf_Log = ''''\<rparr>)], cs_Subscribers = []\<rparr>)
       \<lparr>rn_State := newLeaderState\<lparr>lr_LeaseID := ''lease'', lr_OwnerEpoch := 1, lr_Holding := True\<rparr>\<rparr>"

text \<open>One slot: of the two candidates one is handed to a worker.\<close>

theorem pass_respects_capacity_witness:
  "slotsOut (snd (run_state (dispatchDecisions (demoRunnerEnv\<lparr>rv_Canceled := \<lambda>_. False\<rparr>) demoRunnerConfig demoRecord 5
       [demoCandidate ''a1'' 1, demoCandidate ''a2'' 2] []) demoLeading)) = 1"
proof -
  let ?rv = "demoRunnerEnv\<lparr>rv_Canceled := \<lambda>_. False\<rparr>"
  let ?cs = "[demoCandidate ''a1'' 1, demoCandidate ''a2'' 2]"
  have "accounted 4 demoLeading"
    by (simp add: demoLeading_def newRunner_def newLeaderState_def accounted_def candidatesOut_def slotKeys_def)
  from pass_respects_capacity[OF this, of ?rv demoRunnerConfig demoRecord 5 ?cs "[]"]
  have "slotsOut (snd (run_state (dispatchDecisions ?rv demoRunnerConfig demoRecord 5 ?cs []) demoLeading)) \<le> 1"
    by (simp add: demoLeading_def newRunner_def candidatesOut_def demoRecord_def)
  moreover have "0 < slotsOut (snd (run_state (dispatchDecisions ?rv demoRunnerConfig demoRecord 5 ?cs []) demoLeading))" by code_simp
  ultimately show ?thesis by linarith
qed

end
